(* ===== verification/Go_Prelude.thy ===== *)
theory Go_Prelude
  imports Main "HOL-Library.Char_ord" "HOL-Library.AList"
begin

text \<open>
  Shared vocabulary of the development: the parts of the Go language and of its standard
  library that the modelled packages use.

  \<^item> a Go \<open>string\<close> is a byte sequence, here \<^typ>\<open>string\<close> (a list of 8-bit characters);
  \<^item> \<open>int\<close> and \<open>int64\<close> are 64-bit two's complement on the platforms the program is built
    for; they are \<^typ>\<open>int\<close> with the wrap-around \<open>wrap64\<close> written at each operation that
    can leave the range;
  \<^item> a Go \<open>map\<close> is a partial function when only lookup and update matter, and an
    association list updated by \<^const>\<open>AList.update\<close> when the code counts or iterates;
    the order in which \<open>range\<close> enumerates a map is unspecified in Go, so it is an
    argument wherever a result depends on it;
  \<^item> a function returning \<open>error\<close> returns an option (\<^const>\<open>None\<close> is \<open>nil\<close>), one returning
    \<open>(T, error)\<close> returns a sum (\<^const>\<open>Inl\<close> is the error).
\<close>

section \<open>Collections of facts\<close>

named_theorems go_defs \<open>definitions of small Go library functions\<close>
named_theorems const_defs \<open>definitions of named Go constants\<close>

type_synonym time = int
type_synonym go_strmap = "string \<rightharpoonup> string"

section \<open>Errors as values\<close>

definition bind_err :: "'e + 'a \<Rightarrow> ('a \<Rightarrow> 'e + 'b) \<Rightarrow> 'e + 'b" where
  "bind_err r f = (case r of Inl e \<Rightarrow> Inl e | Inr x \<Rightarrow> f x)"

text \<open>\<open>if err := check(); err != nil { return err }\<close> followed by the rest.\<close>

definition guard_err :: "'e option \<Rightarrow> 'e + 'b \<Rightarrow> 'e + 'b" where
  "guard_err c r = (case c of Some e \<Rightarrow> Inl e | None \<Rightarrow> r)"

lemma bind_err_simps [simp]:
  "bind_err (Inl e) f = Inl e"
  "bind_err (Inr x) f = f x"
  by (simp_all add: bind_err_def)

lemma guard_err_simps [simp]:
  "guard_err None r = r"
  "guard_err (Some e) r = Inl e"
  by (simp_all add: guard_err_def)

lemma bind_err_Inr: "bind_err r f = Inr y \<longleftrightarrow> (\<exists>x. r = Inr x \<and> f x = Inr y)"
  by (cases r) auto

lemma guard_err_Inr: "guard_err c r = Inr y \<longleftrightarrow> c = None \<and> r = Inr y"
  by (cases c) auto

lemma guard_err_Inl: "guard_err c r = Inl e \<longleftrightarrow> c = Some e \<or> (c = None \<and> r = Inl e)"
  by (cases c) auto

lemmas err_iffs = bind_err_Inr guard_err_Inr

section \<open>64-bit integers\<close>

definition wrap64 :: "int \<Rightarrow> int" where
  "wrap64 x = (x + 2 ^ 63) mod 2 ^ 64 - 2 ^ 63"

definition in_int64 :: "int \<Rightarrow> bool" where
  "in_int64 x \<longleftrightarrow> - (2 ^ 63) \<le> x \<and> x < 2 ^ 63"

lemma in_int64_wrap64 [simp]: "in_int64 (wrap64 x)"
  unfolding in_int64_def wrap64_def
  using pos_mod_bound [of "2 ^ 64 :: int" "x + 2 ^ 63"]
    pos_mod_sign [of "2 ^ 64 :: int" "x + 2 ^ 63"]
  by (simp add: algebra_simps)

lemma wrap64_id: "in_int64 x \<Longrightarrow> wrap64 x = x"
  unfolding in_int64_def wrap64_def by (subst mod_pos_pos_trivial) auto

lemma wrap64_idem [simp]: "wrap64 (wrap64 x) = wrap64 x"
  by (simp add: wrap64_id)

lemma in_int64_le: "in_int64 y \<Longrightarrow> 0 \<le> x \<Longrightarrow> x \<le> y \<Longrightarrow> in_int64 x"
  by (auto simp: in_int64_def)

text \<open>Go's integer division truncates towards zero.\<close>

definition quot64 :: "int \<Rightarrow> int \<Rightarrow> int" where
  "quot64 a b = sgn a * sgn b * (\<bar>a\<bar> div \<bar>b\<bar>)"

lemma quot64_nonneg: "0 \<le> a \<Longrightarrow> 0 < b \<Longrightarrow> quot64 a b = a div b"
  by (cases "a = 0") (auto simp: quot64_def)

section \<open>Strings\<close>

definition HasPrefix :: "string \<Rightarrow> string \<Rightarrow> bool" where
  [go_defs]: "HasPrefix s p \<longleftrightarrow> take (length p) s = p"

definition HasSuffix :: "string \<Rightarrow> string \<Rightarrow> bool" where
  [go_defs]: "HasSuffix s p \<longleftrightarrow> length p \<le> length s \<and> drop (length s - length p) s = p"

definition TrimSuffix :: "string \<Rightarrow> string \<Rightarrow> string" where
  [go_defs]: "TrimSuffix s p = (if HasSuffix s p then take (length s - length p) s else s)"

definition TrimPrefix :: "string \<Rightarrow> string \<Rightarrow> string" where
  [go_defs]: "TrimPrefix s p = (if HasPrefix s p then drop (length p) s else s)"

lemma HasPrefix_append [simp]: "HasPrefix (p @ s) p"
  by (simp add: HasPrefix_def)

lemma HasPrefix_iff: "HasPrefix s p \<longleftrightarrow> (\<exists>r. s = p @ r)"
  by (metis HasPrefix_append HasPrefix_def append_take_drop_id)

lemma HasSuffix_append [simp]: "HasSuffix (s @ p) p"
  by (simp add: HasSuffix_def)

lemma HasSuffix_iff: "HasSuffix s p \<longleftrightarrow> (\<exists>r. s = r @ p)"
  by (metis HasSuffix_append HasSuffix_def append_take_drop_id)

lemma TrimSuffix_append [simp]: "TrimSuffix (s @ p) p = s"
  by (simp add: TrimSuffix_def)

text \<open>\<open>strings.LastIndex(s, c)\<close> for a one-byte separator: \<^const>\<open>None\<close> is \<open>-1\<close>.\<close>

fun LastIndexByte :: "string \<Rightarrow> char \<Rightarrow> nat option" where
  "LastIndexByte [] c = None"
| "LastIndexByte (x # xs) c =
     (case LastIndexByte xs c of Some i \<Rightarrow> Some (Suc i)
      | None \<Rightarrow> if x = c then Some 0 else None)"

lemma LastIndexByte_None: "LastIndexByte s c = None \<longleftrightarrow> c \<notin> set s"
  by (induction s) (auto split: option.splits)

lemma LastIndexByte_append:
  "c \<notin> set t \<Longrightarrow> LastIndexByte (s @ c # t) c = Some (length s)"
  by (induction s) (simp_all add: LastIndexByte_None [THEN iffD2])

text \<open>\<open>strings.Split(s, sep)\<close> for a one-byte separator.\<close>

fun SplitByte :: "char \<Rightarrow> string \<Rightarrow> string list" where
  "SplitByte c [] = [[]]"
| "SplitByte c (x # xs) =
     (if x = c then [] # SplitByte c xs
      else case SplitByte c xs of [] \<Rightarrow> [[x]] | y # ys \<Rightarrow> (x # y) # ys)"

lemma SplitByte_not_Nil [simp]: "SplitByte c s \<noteq> []"
  by (induction s) (auto split: list.splits)

lemma SplitByte_no_sep: "c \<notin> set s \<Longrightarrow> SplitByte c s = [s]"
  by (induction s) auto

lemma SplitByte_sep: "c \<notin> set s \<Longrightarrow> SplitByte c (s @ c # t) = s # SplitByte c t"
  by (induction s) auto

subsection \<open>Character classes\<close>

definition is_lower :: "char \<Rightarrow> bool" where
  [go_defs]: "is_lower c \<longleftrightarrow> CHR ''a'' \<le> c \<and> c \<le> CHR ''z''"

definition is_upper :: "char \<Rightarrow> bool" where
  [go_defs]: "is_upper c \<longleftrightarrow> CHR ''A'' \<le> c \<and> c \<le> CHR ''Z''"

definition is_digit :: "char \<Rightarrow> bool" where
  [go_defs]: "is_digit c \<longleftrightarrow> CHR ''0'' \<le> c \<and> c \<le> CHR ''9''"

definition is_alnum :: "char \<Rightarrow> bool" where
  [go_defs]: "is_alnum c \<longleftrightarrow> is_lower c \<or> is_upper c \<or> is_digit c"

definition is_ascii :: "char \<Rightarrow> bool" where
  [go_defs]: "is_ascii c \<longleftrightarrow> (of_char c :: nat) < 128"

text \<open>\<open>r + 32\<close> on a rune between \<open>A\<close> and \<open>Z\<close>.\<close>

definition lower_char :: "char \<Rightarrow> char" where
  [go_defs]: "lower_char c = (if is_upper c then char_of ((of_char c :: nat) + 32) else c)"

lemma char_bounds:
  "(of_char CHR ''a'' :: nat) = 97" "(of_char CHR ''z'' :: nat) = 122"
  "(of_char CHR ''A'' :: nat) = 65" "(of_char CHR ''Z'' :: nat) = 90"
  "(of_char CHR ''0'' :: nat) = 48" "(of_char CHR ''9'' :: nat) = 57"
  by simp_all

lemma is_upper_code: "is_upper c \<longleftrightarrow> 65 \<le> (of_char c :: nat) \<and> (of_char c :: nat) \<le> 90"
  by (simp add: is_upper_def less_eq_char_def)

lemma is_lower_code: "is_lower c \<longleftrightarrow> 97 \<le> (of_char c :: nat) \<and> (of_char c :: nat) \<le> 122"
  by (simp add: is_lower_def less_eq_char_def)

lemma is_digit_code: "is_digit c \<longleftrightarrow> 48 \<le> (of_char c :: nat) \<and> (of_char c :: nat) \<le> 57"
  by (simp add: is_digit_def less_eq_char_def)

lemmas char_class_codes = is_upper_code is_lower_code is_digit_code

lemma of_char_lower_char:
  "is_upper c \<Longrightarrow> (of_char (lower_char c) :: nat) = of_char c + 32"
  by (simp add: lower_char_def is_upper_code)

lemma is_lower_lower_char [simp]: "is_upper c \<Longrightarrow> is_lower (lower_char c)"
  by (simp add: is_lower_code of_char_lower_char is_upper_code)

lemma not_is_upper_lower_char [simp]: "\<not> is_upper (lower_char c)"
proof (cases "is_upper c")
  case True
  then show ?thesis by (simp add: is_upper_code [of "lower_char c"] of_char_lower_char is_upper_code)
next
  case False
  then show ?thesis by (simp add: lower_char_def)
qed

lemma lower_char_idem [simp]: "lower_char (lower_char c) = lower_char c"
  by (simp add: lower_char_def [of "lower_char c"])

lemma lower_char_lower [simp]: "is_lower c \<Longrightarrow> lower_char c = c"
  by (simp add: lower_char_def char_class_codes)

subsection \<open>Decimal printing\<close>

fun digits_nat :: "nat \<Rightarrow> string" where
  "digits_nat n =
     (if n < 10 then [char_of (48 + n)] else digits_nat (n div 10) @ [char_of (48 + n mod 10)])"

declare digits_nat.simps [simp del]

text \<open>The verb \<open>%d\<close>.\<close>

definition fmt_d :: "int \<Rightarrow> string" where
  "fmt_d n = (if n < 0 then CHR ''-'' # digits_nat (nat (- n)) else digits_nat (nat n))"

lemma digits_nat_digits: "c \<in> set (digits_nat n) \<Longrightarrow> is_digit c"
proof (induction n rule: digits_nat.induct)
  case (1 n)
  then show ?case
    by (subst (asm) (2) digits_nat.simps) (auto simp: is_digit_code split: if_splits)
qed

lemma digits_nat_not_Nil [simp]: "digits_nat n \<noteq> []"
  by (subst digits_nat.simps) simp

text \<open>Reading the decimal digits back gives the number: printing is injective.\<close>

definition read_digits :: "string \<Rightarrow> nat" where
  "read_digits s = foldl (\<lambda>a c. 10 * a + (of_char c - 48)) 0 s"

lemma read_digits_snoc [simp]: "read_digits (s @ [c]) = 10 * read_digits s + (of_char c - 48)"
  by (simp add: read_digits_def)

lemma read_digits_digits_nat [simp]: "read_digits (digits_nat n) = n"
proof (induction n rule: digits_nat.induct)
  case (1 n)
  show ?case
  proof (cases "n < 10")
    case True
    then show ?thesis by (subst digits_nat.simps) (simp add: read_digits_def)
  next
    case False
    then have "read_digits (digits_nat (n div 10)) = n div 10" by (rule "1.IH")
    with False show ?thesis by (subst digits_nat.simps) simp
  qed
qed

lemma inj_digits_nat: "digits_nat m = digits_nat n \<longleftrightarrow> m = n"
  by (metis read_digits_digits_nat)

subsection \<open>Runes\<close>

text \<open>Go's \<open>string(rune(n))\<close>: the UTF-8 encoding of the code point, U+FFFD for an invalid one.\<close>

definition utf8_rune :: "int \<Rightarrow> string" where
  "utf8_rune n =
     (let r = (if n < 0 \<or> 1114111 < n \<or> (55296 \<le> n \<and> n \<le> 57343) then 65533 else nat n)
      in if r < 128 then [char_of r]
         else if r < 2048 then [char_of (192 + r div 64), char_of (128 + r mod 64)]
         else if r < 65536 then
           [char_of (224 + r div 4096), char_of (128 + (r div 64) mod 64), char_of (128 + r mod 64)]
         else [char_of (240 + r div 262144), char_of (128 + (r div 4096) mod 64),
               char_of (128 + (r div 64) mod 64), char_of (128 + r mod 64)])"

section \<open>Numbers from strings\<close>

datatype num_err = NumSyntax | NumRange

text \<open>
  \<open>strconv.ParseUint(s, 10, bits)\<close>: the digit check of a byte precedes its range check, an
  error of the range kind carries the largest value, one of the syntax kind carries 0.
\<close>

fun parse_uint_loop :: "int \<Rightarrow> int \<Rightarrow> string \<Rightarrow> int \<times> num_err option" where
  "parse_uint_loop mx n [] = (n, None)"
| "parse_uint_loop mx n (c # cs) =
     (if \<not> is_digit c then (0, Some NumSyntax)
      else let n1 = 10 * n + (of_char c - 48)
           in if mx < n1 then (mx, Some NumRange) else parse_uint_loop mx n1 cs)"

definition ParseUint :: "string \<Rightarrow> nat \<Rightarrow> int \<times> num_err option" where
  "ParseUint s bits = (if s = [] then (0, Some NumSyntax) else parse_uint_loop (2 ^ bits - 1) 0 s)"

text \<open>\<open>strconv.Atoi(s)\<close>: an optional sign, then decimal digits.\<close>

definition Atoi :: "string \<Rightarrow> int \<times> num_err option" where
  "Atoi s =
     (let neg = (s \<noteq> [] \<and> hd s = CHR ''-'');
          ds = (if s \<noteq> [] \<and> (hd s = CHR ''-'' \<or> hd s = CHR ''+'') then tl s else s);
          (un, err) = ParseUint ds 64
      in if err = Some NumSyntax then (0, Some NumSyntax)
         else if \<not> neg \<and> 2 ^ 63 \<le> un then (2 ^ 63 - 1, Some NumRange)
         else if neg \<and> 2 ^ 63 < un then (- (2 ^ 63), Some NumRange)
         else (if neg then - un else un, err))"

lemma parse_uint_loop_digits:
  "list_all is_digit s \<Longrightarrow> snd (parse_uint_loop mx n s) \<noteq> Some NumSyntax"
  by (induction s arbitrary: n) (auto simp: Let_def)

lemma digit_value: "is_digit c \<Longrightarrow> (0::int) \<le> of_char c - 48 \<and> (of_char c - 48 :: int) \<le> 9"
proof -
  assume "is_digit c"
  then have "48 \<le> (of_char c :: nat)" "(of_char c :: nat) \<le> 57" by (auto simp: is_digit_code)
  moreover have "(of_char c :: int) = int (of_char c)" by (simp add: of_nat_of_char)
  ultimately show ?thesis by linarith
qed

lemma parse_uint_loop_bounds:
  "0 \<le> n \<Longrightarrow> n \<le> mx \<Longrightarrow>
     0 \<le> fst (parse_uint_loop mx n s) \<and> fst (parse_uint_loop mx n s) \<le> mx"
proof (induction s arbitrary: n)
  case Nil
  then show ?case by simp
next
  case (Cons c s)
  let ?n = "10 * n + (of_char c - 48)"
  show ?case
  proof (cases "is_digit c \<and> ?n \<le> mx")
    case True
    with digit_value [of c] Cons.prems have "0 \<le> ?n" by linarith
    with True Cons.IH [of ?n] show ?thesis by (simp add: Let_def)
  next
    case False
    with Cons.prems show ?thesis by (auto simp: Let_def)
  qed
qed

lemma ParseUint_bounds: "0 \<le> fst (ParseUint s b) \<and> fst (ParseUint s b) \<le> 2 ^ b - 1"
  using parse_uint_loop_bounds [of 0 "2 ^ b - 1" s] by (auto simp: ParseUint_def)

lemma in_int64_Atoi: "in_int64 (fst (Atoi s))"
proof -
  let ?ds = "if s \<noteq> [] \<and> (hd s = CHR ''-'' \<or> hd s = CHR ''+'') then tl s else s"
  obtain un err where p: "ParseUint ?ds 64 = (un, err)" by fastforce
  have "0 \<le> un" using ParseUint_bounds [of ?ds 64] unfolding p by simp
  then show ?thesis unfolding Atoi_def Let_def p in_int64_def by simp
qed

section \<open>Association lists as Go maps\<close>

text \<open>Go's \<open>m[k]\<close> on a map to \<open>int\<close>: the zero value when the key is absent.\<close>

definition lookup0 :: "('k \<times> int) list \<Rightarrow> 'k \<Rightarrow> int" where
  "lookup0 m k = (case map_of m k of Some v \<Rightarrow> v | None \<Rightarrow> 0)"

definition lookup_nil :: "('k \<times> 'v list) list \<Rightarrow> 'k \<Rightarrow> 'v list" where
  "lookup_nil m k = (case map_of m k of Some v \<Rightarrow> v | None \<Rightarrow> [])"

lemma lookup0_update: "lookup0 (AList.update k v m) k' = (if k' = k then v else lookup0 m k')"
  by (simp add: lookup0_def AList.update_conv')

lemma lookup_nil_update:
  "lookup_nil (AList.update k v m) k' = (if k' = k then v else lookup_nil m k')"
  by (simp add: lookup_nil_def AList.update_conv')

text \<open>The number of positive entries; the termination measure of work-list loops.\<close>

definition count_pos :: "('k \<times> int) list \<Rightarrow> nat" where
  "count_pos m = length (filter (\<lambda>kv. 0 < snd kv) m)"

lemma count_pos_dec:
  "count_pos (AList.update k (lookup0 m k - 1) m) \<le> count_pos m"
  by (induction m) (auto simp: count_pos_def lookup0_def)

lemma count_pos_dec_zero:
  "lookup0 m k = 1 \<Longrightarrow> Suc (count_pos (AList.update k 0 m)) = count_pos m"
  by (induction m) (auto simp: count_pos_def lookup0_def split: if_splits)

section \<open>Lists and options\<close>

lemma hd_append_nonempty: "xs = ys @ zs \<Longrightarrow> ys \<noteq> [] \<Longrightarrow> hd xs = hd ys"
  by simp

text \<open>A match that needs the next piece to match.\<close>

definition opt_then :: "'a option \<Rightarrow> ('a \<Rightarrow> bool) \<Rightarrow> bool" where
  "opt_then x f = (case x of None \<Rightarrow> False | Some y \<Rightarrow> f y)"

lemma opt_then_iff: "opt_then x f \<longleftrightarrow> (\<exists>y. x = Some y \<and> f y)"
  by (simp add: opt_then_def split: option.splits)

lemma distinct_map_fst_index:
  "distinct (map f xs) \<Longrightarrow> x \<in> set xs \<Longrightarrow> y \<in> set xs \<Longrightarrow> f x = f y \<Longrightarrow> x = y"
  by (metis inj_onD distinct_map)

lemma map_of_distinct_self:
  assumes "distinct (map f xs)" and "x \<in> set xs"
  shows "map_of (map (\<lambda>y. (f y, g y)) xs) (f x) = Some (g x)"
proof -
  have "distinct (map fst (map (\<lambda>y. (f y, g y)) xs))"
    using assms(1) by (simp add: comp_def)
  moreover have "(f x, g x) \<in> set (map (\<lambda>y. (f y, g y)) xs)"
    using assms(2) by auto
  ultimately show ?thesis by (rule map_of_is_SomeI)
qed

end
