(* ===== verification/Go_Float.thy ===== *)
theory Go_Float
  imports Complex_Main Go_Prelude "HOL-Library.Log_Nat"
begin

text \<open>
  Go's \<open>float64\<close>: IEEE 754 binary64 with round-to-nearest-even. A finite value is the
  rational it denotes, so every operation is the exact rational operation followed by
  \<open>rnd\<close>, which keeps 53 significant bits and the exponent range of binary64; results past
  the largest finite double become infinities. The two zeros are not told apart: the
  modelled code never divides by a zero and never prints one. Multiplications and additions
  are rounded separately (amd64; the language lets other architectures fuse them).

  The lemmas show that rounding is monotone and exact on the integers up to \<open>2^53\<close>, which is
  what the bounds on scores and percentages rest on.
\<close>

section \<open>Rounding\<close>

definition pow2 :: "int \<Rightarrow> rat" where
  "pow2 e = (if 0 \<le> e then 2 ^ nat e else 1 / 2 ^ nat (- e))"

text \<open>The binary exponent of a positive rational: \<open>2^k \<le> x < 2^(k+1)\<close>.\<close>

definition ilog2 :: "rat \<Rightarrow> int" where
  "ilog2 x = (let (p, q) = quotient_of x; k = bitlen p - bitlen q
              in if pow2 k \<le> x then k else k - 1)"

text \<open>Round half to even.\<close>

definition rhe :: "rat \<Rightarrow> int" where
  "rhe x = (let f = \<lfloor>x\<rfloor>; d = x - of_int f
            in if d < 1 / 2 then f else if 1 / 2 < d then f + 1
               else if even f then f else f + 1)"

definition ulp_exp :: "rat \<Rightarrow> int" where
  "ulp_exp x = max (ilog2 x - 52) (- 1074)"

definition rnd_pos :: "rat \<Rightarrow> rat" where
  "rnd_pos x = of_int (rhe (x / pow2 (ulp_exp x))) * pow2 (ulp_exp x)"

definition rnd :: "rat \<Rightarrow> rat" where
  "rnd x = (if x = 0 then 0 else if 0 < x then rnd_pos x else - rnd_pos (- x))"

subsection \<open>Powers of two and the exponent\<close>

lemma pow2_powi: "pow2 e = 2 powi e"
  by (simp add: pow2_def power_int_def inverse_eq_divide power_one_over)

lemma pow2_pos [simp]: "0 < pow2 e"
  by (simp add: pow2_powi)

lemma pow2_nonneg [simp]: "0 \<le> pow2 e"
  by (simp add: less_imp_le)

lemma pow2_neq0 [simp]: "pow2 e \<noteq> 0"
  by (simp add: pow2_powi)

lemma pow2_add: "pow2 (a + b) = pow2 a * pow2 b"
  by (simp add: pow2_powi power_int_add)

lemma pow2_diff: "pow2 (a - b) = pow2 a / pow2 b"
  by (simp add: pow2_powi power_int_diff)

lemma pow2_mono: "a \<le> b \<Longrightarrow> pow2 a \<le> pow2 b"
  by (simp add: pow2_powi power_int_increasing)

lemma pow2_nat: "0 \<le> e \<Longrightarrow> pow2 e = 2 ^ nat e"
  by (simp add: pow2_def)

lemma bitlen_pow2_bounds:
  assumes "0 < p"
  shows "pow2 (bitlen p - 1) \<le> of_int p" and "of_int p < pow2 (bitlen p)"
proof -
  have b: "2 ^ nat (bitlen p - 1) \<le> p \<and> p < 2 ^ nat (bitlen p)"
    using assms by (rule bitlen_bounds)
  have "0 < bitlen p" using bitlen_eq_zero_iff [of p] bitlen_nonneg [of p] assms by linarith
  with b have "of_int (2 ^ nat (bitlen p - 1)) \<le> (of_int p :: rat)"
    and "(of_int p :: rat) < of_int (2 ^ nat (bitlen p))"
    by (simp_all only: of_int_le_iff of_int_less_iff)
  with \<open>0 < bitlen p\<close>
  show "pow2 (bitlen p - 1) \<le> of_int p" and "of_int p < pow2 (bitlen p)"
    by (simp_all add: pow2_nat)
qed

lemma ilog2_bounds:
  assumes "0 < x"
  shows "pow2 (ilog2 x) \<le> x \<and> x < pow2 (ilog2 x + 1)"
proof -
  obtain p q where pq: "quotient_of x = (p, q)" by fastforce
  then have q: "0 < q" and x: "x = of_int p / of_int q"
    by (auto dest: quotient_of_denom_pos quotient_of_div)
  from q x assms have p: "0 < p"
    by (simp add: zero_less_divide_iff)
  let ?k = "bitlen p - bitlen q"
  have "pow2 (?k - 1) = pow2 (bitlen p - 1) / pow2 (bitlen q)"
    by (simp add: pow2_diff [symmetric] algebra_simps)
  also have "\<dots> \<le> x"
    using bitlen_pow2_bounds [OF p] bitlen_pow2_bounds [OF q] p q
    unfolding x by (intro frac_le) auto
  finally have lo: "pow2 (?k - 1) \<le> x" .
  have "x < pow2 (bitlen p) / pow2 (bitlen q - 1)"
    using bitlen_pow2_bounds [OF p] bitlen_pow2_bounds [OF q] p q
    unfolding x by (intro frac_less) auto
  also have "\<dots> = pow2 (?k + 1)"
    by (simp add: pow2_diff [symmetric] algebra_simps)
  finally have hi: "x < pow2 (?k + 1)" .
  show ?thesis
    using lo hi by (simp add: ilog2_def pq Let_def)
qed

lemma ilog2_mono: "0 < x \<Longrightarrow> x \<le> y \<Longrightarrow> ilog2 x \<le> ilog2 y"
proof (rule ccontr)
  assume "0 < x" "x \<le> y" "\<not> ilog2 x \<le> ilog2 y"
  then have "pow2 (ilog2 y + 1) \<le> pow2 (ilog2 x)" by (intro pow2_mono) simp
  with ilog2_bounds [of x] ilog2_bounds [of y] \<open>0 < x\<close> \<open>x \<le> y\<close> show False by linarith
qed

subsection \<open>Rounding to an integer\<close>

lemma rhe_of_int [simp]: "rhe (of_int n) = n"
  by (simp add: rhe_def)

lemma rhe_floor: "rhe x = \<lfloor>x\<rfloor> \<or> rhe x = \<lfloor>x\<rfloor> + 1"
  by (simp add: rhe_def Let_def)

lemma rhe_mono:
  assumes "x \<le> y"
  shows "rhe x \<le> rhe y"
proof (cases "\<lfloor>x\<rfloor> = \<lfloor>y\<rfloor>")
  case True
  with assms show ?thesis by (auto simp: rhe_def Let_def)
next
  case False
  with floor_mono [OF assms] have "\<lfloor>x\<rfloor> + 1 \<le> \<lfloor>y\<rfloor>" by simp
  with rhe_floor [of x] rhe_floor [of y] show ?thesis by linarith
qed

lemma rhe_le_int: "x \<le> of_int n \<Longrightarrow> rhe x \<le> n"
  using rhe_mono [of x "of_int n"] by simp

lemma rhe_ge_int: "of_int n \<le> x \<Longrightarrow> n \<le> rhe x"
  using rhe_mono [of "of_int n" x] by simp

subsection \<open>Rounding is monotone\<close>

lemma rnd_pos_nonneg: "0 < x \<Longrightarrow> 0 \<le> rnd_pos x"
  by (auto simp: rnd_pos_def intro!: mult_nonneg_nonneg rhe_ge_int)

lemma rnd_pos_le_next_binade:
  assumes "0 < x" and "ulp_exp x < ulp_exp y" and "0 < y"
  shows "rnd_pos x \<le> rnd_pos y"
proof -
  let ?e = "ulp_exp x" and ?d = "ulp_exp y"
  have d: "?d = ilog2 y - 52" using assms by (auto simp: ulp_exp_def)
  have "x < pow2 (ilog2 x + 1)" using ilog2_bounds [OF assms(1)] by simp
  also have "\<dots> \<le> pow2 (?e + 53)" by (intro pow2_mono) (simp add: ulp_exp_def)
  finally have "x / pow2 ?e \<le> of_int (2 ^ 53)"
    by (simp add: pow2_add field_simps) (simp add: pow2_def)
  then have "rhe (x / pow2 ?e) \<le> 2 ^ 53" by (rule rhe_le_int)
  then have "rnd_pos x \<le> of_int (2 ^ 53) * pow2 ?e"
    unfolding rnd_pos_def by (intro mult_right_mono) (simp_all only: of_int_le_iff, simp)
  also have "\<dots> = pow2 (?e + 53)" by (simp add: pow2_add) (simp add: pow2_def)
  also have "\<dots> \<le> pow2 (?d + 52)" using assms(2) by (intro pow2_mono) simp
  also have "\<dots> = of_int (2 ^ 52) * pow2 ?d" by (simp add: pow2_add) (simp add: pow2_def)
  also have "\<dots> \<le> rnd_pos y"
  proof -
    have "pow2 (?d + 52) \<le> y" using ilog2_bounds [OF assms(3)] d by simp
    then have "of_int (2 ^ 52) \<le> y / pow2 ?d"
      by (simp add: pow2_add field_simps) (simp add: pow2_def)
    then have "2 ^ 52 \<le> rhe (y / pow2 ?d)" by (rule rhe_ge_int)
    then show ?thesis
      unfolding rnd_pos_def by (intro mult_right_mono) (simp_all only: of_int_le_iff, simp)
  qed
  finally show ?thesis .
qed

lemma rnd_pos_mono:
  assumes "0 < x" and "x \<le> y"
  shows "rnd_pos x \<le> rnd_pos y"
proof (cases "ulp_exp x = ulp_exp y")
  case True
  have "rhe (x / pow2 (ulp_exp y)) \<le> rhe (y / pow2 (ulp_exp y))"
    using assms(2) by (intro rhe_mono divide_right_mono) simp_all
  then show ?thesis
    unfolding rnd_pos_def True by (intro mult_right_mono) simp_all
next
  case False
  moreover have "ulp_exp x \<le> ulp_exp y"
    using ilog2_mono [OF assms] by (auto simp: ulp_exp_def)
  ultimately show ?thesis
    using assms by (intro rnd_pos_le_next_binade) simp_all
qed

lemma rnd_0 [simp]: "rnd 0 = 0"
  by (simp add: rnd_def)

lemma rnd_minus: "rnd (- x) = - rnd x"
  by (auto simp: rnd_def)

lemma rnd_nonneg: "0 \<le> x \<Longrightarrow> 0 \<le> rnd x"
  by (auto simp: rnd_def rnd_pos_nonneg)

theorem rnd_mono: "x \<le> y \<Longrightarrow> rnd x \<le> rnd y"
proof -
  assume le: "x \<le> y"
  consider "0 < x" | "x \<le> 0" "0 \<le> y" | "y < 0" by linarith
  then show ?thesis
  proof cases
    case 1
    with le show ?thesis by (simp add: rnd_def rnd_pos_mono)
  next
    case 2
    from 2(1) have "0 \<le> rnd (- x)" by (intro rnd_nonneg) simp
    with rnd_nonneg [OF 2(2)] show ?thesis by (simp add: rnd_minus)
  next
    case 3
    with le have "rnd_pos (- y) \<le> rnd_pos (- x)" by (intro rnd_pos_mono) simp_all
    with 3 le show ?thesis by (simp add: rnd_def)
  qed
qed

subsection \<open>Small integers are exact\<close>

lemma rnd_of_int:
  assumes "\<bar>n\<bar> \<le> 2 ^ 53"
  shows "rnd (of_int n) = of_int n"
proof -
  have pos: "rnd (of_int m) = of_int m" if m: "0 < m" "m \<le> 2 ^ 53" for m :: int
  proof (cases "m = 2 ^ 53")
    case True
    have "rnd (of_int (2 ^ 53)) = of_int (2 ^ 53)" by code_simp
    then show ?thesis using True by simp
  next
    case False
    with m have "(of_int m :: rat) < of_int (2 ^ 53)" by (simp only: of_int_less_iff)
    then have "of_int m < pow2 53" by (simp add: pow2_def)
    then have "\<not> pow2 53 \<le> pow2 (ilog2 (of_int m))"
      using ilog2_bounds [of "of_int m"] m by simp
    then have "ilog2 (of_int m) < 53" using pow2_mono [of 53] by (meson not_le)
    then have le: "ulp_exp (of_int m) \<le> 0" by (simp add: ulp_exp_def)
    then have "of_int m / pow2 (ulp_exp (of_int m)) = of_int (m * 2 ^ nat (- ulp_exp (of_int m)))"
      by (auto simp: pow2_def)
    then have "rnd_pos (of_int m) =
        of_int (m * 2 ^ nat (- ulp_exp (of_int m))) * pow2 (ulp_exp (of_int m))"
      by (simp only: rnd_pos_def rhe_of_int)
    also have "\<dots> = of_int m" using le by (auto simp: pow2_def)
    finally show ?thesis using m by (simp add: rnd_def)
  qed
  consider "n = 0" | "0 < n" | "0 < - n" by linarith
  then show ?thesis
  proof cases
    case 3
    with assms have "rnd (of_int (- n)) = of_int (- n)" by (intro pos) simp_all
    then show ?thesis by (simp add: rnd_minus)
  qed (use assms pos in simp_all)
qed

section \<open>The type and its operations\<close>

datatype float64 = Fin rat | PInf | NInf | NaN

definition max_float64 :: rat where
  "max_float64 = (2 ^ 53 - 1) * 2 ^ 971"

definition of_rat64 :: "rat \<Rightarrow> float64" where
  "of_rat64 x = (let r = rnd x in if max_float64 < r then PInf
                 else if r < - max_float64 then NInf else Fin r)"

text \<open>\<open>float64(n)\<close> of an integer.\<close>

definition float_of_int :: "int \<Rightarrow> float64" where
  "float_of_int n = of_rat64 (of_int n)"

definition inf_of_sign :: "bool \<Rightarrow> float64" where
  "inf_of_sign neg = (if neg then NInf else PInf)"

fun is_neg :: "float64 \<Rightarrow> bool" where
  "is_neg (Fin x) = (x < 0)"
| "is_neg NInf = True"
| "is_neg _ = False"

fun fneg :: "float64 \<Rightarrow> float64" where
  "fneg (Fin x) = Fin (- x)"
| "fneg PInf = NInf"
| "fneg NInf = PInf"
| "fneg NaN = NaN"

fun fadd :: "float64 \<Rightarrow> float64 \<Rightarrow> float64" where
  "fadd (Fin a) (Fin b) = of_rat64 (a + b)"
| "fadd NaN _ = NaN"
| "fadd _ NaN = NaN"
| "fadd PInf NInf = NaN"
| "fadd NInf PInf = NaN"
| "fadd (Fin _) y = y"
| "fadd x _ = x"

definition fsub :: "float64 \<Rightarrow> float64 \<Rightarrow> float64" where
  "fsub a b = fadd a (fneg b)"

fun fmul :: "float64 \<Rightarrow> float64 \<Rightarrow> float64" where
  "fmul (Fin a) (Fin b) = of_rat64 (a * b)"
| "fmul NaN _ = NaN"
| "fmul _ NaN = NaN"
| "fmul x y = (if x = Fin 0 \<or> y = Fin 0 then NaN else inf_of_sign (is_neg x \<noteq> is_neg y))"

fun fdiv :: "float64 \<Rightarrow> float64 \<Rightarrow> float64" where
  "fdiv (Fin a) (Fin b) =
     (if b = 0 then (if a = 0 then NaN else inf_of_sign (a < 0)) else of_rat64 (a / b))"
| "fdiv NaN _ = NaN"
| "fdiv _ NaN = NaN"
| "fdiv (Fin _) _ = Fin 0"
| "fdiv x (Fin b) = inf_of_sign (is_neg x \<noteq> (b < 0))"
| "fdiv _ _ = NaN"

text \<open>The comparisons \<open><\<close>, \<open><=\<close> and \<open>==\<close>; every comparison with a NaN is false.\<close>

fun flt :: "float64 \<Rightarrow> float64 \<Rightarrow> bool" where
  "flt (Fin a) (Fin b) = (a < b)"
| "flt NaN _ = False"
| "flt _ NaN = False"
| "flt x PInf = (x \<noteq> PInf)"
| "flt NInf y = (y \<noteq> NInf)"
| "flt _ _ = False"

fun feq :: "float64 \<Rightarrow> float64 \<Rightarrow> bool" where
  "feq (Fin a) (Fin b) = (a = b)"
| "feq PInf PInf = True"
| "feq NInf NInf = True"
| "feq _ _ = False"

definition fle :: "float64 \<Rightarrow> float64 \<Rightarrow> bool" where
  "fle x y \<longleftrightarrow> flt x y \<or> feq x y"

definition is_fin :: "float64 \<Rightarrow> bool" where
  "is_fin x \<longleftrightarrow> (case x of Fin _ \<Rightarrow> True | _ \<Rightarrow> False)"

text \<open>A value the hardware can hold: a finite value is one that rounding leaves alone.\<close>

definition valid_float :: "float64 \<Rightarrow> bool" where
  "valid_float x \<longleftrightarrow> (case x of Fin r \<Rightarrow> rnd r = r \<and> \<bar>r\<bar> \<le> max_float64 | _ \<Rightarrow> True)"

lemma fle_simps [simp]:
  "fle (Fin a) (Fin b) \<longleftrightarrow> a \<le> b"
  "\<not> fle NaN y" "\<not> fle x NaN"
  by (auto simp: fle_def) (cases x; simp)+

lemma not_flt_NaN [simp]: "\<not> flt x NaN" "\<not> flt NaN x"
  by (cases x; simp)+

lemma is_fin_simps [simp]:
  "is_fin (Fin x)" "\<not> is_fin PInf" "\<not> is_fin NInf" "\<not> is_fin NaN"
  by (simp_all add: is_fin_def)

lemma is_fin_iff: "is_fin x \<longleftrightarrow> (\<exists>r. x = Fin r)"
  by (cases x) auto

lemma flt_irrefl [simp]: "\<not> flt x x"
  by (cases x) auto

lemma flt_trans: "flt x y \<Longrightarrow> flt y z \<Longrightarrow> flt x z"
  by (cases x; cases y; cases z) auto

lemma not_flt_iff: "x \<noteq> NaN \<Longrightarrow> y \<noteq> NaN \<Longrightarrow> \<not> flt x y \<longleftrightarrow> fle y x"
  by (cases x; cases y) (auto simp: fle_def)

lemma max_float64_pos [simp]: "0 < max_float64"
  by (simp add: max_float64_def)

lemma of_rat64_bounded:
  assumes "0 \<le> x" and "x \<le> b" and "rnd b \<le> max_float64"
  shows "of_rat64 x = Fin (rnd x)" and "0 \<le> rnd x" and "rnd x \<le> rnd b"
proof -
  show nn: "0 \<le> rnd x" using assms(1) by (rule rnd_nonneg)
  show le: "rnd x \<le> rnd b" using assms(2) by (rule rnd_mono)
  show "of_rat64 x = Fin (rnd x)"
    using nn le assms(3) max_float64_pos by (auto simp: of_rat64_def Let_def)
qed

lemma of_rat64_cases: "of_rat64 x = Fin (rnd x) \<or> of_rat64 x = PInf \<or> of_rat64 x = NInf"
  by (simp add: of_rat64_def Let_def)

lemma of_rat64_not_NaN [simp]: "of_rat64 x \<noteq> NaN"
  using of_rat64_cases [of x] by auto

lemma of_rat64_mono: "x \<le> y \<Longrightarrow> fle (of_rat64 x) (of_rat64 y)"
  using rnd_mono [of x y] max_float64_pos
  by (auto simp: of_rat64_def Let_def fle_def)

lemma float_of_int_Fin: "\<bar>n\<bar> \<le> 2 ^ 53 \<Longrightarrow> float_of_int n = Fin (of_int n)"
proof -
  assume n: "\<bar>n\<bar> \<le> 2 ^ 53"
  then have r: "rnd (of_int n) = of_int n" by (rule rnd_of_int)
  have "\<bar>of_int n :: rat\<bar> \<le> of_int (2 ^ 53)"
    using n by (simp only: of_int_abs [symmetric] of_int_le_iff)
  also have "(of_int (2 ^ 53) :: rat) \<le> max_float64" by (simp add: max_float64_def)
  finally have "\<bar>of_int n :: rat\<bar> \<le> max_float64" .
  with r show ?thesis by (auto simp: float_of_int_def of_rat64_def Let_def abs_le_iff)
qed

end
