(* ===== verification/Dom_Template.thy ===== *)
theory Dom_Template
  imports Go_Float
begin

text \<open>
  \<open>internal/core/domain/template.go\<close> and \<open>slug.go\<close>: the template entity, its constructor and
  publication switch, and the validation functions. The clock and the identifier generator
  (\<open>time.Now\<close>, \<open>uuid.New\<close>) are arguments. \<open>strings.ToLower\<close> works byte by byte on ASCII input,
  and through the Unicode tables otherwise; the tables are the argument \<open>uni\<close>.
\<close>

section \<open>Data\<close>

datatype template_error =
    ErrNameRequired | ErrNameTooShort | ErrNameTooLong | ErrNameInvalidChars
  | ErrVersionRequired | ErrVersionInvalidFormat
  | ErrPriceNegative
  | ErrVariableDuplicate | ErrVariableInvalidType | ErrVariableOptionsRequired
  | ErrComposeRequired
  | ErrPublishRequiresVersion

type_synonym VariableType = string

definition VarTypeString :: VariableType where [const_defs]: "VarTypeString = ''string''"
definition VarTypeNumber :: VariableType where [const_defs]: "VarTypeNumber = ''number''"
definition VarTypeBoolean :: VariableType where [const_defs]: "VarTypeBoolean = ''boolean''"
definition VarTypePassword :: VariableType where [const_defs]: "VarTypePassword = ''password''"
definition VarTypeSelect :: VariableType where [const_defs]: "VarTypeSelect = ''select''"

definition VariableType_IsValid :: "VariableType \<Rightarrow> bool" where
  "VariableType_IsValid vt \<longleftrightarrow>
     vt = VarTypeString \<or> vt = VarTypeNumber \<or> vt = VarTypeBoolean \<or> vt = VarTypePassword
     \<or> vt = VarTypeSelect"

record Variable =
  var_Name :: string
  var_Label :: string
  var_Description :: string
  var_Type :: VariableType
  var_Default :: string
  var_Required :: bool
  var_Options :: "string list"
  var_Validation :: string

record ConfigFile =
  cf_Name :: string
  cf_Path :: string
  cf_Content :: string
  cf_Mode :: string

record Resources =
  res_CPUCores :: float64
  res_MemoryMB :: int
  res_DiskMB :: int

record Template =
  tmpl_ID :: int
  tmpl_ReferenceID :: string
  tmpl_Name :: string
  tmpl_Slug :: string
  tmpl_Description :: string
  tmpl_Version :: string
  tmpl_ComposeSpec :: string
  tmpl_Variables :: "Variable list"
  tmpl_ConfigFiles :: "ConfigFile list"
  tmpl_ResourceRequirements :: Resources
  tmpl_RequiredCapabilities :: "string list"
  tmpl_PriceMonthly :: int
  tmpl_Category :: string
  tmpl_Tags :: "string list"
  tmpl_Published :: bool
  tmpl_CreatorID :: int
  tmpl_CreatorRefID :: string
  tmpl_CreatedAt :: time
  tmpl_UpdatedAt :: time

text \<open>Go's zero value of the struct.\<close>

definition zero_Resources :: Resources where
  "zero_Resources = \<lparr>res_CPUCores = Fin 0, res_MemoryMB = 0, res_DiskMB = 0\<rparr>"

section \<open>Validation\<close>

text \<open>\<open>^[a-zA-Z0-9\s\-]+$\<close>, with \<open>\s\<close> the class of tab, newline, form feed, return and space.\<close>

definition is_re_space :: "char \<Rightarrow> bool" where
  "is_re_space c \<longleftrightarrow> (of_char c :: nat) \<in> {9, 10, 12, 13, 32}"

definition name_char :: "char \<Rightarrow> bool" where
  "name_char c \<longleftrightarrow> is_alnum c \<or> is_re_space c \<or> c = CHR ''-''"

definition nameRegex_MatchString :: "string \<Rightarrow> bool" where
  "nameRegex_MatchString s \<longleftrightarrow> s \<noteq> [] \<and> list_all name_char s"

definition ValidateName :: "string \<Rightarrow> template_error option" where
  "ValidateName name =
     (if name = [] then Some ErrNameRequired
      else if length name < 3 then Some ErrNameTooShort
      else if 100 < length name then Some ErrNameTooLong
      else if \<not> nameRegex_MatchString name then Some ErrNameInvalidChars
      else None)"

text \<open>\<open>^\d+\.\d+\.\d+$\<close>: consume digits (at least one), then a literal dot.\<close>

definition take_digits :: "string \<Rightarrow> (string \<times> string) option" where
  "take_digits s = (let d = takeWhile is_digit s
                    in if d = [] then None else Some (d, drop (length d) s))"

definition eat_dot :: "string \<Rightarrow> string option" where
  "eat_dot s = (case s of [] \<Rightarrow> None | c # r \<Rightarrow> if c = CHR ''.'' then Some r else None)"

definition versionRegex_MatchString :: "string \<Rightarrow> bool" where
  "versionRegex_MatchString s =
     opt_then (take_digits s) (\<lambda>(_, r1). opt_then (eat_dot r1) (\<lambda>r2.
     opt_then (take_digits r2) (\<lambda>(_, r3). opt_then (eat_dot r3) (\<lambda>r4.
     opt_then (take_digits r4) (\<lambda>(_, r5). r5 = [])))))"

definition ValidateVersion :: "string \<Rightarrow> template_error option" where
  "ValidateVersion version =
     (if version = [] then Some ErrVersionRequired
      else if \<not> versionRegex_MatchString version then Some ErrVersionInvalidFormat
      else None)"

text \<open>
  \<open>CompareVersions\<close> indexes the first three dot-separated parts; with fewer parts the index
  panics, which is \<^const>\<open>None\<close> here. The error of \<open>strconv.Atoi\<close> is dropped, its value is used.
\<close>

fun compare_parts :: "nat \<Rightarrow> string list \<Rightarrow> string list \<Rightarrow> int option" where
  "compare_parts 0 _ _ = Some 0"
| "compare_parts (Suc k) (p # ps) (q # qs) =
     (let n1 = fst (Atoi p); n2 = fst (Atoi q)
      in if n1 < n2 then Some (- 1) else if n2 < n1 then Some 1 else compare_parts k ps qs)"
| "compare_parts (Suc k) _ _ = None"

definition CompareVersions :: "string \<Rightarrow> string \<Rightarrow> int option" where
  "CompareVersions v1 v2 = compare_parts 3 (SplitByte CHR ''.'' v1) (SplitByte CHR ''.'' v2)"

definition ValidatePrice :: "int \<Rightarrow> template_error option" where
  "ValidatePrice price = (if price < 0 then Some ErrPriceNegative else None)"

text \<open>
  \<open>strings.TrimSpace(s) == ""\<close>: the string is a sequence of white space code points. The
  multi-byte ones are U+0085, U+00A0, U+1680, U+2000 to U+200A, U+2028, U+2029, U+202F,
  U+205F and U+3000; \<open>space_len\<close> is the byte length of the white space rune at the front.
\<close>

definition bytes_of :: "string \<Rightarrow> nat list" where
  "bytes_of s = map of_char s"

fun space_len :: "nat list \<Rightarrow> nat" where
  "space_len (a # b # c # r) =
     (if a \<in> {9, 10, 11, 12, 13, 32} then 1
      else if a = 194 \<and> b \<in> {133, 160} then 2
      else if (a = 225 \<and> b = 154 \<and> c = 128)
           \<or> (a = 226 \<and> b = 128 \<and> (128 \<le> c \<and> c \<le> 138 \<or> c \<in> {168, 169, 175}))
           \<or> (a = 226 \<and> b = 129 \<and> c = 159) \<or> (a = 227 \<and> b = 128 \<and> c = 128) then 3
      else 0)"
| "space_len [a, b] =
     (if a \<in> {9, 10, 11, 12, 13, 32} then 1 else if a = 194 \<and> b \<in> {133, 160} then 2 else 0)"
| "space_len [a] = (if a \<in> {9, 10, 11, 12, 13, 32} then 1 else 0)"
| "space_len [] = 0"

function all_space :: "nat list \<Rightarrow> bool" where
  "all_space s = (if s = [] then True
                  else if space_len s = 0 then False else all_space (drop (space_len s) s))"
  by pat_completeness auto
termination
  by (relation "measure length") auto

declare all_space.simps [simp del]

definition TrimSpace_empty :: "string \<Rightarrow> bool" where
  "TrimSpace_empty s \<longleftrightarrow> all_space (bytes_of s)"

definition ValidateComposeSpec :: "string \<Rightarrow> template_error option" where
  "ValidateComposeSpec spec = (if TrimSpace_empty spec then Some ErrComposeRequired else None)"

text \<open>The loop of \<open>ValidateVariables\<close>; \<open>seen\<close> is the map of the names met so far.\<close>

fun validate_variables_loop ::
  "(string \<Rightarrow> bool) \<Rightarrow> Variable list \<Rightarrow> template_error list" where
  "validate_variables_loop seen [] = []"
| "validate_variables_loop seen (v # vs) =
     (if seen (var_Name v) then ErrVariableDuplicate # validate_variables_loop seen vs
      else let seen' = seen(var_Name v := True)
           in if \<not> VariableType_IsValid (var_Type v)
              then ErrVariableInvalidType # validate_variables_loop seen' vs
              else if var_Type v = VarTypeSelect \<and> length (var_Options v) = 0
              then ErrVariableOptionsRequired # validate_variables_loop seen' vs
              else validate_variables_loop seen' vs)"

definition ValidateVariables :: "Variable list \<Rightarrow> template_error list" where
  "ValidateVariables vars = validate_variables_loop (\<lambda>_. False) vars"

definition err_list :: "'e option \<Rightarrow> 'e list" where
  "err_list r = (case r of None \<Rightarrow> [] | Some e \<Rightarrow> [e])"

definition ValidateTemplate :: "Template \<Rightarrow> template_error list" where
  "ValidateTemplate t =
     err_list (ValidateName (tmpl_Name t)) @ err_list (ValidateVersion (tmpl_Version t))
     @ err_list (ValidatePrice (tmpl_PriceMonthly t))
     @ err_list (ValidateComposeSpec (tmpl_ComposeSpec t))
     @ ValidateVariables (tmpl_Variables t)"

section \<open>Slugs\<close>

definition ToLower :: "(string \<Rightarrow> string) \<Rightarrow> string \<Rightarrow> string" where
  "ToLower uni s = (if list_all is_ascii s then map lower_char s else uni s)"

definition spaces_to_hyphens :: "string \<Rightarrow> string" where
  "spaces_to_hyphens s = map (\<lambda>c. if c = CHR '' '' then CHR ''-'' else c) s"

text \<open>\<open>strings.Contains(s, "--")\<close> and \<open>strings.ReplaceAll(s, "--", "-")\<close>.\<close>

fun contains_hh :: "string \<Rightarrow> bool" where
  "contains_hh (a # b # r) = ((a = CHR ''-'' \<and> b = CHR ''-'') \<or> contains_hh (b # r))"
| "contains_hh _ = False"

fun replace_hh :: "string \<Rightarrow> string" where
  "replace_hh (a # b # r) =
     (if a = CHR ''-'' \<and> b = CHR ''-'' then CHR ''-'' # replace_hh r else a # replace_hh (b # r))"
| "replace_hh s = s"

lemma replace_hh_shorter: "length (replace_hh s) \<le> length s"
  by (induction s rule: replace_hh.induct) auto

lemma replace_hh_less: "contains_hh s \<Longrightarrow> length (replace_hh s) < length s"
proof (induction s rule: contains_hh.induct)
  case (1 a b r)
  then show ?case using replace_hh_shorter [of r] by auto
qed auto

function collapse_hh :: "string \<Rightarrow> string" where
  "collapse_hh s = (if contains_hh s then collapse_hh (replace_hh s) else s)"
  by pat_completeness auto
termination
  by (relation "measure length") (auto simp: replace_hh_less)

declare collapse_hh.simps [simp del]

definition trim_hyphens :: "string \<Rightarrow> string" where
  "trim_hyphens s = rev (dropWhile (\<lambda>c. c = CHR ''-'') (rev (dropWhile (\<lambda>c. c = CHR ''-'') s)))"

definition GenerateSlug :: "(string \<Rightarrow> string) \<Rightarrow> string \<Rightarrow> string" where
  "GenerateSlug uni name = trim_hyphens (collapse_hh (spaces_to_hyphens (ToLower uni name)))"

text \<open>
  \<open>slug.go\<close>. A rune outside ASCII is dropped, and so is each of its bytes here: none of them is
  an ASCII letter, digit, hyphen or space.
\<close>

fun Slugify :: "string \<Rightarrow> string" where
  "Slugify [] = []"
| "Slugify (r # rs) =
     (if (CHR ''a'' \<le> r \<and> r \<le> CHR ''z'') \<or> (CHR ''0'' \<le> r \<and> r \<le> CHR ''9'') \<or> r = CHR ''-''
      then r # Slugify rs
      else if CHR ''A'' \<le> r \<and> r \<le> CHR ''Z'' then char_of ((of_char r :: nat) + 32) # Slugify rs
      else if r = CHR '' '' then CHR ''-'' # Slugify rs
      else Slugify rs)"

section \<open>The entity\<close>

definition NewTemplate ::
  "(string \<Rightarrow> string) \<Rightarrow> time \<Rightarrow> string \<Rightarrow> string \<Rightarrow> string \<Rightarrow> string \<Rightarrow> template_error + Template" where
  "NewTemplate uni now uuid name version composeSpec =
     guard_err (ValidateName name)
       (guard_err (ValidateVersion version)
         (guard_err (ValidateComposeSpec composeSpec)
           (Inr \<lparr>tmpl_ID = 0, tmpl_ReferenceID = ''tmpl_'' @ take 8 uuid, tmpl_Name = name,
                 tmpl_Slug = GenerateSlug uni name, tmpl_Description = [], tmpl_Version = version,
                 tmpl_ComposeSpec = composeSpec, tmpl_Variables = [], tmpl_ConfigFiles = [],
                 tmpl_ResourceRequirements = zero_Resources, tmpl_RequiredCapabilities = [],
                 tmpl_PriceMonthly = 0, tmpl_Category = [], tmpl_Tags = [], tmpl_Published = False,
                 tmpl_CreatorID = 0, tmpl_CreatorRefID = [], tmpl_CreatedAt = now,
                 tmpl_UpdatedAt = now\<rparr>)))"

definition Template_Publish :: "time \<Rightarrow> Template \<Rightarrow> template_error + Template" where
  "Template_Publish now t =
     (if tmpl_Version t = [] then Inl ErrPublishRequiresVersion
      else Inr (t\<lparr>tmpl_Published := True, tmpl_UpdatedAt := now\<rparr>))"

definition Template_Unpublish :: "time \<Rightarrow> Template \<Rightarrow> Template" where
  "Template_Unpublish now t = t\<lparr>tmpl_Published := False, tmpl_UpdatedAt := now\<rparr>"

section \<open>Slugs are normalised\<close>

lemma contains_hh_iff: "contains_hh s \<longleftrightarrow> (\<exists>a b. s = a @ CHR ''-'' # CHR ''-'' # b)"
proof (induction s rule: contains_hh.induct)
  case (1 a b r)
  show ?case
  proof
    assume "contains_hh (a # b # r)"
    then consider "a = CHR ''-''" "b = CHR ''-''" | "contains_hh (b # r)" by auto
    then show "\<exists>u v. a # b # r = u @ CHR ''-'' # CHR ''-'' # v"
    proof cases
      case 1
      then show ?thesis by (metis append_Nil)
    next
      case 2
      with "1.IH" obtain u v where "b # r = u @ CHR ''-'' # CHR ''-'' # v" by blast
      then show ?thesis by (metis append_Cons)
    qed
  next
    assume "\<exists>u v. a # b # r = u @ CHR ''-'' # CHR ''-'' # v"
    then obtain u v where uv: "a # b # r = u @ CHR ''-'' # CHR ''-'' # v" by blast
    show "contains_hh (a # b # r)"
    proof (cases u)
      case Nil
      with uv show ?thesis by simp
    next
      case (Cons x u')
      with uv have "b # r = u' @ CHR ''-'' # CHR ''-'' # v" by simp
      then have "contains_hh (b # r)" using "1.IH" by blast
      then show ?thesis by simp
    qed
  qed
qed (auto simp: Cons_eq_append_conv)

lemma contains_hh_mid: "contains_hh s \<Longrightarrow> contains_hh (a @ s @ b)"
  unfolding contains_hh_iff by (metis append_Cons append_assoc)

lemma set_replace_hh: "set (replace_hh s) \<subseteq> set s"
  by (induction s rule: replace_hh.induct) auto

lemma collapse_hh_props: "\<not> contains_hh (collapse_hh s) \<and> set (collapse_hh s) \<subseteq> set s"
proof (induction s rule: collapse_hh.induct)
  case (1 s)
  show ?case
  proof (cases "contains_hh s")
    case True
    with "1.IH" [OF True] set_replace_hh [of s] show ?thesis
      by (simp add: collapse_hh.simps [of s]) blast
  next
    case False
    then show ?thesis by (simp add: collapse_hh.simps [of s])
  qed
qed

lemma trim_hyphens_split: "\<exists>a b. s = a @ trim_hyphens s @ b"
proof -
  let ?P = "\<lambda>c. c = CHR ''-''"
  have "s = takeWhile ?P s @ dropWhile ?P s" by simp
  moreover have "dropWhile ?P s =
      trim_hyphens s @ rev (takeWhile ?P (rev (dropWhile ?P s)))"
    unfolding trim_hyphens_def
    by (metis rev_append rev_rev_ident takeWhile_dropWhile_id)
  ultimately show ?thesis by metis
qed

lemma dropWhile_hd: "dropWhile P s \<noteq> [] \<Longrightarrow> \<not> P (hd (dropWhile P s))"
  by (rule hd_dropWhile)

lemma trim_hyphens_ends:
  assumes "trim_hyphens s \<noteq> []"
  shows "hd (trim_hyphens s) \<noteq> CHR ''-''" and "last (trim_hyphens s) \<noteq> CHR ''-''"
proof -
  let ?P = "\<lambda>c. c = CHR ''-''"
  let ?d = "dropWhile ?P s"
  let ?e = "dropWhile ?P (rev ?d)"
  have t: "trim_hyphens s = rev ?e" by (simp add: trim_hyphens_def)
  with assms have ne: "?e \<noteq> []" by auto
  from hd_dropWhile [OF ne] t ne show "last (trim_hyphens s) \<noteq> CHR ''-''"
    by (simp add: last_rev)
  have "rev ?d = takeWhile ?P (rev ?d) @ ?e" by simp
  then have "?d = rev ?e @ rev (takeWhile ?P (rev ?d))" by (metis rev_append rev_rev_ident)
  then have "hd ?d = hd (rev ?e)" by (rule hd_append_nonempty) (metis ne rev_is_Nil_conv)
  moreover have "?d \<noteq> []" using ne by (metis dropWhile.simps(1) rev.simps(1))
  ultimately show "hd (trim_hyphens s) \<noteq> CHR ''-''" using hd_dropWhile [of ?P s] t by simp
qed

lemma set_trim_hyphens: "set (trim_hyphens s) \<subseteq> set s"
  by (metis Un_iff set_append subsetI trim_hyphens_split)

lemma name_char_ascii: "name_char c \<Longrightarrow> is_ascii c"
  unfolding name_char_def is_re_space_def is_alnum_def char_class_codes is_ascii_def
  by (elim disjE) auto

lemma valid_name_chars: "ValidateName name = None \<Longrightarrow> c \<in> set name \<Longrightarrow> name_char c"
  by (auto simp: ValidateName_def nameRegex_MatchString_def list_all_iff split: if_splits)

definition slug_char :: "char \<Rightarrow> bool" where
  "slug_char c \<longleftrightarrow> is_lower c \<or> is_digit c \<or> c = CHR ''-''"

lemma name_char_slug:
  "name_char c \<Longrightarrow> c \<noteq> CHR '' '' \<Longrightarrow> slug_char (lower_char c) \<or> is_re_space c"
  using is_lower_lower_char [of c]
  by (cases "is_upper c") (auto simp: name_char_def is_alnum_def slug_char_def lower_char_def)

lemma lower_char_eq_space: "is_upper c \<or> c = CHR '' '' \<or> lower_char c \<noteq> CHR '' ''"
  by (auto simp: lower_char_def)

lemma spaces_to_hyphens_lower_chars:
  assumes "name_char c"
  shows "let d = lower_char c; e = (if d = CHR '' '' then CHR ''-'' else d)
         in slug_char e \<or> (is_re_space e \<and> e \<noteq> CHR '' '')"
proof (cases "c = CHR '' ''")
  case True
  then show ?thesis by (simp add: lower_char_def is_upper_code slug_char_def)
next
  case False
  show ?thesis
  proof (cases "is_upper c")
    case True
    then have "is_lower (lower_char c)" by simp
    then show ?thesis by (auto simp: Let_def slug_char_def is_lower_code)
  next
    case notup: False
    then have "lower_char c = c" by (simp add: lower_char_def)
    with False name_char_slug [OF assms False] show ?thesis by (auto simp: Let_def)
  qed
qed

text \<open>
  The slug that \<open>GenerateSlug\<close> computes for a valid template name is in normal form: it has
  no two consecutive hyphens, neither starts nor ends with one, and every character is a
  lower-case letter, a digit, a hyphen, or one of the non-space white space characters that
  \<open>ValidateName\<close> lets through.
\<close>

theorem GenerateSlug_normal:
  assumes "ValidateName name = None"
  shows "\<not> contains_hh (GenerateSlug uni name)
    \<and> (GenerateSlug uni name = [] \<or>
       (hd (GenerateSlug uni name) \<noteq> CHR ''-'' \<and> last (GenerateSlug uni name) \<noteq> CHR ''-''))
    \<and> set (GenerateSlug uni name) \<subseteq>
        {c. slug_char c \<or> (is_re_space c \<and> c \<noteq> CHR '' '')}"
proof -
  have asc: "list_all is_ascii name"
    using valid_name_chars [OF assms] name_char_ascii by (auto simp: list_all_iff)
  let ?m = "spaces_to_hyphens (ToLower uni name)"
  let ?s = "GenerateSlug uni name"
  have s: "?s = trim_hyphens (collapse_hh ?m)" by (simp add: GenerateSlug_def)
  have "set ?m \<subseteq> {c. slug_char c \<or> (is_re_space c \<and> c \<noteq> CHR '' '')}"
  proof
    fix e assume "e \<in> set ?m"
    then obtain c where c: "c \<in> set name"
      and e: "e = (if lower_char c = CHR '' '' then CHR ''-'' else lower_char c)"
      using asc by (auto simp: spaces_to_hyphens_def ToLower_def)
    from spaces_to_hyphens_lower_chars [OF valid_name_chars [OF assms c]] e
    show "e \<in> {c. slug_char c \<or> (is_re_space c \<and> c \<noteq> CHR '' '')}"
      unfolding Let_def e [symmetric] by simp
  qed
  moreover have "set ?s \<subseteq> set ?m"
    using set_trim_hyphens [of "collapse_hh ?m"] collapse_hh_props [of ?m] s by auto
  moreover have "\<not> contains_hh ?s"
    using trim_hyphens_split [of "collapse_hh ?m"] collapse_hh_props [of ?m] contains_hh_mid s
    by metis
  ultimately show ?thesis using trim_hyphens_ends [of "collapse_hh ?m"] s by auto
qed

theorem GenerateSlug_normal_witness:
  "ValidateName ''My  Blog -- 2'' = None
   \<and> \<not> contains_hh (GenerateSlug id ''My  Blog -- 2'')"
proof -
  have h: "ValidateName ''My  Blog -- 2'' = None" by code_simp
  show ?thesis using h GenerateSlug_normal [OF h, of id] by blast
qed

text \<open>\<open>Slugify\<close> maps every string into the slug alphabet and leaves a slug alone.\<close>

lemma Slugify_Cons:
  "Slugify (r # rs) =
     (if slug_char r then [r] else if is_upper r then [lower_char r]
      else if r = CHR '' '' then ''-'' else []) @ Slugify rs"
  by (simp add: slug_char_def is_lower_def is_digit_def is_upper_def lower_char_def)

declare Slugify.simps(2) [simp del]

lemma slug_char_lower: "is_upper c \<Longrightarrow> slug_char (lower_char c)"
  by (simp add: slug_char_def)

lemma Slugify_chars: "c \<in> set (Slugify s) \<Longrightarrow> slug_char c"
  by (induction s) (auto simp: Slugify_Cons slug_char_lower slug_char_def split: if_splits)

lemma Slugify_id: "list_all slug_char s \<Longrightarrow> Slugify s = s"
  by (induction s) (auto simp: Slugify_Cons)

text \<open>
  Whatever the input bytes, \<open>Slugify\<close> returns a string over lower-case letters, digits and
  hyphens, applying it twice is the same as applying it once, and it distributes over
  concatenation (no context is looked at).
\<close>

theorem Slugify_correct:
  "list_all slug_char (Slugify s) \<and> Slugify (Slugify s) = Slugify s
   \<and> Slugify (s @ t) = Slugify s @ Slugify t"
proof -
  have a: "list_all slug_char (Slugify s)" by (auto simp: list_all_iff Slugify_chars)
  then have "Slugify (Slugify s) = Slugify s" by (rule Slugify_id)
  moreover have "Slugify (s @ t) = Slugify s @ Slugify t"
    by (induction s) (simp_all add: Slugify_Cons)
  ultimately show ?thesis using a by blast
qed

section \<open>Versions\<close>

lemma take_digits_Some:
  "take_digits s = Some (d, r) \<longleftrightarrow>
     d \<noteq> [] \<and> list_all is_digit d \<and> s = d @ r \<and> (r = [] \<or> \<not> is_digit (hd r))"
  (is "?L \<longleftrightarrow> ?R")
proof
  assume ?L
  then have d: "d = takeWhile is_digit s" "d \<noteq> []" "r = dropWhile is_digit s"
    by (auto simp: take_digits_def Let_def dropWhile_eq_drop split: if_splits)
  then show ?R
    using hd_dropWhile [of is_digit s] set_takeWhileD [of _ is_digit s]
    by (auto simp: list_all_iff)
next
  assume R: ?R
  then have "takeWhile is_digit s = d"
    by (cases r) (auto simp: list_all_iff takeWhile_append takeWhile_eq_all_conv)
  with R show ?L by (simp add: take_digits_def Let_def)
qed

definition is_number :: "string \<Rightarrow> bool" where
  "is_number s \<longleftrightarrow> s \<noteq> [] \<and> list_all is_digit s"

lemma not_digit_dot [simp]: "\<not> is_digit CHR ''.''"
  by (simp add: is_digit_code)

lemma eat_dot_Some: "eat_dot s = Some r \<longleftrightarrow> s = CHR ''.'' # r"
  by (auto simp: eat_dot_def split: list.splits)

lemma versionRegex_iff:
  "versionRegex_MatchString v \<longleftrightarrow>
     (\<exists>a b c. is_number a \<and> is_number b \<and> is_number c \<and>
        v = a @ CHR ''.'' # b @ CHR ''.'' # c)" (is "_ \<longleftrightarrow> ?R")
proof
  assume "versionRegex_MatchString v"
  then obtain a r1 r2 b r3 r4 c where
    "take_digits v = Some (a, r1)" "eat_dot r1 = Some r2" "take_digits r2 = Some (b, r3)"
    "eat_dot r3 = Some r4" "take_digits r4 = Some (c, [])"
    by (auto simp: versionRegex_MatchString_def opt_then_iff)
  then show ?R
    by (intro exI [of _ a] exI [of _ b] exI [of _ c])
      (simp add: take_digits_Some eat_dot_Some is_number_def)
next
  assume ?R
  then obtain a b c where abc: "is_number a" "is_number b" "is_number c"
    and v: "v = a @ CHR ''.'' # b @ CHR ''.'' # c" by blast
  have "take_digits v = Some (a, CHR ''.'' # b @ CHR ''.'' # c)"
    and "take_digits (b @ CHR ''.'' # c) = Some (b, CHR ''.'' # c)"
    and "take_digits c = Some (c, [])"
    using abc v by (simp_all add: take_digits_Some is_number_def)
  then show "versionRegex_MatchString v"
    by (simp add: versionRegex_MatchString_def eat_dot_def opt_then_def)
qed

lemma is_number_no_dot: "is_number a \<Longrightarrow> CHR ''.'' \<notin> set a"
  by (auto simp: is_number_def list_all_iff)

lemma SplitByte_version:
  assumes "is_number a" "is_number b" "is_number c"
  shows "SplitByte CHR ''.'' (a @ CHR ''.'' # b @ CHR ''.'' # c) = [a, b, c]"
  using is_number_no_dot assms by (simp add: SplitByte_sep SplitByte_no_sep)

lemma valid_version_split:
  "ValidateVersion v = None \<Longrightarrow> \<exists>a b c. SplitByte CHR ''.'' v = [a, b, c]"
  by (auto simp: ValidateVersion_def versionRegex_iff SplitByte_version split: if_splits)

lemma compare_parts_lex:
  assumes "length ps = k" and "length qs = k"
  shows "\<exists>r. compare_parts k ps qs = Some r \<and> compare_parts k qs ps = Some (- r)
    \<and> (r = 0 \<longleftrightarrow> map (\<lambda>p. fst (Atoi p)) ps = map (\<lambda>p. fst (Atoi p)) qs)
    \<and> (r = - 1 \<longleftrightarrow> (map (\<lambda>p. fst (Atoi p)) ps, map (\<lambda>p. fst (Atoi p)) qs) \<in> lexord {(x, y). x < y})
    \<and> r \<in> {- 1, 0, 1}"
  using assms
proof (induction k arbitrary: ps qs)
  case 0
  then show ?case by simp
next
  case (Suc k)
  then obtain p ps' q qs' where ps: "ps = p # ps'" and qs: "qs = q # qs'"
    and len: "length ps' = k" "length qs' = k"
    by (metis length_Suc_conv)
  consider "fst (Atoi p) < fst (Atoi q)" | "fst (Atoi q) < fst (Atoi p)"
    | "fst (Atoi p) = fst (Atoi q)" by linarith
  then show ?case
  proof cases
    case 3
    with Suc.IH [OF len] show ?thesis by (simp add: ps qs Let_def)
  qed (simp_all add: ps qs Let_def)
qed

text \<open>The three version numbers as the code reads them.\<close>

definition version_key :: "string \<Rightarrow> int list" where
  "version_key v = map (\<lambda>p. fst (Atoi p)) (take 3 (SplitByte CHR ''.'' v))"

text \<open>
  On versions that \<open>ValidateVersion\<close> accepts, \<open>CompareVersions\<close> does not panic and returns the
  lexicographic comparison of the three numbers: 0 exactly when they agree, -1 when the first
  version is lexicographically smaller, 1 otherwise; swapping the arguments negates the result.
\<close>

theorem CompareVersions_lex:
  assumes "ValidateVersion v = None" and "ValidateVersion w = None"
  shows "\<exists>r. CompareVersions v w = Some r \<and> CompareVersions w v = Some (- r)
    \<and> (r = 0 \<longleftrightarrow> version_key v = version_key w)
    \<and> (r = - 1 \<longleftrightarrow> (version_key v, version_key w) \<in> lexord {(x, y). x < y})
    \<and> r \<in> {- 1, 0, 1}"
proof -
  obtain a b c where v: "SplitByte CHR ''.'' v = [a, b, c]"
    using valid_version_split [OF assms(1)] by blast
  obtain d e f where w: "SplitByte CHR ''.'' w = [d, e, f]"
    using valid_version_split [OF assms(2)] by blast
  show ?thesis
    using compare_parts_lex [of "[a, b, c]" 3 "[d, e, f]"]
    unfolding CompareVersions_def version_key_def v w by simp
qed

theorem CompareVersions_lex_witness:
  "ValidateVersion ''1.10.0'' = None \<and> ValidateVersion ''1.9.3'' = None
   \<and> CompareVersions ''1.10.0'' ''1.9.3'' = Some 1"
proof -
  have h: "ValidateVersion ''1.10.0'' = None" "ValidateVersion ''1.9.3'' = None"
    by code_simp+
  have "CompareVersions ''1.10.0'' ''1.9.3'' = Some 1" by code_simp
  then show ?thesis using h CompareVersions_lex [OF h] by auto
qed

section \<open>Validation accepts exactly the well-formed templates\<close>

definition variable_ok :: "Variable \<Rightarrow> bool" where
  "variable_ok v \<longleftrightarrow> VariableType_IsValid (var_Type v) \<and>
     (var_Type v = VarTypeSelect \<longrightarrow> var_Options v \<noteq> [])"

lemma validate_variables_loop_Cons:
  "validate_variables_loop seen (v # vs) = [] \<longleftrightarrow>
     \<not> seen (var_Name v) \<and> variable_ok v
     \<and> validate_variables_loop (seen(var_Name v := True)) vs = []"
  by (auto simp: variable_ok_def Let_def)

lemma validate_variables_loop_Nil:
  "validate_variables_loop seen vs = [] \<longleftrightarrow>
     distinct (map var_Name vs) \<and> (\<forall>v \<in> set vs. \<not> seen (var_Name v))
     \<and> list_all variable_ok vs"
proof (induction vs arbitrary: seen)
  case Nil
  then show ?case by simp
next
  case (Cons v vs)
  have "(\<forall>w \<in> set vs. \<not> (seen(var_Name v := True)) (var_Name w)) \<longleftrightarrow>
      var_Name v \<notin> var_Name ` set vs \<and> (\<forall>w \<in> set vs. \<not> seen (var_Name w))"
    by (auto simp: image_iff)
  then show ?case
    unfolding validate_variables_loop_Cons Cons.IH by simp blast
qed

text \<open>What a template must satisfy to be stored.\<close>

definition template_wf :: "Template \<Rightarrow> bool" where
  "template_wf t \<longleftrightarrow>
     3 \<le> length (tmpl_Name t) \<and> length (tmpl_Name t) \<le> 100 \<and> list_all name_char (tmpl_Name t)
     \<and> versionRegex_MatchString (tmpl_Version t) \<and> 0 \<le> tmpl_PriceMonthly t
     \<and> \<not> TrimSpace_empty (tmpl_ComposeSpec t)
     \<and> distinct (map var_Name (tmpl_Variables t))
     \<and> list_all variable_ok (tmpl_Variables t)"

lemma err_list_Nil [simp]: "err_list r = [] \<longleftrightarrow> r = None"
  by (simp add: err_list_def split: option.splits)

lemma ValidateName_None:
  "ValidateName n = None \<longleftrightarrow> 3 \<le> length n \<and> length n \<le> 100 \<and> list_all name_char n"
  by (auto simp: ValidateName_def nameRegex_MatchString_def)

lemma ValidateVersion_None: "ValidateVersion v = None \<longleftrightarrow> versionRegex_MatchString v"
  by (auto simp: ValidateVersion_def versionRegex_MatchString_def take_digits_def
      opt_then_def)

text \<open>
  \<open>ValidateTemplate\<close> reports no error exactly for the well-formed templates, and every
  template that \<open>NewTemplate\<close> builds is well formed, unpublished, and can be published.
\<close>

theorem ValidateTemplate_iff:
  "(ValidateTemplate t = [] \<longleftrightarrow> template_wf t)
   \<and> (\<forall>uni now uuid n v c t'. NewTemplate uni now uuid n v c = Inr t' \<longrightarrow>
        template_wf t' \<and> \<not> tmpl_Published t'
        \<and> (\<forall>later. \<exists>t''. Template_Publish later t' = Inr t'' \<and> tmpl_Published t'' \<and> template_wf t''))"
proof (intro conjI allI impI)
  show iff: "ValidateTemplate t = [] \<longleftrightarrow> template_wf t" for t
    by (auto simp: ValidateTemplate_def template_wf_def ValidateName_None ValidateVersion_None
        ValidatePrice_def ValidateComposeSpec_def ValidateVariables_def
        validate_variables_loop_Nil)
  fix uni now uuid n v c t' later
  assume new: "NewTemplate uni now uuid n v c = Inr t'"
  then have ok: "ValidateName n = None" "ValidateVersion v = None" "ValidateComposeSpec c = None"
    and t': "tmpl_Name t' = n" "tmpl_Version t' = v" "tmpl_ComposeSpec t' = c"
      "tmpl_Variables t' = []" "tmpl_PriceMonthly t' = 0"
    by (auto simp: NewTemplate_def err_iffs)
  from new show "\<not> tmpl_Published t'" by (auto simp: NewTemplate_def err_iffs)
  show wf: "template_wf t'"
    using ok t' by (auto simp: template_wf_def ValidateName_None ValidateVersion_None
        ValidateComposeSpec_def split: if_splits)
  have "v \<noteq> []" using ok(2) by (auto simp: ValidateVersion_def)
  with wf t' show "\<exists>t''. Template_Publish later t' = Inr t'' \<and> tmpl_Published t'' \<and> template_wf t''"
    by (simp add: Template_Publish_def template_wf_def)
qed

theorem ValidateTemplate_iff_witness:
  "\<exists>t. NewTemplate id 0 ''0123456789'' ''nginx web'' ''1.0.0'' ''services:'' = Inr t
     \<and> ValidateTemplate t = []"
proof -
  have "\<not> isl (NewTemplate id 0 ''0123456789'' ''nginx web'' ''1.0.0'' ''services:'')"
    by code_simp
  then have "\<exists>t. NewTemplate id 0 ''0123456789'' ''nginx web'' ''1.0.0'' ''services:'' = Inr t"
    by (simp add: isl_def) (metis sum.exhaust)
  then show ?thesis using ValidateTemplate_iff by blast
qed

end
