(* ===== verification/Dom_Node.thy ===== *)
theory Dom_Node
  imports Dom_Template
begin

text \<open>
  \<open>internal/core/domain/node.go\<close>: worker nodes, their capacity arithmetic (\<open>float64\<close> and wrapping
  \<open>int64\<close>), capabilities, the constructor and its validation. \<open>net.ParseIP\<close> is modelled down to
  the accept/reject decision of \<open>netip.ParseAddr\<close>, the hostname expression label by label.
\<close>

section \<open>Data\<close>

datatype node_error =
    ErrNodeNameRequired | ErrNodeNameTooShort | ErrNodeNameTooLong
  | ErrSSHHostRequired | ErrSSHHostInvalid | ErrSSHPortInvalid | ErrSSHUserRequired
  | ErrCapabilitiesRequired | ErrCapabilityEmpty
  | ErrNodeCreatorRequired

type_synonym NodeStatus = string

definition NodeStatusOnline :: NodeStatus where [const_defs]: "NodeStatusOnline = ''online''"
definition NodeStatusOffline :: NodeStatus where [const_defs]: "NodeStatusOffline = ''offline''"
definition NodeStatusMaintenance :: NodeStatus where
  [const_defs]: "NodeStatusMaintenance = ''maintenance''"

definition NodeStatus_IsValid :: "NodeStatus \<Rightarrow> bool" where
  "NodeStatus_IsValid s \<longleftrightarrow>
     s = NodeStatusOnline \<or> s = NodeStatusOffline \<or> s = NodeStatusMaintenance"

definition NodeStatus_IsAvailable :: "NodeStatus \<Rightarrow> bool" where
  "NodeStatus_IsAvailable s \<longleftrightarrow> s = NodeStatusOnline"

record NodeCapacity =
  cap_CPUCores :: float64
  cap_MemoryMB :: int
  cap_DiskMB :: int
  cap_CPUUsed :: float64
  cap_MemoryUsedMB :: int
  cap_DiskUsedMB :: int

definition AvailableCPU :: "NodeCapacity \<Rightarrow> float64" where
  "AvailableCPU c = (let avail = fsub (cap_CPUCores c) (cap_CPUUsed c)
                     in if flt avail (Fin 0) then Fin 0 else avail)"

definition AvailableMemory :: "NodeCapacity \<Rightarrow> int" where
  "AvailableMemory c = (let avail = wrap64 (cap_MemoryMB c - cap_MemoryUsedMB c)
                        in if avail < 0 then 0 else avail)"

definition AvailableDisk :: "NodeCapacity \<Rightarrow> int" where
  "AvailableDisk c = (let avail = wrap64 (cap_DiskMB c - cap_DiskUsedMB c)
                      in if avail < 0 then 0 else avail)"

definition CanHandle :: "NodeCapacity \<Rightarrow> Resources \<Rightarrow> bool" where
  "CanHandle c required \<longleftrightarrow>
     fle (res_CPUCores required) (AvailableCPU c)
     \<and> res_MemoryMB required \<le> AvailableMemory c
     \<and> res_DiskMB required \<le> AvailableDisk c"

text \<open>The constants \<open>0.3\<close>, \<open>0.4\<close> and \<open>100\<close> as \<open>float64\<close> values.\<close>

definition w03 :: float64 where "w03 = of_rat64 (3 / 10)"
definition w04 :: float64 where "w04 = of_rat64 (4 / 10)"
definition f100 :: float64 where "f100 = Fin 100"

definition weighted :: "float64 \<Rightarrow> float64 \<Rightarrow> float64 \<Rightarrow> float64" where
  "weighted cpu mem disk = fadd (fadd (fmul cpu w03) (fmul mem w04)) (fmul disk w03)"

definition UsagePercent :: "NodeCapacity \<Rightarrow> float64" where
  "UsagePercent c =
     (if feq (cap_CPUCores c) (Fin 0) \<and> cap_MemoryMB c = 0 \<and> cap_DiskMB c = 0 then Fin 0
      else let
        cpuPercent = (if flt (Fin 0) (cap_CPUCores c)
          then fmul (fdiv (cap_CPUUsed c) (cap_CPUCores c)) f100 else Fin 0);
        memPercent = (if 0 < cap_MemoryMB c
          then fmul (fdiv (float_of_int (cap_MemoryUsedMB c)) (float_of_int (cap_MemoryMB c))) f100
          else Fin 0);
        diskPercent = (if 0 < cap_DiskMB c
          then fmul (fdiv (float_of_int (cap_DiskUsedMB c)) (float_of_int (cap_DiskMB c))) f100
          else Fin 0)
      in weighted cpuPercent memPercent diskPercent)"

record Node =
  node_ID :: int
  node_ReferenceID :: string
  node_Name :: string
  node_CreatorID :: int
  node_SSHHost :: string
  node_SSHPort :: int
  node_SSHUser :: string
  node_SSHKeyID :: int
  node_SSHKeyRefID :: string
  node_DockerSocket :: string
  node_Status :: NodeStatus
  node_Capabilities :: "string list"
  node_Capacity :: NodeCapacity
  node_Location :: string
  node_LastHealthCheck :: "time option"
  node_ErrorMessage :: string
  node_ProviderType :: string
  node_ProvisionID :: string
  node_BaseDomain :: string
  node_CreatedAt :: time
  node_UpdatedAt :: time

record SSHKey =
  key_ID :: int
  key_ReferenceID :: string
  key_CreatorID :: int
  key_Name :: string
  key_PrivateKeyEncrypted :: string
  key_Fingerprint :: string
  key_CreatedAt :: time

definition GenerateNodeID :: "string \<Rightarrow> string" where
  "GenerateNodeID uuid = ''node_'' @ take 8 uuid"

definition GenerateSSHKeyID :: "string \<Rightarrow> string" where
  "GenerateSSHKeyID uuid = ''sshkey_'' @ take 8 uuid"

section \<open>Capabilities and availability\<close>

fun any_equal :: "string \<Rightarrow> string list \<Rightarrow> bool" where
  "any_equal x [] = False"
| "any_equal x (y # ys) = (if y = x then True else any_equal x ys)"

definition HasCapability :: "Node \<Rightarrow> string \<Rightarrow> bool" where
  "HasCapability n c = any_equal c (node_Capabilities n)"

fun HasAllCapabilities :: "Node \<Rightarrow> string list \<Rightarrow> bool" where
  "HasAllCapabilities n [] = True"
| "HasAllCapabilities n (required # rs) =
     (if \<not> HasCapability n required then False else HasAllCapabilities n rs)"

fun has_any_loop :: "Node \<Rightarrow> string list \<Rightarrow> bool" where
  "has_any_loop n [] = False"
| "has_any_loop n (c # cs) = (if HasCapability n c then True else has_any_loop n cs)"

definition HasAnyCapability :: "Node \<Rightarrow> string list \<Rightarrow> bool" where
  "HasAnyCapability n caps = (if length caps = 0 then True else has_any_loop n caps)"

definition Node_IsAvailable :: "Node \<Rightarrow> bool" where
  "Node_IsAvailable n = NodeStatus_IsAvailable (node_Status n)"

definition StandardCapabilities :: "string list" where
  "StandardCapabilities =
     [''standard'', ''gpu'', ''high-memory'', ''high-cpu'', ''ssd'', ''nvme'']"

definition IsStandardCapability :: "string \<Rightarrow> bool" where
  "IsStandardCapability c = any_equal c StandardCapabilities"

definition DefaultCapabilities :: "string list" where
  "DefaultCapabilities = [''standard'']"

definition ApplySystemInfo ::
  "Node \<Rightarrow> float64 \<Rightarrow> int \<Rightarrow> int \<Rightarrow> int \<Rightarrow> int \<Rightarrow> float64 \<Rightarrow> Node" where
  "ApplySystemInfo n cpuCores memTotalMB memUsedMB diskTotalMB diskUsedMB cpuUsedPct =
     n\<lparr>node_Capacity := \<lparr>cap_CPUCores = cpuCores, cap_MemoryMB = memTotalMB,
        cap_DiskMB = diskTotalMB, cap_CPUUsed = fdiv (fmul cpuCores cpuUsedPct) f100,
        cap_MemoryUsedMB = memUsedMB, cap_DiskUsedMB = diskUsedMB\<rparr>\<rparr>"

section \<open>The SSH address\<close>

definition JoinHostPort :: "string \<Rightarrow> string \<Rightarrow> string" where
  "JoinHostPort host port =
     (if CHR '':'' \<in> set host \<or> CHR ''%'' \<in> set host then ''['' @ host @ '']:'' @ port
      else host @ '':'' @ port)"

definition Node_SSHAddress :: "Node \<Rightarrow> string" where
  "Node_SSHAddress n = JoinHostPort (node_SSHHost n) (utf8_rune (node_SSHPort n))"

section \<open>Validation\<close>

definition ValidateNodeName :: "string \<Rightarrow> node_error option" where
  "ValidateNodeName name =
     (if name = [] then Some ErrNodeNameRequired
      else if length name < 3 then Some ErrNodeNameTooShort
      else if 100 < length name then Some ErrNodeNameTooLong
      else None)"

text \<open>
  \<open>netip.ParseAddr\<close>. An IPv4 address has four decimal fields of at most three digits, none above
  255, none with a leading zero.
\<close>

definition ip4_field :: "string \<Rightarrow> bool" where
  "ip4_field s \<longleftrightarrow> s \<noteq> [] \<and> list_all is_digit s \<and> length s \<le> 3
     \<and> (length s = 1 \<or> hd s \<noteq> CHR ''0'') \<and> read_digits s \<le> 255"

definition parse_ip4 :: "string \<Rightarrow> bool" where
  "parse_ip4 s \<longleftrightarrow> (let fs = SplitByte CHR ''.'' s in length fs = 4 \<and> list_all ip4_field fs)"

definition is_hex :: "char \<Rightarrow> bool" where
  "is_hex c \<longleftrightarrow> is_digit c \<or> (CHR ''a'' \<le> c \<and> c \<le> CHR ''f'') \<or> (CHR ''A'' \<le> c \<and> c \<le> CHR ''F'')"

text \<open>
  The field loop of \<open>parseIPv6\<close>: \<open>k\<close> 16-bit groups are still free (\<open>i = 16 - 2 k\<close>), \<open>ell\<close> says that
  an ellipsis was seen. The result is the unread rest, the groups still free and \<open>ell\<close>.
\<close>

fun ip6_loop :: "nat \<Rightarrow> bool \<Rightarrow> string \<Rightarrow> (string \<times> nat \<times> bool) option" where
  "ip6_loop 0 ell s = Some (s, 0, ell)"
| "ip6_loop (Suc k) ell s =
     (let h = takeWhile is_hex s; r = dropWhile is_hex s
      in if 4 < length h \<or> h = [] then None
         else case r of
           [] \<Rightarrow> Some ([], k, ell)
         | c # r1 \<Rightarrow>
             if c = CHR ''.'' then
               (if \<not> ell \<and> Suc k \<noteq> 2 then None
                else if k = 0 then None
                else if parse_ip4 s then Some ([], k - 1, ell) else None)
             else if c \<noteq> CHR '':'' then None
             else case r1 of
               [] \<Rightarrow> None
             | d # r2 \<Rightarrow>
                 if d = CHR '':'' then
                   (if ell then None else if r2 = [] then Some ([], k, True)
                    else ip6_loop k True r2)
                 else ip6_loop k ell r1)"

definition parse_ip6 :: "string \<Rightarrow> bool" where
  "parse_ip6 s =
     (let lead = HasPrefix s ''::''; s1 = (if lead then drop 2 s else s)
      in if lead \<and> s1 = [] then True
         else case ip6_loop 8 lead s1 of
           None \<Rightarrow> False
         | Some (rest, free, ell) \<Rightarrow> rest = [] \<and> (if 0 < free then ell else \<not> ell))"

text \<open>The first dot, colon or percent sign decides; an address with a zone is no \<open>net.IP\<close>.\<close>

definition ParseIP_ok :: "string \<Rightarrow> bool" where
  "ParseIP_ok s =
     (case find (\<lambda>c. c = CHR ''.'' \<or> c = CHR '':'' \<or> c = CHR ''%'') s of
        None \<Rightarrow> False
      | Some c \<Rightarrow> if c = CHR ''.'' then parse_ip4 s
                  else if c = CHR '':'' then CHR ''%'' \<notin> set s \<and> parse_ip6 s
                  else False)"

text \<open>One label of the hostname expression, and the dotted sequence of labels.\<close>

definition host_label :: "string \<Rightarrow> bool" where
  "host_label s \<longleftrightarrow> s \<noteq> [] \<and> length s \<le> 63 \<and> is_alnum (hd s) \<and> is_alnum (last s)
     \<and> list_all (\<lambda>c. is_alnum c \<or> c = CHR ''-'') s"

definition hostnameRegex_MatchString :: "string \<Rightarrow> bool" where
  "hostnameRegex_MatchString s = list_all host_label (SplitByte CHR ''.'' s)"

definition ValidateSSHHost :: "string \<Rightarrow> node_error option" where
  "ValidateSSHHost host =
     (if host = [] then Some ErrSSHHostRequired
      else if ParseIP_ok host then None
      else if hostnameRegex_MatchString host then None
      else Some ErrSSHHostInvalid)"

definition ValidateSSHPort :: "int \<Rightarrow> node_error option" where
  "ValidateSSHPort port = (if port < 1 \<or> 65535 < port then Some ErrSSHPortInvalid else None)"

definition ValidateSSHUser :: "string \<Rightarrow> node_error option" where
  "ValidateSSHUser user = (if user = [] then Some ErrSSHUserRequired else None)"

fun any_empty :: "string list \<Rightarrow> bool" where
  "any_empty [] = False"
| "any_empty (c # cs) = (if c = [] then True else any_empty cs)"

definition ValidateCapabilities :: "string list \<Rightarrow> node_error option" where
  "ValidateCapabilities caps =
     (if length caps = 0 then Some ErrCapabilitiesRequired
      else if any_empty caps then Some ErrCapabilityEmpty else None)"

definition zero_NodeCapacity :: NodeCapacity where
  "zero_NodeCapacity = \<lparr>cap_CPUCores = Fin 0, cap_MemoryMB = 0, cap_DiskMB = 0,
     cap_CPUUsed = Fin 0, cap_MemoryUsedMB = 0, cap_DiskUsedMB = 0\<rparr>"

definition NewNode ::
  "time \<Rightarrow> string \<Rightarrow> int \<Rightarrow> string \<Rightarrow> string \<Rightarrow> string \<Rightarrow> int \<Rightarrow> string list \<Rightarrow> node_error + Node" where
  "NewNode now uuid creatorID name sshHost sshUser sshPort capabilities =
     guard_err (ValidateNodeName name)
      (guard_err (ValidateSSHHost sshHost)
       (guard_err (ValidateSSHPort sshPort)
        (guard_err (ValidateSSHUser sshUser)
         (guard_err (ValidateCapabilities capabilities)
          (if creatorID = 0 then Inl ErrNodeCreatorRequired
           else Inr \<lparr>node_ID = 0, node_ReferenceID = GenerateNodeID uuid, node_Name = name,
             node_CreatorID = creatorID, node_SSHHost = sshHost, node_SSHPort = sshPort,
             node_SSHUser = sshUser, node_SSHKeyID = 0, node_SSHKeyRefID = [],
             node_DockerSocket = ''/var/run/docker.sock'', node_Status = NodeStatusOffline,
             node_Capabilities = capabilities, node_Capacity = zero_NodeCapacity,
             node_Location = [], node_LastHealthCheck = None, node_ErrorMessage = [],
             node_ProviderType = [], node_ProvisionID = [], node_BaseDomain = [],
             node_CreatedAt = now, node_UpdatedAt = now\<rparr>)))))"

section \<open>Capabilities are list membership\<close>

lemma any_equal_iff [simp]: "any_equal x ys \<longleftrightarrow> x \<in> set ys"
  by (induction ys) auto

lemma HasCapability_iff: "HasCapability n c \<longleftrightarrow> c \<in> set (node_Capabilities n)"
  by (simp add: HasCapability_def)

lemma HasAllCapabilities_iff:
  "HasAllCapabilities n cs \<longleftrightarrow> set cs \<subseteq> set (node_Capabilities n)"
  by (induction cs) (auto simp: HasCapability_iff)

lemma has_any_loop_iff: "has_any_loop n cs \<longleftrightarrow> set cs \<inter> set (node_Capabilities n) \<noteq> {}"
  by (induction cs) (auto simp: HasCapability_iff)

lemma HasAnyCapability_iff:
  "HasAnyCapability n cs \<longleftrightarrow> cs = [] \<or> set cs \<inter> set (node_Capabilities n) \<noteq> {}"
  by (simp add: HasAnyCapability_def has_any_loop_iff)

lemma any_empty_iff: "any_empty cs \<longleftrightarrow> [] \<in> set cs"
  by (induction cs) auto

section \<open>Weighted percentages stay in range\<close>

text \<open>A percentage: a finite value between 0 and 100.\<close>

definition percentage :: "float64 \<Rightarrow> bool" where
  "percentage x \<longleftrightarrow> (case x of Fin r \<Rightarrow> 0 \<le> r \<and> r \<le> 100 | _ \<Rightarrow> False)"

lemma percentage_iff: "percentage x \<longleftrightarrow> (\<exists>r. x = Fin r \<and> 0 \<le> r \<and> r \<le> 100)"
  by (cases x) (auto simp: percentage_def)

lemma max_float64_ge: "100 \<le> max_float64"
  by (simp add: max_float64_def)

lemma of_rat64_unit: "0 \<le> x \<Longrightarrow> x \<le> 1 \<Longrightarrow> of_rat64 x = Fin (rnd x)"
  using of_rat64_bounded(1) [of x 1] rnd_of_int [of 1] max_float64_ge by simp

lemma weight_values:
  "w03 = Fin (rnd (3 / 10))" "w04 = Fin (rnd (2 / 5))"
  "rnd (100 * rnd (3 / 10)) = 30" "rnd (100 * rnd (2 / 5)) = 40"
  "0 \<le> rnd (3 / 10)" "0 \<le> rnd (2 / 5)"
  "rnd 70 = 70" "rnd 100 = 100"
proof -
  show "w03 = Fin (rnd (3 / 10))" by (simp add: w03_def of_rat64_unit)
  show "w04 = Fin (rnd (2 / 5))" by (simp add: w04_def of_rat64_unit)
  show "rnd (100 * rnd (3 / 10)) = 30" by code_simp
  show "rnd (100 * rnd (2 / 5)) = 40" by code_simp
  show "rnd 70 = 70" "rnd 100 = 100" using rnd_of_int [of 70] rnd_of_int [of 100] by simp_all
qed (simp_all add: rnd_nonneg)

lemma fmul_weight:
  assumes "0 \<le> r" "r \<le> 100" "0 \<le> w" "rnd (100 * w) = b" "b \<le> 100"
  shows "\<exists>q. fmul (Fin r) (Fin w) = Fin q \<and> 0 \<le> q \<and> q \<le> b"
proof -
  have le: "r * w \<le> 100 * w" using assms by (simp add: mult_right_mono)
  have nn: "0 \<le> r * w" using assms by simp
  have "rnd (100 * w) \<le> max_float64" using assms max_float64_ge by simp
  from of_rat64_bounded [OF nn le this] assms(4) show ?thesis by auto
qed

lemma fadd_bounded:
  assumes "0 \<le> a" "a \<le> x" "0 \<le> b" "b \<le> y" "rnd (x + y) = x + y" "x + y \<le> 100"
  shows "\<exists>q. fadd (Fin a) (Fin b) = Fin q \<and> 0 \<le> q \<and> q \<le> x + y"
proof -
  have nn: "0 \<le> a + b" and le: "a + b \<le> x + y" using assms by auto
  have "rnd (x + y) \<le> max_float64" using assms max_float64_ge by simp
  from of_rat64_bounded [OF nn le this] assms(5) show ?thesis by auto
qed

lemma weighted_percentage:
  assumes "percentage c" "percentage m" "percentage d"
  shows "percentage (weighted c m d)"
proof -
  obtain c' m' d' where c: "c = Fin c'" "0 \<le> c'" "c' \<le> 100"
    and m: "m = Fin m'" "0 \<le> m'" "m' \<le> 100" and d: "d = Fin d'" "0 \<le> d'" "d' \<le> 100"
    using assms by (auto simp: percentage_iff)
  obtain p where p: "fmul c w03 = Fin p" "0 \<le> p" "p \<le> 30"
    using fmul_weight [of c' "rnd (3 / 10)" 30] c weight_values by auto
  obtain q where q: "fmul m w04 = Fin q" "0 \<le> q" "q \<le> 40"
    using fmul_weight [of m' "rnd (2 / 5)" 40] m weight_values by auto
  obtain r where r: "fmul d w03 = Fin r" "0 \<le> r" "r \<le> 30"
    using fmul_weight [of d' "rnd (3 / 10)" 30] d weight_values by auto
  obtain s where s: "fadd (Fin p) (Fin q) = Fin s" "0 \<le> s" "s \<le> 70"
    using fadd_bounded [of p 30 q 40] p q weight_values by auto
  obtain t where t: "fadd (Fin s) (Fin r) = Fin t" "0 \<le> t" "t \<le> 100"
    using fadd_bounded [of s 70 r 30] s r weight_values by auto
  from p q r s t show ?thesis by (simp add: weighted_def percentage_iff)
qed

section \<open>Validated nodes\<close>

definition host_char :: "char \<Rightarrow> bool" where
  "host_char c \<longleftrightarrow> is_alnum c \<or> c = CHR ''-'' \<or> c = CHR ''.'' \<or> c = CHR '':''"

lemma host_char_colon: "host_char CHR '':''"
  by (simp add: host_char_def)

lemma SplitByte_set: "c' \<in> set s \<Longrightarrow> c' = c \<or> (\<exists>p \<in> set (SplitByte c s). c' \<in> set p)"
  by (induction s) (auto split: list.splits)

lemma SplitByte_all:
  "(\<And>p. p \<in> set (SplitByte c s) \<Longrightarrow> list_all P p) \<Longrightarrow> P c \<Longrightarrow> list_all P s"
  using SplitByte_set [of _ s c] by (fastforce simp: list_all_iff)

lemma ip4_field_host: "ip4_field s \<Longrightarrow> list_all host_char s"
  by (auto simp: ip4_field_def list_all_iff host_char_def is_alnum_def)

lemma parse_ip4_host: "parse_ip4 s \<Longrightarrow> list_all host_char s"
  unfolding parse_ip4_def Let_def
  by (rule SplitByte_all [of "CHR ''.''"]) (auto simp: list_all_iff [of ip4_field] ip4_field_host host_char_def)

lemma is_hex_host: "is_hex c \<Longrightarrow> host_char c"
  by (auto simp: is_hex_def host_char_def is_alnum_def is_lower_code is_upper_code is_digit_code
      less_eq_char_def)

lemma takeWhile_hex_host: "list_all host_char (takeWhile is_hex s)"
  by (auto simp: list_all_iff is_hex_host dest: set_takeWhileD)

lemma list_all_takeWhile_dropWhile:
  "list_all P (takeWhile Q s) \<Longrightarrow> list_all P (dropWhile Q s) \<Longrightarrow> list_all P s"
  by (metis list_all_append takeWhile_dropWhile_id)

lemma ip6_loop_host:
  "ip6_loop k ell s = Some ([], free, ell') \<Longrightarrow> list_all host_char s"
proof (induction k ell s rule: ip6_loop.induct)
  case (2 k ell s)
  let ?r = "dropWhile is_hex s"
  have tail: "list_all host_char ?r \<Longrightarrow> list_all host_char s"
    by (rule list_all_takeWhile_dropWhile [OF takeWhile_hex_host])
  have ne: "\<not> (4 < length (takeWhile is_hex s) \<or> takeWhile is_hex s = [])"
    using "2.prems" by (auto simp: Let_def split: if_splits)
  show ?case
  proof (cases ?r)
    case Nil
    then show ?thesis by (intro tail) (simp only: list.pred_inject)
  next
    case r: (Cons c r1)
    show ?thesis
    proof (cases "c = CHR ''.''")
      case True
      with "2.prems" r ne have "parse_ip4 s" by (simp add: Let_def split: if_splits)
      then show ?thesis by (rule parse_ip4_host)
    next
      case nd: False
      with "2.prems" r ne have c: "c = CHR '':''" by (simp add: Let_def split: if_splits)
      with "2.prems" r ne nd obtain d r2 where r1: "r1 = d # r2"
        by (cases r1) (simp_all add: Let_def)
      have "list_all host_char r1"
      proof (cases "d = CHR '':''")
        case True
        with "2.prems" r ne nd c r1
        have "\<not> ell" and "r2 = [] \<or> ip6_loop k True r2 = Some ([], free, ell')"
          by (simp_all add: Let_def split: if_splits)
        then have "list_all host_char r2"
          using "2.IH"(1) [OF refl refl ne r nd _ r1 True] c by (cases "r2 = []") simp_all
        then show ?thesis using True by (simp add: r1 host_char_colon)
      next
        case False
        with "2.prems" r ne nd c r1 have "ip6_loop k ell r1 = Some ([], free, ell')"
          by (simp add: Let_def)
        then show ?thesis using "2.IH"(2) [OF refl refl ne r nd _ r1 False] c by simp
      qed
      then show ?thesis using r c by (intro tail) (simp add: host_char_colon)
    qed
  qed
qed simp

lemma parse_ip6_host:
  assumes "parse_ip6 s"
  shows "list_all host_char s"
proof (cases "HasPrefix s ''::''")
  case True
  then obtain t where s: "s = '':'' @ '':'' @ t" by (auto simp: HasPrefix_iff)
  with assms True have "t = [] \<or> (\<exists>free ell. ip6_loop 8 True t = Some ([], free, ell))"
    by (auto simp: parse_ip6_def Let_def split: option.splits if_splits)
  then show ?thesis using ip6_loop_host [of 8 True t] s by (auto simp: host_char_def)
next
  case False
  with assms have "\<exists>free ell. ip6_loop 8 False s = Some ([], free, ell)"
    by (auto simp: parse_ip6_def Let_def split: option.splits)
  then show ?thesis using ip6_loop_host [of 8 False s] by blast
qed

lemma host_label_host: "host_label s \<Longrightarrow> list_all host_char s"
  by (auto simp: host_label_def list_all_iff host_char_def)

lemma hostnameRegex_host: "hostnameRegex_MatchString s \<Longrightarrow> list_all host_char s"
  unfolding hostnameRegex_MatchString_def
  by (rule SplitByte_all [of "CHR ''.''"])
    (auto simp: list_all_iff [of host_label] host_label_host host_char_def)

lemma ValidateSSHHost_host: "ValidateSSHHost h = None \<Longrightarrow> h \<noteq> [] \<and> list_all host_char h"
  using parse_ip4_host [of h] parse_ip6_host [of h] hostnameRegex_host [of h]
  by (auto simp: ValidateSSHHost_def ParseIP_ok_def split: if_splits option.splits)

text \<open>What a registered worker node satisfies.\<close>

definition node_wf :: "Node \<Rightarrow> bool" where
  "node_wf n \<longleftrightarrow>
     3 \<le> length (node_Name n) \<and> length (node_Name n) \<le> 100
     \<and> node_SSHHost n \<noteq> [] \<and> list_all host_char (node_SSHHost n)
     \<and> 1 \<le> node_SSHPort n \<and> node_SSHPort n \<le> 65535 \<and> node_SSHUser n \<noteq> []
     \<and> node_Capabilities n \<noteq> [] \<and> [] \<notin> set (node_Capabilities n)
     \<and> node_CreatorID n \<noteq> 0 \<and> NodeStatus_IsValid (node_Status n)"

lemma NewNode_cases:
  "NewNode now uuid creatorID name sshHost sshUser sshPort caps = Inr n \<Longrightarrow>
     ValidateNodeName name = None \<and> ValidateSSHHost sshHost = None \<and> ValidateSSHPort sshPort = None
     \<and> ValidateSSHUser sshUser = None \<and> ValidateCapabilities caps = None \<and> creatorID \<noteq> 0
     \<and> node_Name n = name \<and> node_SSHHost n = sshHost \<and> node_SSHPort n = sshPort
     \<and> node_SSHUser n = sshUser \<and> node_Capabilities n = caps \<and> node_CreatorID n = creatorID
     \<and> node_Status n = NodeStatusOffline"
  by (auto simp: NewNode_def err_iffs split: if_splits)

text \<open>
  C40: A node that \<open>NewNode\<close> accepts is well formed: its name, port, user, capabilities and creator
  are within the documented bounds, its SSH host is a non-empty string over letters, digits,
  hyphens, dots and colons only (so it can carry no white space, shell or URL metacharacter,
  whether it was accepted as an IPv4 address, an IPv6 address or a host name), and it starts
  offline, hence is not scheduled on before a health check has passed.
\<close>

theorem NewNode_wf:
  assumes "NewNode now uuid creatorID name sshHost sshUser sshPort caps = Inr n"
  shows "node_wf n \<and> \<not> Node_IsAvailable n"
proof -
  note ok = NewNode_cases [OF assms]
  then have "3 \<le> length name" "length name \<le> 100" "1 \<le> sshPort" "sshPort \<le> 65535" "sshUser \<noteq> []"
    "caps \<noteq> []" "[] \<notin> set caps"
    by (auto simp: ValidateNodeName_def ValidateSSHPort_def ValidateSSHUser_def
        ValidateCapabilities_def any_empty_iff split: if_splits)
  with ok ValidateSSHHost_host [of sshHost] show ?thesis
    by (simp add: node_wf_def NodeStatus_IsValid_def Node_IsAvailable_def
        NodeStatus_IsAvailable_def NodeStatusOffline_def NodeStatusOnline_def)
qed

theorem NewNode_wf_witness:
  "\<exists>n. NewNode 0 ''0123456789'' 1 ''edge'' ''fe80::1'' ''root'' 22 [''standard''] = Inr n
     \<and> list_all host_char (node_SSHHost n)"
proof -
  have "\<not> isl (NewNode 0 ''0123456789'' 1 ''edge'' ''fe80::1'' ''root'' 22 [''standard''])"
    by code_simp
  then obtain n where "NewNode 0 ''0123456789'' 1 ''edge'' ''fe80::1'' ''root'' 22 [''standard''] = Inr n"
    by (cases "NewNode 0 ''0123456789'' 1 ''edge'' ''fe80::1'' ''root'' 22 [''standard'']") auto
  then show ?thesis using NewNode_wf by (auto simp: node_wf_def)
qed

section \<open>The printed SSH address\<close>

lemma digits_nat_single: "digits_nat n = [c] \<Longrightarrow> n < 10 \<and> (of_char c :: nat) = 48 + n"
  by (subst (asm) digits_nat.simps) (auto split: if_splits)

lemma utf8_rune_hd:
  "128 \<le> p \<Longrightarrow> p \<le> 65535 \<Longrightarrow> utf8_rune p \<noteq> [] \<and> \<not> is_digit (hd (utf8_rune p))"
  by (auto simp: utf8_rune_def Let_def is_digit_code)

lemma utf8_rune_not_decimal:
  assumes "1 \<le> p" "p \<le> 65535"
  shows "utf8_rune p \<noteq> digits_nat (nat p)"
proof (cases "p < 128")
  case True
  with assms have u: "utf8_rune p = [char_of (nat p)]" by (auto simp: utf8_rune_def Let_def)
  show ?thesis
  proof
    assume "utf8_rune p = digits_nat (nat p)"
    with u digits_nat_single [of "nat p" "char_of (nat p)"]
    have "(of_char (char_of (nat p) :: char) :: nat) = 48 + nat p" by simp
    with True assms show False by simp
  qed
next
  case False
  with assms utf8_rune_hd [of p] digits_nat_digits [of "hd (utf8_rune p)" "nat p"]
  show ?thesis by (metis hd_in_set not_less)
qed

text \<open>
  For no valid port does \<open>Node.SSHAddress\<close> return the dialable \<open>host:port\<close> form: the port is
  converted with \<open>string(rune(port))\<close>, the character of that code point, and this never is
  the decimal rendering.
\<close>

theorem SSHAddress_not_dialable:
  assumes "ValidateSSHPort (node_SSHPort n) = None"
  shows "Node_SSHAddress n \<noteq> JoinHostPort (node_SSHHost n) (fmt_d (node_SSHPort n))"
proof -
  have p: "1 \<le> node_SSHPort n" "node_SSHPort n \<le> 65535"
    using assms by (auto simp: ValidateSSHPort_def split: if_splits)
  then have "fmt_d (node_SSHPort n) = digits_nat (nat (node_SSHPort n))" by (simp add: fmt_d_def)
  with utf8_rune_not_decimal [OF p] show ?thesis
    by (simp add: Node_SSHAddress_def JoinHostPort_def)
qed

theorem SSHAddress_not_dialable_witness:
  "\<exists>n. node_SSHHost n = ''10.0.0.1'' \<and> node_SSHPort n = 22
     \<and> Node_SSHAddress n \<noteq> JoinHostPort (node_SSHHost n) (fmt_d 22)"
proof -
  define n where "n = (undefined :: Node)\<lparr>node_SSHHost := ''10.0.0.1'', node_SSHPort := 22\<rparr>"
  have "ValidateSSHPort (node_SSHPort n) = None" by (simp add: n_def ValidateSSHPort_def)
  from SSHAddress_not_dialable [OF this] show ?thesis by (intro exI [of _ n]) (simp add: n_def)
qed

end
