(* ===== verification/State_Machine.thy ===== *)
theory State_Machine
  imports Go_Prelude
begin

text \<open>
  The contract shared by the status machines of the program (deployments and provisions in
  \<open>internal/core/domain\<close>, the resource machines of \<open>internal/engine\<close>): a table of allowed
  transitions, an executable check of it, and operations that move a record along the table.
  The locales state the contract once; every component interprets them on its own functions.
\<close>

section \<open>Transition tables\<close>

text \<open>A Go map literal from a status to the slice of its successors.\<close>

type_synonym transition_table = "(string \<times> string list) list"

definition table_allows :: "transition_table \<Rightarrow> string \<Rightarrow> string \<Rightarrow> bool" where
  "table_allows tab a b \<longleftrightarrow> (case map_of tab a of None \<Rightarrow> False | Some ts \<Rightarrow> b \<in> set ts)"

definition table_states :: "transition_table \<Rightarrow> string list" where
  "table_states tab = map fst tab"

text \<open>Every successor is a status the table knows.\<close>

definition table_closed :: "transition_table \<Rightarrow> bool" where
  "table_closed tab \<longleftrightarrow> list_all (\<lambda>(_, ts). list_all (\<lambda>t. t \<in> set (table_states tab)) ts) tab"

text \<open>The statuses met on the way from \<open>a\<close> along \<open>ps\<close>.\<close>

fun is_path :: "('s \<Rightarrow> 's \<Rightarrow> bool) \<Rightarrow> 's \<Rightarrow> 's list \<Rightarrow> bool" where
  "is_path can a [] = True"
| "is_path can a (p # ps) = (can a p \<and> is_path can p ps)"

lemma is_path_reach: "is_path can a ps \<Longrightarrow> rtranclp can a (last (a # ps))"
  by (induction ps arbitrary: a) (auto intro: converse_rtranclp_into_rtranclp)

lemma table_allows_states:
  "table_closed tab \<Longrightarrow> table_allows tab a b \<Longrightarrow>
     a \<in> set (table_states tab) \<and> b \<in> set (table_states tab)"
  by (auto simp: table_allows_def table_closed_def list_all_iff table_states_def
      split: option.splits dest!: map_of_SomeD) force

section \<open>The contract of a status machine\<close>

locale status_machine =
  fixes can :: "'s \<Rightarrow> 's \<Rightarrow> bool" and states :: "'s list"
  assumes can_states: "can a b \<Longrightarrow> a \<in> set states \<and> b \<in> set states"
begin

lemma reach_states: "rtranclp can a b \<Longrightarrow> a \<in> set states \<Longrightarrow> b \<in> set states"
  by (induction rule: rtranclp_induct) (auto dest: can_states)

lemma reach_unknown: "rtranclp can a b \<Longrightarrow> a \<notin> set states \<Longrightarrow> b = a"
  by (erule converse_rtranclpE) (auto dest: can_states)

lemma reach_terminal: "rtranclp can a b \<Longrightarrow> \<not> (\<exists>c \<in> set states. can a c) \<Longrightarrow> b = a"
  by (erule converse_rtranclpE) (auto dest: can_states)

text \<open>A set of statuses that no transition leaves is never left.\<close>

lemma reach_trapped:
  "rtranclp can a b \<Longrightarrow> a \<in> S \<Longrightarrow> (\<And>x y. x \<in> S \<Longrightarrow> can x y \<Longrightarrow> y \<in> S) \<Longrightarrow> b \<in> S"
  by (induction rule: rtranclp_induct) auto

text \<open>A status with one predecessor is entered from it only.\<close>

lemma reach_via:
  assumes "rtranclp can a b" and "a \<noteq> b" and "\<And>x. can x b \<Longrightarrow> x = c"
  shows "rtranclp can a c"
  using assms by (metis rtranclp.cases)

end

text \<open>Operations that move a record of type \<open>'a\<close> along the machine.\<close>

locale status_ops = status_machine can states
  for can :: "'s \<Rightarrow> 's \<Rightarrow> bool" and states :: "'s list" +
  fixes status :: "'a \<Rightarrow> 's" and step :: "'a \<Rightarrow> 'a \<Rightarrow> bool"
  assumes step_can: "step x y \<Longrightarrow> status y = status x \<or> can (status x) (status y)"
begin

lemma steps_reach: "rtranclp step x y \<Longrightarrow> rtranclp can (status x) (status y)"
proof (induction rule: rtranclp_induct)
  case base
  then show ?case by simp
next
  case (step y z)
  from step_can [OF step.hyps(2)] show ?case
    by (metis step.IH rtranclp.rtrancl_into_rtrancl)
qed

lemma steps_states: "rtranclp step x y \<Longrightarrow> status x \<in> set states \<Longrightarrow> status y \<in> set states"
  using steps_reach reach_states by blast

lemma steps_terminal:
  "rtranclp step x y \<Longrightarrow> \<not> (\<exists>c \<in> set states. can (status x) c) \<Longrightarrow> status y = status x"
  using steps_reach reach_terminal by blast

end

end
