(* ===== verification/Dom_Deployment.thy ===== *)
theory Dom_Deployment
  imports Dom_Template State_Machine
begin

text \<open>
  \<open>internal/core/domain/deployment.go\<close>: deployments, their status machine, names, domains and
  variable validation. Each call of \<open>time.Now\<close>, \<open>uuid.New\<close> and \<open>rand.Read\<close> is an argument.
\<close>

section \<open>Data\<close>

text \<open>A missing variable is reported with its name wrapped around the sentinel error.\<close>

datatype deployment_error =
    ErrTemplateNotPublished | ErrMissingVariable string | ErrInvalidVariable
  | ErrInvalidTransition | ErrNodeRequired

type_synonym DeploymentStatus = string

definition StatusPending :: DeploymentStatus where [const_defs]: "StatusPending = ''pending''"
definition StatusScheduled :: DeploymentStatus where [const_defs]: "StatusScheduled = ''scheduled''"
definition StatusStarting :: DeploymentStatus where [const_defs]: "StatusStarting = ''starting''"
definition StatusRunning :: DeploymentStatus where [const_defs]: "StatusRunning = ''running''"
definition StatusStopping :: DeploymentStatus where [const_defs]: "StatusStopping = ''stopping''"
definition StatusStopped :: DeploymentStatus where [const_defs]: "StatusStopped = ''stopped''"
definition StatusDeleting :: DeploymentStatus where [const_defs]: "StatusDeleting = ''deleting''"
definition StatusDeleted :: DeploymentStatus where [const_defs]: "StatusDeleted = ''deleted''"
definition StatusFailed :: DeploymentStatus where [const_defs]: "StatusFailed = ''failed''"

type_synonym DomainType = string
definition DomainTypeAuto :: DomainType where [const_defs]: "DomainTypeAuto = ''auto''"
definition DomainTypeCustom :: DomainType where [const_defs]: "DomainTypeCustom = ''custom''"

type_synonym DomainVerificationStatus = string
definition DomainVerificationNone :: DomainVerificationStatus where
  [const_defs]: "DomainVerificationNone = []"
definition DomainVerificationPending :: DomainVerificationStatus where
  [const_defs]: "DomainVerificationPending = ''pending''"
definition DomainVerificationVerified :: DomainVerificationStatus where
  [const_defs]: "DomainVerificationVerified = ''verified''"
definition DomainVerificationFailed :: DomainVerificationStatus where
  [const_defs]: "DomainVerificationFailed = ''failed''"

type_synonym DomainVerificationMethod = string
definition DomainVerificationMethodNone :: DomainVerificationMethod where
  [const_defs]: "DomainVerificationMethodNone = []"
definition DomainVerificationMethodCNAME :: DomainVerificationMethod where
  [const_defs]: "DomainVerificationMethodCNAME = ''cname''"
definition DomainVerificationMethodA :: DomainVerificationMethod where
  [const_defs]: "DomainVerificationMethodA = ''a_record''"

record Domain =
  dom_Hostname :: string
  dom_Type :: DomainType
  dom_SSLEnabled :: bool
  dom_SSLExpiresAt :: "time option"
  dom_VerificationStatus :: DomainVerificationStatus
  dom_VerificationMethod :: DomainVerificationMethod
  dom_VerifiedAt :: "time option"
  dom_LastCheckError :: string

record PortMapping =
  pm_ContainerPort :: int
  pm_HostPort :: int
  pm_Protocol :: string

record ContainerInfo =
  ci_ID :: string
  ci_ServiceName :: string
  ci_Image :: string
  ci_Status :: string
  ci_Ports :: "PortMapping list"

record Deployment =
  dep_ID :: int
  dep_ReferenceID :: string
  dep_Name :: string
  dep_TemplateID :: int
  dep_TemplateRefID :: string
  dep_TemplateVersion :: string
  dep_CustomerID :: int
  dep_NodeID :: string
  dep_Status :: DeploymentStatus
  dep_Variables :: go_strmap
  dep_Domains :: "Domain list"
  dep_Containers :: "ContainerInfo list"
  dep_Resources :: Resources
  dep_ProxyPort :: int
  dep_ErrorMessage :: string
  dep_CreatedAt :: time
  dep_UpdatedAt :: time
  dep_StartedAt :: "time option"
  dep_StoppedAt :: "time option"

section \<open>The state machine\<close>

definition validTransitions :: transition_table where
  "validTransitions =
     [(StatusPending, [StatusScheduled]),
      (StatusScheduled, [StatusStarting]),
      (StatusStarting, [StatusRunning, StatusFailed]),
      (StatusRunning, [StatusStopping, StatusFailed]),
      (StatusStopping, [StatusStopped]),
      (StatusStopped, [StatusStarting, StatusDeleting]),
      (StatusDeleting, [StatusDeleted]),
      (StatusFailed, [StatusStarting, StatusDeleting]),
      (StatusDeleted, [])]"

fun transition_loop :: "string \<Rightarrow> string list \<Rightarrow> deployment_error option" where
  "transition_loop to [] = Some ErrInvalidTransition"
| "transition_loop to (s # ss) = (if s = to then None else transition_loop to ss)"

definition ValidateTransition ::
  "DeploymentStatus \<Rightarrow> DeploymentStatus \<Rightarrow> deployment_error option" where
  "ValidateTransition from to =
     (case map_of validTransitions from of
        None \<Rightarrow> Some ErrInvalidTransition
      | Some allowed \<Rightarrow> transition_loop to allowed)"

text \<open>\<open>now1\<close> is the clock at \<open>UpdatedAt\<close>, \<open>now2\<close> at \<open>StartedAt\<close> or \<open>StoppedAt\<close>.\<close>

definition Deployment_Transition ::
  "time \<Rightarrow> time \<Rightarrow> DeploymentStatus \<Rightarrow> Deployment \<Rightarrow> deployment_error + Deployment" where
  "Deployment_Transition now1 now2 to d =
     guard_err (ValidateTransition (dep_Status d) to)
       (if to = StatusStarting \<and> dep_NodeID d = [] then Inl ErrNodeRequired
        else
          let d1 = d\<lparr>dep_Status := to, dep_UpdatedAt := now1\<rparr>;
              d2 = (if dep_Status d1 = StatusStarting then d1\<lparr>dep_ErrorMessage := []\<rparr> else d1);
              d3 = (if to = StatusRunning then d2\<lparr>dep_StartedAt := Some now2\<rparr> else d2);
              d4 = (if to = StatusStopped then d3\<lparr>dep_StoppedAt := Some now2\<rparr> else d3)
          in Inr d4)"

definition Deployment_TransitionToFailed ::
  "time \<Rightarrow> string \<Rightarrow> Deployment \<Rightarrow> deployment_error + Deployment" where
  "Deployment_TransitionToFailed now errorMessage d =
     (if dep_Status d = StatusStarting \<or> dep_Status d = StatusRunning \<or> dep_Status d = StatusStopping
      then Inr (d\<lparr>dep_Status := StatusFailed, dep_ErrorMessage := errorMessage,
                  dep_UpdatedAt := now\<rparr>)
      else Inl ErrInvalidTransition)"

section \<open>Names, domains, variables\<close>

definition hex_digit :: "nat \<Rightarrow> char" where
  "hex_digit n = (if n < 10 then char_of (48 + n) else char_of (87 + n))"

definition hex_EncodeToString :: "string \<Rightarrow> string" where
  "hex_EncodeToString bs =
     concat (map (\<lambda>b. [hex_digit (of_char b div 16), hex_digit (of_char b mod 16)]) bs)"

definition GenerateDeploymentName :: "string \<Rightarrow> string \<Rightarrow> string" where
  "GenerateDeploymentName suffix templateSlug = templateSlug @ ''-'' @ hex_EncodeToString suffix"

definition GenerateDomain :: "string \<Rightarrow> string \<Rightarrow> Domain" where
  "GenerateDomain deploymentName baseDomain =
     \<lparr>dom_Hostname = Slugify deploymentName @ ''.'' @ baseDomain, dom_Type = DomainTypeAuto,
      dom_SSLEnabled = False, dom_SSLExpiresAt = None,
      dom_VerificationStatus = DomainVerificationNone,
      dom_VerificationMethod = DomainVerificationMethodNone, dom_VerifiedAt = None,
      dom_LastCheckError = []\<rparr>"

definition GenerateDomainForNode :: "string \<Rightarrow> string \<Rightarrow> string \<Rightarrow> Domain" where
  "GenerateDomainForNode deploymentName nodeBaseDomain globalBaseDomain =
     (let baseDomain = (if nodeBaseDomain \<noteq> [] then nodeBaseDomain else globalBaseDomain)
      in GenerateDomain deploymentName baseDomain)"

definition NewCustomDomain :: "string \<Rightarrow> Domain" where
  "NewCustomDomain hostname =
     \<lparr>dom_Hostname = hostname, dom_Type = DomainTypeCustom, dom_SSLEnabled = False,
      dom_SSLExpiresAt = None, dom_VerificationStatus = DomainVerificationPending,
      dom_VerificationMethod = DomainVerificationMethodCNAME, dom_VerifiedAt = None,
      dom_LastCheckError = []\<rparr>"

fun ValidateDeploymentVariables :: "Variable list \<Rightarrow> go_strmap \<Rightarrow> deployment_error list" where
  "ValidateDeploymentVariables [] provided = []"
| "ValidateDeploymentVariables (v # vs) provided =
     (if var_Required v \<and> provided (var_Name v) = None
      then ErrMissingVariable (var_Name v) # ValidateDeploymentVariables vs provided
      else ValidateDeploymentVariables vs provided)"

definition NewDeployment ::
  "time \<Rightarrow> string \<Rightarrow> string \<Rightarrow> Template \<Rightarrow> int \<Rightarrow> go_strmap \<Rightarrow> deployment_error + Deployment" where
  "NewDeployment now uuid suffix template customerID variables =
     (if \<not> tmpl_Published template then Inl ErrTemplateNotPublished
      else let errs = ValidateDeploymentVariables (tmpl_Variables template) variables
           in if 0 < length errs then Inl (hd errs)
              else Inr \<lparr>dep_ID = 0, dep_ReferenceID = uuid,
                dep_Name = GenerateDeploymentName suffix (tmpl_Slug template),
                dep_TemplateID = tmpl_ID template, dep_TemplateRefID = tmpl_ReferenceID template,
                dep_TemplateVersion = tmpl_Version template, dep_CustomerID = customerID,
                dep_NodeID = [], dep_Status = StatusPending, dep_Variables = variables,
                dep_Domains = [], dep_Containers = [],
                dep_Resources = tmpl_ResourceRequirements template, dep_ProxyPort = 0,
                dep_ErrorMessage = [], dep_CreatedAt = now, dep_UpdatedAt = now,
                dep_StartedAt = None, dep_StoppedAt = None\<rparr>)"

section \<open>The table and its check\<close>

lemma dep_status_distinct:
  "distinct [StatusPending, StatusScheduled, StatusStarting, StatusRunning, StatusStopping,
     StatusStopped, StatusDeleting, StatusDeleted, StatusFailed]"
  "distinct [StatusFailed, StatusDeleted, StatusDeleting, StatusStopped, StatusStopping,
     StatusRunning, StatusStarting, StatusScheduled, StatusPending]"
  by (simp_all add: const_defs)

lemmas dep_status_neq [simp] = dep_status_distinct [simplified]

lemma dep_states:
  "table_states validTransitions = [StatusPending, StatusScheduled, StatusStarting, StatusRunning,
     StatusStopping, StatusStopped, StatusDeleting, StatusFailed, StatusDeleted]"
  by (simp add: table_states_def validTransitions_def)

lemma transition_loop_None: "transition_loop to ss = None \<longleftrightarrow> to \<in> set ss"
  by (induction ss) auto

lemma transition_loop_cases: "transition_loop to ss \<in> {None, Some ErrInvalidTransition}"
  by (induction ss) auto

lemma ValidateTransition_None:
  "ValidateTransition a b = None \<longleftrightarrow> table_allows validTransitions a b"
  by (simp add: ValidateTransition_def table_allows_def transition_loop_None split: option.splits)

lemma ValidateTransition_error:
  "ValidateTransition a b \<noteq> None \<Longrightarrow> ValidateTransition a b = Some ErrInvalidTransition"
  using transition_loop_cases [of b "the (map_of validTransitions a)"]
  by (cases "map_of validTransitions a") (auto simp: ValidateTransition_def)

definition can_transition :: "DeploymentStatus \<Rightarrow> DeploymentStatus \<Rightarrow> bool" where
  "can_transition a b \<longleftrightarrow> ValidateTransition a b = None"

lemma validTransitions_closed: "table_closed validTransitions"
  by code_simp

interpretation dsm: status_machine can_transition "table_states validTransitions"
  by unfold_locales
    (use table_allows_states [OF validTransitions_closed] in
      \<open>auto simp: can_transition_def ValidateTransition_None\<close>)

text \<open>The table as a case distinction on the source status.\<close>

lemma can_transition_iff:
  "can_transition a b \<longleftrightarrow>
     (a = StatusPending \<and> b = StatusScheduled) \<or> (a = StatusScheduled \<and> b = StatusStarting)
     \<or> (a = StatusStarting \<and> b \<in> {StatusRunning, StatusFailed})
     \<or> (a = StatusRunning \<and> b \<in> {StatusStopping, StatusFailed})
     \<or> (a = StatusStopping \<and> b = StatusStopped)
     \<or> (a = StatusStopped \<and> b \<in> {StatusStarting, StatusDeleting})
     \<or> (a = StatusDeleting \<and> b = StatusDeleted)
     \<or> (a = StatusFailed \<and> b \<in> {StatusStarting, StatusDeleting})"
  unfolding can_transition_def ValidateTransition_None table_allows_def validTransitions_def
  by auto

section \<open>Life of a deployment\<close>

text \<open>
  The steps a client can take: the two transition methods, and the assignment of a node, which
  clients make to the exported field.
\<close>

inductive dep_step :: "Deployment \<Rightarrow> Deployment \<Rightarrow> bool" where
  transition: "Deployment_Transition t1 t2 to d = Inr d' \<Longrightarrow> dep_step d d'"
| fail: "Deployment_TransitionToFailed t msg d = Inr d' \<Longrightarrow> dep_step d d'"
| assign: "n \<noteq> [] \<Longrightarrow> dep_step d (d\<lparr>dep_NodeID := n\<rparr>)"

lemma Deployment_Transition_Inr:
  "Deployment_Transition t1 t2 to d = Inr d' \<Longrightarrow>
     can_transition (dep_Status d) to \<and> dep_Status d' = to \<and> dep_NodeID d' = dep_NodeID d
     \<and> (to = StatusStarting \<longrightarrow> dep_NodeID d \<noteq> [])
     \<and> dep_ErrorMessage d' = (if to = StatusStarting then [] else dep_ErrorMessage d)
     \<and> dep_StartedAt d' = (if to = StatusRunning then Some t2 else dep_StartedAt d)
     \<and> dep_StoppedAt d' = (if to = StatusStopped then Some t2 else dep_StoppedAt d)"
  by (auto simp: Deployment_Transition_def err_iffs can_transition_def Let_def split: if_splits)

text \<open>What holds of a deployment in each status.\<close>

definition error_free :: "string set" where
  "error_free = {StatusPending, StatusScheduled, StatusStarting, StatusRunning, StatusStopping,
     StatusStopped}"

definition deployment_inv :: "Deployment \<Rightarrow> bool" where
  "deployment_inv d \<longleftrightarrow>
     dep_Status d \<in> set (table_states validTransitions)
     \<and> (dep_Status d \<notin> {StatusPending, StatusScheduled} \<longrightarrow> dep_NodeID d \<noteq> [])
     \<and> (dep_Status d \<in> error_free \<longrightarrow> dep_ErrorMessage d = [])
     \<and> (dep_Status d \<in> {StatusRunning, StatusStopping, StatusStopped} \<longrightarrow> dep_StartedAt d \<noteq> None)
     \<and> (dep_Status d = StatusStopped \<longrightarrow> dep_StoppedAt d \<noteq> None)"

lemma deployment_inv_node:
  "deployment_inv d \<Longrightarrow> dep_Status d \<notin> {StatusPending, StatusScheduled} \<Longrightarrow> dep_NodeID d \<noteq> []"
  by (simp add: deployment_inv_def)

lemma deployment_inv_err:
  "deployment_inv d \<Longrightarrow> dep_Status d \<in> error_free \<Longrightarrow> dep_ErrorMessage d = []"
  by (simp add: deployment_inv_def)

lemma deployment_inv_started:
  "deployment_inv d \<Longrightarrow> dep_Status d \<in> {StatusRunning, StatusStopping, StatusStopped} \<Longrightarrow>
     dep_StartedAt d \<noteq> None"
  unfolding deployment_inv_def by blast

lemma deployment_inv_transition:
  assumes inv: "deployment_inv d" and tr: "Deployment_Transition t1 t2 to d = Inr d'"
  shows "deployment_inv d'"
proof -
  note tr' = Deployment_Transition_Inr [OF tr]
  then have can: "can_transition (dep_Status d) to" and st: "dep_Status d' = to"
    and node: "dep_NodeID d' = dep_NodeID d" "to = StatusStarting \<longrightarrow> dep_NodeID d \<noteq> []"
    and err: "dep_ErrorMessage d' = (if to = StatusStarting then [] else dep_ErrorMessage d)"
    and t: "dep_StartedAt d' = (if to = StatusRunning then Some t2 else dep_StartedAt d)"
      "dep_StoppedAt d' = (if to = StatusStopped then Some t2 else dep_StoppedAt d)"
    by blast+
  note can' = can [unfolded can_transition_iff]
  have "to \<in> set (table_states validTransitions)" using can dsm.can_states by blast
  moreover have "to \<notin> {StatusPending, StatusScheduled} \<longrightarrow> dep_NodeID d \<noteq> []"
    using can' node(2) deployment_inv_node [OF inv] by auto
  moreover have "to \<in> error_free \<longrightarrow> dep_ErrorMessage d' = []"
    using can' err deployment_inv_err [OF inv] by (auto simp: error_free_def)
  moreover have "to \<in> {StatusRunning, StatusStopping, StatusStopped} \<longrightarrow> dep_StartedAt d' \<noteq> None"
    using can' t(1) deployment_inv_started [OF inv] by auto
  moreover have "to = StatusStopped \<longrightarrow> dep_StoppedAt d' \<noteq> None" using t(2) by simp
  ultimately show ?thesis unfolding deployment_inv_def st node(1) by blast
qed

lemma Deployment_TransitionToFailed_Inr:
  "Deployment_TransitionToFailed t msg d = Inr d' \<Longrightarrow>
     dep_Status d \<in> {StatusStarting, StatusRunning, StatusStopping}
     \<and> d' = d\<lparr>dep_Status := StatusFailed, dep_ErrorMessage := msg, dep_UpdatedAt := t\<rparr>"
  unfolding Deployment_TransitionToFailed_def by (simp split: if_splits)

lemma deployment_inv_fail:
  assumes inv: "deployment_inv d" and f: "Deployment_TransitionToFailed t msg d = Inr d'"
  shows "deployment_inv d'"
proof -
  note d' = Deployment_TransitionToFailed_Inr [OF f]
  have "dep_NodeID d \<noteq> []" using d' by (intro deployment_inv_node [OF inv]) auto
  with d' show ?thesis by (simp add: deployment_inv_def dep_states error_free_def)
qed

lemma deployment_inv_step: "dep_step d d' \<Longrightarrow> deployment_inv d \<Longrightarrow> deployment_inv d'"
proof (induction rule: dep_step.induct)
  case (transition t1 t2 to d d')
  then show ?case by (blast intro: deployment_inv_transition)
next
  case (fail t msg d d')
  then show ?case by (blast intro: deployment_inv_fail)
next
  case (assign n d)
  then show ?case by (simp add: deployment_inv_def)
qed

lemma NewDeployment_inv: "NewDeployment t u s tmpl c vars = Inr d \<Longrightarrow> deployment_inv d"
  by (auto simp: NewDeployment_def deployment_inv_def Let_def dep_states split: if_splits)

text \<open>The two transition methods on their own follow the table, except one edge of \<open>TransitionToFailed\<close>.\<close>

definition can_move :: "DeploymentStatus \<Rightarrow> DeploymentStatus \<Rightarrow> bool" where
  "can_move a b \<longleftrightarrow> can_transition a b \<or> (a = StatusStopping \<and> b = StatusFailed)"

interpretation dops: status_ops can_move "table_states validTransitions" dep_Status dep_step
proof unfold_locales
  show "a \<in> set (table_states validTransitions) \<and> b \<in> set (table_states validTransitions)"
    if "can_move a b" for a b
    using that dsm.can_states [of a b] by (auto simp: can_move_def dep_states)
  show "dep_Status y = dep_Status x \<or> can_move (dep_Status x) (dep_Status y)" if "dep_step x y" for x y
    using that
  proof cases
    case (transition t1 t2 to)
    from Deployment_Transition_Inr [OF this] show ?thesis by (auto simp: can_move_def)
  next
    case (fail t msg)
    from Deployment_TransitionToFailed_Inr [OF this]
    have "dep_Status x \<in> {StatusStarting, StatusRunning, StatusStopping}" "dep_Status y = StatusFailed"
      by simp_all
    then show ?thesis unfolding can_move_def can_transition_iff by blast
  qed simp
qed

lemma deleted_terminal: "\<not> can_move StatusDeleted b"
  by (simp add: can_move_def can_transition_iff)

text \<open>
  C10: Every deployment that starts with \<open>NewDeployment\<close> and lives by \<open>Transition\<close>,
  \<open>TransitionToFailed\<close> and node assignments keeps the life-cycle invariant: its status is one
  of the nine, it has a node in every status past \<open>scheduled\<close>, it carries no error message
  unless it failed or is being deleted, a running, stopping or stopped deployment has a start
  time and a stopped one a stop time. Once \<open>deleted\<close> it stays deleted.
\<close>

theorem Deployment_lifecycle:
  assumes "NewDeployment t u sfx tmpl c vars = Inr d0" and "rtranclp dep_step d0 d"
  shows "deployment_inv d
    \<and> (\<forall>d'. rtranclp dep_step d d' \<longrightarrow> dep_Status d = StatusDeleted \<longrightarrow> dep_Status d' = StatusDeleted)"
proof -
  from assms(2) have "deployment_inv d"
    by (induction rule: rtranclp_induct)
      (auto intro: NewDeployment_inv [OF assms(1)] deployment_inv_step)
  then show ?thesis using dops.steps_terminal deleted_terminal by metis
qed

definition demo_template :: Template where
  "demo_template = \<lparr>tmpl_ID = 1, tmpl_ReferenceID = ''tmpl_1'', tmpl_Name = ''web'',
     tmpl_Slug = ''web'', tmpl_Description = [], tmpl_Version = ''1.0.0'',
     tmpl_ComposeSpec = ''services:'', tmpl_Variables = [], tmpl_ConfigFiles = [],
     tmpl_ResourceRequirements = zero_Resources, tmpl_RequiredCapabilities = [],
     tmpl_PriceMonthly = 0, tmpl_Category = [], tmpl_Tags = [], tmpl_Published = True,
     tmpl_CreatorID = 1, tmpl_CreatorRefID = [], tmpl_CreatedAt = 0, tmpl_UpdatedAt = 0\<rparr>"

theorem Deployment_lifecycle_witness:
  "\<exists>d0 d1. NewDeployment 0 ''u'' ''abc'' demo_template 7 Map.empty = Inr d0
     \<and> Deployment_Transition 1 1 StatusScheduled d0 = Inr d1 \<and> deployment_inv d1"
proof -
  obtain d0 where d0: "NewDeployment 0 ''u'' ''abc'' demo_template 7 Map.empty = Inr d0"
    and st: "dep_Status d0 = StatusPending"
    by (auto simp: NewDeployment_def demo_template_def Let_def)
  then have "ValidateTransition (dep_Status d0) StatusScheduled = None"
    by (simp add: ValidateTransition_None table_allows_def validTransitions_def)
  then obtain d1 where d1: "Deployment_Transition 1 1 StatusScheduled d0 = Inr d1"
    by (simp add: Deployment_Transition_def Let_def)
  with Deployment_lifecycle [OF d0, of d1] d0 show ?thesis
    by (blast intro: dep_step.transition r_into_rtranclp)
qed

text \<open>
  \<open>Transition\<close> succeeds exactly when the table allows the move and, for a move to
  \<open>starting\<close>, a node is assigned; otherwise it returns \<open>ErrInvalidTransition\<close> (checked first) or
  \<open>ErrNodeRequired\<close>.
\<close>

theorem Deployment_Transition_result:
  "Deployment_Transition t1 t2 to d =
     (if \<not> table_allows validTransitions (dep_Status d) to then Inl ErrInvalidTransition
      else if to = StatusStarting \<and> dep_NodeID d = [] then Inl ErrNodeRequired
      else Inr (d\<lparr>dep_Status := to, dep_UpdatedAt := t1,
        dep_ErrorMessage := (if to = StatusStarting then [] else dep_ErrorMessage d),
        dep_StartedAt := (if to = StatusRunning then Some t2 else dep_StartedAt d),
        dep_StoppedAt := (if to = StatusStopped then Some t2 else dep_StoppedAt d)\<rparr>))"
proof (cases "table_allows validTransitions (dep_Status d) to")
  case True
  then have "ValidateTransition (dep_Status d) to = None" by (simp add: ValidateTransition_None)
  with True show ?thesis by (simp add: Deployment_Transition_def Let_def)
next
  case False
  then have "ValidateTransition (dep_Status d) to = Some ErrInvalidTransition"
    by (intro ValidateTransition_error) (simp add: ValidateTransition_None)
  with False show ?thesis by (simp add: Deployment_Transition_def)
qed

definition shutdown_paths :: "(string \<times> string list) list" where
  "shutdown_paths =
     (let tail = [StatusStopping, StatusStopped, StatusDeleting, StatusDeleted];
          up = [StatusRunning] @ tail
      in [(StatusPending, [StatusScheduled, StatusStarting] @ up),
          (StatusScheduled, StatusStarting # up), (StatusStarting, up), (StatusRunning, tail),
          (StatusStopping, tl tail), (StatusStopped, [StatusDeleting, StatusDeleted]),
          (StatusDeleting, [StatusDeleted]), (StatusFailed, [StatusDeleting, StatusDeleted]),
          (StatusDeleted, [])])"

lemma shutdown_paths_ok:
  "list_all (\<lambda>(s, p). is_path can_transition s p \<and> last (s # p) = StatusDeleted) shutdown_paths
   \<and> map fst shutdown_paths = table_states validTransitions"
  by code_simp

text \<open>
  From every known status a sequence of allowed transitions leads to \<open>deleted\<close>, a status
  outside the table never changes, and \<open>deleted\<close> is entered through \<open>deleting\<close> only.
\<close>

theorem deleted_reachable:
  "(\<exists>p. is_path can_transition s p \<and> last (s # p) = StatusDeleted)
     = (s \<in> set (table_states validTransitions))
   \<and> (rtranclp can_transition s StatusDeleted \<and> s \<noteq> StatusDeleted
        \<longrightarrow> rtranclp can_transition s StatusDeleting)"
proof
  show "(\<exists>p. is_path can_transition s p \<and> last (s # p) = StatusDeleted)
     = (s \<in> set (table_states validTransitions))" (is "?L = ?R")
  proof
    assume ?L
    then have "rtranclp can_transition s StatusDeleted" using is_path_reach by fastforce
    then show ?R using dsm.reach_unknown [of s] by (fastforce simp: dep_states)
  next
    assume ?R
    then obtain p where "(s, p) \<in> set shutdown_paths"
      using shutdown_paths_ok by (metis (no_types, lifting) imageE list.set_map prod.collapse)
    then show ?L using shutdown_paths_ok unfolding list_all_iff by blast
  qed
  show "rtranclp can_transition s StatusDeleted \<and> s \<noteq> StatusDeleted
        \<longrightarrow> rtranclp can_transition s StatusDeleting"
    using dsm.reach_via [of s StatusDeleted StatusDeleting] by (auto simp: can_transition_iff)
qed

theorem deleted_reachable_witness:
  "rtranclp can_transition StatusFailed StatusDeleted
   \<and> rtranclp can_transition StatusFailed StatusDeleting"
proof -
  have "rtranclp can_transition StatusFailed StatusDeleted"
    using is_path_reach [of can_transition StatusFailed "[StatusDeleting, StatusDeleted]"]
    by (simp add: can_transition_iff)
  then show ?thesis using deleted_reachable [of StatusFailed] by simp
qed

lemma ValidateDeploymentVariables_eq:
  "ValidateDeploymentVariables vs p =
     map (\<lambda>v. ErrMissingVariable (var_Name v))
       (filter (\<lambda>v. var_Required v \<and> p (var_Name v) = None) vs)"
  by (induction vs) auto

text \<open>
  \<open>NewDeployment\<close> succeeds exactly for a published template all of whose required variables
  are provided, and then the deployment is pending, owned by the customer, pinned to the
  template version and to its resource requirements; the error of the first missing variable
  is the one reported otherwise.
\<close>

theorem NewDeployment_result:
  "(case NewDeployment now u sfx tmpl c vars of
      Inr d \<Rightarrow> tmpl_Published tmpl
        \<and> (\<forall>v \<in> set (tmpl_Variables tmpl). var_Required v \<longrightarrow> var_Name v \<in> dom vars)
        \<and> dep_Status d = StatusPending \<and> dep_CustomerID d = c \<and> dep_Variables d = vars
        \<and> dep_TemplateVersion d = tmpl_Version tmpl
        \<and> dep_Resources d = tmpl_ResourceRequirements tmpl
    | Inl e \<Rightarrow>
        (e = ErrTemplateNotPublished \<and> \<not> tmpl_Published tmpl)
        \<or> (\<exists>xs v ys. tmpl_Published tmpl \<and> tmpl_Variables tmpl = xs @ v # ys
             \<and> (\<forall>x \<in> set xs. var_Required x \<longrightarrow> var_Name x \<in> dom vars)
             \<and> var_Required v \<and> var_Name v \<notin> dom vars \<and> e = ErrMissingVariable (var_Name v)))"
proof -
  let ?bad = "\<lambda>v. var_Required v \<and> vars (var_Name v) = None"
  let ?errs = "filter ?bad (tmpl_Variables tmpl)"
  show ?thesis
  proof (cases "tmpl_Published tmpl")
    case False
    then show ?thesis by (simp add: NewDeployment_def)
  next
    case pub: True
    show ?thesis
    proof (cases ?errs)
      case Nil
      then have "\<forall>v \<in> set (tmpl_Variables tmpl). var_Required v \<longrightarrow> var_Name v \<in> dom vars"
        by (auto simp: filter_empty_conv)
      with pub Nil show ?thesis
        by (simp add: NewDeployment_def ValidateDeploymentVariables_eq Let_def)
    next
      case (Cons v r)
      then obtain xs ys where vs: "tmpl_Variables tmpl = xs @ v # ys"
        and xs: "\<forall>x \<in> set xs. \<not> ?bad x" and v: "?bad v"
        by (auto simp: filter_eq_Cons_iff)
      from pub Cons have "NewDeployment now u sfx tmpl c vars = Inl (ErrMissingVariable (var_Name v))"
        by (simp add: NewDeployment_def ValidateDeploymentVariables_eq Let_def)
      moreover have "\<forall>x \<in> set xs. var_Required x \<longrightarrow> var_Name x \<in> dom vars" using xs by auto
      ultimately show ?thesis using pub vs v by auto
    qed
  qed
qed

definition strict_template :: Template where
  "strict_template = demo_template\<lparr>tmpl_Variables :=
     [\<lparr>var_Name = ''DB_PASSWORD'', var_Label = [], var_Description = [], var_Type = VarTypePassword,
       var_Default = [], var_Required = True, var_Options = [], var_Validation = []\<rparr>]\<rparr>"

theorem NewDeployment_result_witness:
  "NewDeployment 0 ''u'' ''abc'' strict_template 7 Map.empty = Inl (ErrMissingVariable ''DB_PASSWORD'')
   \<and> (\<exists>d. NewDeployment 0 ''u'' ''abc'' strict_template 7 [''DB_PASSWORD'' \<mapsto> ''x''] = Inr d
        \<and> dep_Status d = StatusPending \<and> dep_TemplateVersion d = ''1.0.0'')"
proof -
  have e: "NewDeployment 0 ''u'' ''abc'' strict_template 7 Map.empty
      = Inl (ErrMissingVariable ''DB_PASSWORD'')"
    by (simp add: NewDeployment_def strict_template_def demo_template_def)
  obtain d where d: "NewDeployment 0 ''u'' ''abc'' strict_template 7 [''DB_PASSWORD'' \<mapsto> ''x''] = Inr d"
    by (simp add: NewDeployment_def strict_template_def demo_template_def)
  from NewDeployment_result [where now = 0 and u = "''u''" and sfx = "''abc''" and c = 7
      and tmpl = strict_template and vars = "[''DB_PASSWORD'' \<mapsto> ''x'']"] d e
  show ?thesis by (simp add: strict_template_def demo_template_def)
qed

end
