(* ===== verification/Dom_Cloud.thy ===== *)
theory Dom_Cloud
  imports State_Machine
begin

text \<open>
  \<open>internal/core/domain/cloud.go\<close>: cloud provider types, credentials, and the provisioning job
  with its status machine.
\<close>

section \<open>Data\<close>

datatype cloud_error =
    ErrCredentialNameRequired | ErrCredentialNameTooShort | ErrCredentialNameTooLong
  | ErrInvalidProviderType | ErrCredentialsRequired
  | ErrProvisionInstanceNameRequired | ErrProvisionRegionRequired | ErrProvisionSizeRequired
  | ErrProvisionCredentialRequired | ErrInvalidProvisionTransition | ErrCreatorIDRequired

type_synonym ProviderType = string

definition ProviderAWS :: ProviderType where [const_defs]: "ProviderAWS = ''aws''"
definition ProviderDigitalOcean :: ProviderType where
  [const_defs]: "ProviderDigitalOcean = ''digitalocean''"
definition ProviderHetzner :: ProviderType where [const_defs]: "ProviderHetzner = ''hetzner''"

definition ProviderType_IsValid :: "ProviderType \<Rightarrow> bool" where
  "ProviderType_IsValid p \<longleftrightarrow> p = ProviderAWS \<or> p = ProviderDigitalOcean \<or> p = ProviderHetzner"

definition ProviderType_DisplayName :: "ProviderType \<Rightarrow> string" where
  "ProviderType_DisplayName p =
     (if p = ProviderAWS then ''AWS'' else if p = ProviderDigitalOcean then ''DigitalOcean''
      else if p = ProviderHetzner then ''Hetzner'' else p)"

record CloudCredential =
  cred_ID :: int
  cred_ReferenceID :: string
  cred_CreatorID :: int
  cred_Name :: string
  cred_Provider :: ProviderType
  cred_CredentialsEncrypted :: string
  cred_DefaultRegion :: string
  cred_CreatedAt :: time
  cred_UpdatedAt :: time

definition GenerateCredentialID :: "string \<Rightarrow> string" where
  "GenerateCredentialID uuid = ''cred_'' @ take 8 uuid"

definition ValidateCredentialName :: "string \<Rightarrow> cloud_error option" where
  "ValidateCredentialName name =
     (if name = [] then Some ErrCredentialNameRequired
      else if length name < 3 then Some ErrCredentialNameTooShort
      else if 100 < length name then Some ErrCredentialNameTooLong
      else None)"

definition NewCloudCredential ::
  "time \<Rightarrow> string \<Rightarrow> int \<Rightarrow> string \<Rightarrow> ProviderType \<Rightarrow> string \<Rightarrow> string \<Rightarrow> cloud_error + CloudCredential"
where
  "NewCloudCredential now uuid creatorID name provider encryptedCreds defaultRegion =
     guard_err (ValidateCredentialName name)
       (if \<not> ProviderType_IsValid provider then Inl ErrInvalidProviderType
        else if length encryptedCreds = 0 then Inl ErrCredentialsRequired
        else if creatorID = 0 then Inl ErrCreatorIDRequired
        else Inr \<lparr>cred_ID = 0, cred_ReferenceID = GenerateCredentialID uuid,
          cred_CreatorID = creatorID, cred_Name = name, cred_Provider = provider,
          cred_CredentialsEncrypted = encryptedCreds, cred_DefaultRegion = defaultRegion,
          cred_CreatedAt = now, cred_UpdatedAt = now\<rparr>)"

section \<open>Provision status\<close>

type_synonym ProvisionStatus = string

definition ProvisionStatusPending :: ProvisionStatus where
  [const_defs]: "ProvisionStatusPending = ''pending''"
definition ProvisionStatusCreating :: ProvisionStatus where
  [const_defs]: "ProvisionStatusCreating = ''creating''"
definition ProvisionStatusConfiguring :: ProvisionStatus where
  [const_defs]: "ProvisionStatusConfiguring = ''configuring''"
definition ProvisionStatusReady :: ProvisionStatus where
  [const_defs]: "ProvisionStatusReady = ''ready''"
definition ProvisionStatusFailed :: ProvisionStatus where
  [const_defs]: "ProvisionStatusFailed = ''failed''"
definition ProvisionStatusDestroying :: ProvisionStatus where
  [const_defs]: "ProvisionStatusDestroying = ''destroying''"
definition ProvisionStatusDestroyed :: ProvisionStatus where
  [const_defs]: "ProvisionStatusDestroyed = ''destroyed''"

definition ProvisionStatus_IsValid :: "ProvisionStatus \<Rightarrow> bool" where
  "ProvisionStatus_IsValid s \<longleftrightarrow>
     s = ProvisionStatusPending \<or> s = ProvisionStatusCreating \<or> s = ProvisionStatusConfiguring
     \<or> s = ProvisionStatusReady \<or> s = ProvisionStatusFailed \<or> s = ProvisionStatusDestroying
     \<or> s = ProvisionStatusDestroyed"

definition ProvisionStatus_IsTerminal :: "ProvisionStatus \<Rightarrow> bool" where
  "ProvisionStatus_IsTerminal s \<longleftrightarrow> s = ProvisionStatusDestroyed"

definition ProvisionStatus_IsActive :: "ProvisionStatus \<Rightarrow> bool" where
  "ProvisionStatus_IsActive s \<longleftrightarrow>
     s = ProvisionStatusPending \<or> s = ProvisionStatusCreating \<or> s = ProvisionStatusConfiguring
     \<or> s = ProvisionStatusDestroying"

definition validProvisionTransitions :: transition_table where
  "validProvisionTransitions =
     [(ProvisionStatusPending, [ProvisionStatusCreating, ProvisionStatusFailed]),
      (ProvisionStatusCreating, [ProvisionStatusConfiguring, ProvisionStatusFailed]),
      (ProvisionStatusConfiguring, [ProvisionStatusReady, ProvisionStatusFailed]),
      (ProvisionStatusReady, [ProvisionStatusDestroying]),
      (ProvisionStatusFailed, [ProvisionStatusPending, ProvisionStatusDestroying]),
      (ProvisionStatusDestroying, [ProvisionStatusDestroyed, ProvisionStatusFailed]),
      (ProvisionStatusDestroyed, [])]"

fun provision_transition_loop :: "string \<Rightarrow> string list \<Rightarrow> cloud_error option" where
  "provision_transition_loop to [] = Some ErrInvalidProvisionTransition"
| "provision_transition_loop to (s # ss) =
     (if s = to then None else provision_transition_loop to ss)"

definition ValidateProvisionTransition ::
  "ProvisionStatus \<Rightarrow> ProvisionStatus \<Rightarrow> cloud_error option" where
  "ValidateProvisionTransition from to =
     (case map_of validProvisionTransitions from of
        None \<Rightarrow> Some ErrInvalidProvisionTransition
      | Some allowed \<Rightarrow> provision_transition_loop to allowed)"

section \<open>Cloud provision\<close>

record CloudProvision =
  prov_ID :: int
  prov_ReferenceID :: string
  prov_CreatorID :: int
  prov_CredentialID :: int
  prov_CredentialRefID :: string
  prov_Provider :: ProviderType
  prov_Status :: ProvisionStatus
  prov_InstanceName :: string
  prov_Region :: string
  prov_Size :: string
  prov_ProviderInstanceID :: string
  prov_PublicIP :: string
  prov_NodeID :: string
  prov_SSHKeyID :: string
  prov_CurrentStep :: string
  prov_ErrorMessage :: string
  prov_CreatedAt :: time
  prov_UpdatedAt :: time
  prov_CompletedAt :: "time option"

definition GenerateProvisionID :: "string \<Rightarrow> string" where
  "GenerateProvisionID uuid = ''prov_'' @ take 8 uuid"

definition NewCloudProvision ::
  "time \<Rightarrow> string \<Rightarrow> int \<Rightarrow> int \<Rightarrow> ProviderType \<Rightarrow> string \<Rightarrow> string \<Rightarrow> string
     \<Rightarrow> cloud_error + CloudProvision" where
  "NewCloudProvision now uuid creatorID credentialID provider instanceName region sz =
     (if creatorID = 0 then Inl ErrCreatorIDRequired
      else if credentialID = 0 then Inl ErrProvisionCredentialRequired
      else if \<not> ProviderType_IsValid provider then Inl ErrInvalidProviderType
      else if instanceName = [] then Inl ErrProvisionInstanceNameRequired
      else if region = [] then Inl ErrProvisionRegionRequired
      else if sz = [] then Inl ErrProvisionSizeRequired
      else Inr \<lparr>prov_ID = 0, prov_ReferenceID = GenerateProvisionID uuid,
        prov_CreatorID = creatorID, prov_CredentialID = credentialID, prov_CredentialRefID = [],
        prov_Provider = provider, prov_Status = ProvisionStatusPending,
        prov_InstanceName = instanceName, prov_Region = region, prov_Size = sz,
        prov_ProviderInstanceID = [], prov_PublicIP = [], prov_NodeID = [], prov_SSHKeyID = [],
        prov_CurrentStep = [], prov_ErrorMessage = [], prov_CreatedAt = now, prov_UpdatedAt = now,
        prov_CompletedAt = None\<rparr>)"

definition CloudProvision_Transition ::
  "time \<Rightarrow> time \<Rightarrow> ProvisionStatus \<Rightarrow> CloudProvision \<Rightarrow> cloud_error + CloudProvision" where
  "CloudProvision_Transition now1 now2 to p =
     guard_err (ValidateProvisionTransition (prov_Status p) to)
       (let p1 = p\<lparr>prov_Status := to, prov_UpdatedAt := now1\<rparr>;
            p2 = (if to = ProvisionStatusReady \<or> to = ProvisionStatusDestroyed
                  then p1\<lparr>prov_CompletedAt := Some now2\<rparr> else p1);
            p3 = (if to = ProvisionStatusPending
                  then p2\<lparr>prov_ErrorMessage := [], prov_CurrentStep := []\<rparr> else p2)
        in Inr p3)"

definition CloudProvision_TransitionToFailed ::
  "time \<Rightarrow> string \<Rightarrow> CloudProvision \<Rightarrow> cloud_error + CloudProvision" where
  "CloudProvision_TransitionToFailed now errorMessage p =
     guard_err (ValidateProvisionTransition (prov_Status p) ProvisionStatusFailed)
       (Inr (p\<lparr>prov_Status := ProvisionStatusFailed, prov_ErrorMessage := errorMessage,
               prov_UpdatedAt := now\<rparr>))"

definition CloudProvision_SetStep :: "time \<Rightarrow> string \<Rightarrow> CloudProvision \<Rightarrow> CloudProvision" where
  "CloudProvision_SetStep now step p = p\<lparr>prov_CurrentStep := step, prov_UpdatedAt := now\<rparr>"

section \<open>The machine\<close>

lemma prov_status_distinct:
  "distinct [ProvisionStatusPending, ProvisionStatusCreating, ProvisionStatusConfiguring,
     ProvisionStatusReady, ProvisionStatusFailed, ProvisionStatusDestroying,
     ProvisionStatusDestroyed]"
  "distinct [ProvisionStatusDestroyed, ProvisionStatusDestroying, ProvisionStatusFailed,
     ProvisionStatusReady, ProvisionStatusConfiguring, ProvisionStatusCreating,
     ProvisionStatusPending]"
  by (simp_all add: const_defs)

lemmas prov_status_neq [simp] = prov_status_distinct [simplified]

lemma provision_transition_loop_None: "provision_transition_loop to ss = None \<longleftrightarrow> to \<in> set ss"
  by (induction ss) auto

lemma ValidateProvisionTransition_None:
  "ValidateProvisionTransition a b = None \<longleftrightarrow> table_allows validProvisionTransitions a b"
  by (simp add: ValidateProvisionTransition_def table_allows_def provision_transition_loop_None
      split: option.splits)

definition can_provision :: "ProvisionStatus \<Rightarrow> ProvisionStatus \<Rightarrow> bool" where
  "can_provision a b \<longleftrightarrow> ValidateProvisionTransition a b = None"

lemma validProvisionTransitions_closed: "table_closed validProvisionTransitions"
  by code_simp

lemma prov_states:
  "table_states validProvisionTransitions = [ProvisionStatusPending, ProvisionStatusCreating,
     ProvisionStatusConfiguring, ProvisionStatusReady, ProvisionStatusFailed,
     ProvisionStatusDestroying, ProvisionStatusDestroyed]"
  by (simp add: table_states_def validProvisionTransitions_def)

lemma can_provision_iff:
  "can_provision a b \<longleftrightarrow>
     (a = ProvisionStatusPending \<and> b \<in> {ProvisionStatusCreating, ProvisionStatusFailed})
     \<or> (a = ProvisionStatusCreating \<and> b \<in> {ProvisionStatusConfiguring, ProvisionStatusFailed})
     \<or> (a = ProvisionStatusConfiguring \<and> b \<in> {ProvisionStatusReady, ProvisionStatusFailed})
     \<or> (a = ProvisionStatusReady \<and> b = ProvisionStatusDestroying)
     \<or> (a = ProvisionStatusFailed \<and> b \<in> {ProvisionStatusPending, ProvisionStatusDestroying})
     \<or> (a = ProvisionStatusDestroying \<and> b \<in> {ProvisionStatusDestroyed, ProvisionStatusFailed})"
  unfolding can_provision_def ValidateProvisionTransition_None table_allows_def
    validProvisionTransitions_def by auto

text \<open>Every step of a provisioning job: the three methods.\<close>

inductive prov_step :: "CloudProvision \<Rightarrow> CloudProvision \<Rightarrow> bool" where
  transition: "CloudProvision_Transition t1 t2 to p = Inr p' \<Longrightarrow> prov_step p p'"
| fail: "CloudProvision_TransitionToFailed t msg p = Inr p' \<Longrightarrow> prov_step p p'"
| set_step: "prov_step p (CloudProvision_SetStep t s p)"

lemma CloudProvision_Transition_Inr:
  "CloudProvision_Transition t1 t2 to p = Inr p' \<Longrightarrow>
     can_provision (prov_Status p) to \<and> prov_Status p' = to
     \<and> prov_CompletedAt p' =
        (if to = ProvisionStatusReady \<or> to = ProvisionStatusDestroyed then Some t2
         else prov_CompletedAt p)
     \<and> prov_ErrorMessage p' = (if to = ProvisionStatusPending then [] else prov_ErrorMessage p)
     \<and> prov_CurrentStep p' = (if to = ProvisionStatusPending then [] else prov_CurrentStep p)"
  by (auto simp: CloudProvision_Transition_def err_iffs can_provision_def Let_def)

lemma CloudProvision_TransitionToFailed_Inr:
  "CloudProvision_TransitionToFailed t msg p = Inr p' \<Longrightarrow>
     can_provision (prov_Status p) ProvisionStatusFailed
     \<and> p' = p\<lparr>prov_Status := ProvisionStatusFailed, prov_ErrorMessage := msg, prov_UpdatedAt := t\<rparr>"
  by (simp add: CloudProvision_TransitionToFailed_def err_iffs can_provision_def)

interpretation psm: status_ops can_provision "table_states validProvisionTransitions"
  prov_Status prov_step
proof unfold_locales
  show "a \<in> set (table_states validProvisionTransitions)
      \<and> b \<in> set (table_states validProvisionTransitions)" if "can_provision a b" for a b
    using that table_allows_states [OF validProvisionTransitions_closed]
    by (simp add: can_provision_def ValidateProvisionTransition_None)
  show "prov_Status y = prov_Status x \<or> can_provision (prov_Status x) (prov_Status y)"
    if "prov_step x y" for x y
    using that
  proof cases
    case (transition t1 t2 to)
    from CloudProvision_Transition_Inr [OF this] show ?thesis by blast
  next
    case (fail t msg)
    from CloudProvision_TransitionToFailed_Inr [OF this] show ?thesis by simp
  next
    case (set_step t s)
    then show ?thesis by (simp add: CloudProvision_SetStep_def)
  qed
qed

definition provision_inv :: "CloudProvision \<Rightarrow> bool" where
  "provision_inv p \<longleftrightarrow> ProvisionStatus_IsValid (prov_Status p)
     \<and> (prov_Status p \<in> {ProvisionStatusReady, ProvisionStatusDestroyed} \<longrightarrow>
          prov_CompletedAt p \<noteq> None)
     \<and> (prov_Status p \<in> {ProvisionStatusPending, ProvisionStatusCreating,
          ProvisionStatusConfiguring, ProvisionStatusReady} \<longrightarrow> prov_ErrorMessage p = [])"

lemma IsValid_states:
  "ProvisionStatus_IsValid s \<longleftrightarrow> s \<in> set (table_states validProvisionTransitions)"
  by (auto simp: ProvisionStatus_IsValid_def prov_states)

lemma provision_inv_transition:
  assumes inv: "provision_inv p" and tr: "CloudProvision_Transition t1 t2 to p = Inr p'"
  shows "provision_inv p'"
proof -
  note tr' = CloudProvision_Transition_Inr [OF tr]
  then have can: "can_provision (prov_Status p) to" and st: "prov_Status p' = to"
    and compl: "to \<in> {ProvisionStatusReady, ProvisionStatusDestroyed} \<longrightarrow> prov_CompletedAt p' \<noteq> None"
    and err: "prov_ErrorMessage p' = (if to = ProvisionStatusPending then [] else prov_ErrorMessage p)"
    by auto
  have "ProvisionStatus_IsValid to" using can psm.can_states IsValid_states by blast
  moreover have "to \<in> {ProvisionStatusPending, ProvisionStatusCreating,
      ProvisionStatusConfiguring, ProvisionStatusReady} \<longrightarrow> prov_ErrorMessage p' = []"
    using can [unfolded can_provision_iff] err inv [unfolded provision_inv_def] by auto
  ultimately show ?thesis using compl unfolding provision_inv_def st by blast
qed

lemma provision_inv_step: "prov_step p p' \<Longrightarrow> provision_inv p \<Longrightarrow> provision_inv p'"
proof (induction rule: prov_step.induct)
  case (transition t1 t2 to p p')
  then show ?case by (blast intro: provision_inv_transition)
next
  case (fail t msg p p')
  from CloudProvision_TransitionToFailed_Inr [OF fail(1)] show ?case
    by (simp add: provision_inv_def ProvisionStatus_IsValid_def)
next
  case (set_step p t s)
  then show ?case by (simp add: provision_inv_def CloudProvision_SetStep_def)
qed

lemma NewCloudProvision_inv:
  "NewCloudProvision t u c k pr n r s = Inr p \<Longrightarrow>
     provision_inv p \<and> prov_Status p = ProvisionStatusPending"
  by (auto simp: NewCloudProvision_def provision_inv_def ProvisionStatus_IsValid_def
      split: if_splits)

lemma destroyed_terminal: "\<not> can_provision ProvisionStatusDestroyed s"
  by (simp add: can_provision_iff)

text \<open>
  A provisioning job that starts with \<open>NewCloudProvision\<close> and lives by \<open>Transition\<close>,
  \<open>TransitionToFailed\<close> and \<open>SetStep\<close> always has a valid status, a completion time when it is
  ready or destroyed, and no error message while it makes progress. The status that
  \<open>IsTerminal\<close> names is the only one without a successor and is never left.
\<close>

theorem CloudProvision_lifecycle:
  assumes "NewCloudProvision t u c k pr n r s = Inr p0" and "rtranclp prov_step p0 p"
  shows "provision_inv p
    \<and> (ProvisionStatus_IsTerminal (prov_Status p) \<longleftrightarrow>
         (\<forall>to. ValidateProvisionTransition (prov_Status p) to \<noteq> None))
    \<and> (\<forall>p'. ProvisionStatus_IsTerminal (prov_Status p) \<longrightarrow> rtranclp prov_step p p'
         \<longrightarrow> prov_Status p' = prov_Status p)"
proof -
  from assms(2) have inv: "provision_inv p"
    by (induction rule: rtranclp_induct)
      (use NewCloudProvision_inv [OF assms(1)] provision_inv_step in blast)+
  then have v: "ProvisionStatus_IsValid (prov_Status p)" by (simp add: provision_inv_def)
  have "ProvisionStatus_IsTerminal (prov_Status p) \<longleftrightarrow> (\<forall>to. \<not> can_provision (prov_Status p) to)"
    using v unfolding ProvisionStatus_IsTerminal_def ProvisionStatus_IsValid_def can_provision_iff
    by auto
  then show ?thesis
    using inv psm.steps_terminal unfolding can_provision_def by metis
qed

theorem CloudProvision_lifecycle_witness:
  "\<exists>p0 p1. NewCloudProvision 0 ''12345678'' 1 2 ProviderAWS ''vm'' ''eu'' ''small'' = Inr p0
     \<and> CloudProvision_TransitionToFailed 1 ''quota'' p0 = Inr p1 \<and> provision_inv p1"
proof -
  obtain p0 where p0: "NewCloudProvision 0 ''12345678'' 1 2 ProviderAWS ''vm'' ''eu'' ''small'' = Inr p0"
    by (simp add: NewCloudProvision_def ProviderType_IsValid_def)
  with NewCloudProvision_inv have "can_provision (prov_Status p0) ProvisionStatusFailed"
    by (simp add: can_provision_iff)
  then obtain p1 where p1: "CloudProvision_TransitionToFailed 1 ''quota'' p0 = Inr p1"
    by (simp add: CloudProvision_TransitionToFailed_def can_provision_def)
  with CloudProvision_lifecycle [OF p0, of p1] p0 show ?thesis
    by (blast intro: prov_step.fail r_into_rtranclp)
qed

end
