(* ===== verification/Monitoring.thy ===== *)
theory Monitoring
  imports Go_Float
begin

text \<open>
  \<open>internal/core/domain/monitoring.go\<close>, \<open>internal/core/domain/usage.go\<close> and
  \<open>internal/core/monitoring/health.go\<close>: health aggregation, container events, usage events.
\<close>

section \<open>Health\<close>

type_synonym HealthStatus = string

definition HealthStatusHealthy :: HealthStatus where [const_defs]: "HealthStatusHealthy = ''healthy''"
definition HealthStatusUnhealthy :: HealthStatus where
  [const_defs]: "HealthStatusUnhealthy = ''unhealthy''"
definition HealthStatusDegraded :: HealthStatus where
  [const_defs]: "HealthStatusDegraded = ''degraded''"
definition HealthStatusUnknown :: HealthStatus where [const_defs]: "HealthStatusUnknown = ''unknown''"

record ContainerHealth =
  ch_Name :: string
  ch_Status :: string
  ch_Health :: HealthStatus
  ch_StartedAt :: "time option"
  ch_Restarts :: int

record DeploymentHealth =
  dh_Status :: HealthStatus
  dh_Containers :: "ContainerHealth list"
  dh_CheckedAt :: time

record ContainerStats =
  cs_Name :: string
  cs_CPUPercent :: float64
  cs_MemoryUsageBytes :: int
  cs_MemoryLimitBytes :: int
  cs_MemoryPercent :: float64
  cs_NetworkRxBytes :: int
  cs_NetworkTxBytes :: int
  cs_BlockReadBytes :: int
  cs_BlockWriteBytes :: int
  cs_PIDs :: int

record DeploymentStats =
  dst_Containers :: "ContainerStats list"
  dst_CollectedAt :: time

record ContainerLog =
  cl_Container :: string
  cl_Timestamp :: time
  cl_Stream :: string
  cl_Message :: string

record DeploymentLogs =
  dl_Logs :: "ContainerLog list"
  dl_ContainerFilter :: "string option"
  dl_Tail :: int
  dl_Since :: "time option"

text \<open>The counting loop of \<open>AggregateHealth\<close>: the state is \<open>(unhealthy, degraded)\<close>.\<close>

fun aggregate_loop :: "ContainerHealth list \<Rightarrow> int \<times> int \<Rightarrow> int \<times> int" where
  "aggregate_loop [] (unhealthy, degraded) = (unhealthy, degraded)"
| "aggregate_loop (c # cs) (unhealthy, degraded) =
     (if ch_Health c = HealthStatusUnhealthy then aggregate_loop cs (unhealthy + 1, degraded)
      else if ch_Health c = HealthStatusDegraded then aggregate_loop cs (unhealthy, degraded + 1)
      else if ch_Health c = HealthStatusUnknown then aggregate_loop cs (unhealthy, degraded + 1)
      else aggregate_loop cs (unhealthy, degraded))"

definition AggregateHealth :: "ContainerHealth list \<Rightarrow> HealthStatus" where
  "AggregateHealth containers =
     (if length containers = 0 then HealthStatusUnknown
      else let (unhealthy, degraded) = aggregate_loop containers (0, 0)
           in if unhealthy = int (length containers) then HealthStatusUnhealthy
              else if 0 < unhealthy \<or> 0 < degraded then HealthStatusDegraded
              else HealthStatusHealthy)"

definition DetermineContainerHealth :: "string \<Rightarrow> string option \<Rightarrow> int \<Rightarrow> HealthStatus" where
  "DetermineContainerHealth status healthCheck restarts =
     (if status \<noteq> ''running'' then HealthStatusUnhealthy
      else if healthCheck = Some ''unhealthy'' then HealthStatusUnhealthy
      else if 3 < restarts then HealthStatusDegraded
      else if healthCheck = Some ''starting'' then HealthStatusDegraded
      else HealthStatusHealthy)"

section \<open>Container events\<close>

type_synonym ContainerEventType = string

definition EventImagePulling :: ContainerEventType where
  [const_defs]: "EventImagePulling = ''image_pulling''"
definition EventImagePulled :: ContainerEventType where
  [const_defs]: "EventImagePulled = ''image_pulled''"
definition EventContainerCreated :: ContainerEventType where
  [const_defs]: "EventContainerCreated = ''container_created''"
definition EventContainerStarted :: ContainerEventType where
  [const_defs]: "EventContainerStarted = ''container_started''"
definition EventContainerStopped :: ContainerEventType where
  [const_defs]: "EventContainerStopped = ''container_stopped''"
definition EventContainerRestarted :: ContainerEventType where
  [const_defs]: "EventContainerRestarted = ''container_restarted''"
definition EventContainerDied :: ContainerEventType where
  [const_defs]: "EventContainerDied = ''container_died''"
definition EventContainerOOM :: ContainerEventType where
  [const_defs]: "EventContainerOOM = ''container_oom''"
definition EventHealthUnhealthy :: ContainerEventType where
  [const_defs]: "EventHealthUnhealthy = ''health_unhealthy''"
definition EventHealthHealthy :: ContainerEventType where
  [const_defs]: "EventHealthHealthy = ''health_healthy''"

record ContainerEvent =
  ce_ID :: int
  ce_ReferenceID :: string
  ce_DeploymentID :: int
  ce_Type :: ContainerEventType
  ce_Container :: string
  ce_Message :: string
  ce_Timestamp :: time
  ce_CreatedAt :: time

definition NewContainerEvent ::
  "time \<Rightarrow> string \<Rightarrow> int \<Rightarrow> ContainerEventType \<Rightarrow> string \<Rightarrow> string \<Rightarrow> ContainerEvent" where
  "NewContainerEvent now referenceID deploymentID eventType container message =
     \<lparr>ce_ID = 0, ce_ReferenceID = referenceID, ce_DeploymentID = deploymentID, ce_Type = eventType,
      ce_Container = container, ce_Message = message, ce_Timestamp = now, ce_CreatedAt = now\<rparr>"

definition ContainerEventMessage :: "ContainerEventType \<Rightarrow> string \<Rightarrow> string" where
  "ContainerEventMessage eventType containerName =
     (if eventType = EventImagePulling then ''Pulling image '' @ containerName
      else if eventType = EventImagePulled then ''Image '' @ containerName @ '' pulled successfully''
      else if eventType = EventContainerCreated then ''Container '' @ containerName @ '' created''
      else if eventType = EventContainerStarted
        then ''Container '' @ containerName @ '' started successfully''
      else if eventType = EventContainerStopped then ''Container '' @ containerName @ '' stopped''
      else if eventType = EventContainerRestarted then ''Container '' @ containerName @ '' restarted''
      else if eventType = EventContainerDied
        then ''Container '' @ containerName @ '' died unexpectedly''
      else if eventType = EventContainerOOM
        then ''Container '' @ containerName @ '' killed due to out of memory''
      else if eventType = EventHealthUnhealthy
        then ''Container '' @ containerName @ '' health check failed''
      else if eventType = EventHealthHealthy
        then ''Container '' @ containerName @ '' health check passed''
      else ''Container '' @ containerName @ '' event: '' @ eventType)"

section \<open>Usage events\<close>

type_synonym EventType = string

definition EventDeploymentCreated :: EventType where
  [const_defs]: "EventDeploymentCreated = ''deployment.created''"
definition EventDeploymentStarted :: EventType where
  [const_defs]: "EventDeploymentStarted = ''deployment.started''"
definition EventDeploymentStopped :: EventType where
  [const_defs]: "EventDeploymentStopped = ''deployment.stopped''"
definition EventDeploymentDeleted :: EventType where
  [const_defs]: "EventDeploymentDeleted = ''deployment.deleted''"

text \<open>The metadata map may be \<open>nil\<close>, which is \<^const>\<open>None\<close>.\<close>

record MeterEvent =
  me_ID :: int
  me_ReferenceID :: string
  me_UserID :: int
  me_UserRefID :: string
  me_EventType :: EventType
  me_ResourceID :: string
  me_ResourceType :: string
  me_Quantity :: int
  me_Metadata :: "go_strmap option"
  me_Timestamp :: time
  me_ReportedAt :: "time option"
  me_CreatedAt :: time

definition NewMeterEvent ::
  "time \<Rightarrow> string \<Rightarrow> int \<Rightarrow> EventType \<Rightarrow> string \<Rightarrow> string \<Rightarrow> MeterEvent" where
  "NewMeterEvent now referenceID userID eventType resourceID resourceType =
     \<lparr>me_ID = 0, me_ReferenceID = referenceID, me_UserID = userID, me_UserRefID = [],
      me_EventType = eventType, me_ResourceID = resourceID, me_ResourceType = resourceType,
      me_Quantity = 1, me_Metadata = Some Map.empty, me_Timestamp = now, me_ReportedAt = None,
      me_CreatedAt = now\<rparr>"

text \<open>
  The receiver is a copy, but a non-nil map is shared with it: the result is the returned event
  together with the caller's own event as it is after the call.
\<close>

definition MeterEvent_WithMetadata ::
  "string \<Rightarrow> string \<Rightarrow> MeterEvent \<Rightarrow> MeterEvent \<times> MeterEvent" where
  "MeterEvent_WithMetadata key value e =
     (case me_Metadata e of
        None \<Rightarrow> (e\<lparr>me_Metadata := Some [key \<mapsto> value]\<rparr>, e)
      | Some m \<Rightarrow> let e' = e\<lparr>me_Metadata := Some (m(key \<mapsto> value))\<rparr> in (e', e'))"

definition MeterEvent_WithQuantity :: "int \<Rightarrow> MeterEvent \<Rightarrow> MeterEvent" where
  "MeterEvent_WithQuantity qty e = e\<lparr>me_Quantity := qty\<rparr>"

definition MeterEvent_IsReported :: "MeterEvent \<Rightarrow> bool" where
  "MeterEvent_IsReported e \<longleftrightarrow> me_ReportedAt e \<noteq> None"

section \<open>Aggregation as a summary\<close>

lemma health_distinct:
  "distinct [HealthStatusHealthy, HealthStatusUnhealthy, HealthStatusDegraded, HealthStatusUnknown]"
  "distinct [HealthStatusUnknown, HealthStatusDegraded, HealthStatusUnhealthy, HealthStatusHealthy]"
  by (simp_all add: const_defs)

lemmas health_neq [simp] = health_distinct [simplified]

lemma aggregate_loop_counts:
  "aggregate_loop cs (u, d) =
     (u + int (length (filter (\<lambda>c. ch_Health c = HealthStatusUnhealthy) cs)),
      d + int (length (filter (\<lambda>c. ch_Health c \<in> {HealthStatusDegraded, HealthStatusUnknown}) cs)))"
  by (induction cs arbitrary: u d) auto

text \<open>
  \<open>AggregateHealth\<close> is a summary that does not depend on the order of the containers: it is
  unknown for none, unhealthy when every container is, healthy exactly when there is a
  container and none is unhealthy, degraded or unknown, and degraded in every other case.
\<close>

theorem AggregateHealth_summary:
  "AggregateHealth cs =
     (if cs = [] then HealthStatusUnknown
      else if \<forall>c \<in> set cs. ch_Health c = HealthStatusUnhealthy then HealthStatusUnhealthy
      else if \<forall>c \<in> set cs. ch_Health c \<notin> {HealthStatusUnhealthy, HealthStatusDegraded,
             HealthStatusUnknown} then HealthStatusHealthy
      else HealthStatusDegraded)"
proof (cases "cs = []")
  case True
  then show ?thesis by (simp add: AggregateHealth_def)
next
  case False
  let ?u = "filter (\<lambda>c. ch_Health c = HealthStatusUnhealthy) cs"
  let ?d = "filter (\<lambda>c. ch_Health c \<in> {HealthStatusDegraded, HealthStatusUnknown}) cs"
  have all: "length ?u = length cs \<longleftrightarrow> (\<forall>c \<in> set cs. ch_Health c = HealthStatusUnhealthy)"
    by (metis (mono_tags, lifting) filter_True filter_id_conv length_filter_less less_irrefl)
  have none: "?u = [] \<and> ?d = [] \<longleftrightarrow> (\<forall>c \<in> set cs. ch_Health c \<notin>
      {HealthStatusUnhealthy, HealthStatusDegraded, HealthStatusUnknown})"
    by (auto simp: filter_empty_conv)
  have "AggregateHealth cs = (if length ?u = length cs then HealthStatusUnhealthy
      else if \<not> (?u = [] \<and> ?d = []) then HealthStatusDegraded else HealthStatusHealthy)"
    using False by (simp add: AggregateHealth_def aggregate_loop_counts)
  then show ?thesis unfolding all none using False by simp
qed

theorem AggregateHealth_summary_witness:
  "AggregateHealth [\<lparr>ch_Name = ''a'', ch_Status = ''running'', ch_Health = HealthStatusHealthy,
      ch_StartedAt = None, ch_Restarts = 0\<rparr>,
     \<lparr>ch_Name = ''b'', ch_Status = ''exited'', ch_Health = HealthStatusUnhealthy,
      ch_StartedAt = None, ch_Restarts = 0\<rparr>] = HealthStatusDegraded"
  by (subst AggregateHealth_summary) simp

end
