(* ===== verification/Encoding.thy ===== *)
theory Encoding
  imports Go_Prelude
begin

text \<open>
  \<open>encoding/base64\<close> as the program uses it: \<open>StdEncoding\<close> with padding for stored secrets,
  \<open>RawURLEncoding\<close> without padding for JWT payloads. A decoder reads four symbols at a time;
  carriage returns and newlines are skipped wherever they stand, so they are removed first. The
  decoder is not strict: unused low bits of the last symbol are ignored.
\<close>

section \<open>Symbols\<close>

definition std_alphabet :: string where
  "std_alphabet = ''ABCDEFGHIJKLMNOPQRSTUVWXYZabcdefghijklmnopqrstuvwxyz0123456789+/''"

definition url_alphabet :: string where
  "url_alphabet = ''ABCDEFGHIJKLMNOPQRSTUVWXYZabcdefghijklmnopqrstuvwxyz0123456789-_''"

fun index_of :: "char \<Rightarrow> string \<Rightarrow> nat option" where
  "index_of c [] = None"
| "index_of c (x # xs) = (if c = x then Some 0 else map_option Suc (index_of c xs))"

section \<open>Groups of bytes and of 6-bit symbols\<close>

definition sym :: "string \<Rightarrow> nat \<Rightarrow> char" where
  "sym al v = al ! v"

fun enc_bytes :: "string \<Rightarrow> nat list \<Rightarrow> string" where
  "enc_bytes al (a # b # c # r) =
     sym al (a div 4) # sym al (a mod 4 * 16 + b div 16) # sym al (b mod 16 * 4 + c div 64)
       # sym al (c mod 64) # enc_bytes al r"
| "enc_bytes al [a, b] =
     [sym al (a div 4), sym al (a mod 4 * 16 + b div 16), sym al (b mod 16 * 4), CHR ''='']"
| "enc_bytes al [a] = [sym al (a div 4), sym al (a mod 4 * 16), CHR ''='', CHR ''='']"
| "enc_bytes al [] = []"

definition one_byte :: "nat \<Rightarrow> nat \<Rightarrow> char" where
  "one_byte v0 v1 = char_of (v0 * 4 + v1 div 16)"
definition two_bytes :: "nat \<Rightarrow> nat \<Rightarrow> nat \<Rightarrow> string" where
  "two_bytes v0 v1 v2 = [one_byte v0 v1, char_of (v1 mod 16 * 16 + v2 div 4)]"
definition three_bytes :: "nat \<Rightarrow> nat \<Rightarrow> nat \<Rightarrow> nat \<Rightarrow> string" where
  "three_bytes v0 v1 v2 v3 = two_bytes v0 v1 v2 @ [char_of (v2 mod 4 * 64 + v3)]"

text \<open>The decoding loop; \<open>pad\<close> says whether the encoding uses padding.\<close>

fun dec_syms :: "bool \<Rightarrow> string \<Rightarrow> string \<Rightarrow> string option" where
  "dec_syms pad al (a # b # c # d # r) =
     (case (index_of a al, index_of b al) of
        (Some va, Some vb) \<Rightarrow>
          (case index_of c al of
             None \<Rightarrow> if pad \<and> c = CHR ''='' \<and> d = CHR ''='' \<and> r = [] then Some [one_byte va vb]
                     else None
           | Some vc \<Rightarrow>
               (case index_of d al of
                  None \<Rightarrow> if pad \<and> d = CHR ''='' \<and> r = [] then Some (two_bytes va vb vc) else None
                | Some vd \<Rightarrow> map_option ((@) (three_bytes va vb vc vd)) (dec_syms pad al r)))
      | _ \<Rightarrow> None)"
| "dec_syms pad al [a, b, c] =
     (case (index_of a al, index_of b al, index_of c al) of
        (Some va, Some vb, Some vc) \<Rightarrow> if pad then None else Some (two_bytes va vb vc)
      | _ \<Rightarrow> None)"
| "dec_syms pad al [a, b] =
     (case (index_of a al, index_of b al) of
        (Some va, Some vb) \<Rightarrow> if pad then None else Some [one_byte va vb]
      | _ \<Rightarrow> None)"
| "dec_syms pad al [a] = None"
| "dec_syms pad al [] = Some []"

definition drop_newlines :: "string \<Rightarrow> string" where
  "drop_newlines s = filter (\<lambda>c. (of_char c :: nat) \<noteq> 10 \<and> (of_char c :: nat) \<noteq> 13) s"

definition StdEncoding_EncodeToString :: "string \<Rightarrow> string" where
  "StdEncoding_EncodeToString bs = enc_bytes std_alphabet (map of_char bs)"

definition StdEncoding_DecodeString :: "string \<Rightarrow> string option" where
  "StdEncoding_DecodeString s = dec_syms True std_alphabet (drop_newlines s)"

definition RawURLEncoding_DecodeString :: "string \<Rightarrow> string option" where
  "RawURLEncoding_DecodeString s = dec_syms False url_alphabet (drop_newlines s)"

section \<open>Round trip\<close>

lemma index_of_nth: "distinct al \<Longrightarrow> v < length al \<Longrightarrow> index_of (al ! v) al = Some v"
  by (induction al arbitrary: v) (auto simp: nth_Cons split: nat.splits)

lemma index_of_None: "c \<notin> set al \<Longrightarrow> index_of c al = None"
  by (induction al) auto

lemma std_alphabet_facts:
  "distinct std_alphabet" "length std_alphabet = 64" "CHR ''='' \<notin> set std_alphabet"
  "CHR 0x0A \<notin> set std_alphabet" "CHR 0x0D \<notin> set std_alphabet"
  by (simp_all add: std_alphabet_def)

lemma index_sym: "v < 64 \<Longrightarrow> index_of (sym std_alphabet v) std_alphabet = Some v"
  by (simp add: sym_def index_of_nth std_alphabet_facts)

lemma index_pad [simp]: "index_of CHR ''='' std_alphabet = None"
  by (simp add: index_of_None std_alphabet_facts)

lemma sym_no_newline:
  assumes "v < 64"
  shows "(of_char (sym std_alphabet v) :: nat) \<noteq> 10 \<and> (of_char (sym std_alphabet v) :: nat) \<noteq> 13"
proof -
  have "sym std_alphabet v \<in> set std_alphabet"
    using assms by (simp add: sym_def std_alphabet_facts)
  then have "sym std_alphabet v \<noteq> CHR 0x0A" "sym std_alphabet v \<noteq> CHR 0x0D"
    using std_alphabet_facts by metis+
  moreover have "(of_char CHR 0x0A :: nat) = 10" "(of_char CHR 0x0D :: nat) = 13" by simp_all
  ultimately show ?thesis by (metis of_char_eq_iff)
qed

lemma div_mod_join: "(y::nat) < n \<Longrightarrow> (x * n + y) div n = x \<and> (x * n + y) mod n = y"
  by simp

lemma sextets:
  fixes a b c :: nat
  assumes "a < 256" "b < 256" "c < 256"
  shows "a div 4 < 64" "a mod 4 * 16 + b div 16 < 64" "b mod 16 * 4 + c div 64 < 64"
    "c mod 64 < 64" "a mod 4 * 16 < 64" "b mod 16 * 4 < 64"
proof -
  have "a mod 4 < 4" "b mod 16 < 16" "b div 16 < 16" "c div 64 < 4"
    using assms by (simp_all add: less_mult_imp_div_less)
  then show "a mod 4 * 16 + b div 16 < 64" "b mod 16 * 4 + c div 64 < 64"
    "a mod 4 * 16 < 64" "b mod 16 * 4 < 64" by linarith+
qed (use assms in \<open>simp_all add: less_mult_imp_div_less\<close>)

lemma regroup:
  fixes a b c :: nat
  assumes "a < 256" "b < 256" "c < 256"
  shows "one_byte (a div 4) (a mod 4 * 16 + b div 16) = char_of a"
    "two_bytes (a div 4) (a mod 4 * 16 + b div 16) (b mod 16 * 4 + c div 64) = [char_of a, char_of b]"
    "three_bytes (a div 4) (a mod 4 * 16 + b div 16) (b mod 16 * 4 + c div 64) (c mod 64)
       = [char_of a, char_of b, char_of c]"
proof -
  have b: "b div 16 < 16" and c: "c div 64 < 4"
    using assms by (simp_all add: less_mult_imp_div_less)
  note jb = div_mod_join [OF b, of "a mod 4"] and jc = div_mod_join [OF c, of "b mod 16"]
  show one: "one_byte (a div 4) (a mod 4 * 16 + b div 16) = char_of a"
    unfolding one_byte_def using jb div_mult_mod_eq [of a 4] by metis
  show two: "two_bytes (a div 4) (a mod 4 * 16 + b div 16) (b mod 16 * 4 + c div 64)
      = [char_of a, char_of b]"
    unfolding two_bytes_def one using jb jc div_mult_mod_eq [of b 16] by metis
  show "three_bytes (a div 4) (a mod 4 * 16 + b div 16) (b mod 16 * 4 + c div 64) (c mod 64)
       = [char_of a, char_of b, char_of c]"
    unfolding three_bytes_def two using jc div_mult_mod_eq [of c 64] by (metis append_Cons append_Nil)
qed

lemmas regroup_two = regroup(2) [where c = 0, simplified div_0 add_0_right]
lemmas regroup_one = regroup(1) [where b = 0, simplified div_0 add_0_right]

lemma dec_enc_bytes:
  "list_all (\<lambda>b. b < 256) bs \<Longrightarrow>
     dec_syms True std_alphabet (enc_bytes std_alphabet bs) = Some (map char_of bs)"
proof (induction std_alphabet bs rule: enc_bytes.induct)
  case (1 a b c r)
  then have b: "a < 256" "b < 256" "c < 256" by simp_all
  from 1 show ?case
    by (simp add: index_sym sextets [OF b] regroup(3) [OF b])
next
  case (2 a b)
  then have b: "a < 256" "b < 256" "(0::nat) < 256" by simp_all
  then show ?case
    by (simp add: index_sym sextets [OF b] regroup_two [OF b])
next
  case (3 a)
  then have b: "a < 256" "(0::nat) < 256" "(0::nat) < 256" by simp_all
  then show ?case by (simp add: index_sym sextets [OF b] regroup_one [OF b])
qed simp

lemma enc_no_newline:
  "list_all (\<lambda>b. b < 256) bs \<Longrightarrow>
     drop_newlines (enc_bytes std_alphabet bs) = enc_bytes std_alphabet bs"
proof (induction std_alphabet bs rule: enc_bytes.induct)
  case (1 a b c r)
  then have b: "a < 256" "b < 256" "c < 256" by simp_all
  from 1 show ?case by (simp add: drop_newlines_def sym_no_newline sextets [OF b])
next
  case (2 a b)
  then have b: "a < 256" "b < 256" "(0::nat) < 256" by simp_all
  then show ?case by (simp add: drop_newlines_def sym_no_newline sextets [OF b])
next
  case (3 a)
  then have b: "a < 256" "(0::nat) < 256" "(0::nat) < 256" by simp_all
  then show ?case by (simp add: drop_newlines_def sym_no_newline sextets [OF b])
qed (simp add: drop_newlines_def)

lemma of_char_bytes: "list_all (\<lambda>b. b < 256) (map (of_char :: char \<Rightarrow> nat) s)"
proof -
  have "(of_char c :: nat) < 256" for c :: char
    by simp
  then show ?thesis by (simp add: list_all_iff)
qed

lemma base64_roundtrip [simp]: "StdEncoding_DecodeString (StdEncoding_EncodeToString s) = Some s"
  using dec_enc_bytes [OF of_char_bytes [of s]] enc_no_newline [OF of_char_bytes [of s]]
  by (simp add: StdEncoding_DecodeString_def StdEncoding_EncodeToString_def comp_def)

end
