(* ===== verification/Secrets.thy ===== *)
theory Secrets
  imports Encoding
begin

text \<open>
  \<open>internal/core/crypto/encryption.go\<close>: encryption of stored secrets. The primitives are
  arguments: \<open>sha256\<close>, the AES-256-GCM pair \<open>seal key nonce plaintext\<close> and \<open>open key nonce
  ciphertext\<close>, the random source, and the \<open>golang.org/x/crypto/ssh\<close> functions. The file's own
  logic is the key length rule, the layout \<open>nonce || sealed\<close>, its text form, and the
  order in which failures are reported.
\<close>

section \<open>Encryption at rest\<close>

datatype crypto_error =
    ErrKeyTooShort | ErrInvalidCiphertext | ErrDecryptionFailed | ErrInvalidSSHKey
  | ErrRandom | ErrBase64 | ErrGenerateKey | ErrMarshalKey | ErrPublicKey

type_synonym seal_fn = "string \<Rightarrow> string \<Rightarrow> string \<Rightarrow> string"
type_synonym open_fn = "string \<Rightarrow> string \<Rightarrow> string \<Rightarrow> string option"

definition gcm_NonceSize :: nat where "gcm_NonceSize = 12"

definition DeriveKey :: "(string \<Rightarrow> string) \<Rightarrow> string \<Rightarrow> string" where
  "DeriveKey sha256 passphrase = sha256 passphrase"

text \<open>
  \<open>rnd n\<close> is what reading \<open>n\<close> random bytes gives, \<^const>\<open>None\<close> an error of the source. A 32-byte
  key is accepted by \<open>aes.NewCipher\<close> and its block by \<open>cipher.NewGCM\<close>.
\<close>

definition Encrypt ::
  "seal_fn \<Rightarrow> (nat \<Rightarrow> string option) \<Rightarrow> string \<Rightarrow> string \<Rightarrow> crypto_error + string" where
  "Encrypt seal rnd plaintext key =
     (if length key < 32 then Inl ErrKeyTooShort
      else let key = take 32 key
           in case rnd gcm_NonceSize of
                None \<Rightarrow> Inl ErrRandom
              | Some nonce \<Rightarrow> Inr (nonce @ seal key nonce plaintext))"

definition Decrypt :: "open_fn \<Rightarrow> string \<Rightarrow> string \<Rightarrow> crypto_error + string" where
  "Decrypt opn ciphertext key =
     (if length key < 32 then Inl ErrKeyTooShort
      else let key = take 32 key
           in if length ciphertext < gcm_NonceSize then Inl ErrInvalidCiphertext
              else let nonce = take gcm_NonceSize ciphertext; rest = drop gcm_NonceSize ciphertext
                   in case opn key nonce rest of
                        None \<Rightarrow> Inl ErrDecryptionFailed
                      | Some plaintext \<Rightarrow> Inr plaintext)"

definition EncryptToBase64 ::
  "seal_fn \<Rightarrow> (nat \<Rightarrow> string option) \<Rightarrow> string \<Rightarrow> string \<Rightarrow> crypto_error + string" where
  "EncryptToBase64 seal rnd plaintext key =
     bind_err (Encrypt seal rnd plaintext key) (\<lambda>c. Inr (StdEncoding_EncodeToString c))"

definition DecryptFromBase64 :: "open_fn \<Rightarrow> string \<Rightarrow> string \<Rightarrow> crypto_error + string" where
  "DecryptFromBase64 opn encoded key =
     (case StdEncoding_DecodeString encoded of
        None \<Rightarrow> Inl ErrBase64
      | Some ciphertext \<Rightarrow> Decrypt opn ciphertext key)"

definition EncryptSSHKey ::
  "seal_fn \<Rightarrow> (nat \<Rightarrow> string option) \<Rightarrow> string \<Rightarrow> string \<Rightarrow> crypto_error + string" where
  "EncryptSSHKey seal rnd privateKey encryptionKey = Encrypt seal rnd privateKey encryptionKey"

definition DecryptSSHKey :: "open_fn \<Rightarrow> string \<Rightarrow> string \<Rightarrow> crypto_error + string" where
  "DecryptSSHKey opn encryptedKey encryptionKey = Decrypt opn encryptedKey encryptionKey"

section \<open>SSH keys\<close>

text \<open>The functions of the SSH package the file calls, over its own signer and key types.\<close>

record ('signer, 'pub, 'priv) ssh_pkg =
  ssh_ParsePrivateKey :: "string \<Rightarrow> 'signer option"
  ssh_PublicKey :: "'signer \<Rightarrow> 'pub"
  ssh_Marshal :: "'pub \<Rightarrow> string"
  ssh_MarshalAuthorizedKey :: "'pub \<Rightarrow> string"
  ssh_MarshalPrivateKey :: "'priv \<Rightarrow> string option"
  ssh_NewPublicKey :: "string \<Rightarrow> 'pub option"

definition ValidateSSHPrivateKey :: "('s, 'p, 'k) ssh_pkg \<Rightarrow> string \<Rightarrow> crypto_error option" where
  "ValidateSSHPrivateKey ssh privateKey =
     (case ssh_ParsePrivateKey ssh privateKey of None \<Rightarrow> Some ErrInvalidSSHKey | Some _ \<Rightarrow> None)"

definition ParseSSHPrivateKey :: "('s, 'p, 'k) ssh_pkg \<Rightarrow> string \<Rightarrow> crypto_error + 's" where
  "ParseSSHPrivateKey ssh privateKey =
     (case ssh_ParsePrivateKey ssh privateKey of
        None \<Rightarrow> Inl ErrInvalidSSHKey | Some signer \<Rightarrow> Inr signer)"

definition GetSSHPublicKeyFingerprint ::
  "(string \<Rightarrow> string) \<Rightarrow> ('s, 'p, 'k) ssh_pkg \<Rightarrow> string \<Rightarrow> crypto_error + string" where
  "GetSSHPublicKeyFingerprint sha256 ssh privateKey =
     bind_err (ParseSSHPrivateKey ssh privateKey) (\<lambda>signer.
       let hash = sha256 (ssh_Marshal ssh (ssh_PublicKey ssh signer))
       in Inr (''SHA256:'' @ StdEncoding_EncodeToString hash))"

text \<open>\<open>gen\<close> is the key generator's result, \<open>pem\<close> the PEM encoder.\<close>

definition GenerateSSHKeyPair ::
  "('s, 'p, 'k) ssh_pkg \<Rightarrow> (string \<times> 'k) option \<Rightarrow> (string \<Rightarrow> string) \<Rightarrow>
     crypto_error + string \<times> string" where
  "GenerateSSHKeyPair ssh gen pem =
     (case gen of
        None \<Rightarrow> Inl ErrGenerateKey
      | Some (pubKey, privKey) \<Rightarrow>
          (case ssh_MarshalPrivateKey ssh privKey of
             None \<Rightarrow> Inl ErrMarshalKey
           | Some sshPrivKey \<Rightarrow>
               (case ssh_NewPublicKey ssh pubKey of
                  None \<Rightarrow> Inl ErrPublicKey
                | Some sshPubKey \<Rightarrow>
                    Inr (pem sshPrivKey, ssh_MarshalAuthorizedKey ssh sshPubKey))))"

definition GetSSHPublicKey :: "('s, 'p, 'k) ssh_pkg \<Rightarrow> string \<Rightarrow> crypto_error + string" where
  "GetSSHPublicKey ssh privateKey =
     bind_err (ParseSSHPrivateKey ssh privateKey) (\<lambda>signer.
       Inr (ssh_MarshalAuthorizedKey ssh (ssh_PublicKey ssh signer)))"

section \<open>What the primitives promise\<close>

text \<open>Opening what was sealed under the same 32-byte key and 12-byte nonce gives it back.\<close>

definition gcm_ok :: "seal_fn \<Rightarrow> open_fn \<Rightarrow> bool" where
  "gcm_ok seal opn \<longleftrightarrow>
     (\<forall>key nonce p. length key = 32 \<longrightarrow> length nonce = gcm_NonceSize \<longrightarrow>
        opn key nonce (seal key nonce p) = Some p)"

text \<open>A read of \<open>n\<close> random bytes gives \<open>n\<close> bytes or fails.\<close>

definition rand_ok :: "(nat \<Rightarrow> string option) \<Rightarrow> bool" where
  "rand_ok rnd \<longleftrightarrow> (\<forall>n bs. rnd n = Some bs \<longrightarrow> length bs = n)"

lemma Encrypt_Inr:
  "Encrypt seal rnd p key = Inr c \<longleftrightarrow>
     32 \<le> length key \<and> (\<exists>nonce. rnd gcm_NonceSize = Some nonce \<and> c = nonce @ seal (take 32 key) nonce p)"
  by (auto simp: Encrypt_def Let_def split: option.splits)

lemma Decrypt_Encrypt:
  assumes "gcm_ok seal opn" "rand_ok rnd" "Encrypt seal rnd p key = Inr c"
    and "take 32 key' = take 32 key" "32 \<le> length key'"
  shows "Decrypt opn c key' = Inr p"
proof -
  obtain nonce where k: "32 \<le> length key" and r: "rnd gcm_NonceSize = Some nonce"
    and c: "c = nonce @ seal (take 32 key) nonce p"
    using assms(3) by (auto simp: Encrypt_Inr)
  have n: "length nonce = gcm_NonceSize" using assms(2) r by (auto simp: rand_ok_def)
  then have "opn (take 32 key) nonce (seal (take 32 key) nonce p) = Some p"
    using assms(1) k by (auto simp: gcm_ok_def)
  with n assms(4,5) show ?thesis by (simp add: Decrypt_def c)
qed


text \<open>A cipher that satisfies the hypothesis: the sealed text carries key and nonce as its tag.\<close>

definition tag_seal :: seal_fn where "tag_seal key nonce p = key @ nonce @ p"
definition tag_open :: open_fn where
  "tag_open key nonce c =
     (if take 44 c = key @ nonce then Some (drop 44 c) else None)"
definition zero_rnd :: "nat \<Rightarrow> string option" where
  "zero_rnd n = Some (replicate n (char_of (0 :: nat)))"


end
