(* ===== verification/Authz.thy ===== *)
theory Authz
  imports Dom_Node Dom_Deployment Dom_Cloud Encoding
begin

text \<open>
  \<open>internal/core/auth\<close> (\<open>context.go\<close>, \<open>authorization.go\<close>) and \<open>internal/core/limits\<close>: the
  authentication context taken from gateway headers, ownership checks for every resource, and
  plan limits. \<open>json.Unmarshal\<close> into the two structs the package declares is an argument
  (\<open>unmarshal_claims\<close>, \<open>unmarshal_limits\<close>), \<^const>\<open>None\<close> being its error.
\<close>

section \<open>Authentication context\<close>

record PlanLimits =
  pl_MaxDeployments :: int
  pl_MaxCPUCores :: float64
  pl_MaxMemoryMB :: int
  pl_MaxDiskMB :: int
  pl_AllowedCapabilities :: "string list"

record Context =
  ctx_UserID :: int
  ctx_ReferenceID :: string
  ctx_PlanID :: string
  ctx_PlanLimits :: PlanLimits
  ctx_KeyID :: string
  ctx_OrganizationID :: string
  ctx_Authenticated :: bool

definition HeaderUserID :: string where [const_defs]: "HeaderUserID = ''X-User-ID''"
definition HeaderPlanID :: string where [const_defs]: "HeaderPlanID = ''X-Plan-ID''"
definition HeaderPlanLimits :: string where [const_defs]: "HeaderPlanLimits = ''X-Plan-Limits''"
definition HeaderKeyID :: string where [const_defs]: "HeaderKeyID = ''X-Key-ID''"
definition HeaderOrganizationID :: string where
  [const_defs]: "HeaderOrganizationID = ''X-Organization-ID''"
definition HeaderAPIGateSecret :: string where
  [const_defs]: "HeaderAPIGateSecret = ''X-APIGate-Secret''"

definition zero_PlanLimits :: PlanLimits where
  "zero_PlanLimits = \<lparr>pl_MaxDeployments = 0, pl_MaxCPUCores = Fin 0, pl_MaxMemoryMB = 0,
     pl_MaxDiskMB = 0, pl_AllowedCapabilities = []\<rparr>"

definition anonymous :: Context where
  "anonymous = \<lparr>ctx_UserID = 0, ctx_ReferenceID = [], ctx_PlanID = [],
     ctx_PlanLimits = zero_PlanLimits, ctx_KeyID = [], ctx_OrganizationID = [],
     ctx_Authenticated = False\<rparr>"

definition DefaultPlanLimits :: PlanLimits where
  "DefaultPlanLimits = \<lparr>pl_MaxDeployments = 1, pl_MaxCPUCores = Fin 1, pl_MaxMemoryMB = 1024,
     pl_MaxDiskMB = 5120, pl_AllowedCapabilities = []\<rparr>"

record jwtClaims =
  jwt_Sub :: string
  jwt_PlanID :: string

definition parseBearer :: "(string \<Rightarrow> jwtClaims option) \<Rightarrow> string \<Rightarrow> jwtClaims option" where
  "parseBearer unmarshal_claims authHeader =
     (if \<not> HasPrefix authHeader ''Bearer '' then None
      else let parts = SplitByte CHR ''.'' (drop 7 authHeader)
           in if length parts \<noteq> 3 then None
              else case RawURLEncoding_DecodeString (parts ! 1) of
                     None \<Rightarrow> None
                   | Some payload \<Rightarrow> unmarshal_claims payload)"

definition ParsePlanLimits ::
  "(string \<Rightarrow> PlanLimits option) \<Rightarrow> string \<Rightarrow> PlanLimits option" where
  "ParsePlanLimits unmarshal_limits jsonStr =
     (if jsonStr = [] then Some DefaultPlanLimits else unmarshal_limits jsonStr)"

text \<open>\<open>get\<close> is the header lookup of the \<open>HeaderGetter\<close> interface, empty for an absent header.\<close>

definition ExtractFromHeaders ::
  "(string \<Rightarrow> jwtClaims option) \<Rightarrow> (string \<Rightarrow> PlanLimits option) \<Rightarrow> (string \<Rightarrow> string) \<Rightarrow> Context" where
  "ExtractFromHeaders unmarshal_claims unmarshal_limits get =
     (let referenceID = get HeaderUserID;
          limits = (case ParsePlanLimits unmarshal_limits (get HeaderPlanLimits) of
                      None \<Rightarrow> DefaultPlanLimits | Some l \<Rightarrow> l)
      in if referenceID = [] then
           (case parseBearer unmarshal_claims (get ''Authorization'') of
              None \<Rightarrow> anonymous
            | Some claims \<Rightarrow>
                if jwt_Sub claims = [] then anonymous
                else anonymous\<lparr>ctx_ReferenceID := jwt_Sub claims,
                  ctx_PlanID := (if jwt_PlanID claims = [] then get HeaderPlanID
                                 else jwt_PlanID claims),
                  ctx_PlanLimits := limits, ctx_Authenticated := True\<rparr>)
         else anonymous\<lparr>ctx_ReferenceID := referenceID, ctx_PlanID := get HeaderPlanID,
                ctx_PlanLimits := limits, ctx_KeyID := get HeaderKeyID,
                ctx_OrganizationID := get HeaderOrganizationID, ctx_Authenticated := True\<rparr>)"

text \<open>A request context holds at most one value under the package's private key.\<close>

definition WithContext :: "Context option \<Rightarrow> Context \<Rightarrow> Context option" where
  "WithContext ctx authCtx = Some authCtx"

definition FromContext :: "Context option \<Rightarrow> Context" where
  "FromContext ctx = (case ctx of Some authCtx \<Rightarrow> authCtx | None \<Rightarrow> anonymous)"

section \<open>Ownership checks\<close>

definition CanViewTemplate :: "Context \<Rightarrow> Template \<Rightarrow> bool" where
  "CanViewTemplate ctx template =
     (if tmpl_Published template then True
      else ctx_Authenticated ctx \<and> ctx_UserID ctx = tmpl_CreatorID template)"

definition CanModifyTemplate :: "Context \<Rightarrow> Template \<Rightarrow> bool" where
  "CanModifyTemplate ctx template \<longleftrightarrow>
     ctx_Authenticated ctx \<and> ctx_UserID ctx = tmpl_CreatorID template"
definition CanDeleteTemplate :: "Context \<Rightarrow> Template \<Rightarrow> bool" where
  "CanDeleteTemplate ctx template \<longleftrightarrow>
     ctx_Authenticated ctx \<and> ctx_UserID ctx = tmpl_CreatorID template"
definition CanPublishTemplate :: "Context \<Rightarrow> Template \<Rightarrow> bool" where
  "CanPublishTemplate ctx template \<longleftrightarrow>
     ctx_Authenticated ctx \<and> ctx_UserID ctx = tmpl_CreatorID template"

definition CanViewDeployment :: "Context \<Rightarrow> Deployment \<Rightarrow> bool" where
  "CanViewDeployment ctx d \<longleftrightarrow> ctx_Authenticated ctx \<and> ctx_UserID ctx = dep_CustomerID d"
definition CanManageDeployment :: "Context \<Rightarrow> Deployment \<Rightarrow> bool" where
  "CanManageDeployment ctx d \<longleftrightarrow> ctx_Authenticated ctx \<and> ctx_UserID ctx = dep_CustomerID d"
definition CanDeleteDeployment :: "Context \<Rightarrow> Deployment \<Rightarrow> bool" where
  "CanDeleteDeployment ctx d \<longleftrightarrow> ctx_Authenticated ctx \<and> ctx_UserID ctx = dep_CustomerID d"

definition CanViewNode :: "Context \<Rightarrow> Node \<Rightarrow> bool" where
  "CanViewNode ctx n \<longleftrightarrow> ctx_Authenticated ctx \<and> ctx_UserID ctx = node_CreatorID n"
definition CanManageNode :: "Context \<Rightarrow> Node \<Rightarrow> bool" where
  "CanManageNode ctx n \<longleftrightarrow> ctx_Authenticated ctx \<and> ctx_UserID ctx = node_CreatorID n"
definition CanCreateNode :: "Context \<Rightarrow> bool" where
  "CanCreateNode ctx = ctx_Authenticated ctx"

definition CanViewSSHKey :: "Context \<Rightarrow> SSHKey \<Rightarrow> bool" where
  "CanViewSSHKey ctx k \<longleftrightarrow> ctx_Authenticated ctx \<and> ctx_UserID ctx = key_CreatorID k"
definition CanManageSSHKey :: "Context \<Rightarrow> SSHKey \<Rightarrow> bool" where
  "CanManageSSHKey ctx k \<longleftrightarrow> ctx_Authenticated ctx \<and> ctx_UserID ctx = key_CreatorID k"
definition CanCreateSSHKey :: "Context \<Rightarrow> bool" where
  "CanCreateSSHKey ctx = ctx_Authenticated ctx"

definition CanViewCloudCredential :: "Context \<Rightarrow> CloudCredential \<Rightarrow> bool" where
  "CanViewCloudCredential ctx c \<longleftrightarrow> ctx_Authenticated ctx \<and> ctx_UserID ctx = cred_CreatorID c"
definition CanManageCloudCredential :: "Context \<Rightarrow> CloudCredential \<Rightarrow> bool" where
  "CanManageCloudCredential ctx c \<longleftrightarrow> ctx_Authenticated ctx \<and> ctx_UserID ctx = cred_CreatorID c"
definition CanCreateCloudCredential :: "Context \<Rightarrow> bool" where
  "CanCreateCloudCredential ctx = ctx_Authenticated ctx"

definition CanViewCloudProvision :: "Context \<Rightarrow> CloudProvision \<Rightarrow> bool" where
  "CanViewCloudProvision ctx p \<longleftrightarrow> ctx_Authenticated ctx \<and> ctx_UserID ctx = prov_CreatorID p"
definition CanManageCloudProvision :: "Context \<Rightarrow> CloudProvision \<Rightarrow> bool" where
  "CanManageCloudProvision ctx p \<longleftrightarrow> ctx_Authenticated ctx \<and> ctx_UserID ctx = prov_CreatorID p"
definition CanCreateCloudProvision :: "Context \<Rightarrow> bool" where
  "CanCreateCloudProvision ctx = ctx_Authenticated ctx"

definition auth_required :: string where "auth_required = ''authentication required''"

definition RequireAuthentication :: "Context \<Rightarrow> bool \<times> string" where
  "RequireAuthentication ctx =
     (if \<not> ctx_Authenticated ctx then (False, auth_required) else (True, []))"

section \<open>Plan limits\<close>

text \<open>The verb \<open>%.1f\<close>: one decimal, the exact value rounded half to even.\<close>

definition fmt_tenths :: "rat \<Rightarrow> string" where
  "fmt_tenths x = (let n = nat (rhe (x * 10))
                   in digits_nat (n div 10) @ ''.'' @ digits_nat (n mod 10))"

fun fmt_f1 :: "float64 \<Rightarrow> string" where
  "fmt_f1 (Fin x) = (if x < 0 then CHR ''-'' # fmt_tenths (- x) else fmt_tenths x)"
| "fmt_f1 PInf = ''+Inf''"
| "fmt_f1 NInf = ''-Inf''"
| "fmt_f1 NaN = ''NaN''"

definition CanCreateDeployment :: "Context \<Rightarrow> int \<Rightarrow> bool \<times> string" where
  "CanCreateDeployment ctx currentDeploymentCount =
     (if \<not> ctx_Authenticated ctx then (False, auth_required)
      else if pl_MaxDeployments (ctx_PlanLimits ctx) \<le> currentDeploymentCount
      then (False, ''plan limit reached: max '' @ fmt_d (pl_MaxDeployments (ctx_PlanLimits ctx))
                   @ '' deployments'')
      else (True, []))"

text \<open>\<open>auth.Resources\<close> has the fields of \<open>domain.Resources\<close>; the record is shared.\<close>

definition ResourcesFromDomain :: "Resources \<Rightarrow> Resources" where
  "ResourcesFromDomain r = \<lparr>res_CPUCores = res_CPUCores r, res_MemoryMB = res_MemoryMB r,
     res_DiskMB = res_DiskMB r\<rparr>"

definition ValidateResourceLimits :: "Context \<Rightarrow> Resources \<Rightarrow> Resources \<Rightarrow> bool \<times> string" where
  "ValidateResourceLimits ctx currentUsage requested =
     (if \<not> ctx_Authenticated ctx then (False, auth_required)
      else
        let plan = ctx_PlanLimits ctx;
            cpu = fadd (res_CPUCores currentUsage) (res_CPUCores requested);
            mem = wrap64 (res_MemoryMB currentUsage + res_MemoryMB requested);
            disk = wrap64 (res_DiskMB currentUsage + res_DiskMB requested)
        in if flt (pl_MaxCPUCores plan) cpu
           then (False, ''CPU limit exceeded: '' @ fmt_f1 cpu @ ''/'' @ fmt_f1 (pl_MaxCPUCores plan)
                        @ '' cores'')
           else if pl_MaxMemoryMB plan < mem
           then (False, ''memory limit exceeded: '' @ fmt_d mem @ ''MB/''
                        @ fmt_d (pl_MaxMemoryMB plan) @ ''MB'')
           else if pl_MaxDiskMB plan < disk
           then (False, ''disk limit exceeded: '' @ fmt_d disk @ ''MB/''
                        @ fmt_d (pl_MaxDiskMB plan) @ ''MB'')
           else (True, []))"

text \<open>\<open>internal/core/limits/validation.go\<close>.\<close>

record ValidationResult =
  vr_Allowed :: bool
  vr_Reason :: string

record CurrentUsage =
  cu_DeploymentCount :: int
  cu_TotalCPUCores :: float64
  cu_TotalMemoryMB :: int
  cu_TotalDiskMB :: int

definition allowed :: ValidationResult where "allowed = \<lparr>vr_Allowed = True, vr_Reason = []\<rparr>"
definition denied :: "string \<Rightarrow> ValidationResult" where
  "denied reason = \<lparr>vr_Allowed = False, vr_Reason = reason\<rparr>"

definition ValidateDeploymentCreation ::
  "PlanLimits \<Rightarrow> CurrentUsage \<Rightarrow> Resources \<Rightarrow> ValidationResult" where
  "ValidateDeploymentCreation limits usage requested =
     (if pl_MaxDeployments limits \<le> cu_DeploymentCount usage
      then denied (''deployment limit reached: '' @ fmt_d (cu_DeploymentCount usage) @ ''/''
                   @ fmt_d (pl_MaxDeployments limits))
      else let newTotalCPU = fadd (cu_TotalCPUCores usage) (res_CPUCores requested)
      in if flt (pl_MaxCPUCores limits) newTotalCPU
      then denied (''CPU limit would be exceeded: '' @ fmt_f1 newTotalCPU @ ''/''
                   @ fmt_f1 (pl_MaxCPUCores limits) @ '' cores'')
      else let newTotalMemory = wrap64 (cu_TotalMemoryMB usage + res_MemoryMB requested)
      in if pl_MaxMemoryMB limits < newTotalMemory
      then denied (''memory limit would be exceeded: '' @ fmt_d newTotalMemory @ ''/''
                   @ fmt_d (pl_MaxMemoryMB limits) @ '' MB'')
      else let newTotalDisk = wrap64 (cu_TotalDiskMB usage + res_DiskMB requested)
      in if pl_MaxDiskMB limits < newTotalDisk
      then denied (''disk limit would be exceeded: '' @ fmt_d newTotalDisk @ ''/''
                   @ fmt_d (pl_MaxDiskMB limits) @ '' MB'')
      else allowed)"

definition ValidateDeploymentStart :: "PlanLimits \<Rightarrow> int \<Rightarrow> ValidationResult" where
  "ValidateDeploymentStart limits runningDeployments = allowed"

definition ValidateCapability :: "PlanLimits \<Rightarrow> string \<Rightarrow> ValidationResult" where
  "ValidateCapability limits capability =
     (if length (pl_AllowedCapabilities limits) = 0 then allowed
      else if any_equal capability (pl_AllowedCapabilities limits) then allowed
      else denied (''capability '' @ [CHR 0x27] @ capability @ [CHR 0x27] @ '' not allowed by plan''))"

definition ValidationResult_Ok :: "ValidationResult \<Rightarrow> bool" where
  "ValidationResult_Ok r = vr_Allowed r"

definition ValidationResult_Error :: "ValidationResult \<Rightarrow> string option" where
  "ValidationResult_Error r =
     (if vr_Allowed r then None else Some (''plan limit exceeded: '' @ vr_Reason r))"

section \<open>Ownership as a contract\<close>

text \<open>An access check that grants a resource to its authenticated owner and to nobody else.\<close>

locale owner_policy =
  fixes may :: "Context \<Rightarrow> 'a \<Rightarrow> bool" and owner :: "'a \<Rightarrow> int"
  assumes may_iff: "may ctx x \<longleftrightarrow> ctx_Authenticated ctx \<and> ctx_UserID ctx = owner x"
begin

lemma anonymous_denied: "\<not> may (FromContext None) x"
  by (simp add: may_iff FromContext_def anonymous_def)

lemma isolation: "may c1 x \<Longrightarrow> may c2 x \<Longrightarrow> ctx_UserID c1 = ctx_UserID c2"
  by (simp add: may_iff)

lemma other_user_denied: "ctx_UserID ctx \<noteq> owner x \<Longrightarrow> \<not> may (FromContext (WithContext c ctx)) x"
  by (simp add: may_iff FromContext_def WithContext_def)

end

text \<open>Two checks of the same owner decide alike.\<close>

locale owner_policies = a: owner_policy may owner + b: owner_policy may' owner
  for may may' :: "Context \<Rightarrow> 'a \<Rightarrow> bool" and owner
begin

lemma agree: "may ctx x = may' ctx x"
  by (simp add: a.may_iff b.may_iff)

end

interpretation tmpl: owner_policies CanModifyTemplate CanDeleteTemplate tmpl_CreatorID
  by unfold_locales (simp_all add: CanModifyTemplate_def CanDeleteTemplate_def)
interpretation tmpl_pub: owner_policy CanPublishTemplate tmpl_CreatorID
  by unfold_locales (simp add: CanPublishTemplate_def)
interpretation depl: owner_policies CanViewDeployment CanManageDeployment dep_CustomerID
  by unfold_locales (simp_all add: CanViewDeployment_def CanManageDeployment_def)
interpretation depl_del: owner_policy CanDeleteDeployment dep_CustomerID
  by unfold_locales (simp add: CanDeleteDeployment_def)
interpretation nod: owner_policies CanViewNode CanManageNode node_CreatorID
  by unfold_locales (simp_all add: CanViewNode_def CanManageNode_def)
interpretation sshk: owner_policies CanViewSSHKey CanManageSSHKey key_CreatorID
  by unfold_locales (simp_all add: CanViewSSHKey_def CanManageSSHKey_def)
interpretation ccred: owner_policies CanViewCloudCredential CanManageCloudCredential cred_CreatorID
  by unfold_locales (simp_all add: CanViewCloudCredential_def CanManageCloudCredential_def)
interpretation cprov: owner_policies CanViewCloudProvision CanManageCloudProvision prov_CreatorID
  by unfold_locales (simp_all add: CanViewCloudProvision_def CanManageCloudProvision_def)

text \<open>
  C11: Tenants are isolated. For every kind of resource, a request without an authentication
  context may neither view nor manage it (published templates apart, which everyone may
  view), and if two requests may both manage, delete or publish the same resource they come
  from the same user; whoever may manage a resource may view it.
\<close>

theorem tenant_isolation:
  "(\<forall>t d n k c p. \<not> (CanModifyTemplate (FromContext None) t \<or> CanDeleteTemplate (FromContext None) t
        \<or> CanPublishTemplate (FromContext None) t \<or> CanViewDeployment (FromContext None) d
        \<or> CanManageDeployment (FromContext None) d \<or> CanDeleteDeployment (FromContext None) d
        \<or> CanViewNode (FromContext None) n \<or> CanManageNode (FromContext None) n
        \<or> CanViewSSHKey (FromContext None) k \<or> CanManageSSHKey (FromContext None) k
        \<or> CanViewCloudCredential (FromContext None) c \<or> CanManageCloudCredential (FromContext None) c
        \<or> CanViewCloudProvision (FromContext None) p \<or> CanManageCloudProvision (FromContext None) p))
   \<and> (\<forall>t. CanViewTemplate (FromContext None) t \<longleftrightarrow> tmpl_Published t)
   \<and> (\<forall>a b t. CanModifyTemplate a t \<and> CanDeleteTemplate b t \<longrightarrow> ctx_UserID a = ctx_UserID b)
   \<and> (\<forall>a b t. CanModifyTemplate a t \<and> CanPublishTemplate b t \<longrightarrow> ctx_UserID a = ctx_UserID b)
   \<and> (\<forall>a b d. CanManageDeployment a d \<and> CanDeleteDeployment b d \<longrightarrow> ctx_UserID a = ctx_UserID b)
   \<and> (\<forall>a b n. CanManageNode a n \<and> CanViewNode b n \<longrightarrow> ctx_UserID a = ctx_UserID b)
   \<and> (\<forall>a b k. CanManageSSHKey a k \<and> CanViewSSHKey b k \<longrightarrow> ctx_UserID a = ctx_UserID b)
   \<and> (\<forall>a b c. CanManageCloudCredential a c \<and> CanViewCloudCredential b c \<longrightarrow> ctx_UserID a = ctx_UserID b)
   \<and> (\<forall>a b p. CanManageCloudProvision a p \<and> CanViewCloudProvision b p \<longrightarrow> ctx_UserID a = ctx_UserID b)
   \<and> (\<forall>a t. CanModifyTemplate a t \<longrightarrow> CanViewTemplate a t)
   \<and> (\<forall>a d. CanManageDeployment a d \<longrightarrow> CanViewDeployment a d)"
proof (intro conjI allI impI)
  show "CanViewTemplate (FromContext None) t \<longleftrightarrow> tmpl_Published t" for t
    by (simp add: CanViewTemplate_def FromContext_def anonymous_def)
  show "CanViewTemplate a t" if "CanModifyTemplate a t" for a t
    using that by (simp add: CanViewTemplate_def tmpl.a.may_iff)
  show "CanViewDeployment a d" if "CanManageDeployment a d" for a d
    using that depl.agree by simp
qed (use tmpl.a.anonymous_denied tmpl.b.anonymous_denied tmpl_pub.anonymous_denied
    depl.a.anonymous_denied depl.b.anonymous_denied depl_del.anonymous_denied
    nod.a.anonymous_denied nod.b.anonymous_denied sshk.a.anonymous_denied sshk.b.anonymous_denied
    ccred.a.anonymous_denied ccred.b.anonymous_denied cprov.a.anonymous_denied
    cprov.b.anonymous_denied in blast,
  simp_all add: tmpl.a.may_iff tmpl.b.may_iff tmpl_pub.may_iff depl.b.may_iff
    depl_del.may_iff nod.a.may_iff nod.b.may_iff sshk.a.may_iff sshk.b.may_iff
    ccred.a.may_iff ccred.b.may_iff cprov.a.may_iff cprov.b.may_iff)

definition alice :: Context where
  "alice = anonymous\<lparr>ctx_UserID := 7, ctx_ReferenceID := ''user_a'', ctx_Authenticated := True\<rparr>"

theorem tenant_isolation_witness:
  "CanManageDeployment alice ((undefined :: Deployment)\<lparr>dep_CustomerID := 7\<rparr>)
   \<and> CanViewDeployment alice ((undefined :: Deployment)\<lparr>dep_CustomerID := 7\<rparr>)"
proof -
  have "CanManageDeployment alice ((undefined :: Deployment)\<lparr>dep_CustomerID := 7\<rparr>)"
    by (simp add: CanManageDeployment_def alice_def)
  then show ?thesis using tenant_isolation by blast
qed

section \<open>Extraction\<close>

text \<open>
  \<open>ExtractFromHeaders\<close> authenticates a request exactly when the gateway's user header is
  present or, in its absence, the bearer token has three parts whose payload decodes to claims
  with a subject; otherwise the context is the anonymous one. The user header wins over the
  token, the integer user id is never set here, and plan limits that do not parse fall back
  to the defaults, never to unlimited ones.
\<close>

theorem ExtractFromHeaders_auth:
  fixes get :: "string \<Rightarrow> string" and uc :: "string \<Rightarrow> jwtClaims option"
    and ul :: "string \<Rightarrow> PlanLimits option"
  defines "x \<equiv> ExtractFromHeaders uc ul get"
  shows "(ctx_Authenticated x \<longleftrightarrow>
            get HeaderUserID \<noteq> []
            \<or> (\<exists>cl. parseBearer uc (get ''Authorization'') = Some cl \<and> jwt_Sub cl \<noteq> []))
    \<and> (\<not> ctx_Authenticated x \<longrightarrow> x = FromContext None)
    \<and> (get HeaderUserID \<noteq> [] \<longrightarrow> ctx_ReferenceID x = get HeaderUserID)
    \<and> (ctx_Authenticated x \<longrightarrow> ctx_ReferenceID x \<noteq> []
         \<and> ctx_PlanLimits x \<in> {DefaultPlanLimits} \<union> {l. ul (get HeaderPlanLimits) = Some l})
    \<and> ctx_UserID x = 0"
proof (cases "get HeaderUserID = []")
  case False
  then show ?thesis
    by (auto simp: x_def ExtractFromHeaders_def anonymous_def ParsePlanLimits_def Let_def
        split: option.splits)
next
  case True
  then show ?thesis
    by (auto simp: x_def ExtractFromHeaders_def anonymous_def FromContext_def ParsePlanLimits_def
        Let_def split: option.splits)
qed

theorem ExtractFromHeaders_auth_witness:
  "ctx_ReferenceID (ExtractFromHeaders (\<lambda>_. None) (\<lambda>_. None) (\<lambda>h. if h = HeaderUserID then ''u1'' else []))
     = ''u1''"
  using ExtractFromHeaders_auth [of "\<lambda>_. None" "\<lambda>_. None" "\<lambda>h. if h = HeaderUserID then ''u1'' else []"]
  by simp

section \<open>Plan limits\<close>

definition usage_resources :: "CurrentUsage \<Rightarrow> Resources" where
  "usage_resources u = \<lparr>res_CPUCores = cu_TotalCPUCores u, res_MemoryMB = cu_TotalMemoryMB u,
     res_DiskMB = cu_TotalDiskMB u\<rparr>"

lemma ValidateDeploymentCreation_Allowed:
  "vr_Allowed (ValidateDeploymentCreation plan u r) \<longleftrightarrow>
     cu_DeploymentCount u < pl_MaxDeployments plan
     \<and> \<not> flt (pl_MaxCPUCores plan) (fadd (cu_TotalCPUCores u) (res_CPUCores r))
     \<and> wrap64 (cu_TotalMemoryMB u + res_MemoryMB r) \<le> pl_MaxMemoryMB plan
     \<and> wrap64 (cu_TotalDiskMB u + res_DiskMB r) \<le> pl_MaxDiskMB plan"
  by (auto simp: ValidateDeploymentCreation_def Let_def allowed_def denied_def)

text \<open>
  The two implementations of the plan check agree: \<open>limits.ValidateDeploymentCreation\<close>
  allows a creation exactly when \<open>auth.CanCreateDeployment\<close> and \<open>auth.ValidateResourceLimits\<close>
  both allow it for an authenticated request under the same limits, and each gives a reason
  exactly when it denies.
\<close>

theorem plan_checks_agree:
  assumes "ctx_Authenticated ctx"
  shows "(vr_Allowed (ValidateDeploymentCreation (ctx_PlanLimits ctx) u r) \<longleftrightarrow>
            fst (CanCreateDeployment ctx (cu_DeploymentCount u))
            \<and> fst (ValidateResourceLimits ctx (usage_resources u) (ResourcesFromDomain r)))
    \<and> (ValidationResult_Error (ValidateDeploymentCreation (ctx_PlanLimits ctx) u r) = None \<longleftrightarrow>
         ValidationResult_Ok (ValidateDeploymentCreation (ctx_PlanLimits ctx) u r))
    \<and> (snd (ValidateResourceLimits ctx (usage_resources u) (ResourcesFromDomain r)) = [] \<longleftrightarrow>
         fst (ValidateResourceLimits ctx (usage_resources u) (ResourcesFromDomain r)))"
  unfolding ValidateDeploymentCreation_Allowed
  using assms
  by (auto simp: CanCreateDeployment_def ValidateResourceLimits_def usage_resources_def
      ResourcesFromDomain_def Let_def ValidationResult_Error_def ValidationResult_Ok_def)

theorem plan_checks_agree_witness:
  "fst (CanCreateDeployment (alice\<lparr>ctx_PlanLimits := DefaultPlanLimits\<rparr>) 1) = False
   \<and> \<not> vr_Allowed (ValidateDeploymentCreation DefaultPlanLimits
        \<lparr>cu_DeploymentCount = 1, cu_TotalCPUCores = Fin 0, cu_TotalMemoryMB = 0, cu_TotalDiskMB = 0\<rparr>
        zero_Resources)"
proof -
  let ?c = "alice\<lparr>ctx_PlanLimits := DefaultPlanLimits\<rparr>"
  let ?u = "\<lparr>cu_DeploymentCount = 1, cu_TotalCPUCores = Fin 0, cu_TotalMemoryMB = 0, cu_TotalDiskMB = 0\<rparr>"
  have a: "ctx_Authenticated ?c" by (simp add: alice_def)
  have "fst (CanCreateDeployment ?c 1) = False"
    by (simp add: CanCreateDeployment_def alice_def DefaultPlanLimits_def)
  then show ?thesis using plan_checks_agree [OF a, of ?u zero_Resources] by simp
qed

lemma wrap64_max_add:
  assumes that: "0 < m" "in_int64 m"
  shows "wrap64 (m + (2 ^ 63 - 1)) < 0"
proof -
  have "(m + (2 ^ 63 - 1) + 2 ^ 63) mod 2 ^ 64 = m - 1"
  proof -
    have "m + (2 ^ 63 - 1) + 2 ^ 63 = (m - 1) + 2 ^ 64" by simp
    moreover have "((m - 1) + 2 ^ 64) mod 2 ^ 64 = m - 1"
    proof -
      have "((m - 1) + 2 ^ 64) mod 2 ^ 64 = (m - 1) mod 2 ^ 64" by (rule mod_add_self2)
      also have "\<dots> = m - 1" using that by (intro mod_pos_pos_trivial) (auto simp: in_int64_def)
      finally show ?thesis .
    qed
    ultimately show ?thesis by metis
  qed
  then show ?thesis using that by (simp add: wrap64_def in_int64_def)
qed

text \<open>
  When usage and request are non-negative and their sums fit 64 bits, an allowed creation
  keeps the user within the plan: the true memory and disk totals are at most the limits and
  the deployment count stays below its limit. Without the no-overflow condition this fails:
  the sum wraps, so a user who already uses some memory and may create a deployment may also
  create the same one with the largest 64-bit memory request.
\<close>

theorem plan_limits_sound:
  assumes "vr_Allowed (ValidateDeploymentCreation plan u r)"
  shows "cu_DeploymentCount u < pl_MaxDeployments plan
    \<and> (0 \<le> cu_TotalMemoryMB u \<and> 0 \<le> res_MemoryMB r \<and> in_int64 (cu_TotalMemoryMB u + res_MemoryMB r)
         \<longrightarrow> cu_TotalMemoryMB u + res_MemoryMB r \<le> pl_MaxMemoryMB plan)
    \<and> (0 \<le> cu_TotalDiskMB u \<and> 0 \<le> res_DiskMB r \<and> in_int64 (cu_TotalDiskMB u + res_DiskMB r)
         \<longrightarrow> cu_TotalDiskMB u + res_DiskMB r \<le> pl_MaxDiskMB plan)
    \<and> (0 < cu_TotalMemoryMB u \<and> in_int64 (cu_TotalMemoryMB u) \<and> 0 \<le> pl_MaxMemoryMB plan \<longrightarrow>
         vr_Allowed (ValidateDeploymentCreation plan u (r\<lparr>res_MemoryMB := 2 ^ 63 - 1\<rparr>)))"
  using assms wrap64_id wrap64_max_add unfolding ValidateDeploymentCreation_Allowed
  by (auto intro: less_imp_le [OF order.strict_trans2])

theorem plan_limits_sound_witness:
  "vr_Allowed (ValidateDeploymentCreation DefaultPlanLimits
     \<lparr>cu_DeploymentCount = 0, cu_TotalCPUCores = Fin 0, cu_TotalMemoryMB = 0, cu_TotalDiskMB = 0\<rparr>
     zero_Resources)
   \<and> (0::int) < pl_MaxDeployments DefaultPlanLimits"
proof -
  let ?u = "\<lparr>cu_DeploymentCount = 0, cu_TotalCPUCores = Fin 0, cu_TotalMemoryMB = 0, cu_TotalDiskMB = 0\<rparr>"
  have f: "fadd (Fin 0) (Fin 0) = Fin 0"
    by (simp add: of_rat64_def Let_def max_float64_def)
  have h: "vr_Allowed (ValidateDeploymentCreation DefaultPlanLimits ?u zero_Resources)"
    by (simp add: ValidateDeploymentCreation_Allowed DefaultPlanLimits_def zero_Resources_def f
        wrap64_id in_int64_def del: fadd.simps)
  from plan_limits_sound [OF h, THEN conjunct1] h show ?thesis by simp
qed

end
