(* ===== verification/Scheduling.thy ===== *)
theory Scheduling
  imports Authz "HOL-Library.Multiset"
begin

text \<open>
  \<open>internal/core/scheduler/scheduler.go\<close>: node selection. \<open>sort.Slice\<close> is not stable and which
  of several equal elements comes first is unspecified, so the sort is an argument \<open>srt\<close> with the
  documented contract of the locale \<open>sort_slice\<close>; the insertion sort that the library runs on
  short slices is one instance.
\<close>

section \<open>Sorting\<close>

text \<open>A strict weak order on the elements of a slice: what \<open>sort.Slice\<close> asks of its \<open>less\<close>.\<close>

definition strict_weak_on :: "'a set \<Rightarrow> ('a \<Rightarrow> 'a \<Rightarrow> bool) \<Rightarrow> bool" where
  "strict_weak_on A lt \<longleftrightarrow>
     (\<forall>x \<in> A. \<not> lt x x)
     \<and> (\<forall>x \<in> A. \<forall>y \<in> A. \<forall>z \<in> A. lt x y \<longrightarrow> lt y z \<longrightarrow> lt x z)
     \<and> (\<forall>x \<in> A. \<forall>y \<in> A. \<forall>z \<in> A. \<not> lt x y \<longrightarrow> \<not> lt y z \<longrightarrow> \<not> lt x z)"

definition slice_sorted :: "('a \<Rightarrow> 'a \<Rightarrow> bool) \<Rightarrow> 'a list \<Rightarrow> bool" where
  "slice_sorted lt xs \<longleftrightarrow> sorted_wrt (\<lambda>a b. \<not> lt b a) xs"

locale sort_slice =
  fixes srt :: "('a \<Rightarrow> 'a \<Rightarrow> bool) \<Rightarrow> 'a list \<Rightarrow> 'a list"
  assumes srt_perm: "mset (srt lt xs) = mset xs"
    and srt_sorted: "strict_weak_on (set xs) lt \<Longrightarrow> slice_sorted lt (srt lt xs)"
begin

lemma srt_set [simp]: "set (srt lt xs) = set xs"
  using srt_perm by (metis set_mset_mset)

lemma srt_Nil_iff [simp]: "srt lt xs = [] \<longleftrightarrow> xs = []"
  using srt_perm by (metis mset_zero_iff)

lemma srt_hd_in: "xs \<noteq> [] \<Longrightarrow> hd (srt lt xs) \<in> set xs"
  using srt_set [of lt xs] srt_Nil_iff [of lt xs] hd_in_set by blast

lemma srt_hd_least:
  "strict_weak_on (set xs) lt \<Longrightarrow> x \<in> set xs \<Longrightarrow> \<not> lt x (hd (srt lt xs))"
proof -
  assume sw: "strict_weak_on (set xs) lt" and x: "x \<in> set xs"
  then obtain y ys where s: "srt lt xs = y # ys"
    using srt_Nil_iff by (metis empty_iff list.exhaust list.set(1))
  with srt_sorted [OF sw] have "\<forall>z \<in> set ys. \<not> lt z y" by (simp add: slice_sorted_def)
  moreover have "x \<in> set (y # ys)" using x srt_set [of lt xs] s by simp
  moreover have "\<not> lt y y" using sw s srt_set [of lt xs] by (auto simp: strict_weak_on_def)
  ultimately show ?thesis using s by auto
qed

end

text \<open>\<open>insertionSort_func\<close>: the sorted prefix is kept reversed, the new element moves left.\<close>

fun insert_left :: "('a \<Rightarrow> 'a \<Rightarrow> bool) \<Rightarrow> 'a \<Rightarrow> 'a list \<Rightarrow> 'a list" where
  "insert_left lt x [] = [x]"
| "insert_left lt x (y # ys) = (if lt x y then y # insert_left lt x ys else x # y # ys)"

definition insertionSort :: "('a \<Rightarrow> 'a \<Rightarrow> bool) \<Rightarrow> 'a list \<Rightarrow> 'a list" where
  "insertionSort lt xs = rev (foldl (\<lambda>acc x. insert_left lt x acc) [] xs)"

lemma mset_insert_left [simp]: "mset (insert_left lt x ys) = add_mset x (mset ys)"
  by (induction ys) auto

lemma set_insert_left [simp]: "set (insert_left lt x ys) = insert x (set ys)"
  by (induction ys) auto

lemma mset_foldl_insert: "mset (foldl (\<lambda>acc x. insert_left lt x acc) acc xs) = mset acc + mset xs"
  by (induction xs arbitrary: acc) auto

lemma insert_left_sorted:
  assumes "strict_weak_on A lt" and "x \<in> A" "set ys \<subseteq> A"
    and "sorted_wrt (\<lambda>a b. \<not> lt a b) ys"
  shows "sorted_wrt (\<lambda>a b. \<not> lt a b) (insert_left lt x ys)"
  using assms(3,4)
proof (induction ys)
  case Nil
  then show ?case by simp
next
  case (Cons y ys)
  have tr: "\<not> lt u v \<Longrightarrow> \<not> lt v w \<Longrightarrow> \<not> lt u w" if "u \<in> A" "v \<in> A" "w \<in> A" for u v w
    using assms(1) that unfolding strict_weak_on_def by blast
  show ?case
  proof (cases "lt x y")
    case True
    have "\<not> lt y x"
      using True assms(1,2) Cons.prems(1) unfolding strict_weak_on_def
      by (metis insert_subset list.set(2))
    with True Cons show ?thesis by auto
  next
    case False
    have "\<not> lt x z" if "z \<in> set ys" for z
      using tr [of x y z] False that Cons.prems assms(2) by auto
    with False Cons.prems show ?thesis by auto
  qed
qed

lemma foldl_insert_sorted:
  assumes "strict_weak_on A lt"
  shows "set xs \<subseteq> A \<Longrightarrow> set acc \<subseteq> A \<Longrightarrow> sorted_wrt (\<lambda>a b. \<not> lt a b) acc \<Longrightarrow>
    sorted_wrt (\<lambda>a b. \<not> lt a b) (foldl (\<lambda>acc x. insert_left lt x acc) acc xs)"
  by (induction xs arbitrary: acc) (auto simp: insert_left_sorted [OF assms])

interpretation ins: sort_slice insertionSort
proof
  show "mset (insertionSort lt xs) = mset xs" for lt :: "'a \<Rightarrow> 'a \<Rightarrow> bool" and xs
    by (simp add: insertionSort_def mset_foldl_insert)
  show "slice_sorted lt (insertionSort lt xs)" if "strict_weak_on (set xs) lt"
    for lt :: "'a \<Rightarrow> 'a \<Rightarrow> bool" and xs
    using foldl_insert_sorted [OF that, of xs "[]"]
    by (simp add: slice_sorted_def insertionSort_def sorted_wrt_rev)
qed

section \<open>Requests, results, scores\<close>

datatype schedule_error =
  ErrNoNodesAvailable | ErrNoCapableNodes | ErrNoPlanCapabilities | ErrInsufficientCapacity

record ScheduleRequest =
  req_AvailableNodes :: "Node list"
  req_RequiredResources :: Resources
  req_RequiredCapabilities :: "string list"
  req_AllowedCapabilities :: "string list"

record ScheduleResult =
  sr_SelectedNodeID :: string
  sr_SelectedNode :: "Node option"
  sr_Score :: float64
  sr_ConsideredCount :: int
  sr_FilteredOutReasons :: "(string \<times> int) list"

record nodeCandidate =
  cand_node :: Node
  cand_score :: float64

definition clamp100 :: "float64 \<Rightarrow> float64" where
  "clamp100 p = (let p1 = (if flt p (Fin 0) then Fin 0 else p)
                 in if flt f100 p1 then f100 else p1)"

definition ScoreNode :: "Node \<Rightarrow> Resources \<Rightarrow> float64" where
  "ScoreNode node required =
     (let cap = node_Capacity node;
          availableCPU = fsub (AvailableCPU cap) (res_CPUCores required);
          availableMemory = wrap64 (AvailableMemory cap - res_MemoryMB required);
          availableDisk = wrap64 (AvailableDisk cap - res_DiskMB required);
          cpuPercent = (if flt (Fin 0) (cap_CPUCores cap)
            then clamp100 (fmul (fdiv availableCPU (cap_CPUCores cap)) f100) else Fin 0);
          memoryPercent = (if 0 < cap_MemoryMB cap
            then clamp100 (fmul (fdiv (float_of_int availableMemory)
                                      (float_of_int (cap_MemoryMB cap))) f100) else Fin 0);
          diskPercent = (if 0 < cap_DiskMB cap
            then clamp100 (fmul (fdiv (float_of_int availableDisk)
                                      (float_of_int (cap_DiskMB cap))) f100) else Fin 0)
      in weighted cpuPercent memoryPercent diskPercent)"

section \<open>Schedule\<close>

text \<open>Why a node is left out, in the order of the code's checks.\<close>

definition filter_reason :: "ScheduleRequest \<Rightarrow> Node \<Rightarrow> string option" where
  "filter_reason req node =
     (if \<not> Node_IsAvailable node then Some ''not_online''
      else if 0 < length (req_RequiredCapabilities req)
           \<and> \<not> HasAllCapabilities node (req_RequiredCapabilities req)
      then Some ''missing_required_capabilities''
      else if 0 < length (req_AllowedCapabilities req)
           \<and> \<not> HasAnyCapability node (req_AllowedCapabilities req)
      then Some ''plan_capabilities_mismatch''
      else if \<not> CanHandle (node_Capacity node) (req_RequiredResources req)
      then Some ''insufficient_capacity''
      else None)"

text \<open>The loop over the nodes: the state is the count, the reasons and the candidates.\<close>

fun schedule_loop ::
  "ScheduleRequest \<Rightarrow> Node list \<Rightarrow> int \<times> (string \<times> int) list \<times> nodeCandidate list
     \<Rightarrow> int \<times> (string \<times> int) list \<times> nodeCandidate list" where
  "schedule_loop req [] st = st"
| "schedule_loop req (node # rest) (considered, reasons, candidates) =
     (case filter_reason req node of
        Some r \<Rightarrow> schedule_loop req rest
          (considered + 1, AList.update r (lookup0 reasons r + 1) reasons, candidates)
      | None \<Rightarrow> schedule_loop req rest
          (considered + 1, reasons,
           candidates @ [\<lparr>cand_node = node, cand_score = ScoreNode node (req_RequiredResources req)\<rparr>]))"

definition empty_result :: ScheduleResult where
  "empty_result = \<lparr>sr_SelectedNodeID = [], sr_SelectedNode = None, sr_Score = Fin 0,
     sr_ConsideredCount = 0, sr_FilteredOutReasons = []\<rparr>"

definition no_candidate_error :: "(string \<times> int) list \<Rightarrow> schedule_error" where
  "no_candidate_error reasons =
     (if 0 < lookup0 reasons ''plan_capabilities_mismatch''
         \<and> lookup0 reasons ''missing_required_capabilities'' = 0 then ErrNoPlanCapabilities
      else if 0 < lookup0 reasons ''missing_required_capabilities'' then ErrNoCapableNodes
      else if 0 < lookup0 reasons ''insufficient_capacity'' then ErrInsufficientCapacity
      else ErrNoNodesAvailable)"

definition cand_less :: "nodeCandidate \<Rightarrow> nodeCandidate \<Rightarrow> bool" where
  "cand_less a b \<longleftrightarrow> flt (cand_score b) (cand_score a)"

text \<open>Both results are returned, the error together with the partial result.\<close>

definition Schedule ::
  "((nodeCandidate \<Rightarrow> nodeCandidate \<Rightarrow> bool) \<Rightarrow> nodeCandidate list \<Rightarrow> nodeCandidate list)
     \<Rightarrow> ScheduleRequest \<Rightarrow> ScheduleResult \<times> schedule_error option" where
  "Schedule srt req =
     (if length (req_AvailableNodes req) = 0 then (empty_result, Some ErrNoNodesAvailable)
      else
        let (considered, reasons, candidates) = schedule_loop req (req_AvailableNodes req) (0, [], []);
            result = empty_result\<lparr>sr_ConsideredCount := considered, sr_FilteredOutReasons := reasons\<rparr>
        in if length candidates = 0 then (result, Some (no_candidate_error reasons))
           else
             let best = hd (srt cand_less candidates)
             in (result\<lparr>sr_SelectedNodeID := node_ReferenceID (cand_node best),
                        sr_SelectedNode := Some (cand_node best), sr_Score := cand_score best\<rparr>, None))"

section \<open>Helper functions\<close>

fun FilterOnlineNodes :: "Node list \<Rightarrow> Node list" where
  "FilterOnlineNodes [] = []"
| "FilterOnlineNodes (n # ns) =
     (if Node_IsAvailable n then n # FilterOnlineNodes ns else FilterOnlineNodes ns)"

definition FilterByCapabilities :: "Node list \<Rightarrow> string list \<Rightarrow> Node list" where
  "FilterByCapabilities nodes required =
     (if length required = 0 then nodes else filter (\<lambda>n. HasAllCapabilities n required) nodes)"

definition FilterByPlanCapabilities :: "Node list \<Rightarrow> string list \<Rightarrow> Node list" where
  "FilterByPlanCapabilities nodes allow =
     (if length allow = 0 then nodes else filter (\<lambda>n. HasAnyCapability n allow) nodes)"

definition FilterByCapacity :: "Node list \<Rightarrow> Resources \<Rightarrow> Node list" where
  "FilterByCapacity nodes required = filter (\<lambda>n. CanHandle (node_Capacity n) required) nodes"

definition SortByScore ::
  "((Node \<Rightarrow> Node \<Rightarrow> bool) \<Rightarrow> Node list \<Rightarrow> Node list) \<Rightarrow> Node list \<Rightarrow> Resources \<Rightarrow> Node list" where
  "SortByScore srt nodes required =
     srt (\<lambda>a b. flt (ScoreNode b required) (ScoreNode a required)) nodes"

definition CapabilitiesIntersect :: "string list \<Rightarrow> string list \<Rightarrow> bool" where
  "CapabilitiesIntersect a b =
     (if length a = 0 \<or> length b = 0 then True
      else let capset = foldl (\<lambda>m c. m(c := True)) (\<lambda>_. False) a in list_ex capset b)"

definition ValidateCapabilityRequirements ::
  "string list \<Rightarrow> string list \<Rightarrow> schedule_error option" where
  "ValidateCapabilityRequirements required allow =
     (if length required = 0 then None
      else if length allow = 0 then None
      else let allowedSet = foldl (\<lambda>m c. m(c := True)) (\<lambda>_. False) allow
           in if list_ex (\<lambda>r. \<not> allowedSet r) required then Some ErrNoPlanCapabilities else None)"

section \<open>Scores are percentages\<close>

text \<open>
  Finite processor figures and 64-bit sizes. (JSON and SQLite carry no infinities and no NaN.)
\<close>

definition capacity_ok :: "NodeCapacity \<Rightarrow> bool" where
  "capacity_ok c \<longleftrightarrow> is_fin (cap_CPUCores c) \<and> is_fin (cap_CPUUsed c)
     \<and> in_int64 (cap_MemoryMB c) \<and> in_int64 (cap_DiskMB c)"

lemma percentage_clamp100: "p \<noteq> NaN \<Longrightarrow> percentage (clamp100 p)"
  by (cases p) (auto simp: clamp100_def percentage_def f100_def Let_def)

lemma AvailableCPU_cases:
  "is_fin (cap_CPUCores c) \<Longrightarrow> is_fin (cap_CPUUsed c) \<Longrightarrow>
     AvailableCPU c = PInf \<or> is_fin (AvailableCPU c)"
  using of_rat64_cases by (fastforce simp: AvailableCPU_def fsub_def is_fin_iff Let_def)

lemma fsub_no_NaN: "x = PInf \<or> is_fin x \<Longrightarrow> is_fin y \<Longrightarrow> fsub x y \<noteq> NaN"
  by (auto simp: fsub_def is_fin_iff)

lemma fdiv_fmul_no_NaN: "x \<noteq> NaN \<Longrightarrow> 0 < c \<Longrightarrow> fmul (fdiv x (Fin c)) f100 \<noteq> NaN"
proof -
  assume x: "x \<noteq> NaN" and c: "0 < c"
  then have "fdiv x (Fin c) \<noteq> NaN" by (cases x) (auto simp: inf_of_sign_def)
  then show ?thesis by (cases "fdiv x (Fin c)") (auto simp: f100_def inf_of_sign_def)
qed

lemma float_of_int_no_NaN: "float_of_int n \<noteq> NaN"
  by (simp add: float_of_int_def)

lemma rnd_int64_max: "rnd (2 ^ 63) \<le> max_float64"
  by code_simp

lemma float_of_int_pos:
  assumes "0 < n" "in_int64 n"
  shows "\<exists>c. float_of_int n = Fin c \<and> 0 < c"
proof -
  have "(of_int n :: rat) \<le> of_int (2 ^ 63)"
    using assms by (subst of_int_le_iff) (simp add: in_int64_def)
  then have le: "(of_int n :: rat) \<le> 2 ^ 63" by simp
  have "of_rat64 (of_int n) = Fin (rnd (of_int n))"
    using of_rat64_bounded(1) [OF _ le rnd_int64_max] assms by simp
  moreover have "rnd 1 \<le> rnd (of_int n)" using assms by (intro rnd_mono) simp
  moreover have "rnd 1 = 1" using rnd_of_int [of 1] by simp
  ultimately show ?thesis by (auto simp: float_of_int_def)
qed

lemma percent_int:
  "0 < n \<Longrightarrow> in_int64 n \<Longrightarrow>
     percentage (clamp100 (fmul (fdiv (float_of_int m) (float_of_int n)) f100))"
  using float_of_int_pos [of n] fdiv_fmul_no_NaN [OF float_of_int_no_NaN]
  by (auto intro!: percentage_clamp100)

lemma ScoreNode_percentage:
  assumes "capacity_ok (node_Capacity n)" and "is_fin (res_CPUCores r)"
  shows "percentage (ScoreNode n r)"
proof -
  let ?c = "node_Capacity n"
  have f: "fsub (AvailableCPU ?c) (res_CPUCores r) \<noteq> NaN"
    using assms AvailableCPU_cases by (intro fsub_no_NaN) (auto simp: capacity_ok_def)
  have "percentage (if flt (Fin 0) (cap_CPUCores ?c)
     then clamp100 (fmul (fdiv (fsub (AvailableCPU ?c) (res_CPUCores r)) (cap_CPUCores ?c)) f100)
     else Fin 0)"
    using assms(1) fdiv_fmul_no_NaN [OF f]
    by (auto simp: capacity_ok_def is_fin_iff intro!: percentage_clamp100)
       (simp add: percentage_def)
  then show ?thesis
    using assms(1) percent_int unfolding ScoreNode_def Let_def
    by (intro weighted_percentage) (simp_all add: capacity_ok_def percentage_def [of "Fin 0"])
qed

section \<open>What the loop computes\<close>

abbreviation candidate :: "ScheduleRequest \<Rightarrow> Node \<Rightarrow> nodeCandidate" where
  "candidate req n \<equiv> \<lparr>cand_node = n, cand_score = ScoreNode n (req_RequiredResources req)\<rparr>"

definition reason_count :: "ScheduleRequest \<Rightarrow> Node list \<Rightarrow> string \<Rightarrow> int" where
  "reason_count req ns r = int (length (filter (\<lambda>n. filter_reason req n = Some r) ns))"

lemma schedule_loop_result:
  "\<exists>reasons. schedule_loop req ns (k, rs, cs) =
       (k + int (length ns), reasons,
        cs @ map (candidate req) (filter (\<lambda>n. filter_reason req n = None) ns))
     \<and> (\<forall>r. lookup0 reasons r = lookup0 rs r + reason_count req ns r)"
proof (induction ns arbitrary: k rs cs)
  case Nil
  then show ?case by (simp add: reason_count_def)
next
  case (Cons n ns)
  show ?case
  proof (cases "filter_reason req n")
    case None
    with Cons [of "k + 1" rs "cs @ [candidate req n]"] show ?thesis
      by (auto simp: reason_count_def)
  next
    case (Some r)
    with Cons [of "k + 1" "AList.update r (lookup0 rs r + 1) rs" cs] show ?thesis
      by (auto simp: reason_count_def lookup0_update)
  qed
qed

text \<open>The nodes a request may run on.\<close>

definition eligible :: "ScheduleRequest \<Rightarrow> Node \<Rightarrow> bool" where
  "eligible req n \<longleftrightarrow>
     node_Status n = NodeStatusOnline
     \<and> set (req_RequiredCapabilities req) \<subseteq> set (node_Capabilities n)
     \<and> (req_AllowedCapabilities req = []
          \<or> set (req_AllowedCapabilities req) \<inter> set (node_Capabilities n) \<noteq> {})
     \<and> CanHandle (node_Capacity n) (req_RequiredResources req)"

lemma eligible_iff: "eligible req n \<longleftrightarrow> filter_reason req n = None"
  by (auto simp: eligible_def filter_reason_def Node_IsAvailable_def NodeStatus_IsAvailable_def
      HasAllCapabilities_iff HasAnyCapability_iff)

lemma cand_less_weak:
  assumes "\<And>c. c \<in> A \<Longrightarrow> is_fin (cand_score c)"
  shows "strict_weak_on A cand_less"
proof -
  obtain f where f: "\<And>c. c \<in> A \<Longrightarrow> cand_score c = Fin (f c)"
    using assms unfolding is_fin_iff by metis
  then show ?thesis unfolding strict_weak_on_def cand_less_def by (simp add: f)
qed

lemma percentage_fin: "percentage x \<Longrightarrow> is_fin x"
  by (auto simp: percentage_iff)

lemma Schedule_unfold:
  "\<exists>reasons. Schedule srt req =
     (let el = filter (eligible req) (req_AvailableNodes req);
          res = empty_result\<lparr>sr_ConsideredCount := int (length (req_AvailableNodes req)),
                  sr_FilteredOutReasons := reasons\<rparr>;
          best = hd (srt cand_less (map (candidate req) el))
      in if req_AvailableNodes req = [] then (empty_result, Some ErrNoNodesAvailable)
         else if el = [] then (res, Some (no_candidate_error reasons))
         else (res\<lparr>sr_SelectedNodeID := node_ReferenceID (cand_node best),
                 sr_SelectedNode := Some (cand_node best), sr_Score := cand_score best\<rparr>, None))
     \<and> (\<forall>r. lookup0 reasons r = reason_count req (req_AvailableNodes req) r)"
proof -
  obtain reasons where l: "schedule_loop req (req_AvailableNodes req) (0, [], []) =
       (int (length (req_AvailableNodes req)), reasons,
        map (candidate req) (filter (eligible req) (req_AvailableNodes req)))"
    and r: "\<forall>r. lookup0 reasons r = reason_count req (req_AvailableNodes req) r"
    using schedule_loop_result [of req "req_AvailableNodes req" 0 "[]" "[]"]
    by (auto simp: lookup0_def eligible_iff [abs_def])
  show ?thesis
    by (intro exI [of _ reasons] conjI r) (simp add: Schedule_def l Let_def)
qed

lemma Schedule_best:
  assumes srt: "sort_slice srt" and ne: "el \<noteq> []"
    and pct: "\<And>n. n \<in> set el \<Longrightarrow> percentage (ScoreNode n (req_RequiredResources req))"
  shows "\<exists>n. hd (srt cand_less (map (candidate req) el)) = candidate req n \<and> n \<in> set el
      \<and> (\<forall>m \<in> set el. fle (ScoreNode m (req_RequiredResources req)) (ScoreNode n (req_RequiredResources req)))"
proof -
  let ?cs = "map (candidate req) el"
  let ?best = "hd (srt cand_less ?cs)"
  let ?sc = "\<lambda>n. ScoreNode n (req_RequiredResources req)"
  have "?best \<in> set ?cs" using ne by (intro sort_slice.srt_hd_in [OF srt]) simp
  then obtain n where n: "n \<in> set el" "?best = candidate req n" by auto
  have sw: "strict_weak_on (set ?cs) cand_less"
    using pct percentage_fin by (intro cand_less_weak) auto
  have "fle (?sc m) (?sc n)" if m: "m \<in> set el" for m
  proof -
    have "\<not> cand_less (candidate req m) ?best"
      using m by (intro sort_slice.srt_hd_least [OF srt sw]) simp
    moreover have "?sc m \<noteq> NaN" "?sc n \<noteq> NaN"
      using pct [OF m] pct [OF n(1)] by (auto simp: percentage_iff)
    ultimately show ?thesis by (simp add: n cand_less_def not_flt_iff)
  qed
  with n show ?thesis by blast
qed

text \<open>
  C1: \<open>Schedule\<close> selects a best eligible node. When the node figures are finite, it succeeds
  exactly when some node is online, has every required capability, one of the plan's
  capabilities (if the plan restricts them) and enough free resources. The selected node then
  is such a node of the request, its score is a percentage, and no eligible node scores higher.
  Every node is counted as considered.
\<close>

theorem Schedule_optimal:
  assumes srt: "sort_slice srt"
    and fin: "list_all (\<lambda>n. capacity_ok (node_Capacity n)) (req_AvailableNodes req)"
      "is_fin (res_CPUCores (req_RequiredResources req))"
  shows "(snd (Schedule srt req) = None \<longleftrightarrow> (\<exists>n \<in> set (req_AvailableNodes req). eligible req n))
    \<and> sr_ConsideredCount (fst (Schedule srt req)) = int (length (req_AvailableNodes req))
    \<and> (snd (Schedule srt req) = None \<longrightarrow>
         (\<exists>n. sr_SelectedNode (fst (Schedule srt req)) = Some n
            \<and> sr_SelectedNodeID (fst (Schedule srt req)) = node_ReferenceID n
            \<and> n \<in> set (req_AvailableNodes req) \<and> eligible req n
            \<and> sr_Score (fst (Schedule srt req)) = ScoreNode n (req_RequiredResources req)
            \<and> percentage (ScoreNode n (req_RequiredResources req))
            \<and> (\<forall>m \<in> set (req_AvailableNodes req). eligible req m \<longrightarrow>
                 fle (ScoreNode m (req_RequiredResources req)) (ScoreNode n (req_RequiredResources req)))))"
proof -
  let ?el = "filter (eligible req) (req_AvailableNodes req)"
  let ?cs = "map (candidate req) ?el"
  let ?best = "hd (srt cand_less ?cs)"
  let ?sc = "\<lambda>n. ScoreNode n (req_RequiredResources req)"
  have pct: "percentage (?sc n)" if "n \<in> set (req_AvailableNodes req)" for n
    using fin that by (intro ScoreNode_percentage) (auto simp: list_all_iff)
  obtain reasons where u: "Schedule srt req = (let el = ?el;
        res = empty_result\<lparr>sr_ConsideredCount := int (length (req_AvailableNodes req)),
                  sr_FilteredOutReasons := reasons\<rparr>; best = ?best
      in if req_AvailableNodes req = [] then (empty_result, Some ErrNoNodesAvailable)
         else if el = [] then (res, Some (no_candidate_error reasons))
         else (res\<lparr>sr_SelectedNodeID := node_ReferenceID (cand_node best),
                 sr_SelectedNode := Some (cand_node best), sr_Score := cand_score best\<rparr>, None))"
    using Schedule_unfold [of srt req] by (auto simp: Let_def)
  show ?thesis
  proof (cases "?el = []")
    case True
    then show ?thesis by (auto simp: u Let_def filter_empty_conv empty_result_def)
  next
    case False
    then have ne: "req_AvailableNodes req \<noteq> []" "\<exists>n \<in> set (req_AvailableNodes req). eligible req n"
      by (auto simp: filter_empty_conv)
    have "percentage (?sc n)" if "n \<in> set ?el" for n using that by (simp add: pct)
    from Schedule_best [OF srt False this] obtain n where n: "?best = candidate req n" "n \<in> set ?el"
      "\<forall>m \<in> set ?el. fle (?sc m) (?sc n)" by blast
    have s: "Schedule srt req = (empty_result\<lparr>sr_ConsideredCount := int (length (req_AvailableNodes req)),
        sr_FilteredOutReasons := reasons, sr_SelectedNodeID := node_ReferenceID n,
        sr_SelectedNode := Some n, sr_Score := ?sc n\<rparr>, None)"
      using False ne by (simp add: u Let_def n(1))
    show ?thesis unfolding s using ne n pct by auto
  qed
qed

definition demo_node :: "string \<Rightarrow> int \<Rightarrow> Node" where
  "demo_node ref mem = \<lparr>node_ID = 1, node_ReferenceID = ref, node_Name = ''worker'',
     node_CreatorID = 1, node_SSHHost = ''10.0.0.1'', node_SSHPort = 22, node_SSHUser = ''root'',
     node_SSHKeyID = 1, node_SSHKeyRefID = [], node_DockerSocket = [],
     node_Status = NodeStatusOnline, node_Capabilities = [''standard''],
     node_Capacity = \<lparr>cap_CPUCores = Fin 2, cap_MemoryMB = 100, cap_DiskMB = 100,
       cap_CPUUsed = Fin 0, cap_MemoryUsedMB = mem, cap_DiskUsedMB = 0\<rparr>,
     node_Location = [], node_LastHealthCheck = None, node_ErrorMessage = [],
     node_ProviderType = [], node_ProvisionID = [], node_BaseDomain = [], node_CreatedAt = 0,
     node_UpdatedAt = 0\<rparr>"

definition demo_request :: ScheduleRequest where
  "demo_request = \<lparr>req_AvailableNodes = [demo_node ''n1'' 80, demo_node ''n2'' 20],
     req_RequiredResources = zero_Resources, req_RequiredCapabilities = [''standard''],
     req_AllowedCapabilities = []\<rparr>"

theorem Schedule_optimal_witness:
  "snd (Schedule insertionSort demo_request) = None
   \<and> (\<exists>n. sr_SelectedNode (fst (Schedule insertionSort demo_request)) = Some n
        \<and> n \<in> {demo_node ''n1'' 80, demo_node ''n2'' 20})"
proof -
  have h: "list_all (\<lambda>n. capacity_ok (node_Capacity n)) (req_AvailableNodes demo_request)"
    "is_fin (res_CPUCores (req_RequiredResources demo_request))"
    by (simp_all add: demo_request_def demo_node_def capacity_ok_def in_int64_def zero_Resources_def)
  have a: "AvailableCPU (node_Capacity (demo_node r m)) = Fin 2" for r m
    using rnd_of_int [of 2]
    by (simp add: AvailableCPU_def demo_node_def fsub_def of_rat64_def max_float64_def)
  have "eligible demo_request (demo_node ''n2'' 20)"
    using a [of "''n2''" 20]
    by (simp add: eligible_def demo_request_def CanHandle_def zero_Resources_def)
      (simp add: demo_node_def AvailableMemory_def AvailableDisk_def wrap64_def)
  moreover have "demo_node ''n2'' 20 \<in> set (req_AvailableNodes demo_request)"
    by (simp add: demo_request_def)
  ultimately have "snd (Schedule insertionSort demo_request) = None"
    using Schedule_optimal [OF ins.sort_slice_axioms h] by blast
  then show ?thesis
    using Schedule_optimal [OF ins.sort_slice_axioms h] by (auto simp: demo_request_def)
qed

text \<open>
  When \<open>Schedule\<close> fails, the error names the right cause. No node at all, or only nodes that
  are not online, is \<open>ErrNoNodesAvailable\<close>; otherwise a node lacking a required capability wins
  over one refused by the plan, and both over one without capacity. The recorded reasons count
  exactly the nodes left out for each cause, so they add up with the eligible ones to the number
  considered.
\<close>

theorem Schedule_error:
  assumes "snd (Schedule srt req) = Some e"
  shows "e =
      (if reason_count req (req_AvailableNodes req) ''missing_required_capabilities'' > 0
       then ErrNoCapableNodes
       else if reason_count req (req_AvailableNodes req) ''plan_capabilities_mismatch'' > 0
       then ErrNoPlanCapabilities
       else if reason_count req (req_AvailableNodes req) ''insufficient_capacity'' > 0
       then ErrInsufficientCapacity else ErrNoNodesAvailable)
    \<and> (e = ErrNoNodesAvailable \<longleftrightarrow>
         (\<forall>n \<in> set (req_AvailableNodes req). \<not> Node_IsAvailable n))
    \<and> (\<forall>r. lookup0 (sr_FilteredOutReasons (fst (Schedule srt req))) r =
         reason_count req (req_AvailableNodes req) r)"
proof -
  let ?ns = "req_AvailableNodes req"
  let ?rc = "reason_count req ?ns"
  obtain reasons where u0: "Schedule srt req =
     (let el = filter (eligible req) ?ns;
          res = empty_result\<lparr>sr_ConsideredCount := int (length ?ns), sr_FilteredOutReasons := reasons\<rparr>;
          best = hd (srt cand_less (map (candidate req) el))
      in if ?ns = [] then (empty_result, Some ErrNoNodesAvailable)
         else if el = [] then (res, Some (no_candidate_error reasons))
         else (res\<lparr>sr_SelectedNodeID := node_ReferenceID (cand_node best),
                 sr_SelectedNode := Some (cand_node best), sr_Score := cand_score best\<rparr>, None))"
    and r: "\<forall>r. lookup0 reasons r = ?rc r"
    using Schedule_unfold [of srt req] by blast
  have el: "filter (eligible req) ?ns = []"
    by (rule ccontr) (use u0 assms in \<open>auto simp: Let_def split: if_splits\<close>)
  then have u: "Schedule srt req =
       (if ?ns = [] then (empty_result, Some ErrNoNodesAvailable)
        else (empty_result\<lparr>sr_ConsideredCount := int (length ?ns), sr_FilteredOutReasons := reasons\<rparr>,
              Some (no_candidate_error reasons)))"
    by (simp add: u0 Let_def)
  have nn: "0 \<le> ?rc r" for r by (simp add: reason_count_def)
  have ne: "?rc r > 0 \<longleftrightarrow> (\<exists>n \<in> set ?ns. filter_reason req n = Some r)" for r
    by (auto simp: reason_count_def filter_empty_conv)
  have cases: "\<forall>n \<in> set ?ns. filter_reason req n \<in> {Some ''not_online'',
      Some ''missing_required_capabilities'', Some ''plan_capabilities_mismatch'',
      Some ''insufficient_capacity''}"
    using el unfolding filter_empty_conv eligible_iff by (auto simp: filter_reason_def)
  have off: "\<not> Node_IsAvailable n \<longleftrightarrow> filter_reason req n = Some ''not_online''" for n
    by (auto simp: filter_reason_def)
  have e: "e = no_candidate_error reasons" if "?ns \<noteq> []" using u assms that by simp
  show ?thesis
  proof (cases "?ns = []")
    case True
    then show ?thesis
      using u assms by (simp add: reason_count_def empty_result_def lookup0_def)
  next
    case False
    have e': "e = (if 0 < ?rc ''missing_required_capabilities'' then ErrNoCapableNodes
       else if 0 < ?rc ''plan_capabilities_mismatch'' then ErrNoPlanCapabilities
       else if 0 < ?rc ''insufficient_capacity'' then ErrInsufficientCapacity else ErrNoNodesAvailable)"
      using e [OF False] r nn [of "''missing_required_capabilities''"]
      by (simp add: no_candidate_error_def)
    moreover have "e = ErrNoNodesAvailable \<longleftrightarrow> (\<forall>n \<in> set ?ns. \<not> Node_IsAvailable n)"
    proof -
      have "e = ErrNoNodesAvailable \<longleftrightarrow> (\<forall>n \<in> set ?ns. filter_reason req n \<notin>
          {Some ''missing_required_capabilities'', Some ''plan_capabilities_mismatch'',
           Some ''insufficient_capacity''})"
        unfolding e' ne by auto
      also have "\<dots> \<longleftrightarrow> (\<forall>n \<in> set ?ns. filter_reason req n = Some ''not_online'')"
        by (rule ball_cong [OF refl]) (use cases in auto)
      finally show ?thesis by (simp add: off)
    qed
    ultimately show ?thesis using u False r by simp
  qed
qed

theorem Schedule_error_witness:
  "snd (Schedule insertionSort (demo_request\<lparr>req_RequiredCapabilities := [''gpu'']\<rparr>))
     = Some ErrNoCapableNodes"
proof -
  let ?r = "demo_request\<lparr>req_RequiredCapabilities := [''gpu'']\<rparr>"
  have f: "filter_reason ?r (demo_node x m) = Some ''missing_required_capabilities''" for x m
    by (simp add: filter_reason_def demo_request_def demo_node_def Node_IsAvailable_def
        NodeStatus_IsAvailable_def HasCapability_def)
  have n: "req_AvailableNodes ?r = [demo_node ''n1'' 80, demo_node ''n2'' 20]"
    by (simp add: demo_request_def)
  have "snd (Schedule insertionSort ?r) \<noteq> None"
    using Schedule_unfold [of insertionSort ?r] unfolding n by (auto simp: Let_def eligible_iff f)
  then obtain e where e: "snd (Schedule insertionSort ?r) = Some e" by blast
  from Schedule_error [OF e] have "e = ErrNoCapableNodes" unfolding n by (simp add: reason_count_def f)
  with e show ?thesis by simp
qed

section \<open>The helpers agree with the loop\<close>

lemma FilterOnlineNodes_eq: "FilterOnlineNodes ns = filter Node_IsAvailable ns"
  by (induction ns) auto

lemma foldl_set: "foldl (\<lambda>m c. m(c := True)) S cs x = (S x \<or> x \<in> set cs)"
  by (induction cs arbitrary: S) auto

text \<open>
  Chaining the four exported filters gives exactly the nodes that \<open>Schedule\<close> keeps, in the
  same order, and \<open>SortByScore\<close> puts a permutation of them in non-increasing order of score, so
  its first element scores what \<open>Schedule\<close> reports. A requirement list passes
  \<open>ValidateCapabilityRequirements\<close> exactly when it is contained in the plan's list or either is
  empty, and then a node with all required capabilities is never refused by the plan.
\<close>

theorem filters_compose:
  assumes srt: "sort_slice srt"
    and fin: "list_all (\<lambda>n. capacity_ok (node_Capacity n)) ns" "is_fin (res_CPUCores (req_RequiredResources req))"
  shows "FilterByCapacity (FilterByPlanCapabilities (FilterByCapabilities (FilterOnlineNodes ns)
            (req_RequiredCapabilities req)) (req_AllowedCapabilities req)) (req_RequiredResources req)
         = filter (eligible req) ns
    \<and> mset (SortByScore srt ns (req_RequiredResources req)) = mset ns
    \<and> sorted_wrt (\<lambda>a b. fle (ScoreNode b (req_RequiredResources req)) (ScoreNode a (req_RequiredResources req)))
         (SortByScore srt ns (req_RequiredResources req))
    \<and> (ValidateCapabilityRequirements (req_RequiredCapabilities req) (req_AllowedCapabilities req) = None \<longleftrightarrow>
         req_RequiredCapabilities req = [] \<or> req_AllowedCapabilities req = []
         \<or> set (req_RequiredCapabilities req) \<subseteq> set (req_AllowedCapabilities req))
    \<and> (ValidateCapabilityRequirements (req_RequiredCapabilities req) (req_AllowedCapabilities req) = None
         \<and> req_RequiredCapabilities req \<noteq> [] \<longrightarrow>
         (\<forall>n. filter_reason req n \<noteq> Some ''plan_capabilities_mismatch''))"
proof (intro conjI)
  let ?sc = "\<lambda>n. ScoreNode n (req_RequiredResources req)"
  let ?V = "ValidateCapabilityRequirements (req_RequiredCapabilities req) (req_AllowedCapabilities req)"
  have "FilterByCapabilities ms [] = ms" "FilterByPlanCapabilities ms [] = ms" for ms
    by (simp_all add: FilterByCapabilities_def FilterByPlanCapabilities_def)
  then show "FilterByCapacity (FilterByPlanCapabilities (FilterByCapabilities (FilterOnlineNodes ns)
            (req_RequiredCapabilities req)) (req_AllowedCapabilities req)) (req_RequiredResources req)
         = filter (eligible req) ns"
    by (auto simp: FilterByCapacity_def FilterByPlanCapabilities_def FilterByCapabilities_def
        FilterOnlineNodes_eq eligible_def Node_IsAvailable_def NodeStatus_IsAvailable_def
        HasAllCapabilities_iff HasAnyCapability_iff intro!: filter_cong)
  show "mset (SortByScore srt ns (req_RequiredResources req)) = mset ns"
    unfolding SortByScore_def by (rule sort_slice.srt_perm [OF srt])
  have "\<forall>n \<in> set ns. \<exists>r. ?sc n = Fin r"
    using fin ScoreNode_percentage unfolding list_all_iff percentage_iff by blast
  then obtain f where f: "\<And>n. n \<in> set ns \<Longrightarrow> ?sc n = Fin (f n)" by metis
  have "strict_weak_on (set ns) (\<lambda>a b. flt (?sc b) (?sc a))"
    unfolding strict_weak_on_def by (simp add: f)
  from sort_slice.srt_sorted [OF srt this]
  have "sorted_wrt (\<lambda>a b. \<not> flt (?sc a) (?sc b)) (SortByScore srt ns (req_RequiredResources req))"
    by (simp add: SortByScore_def slice_sorted_def)
  moreover have "set (SortByScore srt ns (req_RequiredResources req)) = set ns"
    unfolding SortByScore_def by (rule sort_slice.srt_set [OF srt])
  ultimately show "sorted_wrt (\<lambda>a b. fle (?sc b) (?sc a)) (SortByScore srt ns (req_RequiredResources req))"
    by (auto elim!: sorted_wrt_mono_rel [rotated] simp: f)
  show V: "?V = None \<longleftrightarrow> req_RequiredCapabilities req = [] \<or> req_AllowedCapabilities req = []
         \<or> set (req_RequiredCapabilities req) \<subseteq> set (req_AllowedCapabilities req)"
    by (auto simp: ValidateCapabilityRequirements_def foldl_set list_ex_iff Let_def)
  show "?V = None \<and> req_RequiredCapabilities req \<noteq> [] \<longrightarrow>
         (\<forall>n. filter_reason req n \<noteq> Some ''plan_capabilities_mismatch'')"
  proof (intro impI allI notI)
    fix n
    assume v: "?V = None \<and> req_RequiredCapabilities req \<noteq> []"
      and m: "filter_reason req n = Some ''plan_capabilities_mismatch''"
    have c: "set (req_RequiredCapabilities req) \<subseteq> set (node_Capabilities n)"
      "req_AllowedCapabilities req \<noteq> []"
      "set (req_AllowedCapabilities req) \<inter> set (node_Capabilities n) = {}"
      using m v by (auto simp: filter_reason_def HasAllCapabilities_iff HasAnyCapability_iff
          split: if_splits)
    moreover from v c(2) have "set (req_RequiredCapabilities req) \<subseteq> set (req_AllowedCapabilities req)"
      unfolding V by blast
    moreover from v have "hd (req_RequiredCapabilities req) \<in> set (req_RequiredCapabilities req)" by simp
    ultimately show False by blast
  qed
qed

theorem filters_compose_witness:
  "FilterByCapacity (FilterByPlanCapabilities (FilterByCapabilities
      (FilterOnlineNodes [demo_node ''n1'' 80]) [''standard'']) []) zero_Resources
     = filter (eligible demo_request) [demo_node ''n1'' 80]"
proof -
  have h: "list_all (\<lambda>n. capacity_ok (node_Capacity n)) [demo_node ''n1'' 80]"
    "is_fin (res_CPUCores (req_RequiredResources demo_request))"
    by (simp_all add: demo_request_def demo_node_def capacity_ok_def in_int64_def zero_Resources_def)
  show ?thesis
    using filters_compose [OF ins.sort_slice_axioms h, THEN conjunct1]
    by (simp add: demo_request_def)
qed

end
