(* ===== verification/Compose.thy ===== *)
theory Compose
  imports Dom_Template "HOL-Library.Word"
begin

text \<open>
  \<open>internal/core/compose\<close>: the parsed form of a compose file (\<open>types.go\<close>), the errors
  (\<open>errors.go\<close>) and the parser (\<open>parser.go\<close>). The YAML reader and the compose-go loader are
  arguments; the records \<open>types_*\<close> hold the fields of the loader's result that the parser reads.
  A Go map that the parser enumerates is a list here, in the order of the enumeration (which Go
  leaves open, so every statement is about all orders); a map it only copies is a function.
\<close>

section \<open>Types\<close>

type_synonym VolumeMountType = string
definition VolumeMountTypeBind :: VolumeMountType where [const_defs]: "VolumeMountTypeBind = ''bind''"
definition VolumeMountTypeVolume :: VolumeMountType where
  [const_defs]: "VolumeMountTypeVolume = ''volume''"
definition VolumeMountTypeTmpfs :: VolumeMountType where
  [const_defs]: "VolumeMountTypeTmpfs = ''tmpfs''"

type_synonym RestartPolicy = string
definition RestartNo :: RestartPolicy where [const_defs]: "RestartNo = ''no''"
definition RestartAlways :: RestartPolicy where [const_defs]: "RestartAlways = ''always''"
definition RestartOnFailure :: RestartPolicy where [const_defs]: "RestartOnFailure = ''on-failure''"
definition RestartUnlessStopped :: RestartPolicy where
  [const_defs]: "RestartUnlessStopped = ''unless-stopped''"

record BuildConfig =
  bc_Context :: string
  bc_Dockerfile :: string

record Port =
  port_Target :: "32 word"
  port_Published :: "32 word"
  port_Protocol :: string
  port_HostIP :: string

record VolumeMount =
  vm_Type :: VolumeMountType
  vm_Source :: string
  vm_Target :: string
  vm_ReadOnly :: bool

record ServiceResources =
  sres_CPULimit :: float64
  sres_CPUReservation :: float64
  sres_MemoryLimit :: int
  sres_MemoryReservation :: int

record HealthCheck =
  hc_Test :: "string list"
  hc_Interval :: string
  hc_Timeout :: string
  hc_Retries :: int
  hc_StartPeriod :: string

record Service =
  svc_Name :: string
  svc_Image :: string
  svc_Build :: "BuildConfig option"
  svc_Command :: "string list"
  svc_Entrypoint :: "string list"
  svc_Ports :: "Port list"
  svc_Environment :: go_strmap
  svc_Volumes :: "VolumeMount list"
  svc_Networks :: "string list"
  svc_DependsOn :: "string list"
  svc_Restart :: RestartPolicy
  svc_Resources :: ServiceResources
  svc_HealthCheck :: "HealthCheck option"
  svc_Labels :: go_strmap

record IPAMConfig =
  ipc_Subnet :: string
  ipc_Gateway :: string

record IPAM =
  ipam_Driver :: string
  ipam_Config :: "IPAMConfig list"

record Network =
  net_Name :: string
  net_Driver :: string
  net_External :: bool
  net_Internal :: bool
  net_Attachable :: bool
  net_Labels :: go_strmap
  net_IPAM :: "IPAM option"

record Volume =
  vol_Name :: string
  vol_Driver :: string
  vol_External :: bool
  vol_Labels :: go_strmap

record ParsedSpec =
  spec_Services :: "Service list"
  spec_Networks :: "Network list"
  spec_Volumes :: "Volume list"

section \<open>Errors\<close>

datatype compose_sentinel =
    ErrEmptyInput | ErrInvalidYAML | ErrNoServices | ErrServiceNoImage | ErrServiceInvalidPort
  | ErrServiceInvalidVolume | ErrCircularDependency | ErrInvalidCPU | ErrInvalidMemory
  | ErrUnsupportedFeature

text \<open>An error is a sentinel or a \<open>ParseError\<close> with field, message and wrapped sentinel.\<close>

datatype compose_error = Sentinel compose_sentinel | ParseError string string compose_sentinel

definition NewParseError :: "string \<Rightarrow> string \<Rightarrow> compose_sentinel \<Rightarrow> compose_error" where
  "NewParseError field message err = ParseError field message err"

fun ParseError_Error :: "compose_error \<Rightarrow> string" where
  "ParseError_Error (ParseError field message err) =
     (if field \<noteq> [] then field @ '': '' @ message else message)"
| "ParseError_Error (Sentinel e) = []"

text \<open>\<open>errors.Is\<close> follows \<open>Unwrap\<close>.\<close>

fun compose_cause :: "compose_error \<Rightarrow> compose_sentinel" where
  "compose_cause (Sentinel e) = e"
| "compose_cause (ParseError field message err) = err"

section \<open>What the loader returns\<close>

record types_PortConfig =
  tp_Target :: "32 word"
  tp_Published :: string
  tp_Protocol :: string
  tp_HostIP :: string

record types_VolumeConfig =
  tv_Type :: string
  tv_Source :: string
  tv_Target :: string
  tv_ReadOnly :: bool

text \<open>A duration field holds what its \<open>String\<close> method returns.\<close>

record types_HealthCheck =
  th_Disable :: bool
  th_Test :: "string list"
  th_Retries :: "int option"
  th_Interval :: "string option"
  th_Timeout :: "string option"
  th_StartPeriod :: "string option"

record types_Resource =
  tr_NanoCPUs :: float64
  tr_MemoryBytes :: int

record types_ServiceConfig =
  ts_Name :: string
  ts_Image :: string
  ts_Build :: "(string \<times> string) option"
  ts_Command :: "string list"
  ts_Entrypoint :: "string list"
  ts_Ports :: "types_PortConfig list"
  ts_Environment :: "string \<rightharpoonup> string option"
  ts_Volumes :: "types_VolumeConfig list"
  ts_Networks :: "string list"
  ts_DependsOn :: "string list"
  ts_Restart :: string
  ts_Labels :: go_strmap
  ts_HealthCheck :: "types_HealthCheck option"
  ts_Limits :: "types_Resource option"
  ts_Reservations :: "types_Resource option"
  ts_ExtendsFile :: "string option"

record types_NetworkConfig =
  tn_Driver :: string
  tn_External :: bool
  tn_Internal :: bool
  tn_Attachable :: bool
  tn_Labels :: go_strmap

record types_NamedVolume =
  tnv_Driver :: string
  tnv_External :: bool
  tnv_Labels :: go_strmap

record types_Project =
  tj_Secrets :: nat
  tj_Configs :: nat
  tj_Services :: "types_ServiceConfig list"
  tj_Networks :: "(string \<times> types_NetworkConfig) list"
  tj_Volumes :: "(string \<times> types_NamedVolume) list"

section \<open>Loading\<close>

fun contains_str :: "string \<Rightarrow> string \<Rightarrow> bool" where
  "contains_str p [] = (p = [])"
| "contains_str p (c # s) = (HasPrefix (c # s) p \<or> contains_str p s)"

text \<open>
  \<open>unmarshal\<close> is the YAML reader: an error, or a dictionary that may be \<open>nil\<close>
  (\<open>Some False\<close>). \<open>load\<close> is the compose-go loader: an error text or a project.
\<close>

definition loadComposeSpec ::
  "(string \<Rightarrow> bool option) \<Rightarrow> (string \<Rightarrow> string + types_Project) \<Rightarrow> string
     \<Rightarrow> compose_error + types_Project" where
  "loadComposeSpec unmarshal load yamlContent =
     (case unmarshal yamlContent of
        None \<Rightarrow> Inl (NewParseError [] ''invalid YAML syntax'' ErrInvalidYAML)
      | Some False \<Rightarrow> Inl (NewParseError [] ''invalid YAML syntax'' ErrInvalidYAML)
      | Some True \<Rightarrow>
          (case load yamlContent of
             Inr project \<Rightarrow> Inr project
           | Inl errStr \<Rightarrow>
               if contains_str ''dependency cycle detected'' errStr
               then Inl (NewParseError [] ''circular dependency detected'' ErrCircularDependency)
               else if contains_str ''image'' errStr \<and> contains_str ''build'' errStr
               then Inl (NewParseError [] ''service must have image or build'' ErrServiceNoImage)
               else Inl (NewParseError [] errStr ErrInvalidYAML)))"

fun check_extends :: "types_ServiceConfig list \<Rightarrow> compose_error option" where
  "check_extends [] = None"
| "check_extends (svc # rest) =
     (case ts_ExtendsFile svc of
        Some f \<Rightarrow> if f \<noteq> []
          then Some (NewParseError (''services.'' @ ts_Name svc @ ''.extends'')
                       ''extends is not supported'' ErrUnsupportedFeature)
          else check_extends rest
      | None \<Rightarrow> check_extends rest)"

definition checkUnsupportedFeatures :: "types_Project \<Rightarrow> compose_error option" where
  "checkUnsupportedFeatures project =
     (if 0 < tj_Secrets project
      then Some (NewParseError ''secrets'' ''secrets are not supported'' ErrUnsupportedFeature)
      else if 0 < tj_Configs project
      then Some (NewParseError ''configs'' ''configs are not supported'' ErrUnsupportedFeature)
      else check_extends (tj_Services project))"

section \<open>Conversion\<close>

definition convert_port :: "types_PortConfig \<Rightarrow> Port" where
  "convert_port p =
     (let published = (if tp_Published p \<noteq> [] then
            (case ParseUint (tp_Published p) 32 of (pub, None) \<Rightarrow> word_of_int pub | (_, Some _) \<Rightarrow> 0)
          else 0)
      in \<lparr>port_Target = tp_Target p, port_Published = published, port_Protocol = tp_Protocol p,
          port_HostIP = tp_HostIP p\<rparr>)"

definition convert_mount :: "types_VolumeConfig \<Rightarrow> VolumeMount" where
  "convert_mount v =
     \<lparr>vm_Type =
        (if tv_Type v = ''bind'' then VolumeMountTypeBind
         else if tv_Type v = ''volume'' then VolumeMountTypeVolume
         else if tv_Type v = ''tmpfs'' then VolumeMountTypeTmpfs
         else if HasPrefix (tv_Source v) ''./'' \<or> HasPrefix (tv_Source v) ''/''
              \<or> HasPrefix (tv_Source v) ''~''
         then VolumeMountTypeBind else VolumeMountTypeVolume),
      vm_Source = tv_Source v, vm_Target = tv_Target v, vm_ReadOnly = tv_ReadOnly v\<rparr>"

definition opt_str :: "string option \<Rightarrow> string" where
  "opt_str x = (case x of None \<Rightarrow> [] | Some s \<Rightarrow> s)"

definition convert_health :: "types_HealthCheck \<Rightarrow> HealthCheck" where
  "convert_health h =
     \<lparr>hc_Test = th_Test h, hc_Interval = opt_str (th_Interval h),
      hc_Timeout = opt_str (th_Timeout h),
      hc_Retries = (case th_Retries h of None \<Rightarrow> 0 | Some r \<Rightarrow> wrap64 r),
      hc_StartPeriod = opt_str (th_StartPeriod h)\<rparr>"

definition convert_resources :: "types_ServiceConfig \<Rightarrow> ServiceResources" where
  "convert_resources svc =
     \<lparr>sres_CPULimit = (case ts_Limits svc of None \<Rightarrow> Fin 0 | Some r \<Rightarrow> tr_NanoCPUs r),
      sres_CPUReservation = (case ts_Reservations svc of None \<Rightarrow> Fin 0 | Some r \<Rightarrow> tr_NanoCPUs r),
      sres_MemoryLimit = (case ts_Limits svc of None \<Rightarrow> 0 | Some r \<Rightarrow> tr_MemoryBytes r),
      sres_MemoryReservation =
        (case ts_Reservations svc of None \<Rightarrow> 0 | Some r \<Rightarrow> tr_MemoryBytes r)\<rparr>"

definition convertService :: "types_ServiceConfig \<Rightarrow> compose_error + Service" where
  "convertService svc =
     (if ts_Image svc = [] \<and> ts_Build svc = None
      then Inl (NewParseError (''services.'' @ ts_Name svc) ''service must have image or build''
                  ErrServiceNoImage)
      else Inr \<lparr>svc_Name = ts_Name svc, svc_Image = ts_Image svc,
        svc_Build = map_option (\<lambda>(c, d). \<lparr>bc_Context = c, bc_Dockerfile = d\<rparr>) (ts_Build svc),
        svc_Command = ts_Command svc, svc_Entrypoint = ts_Entrypoint svc,
        svc_Ports = map convert_port (ts_Ports svc),
        svc_Environment = (\<lambda>k. case ts_Environment svc k of Some (Some v) \<Rightarrow> Some v | _ \<Rightarrow> None),
        svc_Volumes = map convert_mount (ts_Volumes svc),
        svc_Networks = ts_Networks svc, svc_DependsOn = ts_DependsOn svc,
        svc_Restart = ts_Restart svc, svc_Resources = convert_resources svc,
        svc_HealthCheck =
          (case ts_HealthCheck svc of
             None \<Rightarrow> None | Some h \<Rightarrow> if th_Disable h then None else Some (convert_health h)),
        svc_Labels = ts_Labels svc\<rparr>)"

definition convertNetwork :: "string \<Rightarrow> types_NetworkConfig \<Rightarrow> Network" where
  "convertNetwork name net =
     \<lparr>net_Name = name, net_Driver = tn_Driver net, net_External = tn_External net,
      net_Internal = tn_Internal net, net_Attachable = tn_Attachable net,
      net_Labels = tn_Labels net, net_IPAM = None\<rparr>"

definition convertVolume :: "string \<Rightarrow> types_NamedVolume \<Rightarrow> Volume" where
  "convertVolume name vol =
     \<lparr>vol_Name = name, vol_Driver = tnv_Driver vol, vol_External = tnv_External vol,
      vol_Labels = tnv_Labels vol\<rparr>"

section \<open>Cycle detection\<close>

text \<open>The adjacency map: the last service of a name wins, an unknown name has no successors.\<close>

fun deps_map :: "Service list \<Rightarrow> (string \<rightharpoonup> string list) \<Rightarrow> string \<rightharpoonup> string list" where
  "deps_map [] m = m"
| "deps_map (s # ss) m = deps_map ss (m(svc_Name s \<mapsto> svc_DependsOn s))"

definition succs :: "(string \<rightharpoonup> string list) \<Rightarrow> string \<Rightarrow> string list" where
  "succs deps n = (case deps n of None \<Rightarrow> [] | Some ds \<Rightarrow> ds)"

text \<open>
  The depth-first search \<open>hasCycle\<close> and its inner loop, threading \<open>visited\<close> and \<open>recStack\<close>
  (as the set of the keys mapped to \<open>true\<close>). The first argument bounds the recursion depth;
  \<^const>\<open>None\<close> means it was too small.
\<close>

function hasCycle :: "nat \<Rightarrow> (string \<rightharpoonup> string list) \<Rightarrow> string \<Rightarrow> string set \<times> string set
     \<Rightarrow> (bool \<times> string set \<times> string set) option"
  and hasCycle_loop :: "nat \<Rightarrow> (string \<rightharpoonup> string list) \<Rightarrow> string \<Rightarrow> string list
     \<Rightarrow> string set \<times> string set \<Rightarrow> (bool \<times> string set \<times> string set) option" where
  "hasCycle 0 deps node st = None"
| "hasCycle (Suc k) deps node (visited, recStack) =
     hasCycle_loop k deps node (succs deps node) (insert node visited, insert node recStack)"
| "hasCycle_loop k deps node [] (visited, recStack) = Some (False, visited, recStack - {node})"
| "hasCycle_loop k deps node (dep # ds) (visited, recStack) =
     (if dep = node then Some (True, visited, recStack)
      else if dep \<notin> visited then
        (case hasCycle k deps dep (visited, recStack) of
           None \<Rightarrow> None
         | Some (True, st) \<Rightarrow> Some (True, st)
         | Some (False, st) \<Rightarrow> hasCycle_loop k deps node ds st)
      else if dep \<in> recStack then Some (True, visited, recStack)
      else hasCycle_loop k deps node ds (visited, recStack))"
  by pat_completeness auto
termination
  by (relation "measures [\<lambda>x. case x of Inl (k, _) \<Rightarrow> 2 * k | Inr (k, _) \<Rightarrow> Suc (2 * k),
        \<lambda>x. case x of Inl _ \<Rightarrow> 0 | Inr (_, _, _, ds, _) \<Rightarrow> length ds]") auto

fun detect_loop :: "nat \<Rightarrow> (string \<rightharpoonup> string list) \<Rightarrow> Service list \<Rightarrow> string set \<times> string set
     \<Rightarrow> compose_error option option" where
  "detect_loop k deps [] st = Some None"
| "detect_loop k deps (svc # rest) (visited, recStack) =
     (if svc_Name svc \<notin> visited then
        (case hasCycle k deps (svc_Name svc) (visited, recStack) of
           None \<Rightarrow> None
         | Some (True, _) \<Rightarrow> Some (Some (Sentinel ErrCircularDependency))
         | Some (False, st) \<Rightarrow> detect_loop k deps rest st)
      else detect_loop k deps rest (visited, recStack))"

text \<open>Every name a search can meet; their number bounds its depth.\<close>

definition all_names :: "Service list \<Rightarrow> string list" where
  "all_names services = concat (map (\<lambda>s. svc_Name s # svc_DependsOn s) services)"

definition detectCircularDependencies :: "Service list \<Rightarrow> compose_error option option" where
  "detectCircularDependencies services =
     detect_loop (length (all_names services)) (deps_map services Map.empty) services ({}, {})"

section \<open>Port validation\<close>

definition port_field :: "Service \<Rightarrow> nat \<Rightarrow> string" where
  "port_field svc i = ''services.'' @ svc_Name svc @ ''.ports['' @ utf8_rune (48 + int i) @ '']''"

fun validate_service_ports :: "Service \<Rightarrow> nat \<Rightarrow> Port list \<Rightarrow> compose_error option" where
  "validate_service_ports svc i [] = None"
| "validate_service_ports svc i (port # rest) =
     (if port_Target port = 0
      then Some (NewParseError (port_field svc i) ''target port cannot be 0'' ErrServiceInvalidPort)
      else if 65535 < port_Target port
      then Some (NewParseError (port_field svc i) ''target port must be <= 65535'' ErrServiceInvalidPort)
      else if 65535 < port_Published port
      then Some (NewParseError (port_field svc i) ''published port must be <= 65535''
                   ErrServiceInvalidPort)
      else validate_service_ports svc (Suc i) rest)"

fun validatePorts :: "Service list \<Rightarrow> compose_error option" where
  "validatePorts [] = None"
| "validatePorts (svc # rest) =
     (case validate_service_ports svc 0 (svc_Ports svc) of
        Some e \<Rightarrow> Some e | None \<Rightarrow> validatePorts rest)"

section \<open>The parser\<close>

fun convert_services :: "types_ServiceConfig list \<Rightarrow> compose_error + Service list" where
  "convert_services [] = Inr []"
| "convert_services (svc # rest) =
     bind_err (convertService svc) (\<lambda>s. bind_err (convert_services rest) (\<lambda>ss. Inr (s # ss)))"

text \<open>The outer option is \<^const>\<open>None\<close> only if the depth bound of the search were exceeded.\<close>

definition ParseComposeSpec ::
  "(string \<Rightarrow> bool option) \<Rightarrow> (string \<Rightarrow> string + types_Project) \<Rightarrow> string
     \<Rightarrow> (compose_error + ParsedSpec) option" where
  "ParseComposeSpec unmarshal load yamlContent =
     (if TrimSpace_empty yamlContent then Some (Inl (Sentinel ErrEmptyInput))
      else case loadComposeSpec unmarshal load yamlContent of
        Inl e \<Rightarrow> Some (Inl e)
      | Inr project \<Rightarrow>
          (case checkUnsupportedFeatures project of
             Some e \<Rightarrow> Some (Inl e)
           | None \<Rightarrow>
               if length (tj_Services project) = 0 then Some (Inl (Sentinel ErrNoServices))
               else case convert_services (tj_Services project) of
                 Inl e \<Rightarrow> Some (Inl e)
               | Inr services \<Rightarrow>
                   (case detectCircularDependencies services of
                      None \<Rightarrow> None
                    | Some (Some e) \<Rightarrow> Some (Inl e)
                    | Some None \<Rightarrow>
                        (case validatePorts services of
                           Some e \<Rightarrow> Some (Inl e)
                         | None \<Rightarrow> Some (Inr \<lparr>spec_Services = services,
                             spec_Networks = map (\<lambda>(n, net). convertNetwork n net) (tj_Networks project),
                             spec_Volumes = map (\<lambda>(n, vol). convertVolume n vol) (tj_Volumes project)\<rparr>)))))"

section \<open>Resources\<close>

definition DefaultCPUPerService :: float64 where [const_defs]: "DefaultCPUPerService = Fin (1 / 2)"
definition DefaultMemoryPerService :: int where
  [const_defs]: "DefaultMemoryPerService = 256 * 1024 * 1024"
definition DefaultDiskPerVolume :: int where [const_defs]: "DefaultDiskPerVolume = 1024"

fun resources_loop :: "Service list \<Rightarrow> float64 \<times> int \<Rightarrow> float64 \<times> int" where
  "resources_loop [] st = st"
| "resources_loop (svc # rest) (totalCPU, totalMemoryBytes) =
     (let r = svc_Resources svc;
          cpu = (if flt (Fin 0) (sres_CPULimit r) then sres_CPULimit r else DefaultCPUPerService);
          mem = (if 0 < sres_MemoryLimit r then sres_MemoryLimit r else DefaultMemoryPerService)
      in resources_loop rest (fadd totalCPU cpu, wrap64 (totalMemoryBytes + mem)))"

definition CalculateResources :: "ParsedSpec \<Rightarrow> Resources" where
  "CalculateResources spec =
     (let (totalCPU, totalMemoryBytes) = resources_loop (spec_Services spec) (Fin 0, 0);
          totalDiskMB = wrap64 (int (length (spec_Volumes spec)) * DefaultDiskPerVolume)
      in \<lparr>res_CPUCores = totalCPU, res_MemoryMB = quot64 totalMemoryBytes (1024 * 1024),
          res_DiskMB = totalDiskMB\<rparr>)"

fun ValidateServicesLimits :: "Service list \<Rightarrow> compose_error list" where
  "ValidateServicesLimits [] = []"
| "ValidateServicesLimits (svc # rest) =
     (let r = svc_Resources svc; f = (\<lambda>s. ''services.'' @ svc_Name svc @ ''.resources.'' @ s)
      in (if flt (sres_CPULimit r) (Fin 0)
          then [NewParseError (f ''cpu_limit'') ''CPU limit cannot be negative'' ErrInvalidCPU] else [])
       @ (if flt (sres_CPUReservation r) (Fin 0)
          then [NewParseError (f ''cpu_reservation'') ''CPU reservation cannot be negative''
                  ErrInvalidCPU] else [])
       @ (if sres_MemoryLimit r < 0
          then [NewParseError (f ''memory_limit'') ''Memory limit cannot be negative''
                  ErrInvalidMemory] else [])
       @ (if sres_MemoryReservation r < 0
          then [NewParseError (f ''memory_reservation'') ''Memory reservation cannot be negative''
                  ErrInvalidMemory] else [])
       @ ValidateServicesLimits rest)"

definition ValidateParsedSpec :: "ParsedSpec \<Rightarrow> compose_error list" where
  "ValidateParsedSpec spec = ValidateServicesLimits (spec_Services spec)"

section \<open>Placeholders\<close>

text \<open>
  The expression \<open>\$\{([A-Za-z_][A-Za-z0-9_]*)(?::-[^}]*)?\}\<close> at the front of a string: the name,
  the default if there is one, and the rest after the closing brace. A name is followed by a
  colon or a brace, neither of which can be part of it, so the expression has one way to match.
\<close>

definition is_word_start :: "char \<Rightarrow> bool" where
  "is_word_start c \<longleftrightarrow> is_lower c \<or> is_upper c \<or> c = CHR ''_''"
definition is_word :: "char \<Rightarrow> bool" where
  "is_word c \<longleftrightarrow> is_alnum c \<or> c = CHR ''_''"

definition match_placeholder :: "string \<Rightarrow> (string \<times> string option \<times> string) option" where
  "match_placeholder s =
     (if \<not> HasPrefix s ''${'' then None
      else let t = drop 2 s; name = takeWhile is_word t; r = dropWhile is_word t
           in if name = [] \<or> \<not> is_word_start (hd name) then None
              else if HasPrefix r ''}'' then Some (name, None, drop 1 r)
              else if HasPrefix r '':-'' then
                let u = drop 2 r; dflt = takeWhile (\<lambda>c. c \<noteq> CHR ''}'') u;
                    v = dropWhile (\<lambda>c. c \<noteq> CHR ''}'') u
                in if v = [] then None else Some (name, Some dflt, drop 1 v)
              else None)"

lemma match_placeholder_shorter:
  "match_placeholder s = Some (n, d, r) \<Longrightarrow> length r < length s"
proof -
  assume m: "match_placeholder s = Some (n, d, r)"
  have 1: "length (dropWhile P (drop 2 s)) \<le> length s - 2" for P
    using length_dropWhile_le [of P "drop 2 s"] by simp
  have 2: "length (dropWhile Q (drop 2 (dropWhile P (drop 2 s)))) \<le> length s - 2" for P Q
    using length_dropWhile_le [of Q "drop 2 (dropWhile P (drop 2 s))"] 1 [of P] by simp
  have "2 \<le> length s" using m
    by (auto simp: match_placeholder_def HasPrefix_iff split: if_splits)
  then show ?thesis
    using m 1 [of is_word] 2 [of "\<lambda>c. c \<noteq> CHR ''}''" is_word]
    by (auto simp: match_placeholder_def Let_def split: if_splits)
qed

text \<open>All matches from left to right, none overlapping: name and default of each.\<close>

function find_placeholders :: "string \<Rightarrow> (string \<times> string option) list" where
  "find_placeholders s =
     (case match_placeholder s of
        Some (name, dflt, rest) \<Rightarrow> (name, dflt) # find_placeholders rest
      | None \<Rightarrow> (case s of [] \<Rightarrow> [] | _ # t \<Rightarrow> find_placeholders t))"
  by pat_completeness auto
termination
  by (relation "measure length") (auto simp: match_placeholder_shorter)

declare find_placeholders.simps [simp del]

text \<open>The bodies of the two extraction loops: first occurrence of each name, in order.\<close>

fun add_vars :: "string list \<Rightarrow> string list \<Rightarrow> string list" where
  "add_vars vars [] = vars"
| "add_vars vars (v # vs) = (if v \<in> set vars then add_vars vars vs else add_vars (vars @ [v]) vs)"

definition ExtractVariablesFromYAML :: "string \<Rightarrow> string list" where
  "ExtractVariablesFromYAML yamlContent = add_vars [] (map fst (find_placeholders yamlContent))"

text \<open>\<open>order svc\<close> lists the values of the service's environment as the loop meets them.\<close>

fun extract_services :: "(Service \<Rightarrow> string list) \<Rightarrow> Service list \<Rightarrow> string list \<Rightarrow> string list" where
  "extract_services order [] vars = vars"
| "extract_services order (svc # rest) vars =
     extract_services order rest
       (foldl (\<lambda>vs val. add_vars vs (map fst (find_placeholders val))) vars (order svc))"

definition ExtractVariables :: "(Service \<Rightarrow> string list) \<Rightarrow> ParsedSpec \<Rightarrow> string list" where
  "ExtractVariables order spec = extract_services order (spec_Services spec) []"

section \<open>The search decides acyclicity\<close>

definition edges :: "(string \<rightharpoonup> string list) \<Rightarrow> (string \<times> string) set" where
  "edges deps = {(a, b). b \<in> set (succs deps a)}"

text \<open>
  Finished names: visited and off the stack. They are closed under successors and lie on no
  cycle.
\<close>

definition dfs_inv :: "(string \<rightharpoonup> string list) \<Rightarrow> string set \<Rightarrow> string set \<Rightarrow> bool" where
  "dfs_inv deps v r \<longleftrightarrow> r \<subseteq> v \<and> (\<forall>x \<in> v - r. set (succs deps x) \<subseteq> v - r)
     \<and> (\<forall>x \<in> v - r. (x, x) \<notin> trancl (edges deps))"

lemma closed_trancl:
  assumes "\<And>x. x \<in> B \<Longrightarrow> set (succs deps x) \<subseteq> B"
  shows "(x, y) \<in> trancl (edges deps) \<Longrightarrow> x \<in> B \<Longrightarrow> y \<in> B"
  by (induction rule: trancl_induct) (use assms in \<open>auto simp: edges_def\<close>)

lemma dfs_inv_finish:
  assumes "dfs_inv deps v r" and "n \<in> r" and "set (succs deps n) \<subseteq> v - r"
  shows "dfs_inv deps v (r - {n})"
proof -
  have cl: "\<And>x. x \<in> v - r \<Longrightarrow> set (succs deps x) \<subseteq> v - r" and rv: "r \<subseteq> v"
    and nc: "\<And>x. x \<in> v - r \<Longrightarrow> (x, x) \<notin> trancl (edges deps)"
    using assms(1) by (auto simp: dfs_inv_def)
  have "(n, n) \<notin> trancl (edges deps)"
  proof
    assume "(n, n) \<in> trancl (edges deps)"
    then obtain y where y: "(n, y) \<in> edges deps" "y = n \<or> (y, n) \<in> trancl (edges deps)"
      by (metis converse_tranclE)
    then have "y \<in> v - r" using assms(3) by (auto simp: edges_def)
    with y(2) closed_trancl [of "v - r" deps, OF cl] have "n \<in> v - r" by blast
    with assms(2) show False by simp
  qed
  moreover have "v - (r - {n}) = insert n (v - r)" using assms(2) rv by auto
  ultimately show ?thesis using cl nc rv assms(3) unfolding dfs_inv_def by auto
qed

text \<open>A search that answers no: the name is finished, the stack is as before.\<close>

lemma hasCycle_False:
  "hasCycle k deps node st = Some (False, v', r') \<Longrightarrow> dfs_inv deps (fst st) (snd st) \<Longrightarrow>
     node \<notin> fst st \<Longrightarrow> dfs_inv deps v' r' \<and> r' = snd st \<and> fst st \<subseteq> v' \<and> node \<in> v'"
  "hasCycle_loop k deps node ds st = Some (False, v', r') \<Longrightarrow> dfs_inv deps (fst st) (snd st) \<Longrightarrow>
     node \<in> snd st \<Longrightarrow> set (succs deps node) - set ds \<subseteq> fst st - snd st \<Longrightarrow>
     dfs_inv deps v' r' \<and> r' = snd st - {node} \<and> fst st \<subseteq> v' \<and> node \<in> v'"
proof (induction k deps node st and k deps node ds st arbitrary: v' r' and v' r'
    rule: hasCycle_hasCycle_loop.induct)
  case (2 k deps node v r)
  have "dfs_inv deps (insert node v) (insert node r)"
    using "2.prems" by (auto simp: dfs_inv_def)
  with "2.IH" [of v' r'] "2.prems" show ?case by (auto simp: dfs_inv_def)
next
  case (3 k deps node v r)
  then have "dfs_inv deps v (r - {node})" by (intro dfs_inv_finish) auto
  with 3 show ?case by (auto simp: dfs_inv_def)
next
  case (4 k deps node dep ds v r)
  have inv: "dfs_inv deps v r" "node \<in> r" "set (succs deps node) - set (dep # ds) \<subseteq> v - r"
    using "4.prems" by simp_all
  have ne: "dep \<noteq> node" using "4.prems"(1) by (auto split: if_splits)
  show ?case
  proof (cases "dep \<in> v")
    case True
    with "4.prems"(1) ne have nr: "dep \<notin> r" and
      rest: "hasCycle_loop k deps node ds (v, r) = Some (False, v', r')"
      by (auto split: if_splits)
    have "set (succs deps node) - set ds \<subseteq> v - r" using inv(3) True nr by auto
    with "4.IH"(3) [OF ne _ nr rest] True inv show ?thesis by auto
  next
    case False
    with "4.prems"(1) ne obtain v1 r1 where
      sub: "hasCycle k deps dep (v, r) = Some (False, v1, r1)" and
      rest: "hasCycle_loop k deps node ds (v1, r1) = Some (False, v', r')"
      by (auto split: option.splits bool.splits)
    have i: "dfs_inv deps v1 r1" "r1 = r" "v \<subseteq> v1" "dep \<in> v1"
      using "4.IH"(1) [OF ne False sub] inv(1) False by auto
    have "dep \<notin> r" using False inv(1) by (auto simp: dfs_inv_def)
    then have "set (succs deps node) - set ds \<subseteq> v1 - r1" using inv(3) i by auto
    with "4.IH"(2) [OF ne False sub refl _ rest] i inv(2) show ?thesis by auto
  qed
qed simp

text \<open>A search that answers yes has found a cycle, when every stacked name leads to the current one.\<close>

lemma hasCycle_True:
  "hasCycle k deps node st = Some (True, st') \<Longrightarrow> dfs_inv deps (fst st) (snd st) \<Longrightarrow>
     node \<notin> fst st \<Longrightarrow> (\<forall>x \<in> snd st. (x, node) \<in> rtrancl (edges deps)) \<Longrightarrow>
     \<exists>x. (x, x) \<in> trancl (edges deps)"
  "hasCycle_loop k deps node ds st = Some (True, st') \<Longrightarrow> dfs_inv deps (fst st) (snd st) \<Longrightarrow>
     (\<forall>x \<in> snd st. (x, node) \<in> rtrancl (edges deps)) \<Longrightarrow> set ds \<subseteq> set (succs deps node) \<Longrightarrow>
     \<exists>x. (x, x) \<in> trancl (edges deps)"
proof (induction k deps node st and k deps node ds st arbitrary: st' and st'
    rule: hasCycle_hasCycle_loop.induct)
  case (2 k deps node v r)
  have "dfs_inv deps (insert node v) (insert node r)"
    using "2.prems" by (auto simp: dfs_inv_def)
  with 2 show ?case by auto
next
  case (4 k deps node dep ds v r)
  have e: "(node, dep) \<in> edges deps" using "4.prems"(4) by (simp add: edges_def)
  have inv: "dfs_inv deps v r" and path: "\<forall>x \<in> r. (x, node) \<in> rtrancl (edges deps)"
    and ds: "set ds \<subseteq> set (succs deps node)" using "4.prems" by simp_all
  have step: "\<forall>x \<in> r. (x, dep) \<in> trancl (edges deps)" using path e by (auto intro: rtrancl_into_trancl1)
  show ?case
  proof (cases "dep = node \<or> dep \<in> r")
    case True
    then show ?thesis using e step by (metis r_into_trancl')
  next
    case nr: False
    show ?thesis
    proof (cases "dep \<in> v")
      case True
      with "4.prems"(1) nr have "hasCycle_loop k deps node ds (v, r) = Some (True, st')" by simp
      with "4.IH"(3) True nr inv path ds show ?thesis by simp
    next
      case False
      show ?thesis
      proof (cases "hasCycle k deps dep (v, r)")
        case None
        with "4.prems"(1) nr False show ?thesis by simp
      next
        case (Some res)
        obtain b v1 r1 where res: "res = (b, v1, r1)" by (cases res)
        show ?thesis
        proof (cases b)
          case True
          with "4.IH"(1) [of "(v1, r1)"] Some res nr False inv step show ?thesis
            by (auto intro: trancl_into_rtrancl)
        next
          case b: False
          then have sub: "hasCycle k deps dep (v, r) = Some (False, v1, r1)" using Some res by simp
          have "dfs_inv deps v1 r1 \<and> r1 = r" using hasCycle_False(1) [OF sub] inv False by auto
          moreover have loop: "hasCycle_loop k deps node ds (v1, r1) = Some (True, st')"
            using "4.prems"(1) nr False sub by simp
          ultimately show ?thesis using "4.IH"(2) [OF _ False sub refl _ loop] nr path ds by auto
        qed
      qed
    qed
  qed
qed simp_all

text \<open>The bound suffices: every call visits a new name of a finite universe.\<close>

lemma hasCycle_visits:
  "hasCycle k deps node st = Some (b, v', r') \<Longrightarrow> fst st \<subseteq> v'"
  "hasCycle_loop k deps node ds st = Some (b, v', r') \<Longrightarrow> fst st \<subseteq> v'"
proof (induction k deps node st and k deps node ds st arbitrary: b v' r' and b v' r'
    rule: hasCycle_hasCycle_loop.induct)
  case (4 k deps node dep ds v r)
  then show ?case by (auto split: if_splits option.splits bool.splits) blast+
qed auto

lemma hasCycle_fuel:
  "finite U \<Longrightarrow> (\<And>x. set (succs deps x) \<subseteq> U) \<Longrightarrow> node \<in> U - fst st \<Longrightarrow> card (U - fst st) \<le> k \<Longrightarrow>
     hasCycle k deps node st \<noteq> None"
  "finite U \<Longrightarrow> (\<And>x. set (succs deps x) \<subseteq> U) \<Longrightarrow> card (U - fst st) \<le> k \<Longrightarrow>
     set ds \<subseteq> U \<Longrightarrow> hasCycle_loop k deps node ds st \<noteq> None"
proof (induction k deps node st and k deps node ds st rule: hasCycle_hasCycle_loop.induct)
  case (1 deps node st)
  then show ?case by auto
next
  case (2 k deps node v r)
  have "U - insert node v = (U - v) - {node}" by auto
  then have "card (U - insert node v) \<le> k" using 2 by (simp add: card_Diff_singleton)
  with 2 show ?case by simp
next
  case (4 k deps node dep ds v r)
  have a: "hasCycle_loop k deps node ds st1 \<noteq> None"
    if "hasCycle k deps dep (v, r) = Some (False, st1)" "dep \<noteq> node" "dep \<notin> v" for st1
  proof -
    have "v \<subseteq> fst st1" using hasCycle_visits(1) [of k deps dep "(v, r)" False "fst st1" "snd st1"] that by simp
    then have "card (U - fst st1) \<le> card (U - v)" using "4.prems"(1) by (intro card_mono) auto
    with "4.IH"(2) [OF that(2,3,1), of False] "4.prems" show ?thesis by simp
  qed
  have b: "hasCycle k deps dep (v, r) \<noteq> None" if "dep \<noteq> node" "dep \<notin> v"
    using "4.IH"(1) [OF that] "4.prems" that by simp
  have c: "hasCycle_loop k deps node ds (v, r) \<noteq> None" if "dep \<noteq> node" "dep \<in> v" "dep \<notin> r"
    using "4.IH"(3) "4.prems" that by simp
  show ?case
  proof (cases "dep \<noteq> node \<and> dep \<notin> v")
    case True
    then obtain bb st1 where "hasCycle k deps dep (v, r) = Some (bb, st1)" using b by fastforce
    with True a show ?thesis by (cases bb) auto
  next
    case False
    then show ?thesis using c by auto
  qed
qed auto

lemma deps_map_ran: "deps_map ss m n = Some ds \<Longrightarrow> m n = Some ds \<or> (\<exists>s \<in> set ss. svc_DependsOn s = ds)"
proof (induction ss arbitrary: m)
  case (Cons s ss)
  have "(m(svc_Name s \<mapsto> svc_DependsOn s)) n = Some ds \<or> (\<exists>s \<in> set ss. svc_DependsOn s = ds)"
    using Cons.IH [of "m(svc_Name s \<mapsto> svc_DependsOn s)"] Cons.prems by (simp only: deps_map.simps)
  then show ?case by (auto split: if_splits)
qed simp

lemma succs_all_names: "set (succs (deps_map ss Map.empty) x) \<subseteq> set (all_names ss)"
  by (cases "deps_map ss Map.empty x")
    (use deps_map_ran [of ss Map.empty x] in \<open>auto simp: succs_def all_names_def\<close>)

text \<open>What the outer loop establishes; the names before it are finished.\<close>

lemma detect_loop_correct:
  assumes "finite U" "\<And>x. set (succs deps x) \<subseteq> U" "card U \<le> k"
  shows "svc_Name ` set ss \<subseteq> U \<Longrightarrow> dfs_inv deps v {} \<Longrightarrow>
     (\<exists>e. detect_loop k deps ss (v, {}) = Some e
        \<and> (if e = None then \<exists>v'. dfs_inv deps v' {} \<and> v \<union> svc_Name ` set ss \<subseteq> v'
           else e = Some (Sentinel ErrCircularDependency) \<and> (\<exists>x. (x, x) \<in> trancl (edges deps))))"
proof (induction ss arbitrary: v)
  case Nil
  then show ?case by auto
next
  case (Cons s ss)
  show ?case
  proof (cases "svc_Name s \<in> v")
    case True
    from Cons.IH [of v] Cons.prems obtain e where "detect_loop k deps ss (v, {}) = Some e"
      "if e = None then \<exists>v'. dfs_inv deps v' {} \<and> v \<union> svc_Name ` set ss \<subseteq> v'
       else e = Some (Sentinel ErrCircularDependency) \<and> (\<exists>x. (x, x) \<in> trancl (edges deps))"
      by auto
    with True show ?thesis by (intro exI [of _ e]) (cases "e = None"; simp; blast)
  next
    case False
    have "card (U - v) \<le> k" using assms(1,3) card_mono [of U "U - v"] by auto
    then have "hasCycle k deps (svc_Name s) (v, {}) \<noteq> None"
      using hasCycle_fuel(1) [OF assms(1,2), of "svc_Name s" "(v, {})" k] Cons.prems(1) False by simp
    then obtain b v1 r1 where h: "hasCycle k deps (svc_Name s) (v, {}) = Some (b, v1, r1)" by auto
    show ?thesis
    proof (cases b)
      case True
      have "\<exists>x. (x, x) \<in> trancl (edges deps)"
        using hasCycle_True(1) [of k deps "svc_Name s" "(v, {})" "(v1, r1)"] h True False Cons.prems(2)
        by simp
      with h True False show ?thesis by simp
    next
      case b: False
      have i: "dfs_inv deps v1 {}" "r1 = {}" "v \<subseteq> v1" "svc_Name s \<in> v1"
        using hasCycle_False(1) [of k deps "svc_Name s" "(v, {})" v1 r1] h b False Cons.prems(2) by auto
      from Cons.IH [of v1] Cons.prems(1) i obtain e where "detect_loop k deps ss (v1, {}) = Some e"
        "if e = None then \<exists>v'. dfs_inv deps v' {} \<and> v1 \<union> svc_Name ` set ss \<subseteq> v'
         else e = Some (Sentinel ErrCircularDependency) \<and> (\<exists>x. (x, x) \<in> trancl (edges deps))"
        by auto
      with h b False i show ?thesis by (intro exI [of _ e]) (cases "e = None"; simp; blast)
    qed
  qed
qed

definition dependency_graph :: "Service list \<Rightarrow> (string \<times> string) set" where
  "dependency_graph services = edges (deps_map services Map.empty)"

lemma detect_decides:
  "detectCircularDependencies services =
     Some (if acyclic (dependency_graph services) then None
           else Some (Sentinel ErrCircularDependency))"
proof -
  let ?deps = "deps_map services Map.empty"
  let ?U = "set (all_names services)"
  have names: "svc_Name ` set services \<subseteq> ?U" by (force simp: all_names_def)
  obtain e where e: "detectCircularDependencies services = Some e"
    and if_e: "if e = None then \<exists>v'. dfs_inv ?deps v' {} \<and> {} \<union> svc_Name ` set services \<subseteq> v'
       else e = Some (Sentinel ErrCircularDependency) \<and> (\<exists>x. (x, x) \<in> trancl (edges ?deps))"
    unfolding detectCircularDependencies_def
    using detect_loop_correct [of ?U ?deps "length (all_names services)" services "{}"]
      succs_all_names [of services] names card_length [of "all_names services"]
    by (auto simp: dfs_inv_def)
  show ?thesis
  proof (cases "e = None")
    case True
    with if_e obtain v where v: "dfs_inv ?deps v {}" "svc_Name ` set services \<subseteq> v" by auto
    have "(x, x) \<notin> trancl (edges ?deps)" for x
    proof
      assume c: "(x, x) \<in> trancl (edges ?deps)"
      then obtain y where "(x, y) \<in> edges ?deps" by (metis converse_tranclE)
      then have "?deps x \<noteq> None" by (cases "?deps x") (auto simp: edges_def succs_def)
      moreover have "dom (deps_map ss m) = dom m \<union> svc_Name ` set ss" for ss m
        by (induction ss arbitrary: m) auto
      ultimately have "x \<in> svc_Name ` set services" by (metis Un_empty_left domIff dom_empty)
      with v c show False by (auto simp: dfs_inv_def)
    qed
    with True e show ?thesis by (simp add: acyclic_def dependency_graph_def)
  next
    case False
    with if_e e show ?thesis by (auto simp: acyclic_def dependency_graph_def)
  qed
qed

text \<open>
  C2: \<open>detectCircularDependencies\<close> is a decision procedure. For every list of services (names may
  repeat, dependencies may point nowhere, at the service itself or anywhere) the search
  ends within its depth bound, reports \<open>ErrCircularDependency\<close> and nothing else, and reports it
  exactly when the dependency graph has a cycle.
\<close>

theorem detectCircularDependencies_iff:
  "detectCircularDependencies services =
     Some (if acyclic (dependency_graph services) then None
           else Some (Sentinel ErrCircularDependency))"
  by (rule detect_decides)

section \<open>Accepted specifications\<close>

definition port_ok :: "Port \<Rightarrow> bool" where
  "port_ok p \<longleftrightarrow> 1 \<le> uint (port_Target p) \<and> uint (port_Target p) \<le> 65535
     \<and> uint (port_Published p) \<le> 65535"

lemma validate_service_ports_None: "validate_service_ports svc i ps = None \<longleftrightarrow> list_all port_ok ps"
proof (induction ps arbitrary: i)
  case (Cons p ps)
  have "port_Target p \<noteq> 0 \<longleftrightarrow> 1 \<le> uint (port_Target p)"
    by (simp add: word_neq_0_conv word_less_def int_one_le_iff_zero_less)
  moreover have "\<not> 65535 < w \<longleftrightarrow> uint w \<le> 65535" for w :: "32 word"
    by (simp add: word_less_def not_less)
  ultimately have "port_ok p \<longleftrightarrow> port_Target p \<noteq> 0 \<and> \<not> 65535 < port_Target p \<and> \<not> 65535 < port_Published p"
    by (simp add: port_ok_def)
  with Cons show ?case by auto
qed simp

lemma validatePorts_None: "validatePorts ss = None \<longleftrightarrow> (\<forall>s \<in> set ss. list_all port_ok (svc_Ports s))"
  by (induction ss) (simp_all add: option.case_eq_if validate_service_ports_None)

lemma convert_services_names:
  "convert_services ts = Inr ss \<Longrightarrow> map svc_Name ss = map ts_Name ts
     \<and> map svc_DependsOn ss = map ts_DependsOn ts \<and> length ss = length ts
     \<and> (\<forall>s \<in> set ss. svc_Image s \<noteq> [] \<or> svc_Build s \<noteq> None)"
  by (induction ts arbitrary: ss) (auto simp: err_iffs convertService_def split: if_splits)

text \<open>What every accepted specification satisfies.\<close>

definition spec_ok :: "ParsedSpec \<Rightarrow> bool" where
  "spec_ok spec \<longleftrightarrow> spec_Services spec \<noteq> [] \<and> acyclic (dependency_graph (spec_Services spec))
     \<and> (\<forall>s \<in> set (spec_Services spec). (svc_Image s \<noteq> [] \<or> svc_Build s \<noteq> None)
          \<and> list_all port_ok (svc_Ports s))"

lemma ParseComposeSpec_accepted:
  assumes "ParseComposeSpec um ld y = Some (Inr spec)"
  shows "\<exists>project. loadComposeSpec um ld y = Inr project \<and> tj_Secrets project = 0
      \<and> tj_Configs project = 0 \<and> spec_ok spec
      \<and> map svc_Name (spec_Services spec) = map ts_Name (tj_Services project)
      \<and> map svc_DependsOn (spec_Services spec) = map ts_DependsOn (tj_Services project)"
proof -
  obtain project where p: "loadComposeSpec um ld y = Inr project"
    and u: "checkUnsupportedFeatures project = None" and ne: "tj_Services project \<noteq> []"
    using assms by (auto simp: ParseComposeSpec_def split: if_splits sum.splits option.splits)
  from assms p u ne obtain ss where c: "convert_services (tj_Services project) = Inr ss"
    and d: "detectCircularDependencies ss = Some None" and v: "validatePorts ss = None"
    and s: "spec_Services spec = ss"
    by (auto simp: ParseComposeSpec_def split: if_splits sum.splits option.splits)
  from d have "acyclic (dependency_graph ss)"
    by (auto simp: detect_decides split: if_splits)
  moreover have "ss \<noteq> []" using convert_services_names [OF c] ne by auto
  ultimately show ?thesis
    using p u convert_services_names [OF c] v s
    by (auto simp: spec_ok_def validatePorts_None checkUnsupportedFeatures_def split: if_splits)
qed

text \<open>
  C27: \<open>ParseComposeSpec\<close> always returns (the cycle search never exceeds its bound), and a
  specification it accepts has at least one service, an image or a build for every service, port
  numbers between 1 and 65535 (published ones up to 65535), and an acyclic dependency graph.
  Names and dependencies of the services are those the loader returned, in its order.
\<close>

theorem ParseComposeSpec_accepts:
  "(\<exists>r. ParseComposeSpec um ld y = Some r)
   \<and> (\<forall>spec. ParseComposeSpec um ld y = Some (Inr spec) \<longrightarrow> spec_ok spec
        \<and> (\<exists>project. loadComposeSpec um ld y = Inr project
             \<and> map svc_Name (spec_Services spec) = map ts_Name (tj_Services project)
             \<and> map svc_DependsOn (spec_Services spec) = map ts_DependsOn (tj_Services project)))"
proof
  show "\<exists>r. ParseComposeSpec um ld y = Some r"
    unfolding ParseComposeSpec_def by (simp add: detect_decides split: sum.split option.split)
qed (use ParseComposeSpec_accepted in blast)

definition demo_service :: "string \<Rightarrow> string list \<Rightarrow> types_ServiceConfig" where
  "demo_service name deps = \<lparr>ts_Name = name, ts_Image = ''nginx'', ts_Build = None, ts_Command = [],
     ts_Entrypoint = [], ts_Ports = [\<lparr>tp_Target = 80, tp_Published = ''8080'', tp_Protocol = ''tcp'',
     tp_HostIP = []\<rparr>], ts_Environment = Map.empty, ts_Volumes = [], ts_Networks = [],
     ts_DependsOn = deps, ts_Restart = [], ts_Labels = Map.empty, ts_HealthCheck = None,
     ts_Limits = None, ts_Reservations = None, ts_ExtendsFile = None\<rparr>"

definition demo_project :: types_Project where
  "demo_project = \<lparr>tj_Secrets = 0, tj_Configs = 0,
     tj_Services = [demo_service ''web'' [''db''], demo_service ''db'' []], tj_Networks = [],
     tj_Volumes = []\<rparr>"

theorem ParseComposeSpec_accepts_witness:
  "\<exists>spec. ParseComposeSpec (\<lambda>_. Some True) (\<lambda>_. Inr demo_project) ''services:'' = Some (Inr spec)
     \<and> spec_ok spec"
proof -
  have "case ParseComposeSpec (\<lambda>_. Some True) (\<lambda>_. Inr demo_project) ''services:'' of
      Some (Inr spec) \<Rightarrow> True | _ \<Rightarrow> False"
    by code_simp
  then obtain spec where
    "ParseComposeSpec (\<lambda>_. Some True) (\<lambda>_. Inr demo_project) ''services:'' = Some (Inr spec)"
    by (auto split: option.splits sum.splits)
  then show ?thesis using ParseComposeSpec_accepts by blast
qed

end
