(* ===== verification/Planning.thy ===== *)
theory Planning
  imports Compose Dom_Deployment "HOL-Library.Multiset"
begin

text \<open>
  \<open>internal/core/deployment\<close>: names of containers, networks and volumes, the start order of
  services, variable substitution, container plans, port conversion, and the planning of
  status changes. \<open>time.ParseDuration\<close> is the argument \<open>parse_duration\<close>.
\<close>

section \<open>Names\<close>

definition NetworkName :: "string \<Rightarrow> string" where
  "NetworkName deploymentID = ''hoster_'' @ deploymentID"

definition VolumeName :: "string \<Rightarrow> string \<Rightarrow> string" where
  "VolumeName deploymentID volumeName = ''hoster_'' @ deploymentID @ ''_'' @ volumeName"

definition ContainerName :: "string \<Rightarrow> string \<Rightarrow> string" where
  "ContainerName deploymentID serviceName = ''hoster_'' @ deploymentID @ ''_'' @ serviceName"

section \<open>Start order\<close>

type_synonym degree_map = "(string \<times> int) list"
type_synonym dependents_map = "(string \<times> string list) list"

fun add_dependents :: "string \<Rightarrow> string list \<Rightarrow> dependents_map \<Rightarrow> dependents_map" where
  "add_dependents name [] dp = dp"
| "add_dependents name (dep # deps) dp =
     add_dependents name deps (AList.update dep (lookup_nil dp dep @ [name]) dp)"

fun build_graph :: "Service list \<Rightarrow> (string \<rightharpoonup> Service) \<times> degree_map \<times> dependents_map
     \<Rightarrow> (string \<rightharpoonup> Service) \<times> degree_map \<times> dependents_map" where
  "build_graph [] g = g"
| "build_graph (svc # rest) (sm, inDegree, dp) =
     build_graph rest
       (sm(svc_Name svc \<mapsto> svc),
        AList.update (svc_Name svc) (int (length (svc_DependsOn svc))) inDegree,
        add_dependents (svc_Name svc) (svc_DependsOn svc) dp)"

text \<open>Reduce the in-degree of the dependents; those that reach 0 join the queue.\<close>

fun reduce_dependents :: "string list \<Rightarrow> degree_map \<times> string list \<Rightarrow> degree_map \<times> string list" where
  "reduce_dependents [] st = st"
| "reduce_dependents (dep # deps) (inDegree, queue) =
     (let inDegree' = AList.update dep (lookup0 inDegree dep - 1) inDegree
      in reduce_dependents deps
           (inDegree', if lookup0 inDegree' dep = 0 then queue @ [dep] else queue))"

lemma reduce_dependents_measure:
  "reduce_dependents deps (d, q) = (d', q') \<Longrightarrow>
     count_pos d' + length q' \<le> count_pos d + length q"
proof (induction deps arbitrary: d q)
  case Nil
  then show ?case by simp
next
  case (Cons x xs)
  let ?d = "AList.update x (lookup0 d x - 1) d"
  let ?q = "if lookup0 ?d x = 0 then q @ [x] else q"
  have "count_pos d' + length q' \<le> count_pos ?d + length ?q"
    using Cons by (simp add: Let_def)
  also have "\<dots> \<le> count_pos d + length q"
    using count_pos_dec [of x d] count_pos_dec_zero [of d x] by (auto simp: lookup0_update)
  finally show ?case .
qed

function kahn_loop :: "(string \<rightharpoonup> Service) \<Rightarrow> dependents_map
     \<Rightarrow> degree_map \<Rightarrow> string list \<Rightarrow> Service list \<Rightarrow> Service list" where
  "kahn_loop sm dp inDegree [] result = result"
| "kahn_loop sm dp inDegree (name # queue) result =
     (case reduce_dependents (lookup_nil dp name) (inDegree, queue) of (inDegree', queue') \<Rightarrow>
        kahn_loop sm dp inDegree' queue'
          (case sm name of Some svc \<Rightarrow> result @ [svc] | None \<Rightarrow> result))"
  by pat_completeness auto
termination
  by (relation "measure (\<lambda>(sm, dp, d, q, r). count_pos d + length q)")
    (auto dest!: reduce_dependents_measure [OF sym])

text \<open>The fallback: services whose name is not in the result yet, in their order.\<close>

fun append_missing :: "Service list \<Rightarrow> Service list \<Rightarrow> Service list" where
  "append_missing [] result = result"
| "append_missing (svc # rest) result =
     (if list_ex (\<lambda>r. svc_Name r = svc_Name svc) result then append_missing rest result
      else append_missing rest (result @ [svc]))"

text \<open>\<open>ks\<close> is the order in which \<open>range inDegree\<close> enumerates the names.\<close>

definition TopologicalSort :: "string list \<Rightarrow> Service list \<Rightarrow> Service list" where
  "TopologicalSort ks services =
     (if length services = 0 then services
      else let (sm, inDegree, dp) = build_graph services (Map.empty, [], []);
               queue = filter (\<lambda>name. lookup0 inDegree name = 0) ks;
               result = kahn_loop sm dp inDegree queue []
           in if length result < length services then append_missing services result else result)"

section \<open>Variables\<close>

text \<open>
  The replacement of one match. With a default the text after \<open>:-\<close> replaces the match,
  an empty one too; without, the match stays.
\<close>

definition replace_match :: "go_strmap \<Rightarrow> string \<Rightarrow> string option \<Rightarrow> string" where
  "replace_match variables name dflt =
     (case variables name of
        Some val \<Rightarrow> val
      | None \<Rightarrow> (case dflt of Some d \<Rightarrow> d | None \<Rightarrow> ''${'' @ name @ ''}''))"

function SubstituteVariables :: "string \<Rightarrow> go_strmap \<Rightarrow> string" where
  "SubstituteVariables value variables =
     (case match_placeholder value of
        Some (name, dflt, rest) \<Rightarrow> replace_match variables name dflt @ SubstituteVariables rest variables
      | None \<Rightarrow> (case value of [] \<Rightarrow> [] | c # t \<Rightarrow> c # SubstituteVariables t variables))"
  by pat_completeness auto
termination
  by (relation "measure (\<lambda>(s, _). length s)") (auto simp: match_placeholder_shorter)

declare SubstituteVariables.simps [simp del]

section \<open>Container plans\<close>

record PortPlan =
  pp_ContainerPort :: int
  pp_HostPort :: int
  pp_Protocol :: string
  pp_HostIP :: string

record VolumePlan =
  vp_Source :: string
  vp_Target :: string
  vp_ReadOnly :: bool

record RestartPolicyPlan =
  rp_Name :: string
  rp_MaximumRetryCount :: int

record ResourcePlan =
  rsp_CPULimit :: float64
  rsp_MemoryLimit :: int

record HealthCheckPlan =
  hp_Test :: "string list"
  hp_Interval :: int
  hp_Timeout :: int
  hp_Retries :: int
  hp_StartPeriod :: int

record ContainerPlan =
  cp_Name :: string
  cp_Image :: string
  cp_Command :: "string list"
  cp_Entrypoint :: "string list"
  cp_Env :: go_strmap
  cp_Labels :: go_strmap
  cp_Ports :: "PortPlan list"
  cp_Volumes :: "VolumePlan list"
  cp_Networks :: "string list"
  cp_RestartPolicy :: RestartPolicyPlan
  cp_Resources :: ResourcePlan
  cp_HealthCheck :: "HealthCheckPlan option"

record BuildContainerPlanParams =
  bp_DeploymentID :: string
  bp_TemplateID :: string
  bp_ServiceName :: string
  bp_Service :: Service
  bp_Variables :: go_strmap
  bp_NetworkName :: string
  bp_Volumes :: "Volume list"

definition LabelManaged :: string where [const_defs]: "LabelManaged = ''com.hoster.managed''"
definition LabelDeployment :: string where [const_defs]: "LabelDeployment = ''com.hoster.deployment''"
definition LabelTemplate :: string where [const_defs]: "LabelTemplate = ''com.hoster.template''"
definition LabelService :: string where [const_defs]: "LabelService = ''com.hoster.service''"

definition mapRestartPolicy :: "RestartPolicy \<Rightarrow> RestartPolicyPlan" where
  "mapRestartPolicy policy =
     \<lparr>rp_Name =
        (if policy = RestartAlways then ''always''
         else if policy = RestartOnFailure then ''on-failure''
         else if policy = RestartUnlessStopped then ''unless-stopped'' else ''no''),
      rp_MaximumRetryCount = 0\<rparr>"

definition plan_duration :: "(string \<Rightarrow> int option) \<Rightarrow> string \<Rightarrow> int" where
  "plan_duration parse_duration s =
     (if s \<noteq> [] then (case parse_duration s of Some d \<Rightarrow> d | None \<Rightarrow> 0) else 0)"

definition plan_port :: "Port \<Rightarrow> PortPlan" where
  "plan_port p = \<lparr>pp_ContainerPort = uint (port_Target p), pp_HostPort = uint (port_Published p),
     pp_Protocol = port_Protocol p, pp_HostIP = port_HostIP p\<rparr>"

definition plan_volume :: "string \<Rightarrow> VolumeMount \<Rightarrow> VolumePlan" where
  "plan_volume deploymentID v =
     \<lparr>vp_Source = (if vm_Type v = VolumeMountTypeVolume then VolumeName deploymentID (vm_Source v)
                   else vm_Source v),
      vp_Target = vm_Target v, vp_ReadOnly = vm_ReadOnly v\<rparr>"

definition plan_health :: "(string \<Rightarrow> int option) \<Rightarrow> HealthCheck \<Rightarrow> HealthCheckPlan" where
  "plan_health parse_duration h =
     \<lparr>hp_Test = hc_Test h, hp_Interval = plan_duration parse_duration (hc_Interval h),
      hp_Timeout = plan_duration parse_duration (hc_Timeout h), hp_Retries = hc_Retries h,
      hp_StartPeriod = plan_duration parse_duration (hc_StartPeriod h)\<rparr>"

definition BuildContainerPlan ::
  "(string \<Rightarrow> int option) \<Rightarrow> BuildContainerPlanParams \<Rightarrow> ContainerPlan" where
  "BuildContainerPlan parse_duration params =
     (let svc = bp_Service params
      in \<lparr>cp_Name = ContainerName (bp_DeploymentID params) (bp_ServiceName params),
          cp_Image = svc_Image svc, cp_Command = svc_Command svc, cp_Entrypoint = svc_Entrypoint svc,
          cp_Env = (\<lambda>k. map_option (\<lambda>v. SubstituteVariables v (bp_Variables params)) (svc_Environment svc k)),
          cp_Labels = [LabelManaged \<mapsto> ''true'', LabelDeployment \<mapsto> bp_DeploymentID params,
             LabelTemplate \<mapsto> bp_TemplateID params, LabelService \<mapsto> bp_ServiceName params]
             ++ svc_Labels svc,
          cp_Ports = map plan_port (svc_Ports svc),
          cp_Volumes = map (plan_volume (bp_DeploymentID params)) (svc_Volumes svc),
          cp_Networks = [bp_NetworkName params],
          cp_RestartPolicy = mapRestartPolicy (svc_Restart svc),
          cp_Resources =
            \<lparr>rsp_CPULimit = (if flt (Fin 0) (sres_CPULimit (svc_Resources svc))
                             then sres_CPULimit (svc_Resources svc) else Fin 0),
             rsp_MemoryLimit = (if 0 < sres_MemoryLimit (svc_Resources svc)
                                then sres_MemoryLimit (svc_Resources svc) else 0)\<rparr>,
          cp_HealthCheck = map_option (plan_health parse_duration) (svc_HealthCheck svc)\<rparr>)"

section \<open>Ports\<close>

record PortBinding =
  pb_ContainerPort :: int
  pb_HostPort :: int
  pb_Protocol :: string
  pb_HostIP :: string

definition ConvertPorts :: "PortBinding list \<Rightarrow> PortMapping list" where
  "ConvertPorts ports =
     (if length ports = 0 then []
      else map (\<lambda>p. \<lparr>pm_ContainerPort = pb_ContainerPort p, pm_HostPort = pb_HostPort p,
                      pm_Protocol = (if pb_Protocol p = [] then ''tcp'' else pb_Protocol p)\<rparr>) ports)"

section \<open>Planning of status changes\<close>

record StartPath =
  sp_Valid :: bool
  sp_Transitions :: "DeploymentStatus list"
  sp_ErrorReason :: string

definition start_ok :: "DeploymentStatus list \<Rightarrow> StartPath" where
  "start_ok ts = \<lparr>sp_Valid = True, sp_Transitions = ts, sp_ErrorReason = []\<rparr>"
definition start_no :: "string \<Rightarrow> StartPath" where
  "start_no reason = \<lparr>sp_Valid = False, sp_Transitions = [], sp_ErrorReason = reason\<rparr>"

definition DetermineStartPath :: "DeploymentStatus \<Rightarrow> StartPath" where
  "DetermineStartPath currentStatus =
     (if currentStatus = StatusPending then start_ok [StatusScheduled, StatusStarting]
      else if currentStatus = StatusStopped \<or> currentStatus = StatusFailed
      then start_ok [StatusStarting]
      else if currentStatus = StatusRunning then start_no ''deployment is already running''
      else if currentStatus = StatusStarting then start_no ''deployment is already starting''
      else if currentStatus = StatusStopping then start_no ''deployment is currently stopping''
      else if currentStatus = StatusDeleting then start_no ''deployment is being deleted''
      else if currentStatus = StatusDeleted then start_no ''cannot start deleted deployment''
      else if currentStatus = StatusScheduled then start_no ''deployment is already scheduled''
      else start_no ''cannot start deployment in current state'')"

definition CanStopDeployment :: "DeploymentStatus \<Rightarrow> bool \<times> string" where
  "CanStopDeployment currentStatus =
     (if currentStatus \<noteq> StatusRunning then (False, ''deployment is not running'') else (True, []))"

section \<open>The start order respects dependencies\<close>

text \<open>What the graph maps hold, for services with distinct names.\<close>

lemma add_dependents_lookup:
  "lookup_nil (add_dependents name deps dp) n = lookup_nil dp n @ replicate (count_list deps n) name"
  by (induction deps arbitrary: dp) (auto simp: lookup_nil_update replicate_append_same [symmetric])

lemma build_graph_maps:
  "distinct (map svc_Name ss) \<Longrightarrow> build_graph ss (sm, d, dp) = (sm', d', dp') \<Longrightarrow>
     (\<forall>s \<in> set ss. sm' (svc_Name s) = Some s \<and> lookup0 d' (svc_Name s) = int (length (svc_DependsOn s)))
     \<and> (\<forall>n. n \<notin> svc_Name ` set ss \<longrightarrow> sm' n = sm n \<and> lookup0 d' n = lookup0 d n)
     \<and> (\<forall>n. lookup_nil dp' n = lookup_nil dp n
          @ concat (map (\<lambda>s. replicate (count_list (svc_DependsOn s) n) (svc_Name s)) ss))"
proof (induction ss arbitrary: sm d dp)
  case Nil
  then show ?case by simp
next
  case (Cons s ss)
  have i: "distinct (map svc_Name ss)" "svc_Name s \<notin> svc_Name ` set ss" using Cons.prems by auto
  note IH = Cons.IH [OF i(1) Cons.prems(2) [unfolded build_graph.simps]]
  have "sm' (svc_Name s) = Some s \<and> lookup0 d' (svc_Name s) = int (length (svc_DependsOn s))"
    using IH i(2) by (simp add: lookup0_update)
  then show ?case using IH by (auto simp: lookup0_update add_dependents_lookup)
qed

lemma count_dependents:
  assumes "distinct (map svc_Name ss)" "s \<in> set ss"
  shows "count_list (concat (map (\<lambda>s. replicate (count_list (svc_DependsOn s) n) (svc_Name s)) ss)) (svc_Name s)
    = count_list (svc_DependsOn s) n"
proof -
  have zero: "count_list (concat (map (\<lambda>s. replicate (count_list (svc_DependsOn s) n) (svc_Name s)) ts)) x = 0"
    if "x \<notin> svc_Name ` set ts" for x ts
    using that by (auto simp: count_list_0_iff)
  have rep: "count_list (replicate k x) x = k" for k and x :: string by (induction k) auto
  have rep0: "x \<noteq> y \<Longrightarrow> count_list (replicate k x) y = 0" for k and x y :: string by (induction k) auto
  show ?thesis using assms
    by (induction ss) (auto simp: zero rep rep0 image_iff)
qed

text \<open>The inner loop: every dependent is reduced by its multiplicity, the exhausted ones are queued.\<close>

lemma reduce_dependents_effect:
  "reduce_dependents xs (d, q) = (d', q') \<Longrightarrow>
     (\<And>x. x \<in> set xs \<Longrightarrow> int (count_list xs x) \<le> lookup0 d x) \<Longrightarrow>
     (\<forall>x. lookup0 d' x = lookup0 d x - int (count_list xs x))
     \<and> (\<exists>zs. q' = q @ zs \<and> distinct zs \<and> set zs = {x \<in> set xs. lookup0 d x = int (count_list xs x)})"
proof (induction xs arbitrary: d q)
  case Nil
  then show ?case by simp
next
  case (Cons y xs)
  let ?d = "AList.update y (lookup0 d y - 1) d"
  let ?q = "if lookup0 ?d y = 0 then q @ [y] else q"
  have step: "reduce_dependents xs (?d, ?q) = (d', q')" using Cons.prems(1) by (simp add: Let_def)
  have bound: "int (count_list xs x) \<le> lookup0 ?d x" if "x \<in> set xs" for x
    using Cons.prems(2) [of x] that by (auto simp: lookup0_update)
  from Cons.IH [OF step bound] obtain zs where
    d': "\<forall>x. lookup0 d' x = lookup0 ?d x - int (count_list xs x)" and
    q': "q' = ?q @ zs" "distinct zs" "set zs = {x \<in> set xs. lookup0 ?d x = int (count_list xs x)}"
    by auto
  have "lookup0 d' x = lookup0 d x - int (count_list (y # xs) x)" for x
    using d' by (simp add: lookup0_update)
  moreover have "\<exists>ws. q' = q @ ws \<and> distinct ws
      \<and> set ws = {x \<in> set (y # xs). lookup0 d x = int (count_list (y # xs) x)}"
  proof (cases "lookup0 d y = 1")
    case True
    have "count_list xs y = 0" using Cons.prems(2) [of y] True by simp
    then have y: "y \<notin> set xs" by (simp add: count_list_0_iff)
    have "{x \<in> set xs. lookup0 ?d x = int (count_list xs x)} =
        {x \<in> set xs. lookup0 d x = int (count_list (y # xs) x)}"
      using y by (intro Collect_cong) (auto simp: lookup0_update)
    then have "set (y # zs) = {x \<in> set (y # xs). lookup0 d x = int (count_list (y # xs) x)}"
      using q'(3) True \<open>count_list xs y = 0\<close> by auto
    moreover have "distinct (y # zs)" using q'(2,3) y by auto
    ultimately show ?thesis using q'(1) True by (intro exI [of _ "y # zs"]) (simp add: lookup0_update)
  next
    case False
    have "set zs = {x \<in> set (y # xs). lookup0 d x = int (count_list (y # xs) x)}"
    proof (intro set_eqI)
      fix x
      have "y \<in> set xs" if "lookup0 d y = 1 + int (count_list xs y)"
        using that False by (cases "y \<in> set xs") simp_all
      then show "x \<in> set zs \<longleftrightarrow> x \<in> {x \<in> set (y # xs). lookup0 d x = int (count_list (y # xs) x)}"
        unfolding q'(3) by (cases "x = y") (auto simp: lookup0_update)
    qed
    then show ?thesis using q' False by (intro exI [of _ zs]) (simp add: lookup0_update)
  qed
  ultimately show ?case by blast
qed

text \<open>Dependencies come first.\<close>

definition deps_before :: "Service list \<Rightarrow> bool" where
  "deps_before res \<longleftrightarrow>
     (\<forall>xs s ys. res = xs @ s # ys \<longrightarrow> set (svc_DependsOn s) \<subseteq> svc_Name ` set xs)"

lemma deps_before_snoc:
  "deps_before res \<Longrightarrow> set (svc_DependsOn s) \<subseteq> svc_Name ` set res \<Longrightarrow> deps_before (res @ [s])"
  unfolding deps_before_def
  by (auto simp: append_eq_append_conv2 append_eq_Cons_conv Cons_eq_append_conv)

text \<open>The invariant of Kahn's loop; \<open>res\<close> is the result so far.\<close>

definition pending :: "Service list \<Rightarrow> Service \<Rightarrow> nat" where
  "pending res s = length (filter (\<lambda>n. n \<notin> svc_Name ` set res) (svc_DependsOn s))"

definition kahn_inv :: "Service list \<Rightarrow> degree_map \<Rightarrow> string list \<Rightarrow> Service list \<Rightarrow> bool" where
  "kahn_inv ss d q res \<longleftrightarrow>
     set res \<subseteq> set ss \<and> distinct res \<and> deps_before res
     \<and> (\<forall>s \<in> set ss. lookup0 d (svc_Name s) = int (pending res s))
     \<and> distinct q \<and> set q = {svc_Name s | s. s \<in> set ss \<and> s \<notin> set res \<and> pending res s = 0}"

lemma count_list_pending:
  assumes "distinct (map svc_Name ss)" "s \<in> set ss" "set res \<subseteq> set ss" "s \<notin> set res"
  shows "int (pending (res @ [s]) t) = int (pending res t) - int (count_list (svc_DependsOn t) (svc_Name s))"
proof -
  have "svc_Name s \<notin> svc_Name ` set res"
    using distinct_map_fst_index [OF assms(1,2)] assms(3,4) by blast
  then have "int (length (filter (\<lambda>n. n \<notin> svc_Name ` set (res @ [s])) ds)) =
      int (length (filter (\<lambda>n. n \<notin> svc_Name ` set res) ds)) - int (count_list ds (svc_Name s))" for ds
    by (induction ds) auto
  then show ?thesis by (simp add: pending_def)
qed

lemma deps_before_pending: "deps_before res \<Longrightarrow> r \<in> set res \<Longrightarrow> pending res r = 0"
proof -
  assume b: "deps_before res" and "r \<in> set res"
  then obtain xs ys where res: "res = xs @ r # ys" by (meson split_list)
  with b have "set (svc_DependsOn r) \<subseteq> svc_Name ` set xs" by (simp add: deps_before_def)
  then have "\<forall>n \<in> set (svc_DependsOn r). n \<in> svc_Name ` set res" using res by auto
  then show ?thesis by (simp add: pending_def)
qed

lemma pending_0: "pending res s = 0 \<Longrightarrow> set (svc_DependsOn s) \<subseteq> svc_Name ` set res"
  by (auto simp: pending_def filter_empty_conv)

lemma kahn_step:
  assumes dist: "distinct (map svc_Name ss)"
    and dp: "\<And>n. lookup_nil dp n =
        concat (map (\<lambda>s. replicate (count_list (svc_DependsOn s) n) (svc_Name s)) ss)"
    and inv: "kahn_inv ss d (name # q) res"
    and red: "reduce_dependents (lookup_nil dp name) (d, q) = (d', q')"
  shows "\<exists>s \<in> set ss. svc_Name s = name \<and> kahn_inv ss d' q' (res @ [s])"
proof -
  have q: "set (name # q) = {svc_Name s | s. s \<in> set ss \<and> s \<notin> set res \<and> pending res s = 0}"
    "distinct (name # q)" using inv unfolding kahn_inv_def by blast+
  have "name \<in> {svc_Name s | s. s \<in> set ss \<and> s \<notin> set res \<and> pending res s = 0}"
    unfolding q(1) [symmetric] by simp
  then obtain s where s: "s \<in> set ss" "s \<notin> set res" "pending res s = 0" "svc_Name s = name" by blast
  have sub: "set res \<subseteq> set ss" using inv by (simp add: kahn_inv_def)
  note pend = count_list_pending [OF dist s(1) sub s(2), unfolded s(4)]
  have deg: "lookup0 d (svc_Name t) = int (pending res t)" if "t \<in> set ss" for t
    using inv that by (simp add: kahn_inv_def)
  let ?xs = "lookup_nil dp name"
  have cnt: "count_list ?xs (svc_Name t) = count_list (svc_DependsOn t) name" if "t \<in> set ss" for t
    unfolding dp by (rule count_dependents [OF dist that])
  have mem: "x \<in> set ?xs \<longleftrightarrow> (\<exists>t \<in> set ss. svc_Name t = x \<and> name \<in> set (svc_DependsOn t))" for x
    unfolding dp by (auto simp: count_list_0_iff)
  have le: "int (count_list ?xs x) \<le> lookup0 d x" if x: "x \<in> set ?xs" for x
  proof -
    obtain t where t: "t \<in> set ss" "svc_Name t = x" using x unfolding mem by blast
    have "0 \<le> int (pending (res @ [s]) t)" by simp
    then show ?thesis using pend [of t] deg [OF t(1)] cnt [OF t(1)] t by simp
  qed
  from reduce_dependents_effect [OF red le] obtain zs where
    d': "\<And>x. lookup0 d' x = lookup0 d x - int (count_list ?xs x)" and
    q': "q' = q @ zs" "distinct zs" "set zs = {x \<in> set ?xs. lookup0 d x = int (count_list ?xs x)}"
    by blast
  have deg': "lookup0 d' (svc_Name t) = int (pending (res @ [s]) t)" if "t \<in> set ss" for t
    using d' deg [OF that] cnt [OF that] pend [of t] by simp
  have zs: "x \<in> set zs \<longleftrightarrow> (\<exists>t \<in> set ss. svc_Name t = x \<and> 0 < pending res t \<and> pending (res @ [s]) t = 0)" for x
  proof
    assume "x \<in> set zs"
    then obtain t where t: "t \<in> set ss" "svc_Name t = x" "name \<in> set (svc_DependsOn t)"
      and eq: "lookup0 d x = int (count_list ?xs x)" using q'(3) mem by blast
    have "0 < count_list (svc_DependsOn t) name" using t(3) by (metis count_list_0_iff gr0I)
    then show "\<exists>t \<in> set ss. svc_Name t = x \<and> 0 < pending res t \<and> pending (res @ [s]) t = 0"
      using t eq pend [of t] deg [OF t(1)] cnt [OF t(1)] by (intro bexI [of _ t]) auto
  next
    assume "\<exists>t \<in> set ss. svc_Name t = x \<and> 0 < pending res t \<and> pending (res @ [s]) t = 0"
    then obtain t where t: "t \<in> set ss" "svc_Name t = x" "0 < pending res t" "pending (res @ [s]) t = 0"
      by blast
    have c: "int (count_list (svc_DependsOn t) name) = int (pending res t)" using pend [of t] t(4) by simp
    then have "name \<in> set (svc_DependsOn t)" using t(3) by (metis count_notin of_nat_0 of_nat_eq_iff less_irrefl)
    then show "x \<in> set zs" using q'(3) mem t c deg [OF t(1)] cnt [OF t(1)] by auto
  qed
  have same: "t = u" if "t \<in> set ss" "u \<in> set ss" "svc_Name t = svc_Name u" for t u
    using distinct_map_fst_index [OF dist] that by blast
  have before: "deps_before res" using inv by (simp add: kahn_inv_def)
  have inq: "\<exists>t. x = svc_Name t \<and> t \<in> set ss \<and> t \<notin> set res \<and> pending res t = 0"
    if "x \<in> set (name # q)" for x
    using that unfolding q(1) by blast
  have disj: "set q \<inter> set zs = {}"
  proof (rule ccontr)
    assume "set q \<inter> set zs \<noteq> {}"
    then obtain x where x: "x \<in> set q" "x \<in> set zs" by blast
    obtain t where t: "t \<in> set ss" "svc_Name t = x" "pending res t = 0" using inq [of x] x(1) by auto
    from x(2) obtain u where u: "u \<in> set ss" "svc_Name u = x" "0 < pending res u" using zs by blast
    with t same [of t u] show False by simp
  qed
  have setq: "set q' = {svc_Name t | t. t \<in> set ss \<and> t \<notin> set (res @ [s]) \<and> pending (res @ [s]) t = 0}"
  proof (intro set_eqI iffI)
    fix x assume "x \<in> set q'"
    then consider "x \<in> set q" | "x \<in> set zs" using q'(1) by auto
    then show "x \<in> {svc_Name t | t. t \<in> set ss \<and> t \<notin> set (res @ [s]) \<and> pending (res @ [s]) t = 0}"
    proof cases
      case 1
      then obtain t where t: "x = svc_Name t" "t \<in> set ss" "t \<notin> set res" "pending res t = 0"
        using inq [of x] by auto
      have "t \<noteq> s" using 1 t(1) s(4) q(2) by auto
      moreover have "pending (res @ [s]) t = 0" using pend [of t] t(4) by simp
      ultimately show ?thesis using t by auto
    next
      case 2
      then obtain t where t: "t \<in> set ss" "svc_Name t = x" "0 < pending res t" "pending (res @ [s]) t = 0"
        using zs by blast
      then have "t \<noteq> s" "t \<notin> set res" using s(3) deps_before_pending [OF before] by auto
      then show ?thesis using t by auto
    qed
  next
    fix x assume "x \<in> {svc_Name t | t. t \<in> set ss \<and> t \<notin> set (res @ [s]) \<and> pending (res @ [s]) t = 0}"
    then obtain t where t: "x = svc_Name t" "t \<in> set ss" "t \<notin> set res" "t \<noteq> s" "pending (res @ [s]) t = 0"
      by auto
    show "x \<in> set q'"
    proof (cases "pending res t = 0")
      case True
      then have "x \<in> set (name # q)" using q(1) t by blast
      moreover have "x \<noteq> name" using same [of t s] t s by auto
      ultimately show ?thesis using q'(1) by simp
    next
      case False
      then have "x \<in> set zs" using zs t by blast
      then show ?thesis using q'(1) by simp
    qed
  qed
  have "kahn_inv ss d' q' (res @ [s])"
    unfolding kahn_inv_def
  proof (intro conjI ballI)
    show "set (res @ [s]) \<subseteq> set ss" using sub s(1) by simp
    show "distinct (res @ [s])" using inv s(2) by (simp add: kahn_inv_def)
    show "distinct q'" using q(2) q'(1,2) disj by simp
  qed (use deg' setq deps_before_snoc [OF before pending_0 [OF s(3)]] in simp_all)
  then show ?thesis using s by blast
qed

text \<open>The loop ends with nothing ready that is not in the result.\<close>

lemma kahn_loop_result:
  assumes dist: "distinct (map svc_Name ss)"
    and dp: "\<And>n. lookup_nil dp n =
        concat (map (\<lambda>s. replicate (count_list (svc_DependsOn s) n) (svc_Name s)) ss)"
    and sm: "\<And>s. s \<in> set ss \<Longrightarrow> sm (svc_Name s) = Some s"
  shows "kahn_inv ss d q res \<Longrightarrow> \<exists>d'. kahn_inv ss d' [] (kahn_loop sm dp d q res)"
  using dp sm
proof (induction sm dp d q res rule: kahn_loop.induct)
  case (1 sm dp d res)
  then show ?case by auto
next
  case (2 sm dp d name q res)
  obtain d' q' where r: "reduce_dependents (lookup_nil dp name) (d, q) = (d', q')" by fastforce
  from kahn_step [OF dist "2.prems"(2,1) r] obtain s where
    s: "s \<in> set ss" "svc_Name s = name" "kahn_inv ss d' q' (res @ [s])" by blast
  have "sm name = Some s" using "2.prems"(3) s by auto
  with "2.IH" [OF r [symmetric]] "2.prems" r s show ?case by auto
qed

lemma append_missing_result:
  assumes "distinct (map svc_Name ss)"
  shows "set ts \<subseteq> set ss \<Longrightarrow> distinct ts \<Longrightarrow> set res \<subseteq> set ss \<Longrightarrow> distinct res \<Longrightarrow>
    distinct (append_missing ts res) \<and> set (append_missing ts res) = set res \<union> set ts"
proof (induction ts arbitrary: res)
  case (Cons t ts)
  have "list_ex (\<lambda>r. svc_Name r = svc_Name t) res \<longleftrightarrow> t \<in> set res"
    using distinct_map_fst_index [OF assms] Cons.prems by (fastforce simp: list_ex_iff)
  with Cons show ?case by auto
qed simp

lemma TopologicalSort_kahn:
  assumes dist: "distinct (map svc_Name ss)" and ks: "distinct ks" "set ks = svc_Name ` set ss"
  shows "\<exists>d res. kahn_inv ss d [] res \<and>
    TopologicalSort ks ss = (if length res < length ss then append_missing ss res else res)"
proof (cases "ss = []")
  case True
  then show ?thesis
    by (intro exI [of _ "[]"]) (simp add: kahn_inv_def TopologicalSort_def deps_before_def)
next
  case False
  obtain sm d dp where g: "build_graph ss (Map.empty, [], []) = (sm, d, dp)" using prod_cases3 by blast
  note maps = build_graph_maps [OF dist g]
  have sm: "sm (svc_Name s) = Some s" and deg: "lookup0 d (svc_Name s) = int (length (svc_DependsOn s))"
    if "s \<in> set ss" for s using maps that by auto
  have dp: "lookup_nil dp n =
      concat (map (\<lambda>s. replicate (count_list (svc_DependsOn s) n) (svc_Name s)) ss)" for n
    using maps by (simp add: lookup_nil_def [of "[]"])
  let ?q = "filter (\<lambda>name. lookup0 d name = 0) ks"
  have "pending [] s = length (svc_DependsOn s)" for s by (simp add: pending_def)
  then have "kahn_inv ss d ?q []"
    using ks deg by (auto simp: kahn_inv_def deps_before_def)
  from kahn_loop_result [OF dist dp sm this] obtain d' where
    "kahn_inv ss d' [] (kahn_loop sm dp d ?q [])" by blast
  then show ?thesis using False g by (intro exI [of _ d'] exI [of _ "kahn_loop sm dp d ?q []"])
      (simp add: TopologicalSort_def Let_def)
qed

lemma distinct_of_names: "distinct (map svc_Name ss) \<Longrightarrow> distinct ss"
  by (simp add: distinct_map)

text \<open>In an acyclic graph without dangling dependencies nothing is left over.\<close>

lemma kahn_complete:
  assumes dist: "distinct (map svc_Name ss)" and inv: "kahn_inv ss d [] res"
    and acyc: "acyclic (dependency_graph ss)"
    and closed: "\<forall>s \<in> set ss. set (svc_DependsOn s) \<subseteq> svc_Name ` set ss"
  shows "set res = set ss"
proof (rule ccontr)
  assume "set res \<noteq> set ss"
  then have ne: "{svc_Name s | s. s \<in> set ss \<and> s \<notin> set res} \<noteq> {}" using inv by (auto simp: kahn_inv_def)
  have succs: "succs (deps_map ss Map.empty) (svc_Name s) = svc_DependsOn s" if "s \<in> set ss" for s
  proof -
    have notin: "n \<notin> svc_Name ` set ts \<Longrightarrow> deps_map ts m n = m n" for n ts m
      by (induction ts arbitrary: m) auto
    have "distinct (map svc_Name ts) \<Longrightarrow> s \<in> set ts \<Longrightarrow> deps_map ts m (svc_Name s) = Some (svc_DependsOn s)" for ts m
      by (induction ts arbitrary: m) (auto simp: notin)
    with dist that show ?thesis by (simp add: succs_def)
  qed
  have "dependency_graph ss \<subseteq> svc_Name ` set ss \<times> set (all_names ss)"
  proof
    fix e assume "e \<in> dependency_graph ss"
    then obtain a b where e: "e = (a, b)" "b \<in> set (succs (deps_map ss Map.empty) a)"
      by (auto simp: dependency_graph_def edges_def)
    have "dom (deps_map ts m) = dom m \<union> svc_Name ` set ts" for ts m
      by (induction ts arbitrary: m) auto
    moreover have "a \<in> dom (deps_map ss Map.empty)" using e(2) by (cases "deps_map ss Map.empty a") (auto simp: succs_def)
    ultimately have "a \<in> svc_Name ` set ss" by (metis Un_empty_left dom_empty)
    then show "e \<in> svc_Name ` set ss \<times> set (all_names ss)" using e succs_all_names [of ss a] by auto
  qed
  then have "finite (dependency_graph ss)" by (rule finite_subset) simp
  then have "wf ((dependency_graph ss)\<inverse>)" using acyc by (simp add: finite_acyclic_wf_converse)
  then obtain z where z: "z \<in> {svc_Name s | s. s \<in> set ss \<and> s \<notin> set res}"
    and min: "\<And>y. (y, z) \<in> (dependency_graph ss)\<inverse> \<Longrightarrow> y \<notin> {svc_Name s | s. s \<in> set ss \<and> s \<notin> set res}"
    using ne unfolding wf_eq_minimal by (metis (no_types, lifting) ex_in_conv)
  then obtain s where s: "s \<in> set ss" "s \<notin> set res" "z = svc_Name s" by blast
  have "n \<in> svc_Name ` set res" if n: "n \<in> set (svc_DependsOn s)" for n
  proof -
    obtain t where t: "t \<in> set ss" "svc_Name t = n" using closed s(1) n by blast
    have "(n, z) \<in> (dependency_graph ss)\<inverse>"
      using succs [OF s(1)] n s(3) by (simp add: dependency_graph_def edges_def)
    from min [OF this] t show ?thesis by blast
  qed
  then have "pending res s = 0" by (auto simp: pending_def filter_empty_conv)
  then show False using inv s unfolding kahn_inv_def by auto
qed

lemma TopologicalSort_sorts:
  assumes "distinct (map svc_Name services)"
    and "distinct ks" "set ks = svc_Name ` set services"
  shows "mset (TopologicalSort ks services) = mset services
    \<and> (acyclic (dependency_graph services)
        \<and> (\<forall>s \<in> set services. set (svc_DependsOn s) \<subseteq> svc_Name ` set services) \<longrightarrow>
       (\<forall>xs s ys. TopologicalSort ks services = xs @ s # ys \<longrightarrow>
          set (svc_DependsOn s) \<subseteq> svc_Name ` set xs))"
proof -
  obtain d res where inv: "kahn_inv services d [] res"
    and t: "TopologicalSort ks services =
      (if length res < length services then append_missing services res else res)"
    using TopologicalSort_kahn [OF assms] by blast
  have r: "distinct res" "set res \<subseteq> set services" "deps_before res" using inv by (auto simp: kahn_inv_def)
  note ds = distinct_of_names [OF assms(1)]
  have am: "distinct (append_missing services res) \<and> set (append_missing services res) = set services"
    using append_missing_result [OF assms(1), of services res] ds r by auto
  have full: "set res = set services" if "\<not> length res < length services"
    using that r ds by (metis card_seteq distinct_card finite_set not_less)
  have "distinct (TopologicalSort ks services)" "set (TopologicalSort ks services) = set services"
    using am full r t by auto
  then have "mset (TopologicalSort ks services) = mset services"
    using ds set_eq_iff_mset_eq_distinct by blast
  moreover have "TopologicalSort ks services = res"
    if "acyclic (dependency_graph services)"
      "\<forall>s \<in> set services. set (svc_DependsOn s) \<subseteq> svc_Name ` set services"
  proof -
    have "set res = set services" using kahn_complete [OF assms(1) inv that] .
    then have "length res = length services" using r(1) ds by (metis distinct_card)
    then show ?thesis by (simp add: t)
  qed
  ultimately show ?thesis using r(3) unfolding deps_before_def by metis
qed

text \<open>
  C3: \<open>TopologicalSort\<close> returns every service exactly once, whatever the dependencies (cycles and
  dangling names included) and in whatever order the in-degree map is enumerated. When the
  dependency graph is acyclic and every dependency is a service, each service comes after all
  services it depends on.
\<close>

theorem TopologicalSort_correct:
  assumes "distinct (map svc_Name services)"
    and "distinct ks" "set ks = svc_Name ` set services"
  shows "mset (TopologicalSort ks services) = mset services
    \<and> (acyclic (dependency_graph services)
        \<and> (\<forall>s \<in> set services. set (svc_DependsOn s) \<subseteq> svc_Name ` set services) \<longrightarrow>
       (\<forall>xs s ys. TopologicalSort ks services = xs @ s # ys \<longrightarrow>
          set (svc_DependsOn s) \<subseteq> svc_Name ` set xs))"
  using assms by (rule TopologicalSort_sorts)

definition demo_svc :: "string \<Rightarrow> string list \<Rightarrow> Service" where
  "demo_svc name deps = \<lparr>svc_Name = name, svc_Image = ''img'', svc_Build = None, svc_Command = [],
     svc_Entrypoint = [], svc_Ports = [], svc_Environment = Map.empty, svc_Volumes = [],
     svc_Networks = [], svc_DependsOn = deps, svc_Restart = [],
     svc_Resources = \<lparr>sres_CPULimit = Fin 0, sres_CPUReservation = Fin 0, sres_MemoryLimit = 0,
       sres_MemoryReservation = 0\<rparr>, svc_HealthCheck = None, svc_Labels = Map.empty\<rparr>"

theorem TopologicalSort_correct_witness:
  "mset (TopologicalSort [''web'', ''db''] [demo_svc ''web'' [''db''], demo_svc ''db'' []])
     = mset [demo_svc ''web'' [''db''], demo_svc ''db'' []]
   \<and> map svc_Name (TopologicalSort [''web'', ''db''] [demo_svc ''web'' [''db''], demo_svc ''db'' []])
     = [''db'', ''web'']"
proof -
  let ?ss = "[demo_svc ''web'' [''db''], demo_svc ''db'' []]"
  have h: "distinct (map svc_Name ?ss)" "distinct [''web'', ''db'']"
    "set [''web'', ''db''] = svc_Name ` set ?ss"
    by (auto simp: demo_svc_def)
  have "map svc_Name (TopologicalSort [''web'', ''db''] ?ss) = [''db'', ''web'']" by code_simp
  then show ?thesis using TopologicalSort_correct [OF h] by blast
qed

text \<open>
  Parsing and ordering together: when the loader returns services with distinct names whose
  dependencies all exist (as compose-go checks before it returns), every specification that
  \<open>ParseComposeSpec\<close> accepts is ordered by \<open>TopologicalSort\<close> so that each service is started
  after everything it depends on, and none is lost or started twice.
\<close>

lemma accepted_spec_start_order:
  assumes parse: "ParseComposeSpec um ld y = Some (Inr spec)"
    and loader: "\<And>project. ld y = Inr project \<Longrightarrow> distinct (map ts_Name (tj_Services project))
        \<and> (\<forall>s \<in> set (tj_Services project). set (ts_DependsOn s) \<subseteq> ts_Name ` set (tj_Services project))"
    and ks: "distinct ks" "set ks = svc_Name ` set (spec_Services spec)"
  shows "mset (TopologicalSort ks (spec_Services spec)) = mset (spec_Services spec)
    \<and> (\<forall>xs s ys. TopologicalSort ks (spec_Services spec) = xs @ s # ys \<longrightarrow>
          set (svc_DependsOn s) \<subseteq> svc_Name ` set xs)
    \<and> distinct (map svc_Name (TopologicalSort ks (spec_Services spec)))"
proof -
  let ?ss = "spec_Services spec"
  obtain project where l: "loadComposeSpec um ld y = Inr project" and ok: "spec_ok spec"
    and n: "map svc_Name ?ss = map ts_Name (tj_Services project)"
    and d: "map svc_DependsOn ?ss = map ts_DependsOn (tj_Services project)"
    using ParseComposeSpec_accepted [OF parse] by blast
  have ld: "ld y = Inr project"
    using l by (auto simp: loadComposeSpec_def split: option.splits bool.splits sum.splits if_splits)
  have dist: "distinct (map svc_Name ?ss)" using loader [OF ld] by (simp only: n)
  have names: "svc_Name ` set ?ss = ts_Name ` set (tj_Services project)"
    using arg_cong [OF n, of set] by simp
  have deps: "svc_DependsOn ` set ?ss = ts_DependsOn ` set (tj_Services project)"
    using arg_cong [OF d, of set] by simp
  have "\<forall>x \<in> ts_DependsOn ` set (tj_Services project). set x \<subseteq> ts_Name ` set (tj_Services project)"
    using loader [OF ld] by blast
  then have "\<forall>s \<in> set ?ss. set (svc_DependsOn s) \<subseteq> svc_Name ` set ?ss"
    unfolding names deps [symmetric] by blast
  moreover have "acyclic (dependency_graph ?ss)" using ok by (simp add: spec_ok_def)
  moreover have "mset (map svc_Name (TopologicalSort ks ?ss)) = mset (map svc_Name ?ss)"
    using TopologicalSort_sorts [OF dist ks] by simp
  ultimately show ?thesis
    using TopologicalSort_sorts [OF dist ks] mset_eq_imp_distinct_iff dist by blast
qed

section \<open>Substitution\<close>

lemma SubstituteVariables_match:
  "match_placeholder s = Some (n, d, r) \<Longrightarrow>
     SubstituteVariables s vars = replace_match vars n d @ SubstituteVariables r vars"
  by (subst SubstituteVariables.simps) simp

lemma SubstituteVariables_char:
  "match_placeholder (c # s) = None \<Longrightarrow> SubstituteVariables (c # s) vars = c # SubstituteVariables s vars"
  by (subst SubstituteVariables.simps) simp

lemma match_placeholder_Nil [simp]: "match_placeholder [] = None"
  by (simp add: match_placeholder_def HasPrefix_def)

lemma SubstituteVariables_Nil [simp]: "SubstituteVariables [] vars = []"
  by (subst SubstituteVariables.simps) simp

lemma find_placeholders_Nil [simp]: "find_placeholders [] = []"
  by (subst find_placeholders.simps) simp

lemma find_placeholders_match:
  "match_placeholder s = Some (n, d, r) \<Longrightarrow> find_placeholders s = (n, d) # find_placeholders r"
  by (subst find_placeholders.simps) simp

lemma find_placeholders_char:
  "match_placeholder (c # s) = None \<Longrightarrow> find_placeholders (c # s) = find_placeholders s"
  by (subst find_placeholders.simps) simp

lemma set_add_vars: "set (add_vars vs xs) = set vs \<union> set xs"
  by (induction xs arbitrary: vs) auto

lemma distinct_add_vars: "distinct vs \<Longrightarrow> distinct (add_vars vs xs)"
  by (induction xs arbitrary: vs) auto

text \<open>A matched placeholder is the text it came from.\<close>

lemma match_placeholder_text:
  assumes "match_placeholder s = Some (n, None, r)"
  shows "s = ''${'' @ n @ ''}'' @ r"
proof -
  let ?t = "drop 2 s"
  have p: "HasPrefix s ''${''" and n: "n = takeWhile is_word ?t"
    and b: "HasPrefix (dropWhile is_word ?t) ''}''" and r: "r = drop 1 (dropWhile is_word ?t)"
    using assms by (auto simp: match_placeholder_def Let_def split: if_splits)
  have "?t = n @ dropWhile is_word ?t" using n by simp
  also have "dropWhile is_word ?t = ''}'' @ r" using b r by (auto simp: HasPrefix_iff)
  finally have "?t = n @ ''}'' @ r" .
  moreover have "s = ''${'' @ ?t" using p by (auto simp: HasPrefix_iff)
  ultimately show ?thesis by metis
qed

lemma placeholder_induct [case_names Nil Match Char]:
  assumes "P []"
    and "\<And>s n d r. match_placeholder s = Some (n, d, r) \<Longrightarrow> P r \<Longrightarrow> P s"
    and "\<And>c s. match_placeholder (c # s) = None \<Longrightarrow> P s \<Longrightarrow> P (c # s)"
  shows "P s"
proof (induction s rule: length_induct)
  case (1 s)
  show ?case
  proof (cases "match_placeholder s")
    case None
    with 1 assms(1,3) show ?thesis by (cases s) auto
  next
    case (Some x)
    obtain n d r where "x = (n, d, r)" by (cases x)
    with Some 1 assms(2) match_placeholder_shorter show ?thesis by blast
  qed
qed

lemma SubstituteVariables_agree:
  "(\<forall>n \<in> fst ` set (find_placeholders s). m1 n = m2 n) \<Longrightarrow>
     SubstituteVariables s m1 = SubstituteVariables s m2"
  by (induction s rule: placeholder_induct)
    (simp_all add: SubstituteVariables_match find_placeholders_match replace_match_def
      SubstituteVariables_char find_placeholders_char)

lemma SubstituteVariables_id:
  "(\<forall>(n, d) \<in> set (find_placeholders s). m n = None \<and> d = None) \<Longrightarrow> SubstituteVariables s m = s"
proof (induction s rule: placeholder_induct)
  case (Match s n d r)
  then have "d = None" "m n = None" "SubstituteVariables r m = r"
    by (auto simp: find_placeholders_match)
  with Match(1) match_placeholder_text [of s n r] show ?case
    by (simp add: SubstituteVariables_match replace_match_def)
qed (simp_all add: SubstituteVariables_char find_placeholders_char)

text \<open>
  Substitution and extraction fit together. \<open>ExtractVariablesFromYAML\<close> lists each placeholder
  name once; the result of \<open>SubstituteVariables\<close> depends only on the values of the names it
  lists; a text whose listed names have neither a value nor a default is returned unchanged; and
  a single placeholder becomes its value, else its default (an empty one too), else itself.
\<close>

theorem substitution_extraction:
  "distinct (ExtractVariablesFromYAML s)
   \<and> ((\<forall>n \<in> set (ExtractVariablesFromYAML s). m1 n = m2 n) \<longrightarrow>
        SubstituteVariables s m1 = SubstituteVariables s m2)
   \<and> ((\<forall>(n, d) \<in> set (find_placeholders s). m1 n = None \<and> d = None) \<longrightarrow> SubstituteVariables s m1 = s)
   \<and> (match_placeholder s = Some (n, d, []) \<longrightarrow>
        SubstituteVariables s m1 =
          (case m1 n of Some v \<Rightarrow> v | None \<Rightarrow> (case d of Some x \<Rightarrow> x | None \<Rightarrow> s)))"
proof (intro conjI impI)
  show "distinct (ExtractVariablesFromYAML s)"
    by (simp add: ExtractVariablesFromYAML_def distinct_add_vars)
  show "SubstituteVariables s m1 = SubstituteVariables s m2"
    if "\<forall>n \<in> set (ExtractVariablesFromYAML s). m1 n = m2 n"
    using that by (intro SubstituteVariables_agree) (simp add: ExtractVariablesFromYAML_def set_add_vars)
  show "SubstituteVariables s m1 = s"
    if "\<forall>(n, d) \<in> set (find_placeholders s). m1 n = None \<and> d = None"
    using that by (rule SubstituteVariables_id)
  show "SubstituteVariables s m1 = (case m1 n of Some v \<Rightarrow> v | None \<Rightarrow> (case d of Some x \<Rightarrow> x | None \<Rightarrow> s))"
    if m: "match_placeholder s = Some (n, d, [])"
    using match_placeholder_text [of s n "[]"] m
    by (auto simp: SubstituteVariables_match [OF m] replace_match_def split: option.splits)
qed

theorem substitution_extraction_witness:
  "SubstituteVariables ''${PORT:-8080}'' Map.empty = ''8080''
   \<and> SubstituteVariables ''${X}'' Map.empty = ''${X}''"
proof -
  have "match_placeholder ''${PORT:-8080}'' = Some (''PORT'', Some ''8080'', [])"
    and "match_placeholder ''${X}'' = Some (''X'', None, [])" by code_simp+
  then show ?thesis
    using substitution_extraction [of "''${PORT:-8080}''" Map.empty Map.empty "''PORT''" "Some ''8080''"]
      substitution_extraction [of "''${X}''" Map.empty Map.empty "''X''" None] by simp
qed

section \<open>Names and status planning\<close>

text \<open>
  Generated names tell deployments and services apart: for deployment identifiers of one
  length (they are generated with a fixed length) two container names or two volume names are
  equal only for the same deployment and the same service or volume, and no container or
  volume name is the name of a network of a deployment with such an identifier.
\<close>

theorem names_injective:
  assumes "length d1 = length d2"
  shows "(ContainerName d1 s1 = ContainerName d2 s2 \<longleftrightarrow> d1 = d2 \<and> s1 = s2)
    \<and> (VolumeName d1 v1 = VolumeName d2 v2 \<longleftrightarrow> d1 = d2 \<and> v1 = v2)
    \<and> (NetworkName d1 = NetworkName d2 \<longleftrightarrow> d1 = d2)
    \<and> ContainerName d1 s1 \<noteq> NetworkName d2 \<and> VolumeName d1 v1 \<noteq> NetworkName d2"
proof -
  have "d1 @ ''_'' @ x \<noteq> d2" for x
  proof
    assume "d1 @ ''_'' @ x = d2"
    then have "length (d1 @ ''_'' @ x) = length d2" by simp
    with assms show False by simp
  qed
  then show ?thesis
    using assms by (simp add: ContainerName_def VolumeName_def NetworkName_def)
qed

theorem names_injective_witness:
  "ContainerName ''depl_1'' ''web'' \<noteq> ContainerName ''depl_2'' ''web''"
  using names_injective [of "''depl_1''" "''depl_2''" "''web''" "''web''"] by simp

text \<open>The loop of the documented use: one transition after the other, until one fails.\<close>

fun run_transitions :: "DeploymentStatus list \<Rightarrow> Deployment \<Rightarrow> deployment_error + Deployment" where
  "run_transitions [] d = Inr d"
| "run_transitions (t # ts) d = bind_err (Deployment_Transition 0 0 t d) (run_transitions ts)"

text \<open>
  C28: The planner agrees with the status machine. \<open>DetermineStartPath\<close> is valid exactly for
  pending, stopped and failed deployments; its transitions are then an allowed path that ends in
  \<open>starting\<close>, and running them one by one with \<open>Transition\<close> succeeds when a node is assigned.
  \<open>CanStopDeployment\<close> holds exactly where the table allows the move to \<open>stopping\<close>.
\<close>

theorem start_path_sound:
  "(sp_Valid (DetermineStartPath (dep_Status d)) \<longleftrightarrow>
      dep_Status d \<in> {StatusPending, StatusStopped, StatusFailed})
   \<and> (sp_Valid (DetermineStartPath (dep_Status d)) \<longrightarrow>
        is_path can_transition (dep_Status d) (sp_Transitions (DetermineStartPath (dep_Status d)))
        \<and> last (sp_Transitions (DetermineStartPath (dep_Status d))) = StatusStarting)
   \<and> (sp_Valid (DetermineStartPath (dep_Status d)) \<and> dep_NodeID d \<noteq> [] \<longrightarrow>
        (\<exists>d'. run_transitions (sp_Transitions (DetermineStartPath (dep_Status d))) d = Inr d'
           \<and> dep_Status d' = StatusStarting \<and> dep_ErrorMessage d' = []))
   \<and> (fst (CanStopDeployment (dep_Status d)) \<longleftrightarrow> can_transition (dep_Status d) StatusStopping)"
proof -
  have tr: "\<exists>d'. Deployment_Transition 0 0 t d = Inr d' \<and> dep_Status d' = t \<and> dep_NodeID d' = dep_NodeID d
      \<and> (t = StatusStarting \<longrightarrow> dep_ErrorMessage d' = [])"
    if "can_transition (dep_Status d) t" "dep_NodeID d \<noteq> []" for t d
    using that by (simp add: Deployment_Transition_def can_transition_def Let_def)
  have p: "DetermineStartPath StatusPending = start_ok [StatusScheduled, StatusStarting]"
    "DetermineStartPath StatusStopped = start_ok [StatusStarting]"
    "DetermineStartPath StatusFailed = start_ok [StatusStarting]"
    by (simp_all add: DetermineStartPath_def)
  have v: "sp_Valid (DetermineStartPath s) \<longleftrightarrow> s \<in> {StatusPending, StatusStopped, StatusFailed}" for s
    by (simp add: DetermineStartPath_def start_ok_def start_no_def)
  have r1: "\<exists>d'. run_transitions [StatusStarting] d = Inr d' \<and> dep_Status d' = StatusStarting
      \<and> dep_ErrorMessage d' = []"
    if "can_transition (dep_Status d) StatusStarting" "dep_NodeID d \<noteq> []" for d
    using tr [OF that] by auto
  have r2: "\<exists>d'. run_transitions [StatusScheduled, StatusStarting] d = Inr d'
      \<and> dep_Status d' = StatusStarting \<and> dep_ErrorMessage d' = []"
    if st: "dep_Status d = StatusPending" and nd: "dep_NodeID d \<noteq> []" for d
  proof -
    have "can_transition (dep_Status d) StatusScheduled" using st by (simp add: can_transition_iff)
    from tr [OF this nd] obtain d1 where d1: "Deployment_Transition 0 0 StatusScheduled d = Inr d1"
      "dep_Status d1 = StatusScheduled" "dep_NodeID d1 \<noteq> []" using nd by auto
    then have "can_transition (dep_Status d1) StatusStarting" by (simp add: can_transition_iff)
    from r1 [OF this d1(3)] d1(1) show ?thesis by simp
  qed
  have path: "is_path can_transition s (sp_Transitions (DetermineStartPath s))
      \<and> last (sp_Transitions (DetermineStartPath s)) = StatusStarting"
    if "s \<in> {StatusPending, StatusStopped, StatusFailed}" for s
    using that by (auto simp: p start_ok_def can_transition_iff)
  have run: "\<exists>d'. run_transitions (sp_Transitions (DetermineStartPath (dep_Status d))) d = Inr d'
        \<and> dep_Status d' = StatusStarting \<and> dep_ErrorMessage d' = []"
    if s: "dep_Status d \<in> {StatusPending, StatusStopped, StatusFailed}" and nd: "dep_NodeID d \<noteq> []"
    using s
  proof (elim insertE emptyE)
    assume "dep_Status d = StatusPending"
    then show ?thesis using r2 nd by (simp add: p start_ok_def del: run_transitions.simps)
  qed (use r1 [of d] nd in \<open>simp_all add: p start_ok_def can_transition_iff del: run_transitions.simps\<close>)
  show ?thesis unfolding v using path run by (auto simp: CanStopDeployment_def can_transition_iff)
qed

theorem start_path_sound_witness:
  "sp_Valid (DetermineStartPath (dep_Status ((undefined :: Deployment)\<lparr>dep_Status := StatusStopped\<rparr>)))"
  using start_path_sound [of "(undefined :: Deployment)\<lparr>dep_Status := StatusStopped\<rparr>"] by simp

section \<open>Container plans\<close>

text \<open>
  What a container plan takes from its deployment: the container has the generated name and
  joins only the deployment's network; named volumes are prefixed with the deployment, so two
  deployments with identifiers of one length never share one, and ports of an accepted
  specification stay in range. The four identification labels are the platform's only when the
  service does not set them: labels of the compose file are copied last and win, so a template
  can give a container another deployment's label.
\<close>

theorem BuildContainerPlan_facts:
  fixes params :: BuildContainerPlanParams and pd :: "string \<Rightarrow> int option"
  defines "plan \<equiv> BuildContainerPlan pd params" and "svc \<equiv> bp_Service params"
  shows "cp_Name plan = ContainerName (bp_DeploymentID params) (bp_ServiceName params)
    \<and> cp_Networks plan = [bp_NetworkName params]
    \<and> (list_all port_ok (svc_Ports svc) \<longrightarrow>
         list_all (\<lambda>p. 1 \<le> pp_ContainerPort p \<and> pp_ContainerPort p \<le> 65535
           \<and> 0 \<le> pp_HostPort p \<and> pp_HostPort p \<le> 65535) (cp_Ports plan))
    \<and> (\<forall>i < length (svc_Volumes svc).
         vm_Type (svc_Volumes svc ! i) = VolumeMountTypeVolume \<longrightarrow>
         vp_Source (cp_Volumes plan ! i) = VolumeName (bp_DeploymentID params) (vm_Source (svc_Volumes svc ! i)))
    \<and> cp_Labels plan LabelDeployment =
         (case svc_Labels svc LabelDeployment of Some l \<Rightarrow> Some l | None \<Rightarrow> Some (bp_DeploymentID params))
    \<and> cp_Labels plan LabelManaged =
         (case svc_Labels svc LabelManaged of Some l \<Rightarrow> Some l | None \<Rightarrow> Some ''true'')"
proof -
  have l: "LabelManaged \<noteq> LabelDeployment" "LabelManaged \<noteq> LabelTemplate" "LabelManaged \<noteq> LabelService"
    "LabelDeployment \<noteq> LabelTemplate" "LabelDeployment \<noteq> LabelService"
    by (simp_all add: const_defs)
  show ?thesis
    unfolding plan_def svc_def BuildContainerPlan_def Let_def
    using l by (auto simp: list_all_iff plan_port_def port_ok_def plan_volume_def map_add_def
        split: option.split)
qed

theorem BuildContainerPlan_facts_witness:
  "cp_Labels (BuildContainerPlan (\<lambda>_. None) \<lparr>bp_DeploymentID = ''depl_1'', bp_TemplateID = ''t'',
      bp_ServiceName = ''web'', bp_Service = (demo_svc ''web'' [])\<lparr>svc_Labels := [LabelDeployment \<mapsto> ''depl_2'']\<rparr>,
      bp_Variables = Map.empty, bp_NetworkName = ''n'', bp_Volumes = []\<rparr>) LabelDeployment = Some ''depl_2''"
  using BuildContainerPlan_facts [of "\<lambda>_. None" "\<lparr>bp_DeploymentID = ''depl_1'', bp_TemplateID = ''t'',
      bp_ServiceName = ''web'', bp_Service = (demo_svc ''web'' [])\<lparr>svc_Labels := [LabelDeployment \<mapsto> ''depl_2'']\<rparr>,
      bp_Variables = Map.empty, bp_NetworkName = ''n'', bp_Volumes = []\<rparr>"]
  by simp

end
