(* ===== verification/Routing.thy ===== *)
theory Routing
  imports Dom_Node Dom_Deployment
begin

text \<open>
  The pure parts of request routing: \<open>internal/core/proxy\<close> (hostname parsing, port allocation,
  targets, errors), \<open>internal/core/traefik\<close> (labels), \<open>internal/core/dns\<close> (custom domain
  checks and verification) and \<open>internal/core/validation\<close>. The Unicode tables behind
  \<open>strings.ToLower\<close> and \<open>strings.EqualFold\<close> are arguments, consulted for text that is not ASCII.
\<close>

section \<open>Ports\<close>

record PortRange =
  pr_Start :: int
  pr_End :: int

definition DefaultPortRange :: PortRange where
  "DefaultPortRange = \<lparr>pr_Start = 30000, pr_End = 39999\<rparr>"

function alloc_loop :: "(int \<Rightarrow> bool) \<Rightarrow> int \<Rightarrow> int \<Rightarrow> int option" where
  "alloc_loop used port upto_port =
     (if port \<le> upto_port then (if \<not> used port then Some port else alloc_loop used (port + 1) upto_port)
      else None)"
  by pat_completeness auto
termination
  by (relation "measure (\<lambda>(_, port, upto_port). nat (upto_port + 1 - port))") auto

declare alloc_loop.simps [simp del]

text \<open>\<^const>\<open>None\<close> is the error \<open>no available ports in range\<close>.\<close>

definition AllocatePort :: "int list \<Rightarrow> PortRange \<Rightarrow> int option" where
  "AllocatePort usedPorts portRange =
     (let used = foldl (\<lambda>m p. m(p := True)) (\<lambda>_. False) usedPorts
      in alloc_loop used (pr_Start portRange) (pr_End portRange))"

definition ValidatePort :: "int \<Rightarrow> PortRange \<Rightarrow> bool" where
  "ValidatePort port portRange \<longleftrightarrow> pr_Start portRange \<le> port \<and> port \<le> pr_End portRange"

section \<open>Hostnames\<close>

record HostnameParser =
  hp_BaseDomain :: string

definition strip_port :: "string \<Rightarrow> string" where
  "strip_port hostname =
     (case LastIndexByte hostname CHR '':'' of
        None \<Rightarrow> hostname
      | Some idx \<Rightarrow> let potentialPort = drop (idx + 1) hostname
                    in if 0 < length potentialPort \<and> list_all is_digit potentialPort
                       then take idx hostname else hostname)"

definition HostnameParser_Parse :: "HostnameParser \<Rightarrow> string \<Rightarrow> string \<times> bool" where
  "HostnameParser_Parse p hostname =
     (if hostname = [] then ([], False)
      else let host = strip_port hostname; sfx = ''.'' @ hp_BaseDomain p
           in if \<not> HasSuffix host sfx then ([], False)
              else let slug = TrimSuffix host sfx
                   in if slug = [] then ([], False) else (slug, True))"

section \<open>Targets and errors\<close>

record ProxyTarget =
  pt_DeploymentID :: string
  pt_NodeID :: string
  pt_NodeIP :: string
  pt_Port :: int
  pt_Status :: string
  pt_CustomerID :: string

definition CanRoute :: "ProxyTarget \<Rightarrow> bool" where
  "CanRoute t \<longleftrightarrow> pt_Status t = ''running'' \<and> 0 < pt_Port t"

definition IsLocal :: "ProxyTarget \<Rightarrow> bool" where
  "IsLocal t \<longleftrightarrow> pt_NodeID t = [] \<or> pt_NodeID t = ''local''"

definition LocalAddress :: "ProxyTarget \<Rightarrow> string" where
  "LocalAddress t = ''127.0.0.1:'' @ fmt_d (pt_Port t)"

definition RemoteAddress :: "ProxyTarget \<Rightarrow> string" where
  "RemoteAddress t = pt_NodeIP t @ '':'' @ fmt_d (pt_Port t)"

datatype ProxyErrorType =
    ErrorNotFound | ErrorStopped | ErrorUnavailable | ErrorUpstreamTimeout | ErrorUpstreamError
  | ErrorVerificationPending

record ProxyError =
  pe_Type :: ProxyErrorType
  pe_Hostname :: string
  pe_Message :: string
  pe_StatusCode :: int

definition ProxyError_Error :: "ProxyError \<Rightarrow> string" where
  "ProxyError_Error e = pe_Message e"

definition NewNotFoundError :: "string \<Rightarrow> ProxyError" where
  "NewNotFoundError hostname = \<lparr>pe_Type = ErrorNotFound, pe_Hostname = hostname,
     pe_Message = ''app not found: '' @ hostname, pe_StatusCode = 404\<rparr>"

definition NewStoppedError :: "string \<Rightarrow> ProxyError" where
  "NewStoppedError hostname = \<lparr>pe_Type = ErrorStopped, pe_Hostname = hostname,
     pe_Message = ''app is stopped: '' @ hostname, pe_StatusCode = 503\<rparr>"

definition NewUnavailableError :: "string \<Rightarrow> ProxyError" where
  "NewUnavailableError hostname = \<lparr>pe_Type = ErrorUnavailable, pe_Hostname = hostname,
     pe_Message = ''app unavailable: '' @ hostname, pe_StatusCode = 503\<rparr>"

definition NewVerificationPendingError :: "string \<Rightarrow> ProxyError" where
  "NewVerificationPendingError hostname = \<lparr>pe_Type = ErrorVerificationPending,
     pe_Hostname = hostname, pe_Message = ''DNS verification pending for '' @ hostname,
     pe_StatusCode = 403\<rparr>"

section \<open>Traefik labels\<close>

record LabelParams =
  lp_DeploymentID :: string
  lp_ServiceName :: string
  lp_Hostname :: string
  lp_Port :: int
  lp_EnableTLS :: bool

definition router_label :: "string \<Rightarrow> string \<Rightarrow> string" where
  "router_label name field = ''traefik.http.routers.'' @ name @ ''.'' @ field"

definition host_rule :: "string \<Rightarrow> string" where
  "host_rule hostname = ''Host('' @ [CHR 0x60] @ hostname @ [CHR 0x60] @ '')''"

definition GenerateLabels :: "LabelParams \<Rightarrow> go_strmap" where
  "GenerateLabels params =
     (let name = lp_DeploymentID params @ ''-'' @ lp_ServiceName params;
          labels = [''traefik.enable'' \<mapsto> ''true'',
            router_label name ''rule'' \<mapsto> host_rule (lp_Hostname params),
            router_label name ''entrypoints'' \<mapsto> ''web'',
            ''traefik.http.services.'' @ name @ ''.loadbalancer.server.port'' \<mapsto> fmt_d (lp_Port params)]
      in if lp_EnableTLS params then
           let secureName = name @ ''-secure''
           in labels(router_label secureName ''rule'' \<mapsto> host_rule (lp_Hostname params),
                     router_label secureName ''entrypoints'' \<mapsto> ''websecure'',
                     router_label secureName ''tls'' \<mapsto> ''true'',
                     router_label secureName ''tls.certresolver'' \<mapsto> ''letsencrypt'')
         else labels)"

section \<open>Custom domains\<close>

datatype dns_error =
  ErrInvalidHostname | ErrHostnameTooLong | ErrDomainAlreadyExists | ErrMaxDomainsReached
  | ErrCannotRemoveAuto

definition MaxCustomDomains :: int where [const_defs]: "MaxCustomDomains = 5"

text \<open>\<open>strings.TrimSpace\<close>: white space code points are dropped at both ends.\<close>

function trim_left :: "string \<Rightarrow> string" where
  "trim_left s = (let k = space_len (bytes_of s) in if s = [] \<or> k = 0 then s else trim_left (drop k s))"
  by pat_completeness auto
termination
  by (relation "measure length") auto

declare trim_left.simps [simp del]

definition space_suffix :: "string \<Rightarrow> nat" where
  "space_suffix s =
     (let n = length s
      in if 3 \<le> n \<and> space_len (bytes_of (drop (n - 3) s)) = 3 then 3
         else if 2 \<le> n \<and> space_len (bytes_of (drop (n - 2) s)) = 2 then 2
         else if 1 \<le> n \<and> space_len (bytes_of (drop (n - 1) s)) = 1 then 1 else 0)"

function trim_right :: "string \<Rightarrow> string" where
  "trim_right s =
     (let k = space_suffix s in if s = [] \<or> k = 0 then s else trim_right (take (length s - k) s))"
  by pat_completeness auto
termination
  by (relation "measure length") auto

declare trim_right.simps [simp del]

definition TrimSpace :: "string \<Rightarrow> string" where
  "TrimSpace s = trim_right (trim_left s)"

definition is_letter :: "char \<Rightarrow> bool" where
  "is_letter c \<longleftrightarrow> is_lower c \<or> is_upper c"

text \<open>One or more labels, each with its dot, then a top-level name of letters.\<close>

definition dns_hostnameRegex :: "string \<Rightarrow> bool" where
  "dns_hostnameRegex s =
     (let ps = SplitByte CHR ''.'' s
      in 2 \<le> length ps \<and> list_all host_label (butlast ps)
         \<and> 2 \<le> length (last ps) \<and> list_all is_letter (last ps))"

definition ValidateCustomDomain :: "(string \<Rightarrow> string) \<Rightarrow> string \<Rightarrow> dns_error option" where
  "ValidateCustomDomain uni hostname =
     (let h = TrimSpace (ToLower uni hostname)
      in if h = [] then Some ErrInvalidHostname
         else if 253 < length h then Some ErrHostnameTooLong
         else if \<not> dns_hostnameRegex h then Some ErrInvalidHostname
         else None)"

definition EqualFold :: "(string \<Rightarrow> string \<Rightarrow> bool) \<Rightarrow> string \<Rightarrow> string \<Rightarrow> bool" where
  "EqualFold unifold s t =
     (if list_all is_ascii s \<and> list_all is_ascii t then map lower_char s = map lower_char t
      else unifold s t)"

fun can_add_loop :: "(string \<Rightarrow> string \<Rightarrow> bool) \<Rightarrow> string \<Rightarrow> int \<Rightarrow> Domain list \<Rightarrow> dns_error + int" where
  "can_add_loop unifold hostname customCount [] = Inr customCount"
| "can_add_loop unifold hostname customCount (d # ds) =
     (if dom_Type d = DomainTypeCustom then
        (if EqualFold unifold (dom_Hostname d) hostname then Inl ErrDomainAlreadyExists
         else can_add_loop unifold hostname (customCount + 1) ds)
      else can_add_loop unifold hostname customCount ds)"

definition CanAddCustomDomain ::
  "(string \<Rightarrow> string \<Rightarrow> bool) \<Rightarrow> Domain list \<Rightarrow> string \<Rightarrow> dns_error option" where
  "CanAddCustomDomain unifold existing hostname =
     (case can_add_loop unifold hostname 0 existing of
        Inl e \<Rightarrow> Some e
      | Inr customCount \<Rightarrow> if MaxCustomDomains \<le> customCount then Some ErrMaxDomainsReached else None)"

text \<open>An A record is given by its textual form, what \<open>net.IP.String\<close> returns.\<close>

record VerificationInput =
  vi_Hostname :: string
  vi_CNAMERecords :: "string list"
  vi_ARecords :: "string list"
  vi_LookupError :: string

record VerificationResult =
  vres_Verified :: bool
  vres_Method :: DomainVerificationMethod
  vres_Error :: string

definition Verify ::
  "(string \<Rightarrow> string \<Rightarrow> bool) \<Rightarrow> VerificationInput \<Rightarrow> string \<Rightarrow> string list \<Rightarrow> VerificationResult" where
  "Verify unifold input expectedAutoDomain expectedIPs =
     (if vi_LookupError input \<noteq> []
      then \<lparr>vres_Verified = False, vres_Method = [],
            vres_Error = ''DNS lookup failed: '' @ vi_LookupError input\<rparr>
      else if list_ex (\<lambda>cname. EqualFold unifold (TrimSuffix cname ''.'') expectedAutoDomain)
                (vi_CNAMERecords input)
      then \<lparr>vres_Verified = True, vres_Method = DomainVerificationMethodCNAME, vres_Error = []\<rparr>
      else if list_ex (\<lambda>a. list_ex (\<lambda>ip. a = ip) expectedIPs) (vi_ARecords input)
      then \<lparr>vres_Verified = True, vres_Method = DomainVerificationMethodA, vres_Error = []\<rparr>
      else \<lparr>vres_Verified = False, vres_Method = [],
            vres_Error = ''DNS records do not point to the expected target''\<rparr>)"

record DNSInstruction =
  di_Type :: string
  di_Name :: string
  di_Value :: string
  di_Priority :: string

definition GenerateInstructions :: "string \<Rightarrow> string \<Rightarrow> string \<Rightarrow> DNSInstruction list" where
  "GenerateInstructions customDomain autoDomain nodeIP =
     [\<lparr>di_Type = ''CNAME'', di_Name = customDomain, di_Value = autoDomain,
       di_Priority = ''recommended''\<rparr>]
     @ (if nodeIP \<noteq> [] then
          [\<lparr>di_Type = ''A'', di_Name = customDomain, di_Value = nodeIP, di_Priority = ''alternative''\<rparr>]
        else [])"

fun FindAutoDomain :: "Domain list \<Rightarrow> string" where
  "FindAutoDomain [] = []"
| "FindAutoDomain (d # ds) = (if dom_Type d = DomainTypeAuto then dom_Hostname d else FindAutoDomain ds)"

section \<open>Template rules of the validation package\<close>

definition ValidateCreateTemplateFields ::
  "string \<Rightarrow> string \<Rightarrow> string \<Rightarrow> int \<Rightarrow> string \<times> string" where
  "ValidateCreateTemplateFields name version composeSpec creatorID =
     (if name = [] then (''name'', ''name is required'')
      else if version = [] then (''version'', ''version is required'')
      else if composeSpec = [] then (''compose_spec'', ''compose_spec is required'')
      else if creatorID = 0 then (''creator_id'', ''creator_id is required'')
      else ([], []))"

definition CanUpdateTemplate :: "bool \<Rightarrow> bool \<times> string" where
  "CanUpdateTemplate published =
     (if published then (False, ''published templates cannot be modified'') else (True, []))"

text \<open>\<open>validation.CanCreateDeployment\<close>.\<close>

definition validation_CanCreateDeployment :: "bool \<Rightarrow> bool \<times> string" where
  "validation_CanCreateDeployment templatePublished =
     (if \<not> templatePublished then (False, ''template is not published'') else (True, []))"

section \<open>Port allocation\<close>

lemma foldl_used: "foldl (\<lambda>m p. m(p := True)) S ps x = (S x \<or> x \<in> set ps)"
  by (induction ps arbitrary: S) auto

lemma alloc_loop_result:
  "case alloc_loop used p e of
     Some q \<Rightarrow> p \<le> q \<and> q \<le> e \<and> \<not> used q \<and> (\<forall>r. p \<le> r \<and> r < q \<longrightarrow> used r)
   | None \<Rightarrow> (\<forall>r. p \<le> r \<and> r \<le> e \<longrightarrow> used r)"
proof (induction used p e rule: alloc_loop.induct)
  case (1 used p e)
  show ?case
  proof (cases "p \<le> e \<and> used p")
    case True
    then have eq: "alloc_loop used p e = alloc_loop used (p + 1) e"
      by (subst alloc_loop.simps) simp
    have IH: "case alloc_loop used (p + 1) e of
        Some q \<Rightarrow> p + 1 \<le> q \<and> q \<le> e \<and> \<not> used q \<and> (\<forall>r. p + 1 \<le> r \<and> r < q \<longrightarrow> used r)
      | None \<Rightarrow> (\<forall>r. p + 1 \<le> r \<and> r \<le> e \<longrightarrow> used r)" using "1.IH" True by simp
    have s: "p \<le> r \<longleftrightarrow> r = p \<or> p + 1 \<le> r" for r by auto
    from IH True show ?thesis unfolding eq by (auto simp: s split: option.splits)
  next
    case False
    then show ?thesis by (subst alloc_loop.simps) auto
  qed
qed

lemma AllocatePort_result:
  "case AllocatePort us prange of
      Some p \<Rightarrow> pr_Start prange \<le> p \<and> p \<le> pr_End prange \<and> p \<notin> set us
        \<and> (\<forall>q. pr_Start prange \<le> q \<and> q < p \<longrightarrow> q \<in> set us)
    | None \<Rightarrow> (\<forall>q. pr_Start prange \<le> q \<and> q \<le> pr_End prange \<longrightarrow> q \<in> set us)"
  using alloc_loop_result [where used = "foldl (\<lambda>m p. m(p := True)) (\<lambda>_. False) us"
      and p = "pr_Start prange" and e = "pr_End prange"]
  by (simp add: AllocatePort_def foldl_used split: option.splits)

text \<open>
  \<open>AllocatePort\<close> returns the smallest port of the range that is not in use, and reports an
  error exactly when every port of the range is in use; a returned port passes \<open>ValidatePort\<close>.
  So two deployments that are allocated one after the other, the first one recorded as used,
  never share a port.
\<close>

theorem AllocatePort_least:
  "(case AllocatePort usedPorts prange of
      Some p \<Rightarrow> ValidatePort p prange \<and> p \<notin> set usedPorts
        \<and> (\<forall>q. ValidatePort q prange \<and> q \<notin> set usedPorts \<longrightarrow> p \<le> q)
        \<and> AllocatePort (p # usedPorts) prange \<noteq> Some p
    | None \<Rightarrow> {p. ValidatePort p prange} \<subseteq> set usedPorts)"
proof -
  note r = AllocatePort_result [where prange = prange]
  show ?thesis
  proof (cases "AllocatePort usedPorts prange")
    case None
    with r [where us = usedPorts] show ?thesis by (auto simp: ValidatePort_def)
  next
    case (Some p)
    with r [where us = usedPorts] have p: "ValidatePort p prange" "p \<notin> set usedPorts"
      "\<And>q. pr_Start prange \<le> q \<Longrightarrow> q < p \<Longrightarrow> q \<in> set usedPorts" by (auto simp: ValidatePort_def)
    have "p \<le> q" if "ValidatePort q prange" "q \<notin> set usedPorts" for q
      using that p(3) [of q] by (fastforce simp: ValidatePort_def)
    moreover have "AllocatePort (p # usedPorts) prange \<noteq> Some p"
      using r [where us = "p # usedPorts"] by auto
    ultimately show ?thesis using Some p by simp
  qed
qed

theorem AllocatePort_least_witness:
  "AllocatePort [30000, 30002] DefaultPortRange = Some 30001
   \<and> ValidatePort 30001 DefaultPortRange"
proof -
  have "AllocatePort [30000, 30002] DefaultPortRange = Some 30001" by code_simp
  then show ?thesis using AllocatePort_least [where usedPorts = "[30000, 30002]" and prange = DefaultPortRange] by simp
qed

section \<open>Hostnames of deployments\<close>

lemma slug_char_no_colon: "slug_char c \<Longrightarrow> c \<noteq> CHR '':''"
  by (auto simp: slug_char_def is_lower_code is_digit_code)

lemma Slugify_no_colon: "CHR '':'' \<notin> set (Slugify s)"
  using Slugify_chars slug_char_no_colon by blast

lemma strip_port_none: "CHR '':'' \<notin> set h \<Longrightarrow> strip_port h = h"
  by (simp add: strip_port_def LastIndexByte_None [THEN iffD2])

lemma strip_port_digits:
  assumes "CHR '':'' \<notin> set h"
  shows "strip_port (h @ '':'' @ digits_nat n) = h"
proof -
  have d: "list_all is_digit (digits_nat n)" using digits_nat_digits by (auto simp: list_all_iff)
  then have "CHR '':'' \<notin> set (digits_nat n)" by (auto simp: list_all_iff is_digit_code)
  then have "LastIndexByte (h @ '':'' @ digits_nat n) CHR '':'' = Some (length h)"
    using LastIndexByte_append [of "CHR '':''" "digits_nat n" h] by simp
  then show ?thesis using d by (simp add: strip_port_def Let_def)
qed

text \<open>
  C39: The proxy recognises exactly the host names the platform hands out: the automatic domain
  of a deployment whose slug is not empty parses, with or without a port, to that slug, for any
  base domain without a colon; and whatever parses is a non-empty slug in front of the base
  domain. A deployment whose name has no slug characters gets a host name that never parses.
\<close>

theorem hostname_roundtrip:
  assumes "CHR '':'' \<notin> set base"
  shows "HostnameParser_Parse \<lparr>hp_BaseDomain = base\<rparr> (dom_Hostname (GenerateDomain name base))
      = (Slugify name, Slugify name \<noteq> [])
    \<and> HostnameParser_Parse \<lparr>hp_BaseDomain = base\<rparr>
        (dom_Hostname (GenerateDomain name base) @ '':'' @ digits_nat port) = (Slugify name, Slugify name \<noteq> [])
    \<and> (\<forall>h slug. HostnameParser_Parse \<lparr>hp_BaseDomain = base\<rparr> h = (slug, True) \<longrightarrow>
         slug \<noteq> [] \<and> strip_port h = slug @ ''.'' @ base)"
proof -
  let ?h = "Slugify name @ ''.'' @ base"
  have nc: "CHR '':'' \<notin> set ?h" using assms Slugify_no_colon by simp
  have t: "TrimSuffix ?h (''.'' @ base) = Slugify name" by (rule TrimSuffix_append)
  have s: "HasSuffix ?h (''.'' @ base)" by (rule HasSuffix_append)
  have parse: "HostnameParser_Parse \<lparr>hp_BaseDomain = base\<rparr> h = (Slugify name, Slugify name \<noteq> [])"
    if "strip_port h = ?h" "h \<noteq> []" for h
    using that s t by (cases "Slugify name = []") (simp_all add: HostnameParser_Parse_def)
  have inv: "slug \<noteq> [] \<and> strip_port h = slug @ ''.'' @ base"
    if "HostnameParser_Parse \<lparr>hp_BaseDomain = base\<rparr> h = (slug, True)" for h slug
    using that by (auto simp: HostnameParser_Parse_def Let_def HasSuffix_iff TrimSuffix_append
        split: if_splits)
  show ?thesis
    using parse [OF strip_port_none [OF nc]] parse [OF strip_port_digits [OF nc]] inv
    by (simp add: GenerateDomain_def)
qed

theorem hostname_roundtrip_witness:
  "HostnameParser_Parse \<lparr>hp_BaseDomain = ''apps.hoster.io''\<rparr> ''my-blog.apps.hoster.io:80''
     = (''my-blog'', True)"
proof -
  have s: "Slugify ''my-blog'' = ''my-blog''" by code_simp
  have d: "digits_nat 80 = ''80''" by code_simp
  show ?thesis
    using hostname_roundtrip [of "''apps.hoster.io''" "''my-blog''" 80]
    by (simp add: GenerateDomain_def s d)
qed

section \<open>Domain verification\<close>

text \<open>
  A custom domain is verified only on evidence: the lookup succeeded, and a CNAME record,
  without its trailing dot, is the deployment's automatic domain up to case, or an A record is
  one of the expected addresses; the CNAME method is reported whenever a CNAME matches. At most
  five custom domains can be added and never the same name twice.
\<close>

theorem Verify_sound:
  "(vres_Verified (Verify uf i auto ips) \<longleftrightarrow>
      vi_LookupError i = []
      \<and> ((\<exists>c \<in> set (vi_CNAMERecords i). EqualFold uf (TrimSuffix c ''.'') auto)
         \<or> set (vi_ARecords i) \<inter> set ips \<noteq> {}))
   \<and> (vres_Verified (Verify uf i auto ips) \<longleftrightarrow> vres_Error (Verify uf i auto ips) = [])
   \<and> (vres_Method (Verify uf i auto ips) = DomainVerificationMethodCNAME \<longleftrightarrow>
        vi_LookupError i = [] \<and> (\<exists>c \<in> set (vi_CNAMERecords i). EqualFold uf (TrimSuffix c ''.'') auto))
   \<and> (CanAddCustomDomain uf ds h = None \<longleftrightarrow>
        length (filter (\<lambda>d. dom_Type d = DomainTypeCustom) ds) < 5
        \<and> (\<forall>d \<in> set ds. dom_Type d = DomainTypeCustom \<longrightarrow> \<not> EqualFold uf (dom_Hostname d) h))"
proof (intro conjI)
  have loop: "can_add_loop uf h k ds =
      (if \<exists>d \<in> set ds. dom_Type d = DomainTypeCustom \<and> EqualFold uf (dom_Hostname d) h
       then Inl ErrDomainAlreadyExists
       else Inr (k + int (length (filter (\<lambda>d. dom_Type d = DomainTypeCustom) ds))))" for k
    by (induction ds arbitrary: k) auto
  show "CanAddCustomDomain uf ds h = None \<longleftrightarrow>
        length (filter (\<lambda>d. dom_Type d = DomainTypeCustom) ds) < 5
        \<and> (\<forall>d \<in> set ds. dom_Type d = DomainTypeCustom \<longrightarrow> \<not> EqualFold uf (dom_Hostname d) h)"
    by (auto simp: CanAddCustomDomain_def loop MaxCustomDomains_def)
qed (auto simp: Verify_def list_ex_iff DomainVerificationMethodCNAME_def DomainVerificationMethodA_def)

theorem Verify_sound_witness:
  "CanAddCustomDomain (\<lambda>_ _. False) [] ''example.com'' = None"
  using Verify_sound [of "\<lambda>_ _. False" _ _ _ "[]" "''example.com''"] by simp

end
