(* ===== verification/Engine_Schema.thy ===== *)
theory Engine_Schema
  imports State_Machine Dom_Deployment Dom_Cloud Authz
begin

text \<open>
  \<open>internal/engine/schema.go\<close> and \<open>internal/engine/resources.go\<close>: resources as data. A row is a Go
  map from column names to dynamically typed values; a resource is a list of fields, an optional
  state machine, an ownership field and hooks. The seven resources of the application are
  given as in the code; the engine's state machines are compared with those of the domain
  package. \<open>strings.ToLower\<close> on text that is not ASCII is the argument \<open>uni\<close>.
\<close>

section \<open>Dynamic values and rows\<close>

text \<open>
  The dynamic types that a value of type \<open>any\<close> takes in the engine. \<open>int\<close> and \<open>int64\<close> are different
  types: an interface holding one never equals an interface holding the other. \<open>GNum\<close> is
  \<open>json.Number\<close>.
\<close>

datatype gval =
    GNil | GStr string | GBytes string | GInt int | GInt64 int | GFloat float64 | GBool bool
  | GTime time | GNum string | GList "gval list" | GMap "(string \<times> gval) list"

type_synonym row = "string \<rightharpoonup> gval"

text \<open>\<open>row[k]\<close>: the zero value \<open>nil\<close> when the key is missing.\<close>

definition row_get :: "row \<Rightarrow> string \<Rightarrow> gval" where
  "row_get r k = (case r k of None \<Rightarrow> GNil | Some v \<Rightarrow> v)"

text \<open>\<open>s, _ := v.(string)\<close>.\<close>

definition as_string :: "gval \<Rightarrow> string" where
  "as_string v = (case v of GStr s \<Rightarrow> s | _ \<Rightarrow> [])"

definition strVal :: "gval \<Rightarrow> string" where
  "strVal v = (case v of GStr s \<Rightarrow> s | GBytes b \<Rightarrow> b | _ \<Rightarrow> [])"

text \<open>
  \<open>int64(f)\<close>: truncation towards zero; out of range the result is implementation specific,
  here the one of amd64.
\<close>

definition int64_of_float :: "float64 \<Rightarrow> int" where
  "int64_of_float f =
     (case f of
        Fin r \<Rightarrow> let t = (if 0 \<le> r then \<lfloor>r\<rfloor> else \<lceil>r\<rceil>) in if in_int64 t then t else - (2 ^ 63)
      | _ \<Rightarrow> - (2 ^ 63))"

definition toInt64 :: "gval \<Rightarrow> int option" where
  "toInt64 v =
     (case v of
        GInt i \<Rightarrow> Some i
      | GInt64 i \<Rightarrow> Some i
      | GFloat f \<Rightarrow> Some (int64_of_float f)
      | GNum s \<Rightarrow> (case Atoi s of (i, None) \<Rightarrow> Some i | (_, Some _) \<Rightarrow> None)
      | _ \<Rightarrow> None)"

definition toInt :: "gval \<Rightarrow> int" where
  "toInt v =
     (case v of
        GInt i \<Rightarrow> i
      | GInt64 i \<Rightarrow> i
      | GFloat f \<Rightarrow> int64_of_float f
      | GNum s \<Rightarrow> (case Atoi s of (i, None) \<Rightarrow> i | (_, Some _) \<Rightarrow> 0)
      | _ \<Rightarrow> 0)"

section \<open>Fields and resources\<close>

datatype FieldType =
    TypeString | TypeText | TypeInt | TypeFloat | TypeBool | TypeJSON | TypeTimestamp | TypeRef
  | TypeSoftRef

text \<open>A compiled pattern is given by its matching predicate.\<close>

record Field =
  fld_Name :: string
  fld_Type :: FieldType
  fld_Required :: bool
  fld_Unique :: bool
  fld_Nullable :: bool
  fld_DefaultValue :: gval
  fld_MinInt :: "int option"
  fld_MaxInt :: "int option"
  fld_MinLen :: "int option"
  fld_MaxLen :: "int option"
  fld_Pattern :: "(string \<Rightarrow> bool) option"
  fld_RefTable :: string
  fld_Computed :: "(row \<Rightarrow> gval) option"
  fld_WriteOnly :: bool
  fld_Encrypted :: bool
  fld_Internal :: bool
  fld_OwnerOnly :: bool

type_synonym GuardFunc = "row \<Rightarrow> string option"

record StateMachine =
  sm_Field :: string
  sm_Initial :: string
  sm_Transitions :: transition_table
  sm_Guards :: "string \<rightharpoonup> GuardFunc"
  sm_OnEnter :: "string \<rightharpoonup> string"

fun any_state :: "string \<Rightarrow> string list \<Rightarrow> bool" where
  "any_state to [] = False"
| "any_state to (s # ss) = (if s = to then True else any_state to ss)"

definition CanTransition :: "StateMachine \<Rightarrow> string \<Rightarrow> string \<Rightarrow> bool" where
  "CanTransition sm from to =
     (case map_of (sm_Transitions sm) from of
        None \<Rightarrow> False
      | Some tos \<Rightarrow> any_state to tos)"

fun add_states :: "string list \<Rightarrow> string list \<Rightarrow> string list" where
  "add_states states [] = states"
| "add_states states (s # ss) = add_states (if s \<in> set states then states else states @ [s]) ss"

text \<open>\<open>froms\<close> is the order in which \<open>range\<close> visits the keys of the transition map.\<close>

fun all_states_loop :: "transition_table \<Rightarrow> string list \<Rightarrow> string list \<Rightarrow> string list" where
  "all_states_loop tab states [] = states"
| "all_states_loop tab states (from # rest) =
     all_states_loop tab
       (add_states (add_states states [from]) (case map_of tab from of None \<Rightarrow> [] | Some tos \<Rightarrow> tos)) rest"

definition AllStates :: "string list \<Rightarrow> StateMachine \<Rightarrow> string list" where
  "AllStates froms sm = all_states_loop (sm_Transitions sm) [] froms"

record CustomAction =
  ca_Name :: string
  ca_Method :: string

text \<open>\<open>engine.PlanLimits\<close> has the fields of \<open>auth.PlanLimits\<close>.\<close>

type_synonym engine_PlanLimits = PlanLimits

record AuthContext =
  ac_Authenticated :: bool
  ac_UserID :: int
  ac_ReferenceID :: string
  ac_PlanID :: string
  ac_PlanLimits :: engine_PlanLimits

text \<open>The zero value \<open>AuthContext{}\<close>.\<close>

definition zero_AuthContext :: AuthContext where
  "zero_AuthContext = \<lparr>ac_Authenticated = False, ac_UserID = 0, ac_ReferenceID = [], ac_PlanID = [],
     ac_PlanLimits = zero_PlanLimits\<rparr>"

type_synonym VisibilityFunc = "AuthContext \<Rightarrow> row \<Rightarrow> bool"

text \<open>
  The static part of a resource. The hooks \<open>BeforeCreate\<close>, \<open>AfterCreate\<close> and \<open>BeforeDelete\<close> are
  closures over the store that \<open>Setup\<close> installs; they are arguments of the handlers that run
  them.
\<close>

record Resource =
  rsc_Name :: string
  rsc_RefPrefix :: string
  rsc_Owner :: string
  rsc_Fields :: "Field list"
  rsc_StateMachine :: "StateMachine option"
  rsc_Actions :: "CustomAction list"
  rsc_Visibility :: "VisibilityFunc option"
  rsc_PublicRead :: bool

fun field_by_name :: "string \<Rightarrow> Field list \<Rightarrow> Field option" where
  "field_by_name name [] = None"
| "field_by_name name (f # fs) = (if fld_Name f = name then Some f else field_by_name name fs)"

definition FieldByName :: "Resource \<Rightarrow> string \<Rightarrow> Field option" where
  "FieldByName r name = field_by_name name (rsc_Fields r)"

section \<open>Field builders\<close>

definition zero_Field :: Field where
  "zero_Field = \<lparr>fld_Name = [], fld_Type = TypeString, fld_Required = False, fld_Unique = False,
     fld_Nullable = False, fld_DefaultValue = GNil, fld_MinInt = None, fld_MaxInt = None,
     fld_MinLen = None, fld_MaxLen = None, fld_Pattern = None, fld_RefTable = [],
     fld_Computed = None, fld_WriteOnly = False, fld_Encrypted = False, fld_Internal = False,
     fld_OwnerOnly = False\<rparr>"

definition StringField :: "string \<Rightarrow> Field" where
  "StringField name = zero_Field\<lparr>fld_Name := name, fld_Type := TypeString\<rparr>"
definition TextField :: "string \<Rightarrow> Field" where
  "TextField name = zero_Field\<lparr>fld_Name := name, fld_Type := TypeText\<rparr>"
definition IntField :: "string \<Rightarrow> Field" where
  "IntField name = zero_Field\<lparr>fld_Name := name, fld_Type := TypeInt\<rparr>"
definition FloatField :: "string \<Rightarrow> Field" where
  "FloatField name = zero_Field\<lparr>fld_Name := name, fld_Type := TypeFloat\<rparr>"
definition BoolField :: "string \<Rightarrow> Field" where
  "BoolField name = zero_Field\<lparr>fld_Name := name, fld_Type := TypeBool\<rparr>"
definition JSONField :: "string \<Rightarrow> Field" where
  "JSONField name = zero_Field\<lparr>fld_Name := name, fld_Type := TypeJSON, fld_Nullable := True\<rparr>"
definition TimestampField :: "string \<Rightarrow> Field" where
  "TimestampField name = zero_Field\<lparr>fld_Name := name, fld_Type := TypeTimestamp, fld_Nullable := True\<rparr>"
definition RefField :: "string \<Rightarrow> string \<Rightarrow> Field" where
  "RefField name table = zero_Field\<lparr>fld_Name := name, fld_Type := TypeRef, fld_RefTable := table\<rparr>"
definition SoftRefField :: "string \<Rightarrow> string \<Rightarrow> Field" where
  "SoftRefField name table = zero_Field\<lparr>fld_Name := name, fld_Type := TypeSoftRef,
     fld_RefTable := table, fld_Nullable := True\<rparr>"

definition WithRequired :: "Field \<Rightarrow> Field" where "WithRequired f = f\<lparr>fld_Required := True\<rparr>"
definition WithUnique :: "Field \<Rightarrow> Field" where "WithUnique f = f\<lparr>fld_Unique := True\<rparr>"
definition WithNullable :: "Field \<Rightarrow> Field" where "WithNullable f = f\<lparr>fld_Nullable := True\<rparr>"
definition WithDefault :: "gval \<Rightarrow> Field \<Rightarrow> Field" where "WithDefault v f = f\<lparr>fld_DefaultValue := v\<rparr>"
definition WithMin :: "int \<Rightarrow> Field \<Rightarrow> Field" where "WithMin n f = f\<lparr>fld_MinInt := Some n\<rparr>"
definition WithMax :: "int \<Rightarrow> Field \<Rightarrow> Field" where "WithMax n f = f\<lparr>fld_MaxInt := Some n\<rparr>"
definition WithMinLen :: "int \<Rightarrow> Field \<Rightarrow> Field" where "WithMinLen n f = f\<lparr>fld_MinLen := Some n\<rparr>"
definition WithMaxLen :: "int \<Rightarrow> Field \<Rightarrow> Field" where "WithMaxLen n f = f\<lparr>fld_MaxLen := Some n\<rparr>"
definition WithPattern :: "(string \<Rightarrow> bool) \<Rightarrow> Field \<Rightarrow> Field" where
  "WithPattern p f = f\<lparr>fld_Pattern := Some p\<rparr>"
definition WithComputed :: "(row \<Rightarrow> gval) \<Rightarrow> Field \<Rightarrow> Field" where
  "WithComputed c f = f\<lparr>fld_Computed := Some c\<rparr>"
definition WithWriteOnly :: "Field \<Rightarrow> Field" where "WithWriteOnly f = f\<lparr>fld_WriteOnly := True\<rparr>"
definition WithEncrypted :: "Field \<Rightarrow> Field" where "WithEncrypted f = f\<lparr>fld_Encrypted := True\<rparr>"
definition WithInternal :: "Field \<Rightarrow> Field" where "WithInternal f = f\<lparr>fld_Internal := True\<rparr>"
definition WithOwnerOnly :: "Field \<Rightarrow> Field" where "WithOwnerOnly f = f\<lparr>fld_OwnerOnly := True\<rparr>"

text \<open>\<open>v == ""\<close> and \<open>v == 0\<close> compare an interface with a \<open>string\<close> and an \<open>int\<close>.\<close>

definition RequireField :: "string \<Rightarrow> GuardFunc" where
  "RequireField fieldName row =
     (case row fieldName of
        None \<Rightarrow> Some (fieldName @ '' is required for this transition'')
      | Some v \<Rightarrow> if v = GNil \<or> v = GStr [] \<or> v = GInt 0
                  then Some (fieldName @ '' is required for this transition'') else None)"

fun SQLType :: "FieldType \<Rightarrow> string" where
  "SQLType TypeString = ''TEXT''"
| "SQLType TypeText = ''TEXT''"
| "SQLType TypeSoftRef = ''TEXT''"
| "SQLType TypeInt = ''INTEGER''"
| "SQLType TypeRef = ''INTEGER''"
| "SQLType TypeBool = ''INTEGER''"
| "SQLType TypeFloat = ''REAL''"
| "SQLType TypeJSON = ''TEXT''"
| "SQLType TypeTimestamp = ''DATETIME''"

section \<open>The resources of the application\<close>

text \<open>\<open>slugify\<close> keeps lower-case letters, digits and hyphens of the lower-cased name.\<close>

definition slugify :: "(string \<Rightarrow> string) \<Rightarrow> string \<Rightarrow> string" where
  "slugify uni name =
     concat (map (\<lambda>r. if is_lower r \<or> is_digit r \<or> r = CHR ''-'' then [r]
                      else if r = CHR '' '' then ''-'' else []) (ToLower uni name))"

definition templateVisibility :: VisibilityFunc where
  "templateVisibility authCtx row =
     (let published = (case row ''published'' of
              Some (GBool b) \<Rightarrow> b | Some (GInt64 i) \<Rightarrow> i \<noteq> 0 | Some (GInt i) \<Rightarrow> i \<noteq> 0 | _ \<Rightarrow> False)
      in if published then True
         else if \<not> ac_Authenticated authCtx then False
         else case row ''creator_id'' of
                Some (GInt i) \<Rightarrow> i = ac_UserID authCtx
              | Some (GInt64 i) \<Rightarrow> i = ac_UserID authCtx
              | _ \<Rightarrow> False)"

definition nodeVisibility :: VisibilityFunc where
  "nodeVisibility authCtx row =
     (if ac_Authenticated authCtx
         \<and> (case row ''creator_id'' of Some (GInt i) \<Rightarrow> i = ac_UserID authCtx
            | Some (GInt64 i) \<Rightarrow> i = ac_UserID authCtx | _ \<Rightarrow> False) then True
      else case row ''public'' of
             Some (GBool b) \<Rightarrow> b | Some (GInt64 i) \<Rightarrow> i \<noteq> 0 | Some (GInt i) \<Rightarrow> i \<noteq> 0 | _ \<Rightarrow> False)"

definition template_slug :: "(string \<Rightarrow> string) \<Rightarrow> row \<Rightarrow> gval" where
  "template_slug uni row = (case row ''name'' of Some (GStr name) \<Rightarrow> GStr (slugify uni name) | _ \<Rightarrow> GStr [])"

definition TemplateResource :: "(string \<Rightarrow> string) \<Rightarrow> Resource" where
  "TemplateResource uni = \<lparr>rsc_Name = ''templates'', rsc_RefPrefix = ''tmpl_'', rsc_Owner = ''creator_id'',
     rsc_Fields = [
       WithPattern nameRegex_MatchString (WithMaxLen 100 (WithMinLen 3 (WithRequired (StringField ''name'')))),
       WithComputed (template_slug uni) (WithUnique (StringField ''slug'')),
       WithNullable (StringField ''description''),
       WithPattern versionRegex_MatchString (WithRequired (StringField ''version'')),
       WithRequired (TextField ''compose_spec''),
       JSONField ''variables'', JSONField ''config_files'', JSONField ''tags'',
       JSONField ''required_capabilities'',
       WithNullable (StringField ''category''),
       WithDefault (GInt 0) (FloatField ''resources_cpu_cores''),
       WithDefault (GInt 0) (IntField ''resources_memory_mb''),
       WithDefault (GInt 0) (IntField ''resources_disk_mb''),
       WithDefault (GInt 0) (WithMin 0 (IntField ''price_monthly_cents'')),
       WithDefault (GBool False) (BoolField ''published''),
       WithInternal (RefField ''creator_id'' ''users'')],
     rsc_StateMachine = None,
     rsc_Actions = [\<lparr>ca_Name = ''publish'', ca_Method = ''POST''\<rparr>],
     rsc_Visibility = Some templateVisibility, rsc_PublicRead = True\<rparr>"

definition deployment_machine :: StateMachine where
  "deployment_machine = \<lparr>sm_Field = ''status'', sm_Initial = ''pending'',
     sm_Transitions = [
       (''pending'', [''scheduled'']),
       (''scheduled'', [''starting'']),
       (''starting'', [''running'', ''failed'']),
       (''running'', [''stopping'', ''failed'']),
       (''stopping'', [''stopped'']),
       (''stopped'', [''starting'', ''deleting'']),
       (''deleting'', [''deleted'']),
       (''failed'', [''starting'', ''deleting'']),
       (''deleted'', [])],
     sm_Guards = [''starting'' \<mapsto> RequireField ''node_id''],
     sm_OnEnter = [
       ''scheduled'' \<mapsto> ''ScheduleDeployment'',
       ''starting'' \<mapsto> ''StartDeployment'',
       ''stopping'' \<mapsto> ''StopDeployment'',
       ''deleting'' \<mapsto> ''DeleteDeployment'',
       ''running'' \<mapsto> ''DeploymentRunning'',
       ''failed'' \<mapsto> ''DeploymentFailed'']\<rparr>"

definition DeploymentResource :: Resource where
  "DeploymentResource = \<lparr>rsc_Name = ''deployments'', rsc_RefPrefix = [], rsc_Owner = ''customer_id'',
     rsc_Fields = [
       WithRequired (StringField ''name''),
       RefField ''template_id'' ''templates'',
       WithNullable (StringField ''template_version''),
       WithInternal (RefField ''customer_id'' ''users''),
       SoftRefField ''node_id'' ''nodes'',
       WithDefault (GStr ''pending'') (StringField ''status''),
       JSONField ''variables'', JSONField ''domains'', JSONField ''containers'',
       WithDefault (GInt 0) (FloatField ''resources_cpu_cores''),
       WithDefault (GInt 0) (IntField ''resources_memory_mb''),
       WithDefault (GInt 0) (IntField ''resources_disk_mb''),
       WithNullable (IntField ''proxy_port''),
       WithNullable (StringField ''error_message''),
       TimestampField ''started_at'', TimestampField ''stopped_at''],
     rsc_StateMachine = Some deployment_machine,
     rsc_Actions = [
       \<lparr>ca_Name = ''start'', ca_Method = ''POST''\<rparr>,
       \<lparr>ca_Name = ''stop'', ca_Method = ''POST''\<rparr>,
       \<lparr>ca_Name = ''monitoring/health'', ca_Method = ''GET''\<rparr>,
       \<lparr>ca_Name = ''monitoring/stats'', ca_Method = ''GET''\<rparr>,
       \<lparr>ca_Name = ''monitoring/logs'', ca_Method = ''GET''\<rparr>,
       \<lparr>ca_Name = ''monitoring/events'', ca_Method = ''GET''\<rparr>,
       \<lparr>ca_Name = ''domains'', ca_Method = ''GET''\<rparr>,
       \<lparr>ca_Name = ''domains'', ca_Method = ''POST''\<rparr>],
     rsc_Visibility = None, rsc_PublicRead = False\<rparr>"

definition NodeResource :: Resource where
  "NodeResource = \<lparr>rsc_Name = ''nodes'', rsc_RefPrefix = ''node_'', rsc_Owner = ''creator_id'',
     rsc_Fields = [
       WithMaxLen 100 (WithMinLen 3 (WithRequired (StringField ''name''))),
       WithInternal (RefField ''creator_id'' ''users''),
       WithOwnerOnly (WithRequired (StringField ''ssh_host'')),
       WithOwnerOnly (WithDefault (GInt 22) (IntField ''ssh_port'')),
       WithOwnerOnly (WithRequired (StringField ''ssh_user'')),
       WithOwnerOnly (WithNullable (RefField ''ssh_key_id'' ''ssh_keys'')),
       WithOwnerOnly (WithDefault (GStr ''/var/run/docker.sock'') (StringField ''docker_socket'')),
       WithDefault (GStr ''offline'') (StringField ''status''),
       WithDefault (GBool False) (BoolField ''public''),
       JSONField ''capabilities'',
       WithDefault (GInt 0) (FloatField ''capacity_cpu_cores''),
       WithDefault (GInt 0) (IntField ''capacity_memory_mb''),
       WithDefault (GInt 0) (IntField ''capacity_disk_mb''),
       WithDefault (GInt 0) (FloatField ''capacity_cpu_used''),
       WithDefault (GInt 0) (IntField ''capacity_memory_used_mb''),
       WithDefault (GInt 0) (IntField ''capacity_disk_used_mb''),
       WithNullable (StringField ''location''),
       TimestampField ''last_health_check'',
       WithNullable (StringField ''error_message''),
       WithDefault (GStr ''manual'') (StringField ''provider_type''),
       SoftRefField ''provision_id'' ''cloud_provisions'',
       WithNullable (StringField ''base_domain'')],
     rsc_StateMachine = None,
     rsc_Actions = [\<lparr>ca_Name = ''maintenance'', ca_Method = ''POST''\<rparr>,
       \<lparr>ca_Name = ''maintenance'', ca_Method = ''DELETE''\<rparr>],
     rsc_Visibility = Some nodeVisibility, rsc_PublicRead = True\<rparr>"

definition SSHKeyResource :: Resource where
  "SSHKeyResource = \<lparr>rsc_Name = ''ssh_keys'', rsc_RefPrefix = ''sshkey_'', rsc_Owner = ''creator_id'',
     rsc_Fields = [
       WithInternal (RefField ''creator_id'' ''users''),
       WithRequired (StringField ''name''),
       WithEncrypted (WithWriteOnly (TextField ''private_key'')),
       WithNullable (TextField ''public_key''),
       WithNullable (StringField ''fingerprint'')],
     rsc_StateMachine = None, rsc_Actions = [], rsc_Visibility = None, rsc_PublicRead = False\<rparr>"

definition CloudCredentialResource :: Resource where
  "CloudCredentialResource = \<lparr>rsc_Name = ''cloud_credentials'', rsc_RefPrefix = ''cred_'',
     rsc_Owner = ''creator_id'',
     rsc_Fields = [
       WithInternal (RefField ''creator_id'' ''users''),
       WithMaxLen 100 (WithMinLen 3 (WithRequired (StringField ''name''))),
       WithRequired (StringField ''provider''),
       WithEncrypted (WithWriteOnly (TextField ''credentials'')),
       WithNullable (StringField ''default_region'')],
     rsc_StateMachine = None,
     rsc_Actions = [\<lparr>ca_Name = ''regions'', ca_Method = ''GET''\<rparr>, \<lparr>ca_Name = ''sizes'', ca_Method = ''GET''\<rparr>],
     rsc_Visibility = None, rsc_PublicRead = False\<rparr>"

definition provision_machine :: StateMachine where
  "provision_machine = \<lparr>sm_Field = ''status'', sm_Initial = ''pending'',
     sm_Transitions = [
       (''pending'', [''creating'', ''failed'', ''destroying'']),
       (''creating'', [''configuring'', ''failed'', ''destroying'']),
       (''configuring'', [''ready'', ''failed'', ''destroying'']),
       (''ready'', [''destroying'']),
       (''failed'', [''pending'', ''destroying'']),
       (''destroying'', [''destroyed'', ''failed'']),
       (''destroyed'', [])],
     sm_Guards = Map.empty,
     sm_OnEnter = [
       ''creating'' \<mapsto> ''ProvisionInstance'',
       ''configuring'' \<mapsto> ''ConfigureInstance'',
       ''ready'' \<mapsto> ''ProvisionReady'',
       ''destroying'' \<mapsto> ''DestroyInstance'']\<rparr>"

definition CloudProvisionResource :: Resource where
  "CloudProvisionResource = \<lparr>rsc_Name = ''cloud_provisions'', rsc_RefPrefix = ''prov_'',
     rsc_Owner = ''creator_id'',
     rsc_Fields = [
       WithInternal (RefField ''creator_id'' ''users''),
       RefField ''credential_id'' ''cloud_credentials'',
       WithRequired (StringField ''provider''),
       WithDefault (GStr ''pending'') (StringField ''status''),
       WithRequired (StringField ''instance_name''),
       WithRequired (StringField ''region''),
       WithRequired (StringField ''size''),
       WithNullable (StringField ''provider_instance_id''),
       WithNullable (StringField ''public_ip''),
       SoftRefField ''node_id'' ''nodes'',
       SoftRefField ''ssh_key_id'' ''ssh_keys'',
       WithNullable (StringField ''current_step''),
       WithNullable (StringField ''error_message''),
       TimestampField ''completed_at''],
     rsc_StateMachine = Some provision_machine,
     rsc_Actions = [\<lparr>ca_Name = ''retry'', ca_Method = ''POST''\<rparr>],
     rsc_Visibility = None, rsc_PublicRead = False\<rparr>"

definition invoice_machine :: StateMachine where
  "invoice_machine = \<lparr>sm_Field = ''status'', sm_Initial = ''draft'',
     sm_Transitions = [
       (''draft'', [''pending'']),
       (''pending'', [''paid'', ''failed'']),
       (''failed'', [''pending''])],
     sm_Guards = Map.empty, sm_OnEnter = Map.empty\<rparr>"

definition InvoiceResource :: Resource where
  "InvoiceResource = \<lparr>rsc_Name = ''invoices'', rsc_RefPrefix = ''inv_'', rsc_Owner = ''user_id'',
     rsc_Fields = [
       WithInternal (RefField ''user_id'' ''users''),
       WithRequired (TimestampField ''period_start''),
       WithRequired (TimestampField ''period_end''),
       JSONField ''items'',
       WithDefault (GInt 0) (IntField ''subtotal_cents''),
       WithDefault (GInt 0) (IntField ''tax_cents''),
       WithDefault (GInt 0) (IntField ''total_cents''),
       WithDefault (GStr ''USD'') (StringField ''currency''),
       WithDefault (GStr ''draft'') (StringField ''status''),
       WithNullable (StringField ''stripe_session_id''),
       WithNullable (StringField ''stripe_payment_url''),
       TimestampField ''paid_at''],
     rsc_StateMachine = Some invoice_machine,
     rsc_Actions = [\<lparr>ca_Name = ''pay'', ca_Method = ''POST''\<rparr>],
     rsc_Visibility = None, rsc_PublicRead = False\<rparr>"

definition Schema :: "(string \<Rightarrow> string) \<Rightarrow> Resource list" where
  "Schema uni = [TemplateResource uni, DeploymentResource, NodeResource, SSHKeyResource,
     CloudCredentialResource, CloudProvisionResource, InvoiceResource]"

section \<open>The state machines\<close>

lemma any_state_iff [simp]: "any_state to ss \<longleftrightarrow> to \<in> set ss"
  by (induction ss) auto

lemma CanTransition_iff: "CanTransition sm a b \<longleftrightarrow> table_allows (sm_Transitions sm) a b"
  by (simp add: CanTransition_def table_allows_def split: option.splits)

lemma set_add_states [simp]: "set (add_states states ss) = set states \<union> set ss"
  by (induction ss arbitrary: states) auto

lemma distinct_add_states: "distinct states \<Longrightarrow> distinct (add_states states ss)"
  by (induction ss arbitrary: states) auto

lemma set_all_states_loop:
  "set (all_states_loop tab states froms) = set states \<union> set froms
     \<union> (\<Union>a \<in> set froms. {b. table_allows tab a b})"
  by (induction froms arbitrary: states) (auto simp: table_allows_def split: option.splits)

lemma distinct_all_states_loop: "distinct states \<Longrightarrow> distinct (all_states_loop tab states froms)"
  by (induction froms arbitrary: states) (auto intro!: distinct_add_states simp del: add_states.simps)

text \<open>The keys of the transition map, in any order.\<close>

definition enumerates :: "string list \<Rightarrow> StateMachine \<Rightarrow> bool" where
  "enumerates froms sm \<longleftrightarrow> distinct froms \<and> set froms = set (table_states (sm_Transitions sm))"

lemma AllStates_states:
  assumes "enumerates froms sm" and "CanTransition sm a b"
  shows "a \<in> set (AllStates froms sm) \<and> b \<in> set (AllStates froms sm)"
proof -
  have "a \<in> set (table_states (sm_Transitions sm))"
    using assms(2) map_of_SomeD
    by (force simp: CanTransition_iff table_allows_def table_states_def split: option.splits)
  then show ?thesis
    using assms by (auto simp: AllStates_def set_all_states_loop enumerates_def CanTransition_iff)
qed

abbreviation keys_of :: "StateMachine \<Rightarrow> string list" where
  "keys_of sm \<equiv> table_states (sm_Transitions sm)"

lemma machine_keys_enumerate:
  "enumerates (keys_of deployment_machine) deployment_machine"
  "enumerates (keys_of provision_machine) provision_machine"
  "enumerates (keys_of invoice_machine) invoice_machine"
  by (simp_all add: enumerates_def table_states_def deployment_machine_def provision_machine_def
      invoice_machine_def)

interpretation edsm: status_machine "CanTransition deployment_machine"
  "AllStates (keys_of deployment_machine) deployment_machine"
  by unfold_locales (rule AllStates_states [OF machine_keys_enumerate(1)])

interpretation epsm: status_machine "CanTransition provision_machine"
  "AllStates (keys_of provision_machine) provision_machine"
  by unfold_locales (rule AllStates_states [OF machine_keys_enumerate(2)])

interpretation eism: status_machine "CanTransition invoice_machine"
  "AllStates (keys_of invoice_machine) invoice_machine"
  by unfold_locales (rule AllStates_states [OF machine_keys_enumerate(3)])

lemma deployment_tables_equal: "sm_Transitions deployment_machine = validTransitions"
  by (simp add: deployment_machine_def validTransitions_def const_defs)

lemma engine_deployment_can: "CanTransition deployment_machine = can_transition"
  by (intro ext) (simp add: CanTransition_iff deployment_tables_equal can_transition_def
      ValidateTransition_None)

lemma provision_status_literals:
  "ProvisionStatusPending = ''pending''" "ProvisionStatusCreating = ''creating''"
  "ProvisionStatusConfiguring = ''configuring''" "ProvisionStatusReady = ''ready''"
  "ProvisionStatusFailed = ''failed''" "ProvisionStatusDestroying = ''destroying''"
  "ProvisionStatusDestroyed = ''destroyed''"
  by (simp_all add: const_defs)

lemma engine_provision_can:
  "CanTransition provision_machine a b \<longleftrightarrow>
     can_provision a b \<or> (a \<in> {''pending'', ''creating'', ''configuring''} \<and> b = ''destroying'')"
  unfolding CanTransition_iff can_provision_def ValidateProvisionTransition_None
  by (auto simp: table_allows_def provision_machine_def validProvisionTransitions_def
      provision_status_literals)

text \<open>The status field of a resource is declared, and its default is the initial state.\<close>

definition machine_field_ok :: "Resource \<Rightarrow> bool" where
  "machine_field_ok r \<longleftrightarrow>
     (case rsc_StateMachine r of
        None \<Rightarrow> True
      | Some sm \<Rightarrow> (case FieldByName r (sm_Field sm) of
            None \<Rightarrow> False
          | Some f \<Rightarrow> fld_DefaultValue f = GStr (sm_Initial sm)
              \<and> sm_Initial sm \<in> set (table_states (sm_Transitions sm))))"

lemmas field_builder_defs = zero_Field_def StringField_def TextField_def IntField_def FloatField_def
  BoolField_def JSONField_def TimestampField_def RefField_def SoftRefField_def WithRequired_def
  WithUnique_def WithNullable_def WithDefault_def WithMin_def WithMax_def WithMinLen_def WithMaxLen_def
  WithPattern_def WithComputed_def WithWriteOnly_def WithEncrypted_def WithInternal_def
  WithOwnerOnly_def

lemmas resource_defs = TemplateResource_def DeploymentResource_def NodeResource_def
  SSHKeyResource_def CloudCredentialResource_def CloudProvisionResource_def InvoiceResource_def

lemma schema_machine_fields: "r \<in> set (Schema uni) \<Longrightarrow> machine_field_ok r"
  by (auto simp: Schema_def resource_defs machine_field_ok_def FieldByName_def field_builder_defs
      deployment_machine_def provision_machine_def invoice_machine_def table_states_def)

text \<open>
  The engine's machines and the domain package's agree. A deployment moves in the engine
  exactly where \<open>ValidateTransition\<close> allows it; a provision moves exactly where
  \<open>ValidateProvisionTransition\<close> allows it, or from a status in progress straight to
  \<open>destroying\<close>, which the domain table does not have. \<open>AllStates\<close> lists, in whatever order the map is
  enumerated, each state once, and no transition leaves the listed states. In every resource of
  the schema the state column is declared with the initial state as its default.
\<close>

theorem engine_machines:
  "(CanTransition deployment_machine a b \<longleftrightarrow> ValidateTransition a b = None)
   \<and> (CanTransition provision_machine a b \<longleftrightarrow> ValidateProvisionTransition a b = None
        \<or> (a \<in> {''pending'', ''creating'', ''configuring''} \<and> b = ''destroying''))
   \<and> (enumerates froms sm \<longrightarrow> distinct (AllStates froms sm)
        \<and> (rtranclp (CanTransition sm) a b \<and> a \<in> set (AllStates froms sm)
             \<longrightarrow> b \<in> set (AllStates froms sm)))
   \<and> (\<forall>r \<in> set (Schema uni). machine_field_ok r)"
proof (intro conjI impI ballI)
  show "distinct (AllStates froms sm)" if "enumerates froms sm"
    using that by (simp add: AllStates_def distinct_all_states_loop)
  show "b \<in> set (AllStates froms sm)"
    if e: "enumerates froms sm" and r: "rtranclp (CanTransition sm) a b \<and> a \<in> set (AllStates froms sm)"
    using r [THEN conjunct1] r [THEN conjunct2]
    by (induction rule: rtranclp_induct) (auto dest: AllStates_states [OF e])
qed (use engine_deployment_can in \<open>simp_all add: engine_provision_can can_transition_def can_provision_def
      schema_machine_fields\<close>)

theorem engine_machines_witness:
  "set (AllStates (keys_of invoice_machine) invoice_machine) = {''draft'', ''pending'', ''paid'', ''failed''}
   \<and> distinct (AllStates (keys_of invoice_machine) invoice_machine)
   \<and> machine_field_ok InvoiceResource"
proof -
  have "set (AllStates (keys_of invoice_machine) invoice_machine)
      = {''draft'', ''pending'', ''paid'', ''failed''}"
    by (auto simp: AllStates_def invoice_machine_def table_states_def)
  moreover have "InvoiceResource \<in> set (Schema uni)" for uni by (simp add: Schema_def)
  moreover note engine_machines [of _ _ "keys_of invoice_machine" invoice_machine]
  ultimately show ?thesis using machine_keys_enumerate(3) by simp
qed

end
