(* ===== verification/Engine_Store.thy ===== *)
theory Engine_Store
  imports Engine_Schema Monitoring Secrets
begin

text \<open>
  \<open>internal/engine/store.go\<close>: the generic store. The SQL statements the code builds are modelled by
  their meaning on tables of rows. What lies below is an argument, the record \<open>Env\<close>: when
  a statement fails, how a bound Go value comes back from its column, defaults of columns an
  \<open>INSERT\<close> does not name, text that is not one of the known statement forms, and the JSON, time, random
  and cipher libraries. A statement that fails leaves the tables unchanged.
\<close>

section \<open>World and environment\<close>

type_synonym tables = "string \<Rightarrow> row list"

text \<open>
  The statement forms: \<open>SELECT columns FROM t WHERE c = ? AND \<dots>\<close> (with \<open>ORDER BY id DESC
  LIMIT .. OFFSET ..\<close> for a page), \<open>INSERT\<close>, \<open>UPDATE\<close> and \<open>DELETE\<close> by \<open>reference_id\<close>, and any other
  text with its arguments.
\<close>

datatype sql_stmt =
    SelectStmt "string list" string "(string \<times> gval) list" "(int \<times> int) option"
  | InsertStmt string row
  | UpdateStmt string row string
  | DeleteStmt string string
  | RawStmt string "gval list"

text \<open>
  Calls that leave the process are recorded in \<open>w_calls\<close>. \<open>w_jobs\<close> lists the commands that were handed to a
  background goroutine and have not run yet.
\<close>

datatype ext_call =
    StartContainers string string
  | StopContainers string string
  | RemoveContainers string string
  | DestroyCloudInstance string string
  | CreateCloudInstance string string

record world =
  w_tables :: tables
  w_seq :: "string \<Rightarrow> int"
  w_tick :: nat
  w_calls :: "ext_call list"
  w_jobs :: "(string \<times> row) list"

text \<open>The tick numbers the calls into the environment, so two equal calls may answer differently.\<close>

record Env =
  env_fail :: "nat \<Rightarrow> sql_stmt \<Rightarrow> string option"
  env_conv :: "string \<Rightarrow> string \<Rightarrow> gval \<Rightarrow> gval"
  env_default :: "string \<Rightarrow> string \<Rightarrow> gval"
  env_raw :: "nat \<Rightarrow> string \<Rightarrow> gval list \<Rightarrow> tables \<Rightarrow> tables \<times> (string + row list)"
  env_now :: "nat \<Rightarrow> string"
  env_uuid :: "nat \<Rightarrow> string"
  env_Marshal :: "gval \<Rightarrow> string + string"
  env_Unmarshal :: "string \<Rightarrow> gval option"
  env_ParseTime :: "string \<Rightarrow> string \<Rightarrow> time option"
  env_FormatTime :: "time \<Rightarrow> string"
  env_seal :: seal_fn
  env_rnd :: "nat \<Rightarrow> nat \<Rightarrow> string option"
  env_crypto_text :: "crypto_error \<Rightarrow> string"
  env_UnmarshalDomains :: "string \<Rightarrow> Domain list"
  env_UnmarshalContainers :: "string \<Rightarrow> ContainerInfo list"
  env_UnmarshalVariables :: "string \<Rightarrow> go_strmap"
  env_Sprintv :: "gval \<Rightarrow> string"
  env_MarshalMeta :: "go_strmap \<Rightarrow> string"
  env_UnmarshalMeta :: "string \<Rightarrow> go_strmap option"
  env_json_hostnames :: "gval \<Rightarrow> string list"
  env_sort_timestamp :: "row list \<Rightarrow> row list"

definition tick :: "world \<Rightarrow> world" where
  "tick w = w\<lparr>w_tick := Suc (w_tick w)\<rparr>"

section \<open>Statements on tables\<close>

text \<open>\<open>c = ?\<close> holds for a column value and the bound value as the column stores it; never for NULL.\<close>

definition sql_eq :: "gval \<Rightarrow> gval \<Rightarrow> bool" where
  "sql_eq a b \<longleftrightarrow> a \<noteq> GNil \<and> b \<noteq> GNil \<and> a = b"

definition where_ok :: "Env \<Rightarrow> string \<Rightarrow> (string \<times> gval) list \<Rightarrow> row \<Rightarrow> bool" where
  "where_ok e tab wh r \<longleftrightarrow> list_all (\<lambda>(c, v). sql_eq (row_get r c) (env_conv e tab c v)) wh"

definition by_ref :: "string \<Rightarrow> (string \<times> gval) list" where
  "by_ref refID = [(''reference_id'', GStr refID)]"

definition project :: "string list \<Rightarrow> row \<Rightarrow> row" where
  "project cols r = (\<lambda>c. if c \<in> set cols then Some (row_get r c) else None)"

definition paginate :: "(int \<times> int) option \<Rightarrow> row list \<Rightarrow> row list" where
  "paginate pg rs = (case pg of None \<Rightarrow> rs | Some (l, off) \<Rightarrow> take (nat l) (drop (nat off) (rev rs)))"

definition db_select ::
  "Env \<Rightarrow> string list \<Rightarrow> string \<Rightarrow> (string \<times> gval) list \<Rightarrow> (int \<times> int) option \<Rightarrow> world \<Rightarrow>
     world \<times> (string + row list)" where
  "db_select e cols tab wh pg w =
     (case env_fail e (w_tick w) (SelectStmt cols tab wh pg) of
        Some err \<Rightarrow> (tick w, Inl err)
      | None \<Rightarrow> (tick w, Inr (map (project cols) (paginate pg (filter (where_ok e tab wh) (w_tables w tab))))))"

text \<open>
  Tables are kept in the order of their \<open>AUTOINCREMENT\<close> identifiers. \<open>reference_id\<close> is declared
  \<open>UNIQUE\<close>, so inserting a known one is an error; all other constraints are part of \<open>env_fail\<close>.
\<close>

definition stored :: "Env \<Rightarrow> string \<Rightarrow> row \<Rightarrow> row" where
  "stored e tab r = (\<lambda>c. case r c of None \<Rightarrow> None | Some v \<Rightarrow> Some (env_conv e tab c v))"

definition new_row :: "Env \<Rightarrow> string \<Rightarrow> int \<Rightarrow> row \<Rightarrow> row" where
  "new_row e tab ident r =
     (\<lambda>c. case stored e tab r c of None \<Rightarrow> Some (env_default e tab c) | Some v \<Rightarrow> Some v)(''id'' \<mapsto> GInt64 ident)"

definition db_insert :: "Env \<Rightarrow> string \<Rightarrow> row \<Rightarrow> world \<Rightarrow> world \<times> (string + int)" where
  "db_insert e tab r w =
     (case env_fail e (w_tick w) (InsertStmt tab r) of
        Some err \<Rightarrow> (tick w, Inl err)
      | None \<Rightarrow>
          if list_ex (where_ok e tab [(''reference_id'', row_get r ''reference_id'')]) (w_tables w tab)
          then (tick w, Inl (''UNIQUE constraint failed: '' @ tab @ ''.reference_id''))
          else let ident = w_seq w tab + 1
               in ((tick w)\<lparr>w_tables := (w_tables w)(tab := w_tables w tab @ [new_row e tab ident r]),
                     w_seq := (w_seq w)(tab := ident)\<rparr>, Inr ident))"

text \<open>The results of \<open>UPDATE\<close> and \<open>DELETE\<close> are the numbers of affected rows.\<close>

definition db_update :: "Env \<Rightarrow> string \<Rightarrow> row \<Rightarrow> string \<Rightarrow> world \<Rightarrow> world \<times> (string + int)" where
  "db_update e tab sets refID w =
     (case env_fail e (w_tick w) (UpdateStmt tab sets refID) of
        Some err \<Rightarrow> (tick w, Inl err)
      | None \<Rightarrow>
          ((tick w)\<lparr>w_tables := (w_tables w)(tab :=
              map (\<lambda>r. if where_ok e tab (by_ref refID) r then r ++ stored e tab sets else r) (w_tables w tab))\<rparr>,
           Inr (int (length (filter (where_ok e tab (by_ref refID)) (w_tables w tab))))))"

definition db_delete :: "Env \<Rightarrow> string \<Rightarrow> string \<Rightarrow> world \<Rightarrow> world \<times> (string + int)" where
  "db_delete e tab refID w =
     (case env_fail e (w_tick w) (DeleteStmt tab refID) of
        Some err \<Rightarrow> (tick w, Inl err)
      | None \<Rightarrow>
          ((tick w)\<lparr>w_tables := (w_tables w)(tab :=
              filter (\<lambda>r. \<not> where_ok e tab (by_ref refID) r) (w_tables w tab))\<rparr>,
           Inr (int (length (filter (where_ok e tab (by_ref refID)) (w_tables w tab))))))"

text \<open>Any other text is run by the driver.\<close>

definition db_raw :: "Env \<Rightarrow> string \<Rightarrow> gval list \<Rightarrow> world \<Rightarrow> world \<times> (string + row list)" where
  "db_raw e query args w =
     (case env_raw e (w_tick w) query args (w_tables w) of
        (ts, res) \<Rightarrow> ((tick w)\<lparr>w_tables := ts\<rparr>, res))"

section \<open>The store\<close>

record Store =
  st_schema :: "string \<rightharpoonup> Resource"
  st_encryptionKey :: string

definition NewStore :: "Resource list \<Rightarrow> Store" where
  "NewStore resources = \<lparr>st_schema = foldl (\<lambda>m r. m(rsc_Name r \<mapsto> r)) Map.empty resources,
     st_encryptionKey = []\<rparr>"

definition SetEncryptionKey :: "string \<Rightarrow> Store \<Rightarrow> Store" where
  "SetEncryptionKey key s = s\<lparr>st_encryptionKey := key\<rparr>"

definition Store_Resource :: "Store \<Rightarrow> string \<Rightarrow> Resource option" where
  "Store_Resource s name = st_schema s name"

record Page =
  pg_Limit :: int
  pg_Offset :: int

definition DefaultPage :: Page where
  "DefaultPage = \<lparr>pg_Limit = 100, pg_Offset = 0\<rparr>"

definition Page_Normalize :: "Page \<Rightarrow> Page" where
  "Page_Normalize p =
     (let p = (if pg_Limit p \<le> 0 then p\<lparr>pg_Limit := 100\<rparr> else p);
          p = (if 1000 < pg_Limit p then p\<lparr>pg_Limit := 1000\<rparr> else p)
      in if pg_Offset p < 0 then p\<lparr>pg_Offset := 0\<rparr> else p)"

record Filter =
  flt_Field :: string
  flt_Value :: gval

definition selectColumns :: "Resource \<Rightarrow> string list" where
  "selectColumns res =
     [''id'', ''reference_id''] @ map fld_Name (rsc_Fields res) @ [''created_at'', ''updated_at'']"

subsection \<open>Validation\<close>

definition validate_field :: "Field \<Rightarrow> row \<Rightarrow> string option" where
  "validate_field f data =
     (let v = row_get data (fld_Name f); verr = (\<lambda>msg. Some (''validation error: '' @ fld_Name f @ msg))
      in if fld_Required f \<and> (data (fld_Name f) = None \<or> v = GNil \<or> v = GStr []) then verr '' is required''
         else if data (fld_Name f) = None \<or> v = GNil then None
         else
           let strErr = (case v of
                GStr str \<Rightarrow>
                  (case fld_MinLen f of
                     Some n \<Rightarrow> if int (length str) < n
                               then verr ('' must be at least '' @ fmt_d n @ '' characters'') else None
                   | None \<Rightarrow> None)
                | _ \<Rightarrow> None);
               maxErr = (case v of
                GStr str \<Rightarrow>
                  (case fld_MaxLen f of
                     Some n \<Rightarrow> if n < int (length str)
                               then verr ('' must be at most '' @ fmt_d n @ '' characters'') else None
                   | None \<Rightarrow> None)
                | _ \<Rightarrow> None);
               patErr = (case v of
                GStr str \<Rightarrow> (case fld_Pattern f of
                     Some p \<Rightarrow> if \<not> p str then verr '' has invalid format'' else None
                   | None \<Rightarrow> None)
                | _ \<Rightarrow> None);
               minErr = (case (fld_MinInt f, toInt64 v) of
                     (Some n, Some i) \<Rightarrow> if i < n then verr ('' must be >= '' @ fmt_d n) else None
                   | _ \<Rightarrow> None);
               maxIErr = (case (fld_MaxInt f, toInt64 v) of
                     (Some n, Some i) \<Rightarrow> if n < i then verr ('' must be <= '' @ fmt_d n) else None
                   | _ \<Rightarrow> None)
           in if strErr \<noteq> None then strErr else if maxErr \<noteq> None then maxErr
              else if patErr \<noteq> None then patErr else if minErr \<noteq> None then minErr else maxIErr)"

fun validate_loop :: "Field list \<Rightarrow> row \<Rightarrow> string option" where
  "validate_loop [] data = None"
| "validate_loop (f # fs) data =
     (case validate_field f data of Some err \<Rightarrow> Some err | None \<Rightarrow> validate_loop fs data)"

definition Store_validate :: "Resource \<Rightarrow> row \<Rightarrow> string option" where
  "Store_validate res data = validate_loop (rsc_Fields res) data"

subsection \<open>Decoding\<close>

definition decode_bytes :: "row \<Rightarrow> row" where
  "decode_bytes r = (\<lambda>k. case r k of Some (GBytes b) \<Rightarrow> Some (GStr b) | v \<Rightarrow> v)"

definition decode_bool :: "row \<Rightarrow> Field \<Rightarrow> row" where
  "decode_bool r f =
     (if fld_Type f = TypeBool then
        (case r (fld_Name f) of
           Some (GInt64 i) \<Rightarrow> r(fld_Name f \<mapsto> GBool (i \<noteq> 0))
         | Some (GInt i) \<Rightarrow> r(fld_Name f \<mapsto> GBool (i \<noteq> 0))
         | Some (GFloat x) \<Rightarrow> r(fld_Name f \<mapsto> GBool (\<not> feq x (Fin 0)))
         | _ \<Rightarrow> r)
      else r)"

definition decode_json :: "Env \<Rightarrow> row \<Rightarrow> Field \<Rightarrow> row" where
  "decode_json e r f =
     (if fld_Type f = TypeJSON then
        (case r (fld_Name f) of
           Some (GStr str) \<Rightarrow>
             if str = [] then r
             else (case env_Unmarshal e str of Some parsed \<Rightarrow> r(fld_Name f \<mapsto> parsed) | None \<Rightarrow> r)
         | _ \<Rightarrow> r)
      else r)"

definition RFC3339 :: string where [const_defs]: "RFC3339 = ''2006-01-02T15:04:05Z07:00''"
definition SQLiteTime :: string where [const_defs]: "SQLiteTime = ''2006-01-02 15:04:05''"

definition decode_time :: "Env \<Rightarrow> string \<Rightarrow> row \<Rightarrow> row" where
  "decode_time e name r =
     (case r name of
        Some (GStr str) \<Rightarrow>
          (case env_ParseTime e RFC3339 str of
             Some t \<Rightarrow> r(name \<mapsto> GTime t)
           | None \<Rightarrow> (case env_ParseTime e SQLiteTime str of Some t \<Rightarrow> r(name \<mapsto> GTime t) | None \<Rightarrow> r))
      | _ \<Rightarrow> r)"

definition decode_timestamp :: "Env \<Rightarrow> row \<Rightarrow> Field \<Rightarrow> row" where
  "decode_timestamp e r f =
     (if fld_Type f = TypeTimestamp \<and> r (fld_Name f) \<noteq> Some (GStr []) then decode_time e (fld_Name f) r else r)"

definition decodeRow :: "Env \<Rightarrow> Resource \<Rightarrow> row \<Rightarrow> row" where
  "decodeRow e res r =
     (let r = decode_bytes r;
          r = foldl decode_bool r (rsc_Fields res);
          r = foldl (decode_json e) r (rsc_Fields res);
          r = decode_time e ''updated_at'' (decode_time e ''created_at'' r)
      in foldl (decode_timestamp e) r (rsc_Fields res))"

subsection \<open>Encoding\<close>

definition encrypt_field :: "Env \<Rightarrow> Store \<Rightarrow> nat \<Rightarrow> Field \<Rightarrow> row \<Rightarrow> string + row" where
  "encrypt_field e s t f data =
     (if fld_Encrypted f \<and> row_get data (fld_Name f) \<noteq> GNil \<and> st_encryptionKey s \<noteq> [] then
        let plaintext = strVal (row_get data (fld_Name f))
        in if plaintext \<noteq> [] then
             (case Encrypt (env_seal e) (env_rnd e t) plaintext (st_encryptionKey s) of
                Inl err \<Rightarrow> Inl (''encrypt '' @ fld_Name f @ '': '' @ env_crypto_text e err)
              | Inr encrypted \<Rightarrow> Inr (data(fld_Name f \<mapsto> GBytes encrypted)))
           else Inr data
      else Inr data)"

fun encrypt_loop :: "Env \<Rightarrow> Store \<Rightarrow> nat \<Rightarrow> Field list \<Rightarrow> row \<Rightarrow> string + row" where
  "encrypt_loop e s t [] data = Inr data"
| "encrypt_loop e s t (f # fs) data = bind_err (encrypt_field e s t f data) (encrypt_loop e s t fs)"

definition json_field :: "Env \<Rightarrow> Field \<Rightarrow> row \<Rightarrow> string + row" where
  "json_field e f data =
     (if fld_Type f = TypeJSON then
        (case row_get data (fld_Name f) of
           GNil \<Rightarrow> Inr data
         | GStr _ \<Rightarrow> Inr data
         | GBytes b \<Rightarrow> Inr (data(fld_Name f \<mapsto> GStr b))
         | v \<Rightarrow> (case env_Marshal e v of
                   Inl err \<Rightarrow> Inl (''failed to marshal '' @ fld_Name f @ '': '' @ err)
                 | Inr b \<Rightarrow> Inr (data(fld_Name f \<mapsto> GStr b))))
      else Inr data)"

fun json_loop :: "Env \<Rightarrow> Field list \<Rightarrow> row \<Rightarrow> string + row" where
  "json_loop e [] data = Inr data"
| "json_loop e (f # fs) data = bind_err (json_field e f data) (json_loop e fs)"

subsection \<open>Create, read, update, delete\<close>

definition unknown_resource :: "string \<Rightarrow> string" where
  "unknown_resource resource = ''unknown resource: '' @ resource"

definition apply_defaults :: "Field list \<Rightarrow> row \<Rightarrow> row" where
  "apply_defaults fs data =
     foldl (\<lambda>d f. if d (fld_Name f) = None \<and> fld_DefaultValue f \<noteq> GNil
                  then d(fld_Name f \<mapsto> fld_DefaultValue f) else d) data fs"

definition apply_computed :: "Field list \<Rightarrow> row \<Rightarrow> row" where
  "apply_computed fs data =
     foldl (\<lambda>d f. case fld_Computed f of None \<Rightarrow> d | Some c \<Rightarrow> d(fld_Name f \<mapsto> c d)) data fs"

definition apply_initial :: "Resource \<Rightarrow> row \<Rightarrow> row" where
  "apply_initial res data =
     (case rsc_StateMachine res of
        None \<Rightarrow> data
      | Some sm \<Rightarrow> if data (sm_Field sm) = None then data(sm_Field sm \<mapsto> GStr (sm_Initial sm)) else data)"

text \<open>What \<open>Create\<close> makes of its argument before validation.\<close>

definition prepare_create :: "Env \<Rightarrow> Resource \<Rightarrow> nat \<Rightarrow> row \<Rightarrow> row" where
  "prepare_create e res t data =
     (let refID = (if rsc_RefPrefix res = [] then env_uuid e t else rsc_RefPrefix res @ take 8 (env_uuid e t));
          data = data(''reference_id'' \<mapsto> GStr refID)
      in apply_initial res (apply_computed (rsc_Fields res) (apply_defaults (rsc_Fields res) data)))"

definition insert_columns :: "Resource \<Rightarrow> row \<Rightarrow> string list" where
  "insert_columns res data =
     [''reference_id''] @ filter (\<lambda>c. data c \<noteq> None) (map fld_Name (rsc_Fields res))
     @ [''created_at'', ''updated_at'']"

definition Store_Create :: "Env \<Rightarrow> Store \<Rightarrow> string \<Rightarrow> row \<Rightarrow> world \<Rightarrow> world \<times> (string + row)" where
  "Store_Create e s resource data w =
     (case st_schema s resource of
        None \<Rightarrow> (w, Inl (unknown_resource resource))
      | Some res \<Rightarrow>
          let data = prepare_create e res (w_tick w) data
          in case Store_validate res data of
               Some err \<Rightarrow> (w, Inl err)
             | None \<Rightarrow>
                 let now = GStr (env_now e (w_tick w));
                     data = data(''created_at'' \<mapsto> now, ''updated_at'' \<mapsto> now);
                     cols = insert_columns res data
                 in case bind_err (encrypt_loop e s (w_tick w) (rsc_Fields res) data)
                           (json_loop e (rsc_Fields res)) of
                      Inl err \<Rightarrow> (w, Inl err)
                    | Inr data \<Rightarrow>
                        (case db_insert e resource (\<lambda>c. if c \<in> set cols then data c else None) w of
                           (w, Inl err) \<Rightarrow> (w, Inl (''create '' @ resource @ '': '' @ err))
                         | (w, Inr ident) \<Rightarrow> (w, Inr (data(''id'' \<mapsto> GInt64 ident)))))"

text \<open>One row of a query that is scanned into a map; no row is \<open>sql.ErrNoRows\<close>.\<close>

definition query_row ::
  "Env \<Rightarrow> Resource \<Rightarrow> string \<Rightarrow> (string \<times> gval) list \<Rightarrow> string \<Rightarrow> string \<Rightarrow> world \<Rightarrow>
     world \<times> (string + row)" where
  "query_row e res resource wh missing failed w =
     (case db_select e (selectColumns res) resource wh None w of
        (w, Inl err) \<Rightarrow> (w, Inl (failed @ '': '' @ err))
      | (w, Inr []) \<Rightarrow> (w, Inl (missing @ '': not found''))
      | (w, Inr (r # _)) \<Rightarrow> (w, Inr (decodeRow e res r)))"

definition Store_Get :: "Env \<Rightarrow> Store \<Rightarrow> string \<Rightarrow> string \<Rightarrow> world \<Rightarrow> world \<times> (string + row)" where
  "Store_Get e s resource refID w =
     (case st_schema s resource of
        None \<Rightarrow> (w, Inl (unknown_resource resource))
      | Some res \<Rightarrow> query_row e res resource (by_ref refID) (resource @ '' '' @ refID) (''get '' @ resource) w)"

definition Store_GetByID :: "Env \<Rightarrow> Store \<Rightarrow> string \<Rightarrow> int \<Rightarrow> world \<Rightarrow> world \<times> (string + row)" where
  "Store_GetByID e s resource ident w =
     (case st_schema s resource of
        None \<Rightarrow> (w, Inl (unknown_resource resource))
      | Some res \<Rightarrow> query_row e res resource [(''id'', GInt ident)] (resource @ '' id='' @ fmt_d ident)
                     (''get '' @ resource @ '' by id'') w)"

definition GetRefIDByIntID :: "Env \<Rightarrow> string \<Rightarrow> int \<Rightarrow> world \<Rightarrow> world \<times> (string + string)" where
  "GetRefIDByIntID e resource ident w =
     (case db_select e [''reference_id''] resource [(''id'', GInt ident)] None w of
        (w, Inl err) \<Rightarrow> (w, Inl err)
      | (w, Inr []) \<Rightarrow> (w, Inl ''sql: no rows in result set'')
      | (w, Inr (r # _)) \<Rightarrow> (w, Inr (strVal (row_get r ''reference_id''))))"

fun join_sep :: "string \<Rightarrow> string list \<Rightarrow> string" where
  "join_sep sep [] = []"
| "join_sep sep [x] = x"
| "join_sep sep (x # y # xs) = x @ sep @ join_sep sep (y # xs)"

text \<open>
  \<open>List\<close> puts the field names of its filters into the statement text as they are. When each is
  the name of a selected column the statement is a select; any other text goes to the database
  unchanged.
\<close>

definition list_query :: "Resource \<Rightarrow> string \<Rightarrow> Filter list \<Rightarrow> Page \<Rightarrow> string" where
  "list_query res resource filters page =
     ''SELECT '' @ join_sep '', '' (selectColumns res) @ '' FROM '' @ resource
     @ (if filters = [] then []
        else '' WHERE '' @ join_sep '' AND '' (map (\<lambda>f. flt_Field f @ '' = ?'') filters))
     @ '' ORDER BY id DESC'' @ '' LIMIT '' @ fmt_d (pg_Limit page) @ '' OFFSET '' @ fmt_d (pg_Offset page)"

definition Store_List ::
  "Env \<Rightarrow> Store \<Rightarrow> string \<Rightarrow> Filter list \<Rightarrow> Page \<Rightarrow> world \<Rightarrow> world \<times> (string + row list)" where
  "Store_List e s resource filters page w =
     (case st_schema s resource of
        None \<Rightarrow> (w, Inl (unknown_resource resource))
      | Some res \<Rightarrow>
          let page = Page_Normalize page; cols = selectColumns res;
              result = (if list_all (\<lambda>f. flt_Field f \<in> set cols) filters
                        then db_select e cols resource (map (\<lambda>f. (flt_Field f, flt_Value f)) filters)
                               (Some (pg_Limit page, pg_Offset page)) w
                        else db_raw e (list_query res resource filters page) (map flt_Value filters) w)
          in case result of
               (w, Inl err) \<Rightarrow> (w, Inl (''list '' @ resource @ '': '' @ err))
             | (w, Inr rows) \<Rightarrow> (w, Inr (map (decodeRow e res) rows)))"

definition Store_Update ::
  "Env \<Rightarrow> Store \<Rightarrow> string \<Rightarrow> string \<Rightarrow> row \<Rightarrow> world \<Rightarrow> world \<times> (string + row)" where
  "Store_Update e s resource refID data w =
     (case st_schema s resource of
        None \<Rightarrow> (w, Inl (unknown_resource resource))
      | Some res \<Rightarrow>
          let data = data(''reference_id'' := None, ''id'' := None, ''created_at'' := None);
              data = data(''updated_at'' \<mapsto> GStr (env_now e (w_tick w)))
          in case json_loop e (rsc_Fields res) data of
               Inl err \<Rightarrow> (w, Inl err)
             | Inr data \<Rightarrow>
                 (case db_update e resource data refID w of
                    (w, Inl err) \<Rightarrow> (w, Inl (''update '' @ resource @ '': '' @ err))
                  | (w, Inr affected) \<Rightarrow>
                      if affected = 0 then (w, Inl (resource @ '' '' @ refID @ '': not found''))
                      else Store_Get e s resource refID w))"

definition Store_Delete :: "Env \<Rightarrow> Store \<Rightarrow> string \<Rightarrow> string \<Rightarrow> world \<Rightarrow> world \<times> string option" where
  "Store_Delete e s resource refID w =
     (case st_schema s resource of
        None \<Rightarrow> (w, Some (unknown_resource resource))
      | Some res \<Rightarrow>
          (case db_delete e resource refID w of
             (w, Inl err) \<Rightarrow> (w, Some (''delete '' @ resource @ '': '' @ err))
           | (w, Inr affected) \<Rightarrow>
               if affected = 0 then (w, Some (resource @ '' '' @ refID @ '': not found'')) else (w, None)))"

subsection \<open>Transitions\<close>

definition arrow :: string where "arrow = [CHR 0xE2, CHR 0x86, CHR 0x92]"

definition Store_Transition ::
  "Env \<Rightarrow> Store \<Rightarrow> string \<Rightarrow> string \<Rightarrow> string \<Rightarrow> world \<Rightarrow> world \<times> (string + row \<times> string)" where
  "Store_Transition e s resource refID toState w =
     (case st_schema s resource of
        None \<Rightarrow> (w, Inl (unknown_resource resource))
      | Some res \<Rightarrow>
          (case rsc_StateMachine res of
             None \<Rightarrow> (w, Inl (''resource '' @ resource @ '' has no state machine''))
           | Some sm \<Rightarrow>
               (case Store_Get e s resource refID w of
                  (w, Inl err) \<Rightarrow> (w, Inl err)
                | (w, Inr row) \<Rightarrow>
                    let fromState = strVal (row_get row (sm_Field sm))
                    in if \<not> CanTransition sm fromState toState
                       then (w, Inl (''invalid state transition: '' @ fromState @ '' '' @ arrow @ '' '' @ toState))
                       else case (case sm_Guards sm toState of None \<Rightarrow> None | Some guard \<Rightarrow> guard row) of
                              Some err \<Rightarrow> (w, Inl (''transition guard failed: '' @ err))
                            | None \<Rightarrow>
                                (case Store_Update e s resource refID [sm_Field sm \<mapsto> GStr toState] w of
                                   (w, Inl err) \<Rightarrow> (w, Inl err)
                                 | (w, Inr updated) \<Rightarrow>
                                     (w, Inr (updated, case sm_OnEnter sm toState of None \<Rightarrow> [] | Some c \<Rightarrow> c))))))"

section \<open>Reading a row back\<close>

text \<open>The row a \<open>reference_id\<close> denotes, and the contract of a text column.\<close>

definition find_row :: "Env \<Rightarrow> string \<Rightarrow> string \<Rightarrow> world \<Rightarrow> row option" where
  "find_row e tab refID w = find (where_ok e tab (by_ref refID)) (w_tables w tab)"

definition text_conv :: "Env \<Rightarrow> string \<Rightarrow> string \<Rightarrow> bool" where
  "text_conv e tab c \<longleftrightarrow> (\<forall>s. env_conv e tab c (GStr s) = GStr s \<or> env_conv e tab c (GStr s) = GBytes s)"

lemma tick_simps [simp]:
  "w_tables (tick w) = w_tables w" "w_seq (tick w) = w_seq w" "w_calls (tick w) = w_calls w"
  "w_jobs (tick w) = w_jobs w"
  "w_tick (tick w) = Suc (w_tick w)"
  by (simp_all add: tick_def)

lemma find_row_tick [simp]: "find_row e tab refID (tick w) = find_row e tab refID w"
  by (simp add: find_row_def)

lemma text_conv_strVal [simp]: "text_conv e tab c \<Longrightarrow> strVal (env_conv e tab c (GStr s)) = s"
  unfolding text_conv_def by (elim allE [where x = s]) (auto simp: strVal_def)

lemma text_conv_inj:
  "text_conv e tab c \<Longrightarrow> env_conv e tab c (GStr a) = env_conv e tab c (GStr b) \<longleftrightarrow> a = b"
  using text_conv_strVal by metis

lemma text_conv_not_nil: "text_conv e tab c \<Longrightarrow> env_conv e tab c (GStr s) \<noteq> GNil"
  unfolding text_conv_def by (elim allE [where x = s]) auto

lemma find_map_keep: "(\<And>x. P (f x) = P x) \<Longrightarrow> find P (map f xs) = map_option f (find P xs)"
  by (induction xs) auto

lemma find_map_other: "(\<And>x. P (f x) = P x) \<Longrightarrow> (\<And>x. P x \<Longrightarrow> f x = x) \<Longrightarrow> find P (map f xs) = find P xs"
  by (induction xs) auto

lemma row_get_upd [simp]:
  "row_get (r(c \<mapsto> v)) c' = (if c' = c then v else row_get r c')"
  "row_get (r(c := None)) c' = (if c' = c then GNil else row_get r c')"
  by (simp_all add: row_get_def)

lemma row_get_project: "row_get (project cols r) c = (if c \<in> set cols then row_get r c else GNil)"
  by (simp add: project_def row_get_def)

lemma row_get_add: "row_get (r ++ m) c = (case m c of None \<Rightarrow> row_get r c | Some v \<Rightarrow> v)"
  by (simp add: row_get_def map_add_def split: option.splits)

lemma stored_simps [simp]:
  "stored e tab (m(c \<mapsto> v)) = (stored e tab m)(c \<mapsto> env_conv e tab c v)"
  "stored e tab (m(c := None)) = (stored e tab m)(c := None)"
  "stored e tab Map.empty = Map.empty"
  by (auto simp: stored_def)

lemma stored_None [simp]: "stored e tab m c = None \<longleftrightarrow> m c = None"
  by (simp add: stored_def split: option.splits)

subsection \<open>Decoding leaves plain columns alone\<close>

definition plain_col :: "Resource \<Rightarrow> string \<Rightarrow> bool" where
  "plain_col res c \<longleftrightarrow> c \<notin> {''created_at'', ''updated_at''}
     \<and> list_all (\<lambda>f. fld_Name f = c \<longrightarrow> fld_Type f \<notin> {TypeBool, TypeJSON, TypeTimestamp}) (rsc_Fields res)"

lemma foldl_keep: "(\<And>r f. f \<in> set fs \<Longrightarrow> g r f c = r c) \<Longrightarrow> (foldl g r fs) c = r c"
  by (induction fs arbitrary: r) auto

lemma decode_time_other: "c \<noteq> name \<Longrightarrow> decode_time e name r c = r c"
  by (auto simp: decode_time_def split: option.splits gval.splits)

lemma decodeRow_plain:
  assumes "plain_col res c"
  shows "decodeRow e res r c = decode_bytes r c"
proof -
  have t: "f \<in> set (rsc_Fields res) \<Longrightarrow> fld_Name f = c \<Longrightarrow>
      fld_Type f \<noteq> TypeBool \<and> fld_Type f \<noteq> TypeJSON \<and> fld_Type f \<noteq> TypeTimestamp" for f
    using assms by (auto simp: plain_col_def list_all_iff)
  have b: "foldl decode_bool r' (rsc_Fields res) c = r' c" for r'
    by (rule foldl_keep) (auto simp: decode_bool_def dest: t split: option.splits gval.splits)
  have j: "foldl (decode_json e) r' (rsc_Fields res) c = r' c" for r'
    by (rule foldl_keep) (auto simp: decode_json_def dest: t split: option.splits gval.splits)
  have ts: "foldl (decode_timestamp e) r' (rsc_Fields res) c = r' c" for r'
  proof (rule foldl_keep)
    fix r' f assume "f \<in> set (rsc_Fields res)"
    then show "decode_timestamp e r' f c = r' c"
      using t [of f] decode_time_other [of c "fld_Name f"] by (auto simp: decode_timestamp_def)
  qed
  show ?thesis
    using assms by (simp add: decodeRow_def Let_def ts j b decode_time_other plain_col_def)
qed

lemma strVal_decode_bytes: "strVal (row_get (decode_bytes r) c) = strVal (row_get r c)"
  by (auto simp: decode_bytes_def row_get_def strVal_def split: option.splits gval.splits)

lemma strVal_decodeRow:
  assumes "plain_col res c" and "c \<in> set cols"
  shows "strVal (row_get (decodeRow e res (project cols r)) c) = strVal (row_get r c)"
proof -
  have "row_get (decodeRow e res (project cols r)) c = row_get (decode_bytes (project cols r)) c"
    by (simp add: row_get_def decodeRow_plain [OF assms(1)])
  then show ?thesis using assms(2) by (simp add: strVal_decode_bytes row_get_project)
qed

section \<open>Updates and transitions seen by reference\<close>

lemma by_ref_iff:
  "text_conv e tab ''reference_id'' \<Longrightarrow>
     where_ok e tab (by_ref refID) r \<longleftrightarrow>
       row_get r ''reference_id'' = env_conv e tab ''reference_id'' (GStr refID)"
  using text_conv_not_nil [of e tab "''reference_id''" refID]
  by (auto simp: where_ok_def by_ref_def sql_eq_def)

lemma find_row_where: "find_row e tab refID w = Some r \<Longrightarrow> where_ok e tab (by_ref refID) r"
  by (auto simp: find_row_def find_Some_iff)

lemma find_row_update:
  fixes w :: world and refID :: string
  assumes tc: "text_conv e tab ''reference_id''" and sets: "sets ''reference_id'' = None"
  defines "ts \<equiv> map (\<lambda>r. if where_ok e tab (by_ref refID) r then r ++ stored e tab sets else r) (w_tables w tab)"
  shows "find (where_ok e tab (by_ref ref')) ts =
    (if ref' = refID then map_option (\<lambda>r. r ++ stored e tab sets) (find_row e tab ref' w)
     else find_row e tab ref' w)"
proof -
  let ?f = "\<lambda>r. if where_ok e tab (by_ref refID) r then r ++ stored e tab sets else r"
  have keep: "where_ok e tab (by_ref ref'') (?f r) = where_ok e tab (by_ref ref'') r" for ref'' r
    by (simp add: by_ref_iff [OF tc] row_get_add stored_def sets)
  show ?thesis
  proof (cases "ref' = refID")
    case True
    have "find (where_ok e tab (by_ref refID)) ts = map_option ?f (find_row e tab refID w)"
      unfolding ts_def find_row_def by (rule find_map_keep) (rule keep)
    also have "\<dots> = map_option (\<lambda>r. r ++ stored e tab sets) (find_row e tab refID w)"
      by (cases "find_row e tab refID w") (auto dest: find_row_where)
    finally show ?thesis using True by simp
  next
    case False
    then have "where_ok e tab (by_ref ref') r \<Longrightarrow> ?f r = r" for r
      by (auto simp: by_ref_iff [OF tc] text_conv_inj [OF tc])
    then have "find (where_ok e tab (by_ref ref')) ts = find_row e tab ref' w"
      unfolding ts_def find_row_def using keep by (intro find_map_other) auto
    then show ?thesis using False by simp
  qed
qed

text \<open>Reading changes no table and returns the decoded row that the reference denotes.\<close>

lemma Store_Get_tables: "Store_Get e s resource refID w = (w', out) \<Longrightarrow> w_tables w' = w_tables w \<and> w_calls w' = w_calls w \<and> w_seq w' = w_seq w
     \<and> w_jobs w' = w_jobs w"
  by (auto simp: Store_Get_def query_row_def db_select_def split: option.splits list.splits sum.splits prod.splits)

lemma find_filter: "find P xs = (case filter P xs of [] \<Rightarrow> None | x # _ \<Rightarrow> Some x)"
  by (induction xs) auto

lemma query_row_result:
  "query_row e res resource wh missing failed w =
     (tick w,
      case env_fail e (w_tick w) (SelectStmt (selectColumns res) resource wh None) of
        Some err \<Rightarrow> Inl (failed @ '': '' @ err)
      | None \<Rightarrow> (case find (where_ok e resource wh) (w_tables w resource) of
            None \<Rightarrow> Inl (missing @ '': not found'')
          | Some r \<Rightarrow> Inr (decodeRow e res (project (selectColumns res) r))))"
  by (auto simp: query_row_def db_select_def paginate_def find_filter split: option.splits list.splits)

lemma Store_Get_Inr:
  assumes "Store_Get e s resource refID w = (w', Inr row)"
  obtains res r where "st_schema s resource = Some res" and "find_row e resource refID w = Some r"
    and "row = decodeRow e res (project (selectColumns res) r)"
  using assms
  by (auto simp: Store_Get_def query_row_result find_row_def split: option.splits)

lemma json_loop_other:
  "json_loop e fs data = Inr data' \<Longrightarrow> list_all (\<lambda>f. fld_Name f = c \<longrightarrow> fld_Type f \<noteq> TypeJSON) fs \<Longrightarrow>
     data' c = data c"
  by (induction fs arbitrary: data)
    (force simp: json_field_def bind_err_Inr split: if_splits gval.splits sum.splits)+

text \<open>What an update writes: the given columns as stored, without the protected ones.\<close>

definition clean_update :: "Env \<Rightarrow> nat \<Rightarrow> row \<Rightarrow> row" where
  "clean_update e t data =
     (data(''reference_id'' := None, ''id'' := None, ''created_at'' := None))(''updated_at'' \<mapsto> GStr (env_now e t))"

lemma Store_Update_cases:
  assumes "Store_Update e s tab refID data w = (w', out)" and tc: "text_conv e tab ''reference_id''"
  obtains (same) err where "out = Inl err" "w_tables w' = w_tables w" "w_seq w' = w_seq w" "w_calls w' = w_calls w"
  | (written) res data' w1 r where "st_schema s tab = Some res"
      "json_loop e (rsc_Fields res) (clean_update e (w_tick w) data) = Inr data'"
      "find_row e tab refID w = Some r"
      "w_tables w' = (w_tables w)(tab := map (\<lambda>r. if where_ok e tab (by_ref refID) r
          then r ++ stored e tab data' else r) (w_tables w tab))"
      "w_seq w' = w_seq w" "w_calls w' = w_calls w" "w_tables w1 = w_tables w'"
      "Store_Get e s tab refID w1 = (w', out)"
proof (cases "st_schema s tab")
  case None
  then show ?thesis using assms(1) by (intro same) (auto simp: Store_Update_def)
next
  case (Some res)
  note sch = this
  show ?thesis
  proof (cases "json_loop e (rsc_Fields res) (clean_update e (w_tick w) data)")
    case (Inl err)
    then show ?thesis using assms(1) sch by (intro same [of err]) (auto simp: Store_Update_def clean_update_def)
  next
    case (Inr data')
    have eq: "Store_Update e s tab refID data w =
        (case db_update e tab data' refID w of
           (w, Inl err) \<Rightarrow> (w, Inl (''update '' @ tab @ '': '' @ err))
         | (w, Inr affected) \<Rightarrow>
             if affected = 0 then (w, Inl (tab @ '' '' @ refID @ '': not found''))
             else Store_Get e s tab refID w)"
      using sch Inr by (auto simp: Store_Update_def clean_update_def split: prod.splits sum.splits)
    show ?thesis
    proof (cases "env_fail e (w_tick w) (UpdateStmt tab data' refID) = None
        \<and> filter (where_ok e tab (by_ref refID)) (w_tables w tab) \<noteq> []")
      case False
      then consider err where "env_fail e (w_tick w) (UpdateStmt tab data' refID) = Some err"
        | "env_fail e (w_tick w) (UpdateStmt tab data' refID) = None"
          "\<forall>r \<in> set (w_tables w tab). \<not> where_ok e tab (by_ref refID) r"
        by (auto simp: filter_empty_conv)
      then show ?thesis
      proof cases
        case 1
        then show ?thesis using assms(1) eq by (intro same) (auto simp: db_update_def)
      next
        case 2
        then have "map (\<lambda>r. if where_ok e tab (by_ref refID) r then r ++ stored e tab data' else r)
            (w_tables w tab) = w_tables w tab" by (intro map_idI) auto
        moreover from 2 have "filter (where_ok e tab (by_ref refID)) (w_tables w tab) = []"
          by (simp add: filter_empty_conv)
        ultimately show ?thesis using assms(1) eq 2 by (intro same) (auto simp: db_update_def)
      qed
    next
      case True
      then obtain r where "find_row e tab refID w = Some r"
        by (cases "filter (where_ok e tab (by_ref refID)) (w_tables w tab)") (auto simp: find_row_def find_filter)
      moreover from True have "length (filter (where_ok e tab (by_ref refID)) (w_tables w tab)) \<noteq> 0" by simp
      ultimately show ?thesis
        using assms(1) eq True Store_Get_tables [of e s tab refID _ w' out]
        by (intro written [OF sch Inr]) (auto simp: db_update_def)
    qed
  qed
qed

subsection \<open>Transitions\<close>

definition std_cols :: "string list" where
  "std_cols = [''id'', ''reference_id'', ''created_at'', ''updated_at'']"

text \<open>
  What the transition code relies on: the state column is a text column of the resource, the
  fields do not shadow the standard columns, and text comes back as it was stored.
\<close>

definition machine_col :: "Env \<Rightarrow> string \<Rightarrow> Resource \<Rightarrow> StateMachine \<Rightarrow> bool" where
  "machine_col e tab res sm \<longleftrightarrow> rsc_StateMachine res = Some sm \<and> plain_col res (sm_Field sm)
     \<and> sm_Field sm \<in> set (selectColumns res) \<and> sm_Field sm \<notin> set std_cols
     \<and> list_all (\<lambda>f. fld_Name f \<notin> set std_cols) (rsc_Fields res)
     \<and> text_conv e tab (sm_Field sm) \<and> text_conv e tab ''reference_id''"

definition col_state :: "StateMachine \<Rightarrow> row \<Rightarrow> string" where
  "col_state sm r = strVal (row_get r (sm_Field sm))"

definition guard_ok :: "StateMachine \<Rightarrow> string \<Rightarrow> row \<Rightarrow> bool" where
  "guard_ok sm to row \<longleftrightarrow> (case sm_Guards sm to of None \<Rightarrow> True | Some guard \<Rightarrow> guard row = None)"

definition moved_row :: "Env \<Rightarrow> string \<Rightarrow> nat \<Rightarrow> StateMachine \<Rightarrow> string \<Rightarrow> row \<Rightarrow> row" where
  "moved_row e tab t sm to r =
     r ++ stored e tab [sm_Field sm \<mapsto> GStr to, ''updated_at'' \<mapsto> GStr (env_now e t)]"

lemma json_loop_absent:
  "(\<And>f. f \<in> set fs \<Longrightarrow> fld_Type f = TypeJSON \<Longrightarrow> row_get data (fld_Name f) = GNil) \<Longrightarrow>
     json_loop e fs data = Inr data"
  by (induction fs) (auto simp: json_field_def)

lemma transition_data:
  assumes "machine_col e tab res sm"
  shows "json_loop e (rsc_Fields res) (clean_update e t [sm_Field sm \<mapsto> GStr to])
    = Inr [sm_Field sm \<mapsto> GStr to, ''updated_at'' \<mapsto> GStr (env_now e t)]"
proof -
  let ?d = "[sm_Field sm \<mapsto> GStr to, ''updated_at'' \<mapsto> GStr (env_now e t)]"
  have c: "clean_update e t [sm_Field sm \<mapsto> GStr to] = ?d"
    using assms by (auto simp: clean_update_def machine_col_def std_cols_def fun_eq_iff)
  have "row_get ?d (fld_Name f) = GNil" if "f \<in> set (rsc_Fields res)" "fld_Type f = TypeJSON" for f
    using assms that by (auto simp: machine_col_def plain_col_def list_all_iff std_cols_def row_get_def)
  then show ?thesis unfolding c by (rule json_loop_absent)
qed

lemma col_state_moved:
  "machine_col e tab res sm \<Longrightarrow> col_state sm (moved_row e tab t sm to r) = to"
  by (auto simp: col_state_def moved_row_def row_get_add machine_col_def std_cols_def)

lemma Store_Transition_cases:
  assumes tr: "Store_Transition e s tab refID to w = (w', out)"
    and sch: "st_schema s tab = Some res" and mc: "machine_col e tab res sm"
  obtains (same) err where "out = Inl err" "w_tables w' = w_tables w" "w_seq w' = w_seq w"
      "w_calls w' = w_calls w"
  | (moved) r t where "find_row e tab refID w = Some r" "CanTransition sm (col_state sm r) to"
      "guard_ok sm to (decodeRow e res (project (selectColumns res) r))"
      "w_tables w' = (w_tables w)(tab := map (\<lambda>r. if where_ok e tab (by_ref refID) r
          then moved_row e tab t sm to r else r) (w_tables w tab))"
      "w_seq w' = w_seq w" "w_calls w' = w_calls w"
      "\<And>row cmd. out = Inr (row, cmd) \<Longrightarrow>
         cmd = (case sm_OnEnter sm to of None \<Rightarrow> [] | Some c \<Rightarrow> c)
         \<and> row = decodeRow e res (project (selectColumns res) (moved_row e tab t sm to r))"
proof -
  have sm: "rsc_StateMachine res = Some sm" and tc: "text_conv e tab ''reference_id''"
    and pl: "plain_col res (sm_Field sm)" "sm_Field sm \<in> set (selectColumns res)"
    using mc by (auto simp: machine_col_def)
  obtain w1 g where g: "Store_Get e s tab refID w = (w1, g)" by (cases "Store_Get e s tab refID w")
  note gt = Store_Get_tables [OF g]
  show ?thesis
  proof (cases g)
    case (Inl err)
    then show ?thesis using tr sch sm g gt by (intro same [of err]) (auto simp: Store_Transition_def)
  next
    case (Inr row)
    from g Inr obtain r where r: "find_row e tab refID w = Some r"
      and row: "row = decodeRow e res (project (selectColumns res) r)"
      using sch by (auto elim: Store_Get_Inr)
    have st: "strVal (row_get row (sm_Field sm)) = col_state sm r"
      unfolding row col_state_def by (rule strVal_decodeRow [OF pl])
    show ?thesis
    proof (cases "CanTransition sm (col_state sm r) to \<and> guard_ok sm to row")
      case False
      then obtain err where "out = Inl err" "w' = w1"
        using tr sch sm g Inr st
        by (auto simp: Store_Transition_def guard_ok_def Let_def split: if_splits option.splits)
      then show ?thesis using gt by (intro same) auto
    next
      case True
      obtain w2 u where u: "Store_Update e s tab refID [sm_Field sm \<mapsto> GStr to] w1 = (w2, u)"
        by (cases "Store_Update e s tab refID [sm_Field sm \<mapsto> GStr to] w1")
      have out: "(w', out) = (case u of Inl err \<Rightarrow> (w2, Inl err)
          | Inr updated \<Rightarrow> (w2, Inr (updated, case sm_OnEnter sm to of None \<Rightarrow> [] | Some c \<Rightarrow> c)))"
        using tr sch sm g Inr st True u
        by (auto simp: Store_Transition_def guard_ok_def split: option.splits sum.splits)
      from u tc show ?thesis
      proof (cases rule: Store_Update_cases)
        case (same err)
        then show ?thesis using out gt by (intro that(1) [of err]) auto
      next
        case (written res' data' w3 r')
        have d: "data' = [sm_Field sm \<mapsto> GStr to, ''updated_at'' \<mapsto> GStr (env_now e (w_tick w1))]"
          using written(1,2) sch transition_data [OF mc] by simp
        have mv: "r ++ stored e tab data' = moved_row e tab (w_tick w1) sm to r" for r
          by (simp add: d moved_row_def)
        have none: "data' ''reference_id'' = None"
          using mc by (auto simp: d machine_col_def std_cols_def)
        have find1: "find_row e tab refID w1 = Some r" using r gt by (simp add: find_row_def)
        have find3: "find_row e tab refID w3 = Some (moved_row e tab (w_tick w1) sm to r)"
          using find_row_update [where sets = data' and refID = refID and w = w1 and ref' = refID, OF tc none]
            find1 written(4,7)
          by (simp add: find_row_def mv)
        have "updated = decodeRow e res (project (selectColumns res) (moved_row e tab (w_tick w1) sm to r))"
          if "u = Inr updated" for updated
          using written(8) that find3 sch by (auto elim: Store_Get_Inr)
        then show ?thesis
          using out gt written(4,5,6) r row True
          by (intro moved [of r "w_tick w1"]) (auto simp: mv split: sum.splits)
      qed
    qed
  qed
qed

lemma find_row_moved:
  assumes mc: "machine_col e tab res sm"
    and t: "w_tables w' = (w_tables w)(tab := map (\<lambda>r. if where_ok e tab (by_ref refID) r
          then moved_row e tab t sm to r else r) (w_tables w tab))"
  shows "find_row e tab ref' w' =
    (if ref' = refID then map_option (moved_row e tab t sm to) (find_row e tab ref' w)
     else find_row e tab ref' w)"
proof -
  let ?sets = "[sm_Field sm \<mapsto> GStr to, ''updated_at'' \<mapsto> GStr (env_now e t)]"
  have tc: "text_conv e tab ''reference_id''" and n: "?sets ''reference_id'' = None"
    using mc by (auto simp: machine_col_def std_cols_def)
  show ?thesis
    using find_row_update [where sets = ?sets and refID = refID and w = w and ref' = ref', OF tc n,
        folded moved_row_def] t
    by (simp add: find_row_def)
qed

lemma Store_Transition_succeeds:
  assumes sch: "st_schema s tab = Some res" and mc: "machine_col e tab res sm"
    and r: "find_row e tab refID w = Some r" "CanTransition sm (col_state sm r) to"
      "guard_ok sm to (decodeRow e res (project (selectColumns res) r))"
    and nofail: "\<And>t st. env_fail e t st = None"
  shows "\<exists>row cmd. snd (Store_Transition e s tab refID to w) = Inr (row, cmd)"
proof -
  let ?row = "decodeRow e res (project (selectColumns res) r)"
  have sm: "rsc_StateMachine res = Some sm" and tc: "text_conv e tab ''reference_id''"
    and pl: "plain_col res (sm_Field sm)" "sm_Field sm \<in> set (selectColumns res)"
    using mc by (auto simp: machine_col_def)
  have g: "Store_Get e s tab refID w = (tick w, Inr ?row)"
    using sch nofail r(1) by (simp add: Store_Get_def query_row_result find_row_def)
  have st: "strVal (row_get ?row (sm_Field sm)) = col_state sm r"
    unfolding col_state_def by (rule strVal_decodeRow [OF pl])
  let ?d = "[sm_Field sm \<mapsto> GStr to, ''updated_at'' \<mapsto> GStr (env_now e (Suc (w_tick w)))]"
  have js: "json_loop e (rsc_Fields res) (clean_update e (Suc (w_tick w)) [sm_Field sm \<mapsto> GStr to]) = Inr ?d"
    by (rule transition_data [OF mc])
  have "\<exists>r' \<in> set (w_tables w tab). where_ok e tab (by_ref refID) r'"
    using r(1) by (auto simp: find_row_def find_Some_iff)
  then have ne: "filter (where_ok e tab (by_ref refID)) (w_tables w tab) \<noteq> []"
    by (auto simp: filter_empty_conv)
  have n: "?d ''reference_id'' = None" using mc by (auto simp: machine_col_def std_cols_def)
  have "find (where_ok e tab (by_ref refID)) (map (\<lambda>r. if where_ok e tab (by_ref refID) r
      then r ++ stored e tab ?d else r) (w_tables w tab)) = Some (r ++ stored e tab ?d)"
    using find_row_update [where sets = ?d and refID = refID and ref' = refID and w = w, OF tc n] r(1) by simp
  then have "\<exists>u. snd (Store_Update e s tab refID [sm_Field sm \<mapsto> GStr to] (tick w)) = Inr u"
    using sch js ne nofail
    by (simp add: Store_Update_def clean_update_def db_update_def Store_Get_def query_row_result)
  then obtain u where "snd (Store_Update e s tab refID [sm_Field sm \<mapsto> GStr to] (tick w)) = Inr u" by blast
  then show ?thesis
    using sch sm g st r(2,3)
    by (auto simp: Store_Transition_def guard_ok_def split: option.splits prod.splits)
qed

text \<open>
  C6: \<open>Store.Transition\<close> enforces the state machine of its resource for every outcome of the
  database. Only the row it names can change, and then only by a move that the table allows
  and whose guard accepts the row as read, to a row that has the new state. A reported success
  means that the move was made, returns the row in the new state and the command of that
  state; a refused move (missing row, forbidden transition or failed guard) is an error and
  changes nothing. When no statement fails, every move that is not refused succeeds.
\<close>

theorem Store_Transition_sound:
  assumes tr: "Store_Transition e s tab refID to w = (w', out)"
    and sch: "st_schema s tab = Some res" and mc: "machine_col e tab res sm"
  shows "(\<forall>tab' ref'. (tab', ref') \<noteq> (tab, refID) \<longrightarrow> find_row e tab' ref' w' = find_row e tab' ref' w)
    \<and> (find_row e tab refID w' = find_row e tab refID w
       \<or> (\<exists>r t. find_row e tab refID w = Some r \<and> CanTransition sm (col_state sm r) to
            \<and> guard_ok sm to (decodeRow e res (project (selectColumns res) r))
            \<and> find_row e tab refID w' = Some (moved_row e tab t sm to r)
            \<and> col_state sm (moved_row e tab t sm to r) = to))
    \<and> (\<forall>row cmd. out = Inr (row, cmd) \<longrightarrow> strVal (row_get row (sm_Field sm)) = to
         \<and> cmd = (case sm_OnEnter sm to of None \<Rightarrow> [] | Some c \<Rightarrow> c)
         \<and> map_option (col_state sm) (find_row e tab refID w') = Some to)
    \<and> ((\<forall>r. find_row e tab refID w = Some r \<longrightarrow> \<not> (CanTransition sm (col_state sm r) to
            \<and> guard_ok sm to (decodeRow e res (project (selectColumns res) r))))
         \<longrightarrow> (\<exists>err. out = Inl err) \<and> w_tables w' = w_tables w)
    \<and> ((\<forall>t st. env_fail e t st = None) \<and> (\<exists>r. find_row e tab refID w = Some r
            \<and> CanTransition sm (col_state sm r) to
            \<and> guard_ok sm to (decodeRow e res (project (selectColumns res) r)))
         \<longrightarrow> (\<exists>row cmd. out = Inr (row, cmd)))"
proof -
  have succ: "\<exists>row cmd. out = Inr (row, cmd)"
    if "\<forall>t st. env_fail e t st = None" "find_row e tab refID w = Some r" "CanTransition sm (col_state sm r) to"
      "guard_ok sm to (decodeRow e res (project (selectColumns res) r))" for r
    using Store_Transition_succeeds [OF sch mc that(2,3,4)] that(1) tr by auto
  from tr sch mc show ?thesis
  proof (cases rule: Store_Transition_cases)
    case (same err)
    then show ?thesis using succ by (auto simp: find_row_def)
  next
    case (moved r t)
    note fr = find_row_moved [OF mc moved(4)]
    have pl: "plain_col res (sm_Field sm)" "sm_Field sm \<in> set (selectColumns res)"
      using mc by (auto simp: machine_col_def)
    have st: "strVal (row_get (decodeRow e res (project (selectColumns res) (moved_row e tab t sm to r))) (sm_Field sm))
        = to"
      using strVal_decodeRow [OF pl] col_state_moved [OF mc] by (simp add: col_state_def)
    have other: "find_row e tab' ref' w' = find_row e tab' ref' w" if "(tab', ref') \<noteq> (tab, refID)" for tab' ref'
      using that fr [of ref'] moved(4) by (cases "tab' = tab") (auto simp: find_row_def)
    show ?thesis
      using moved(1,2,3,7) fr [of refID] st other col_state_moved [OF mc, of t to r] succ by auto
  qed
qed

section \<open>Creating a row\<close>

lemma encrypt_field_Inr:
  assumes "encrypt_field e s t f data = Inr data'"
  shows "dom data' = dom data \<and> (\<forall>c. c \<noteq> fld_Name f \<longrightarrow> data' c = data c)
    \<and> (\<not> fld_Encrypted f \<longrightarrow> data' = data)
    \<and> (fld_Encrypted f \<and> st_encryptionKey s \<noteq> [] \<and> strVal (row_get data (fld_Name f)) \<noteq> [] \<longrightarrow>
         (\<exists>c. Encrypt (env_seal e) (env_rnd e t) (strVal (row_get data (fld_Name f))) (st_encryptionKey s) = Inr c
            \<and> data' (fld_Name f) = Some (GBytes c)))"
proof -
  have n: "row_get data (fld_Name f) \<noteq> GNil \<Longrightarrow> fld_Name f \<in> dom data"
    by (auto simp: row_get_def split: option.splits)
  show ?thesis
    using assms n
    by (cases "row_get data (fld_Name f) = GNil")
      (auto simp: encrypt_field_def Let_def strVal_def split: if_splits sum.splits)
qed

lemma encrypt_loop_Inr:
  assumes "encrypt_loop e s t fs data = Inr data'" and "distinct (map fld_Name fs)"
  shows "dom data' = dom data \<and> (\<forall>c. c \<notin> fld_Name ` set fs \<longrightarrow> data' c = data c)
    \<and> (\<forall>f \<in> set fs. fld_Encrypted f \<and> st_encryptionKey s \<noteq> [] \<and> strVal (row_get data (fld_Name f)) \<noteq> [] \<longrightarrow>
         (\<exists>c. Encrypt (env_seal e) (env_rnd e t) (strVal (row_get data (fld_Name f))) (st_encryptionKey s) = Inr c
            \<and> data' (fld_Name f) = Some (GBytes c)))"
  using assms
proof (induction fs arbitrary: data)
  case (Cons f fs)
  then obtain d where d: "encrypt_field e s t f data = Inr d" "encrypt_loop e s t fs d = Inr data'"
    by (auto simp: bind_err_Inr)
  note f = encrypt_field_Inr [OF d(1)]
  have IH: "dom data' = dom d" "\<And>c. c \<notin> fld_Name ` set fs \<Longrightarrow> data' c = d c"
    "\<And>f. f \<in> set fs \<Longrightarrow> fld_Encrypted f \<Longrightarrow> st_encryptionKey s \<noteq> [] \<Longrightarrow> strVal (row_get d (fld_Name f)) \<noteq> [] \<Longrightarrow>
       \<exists>c. Encrypt (env_seal e) (env_rnd e t) (strVal (row_get d (fld_Name f))) (st_encryptionKey s) = Inr c
          \<and> data' (fld_Name f) = Some (GBytes c)"
    using Cons.IH [OF d(2)] Cons.prems(2) by auto
  have nf: "fld_Name f \<notin> fld_Name ` set fs" using Cons.prems(2) by simp
  have g: "row_get d (fld_Name f') = row_get data (fld_Name f')" if "f' \<in> set fs" for f'
    using f that nf by (metis (mono_tags, lifting) image_eqI row_get_def)
  show ?case using f IH nf g by auto
qed simp

lemma json_field_Inr:
  "json_field e f data = Inr data' \<Longrightarrow> dom data' = dom data \<and> (\<forall>c. c \<noteq> fld_Name f \<longrightarrow> data' c = data c)
     \<and> (fld_Type f \<noteq> TypeJSON \<longrightarrow> data' = data)"
  by (auto simp: json_field_def row_get_def split: if_splits gval.splits sum.splits option.splits)

lemma json_loop_Inr:
  "json_loop e fs data = Inr data' \<Longrightarrow> dom data' = dom data
     \<and> (\<forall>c. (\<forall>f \<in> set fs. fld_Name f = c \<longrightarrow> fld_Type f \<noteq> TypeJSON) \<longrightarrow> data' c = data c)"
proof (induction fs arbitrary: data)
  case (Cons f fs)
  then obtain d where d: "json_field e f data = Inr d" "json_loop e fs d = Inr data'"
    by (auto simp: bind_err_Inr)
  note j = json_field_Inr [OF d(1)] and IH = Cons.IH [OF d(2)]
  show ?case
  proof (intro conjI allI impI)
    show "dom data' = dom data" using j IH by simp
    fix c assume a: "\<forall>f' \<in> set (f # fs). fld_Name f' = c \<longrightarrow> fld_Type f' \<noteq> TypeJSON"
    then have "data' c = d c" using IH by simp
    also have "d c = data c" using j a by (cases "c = fld_Name f") auto
    finally show "data' c = data c" .
  qed
qed simp

lemma apply_defaults_keep: "data c = Some v \<Longrightarrow> apply_defaults fs data c = Some v"
  unfolding apply_defaults_def
proof (induction fs arbitrary: data)
  case (Cons f fs)
  then show ?case by (cases "fld_Name f = c") auto
qed simp

lemma apply_computed_other: "c \<notin> fld_Name ` set fs \<Longrightarrow> apply_computed fs data c = data c"
  unfolding apply_computed_def by (induction fs arbitrary: data) (auto split: option.splits)

lemma apply_initial_keep: "data c = Some v \<Longrightarrow> apply_initial res data c = Some v"
  by (auto simp: apply_initial_def split: option.splits)

definition fields_ok :: "Resource \<Rightarrow> bool" where
  "fields_ok res \<longleftrightarrow> distinct (map fld_Name (rsc_Fields res))
     \<and> list_all (\<lambda>f. fld_Name f \<notin> set std_cols) (rsc_Fields res)"

lemma schema_fields_ok: "r \<in> set (Schema uni) \<Longrightarrow> fields_ok r"
  by (auto simp: Schema_def resource_defs fields_ok_def field_builder_defs std_cols_def)

definition create_ref :: "Env \<Rightarrow> Resource \<Rightarrow> nat \<Rightarrow> string" where
  "create_ref e res t = (if rsc_RefPrefix res = [] then env_uuid e t else rsc_RefPrefix res @ take 8 (env_uuid e t))"

lemma prepare_create_ref:
  assumes "fields_ok res"
  shows "prepare_create e res t data ''reference_id'' = Some (GStr (create_ref e res t))"
proof -
  let ?d = "data(''reference_id'' \<mapsto> GStr (create_ref e res t))"
  have "''reference_id'' \<notin> fld_Name ` set (rsc_Fields res)"
    using assms by (auto simp: fields_ok_def list_all_iff std_cols_def)
  then have "apply_computed (rsc_Fields res) (apply_defaults (rsc_Fields res) ?d) ''reference_id''
      = Some (GStr (create_ref e res t))"
    by (simp add: apply_computed_other apply_defaults_keep)
  then show ?thesis
    by (simp add: prepare_create_def create_ref_def Let_def apply_initial_keep)
qed

text \<open>A created row is new, carries a generated reference and is stored as returned.\<close>

lemma Store_Create_Inr:
  assumes cr: "Store_Create e s tab data w = (w', Inr row)"
    and sch: "st_schema s tab = Some res" and ok: "fields_ok res"
  obtains d0 d1 d2 where
    "d0 = (prepare_create e res (w_tick w) data)
        (''created_at'' \<mapsto> GStr (env_now e (w_tick w)), ''updated_at'' \<mapsto> GStr (env_now e (w_tick w)))"
    "Store_validate res (prepare_create e res (w_tick w) data) = None"
    "encrypt_loop e s (w_tick w) (rsc_Fields res) d0 = Inr d1" "json_loop e (rsc_Fields res) d1 = Inr d2"
    "row = d2(''id'' \<mapsto> GInt64 (w_seq w tab + 1))"
    "d2 ''reference_id'' = Some (GStr (create_ref e res (w_tick w)))"
    "\<not> list_ex (where_ok e tab (by_ref (create_ref e res (w_tick w)))) (w_tables w tab)"
    "w_tables w' = (w_tables w)(tab := w_tables w tab @ [new_row e tab (w_seq w tab + 1)
        (\<lambda>c. if c \<in> set (insert_columns res d0) then d2 c else None)])"
    "w_seq w' = (w_seq w)(tab := w_seq w tab + 1)" "w_calls w' = w_calls w"
proof -
  let ?p = "prepare_create e res (w_tick w) data"
  let ?d0 = "?p(''created_at'' \<mapsto> GStr (env_now e (w_tick w)), ''updated_at'' \<mapsto> GStr (env_now e (w_tick w)))"
  have v: "Store_validate res ?p = None"
    using cr sch by (auto simp: Store_Create_def Let_def split: option.splits)
  obtain d1 d2 where d1: "encrypt_loop e s (w_tick w) (rsc_Fields res) ?d0 = Inr d1"
    and d2: "json_loop e (rsc_Fields res) d1 = Inr d2"
    using cr sch v by (auto simp: Store_Create_def Let_def bind_err_def split: sum.splits)
  let ?r = "\<lambda>c. if c \<in> set (insert_columns res ?d0) then d2 c else None"
  have nr: "''reference_id'' \<notin> fld_Name ` set (rsc_Fields res)"
    using ok by (auto simp: fields_ok_def list_all_iff std_cols_def)
  have "d2 ''reference_id'' = d1 ''reference_id''" using json_loop_Inr [OF d2] nr by force
  also have "d1 ''reference_id'' = ?d0 ''reference_id''"
    using encrypt_loop_Inr [OF d1] ok nr by (auto simp: fields_ok_def)
  finally have ref: "d2 ''reference_id'' = Some (GStr (create_ref e res (w_tick w)))"
    by (simp add: prepare_create_ref [OF ok])
  then have wh: "[(''reference_id'', row_get ?r ''reference_id'')] = by_ref (create_ref e res (w_tick w))"
    by (simp add: by_ref_def row_get_def insert_columns_def)
  have "(w', Inr row) = (case db_insert e tab ?r w of
      (w, Inl err) \<Rightarrow> (w, Inl (''create '' @ tab @ '': '' @ err))
    | (w, Inr ident) \<Rightarrow> (w, Inr (d2(''id'' \<mapsto> GInt64 ident))))"
    using cr sch v d1 d2 by (auto simp: Store_Create_def Let_def split: prod.splits sum.splits)
  then show ?thesis
    using wh by (intro that [OF refl v d1 d2 _ ref])
      (auto simp: db_insert_def Let_def split: option.splits if_splits)
qed

lemma find_row_insert:
  assumes tc: "text_conv e tab ''reference_id''"
    and t: "w_tables w' tab = w_tables w tab @ [new]"
    and new: "row_get new ''reference_id'' = env_conv e tab ''reference_id'' (GStr refID)"
    and fresh: "\<not> list_ex (where_ok e tab (by_ref refID)) (w_tables w tab)"
  shows "find_row e tab ref' w' = (if ref' = refID then Some new else find_row e tab ref' w)"
proof -
  have app: "find P (xs @ ys) = (case find P xs of None \<Rightarrow> find P ys | Some x \<Rightarrow> Some x)" for P :: "row \<Rightarrow> bool" and xs ys
    by (induction xs) auto
  have n: "find (where_ok e tab (by_ref refID)) (w_tables w tab) = None"
    using fresh by (auto simp: find_None_iff list_ex_iff)
  have "where_ok e tab (by_ref ref') new \<longleftrightarrow> ref' = refID"
    using new by (auto simp: by_ref_iff [OF tc] text_conv_inj [OF tc])
  then show ?thesis using n by (auto simp: find_row_def t app split: option.splits)
qed


text \<open>
  \<open>Store.Update\<close> does not encrypt: after a successful update of an SSH key's \<open>private_key\<close> the
  column holds the text the client sent, whatever encryption key the store has, although the
  field is marked as encrypted at rest.
\<close>

theorem Update_stores_plaintext:
  assumes up: "Store_Update e s ''ssh_keys'' refID [''private_key'' \<mapsto> GStr p] w = (w', Inr row)"
    and sch: "st_schema s ''ssh_keys'' = Some SSHKeyResource"
    and tc: "text_conv e ''ssh_keys'' ''reference_id''" "text_conv e ''ssh_keys'' ''private_key''"
  shows "\<exists>r. find_row e ''ssh_keys'' refID w' = Some r \<and> strVal (row_get r ''private_key'') = p
    \<and> (\<exists>f \<in> set (rsc_Fields SSHKeyResource). fld_Name f = ''private_key'' \<and> fld_Encrypted f)"
  using up tc(1)
proof (cases rule: Store_Update_cases)
  case (written res d w1 r)
  have nj: "list_all (\<lambda>f. fld_Type f \<noteq> TypeJSON) (rsc_Fields SSHKeyResource)"
    by (simp add: SSHKeyResource_def field_builder_defs)
  have d: "d c = clean_update e (w_tick w) [''private_key'' \<mapsto> GStr p] c" for c
    using json_loop_Inr [OF written(2)] nj sch written(1) by (auto simp: list_all_iff)
  have n: "d ''reference_id'' = None" by (simp add: d clean_update_def)
  have "find_row e ''ssh_keys'' refID w' = Some (r ++ stored e ''ssh_keys'' d)"
    using find_row_update [where sets = d and refID = refID and ref' = refID and w = w, OF tc(1) n] written(3,4)
    by (simp add: find_row_def)
  moreover have "row_get (r ++ stored e ''ssh_keys'' d) ''private_key''
      = env_conv e ''ssh_keys'' ''private_key'' (GStr p)"
    by (simp add: row_get_add stored_def d clean_update_def)
  ultimately show ?thesis using tc(2) by (auto simp: SSHKeyResource_def field_builder_defs)
qed auto

section \<open>A concrete environment\<close>

text \<open>Integers and booleans come back as \<open>int64\<close>, everything else as it was bound.\<close>

definition sqlite_conv :: "string \<Rightarrow> string \<Rightarrow> gval \<Rightarrow> gval" where
  "sqlite_conv tab c v =
     (case v of GInt i \<Rightarrow> GInt64 i | GBool b \<Rightarrow> GInt64 (if b then 1 else 0) | _ \<Rightarrow> v)"

definition demo_env :: Env where
  "demo_env = \<lparr>env_fail = (\<lambda>_ _. None), env_conv = sqlite_conv, env_default = (\<lambda>_ _. GNil),
     env_raw = (\<lambda>_ _ _ ts. (ts, Inr [])), env_now = (\<lambda>_. ''2026-01-01T00:00:00Z''),
     env_uuid = (\<lambda>_. ''0f1e2d3c-0000-4000-8000-000000000000''), env_Marshal = (\<lambda>_. Inr ''[]''),
     env_Unmarshal = (\<lambda>_. None), env_ParseTime = (\<lambda>_ _. None), env_FormatTime = (\<lambda>_. []),
     env_seal = tag_seal, env_rnd = (\<lambda>_. zero_rnd), env_crypto_text = (\<lambda>_. []),
     env_UnmarshalDomains = (\<lambda>_. []), env_UnmarshalContainers = (\<lambda>_. []),
     env_UnmarshalVariables = (\<lambda>_. Map.empty), env_Sprintv = (\<lambda>_. []), env_MarshalMeta = (\<lambda>_. []),
     env_UnmarshalMeta = (\<lambda>_. None), env_json_hostnames = (\<lambda>_. []), env_sort_timestamp = (\<lambda>rs. rs)\<rparr>"

definition demo_deployment :: "string \<Rightarrow> string \<Rightarrow> gval \<Rightarrow> row" where
  "demo_deployment refID status port =
     [''id'' \<mapsto> GInt64 1, ''reference_id'' \<mapsto> GStr refID, ''name'' \<mapsto> GStr ''blog'',
      ''customer_id'' \<mapsto> GInt64 7, ''node_id'' \<mapsto> GStr ''node_1'', ''status'' \<mapsto> GStr status,
      ''proxy_port'' \<mapsto> port, ''template_id'' \<mapsto> GInt64 3]"

definition demo_world :: world where
  "demo_world = \<lparr>w_tables = (\<lambda>_. [])
       (''deployments'' := [demo_deployment ''d1'' ''scheduled'' (GInt64 30000)],
        ''ssh_keys'' := [[''id'' \<mapsto> GInt64 1, ''reference_id'' \<mapsto> GStr ''sshkey_1'', ''creator_id'' \<mapsto> GInt64 7]],
        ''nodes'' := [[''id'' \<mapsto> GInt64 1, ''reference_id'' \<mapsto> GStr ''node_1'', ''status'' \<mapsto> GStr ''online'',
          ''creator_id'' \<mapsto> GInt64 7]]),
     w_seq = (\<lambda>_. 1), w_tick = 0, w_calls = [], w_jobs = []\<rparr>"

definition demo_store :: Store where
  "demo_store = \<lparr>st_schema = [''deployments'' \<mapsto> DeploymentResource, ''ssh_keys'' \<mapsto> SSHKeyResource,
     ''nodes'' \<mapsto> NodeResource], st_encryptionKey = replicate 32 CHR ''k''\<rparr>"

lemma not_isl_result: "\<not> isl (snd t) \<Longrightarrow> \<exists>w x. t = (w, Inr x)"
  by (metis prod.collapse sum.collapse(2))

lemma demo_text_conv: "text_conv demo_env tab c"
  by (simp add: text_conv_def demo_env_def sqlite_conv_def)

lemma deployment_machine_col: "text_conv e tab ''status'' \<Longrightarrow> text_conv e tab ''reference_id'' \<Longrightarrow>
    machine_col e tab DeploymentResource deployment_machine"
  by (simp add: machine_col_def DeploymentResource_def deployment_machine_def plain_col_def
      selectColumns_def std_cols_def field_builder_defs)

lemma provision_machine_col: "text_conv e tab ''status'' \<Longrightarrow> text_conv e tab ''reference_id'' \<Longrightarrow>
    machine_col e tab CloudProvisionResource provision_machine"
  by (simp add: machine_col_def CloudProvisionResource_def provision_machine_def plain_col_def
      selectColumns_def std_cols_def field_builder_defs)

lemma invoice_machine_col: "text_conv e tab ''status'' \<Longrightarrow> text_conv e tab ''reference_id'' \<Longrightarrow>
    machine_col e tab InvoiceResource invoice_machine"
  by (simp add: machine_col_def InvoiceResource_def invoice_machine_def plain_col_def
      selectColumns_def std_cols_def field_builder_defs)

lemmas demo_machine_col = deployment_machine_col [OF demo_text_conv demo_text_conv]

theorem Store_Transition_sound_witness:
  "\<exists>w' row. Store_Transition demo_env demo_store ''deployments'' ''d1'' ''starting'' demo_world
       = (w', Inr (row, ''StartDeployment''))
     \<and> map_option (col_state deployment_machine) (find_row demo_env ''deployments'' ''d1'' w') = Some ''starting''"
proof -
  let ?t = "Store_Transition demo_env demo_store ''deployments'' ''d1'' ''starting'' demo_world"
  let ?r = "demo_deployment ''d1'' ''scheduled'' (GInt64 30000)"
  have sch: "st_schema demo_store ''deployments'' = Some DeploymentResource" by (simp add: demo_store_def)
  obtain w' out where t: "?t = (w', out)" by (cases ?t)
  note sound = Store_Transition_sound [OF t sch demo_machine_col]
  have f: "find_row demo_env ''deployments'' ''d1'' demo_world = Some ?r"
    by (simp add: find_row_def demo_world_def where_ok_def by_ref_def sql_eq_def demo_env_def sqlite_conv_def
        demo_deployment_def row_get_def)
  have c: "CanTransition deployment_machine (col_state deployment_machine ?r) ''starting''" by code_simp
  have p: "plain_col DeploymentResource ''node_id''"
    by (simp add: plain_col_def DeploymentResource_def field_builder_defs)
  have "''node_id'' \<in> set (selectColumns DeploymentResource)"
    by (simp add: selectColumns_def DeploymentResource_def field_builder_defs)
  then have "decodeRow demo_env DeploymentResource (project (selectColumns DeploymentResource) ?r) ''node_id''
      = Some (GStr ''node_1'')"
    by (simp add: decodeRow_plain [OF p] decode_bytes_def project_def demo_deployment_def row_get_def)
  then have "guard_ok deployment_machine ''starting''
      (decodeRow demo_env DeploymentResource (project (selectColumns DeploymentResource) ?r))"
    by (simp add: guard_ok_def deployment_machine_def RequireField_def)
  with sound f c obtain row cmd where o: "out = Inr (row, cmd)" by (auto simp: demo_env_def)
  with sound have "cmd = ''StartDeployment''" by (simp add: deployment_machine_def)
  with sound t o show ?thesis by auto
qed


theorem Update_stores_plaintext_witness:
  "\<exists>w' r. fst (Store_Update demo_env demo_store ''ssh_keys'' ''sshkey_1'' [''private_key'' \<mapsto> GStr ''PEM''] demo_world) = w'
     \<and> find_row demo_env ''ssh_keys'' ''sshkey_1'' w' = Some r \<and> strVal (row_get r ''private_key'') = ''PEM''"
proof -
  let ?t = "Store_Update demo_env demo_store ''ssh_keys'' ''sshkey_1'' [''private_key'' \<mapsto> GStr ''PEM''] demo_world"
  have "\<not> isl (snd ?t)" by code_simp
  from not_isl_result [OF this] obtain w' row where t: "?t = (w', Inr row)" by blast
  have "st_schema demo_store ''ssh_keys'' = Some SSHKeyResource" by (simp add: demo_store_def)
  from Update_stores_plaintext [OF t this demo_text_conv demo_text_conv] t show ?thesis by auto
qed

end
