(* ===== verification/Engine_Queries.thy ===== *)
theory Engine_Queries
  imports Engine_Store Dom_Node "HOL-Library.Multiset"
begin

text \<open>
  The remaining operations of \<open>internal/engine/store.go\<close>: user resolution, the special queries of
  workers, proxy and billing, and the conversion of rows to domain values; and the background
  reporter of \<open>internal/shell/billing/reporter.go\<close>, which drains the usage events. The SQL JSON
  functions and the \<open>ORDER BY timestamp\<close> of SQLite are part of the environment.
\<close>

section \<open>Users\<close>

definition nonempty_or :: "string \<Rightarrow> string \<Rightarrow> row \<Rightarrow> row" where
  "nonempty_or v c r = (if v \<noteq> [] then r(c \<mapsto> GStr v) else r)"

text \<open>
  \<open>INSERT .. ON CONFLICT(reference_id) DO UPDATE\<close>: an existing user keeps every column for which the
  new value is empty. \<open>datetime('now')\<close> is the environment's clock.
\<close>

definition upsert_user ::
  "Env \<Rightarrow> string \<Rightarrow> string \<Rightarrow> string \<Rightarrow> string \<Rightarrow> world \<Rightarrow> world" where
  "upsert_user e referenceID email name planID w =
     (let now = GStr (env_now e (w_tick w));
          hit = where_ok e ''users'' (by_ref referenceID)
      in if list_ex hit (w_tables w ''users'')
         then (tick w)\<lparr>w_tables := (w_tables w)(''users'' :=
                map (\<lambda>r. if hit r
                         then (nonempty_or planID ''plan_id'' (nonempty_or name ''name''
                                (nonempty_or email ''email'' r)))(''updated_at'' \<mapsto> now)
                         else r) (w_tables w ''users''))\<rparr>
         else (tick w)\<lparr>w_tables := (w_tables w)(''users'' := w_tables w ''users'' @
                [new_row e ''users'' (w_seq w ''users'' + 1)
                   [''reference_id'' \<mapsto> GStr referenceID, ''email'' \<mapsto> GStr email, ''name'' \<mapsto> GStr name,
                    ''plan_id'' \<mapsto> GStr planID, ''created_at'' \<mapsto> now, ''updated_at'' \<mapsto> now]]),
                w_seq := (w_seq w)(''users'' := w_seq w ''users'' + 1)\<rparr>)"

definition ResolveUser ::
  "Env \<Rightarrow> string \<Rightarrow> string \<Rightarrow> string \<Rightarrow> string \<Rightarrow> world \<Rightarrow> world \<times> (string + int)" where
  "ResolveUser e referenceID email name planID w =
     (case env_fail e (w_tick w) (RawStmt ''INSERT INTO users'' [GStr referenceID, GStr email, GStr name, GStr planID]) of
        Some err \<Rightarrow> (tick w, Inl (''resolve user: '' @ err))
      | None \<Rightarrow>
          (case db_select e [''id''] ''users'' (by_ref referenceID) None
                  (upsert_user e referenceID email name planID w) of
             (w, Inl err) \<Rightarrow> (w, Inl (''resolve user: '' @ err))
           | (w, Inr []) \<Rightarrow> (w, Inl ''resolve user: sql: no rows in result set'')
           | (w, Inr (r # _)) \<Rightarrow> (w, Inr (toInt (row_get r ''id'')))))"

section \<open>Lookups by field\<close>

definition GetByField ::
  "Env \<Rightarrow> Store \<Rightarrow> string \<Rightarrow> string \<Rightarrow> gval \<Rightarrow> world \<Rightarrow> world \<times> (string + row)" where
  "GetByField e s resource field value w =
     (case st_schema s resource of
        None \<Rightarrow> (w, Inl (unknown_resource resource))
      | Some res \<Rightarrow> query_row e res resource [(field, value)]
                     (resource @ '' '' @ field @ ''='' @ env_Sprintv e value)
                     (''get '' @ resource @ '' by '' @ field) w)"

definition GetByTwoFields ::
  "Env \<Rightarrow> Store \<Rightarrow> string \<Rightarrow> string \<Rightarrow> gval \<Rightarrow> string \<Rightarrow> gval \<Rightarrow> world \<Rightarrow> world \<times> (string + row)" where
  "GetByTwoFields e s resource field1 value1 field2 value2 w =
     (case st_schema s resource of
        None \<Rightarrow> (w, Inl (unknown_resource resource))
      | Some res \<Rightarrow> query_row e res resource [(field1, value1), (field2, value2)] resource
                     (''get '' @ resource) w)"

definition RawQuery :: "Env \<Rightarrow> string \<Rightarrow> gval list \<Rightarrow> world \<Rightarrow> world \<times> (string + row list)" where
  "RawQuery e query args w = db_raw e query args w"

text \<open>
  \<open>fn\<close> runs between \<open>BEGIN\<close> and \<open>COMMIT\<close>; its error rolls the tables back, as does a failing commit.
\<close>

definition WithTx :: "Env \<Rightarrow> (world \<Rightarrow> world \<times> string option) \<Rightarrow> world \<Rightarrow> world \<times> string option" where
  "WithTx e f w =
     (case env_fail e (w_tick w) (RawStmt ''BEGIN'' []) of
        Some err \<Rightarrow> (tick w, Some err)
      | None \<Rightarrow>
          (case f (tick w) of
             (w', Some err) \<Rightarrow> (w'\<lparr>w_tables := w_tables w, w_seq := w_seq w\<rparr>, Some err)
           | (w', None) \<Rightarrow>
               (case env_fail e (w_tick w') (RawStmt ''COMMIT'' []) of
                  Some err \<Rightarrow> ((tick w')\<lparr>w_tables := w_tables w, w_seq := w_seq w\<rparr>, Some err)
                | None \<Rightarrow> (tick w', None))))"

section \<open>Domain values\<close>

definition zero_NodeCapacity :: NodeCapacity where
  "zero_NodeCapacity = \<lparr>cap_CPUCores = Fin 0, cap_MemoryMB = 0, cap_DiskMB = 0, cap_CPUUsed = Fin 0,
     cap_MemoryUsedMB = 0, cap_DiskUsedMB = 0\<rparr>"

definition int64_or0 :: "gval \<Rightarrow> int" where
  "int64_or0 v = (case toInt64 v of None \<Rightarrow> 0 | Some i \<Rightarrow> i)"

definition mapToNode :: "row \<Rightarrow> Node" where
  "mapToNode row =
     (let sshPort = int64_or0 (row_get row ''ssh_port'')
      in \<lparr>node_ID = int64_or0 (row_get row ''id''),
          node_ReferenceID = strVal (row_get row ''reference_id''),
          node_Name = strVal (row_get row ''name''), node_CreatorID = 0,
          node_SSHHost = strVal (row_get row ''ssh_host''),
          node_SSHPort = (if sshPort = 0 then 22 else sshPort),
          node_SSHUser = strVal (row_get row ''ssh_user''),
          node_SSHKeyID = int64_or0 (row_get row ''ssh_key_id''), node_SSHKeyRefID = [],
          node_DockerSocket = strVal (row_get row ''docker_socket''),
          node_Status = strVal (row_get row ''status''), node_Capabilities = [],
          node_Capacity = zero_NodeCapacity, node_Location = [], node_LastHealthCheck = None,
          node_ErrorMessage = [], node_ProviderType = [], node_ProvisionID = [], node_BaseDomain = [],
          node_CreatedAt = 0, node_UpdatedAt = 0\<rparr>)"

definition mapToSSHKey :: "row \<Rightarrow> SSHKey" where
  "mapToSSHKey row = \<lparr>key_ID = int64_or0 (row_get row ''id''),
     key_ReferenceID = strVal (row_get row ''reference_id''), key_CreatorID = 0,
     key_Name = strVal (row_get row ''name''),
     key_PrivateKeyEncrypted = strVal (row_get row ''private_key''),
     key_Fingerprint = strVal (row_get row ''fingerprint''), key_CreatedAt = 0\<rparr>"

definition GetNode :: "Env \<Rightarrow> Store \<Rightarrow> string \<Rightarrow> world \<Rightarrow> world \<times> (string + Node)" where
  "GetNode e s nodeID w =
     (case Store_Get e s ''nodes'' nodeID w of
        (w, Inl err) \<Rightarrow> (w, Inl err)
      | (w, Inr row) \<Rightarrow>
          let node = mapToNode row
          in if 0 < node_SSHKeyID node
             then (case Store_GetByID e s ''ssh_keys'' (node_SSHKeyID node) w of
                     (w, Inl _) \<Rightarrow> (w, Inr node)
                   | (w, Inr sshKeyRow) \<Rightarrow>
                       (w, Inr (node\<lparr>node_SSHKeyRefID := strVal (row_get sshKeyRow ''reference_id'')\<rparr>)))
             else (w, Inr node))"

definition GetSSHKey :: "Env \<Rightarrow> Store \<Rightarrow> string \<Rightarrow> world \<Rightarrow> world \<times> (string + SSHKey)" where
  "GetSSHKey e s sshKeyRefID w =
     (case Store_Get e s ''ssh_keys'' sshKeyRefID w of
        (w, Inl err) \<Rightarrow> (w, Inl err)
      | (w, Inr row) \<Rightarrow> (w, Inr (mapToSSHKey row)))"

text \<open>
  JSON text of a column, or what decoding already made of it, marshalled again.
\<close>

definition json_text :: "Env \<Rightarrow> gval \<Rightarrow> string" where
  "json_text e v = (case env_Marshal e v of Inl _ \<Rightarrow> [] | Inr b \<Rightarrow> b)"

definition mapToDeployment :: "Env \<Rightarrow> row \<Rightarrow> Deployment" where
  "mapToDeployment e data =
     \<lparr>dep_ID = int64_or0 (row_get data ''id''),
      dep_ReferenceID = strVal (row_get data ''reference_id''),
      dep_Name = strVal (row_get data ''name''),
      dep_TemplateID = int64_or0 (row_get data ''template_id''), dep_TemplateRefID = [],
      dep_TemplateVersion = [],
      dep_CustomerID = int64_or0 (row_get data ''customer_id''),
      dep_NodeID = strVal (row_get data ''node_id''),
      dep_Status = strVal (row_get data ''status''),
      dep_Variables = (case data ''variables'' of
          Some (GStr s) \<Rightarrow> env_UnmarshalVariables e s
        | Some (GMap kvs) \<Rightarrow> map_of (map (\<lambda>(k, v). (k, env_Sprintv e v)) kvs)
        | _ \<Rightarrow> Map.empty),
      dep_Domains = (case data ''domains'' of
          Some (GStr s) \<Rightarrow> env_UnmarshalDomains e s
        | Some (GList vs) \<Rightarrow> env_UnmarshalDomains e (json_text e (GList vs))
        | _ \<Rightarrow> []),
      dep_Containers = (case data ''containers'' of
          Some (GStr s) \<Rightarrow> env_UnmarshalContainers e s
        | Some (GList vs) \<Rightarrow> env_UnmarshalContainers e (json_text e (GList vs))
        | _ \<Rightarrow> []),
      dep_Resources = zero_Resources,
      dep_ProxyPort = int64_or0 (row_get data ''proxy_port''), dep_ErrorMessage = [],
      dep_CreatedAt = 0, dep_UpdatedAt = 0, dep_StartedAt = None, dep_StoppedAt = None\<rparr>"

section \<open>Queries of the proxy\<close>

definition domain_query :: string where
  "domain_query = ''SELECT FROM deployments WHERE EXISTS json_each hostname = ? LIMIT 1''"

definition GetDeploymentByDomain :: "Env \<Rightarrow> Store \<Rightarrow> string \<Rightarrow> world \<Rightarrow> world \<times> (string + Deployment)" where
  "GetDeploymentByDomain e s hostname w =
     (case env_fail e (w_tick w) (RawStmt domain_query [GStr hostname]) of
        Some err \<Rightarrow> (tick w, Inl (''get deployment by domain: '' @ err))
      | None \<Rightarrow>
          (case find (\<lambda>r. hostname \<in> set (env_json_hostnames e (row_get r ''domains''))) (w_tables w ''deployments'') of
             None \<Rightarrow> (tick w, Inl (''deployment for hostname '' @ hostname @ '': not found''))
           | Some r \<Rightarrow>
               let result = project (selectColumns DeploymentResource) r;
                   result = (case st_schema s ''deployments'' of None \<Rightarrow> result | Some res \<Rightarrow> decodeRow e res result)
               in (tick w, Inr (mapToDeployment e result))))"

definition GetNodeSSHHost :: "Env \<Rightarrow> string \<Rightarrow> world \<Rightarrow> world \<times> (string + string)" where
  "GetNodeSSHHost e nodeRefID w =
     (case db_select e [''ssh_host''] ''nodes'' (by_ref nodeRefID) None w of
        (w, Inl err) \<Rightarrow> (w, Inl (''get node ssh_host: '' @ err))
      | (w, Inr []) \<Rightarrow> (w, Inl (''node '' @ nodeRefID @ '': not found''))
      | (w, Inr (r # _)) \<Rightarrow> (w, Inr (strVal (row_get r ''ssh_host''))))"

definition count_query :: string where
  "count_query = ''SELECT COUNT(*) FROM deployments WHERE status = 'running' AND proxy_port IS NOT NULL''"

definition CountRoutableDeployments :: "Env \<Rightarrow> world \<Rightarrow> world \<times> (string + int)" where
  "CountRoutableDeployments e w =
     (case env_fail e (w_tick w) (RawStmt count_query []) of
        Some err \<Rightarrow> (tick w, Inl (''count routable deployments: '' @ err))
      | None \<Rightarrow> (tick w, Inr (int (length (filter
            (\<lambda>r. strVal (row_get r ''status'') = ''running'' \<and> row_get r ''proxy_port'' \<noteq> GNil)
            (w_tables w ''deployments''))))))"

section \<open>Events\<close>

definition CreateContainerEvent :: "Env \<Rightarrow> ContainerEvent \<Rightarrow> world \<Rightarrow> world \<times> string option" where
  "CreateContainerEvent e event w =
     (let refID = (if ce_ReferenceID event = [] then ''evt_'' @ take 8 (env_uuid e (w_tick w)) else ce_ReferenceID event)
      in case db_insert e ''container_events''
                [''reference_id'' \<mapsto> GStr refID, ''deployment_id'' \<mapsto> GInt (ce_DeploymentID event),
                 ''type'' \<mapsto> GStr (ce_Type event), ''container'' \<mapsto> GStr (ce_Container event),
                 ''message'' \<mapsto> GStr (ce_Message event),
                 ''timestamp'' \<mapsto> GStr (env_FormatTime e (ce_Timestamp event))] w of
           (w, Inl err) \<Rightarrow> (w, Some err)
         | (w, Inr _) \<Rightarrow> (w, None))"

definition CreateUsageEvent :: "Env \<Rightarrow> MeterEvent \<Rightarrow> world \<Rightarrow> world \<times> string option" where
  "CreateUsageEvent e event w =
     (let metadataJSON = (case me_Metadata event of None \<Rightarrow> GNil | Some m \<Rightarrow> GStr (env_MarshalMeta e m))
      in case db_insert e ''usage_events''
                [''reference_id'' \<mapsto> GStr (me_ReferenceID event), ''user_id'' \<mapsto> GInt (me_UserID event),
                 ''event_type'' \<mapsto> GStr (me_EventType event), ''resource_id'' \<mapsto> GStr (me_ResourceID event),
                 ''resource_type'' \<mapsto> GStr (me_ResourceType event), ''quantity'' \<mapsto> GInt64 (me_Quantity event),
                 ''metadata'' \<mapsto> metadataJSON,
                 ''timestamp'' \<mapsto> GStr (env_FormatTime e (me_Timestamp event)),
                 ''created_at'' \<mapsto> GStr (env_FormatTime e (me_CreatedAt event))] w of
           (w, Inl err) \<Rightarrow> (w, Some err)
         | (w, Inr _) \<Rightarrow> (w, None))"

definition unreported :: "row \<Rightarrow> bool" where
  "unreported r \<longleftrightarrow> row_get r ''reported_at'' = GNil"

text \<open>The row of the \<open>LEFT JOIN\<close> with \<open>users\<close> and the event it is converted to.\<close>

definition join_user :: "Env \<Rightarrow> world \<Rightarrow> row \<Rightarrow> row" where
  "join_user e w r = r(''user_ref_id'' \<mapsto>
     (case find (\<lambda>u. sql_eq (row_get r ''user_id'') (row_get u ''id'')) (w_tables w ''users'') of
        None \<Rightarrow> GNil | Some u \<Rightarrow> row_get u ''reference_id''))"

definition parse_or_zero :: "Env \<Rightarrow> string \<Rightarrow> time" where
  "parse_or_zero e ts = (if ts = [] then 0 else case env_ParseTime e RFC3339 ts of None \<Rightarrow> 0 | Some t \<Rightarrow> t)"

definition row_to_event :: "Env \<Rightarrow> row \<Rightarrow> MeterEvent" where
  "row_to_event e row =
     \<lparr>me_ID = int64_or0 (row_get row ''id''), me_ReferenceID = strVal (row_get row ''reference_id''),
      me_UserID = int64_or0 (row_get row ''user_id''), me_UserRefID = strVal (row_get row ''user_ref_id''),
      me_EventType = strVal (row_get row ''event_type''), me_ResourceID = strVal (row_get row ''resource_id''),
      me_ResourceType = strVal (row_get row ''resource_type''),
      me_Quantity = int64_or0 (row_get row ''quantity''),
      me_Metadata = (if strVal (row_get row ''metadata'') = [] then None
                     else env_UnmarshalMeta e (strVal (row_get row ''metadata''))),
      me_Timestamp = parse_or_zero e (strVal (row_get row ''timestamp'')), me_ReportedAt = None,
      me_CreatedAt = parse_or_zero e (strVal (row_get row ''created_at''))\<rparr>"

definition unreported_query :: string where
  "unreported_query = ''SELECT FROM usage_events LEFT JOIN users WHERE reported_at IS NULL ORDER BY timestamp ASC LIMIT ?''"

definition GetUnreportedEvents :: "Env \<Rightarrow> int \<Rightarrow> world \<Rightarrow> world \<times> (string + MeterEvent list)" where
  "GetUnreportedEvents e n w =
     (let n = (if n \<le> 0 then 100 else n)
      in case env_fail e (w_tick w) (RawStmt unreported_query [GInt n]) of
           Some err \<Rightarrow> (tick w, Inl err)
         | None \<Rightarrow> (tick w, Inr (map (row_to_event e \<circ> join_user e w)
               (take (nat n) (env_sort_timestamp e (filter unreported (w_tables w ''usage_events'')))))))"

definition mark_query :: "string list \<Rightarrow> string" where
  "mark_query ids = ''UPDATE usage_events SET reported_at = ? WHERE reference_id IN (''
     @ join_sep '','' (map (\<lambda>_. ''?'') ids) @ '')''"

definition MarkEventsReported :: "Env \<Rightarrow> string list \<Rightarrow> time \<Rightarrow> world \<Rightarrow> world \<times> string option" where
  "MarkEventsReported e ids reportedAt w =
     (if ids = [] then (w, None)
      else case env_fail e (w_tick w) (RawStmt (mark_query ids) (GStr (env_FormatTime e reportedAt) # map GStr ids)) of
             Some err \<Rightarrow> (tick w, Some err)
           | None \<Rightarrow>
               ((tick w)\<lparr>w_tables := (w_tables w)(''usage_events'' :=
                   map (\<lambda>r. if list_ex (\<lambda>i. where_ok e ''usage_events'' (by_ref i) r) ids
                            then r(''reported_at'' \<mapsto> env_conv e ''usage_events'' ''reported_at''
                                     (GStr (env_FormatTime e reportedAt)))
                            else r) (w_tables w ''usage_events''))\<rparr>, None))"

section \<open>The billing reporter\<close>

record ReporterConfig =
  rc_Interval :: int
  rc_BatchSize :: int

definition NewReporter :: "ReporterConfig \<Rightarrow> ReporterConfig" where
  "NewReporter cfg =
     (let cfg = (if rc_Interval cfg = 0 then cfg\<lparr>rc_Interval := 60 * 10 ^ 9\<rparr> else cfg)
      in if rc_BatchSize cfg = 0 then cfg\<lparr>rc_BatchSize := 100\<rparr> else cfg)"

text \<open>
  \<open>send t events\<close> is the answer of \<open>MeterUsageBatch\<close> at tick \<open>t\<close> (\<^const>\<open>None\<close> is success) and \<open>now\<close> the
  clock. The second result lists the batches that were handed to the client.
\<close>

definition reportBatch ::
  "Env \<Rightarrow> (nat \<Rightarrow> MeterEvent list \<Rightarrow> string option) \<Rightarrow> (nat \<Rightarrow> time) \<Rightarrow> ReporterConfig \<Rightarrow> world \<Rightarrow>
     world \<times> MeterEvent list list" where
  "reportBatch e send now r w =
     (case GetUnreportedEvents e (rc_BatchSize r) w of
        (w, Inl err) \<Rightarrow> (w, [])
      | (w, Inr events) \<Rightarrow>
          if events = [] then (w, [])
          else case send (w_tick w) events of
                 Some err \<Rightarrow> (w, [events])
               | None \<Rightarrow> (fst (MarkEventsReported e (map me_ReferenceID events) (now (w_tick w)) w), [events]))"

definition ReportNow ::
  "Env \<Rightarrow> (nat \<Rightarrow> MeterEvent list \<Rightarrow> string option) \<Rightarrow> (nat \<Rightarrow> time) \<Rightarrow> ReporterConfig \<Rightarrow> world \<Rightarrow>
     world \<times> MeterEvent list list" where
  "ReportNow e send now r w = reportBatch e send now r w"

text \<open>\<open>sfx\<close> is the random suffix and \<open>stamp\<close> the formatted local time.\<close>

definition generateEventID :: "string \<Rightarrow> string \<Rightarrow> string" where
  "generateEventID stamp sfx = ''evt_'' @ stamp @ ''_'' @ sfx"

definition RecordEvent ::
  "Env \<Rightarrow> time \<Rightarrow> string \<Rightarrow> int \<Rightarrow> EventType \<Rightarrow> string \<Rightarrow> string \<Rightarrow> go_strmap option \<Rightarrow> world \<Rightarrow>
     world \<times> string option" where
  "RecordEvent e now eventID userID eventType resourceID resourceType metadata w =
     (let event = NewMeterEvent now eventID userID eventType resourceID resourceType;
          event = (case metadata of None \<Rightarrow> event | Some m \<Rightarrow> event\<lparr>me_Metadata := Some m\<rparr>)
      in CreateUsageEvent e event w)"

section \<open>User identities\<close>

text \<open>Identifiers of a table are distinct and were handed out by its counter.\<close>

definition ids_ok :: "world \<Rightarrow> string \<Rightarrow> bool" where
  "ids_ok w tab \<longleftrightarrow> distinct (map (\<lambda>r. row_get r ''id'') (w_tables w tab))
     \<and> list_all (\<lambda>r. \<exists>i \<le> w_seq w tab. row_get r ''id'' = GInt64 i) (w_tables w tab)"

definition touch_user :: "Env \<Rightarrow> nat \<Rightarrow> string \<Rightarrow> string \<Rightarrow> string \<Rightarrow> row \<Rightarrow> row" where
  "touch_user e t email name planID r =
     (nonempty_or planID ''plan_id'' (nonempty_or name ''name'' (nonempty_or email ''email'' r)))
       (''updated_at'' \<mapsto> GStr (env_now e t))"

lemma touch_user_keeps [simp]:
  "row_get (touch_user e t email name planID r) ''id'' = row_get r ''id''"
  "row_get (touch_user e t email name planID r) ''reference_id'' = row_get r ''reference_id''"
  by (simp_all add: touch_user_def nonempty_or_def)

lemma upsert_user_view:
  fixes ref email name planID :: string
  assumes tc: "text_conv e ''users'' ''reference_id''" and ids: "ids_ok w ''users''"
  defines "w' \<equiv> upsert_user e ref email name planID w"
  shows "ids_ok w' ''users'' \<and> (\<exists>r i. find_row e ''users'' ref w' = Some r \<and> row_get r ''id'' = GInt64 i)
    \<and> (\<forall>ref' r. find_row e ''users'' ref' w = Some r \<longrightarrow>
         (\<exists>r'. find_row e ''users'' ref' w' = Some r' \<and> row_get r' ''id'' = row_get r ''id''))
    \<and> (\<forall>tab. tab \<noteq> ''users'' \<longrightarrow> w_tables w' tab = w_tables w tab)"
proof (cases "list_ex (where_ok e ''users'' (by_ref ref)) (w_tables w ''users'')")
  case True
  let ?f = "\<lambda>r. if where_ok e ''users'' (by_ref ref) r then touch_user e (w_tick w) email name planID r else r"
  have t: "w_tables w' = (w_tables w)(''users'' := map ?f (w_tables w ''users''))" "w_seq w' = w_seq w"
    using True by (auto simp: w'_def upsert_user_def touch_user_def Let_def)
  have keep: "row_get (?f r) ''id'' = row_get r ''id''"
    "where_ok e ''users'' (by_ref ref') (?f r) = where_ok e ''users'' (by_ref ref') r" for r ref'
    by (simp_all add: by_ref_iff [OF tc])
  have find: "find_row e ''users'' ref' w' = map_option ?f (find_row e ''users'' ref' w)" for ref'
    using find_map_keep [of "where_ok e ''users'' (by_ref ref')" ?f] keep(2) by (simp add: find_row_def t)
  have ids': "ids_ok w' ''users''"
    using ids keep(1) by (auto simp: ids_ok_def t list_all_iff o_def)
  obtain r where r: "find_row e ''users'' ref w = Some r"
    using True by (cases "find_row e ''users'' ref w") (auto simp: find_row_def find_None_iff list_ex_iff)
  then have "r \<in> set (w_tables w ''users'')" by (auto simp: find_row_def find_Some_iff)
  then obtain i where "row_get r ''id'' = GInt64 i" using ids by (auto simp: ids_ok_def list_all_iff)
  then show ?thesis using ids' find r keep(1) t(1) by auto
next
  case False
  let ?d = "[''reference_id'' \<mapsto> GStr ref, ''email'' \<mapsto> GStr email, ''name'' \<mapsto> GStr name,
      ''plan_id'' \<mapsto> GStr planID, ''created_at'' \<mapsto> GStr (env_now e (w_tick w)),
      ''updated_at'' \<mapsto> GStr (env_now e (w_tick w))]"
  let ?new = "new_row e ''users'' (w_seq w ''users'' + 1) ?d"
  have t: "w_tables w' = (w_tables w)(''users'' := w_tables w ''users'' @ [?new])"
    "w_seq w' = (w_seq w)(''users'' := w_seq w ''users'' + 1)"
    using False by (auto simp: w'_def upsert_user_def Let_def)
  have n: "row_get ?new ''reference_id'' = env_conv e ''users'' ''reference_id'' (GStr ref)"
    "row_get ?new ''id'' = GInt64 (w_seq w ''users'' + 1)"
    by (simp_all add: new_row_def row_get_def)
  have find: "find_row e ''users'' ref' w' = (if ref' = ref then Some ?new else find_row e ''users'' ref' w)" for ref'
    using False by (intro find_row_insert [OF tc _ n(1)]) (simp_all add: t)
  have none: "find_row e ''users'' ref w = None"
    using False by (auto simp: find_row_def find_None_iff list_ex_iff)
  have "GInt64 (w_seq w ''users'' + 1) \<notin> (\<lambda>r. row_get r ''id'') ` set (w_tables w ''users'')"
    using ids by (force simp: ids_ok_def list_all_iff)
  then have "ids_ok w' ''users''"
    using ids n(2) by (fastforce simp: ids_ok_def t list_all_iff)
  then show ?thesis using find none n(2) t(1) by auto
qed

lemma ResolveUser_Inr:
  assumes tc: "text_conv e ''users'' ''reference_id''" and ids: "ids_ok w ''users''"
    and r: "ResolveUser e ref email name planID w = (w', Inr i)"
  shows "ids_ok w' ''users''" (is ?A)
    and "\<exists>r. find_row e ''users'' ref w' = Some r \<and> row_get r ''id'' = GInt64 i" (is ?B)
    and "find_row e ''users'' ref' w = Some r \<Longrightarrow>
         \<exists>r'. find_row e ''users'' ref' w' = Some r' \<and> row_get r' ''id'' = row_get r ''id''" (is "?H \<Longrightarrow> ?C")
    and "tab \<noteq> ''users'' \<Longrightarrow> w_tables w' tab = w_tables w tab" (is "?I \<Longrightarrow> ?D")
proof -
  let ?u = "upsert_user e ref email name planID w"
  note v = upsert_user_view [OF tc ids, of ref email name planID]
  obtain u j where u: "find_row e ''users'' ref ?u = Some u" "row_get u ''id'' = GInt64 j" using v by blast
  have "w' = tick ?u \<and> i = j"
    using r u by (auto simp: ResolveUser_def db_select_def paginate_def find_row_def find_filter project_def
        row_get_def toInt_def split: option.splits list.splits)
  then show ?A ?B "?H \<Longrightarrow> ?C" "?I \<Longrightarrow> ?D" using v u by (simp_all add: ids_ok_def)
qed

lemma ids_ok_inj:
  assumes "ids_ok w tab" "find_row e tab a w = Some r" "find_row e tab b w = Some r'"
    "row_get r ''id'' = row_get r' ''id''"
  shows "r = r'"
proof -
  have "r \<in> set (w_tables w tab)" "r' \<in> set (w_tables w tab)"
    using assms(2,3) by (auto simp: find_row_def find_Some_iff)
  then show ?thesis using assms(1,4) by (auto simp: ids_ok_def distinct_map dest: inj_onD)
qed

text \<open>
  User resolution gives stable and separate identities: two resolutions in a row give the same
  integer exactly when they are for the same external reference, whatever profile data they
  carry, and users that existed before keep their identifier. No other table is touched.
\<close>

theorem ResolveUser_identity:
  assumes tc: "text_conv e ''users'' ''reference_id''" and ids: "ids_ok w ''users''"
    and r1: "ResolveUser e ref1 email1 name1 plan1 w = (w1, Inr i1)"
    and r2: "ResolveUser e ref2 email2 name2 plan2 w1 = (w2, Inr i2)"
  shows "(i1 = i2 \<longleftrightarrow> ref1 = ref2) \<and> ids_ok w2 ''users''
    \<and> (\<forall>ref r. find_row e ''users'' ref w = Some r \<longrightarrow>
         (\<exists>r'. find_row e ''users'' ref w2 = Some r' \<and> row_get r' ''id'' = row_get r ''id''))
    \<and> (\<forall>tab. tab \<noteq> ''users'' \<longrightarrow> w_tables w2 tab = w_tables w tab)"
proof -
  note a = ResolveUser_Inr [OF tc ids r1]
  note b = ResolveUser_Inr [OF tc a(1) r2]
  obtain r0 where r0: "find_row e ''users'' ref1 w1 = Some r0" "row_get r0 ''id'' = GInt64 i1" using a(2) by blast
  obtain r where r: "find_row e ''users'' ref1 w2 = Some r" "row_get r ''id'' = GInt64 i1"
    using b(3) [OF r0(1)] r0(2) by auto
  obtain r' where r': "find_row e ''users'' ref2 w2 = Some r'" "row_get r' ''id'' = GInt64 i2"
    using b(2) by blast
  have "ref1 = ref2" if "i1 = i2"
  proof -
    have "r = r'" using ids_ok_inj [OF b(1) r(1) r'(1)] r(2) r'(2) that by simp
    then show ?thesis
      using find_row_where [OF r(1)] find_row_where [OF r'(1)] by (simp add: by_ref_iff [OF tc] text_conv_inj [OF tc])
  qed
  moreover have "i1 = i2" if "ref1 = ref2" using that r r' by simp
  moreover have "\<exists>r'. find_row e ''users'' ref w2 = Some r' \<and> row_get r' ''id'' = row_get r ''id''"
    if "find_row e ''users'' ref w = Some r" for ref r
    using a(3) [OF that] b(3) by (metis (no_types, lifting))
  ultimately show ?thesis using b(1) a(4) b(4) by auto
qed

theorem ResolveUser_identity_witness:
  "\<exists>w1 w2 i1 i2. ResolveUser demo_env ''alice'' [] [] ''pro'' demo_world = (w1, Inr i1)
     \<and> ResolveUser demo_env ''bob'' [] [] [] w1 = (w2, Inr i2) \<and> i1 \<noteq> i2"
proof -
  let ?a = "ResolveUser demo_env ''alice'' [] [] ''pro'' demo_world"
  have "\<not> isl (snd ?a)" by code_simp
  from not_isl_result [OF this] obtain w1 i1 where a: "?a = (w1, Inr i1)" by blast
  have "\<not> isl (snd (ResolveUser demo_env ''bob'' [] [] [] (fst ?a)))" by code_simp
  then have "\<not> isl (snd (ResolveUser demo_env ''bob'' [] [] [] w1))" by (simp add: a)
  from not_isl_result [OF this] obtain w2 i2 where b: "ResolveUser demo_env ''bob'' [] [] [] w1 = (w2, Inr i2)"
    by blast
  have "ids_ok demo_world ''users''" by (simp add: ids_ok_def demo_world_def)
  from ResolveUser_identity [OF demo_text_conv this a b] have "i1 \<noteq> i2" by simp
  with a b show ?thesis by blast
qed

section \<open>Reporting usage\<close>

definition reported :: "Env \<Rightarrow> string \<Rightarrow> world \<Rightarrow> bool" where
  "reported e ref w \<longleftrightarrow> (\<exists>r. find_row e ''usage_events'' ref w = Some r \<and> \<not> unreported r)"

lemma MarkEventsReported_view:
  assumes tc: "text_conv e ''usage_events'' ''reference_id''"
    and nn: "\<And>s. env_conv e ''usage_events'' ''reported_at'' (GStr s) \<noteq> GNil"
    and m: "MarkEventsReported e ids t w = (w', out)"
  shows "(\<forall>ref. reported e ref w' \<longleftrightarrow> reported e ref w
            \<or> (out = None \<and> ref \<in> set ids \<and> find_row e ''usage_events'' ref w \<noteq> None))
    \<and> (out \<noteq> None \<longrightarrow> w_tables w' = w_tables w)"
proof (cases "ids = [] \<or> out \<noteq> None")
  case True
  then have "w_tables w' = w_tables w" "ids = [] \<or> out \<noteq> None"
    using m by (auto simp: MarkEventsReported_def split: if_splits option.splits)
  then show ?thesis by (auto simp: reported_def find_row_def)
next
  case False
  let ?v = "env_conv e ''usage_events'' ''reported_at'' (GStr (env_FormatTime e t))"
  let ?hit = "\<lambda>r. list_ex (\<lambda>i. where_ok e ''usage_events'' (by_ref i) r) ids"
  let ?f = "\<lambda>r. if ?hit r then r(''reported_at'' \<mapsto> ?v) else r"
  have t': "w_tables w' = (w_tables w)(''usage_events'' := map ?f (w_tables w ''usage_events''))"
    using m False by (auto simp: MarkEventsReported_def split: if_splits option.splits)
  have keep: "where_ok e ''usage_events'' (by_ref ref) (?f r) = where_ok e ''usage_events'' (by_ref ref) r" for ref r
    by (simp add: by_ref_iff [OF tc])
  have find: "find_row e ''usage_events'' ref w' = map_option ?f (find_row e ''usage_events'' ref w)" for ref
    using find_map_keep [of "where_ok e ''usage_events'' (by_ref ref)" ?f] keep by (simp add: find_row_def t')
  have hit: "?hit r \<longleftrightarrow> ref \<in> set ids" if "find_row e ''usage_events'' ref w = Some r" for ref r
    using find_row_where [OF that] by (auto simp: list_ex_iff by_ref_iff [OF tc] text_conv_inj [OF tc])
  have "reported e ref w' \<longleftrightarrow> reported e ref w \<or> (ref \<in> set ids \<and> find_row e ''usage_events'' ref w \<noteq> None)" for ref
    using find [of ref] hit [of ref] nn
    by (cases "find_row e ''usage_events'' ref w") (auto simp: reported_def unreported_def)
  then show ?thesis using False by simp
qed

lemma GetUnreportedEvents_Inr:
  assumes srt: "\<And>rs. mset (env_sort_timestamp e rs) = mset rs"
    and g: "GetUnreportedEvents e n w = (w', Inr events)"
  shows "w_tables w' = w_tables w \<and> length events \<le> nat (if n \<le> 0 then 100 else n)
    \<and> (\<forall>ev \<in> set events. \<exists>r \<in> set (w_tables w ''usage_events''). unreported r
          \<and> me_ReferenceID ev = strVal (row_get r ''reference_id''))"
proof -
  let ?n = "if n \<le> 0 then 100 else n"
  let ?rs = "take (nat ?n) (env_sort_timestamp e (filter unreported (w_tables w ''usage_events'')))"
  have ev: "events = map (row_to_event e \<circ> join_user e w) ?rs" and t: "w_tables w' = w_tables w"
    using g by (auto simp: GetUnreportedEvents_def Let_def split: option.splits)
  have "set ?rs \<subseteq> set (filter unreported (w_tables w ''usage_events''))"
    using mset_eq_setD [OF srt, of "filter unreported (w_tables w ''usage_events'')"]
      set_take_subset [of "nat ?n" "env_sort_timestamp e (filter unreported (w_tables w ''usage_events''))"]
    by simp
  then have "\<exists>r \<in> set (w_tables w ''usage_events''). unreported r
      \<and> me_ReferenceID ev = strVal (row_get r ''reference_id'')" if "ev \<in> set events" for ev
    using that by (fastforce simp: ev row_to_event_def join_user_def)
  then show ?thesis using t by (simp add: ev)
qed

text \<open>
  C30: Usage events are delivered at least once. A reporting cycle hands at most one batch to the
  billing client, of at most the configured size and only of events not yet reported. An event
  becomes reported only if it was in a batch that the client accepted, when the client
  refuses the batch no event changes, and an event that is reported stays reported; after an
  accepted batch whose marking succeeds every event of the batch is reported.
\<close>

theorem reportBatch_at_least_once:
  assumes tc: "text_conv e ''usage_events'' ''reference_id''"
    and nn: "\<And>s. env_conv e ''usage_events'' ''reported_at'' (GStr s) \<noteq> GNil"
    and srt: "\<And>rs. mset (env_sort_timestamp e rs) = mset rs"
    and rb: "reportBatch e send now r w = (w', batches)"
  shows "length batches \<le> 1
    \<and> (\<forall>b \<in> set batches. length b \<le> nat (if rc_BatchSize r \<le> 0 then 100 else rc_BatchSize r)
         \<and> (\<forall>ev \<in> set b. \<exists>row \<in> set (w_tables w ''usage_events''). unreported row
              \<and> me_ReferenceID ev = strVal (row_get row ''reference_id'')))
    \<and> (\<forall>ref. reported e ref w \<longrightarrow> reported e ref w')
    \<and> (\<forall>ref. reported e ref w' \<and> \<not> reported e ref w \<longrightarrow>
         (\<exists>b t. batches = [b] \<and> ref \<in> me_ReferenceID ` set b \<and> send t b = None))
    \<and> ((\<forall>t b. b \<in> set batches \<longrightarrow> send t b \<noteq> None) \<longrightarrow> w_tables w' = w_tables w)
    \<and> ((\<forall>t st. env_fail e t st = None) \<and> (\<forall>t. \<forall>b \<in> set batches. send t b = None) \<longrightarrow>
         (\<forall>b \<in> set batches. \<forall>ref \<in> me_ReferenceID ` set b.
            find_row e ''usage_events'' ref w \<noteq> None \<longrightarrow> reported e ref w'))"
proof -
  obtain w1 g where g: "GetUnreportedEvents e (rc_BatchSize r) w = (w1, g)" by fastforce
  show ?thesis
  proof (cases "\<exists>ev evs. g = Inr (ev # evs)")
    case False
    then have "w' = w1" "batches = []"
      using rb g by (auto simp: reportBatch_def neq_Nil_conv split: sum.splits if_splits)
    moreover have "w_tables w1 = w_tables w"
      using g by (auto simp: GetUnreportedEvents_def Let_def split: option.splits)
    ultimately show ?thesis by (auto simp: reported_def find_row_def)
  next
    case True
    then obtain events where ev: "g = Inr events" "events \<noteq> []" by blast
    note u = GetUnreportedEvents_Inr [OF srt g [unfolded ev(1)]]
    have same: "reported e ref w1 = reported e ref w" "find_row e ''usage_events'' ref w1 = find_row e ''usage_events'' ref w" for ref
      using u by (simp_all add: reported_def find_row_def)
    have b: "batches = [events]"
      using rb g ev by (auto simp: reportBatch_def split: option.splits)
    show ?thesis
    proof (cases "send (w_tick w1) events")
      case (Some err)
      then have "w' = w1" using rb g ev by (simp add: reportBatch_def)
      then show ?thesis using b u Some same by auto
    next
      case None
      obtain out where m: "MarkEventsReported e (map me_ReferenceID events) (now (w_tick w1)) w1 = (w', out)"
        using rb g ev None by (cases "MarkEventsReported e (map me_ReferenceID events) (now (w_tick w1)) w1")
          (auto simp: reportBatch_def)
      note v = MarkEventsReported_view [OF tc nn m]
      have ok: "out = None" if "\<forall>t st. env_fail e t st = None"
        using that m by (auto simp: MarkEventsReported_def split: if_splits)
      show ?thesis using b u v same None ok by (auto simp del: not_None_eq)
    qed
  qed
qed

definition billing_world :: world where
  "billing_world = demo_world\<lparr>w_tables := (w_tables demo_world)(''usage_events'' :=
     [[''id'' \<mapsto> GInt64 1, ''reference_id'' \<mapsto> GStr ''evt_1'', ''user_id'' \<mapsto> GInt64 7]])\<rparr>"

theorem reportBatch_at_least_once_witness:
  "\<exists>w' b. reportBatch demo_env (\<lambda>_ _. None) (\<lambda>_. 0) \<lparr>rc_Interval = 1, rc_BatchSize = 100\<rparr> billing_world = (w', [b])
     \<and> reported demo_env ''evt_1'' w' \<and> \<not> reported demo_env ''evt_1'' billing_world"
proof -
  let ?t = "reportBatch demo_env (\<lambda>_ _. None) (\<lambda>_. 0) \<lparr>rc_Interval = 1, rc_BatchSize = 100\<rparr> billing_world"
  obtain w' bs where t: "?t = (w', bs)" by fastforce
  have "map (map me_ReferenceID) (snd ?t) = [[''evt_1'']]" by code_simp
  with t obtain b where b: "bs = [b]" "map me_ReferenceID b = [''evt_1'']" by auto
  then obtain ev where i: "ev \<in> set b" "me_ReferenceID ev = ''evt_1''" by auto
  have f: "find_row demo_env ''usage_events'' ''evt_1'' billing_world
      = Some [''id'' \<mapsto> GInt64 1, ''reference_id'' \<mapsto> GStr ''evt_1'', ''user_id'' \<mapsto> GInt64 7]"
    by (simp add: find_row_def billing_world_def demo_world_def where_ok_def by_ref_def sql_eq_def demo_env_def
        sqlite_conv_def row_get_def)
  have nn: "env_conv demo_env ''usage_events'' ''reported_at'' (GStr s) \<noteq> GNil" for s
    by (simp add: demo_env_def sqlite_conv_def)
  have srt: "mset (env_sort_timestamp demo_env rs) = mset rs" for rs by (simp add: demo_env_def)
  have nf: "\<forall>t st. env_fail demo_env t st = None" by (simp add: demo_env_def)
  from reportBatch_at_least_once [OF demo_text_conv nn srt t] nf b(1)
  have "\<forall>ev \<in> set b. find_row demo_env ''usage_events'' (me_ReferenceID ev) billing_world \<noteq> None \<longrightarrow>
      reported demo_env (me_ReferenceID ev) w'" by simp
  from bspec [OF this i(1)] have "reported demo_env ''evt_1'' w'" by (simp add: i(2) f)
  moreover have "\<not> reported demo_env ''evt_1'' billing_world"
    using f by (simp add: reported_def unreported_def row_get_def)
  ultimately show ?thesis using t b by blast
qed

end
