(* ===== verification/Engine_Handlers.thy ===== *)
theory Engine_Handlers
  imports Engine_Queries Routing
begin

text \<open>
  \<open>internal/engine/commands.go\<close> and \<open>internal/engine/handlers.go\<close>: the command bus and the handlers
  that the state machines trigger. A handler reads and writes the store and calls the
  container orchestrator or a cloud provider, which are arguments (\<open>Deps\<close>); each such call is
  appended to the world's list of calls. Log output is not modelled.
\<close>

section \<open>Dependencies\<close>

text \<open>
  \<open>dp_nodePool\<close> is \<^const>\<open>None\<close> when no pool is configured, otherwise the answer of \<open>GetClient\<close> (an
  error text or success). Starting a deployment also yields the container events that the
  orchestrator records in the store.
\<close>

record Deps =
  dp_nodePool :: "(nat \<Rightarrow> string \<Rightarrow> string option) option"
  dp_StartDeployment ::
    "nat \<Rightarrow> string \<Rightarrow> Deployment \<Rightarrow> string \<Rightarrow> ConfigFile list \<Rightarrow> ContainerEvent list \<times> (string + ContainerInfo list)"
  dp_StopDeployment :: "nat \<Rightarrow> string \<Rightarrow> Deployment \<Rightarrow> string option"
  dp_RemoveDeployment :: "nat \<Rightarrow> string \<Rightarrow> Deployment \<Rightarrow> string option"
  dp_baseDomain :: string
  dp_encryptionKey :: string
  dp_open :: open_fn
  dp_NewProvider :: "string \<Rightarrow> string \<Rightarrow> string option"
  dp_DestroyInstance :: "nat \<Rightarrow> string \<Rightarrow> string \<Rightarrow> string \<Rightarrow> string \<Rightarrow> string option"
  dp_MarshalDomains :: "Domain list \<Rightarrow> string"
  dp_MarshalContainers :: "ContainerInfo list \<Rightarrow> string"
  dp_UnmarshalConfigFiles :: "string \<Rightarrow> ConfigFile list"
  dp_eventID :: "nat \<Rightarrow> string"
  dp_time :: "nat \<Rightarrow> time"

definition ext_log :: "ext_call \<Rightarrow> world \<Rightarrow> world" where
  "ext_log c w = (tick w)\<lparr>w_calls := w_calls w @ [c]\<rparr>"

definition em_dash :: string where "em_dash = [CHR 0xE2, CHR 0x80, CHR 0x94]"

section \<open>Helpers\<close>

definition failDeployment :: "Env \<Rightarrow> Store \<Rightarrow> string \<Rightarrow> string \<Rightarrow> world \<Rightarrow> world \<times> string option" where
  "failDeployment e s refID reason w =
     (let w1 = fst (Store_Update e s ''deployments'' refID [''error_message'' \<mapsto> GStr reason] w);
          w2 = fst (Store_Transition e s ''deployments'' refID ''failed'' w1)
      in (w2, Some (refID @ '': '' @ reason)))"

definition failProvision :: "Env \<Rightarrow> Store \<Rightarrow> string \<Rightarrow> string \<Rightarrow> world \<Rightarrow> world \<times> string option" where
  "failProvision e s refID reason w =
     (let w1 = fst (Store_Update e s ''cloud_provisions'' refID [''error_message'' \<mapsto> GStr reason] w);
          w2 = fst (Store_Transition e s ''cloud_provisions'' refID ''failed'' w1)
      in (w2, Some (refID @ '': '' @ reason)))"

definition ports_query :: string where
  "ports_query = ''SELECT proxy_port FROM deployments WHERE node_id = ? AND status NOT IN ('deleted', 'stopped') AND proxy_port IS NOT NULL''"

definition holds_port :: "Env \<Rightarrow> string \<Rightarrow> row \<Rightarrow> bool" where
  "holds_port e nodeID r \<longleftrightarrow>
     sql_eq (row_get r ''node_id'') (env_conv e ''deployments'' ''node_id'' (GStr nodeID))
     \<and> row_get r ''status'' \<noteq> GNil \<and> strVal (row_get r ''status'') \<notin> {''deleted'', ''stopped''}
     \<and> row_get r ''proxy_port'' \<noteq> GNil"

definition getUsedProxyPorts :: "Env \<Rightarrow> string \<Rightarrow> world \<Rightarrow> world \<times> (string + int list)" where
  "getUsedProxyPorts e nodeID w =
     (case env_fail e (w_tick w) (RawStmt ports_query [GStr nodeID]) of
        Some err \<Rightarrow> (tick w, Inl err)
      | None \<Rightarrow> (tick w, Inr (filter (\<lambda>p. 0 < p) (map (\<lambda>r. toInt (row_get r ''proxy_port''))
            (filter (holds_port e nodeID) (w_tables w ''deployments''))))))"

definition recordBillingEvent :: "Env \<Rightarrow> Deps \<Rightarrow> row \<Rightarrow> EventType \<Rightarrow> world \<Rightarrow> world" where
  "recordBillingEvent e d data eventType w =
     (let refID = as_string (row_get data ''reference_id''); customerID = toInt (row_get data ''customer_id'')
      in if customerID = 0 \<or> refID = [] then w
         else fst (RecordEvent e (dp_time d (w_tick w)) (dp_eventID d (w_tick w)) customerID eventType refID
                     ''deployment'' None w))"

fun record_container_events :: "Env \<Rightarrow> ContainerEvent list \<Rightarrow> world \<Rightarrow> world" where
  "record_container_events e [] w = w"
| "record_container_events e (ev # evs) w = record_container_events e evs (fst (CreateContainerEvent e ev w))"

definition config_files_of :: "Env \<Rightarrow> Deps \<Rightarrow> row \<Rightarrow> ConfigFile list" where
  "config_files_of e d tmpl =
     (case tmpl ''config_files'' of
        Some (GStr cfStr) \<Rightarrow> if cfStr \<noteq> [] then dp_UnmarshalConfigFiles d cfStr else []
      | Some (GList vs) \<Rightarrow> dp_UnmarshalConfigFiles d (json_text e (GList vs))
      | _ \<Rightarrow> [])"

section \<open>Deployment handlers\<close>

type_synonym handler = "row \<Rightarrow> world \<Rightarrow> world \<times> string option"

definition startDeployment :: "Env \<Rightarrow> Store \<Rightarrow> Deps \<Rightarrow> handler" where
  "startDeployment e s d data w =
     (let refID = as_string (row_get data ''reference_id''); nodeID = as_string (row_get data ''node_id'');
          templateID = toInt (row_get data ''template_id'')
      in case dp_nodePool d of
           None \<Rightarrow> failDeployment e s refID ''node pool not configured'' w
         | Some getClient \<Rightarrow>
             (case getClient (w_tick w) nodeID of
                Some err \<Rightarrow> failDeployment e s refID
                  (''failed to get docker client for node '' @ nodeID @ '': '' @ err) w
              | None \<Rightarrow>
                  (case Store_GetByID e s ''templates'' templateID w of
                     (w, Inl err) \<Rightarrow> failDeployment e s refID (''template not found: '' @ err) w
                   | (w, Inr tmpl) \<Rightarrow>
                       let composeSpec = as_string (row_get tmpl ''compose_spec'')
                       in if composeSpec = [] then failDeployment e s refID ''template has no compose spec'' w
                          else
                            (case dp_StartDeployment d (w_tick w) nodeID (mapToDeployment e data) composeSpec
                                    (config_files_of e d tmpl) of
                               (evs, result) \<Rightarrow>
                                 let w = record_container_events e evs (ext_log (StartContainers nodeID refID) w)
                                 in case result of
                                      Inl err \<Rightarrow> failDeployment e s refID (''failed to start containers: '' @ err) w
                                    | Inr containers \<Rightarrow>
                                        let w = fst (Store_Update e s ''deployments'' refID
                                              [''containers'' \<mapsto> GStr (dp_MarshalContainers d containers),
                                               ''started_at'' \<mapsto> GStr (env_now e (w_tick w))] w)
                                        in case Store_Transition e s ''deployments'' refID ''running'' w of
                                             (w, Inl err) \<Rightarrow> (w, None)
                                           | (w, Inr _) \<Rightarrow>
                                               (recordBillingEvent e d data EventDeploymentStarted w, None)))))"

text \<open>The proxy port a deployment is scheduled with, and the columns that scheduling sets.\<close>

definition schedule_port :: "Env \<Rightarrow> row \<Rightarrow> string \<Rightarrow> world \<Rightarrow> world \<times> int option" where
  "schedule_port e data nodeRef w =
     (let proxyPort = toInt (row_get data ''proxy_port'')
      in if proxyPort = 0
         then (case getUsedProxyPorts e nodeRef w of
                 (w, Inl err) \<Rightarrow> (w, AllocatePort [] DefaultPortRange)
               | (w, Inr used) \<Rightarrow> (w, AllocatePort used DefaultPortRange))
         else (w, Some proxyPort))"

definition schedule_updates :: "Deps \<Rightarrow> row \<Rightarrow> string \<Rightarrow> int \<Rightarrow> row" where
  "schedule_updates d data nodeRef proxyPort =
     (let domains = row_get data ''domains'';
          domains = (if domains = GNil \<and> dp_baseDomain d \<noteq> []
            then GStr (dp_MarshalDomains d [GenerateDomain (as_string (row_get data ''name'')) (dp_baseDomain d)])
            else domains);
          updates = [''node_id'' \<mapsto> GStr nodeRef, ''proxy_port'' \<mapsto> GInt proxyPort]
      in if domains \<noteq> GNil then updates(''domains'' \<mapsto> domains) else updates)"

definition scheduleDeployment :: "Env \<Rightarrow> Store \<Rightarrow> Deps \<Rightarrow> handler" where
  "scheduleDeployment e s d data w =
     (let refID = as_string (row_get data ''reference_id'');
          selectedNodeRef = as_string (row_get data ''node_id'')
      in if selectedNodeRef = []
         then failDeployment e s refID (''no node selected '' @ em_dash @ '' please select a node when deploying'') w
         else case Store_Get e s ''nodes'' selectedNodeRef w of
                (w, Inl err) \<Rightarrow> failDeployment e s refID (''selected node '' @ selectedNodeRef @ '' not found'') w
              | (w, Inr selectedNode) \<Rightarrow>
                  let nodeStatus = as_string (row_get selectedNode ''status'')
                  in if nodeStatus \<noteq> ''online''
                     then failDeployment e s refID (''selected node '' @ selectedNodeRef @ '' is '' @ nodeStatus
                            @ '', not online'') w
                     else
                       case schedule_port e data selectedNodeRef w of
                         (w, None) \<Rightarrow> (w, Some ''allocate proxy port: no available ports in range'')
                       | (w, Some proxyPort) \<Rightarrow>
                           let w = fst (Store_Update e s ''deployments'' refID
                                          (schedule_updates d data selectedNodeRef proxyPort) w)
                           in case Store_Transition e s ''deployments'' refID ''starting'' w of
                                (w, Inl err) \<Rightarrow> (w, Some (''transition to starting: '' @ err))
                              | (w, Inr (_, cmd)) \<Rightarrow>
                                  if cmd \<noteq> [] then
                                    (case Store_Get e s ''deployments'' refID w of
                                       (w, Inl _) \<Rightarrow> (w, None)
                                     | (w, Inr row) \<Rightarrow> startDeployment e s d row w)
                                  else (w, None))"

text \<open>Containers are stopped when a pool is configured, a node is set and a client is to be had.\<close>

definition reach_node :: "Deps \<Rightarrow> string \<Rightarrow> world \<Rightarrow> bool" where
  "reach_node d nodeID w \<longleftrightarrow>
     (case dp_nodePool d of None \<Rightarrow> False | Some getClient \<Rightarrow> nodeID \<noteq> [] \<and> getClient (w_tick w) nodeID = None)"

definition stopDeployment :: "Env \<Rightarrow> Store \<Rightarrow> Deps \<Rightarrow> handler" where
  "stopDeployment e s d data w =
     (let refID = as_string (row_get data ''reference_id''); nodeID = as_string (row_get data ''node_id'');
          w = (if reach_node d nodeID w then ext_log (StopContainers nodeID refID) w else w);
          w = fst (Store_Update e s ''deployments'' refID [''stopped_at'' \<mapsto> GStr (env_now e (w_tick w))] w)
      in case Store_Transition e s ''deployments'' refID ''stopped'' w of
           (w, Inl err) \<Rightarrow> (w, None)
         | (w, Inr _) \<Rightarrow> (recordBillingEvent e d data EventDeploymentStopped w, None))"

definition deleteDeployment :: "Env \<Rightarrow> Store \<Rightarrow> Deps \<Rightarrow> handler" where
  "deleteDeployment e s d data w =
     (let refID = as_string (row_get data ''reference_id''); nodeID = as_string (row_get data ''node_id'');
          w = (if reach_node d nodeID w then ext_log (RemoveContainers nodeID refID) w else w)
      in case Store_Transition e s ''deployments'' refID ''deleted'' w of
           (w, Inl err) \<Rightarrow> (w, None)
         | (w, Inr _) \<Rightarrow> (recordBillingEvent e d data EventDeploymentDeleted w, None))"

definition deploymentRunning :: handler where "deploymentRunning data w = (w, None)"
definition deploymentFailed :: handler where "deploymentFailed data w = (w, None)"

section \<open>Provision handler\<close>

definition destroyProvision :: "Env \<Rightarrow> Store \<Rightarrow> Deps \<Rightarrow> handler" where
  "destroyProvision e s d data w =
     (let refID = strVal (row_get data ''reference_id'');
          instanceID = strVal (row_get data ''provider_instance_id'')
      in if instanceID = [] then (fst (Store_Transition e s ''cloud_provisions'' refID ''destroyed'' w), None)
         else
           let providerType = strVal (row_get data ''provider''); credID = toInt (row_get data ''credential_id'')
           in if credID = 0
              then failProvision e s refID ''no credential_id on provision, cannot destroy cloud resource'' w
              else case Store_GetByID e s ''cloud_credentials'' credID w of
                     (w, Inl err) \<Rightarrow> failProvision e s refID
                       (''failed to look up credential '' @ fmt_d credID @ '': '' @ err) w
                   | (w, Inr cred) \<Rightarrow>
                       (case Decrypt (dp_open d) (strVal (row_get cred ''credentials'')) (dp_encryptionKey d) of
                          Inl err \<Rightarrow> failProvision e s refID (''failed to decrypt credentials: '' @ env_crypto_text e err) w
                        | Inr decrypted \<Rightarrow>
                            (case dp_NewProvider d providerType decrypted of
                               Some err \<Rightarrow> failProvision e s refID (''failed to create provider: '' @ err) w
                             | None \<Rightarrow>
                                 let t = w_tick w; w = ext_log (DestroyCloudInstance providerType instanceID) w
                                 in case dp_DestroyInstance d t providerType instanceID
                                           (strVal (row_get data ''instance_name'')) (strVal (row_get data ''region'')) of
                                      Some err \<Rightarrow> failProvision e s refID (''destroy instance failed: '' @ err) w
                                    | None \<Rightarrow>
                                        let w = fst (Store_Transition e s ''cloud_provisions'' refID ''destroyed'' w);
                                            nodeRefID = strVal (row_get data ''node_id'')
                                        in if nodeRefID \<noteq> []
                                           then (fst (Store_Delete e s ''nodes'' nodeRefID w), None)
                                           else (w, None))))"

section \<open>The bus\<close>

text \<open>The handlers that \<open>RegisterHandlers\<close> installs.\<close>

definition RegisterHandlers :: "Env \<Rightarrow> Store \<Rightarrow> Deps \<Rightarrow> string \<rightharpoonup> handler" where
  "RegisterHandlers e s d =
     [''ScheduleDeployment'' \<mapsto> scheduleDeployment e s d,
      ''StartDeployment'' \<mapsto> startDeployment e s d,
      ''StopDeployment'' \<mapsto> stopDeployment e s d,
      ''DeleteDeployment'' \<mapsto> deleteDeployment e s d,
      ''DeploymentRunning'' \<mapsto> deploymentRunning,
      ''DeploymentFailed'' \<mapsto> deploymentFailed,
      ''DestroyInstance'' \<mapsto> destroyProvision e s d]"

text \<open>A command without a handler is ignored.\<close>

definition Dispatch :: "(string \<rightharpoonup> handler) \<Rightarrow> string \<Rightarrow> handler" where
  "Dispatch handlers command data w =
     (case handlers command of
        None \<Rightarrow> (w, None)
      | Some handler \<Rightarrow>
          (case handler data w of
             (w, Some err) \<Rightarrow> (w, Some (''command '' @ command @ '': '' @ err))
           | (w, None) \<Rightarrow> (w, None)))"

end
