(* ===== verification/Engine_Lifecycle.thy ===== *)
theory Engine_Lifecycle
  imports Engine_Handlers
begin

text \<open>
  What any sequence of engine commands can do to the tables. The interface \<open>world_order\<close> lists the
  store operations through which the handlers of \<open>internal/engine/handlers.go\<close> change the world; every
  preorder on worlds that these operations respect is respected by each handler, by the
  bus and by every run of commands. It is interpreted by the life cycles of the state machines, by
  the columns that no handler writes and by the tables that no handler touches.
\<close>

section \<open>The interface\<close>

text \<open>The columns that the handlers and the background workers write directly.\<close>

definition handler_cols :: "string set" where
  "handler_cols = {''error_message'', ''node_id'', ''proxy_port'', ''domains'', ''containers'', ''started_at'', ''stopped_at'',
     ''provider_instance_id'', ''public_ip'', ''current_step'', ''completed_at''}"

definition machine_tables :: "string set" where
  "machine_tables = {''deployments'', ''cloud_provisions''}"

definition event_tables :: "string set" where
  "event_tables = {''usage_events'', ''container_events''}"

locale world_order =
  fixes e :: Env and s :: Store and R :: "world \<Rightarrow> world \<Rightarrow> bool"
  assumes same: "w_tables w' = w_tables w \<Longrightarrow> R w w'"
    and trans: "R w1 w2 \<Longrightarrow> R w2 w3 \<Longrightarrow> R w1 w3"
    and update: "Store_Update e s tab refID data w = (w', out) \<Longrightarrow> tab \<in> machine_tables \<Longrightarrow>
      dom data \<subseteq> handler_cols \<Longrightarrow> R w w'"
    and transition: "Store_Transition e s tab refID to w = (w', out') \<Longrightarrow> tab \<in> machine_tables \<Longrightarrow> R w w'"
    and event: "db_insert e tab r w = (w', out'') \<Longrightarrow> tab \<in> event_tables \<Longrightarrow> R w w'"
    and node: "Store_Delete e s ''nodes'' refID w = (w', err) \<Longrightarrow> R w w'"

lemma Store_GetByID_tables: "Store_GetByID e s resource ident w = (w', out) \<Longrightarrow> w_tables w' = w_tables w"
  by (auto simp: Store_GetByID_def query_row_def db_select_def tick_def
      split: option.splits prod.splits sum.splits list.splits)

lemma ext_log_tables [simp]: "w_tables (ext_log c w) = w_tables w"
  by (simp add: ext_log_def)

lemma getUsedProxyPorts_tables: "getUsedProxyPorts e n w = (w', out) \<Longrightarrow> w_tables w' = w_tables w"
  by (auto simp: getUsedProxyPorts_def split: option.splits)

text \<open>
  A run of the engine: commands with any data, in any order, and transitions requested from
  outside.
\<close>

datatype engine_op = Command string row | MoveDeployment string string | MoveProvision string string

fun engine_step :: "Env \<Rightarrow> Store \<Rightarrow> Deps \<Rightarrow> engine_op \<Rightarrow> world \<Rightarrow> world" where
  "engine_step e s d (Command c data) w = fst (Dispatch (RegisterHandlers e s d) c data w)"
| "engine_step e s d (MoveDeployment refID to) w = fst (Store_Transition e s ''deployments'' refID to w)"
| "engine_step e s d (MoveProvision refID to) w = fst (Store_Transition e s ''cloud_provisions'' refID to w)"

definition run_commands :: "Env \<Rightarrow> Store \<Rightarrow> Deps \<Rightarrow> engine_op list \<Rightarrow> world \<Rightarrow> world" where
  "run_commands e s d ops w = foldl (\<lambda>w op. engine_step e s d op w) w ops"

context world_order
begin

lemma update_fst:
  "tab \<in> machine_tables \<Longrightarrow> dom data \<subseteq> handler_cols \<Longrightarrow> R w (fst (Store_Update e s tab refID data w))"
  by (rule update [OF surjective_pairing])

lemma transition_fst: "tab \<in> machine_tables \<Longrightarrow> R w (fst (Store_Transition e s tab refID to w))"
  by (rule transition [OF surjective_pairing])

lemma get_step: "Store_Get e s tab refID w = (w', out) \<Longrightarrow> R w w'"
  using Store_Get_tables [of e s tab refID w w' out] by (intro same) blast

lemma get_id_step: "Store_GetByID e s tab ident w = (w', out) \<Longrightarrow> R w w'"
  by (intro same Store_GetByID_tables)

lemma log_step: "R w (ext_log c w)"
  by (simp add: same)

lemma refl [simp]: "R w w"
  by (rule same) simp

lemma fail_deployment: "R w (fst (failDeployment e s refID reason w))"
  unfolding failDeployment_def Let_def fst_conv
  by (rule trans [OF update_fst transition_fst]) (auto simp: machine_tables_def handler_cols_def)

lemma fail_provision: "R w (fst (failProvision e s refID reason w))"
  unfolding failProvision_def Let_def fst_conv
  by (rule trans [OF update_fst transition_fst]) (auto simp: machine_tables_def handler_cols_def)

lemma billing: "R w (recordBillingEvent e d data ev w)"
  by (auto simp: recordBillingEvent_def RecordEvent_def CreateUsageEvent_def Let_def event_tables_def
      split: prod.splits sum.splits option.splits intro: event [where tab = "''usage_events''"])

lemma container_event: "R w (fst (CreateContainerEvent e ev w))"
  by (auto simp: CreateContainerEvent_def Let_def event_tables_def
      split: prod.splits sum.splits intro: event [where tab = "''container_events''"])

lemma container_events: "R w (record_container_events e evs w)"
  by (induction evs arbitrary: w) (auto intro: trans container_event)

text \<open>Sequencing: an operation that may fail, followed by what either outcome does.\<close>

lemma and_then:
  assumes "R w (fst t)" "\<And>w1 err. R w1 (fst (f w1 err))" "\<And>w1 x. R w1 (fst (g w1 x))"
  shows "R w (fst (case t of (w, Inl err) \<Rightarrow> f w err | (w, Inr x) \<Rightarrow> g w x))"
  using assms by (cases t; cases "snd t") (auto intro: trans)

lemma after: "R w w1 \<Longrightarrow> R w1 (fst (f w1)) \<Longrightarrow> R w (fst (let w = w1 in f w))"
  by (auto simp: Let_def intro: trans)

lemma option_step:
  "(x = None \<Longrightarrow> R w (fst a)) \<Longrightarrow> (\<And>y. R w (fst (f y))) \<Longrightarrow> R w (fst (case x of None \<Rightarrow> a | Some y \<Rightarrow> f y))"
  by (cases x) auto

lemma if_step: "R w (fst a) \<Longrightarrow> R w (fst b) \<Longrightarrow> R w (fst (if c then a else b))"
  by simp

lemma pair_step: "(\<And>a b. R w (fst (f a b))) \<Longrightarrow> R w (fst (case t of (a, b) \<Rightarrow> f a b))"
  by (cases t) auto

lemma sum_step:
  "(\<And>a. R w (fst (f a))) \<Longrightarrow> (\<And>b. R w (fst (g b))) \<Longrightarrow> R w (fst (case x of Inl a \<Rightarrow> f a | Inr b \<Rightarrow> g b))"
  by (cases x) auto

lemma done_step: "R w w1 \<Longrightarrow> R w (fst (w1, x))"
  by simp

lemma get_fst: "R w (fst (Store_Get e s tab refID w))"
  by (rule get_step [OF surjective_pairing])

lemma get_id_fst: "R w (fst (Store_GetByID e s tab ident w))"
  by (rule get_id_step [OF surjective_pairing])

lemma in_tables: "''deployments'' \<in> machine_tables" "''cloud_provisions'' \<in> machine_tables"
  by (auto simp: machine_tables_def)

text \<open>The rules that follow the structure of a handler; the order matters, \<open>and_then\<close> before \<open>pair_step\<close>.\<close>

lemmas steps = and_then option_step if_step sum_step get_fst get_id_fst fail_deployment fail_provision billing
  done_step refl

lemmas moves = transition_fst [OF in_tables(1)] transition_fst [OF in_tables(2)]

lemma started:
  "R w (fst (let w = fst (Store_Update e s ''deployments'' ref
          [''containers'' \<mapsto> cs, ''started_at'' \<mapsto> now] w)
      in case Store_Transition e s ''deployments'' ref ''running'' w of
        (w, Inl err) \<Rightarrow> (w, None)
      | (w, Inr _) \<Rightarrow> (recordBillingEvent e d data EventDeploymentStarted w, None)))"
  by (rule after update_fst in_tables steps moves | simp add: handler_cols_def)+

lemma containers_started: "R w (record_container_events e evs (ext_log c w))"
  by (rule trans [OF log_step container_events])

lemma start: "R w (fst (startDeployment e s d data w))"
  unfolding startDeployment_def Let_def [of "as_string _"] Let_def [of "toInt _"]
  by (rule steps pair_step started after [OF containers_started])+

lemma port_step: "R w (fst (schedule_port e data n w))"
  by (auto simp: schedule_port_def Let_def split: prod.splits sum.splits
      dest: getUsedProxyPorts_tables intro: same)

lemma and_then_option:
  assumes "R w (fst t)" "\<And>w1. R w1 (fst (f w1))" "\<And>w1 x. R w1 (fst (g w1 x))"
  shows "R w (fst (case t of (w, None) \<Rightarrow> f w | (w, Some x) \<Rightarrow> g w x))"
  using assms by (cases t; cases "snd t") (auto intro: trans)

lemma schedule_columns: "R w (fst (Store_Update e s ''deployments'' refID (schedule_updates d data n p) w))"
  by (rule update_fst) (auto simp: in_tables schedule_updates_def Let_def handler_cols_def)

lemma schedule: "R w (fst (scheduleDeployment e s d data w))"
  unfolding scheduleDeployment_def Let_def [of "as_string _"]
  by (rule steps and_then_option port_step after [OF schedule_columns] moves pair_step start)+

lemma reached: "R w (if reach_node d n w then ext_log c w else w)"
  by (simp add: log_step)

lemma stop: "R w (fst (stopDeployment e s d data w))"
  unfolding stopDeployment_def Let_def [of "as_string _"]
  by (rule after reached update_fst in_tables steps moves | simp add: handler_cols_def)+

lemma delete: "R w (fst (deleteDeployment e s d data w))"
  unfolding deleteDeployment_def Let_def [of "as_string _"]
  by (rule after reached in_tables steps moves)+

lemma delete_node: "R w (fst (Store_Delete e s ''nodes'' refID w))"
  by (rule node [OF surjective_pairing])

lemma destroy: "R w (fst (destroyProvision e s d data w))"
  unfolding destroyProvision_def Let_def [of "strVal _"] Let_def [of "toInt _"] Let_def [of "w_tick _"]
  by (rule after steps moves delete_node log_step)+

lemma dispatch: "R w (fst (Dispatch (RegisterHandlers e s d) cmd data w))"
proof -
  have "R w (fst (h data w))" if "RegisterHandlers e s d cmd = Some h" for h
    using that start schedule stop delete destroy
    by (auto simp: RegisterHandlers_def deploymentRunning_def deploymentFailed_def split: if_splits)
  then show ?thesis by (auto simp: Dispatch_def split: option.splits prod.splits)
qed

lemma step: "R w (engine_step e s d op w)"
  by (cases op) (simp_all add: dispatch moves)

lemma run: "R w (run_commands e s d ops w)"
  unfolding run_commands_def by (induction ops arbitrary: w) (auto intro: trans step)

end

section \<open>Relations between the rows of a table\<close>

definition rows_related :: "Env \<Rightarrow> string \<Rightarrow> (row \<Rightarrow> row \<Rightarrow> bool) \<Rightarrow> world \<Rightarrow> world \<Rightarrow> bool" where
  "rows_related e tab P w w' \<longleftrightarrow> (\<forall>ref. rel_option P (find_row e tab ref w) (find_row e tab ref w'))"

lemma rows_related_same:
  "(\<And>r. P r r) \<Longrightarrow> w_tables w' tab = w_tables w tab \<Longrightarrow> rows_related e tab P w w'"
  by (auto simp: rows_related_def find_row_def intro: option.rel_refl)

lemma rows_related_trans:
  assumes "\<And>a b c. P a b \<Longrightarrow> P b c \<Longrightarrow> P a c" "rows_related e tab P w1 w2" "rows_related e tab P w2 w3"
  shows "rows_related e tab P w1 w3"
  unfolding rows_related_def
proof
  fix ref
  have "transp P" using assms(1) by (auto intro: transpI)
  then show "rel_option P (find_row e tab ref w1) (find_row e tab ref w3)"
    using assms(2,3) unfolding rows_related_def
    by (meson option.rel_transp transpD)
qed

text \<open>Updates and transitions leave every other table alone and insert or remove no row.\<close>

lemma Store_Update_other:
  "Store_Update e s tab refID data w = (w', out) \<Longrightarrow> tab' \<noteq> tab \<Longrightarrow> w_tables w' tab' = w_tables w tab'"
  by (auto simp: Store_Update_def db_update_def Let_def dest!: Store_Get_tables
      split: option.splits sum.splits prod.splits if_splits)

lemma Store_Transition_other:
  "Store_Transition e s tab refID to w = (w', out) \<Longrightarrow> tab' \<noteq> tab \<Longrightarrow> w_tables w' tab' = w_tables w tab'"
  by (auto simp: Store_Transition_def Let_def dest!: Store_Get_tables dest: Store_Update_other
      split: option.splits sum.splits prod.splits if_splits)

lemma db_insert_other: "db_insert e tab r w = (w', out) \<Longrightarrow> tab' \<noteq> tab \<Longrightarrow> w_tables w' tab' = w_tables w tab'"
  by (auto simp: db_insert_def Let_def split: option.splits if_splits)

lemma Store_Delete_other:
  "Store_Delete e s tab refID w = (w', err) \<Longrightarrow> tab' \<noteq> tab \<Longrightarrow> w_tables w' tab' = w_tables w tab'"
  by (auto simp: Store_Delete_def db_delete_def split: option.splits sum.splits prod.splits if_splits)

lemma json_loop_dom: "json_loop e fs data = Inr data' \<Longrightarrow> dom data' = dom data"
  by (induction fs arbitrary: data)
    (force simp: json_field_def bind_err_Inr row_get_def split: if_splits gval.splits sum.splits option.splits)+

definition agree_outside :: "string set \<Rightarrow> row \<Rightarrow> row \<Rightarrow> bool" where
  "agree_outside C r r' \<longleftrightarrow> (\<forall>c. c \<notin> C \<longrightarrow> row_get r' c = row_get r c)"

lemma Store_Update_rows:
  assumes up: "Store_Update e s tab refID data w = (w', out)" and tc: "text_conv e tab ''reference_id''"
  shows "rows_related e tab (agree_outside (insert ''updated_at'' (dom data))) w w'"
  using up tc
proof (cases rule: Store_Update_cases)
  case (same err)
  then show ?thesis by (intro rows_related_same) (auto simp: agree_outside_def)
next
  case (written res data' w1 r)
  have d: "dom data' \<subseteq> insert ''updated_at'' (dom data) - {''reference_id''}"
    using json_loop_dom [OF written(2)] by (auto simp: clean_update_def split: if_splits)
  then have n: "data' ''reference_id'' = None" by auto
  have a: "agree_outside (insert ''updated_at'' (dom data)) r (r ++ stored e tab data')" for r
    using d by (auto simp: agree_outside_def row_get_add stored_def split: option.splits)
  have f: "find_row e tab ref' w' = (if ref' = refID then map_option (\<lambda>r. r ++ stored e tab data') (find_row e tab ref' w)
      else find_row e tab ref' w)" for ref'
    using find_row_update [where sets = data' and refID = refID and w = w and ref' = ref', OF tc n] written(4)
    by (simp add: find_row_def)
  show ?thesis
    using a by (auto simp: rows_related_def f option.rel_map agree_outside_def intro: option.rel_refl_strong)
qed

lemma Store_Transition_rows:
  assumes tr: "Store_Transition e s tab refID to w = (w', out)"
    and sch: "st_schema s tab = Some res" and mc: "machine_col e tab res sm"
  shows "rows_related e tab (\<lambda>r r'. agree_outside {sm_Field sm, ''updated_at''} r r'
    \<and> rtranclp (CanTransition sm) (col_state sm r) (col_state sm r')) w w'"
  using tr sch mc
proof (cases rule: Store_Transition_cases)
  case (same err)
  then show ?thesis by (intro rows_related_same) (auto simp: agree_outside_def)
next
  case (moved r t)
  note fr = find_row_moved [OF mc moved(4)]
  have "agree_outside {sm_Field sm, ''updated_at''} r (moved_row e tab t sm to r)" for r
    by (auto simp: agree_outside_def moved_row_def row_get_add)
  then show ?thesis
    using moved(1,2) col_state_moved [OF mc]
    by (auto simp: rows_related_def fr agree_outside_def intro: option.rel_refl_strong)
qed

section \<open>Life cycles\<close>

text \<open>What the engine relies on: the two resources with a machine, and text columns that keep text.\<close>

definition engine_env :: "Env \<Rightarrow> Store \<Rightarrow> bool" where
  "engine_env e s \<longleftrightarrow> st_schema s ''deployments'' = Some DeploymentResource
     \<and> st_schema s ''cloud_provisions'' = Some CloudProvisionResource
     \<and> text_conv e ''deployments'' ''status'' \<and> text_conv e ''deployments'' ''reference_id''
     \<and> text_conv e ''cloud_provisions'' ''status'' \<and> text_conv e ''cloud_provisions'' ''reference_id''"

definition written_cols :: "string set" where
  "written_cols = handler_cols \<union> {''status'', ''updated_at''}"

definition row_life :: "StateMachine \<Rightarrow> row \<Rightarrow> row \<Rightarrow> bool" where
  "row_life sm r r' \<longleftrightarrow> agree_outside written_cols r r' \<and> rtranclp (CanTransition sm) (col_state sm r) (col_state sm r')"

lemma row_life_refl [simp]: "row_life sm r r"
  by (simp add: row_life_def agree_outside_def)

lemma row_life_trans: "row_life sm a b \<Longrightarrow> row_life sm b c \<Longrightarrow> row_life sm a c"
  by (auto simp: row_life_def agree_outside_def)

lemma rows_related_mono: "rows_related e tab P w w' \<Longrightarrow> (\<And>r r'. P r r' \<Longrightarrow> Q r r') \<Longrightarrow> rows_related e tab Q w w'"
  by (auto simp: rows_related_def intro: option.rel_mono_strong)

lemma agree_outside_mono: "agree_outside A r r' \<Longrightarrow> A \<subseteq> B \<Longrightarrow> agree_outside B r r'"
  by (auto simp: agree_outside_def)

lemma agree_outside_col: "agree_outside A r r' \<Longrightarrow> c \<notin> A \<Longrightarrow> row_get r' c = row_get r c"
  by (simp add: agree_outside_def)

definition engine_life :: "Env \<Rightarrow> Store \<Rightarrow> world \<Rightarrow> world \<Rightarrow> bool" where
  "engine_life e s w w' \<longleftrightarrow> (engine_env e s \<longrightarrow>
     rows_related e ''deployments'' (row_life deployment_machine) w w'
     \<and> rows_related e ''cloud_provisions'' (row_life provision_machine) w w')"

lemma update_life:
  assumes up: "Store_Update e s tab refID data w = (w', out)" "dom data \<subseteq> handler_cols"
    and tc: "text_conv e tab' ''reference_id''" and fld: "sm_Field sm = ''status''"
  shows "rows_related e tab' (row_life sm) w w'"
proof (cases "tab' = tab")
  case True
  have sub: "insert ''updated_at'' (dom data) \<subseteq> written_cols" using up(2) by (auto simp: written_cols_def)
  have ns: "''status'' \<notin> insert ''updated_at'' (dom data)" using up(2) by (auto simp: handler_cols_def)
  have "agree_outside (insert ''updated_at'' (dom data)) r r' \<Longrightarrow> row_life sm r r'" for r r'
    using agree_outside_mono [OF _ sub] agree_outside_col [OF _ ns] by (simp add: row_life_def col_state_def fld)
  moreover have "rows_related e tab' (agree_outside (insert ''updated_at'' (dom data))) w w'"
    using Store_Update_rows [OF up(1)] tc True by simp
  ultimately show ?thesis by (rule rows_related_mono [rotated])
next
  case False
  then show ?thesis using Store_Update_other [OF up(1)] by (intro rows_related_same) auto
qed

lemma transition_life:
  assumes tr: "Store_Transition e s tab refID to w = (w', out)"
    and sch: "st_schema s tab' = Some res" and mc: "machine_col e tab' res sm" and fld: "sm_Field sm = ''status''"
  shows "rows_related e tab' (row_life sm) w w'"
proof (cases "tab' = tab")
  case True
  have "rows_related e tab' (\<lambda>r r'. agree_outside {sm_Field sm, ''updated_at''} r r'
      \<and> rtranclp (CanTransition sm) (col_state sm r) (col_state sm r')) w w'"
    using Store_Transition_rows [OF tr, of res sm] sch mc True by simp
  then show ?thesis
    by (rule rows_related_mono) (auto simp: row_life_def agree_outside_def written_cols_def fld)
next
  case False
  then show ?thesis using Store_Transition_other [OF tr] by (intro rows_related_same) auto
qed

lemma machine_status_field: "sm_Field deployment_machine = ''status''" "sm_Field provision_machine = ''status''"
  by (simp_all add: deployment_machine_def provision_machine_def)

interpretation life: world_order e s "engine_life e s" for e s
proof
  fix w w' :: world assume "w_tables w' = w_tables w"
  then show "engine_life e s w w'" by (auto simp: engine_life_def intro: rows_related_same)
next
  fix w1 w2 w3 :: world assume "engine_life e s w1 w2" "engine_life e s w2 w3"
  then show "engine_life e s w1 w3"
    by (auto simp: engine_life_def intro: rows_related_trans [OF row_life_trans])
next
  fix tab refID data out and w w' :: world
  assume "Store_Update e s tab refID data w = (w', out)" "tab \<in> machine_tables" "dom data \<subseteq> handler_cols"
  then show "engine_life e s w w'"
    by (auto simp: engine_life_def engine_env_def machine_status_field intro: update_life)
next
  fix tab refID to out and w w' :: world
  assume "Store_Transition e s tab refID to w = (w', out)"
  then show "engine_life e s w w'"
    using transition_life [OF _ _ deployment_machine_col machine_status_field(1)]
      transition_life [OF _ _ provision_machine_col machine_status_field(2)]
    by (auto simp: engine_life_def engine_env_def)
next
  fix tab r out and w w' :: world assume "db_insert e tab r w = (w', out)" "tab \<in> event_tables"
  then show "engine_life e s w w'"
    using db_insert_other [of e tab r w w' out "''deployments''"] db_insert_other [of e tab r w w' out "''cloud_provisions''"]
    by (auto simp: engine_life_def event_tables_def intro: rows_related_same)
next
  fix refID err and w w' :: world assume "Store_Delete e s ''nodes'' refID w = (w', err)"
  then show "engine_life e s w w'"
    using Store_Delete_other [of e s "''nodes''" refID w w' err "''deployments''"]
      Store_Delete_other [of e s "''nodes''" refID w w' err "''cloud_provisions''"]
    by (auto simp: engine_life_def intro: rows_related_same)
qed

section \<open>Tables\<close>

text \<open>What may happen to the contents of each table.\<close>

definition table_frame :: "world \<Rightarrow> world \<Rightarrow> bool" where
  "table_frame w w' \<longleftrightarrow>
     (\<forall>tab. tab \<notin> machine_tables \<union> event_tables \<union> {''nodes''} \<longrightarrow> w_tables w' tab = w_tables w tab)
     \<and> (\<forall>tab \<in> event_tables. \<exists>rs. w_tables w' tab = w_tables w tab @ rs)
     \<and> (\<forall>tab \<in> machine_tables. length (w_tables w' tab) = length (w_tables w tab))
     \<and> set (w_tables w' ''nodes'') \<subseteq> set (w_tables w ''nodes'')"

lemma table_names:
  "tab \<in> machine_tables \<Longrightarrow> tab \<notin> event_tables \<and> tab \<noteq> ''nodes''" "''nodes'' \<notin> event_tables"
  by (auto simp: machine_tables_def event_tables_def)

lemma Store_Update_length:
  "Store_Update e s tab refID data w = (w', out) \<Longrightarrow> length (w_tables w' tab') = length (w_tables w tab')"
  by (auto simp: Store_Update_def db_update_def Let_def dest!: Store_Get_tables
      split: option.splits sum.splits prod.splits if_splits)

lemma Store_Transition_length:
  "Store_Transition e s tab refID to w = (w', out) \<Longrightarrow> length (w_tables w' tab') = length (w_tables w tab')"
  by (auto simp: Store_Transition_def Let_def dest!: Store_Get_tables Store_Update_length
      split: option.splits sum.splits prod.splits if_splits)

lemma table_frame_trans: "table_frame w1 w2 \<Longrightarrow> table_frame w2 w3 \<Longrightarrow> table_frame w1 w3"
  by (fastforce simp: table_frame_def)

lemma table_frame_tick: "table_frame w (tick w)"
  by (simp add: table_frame_def)

lemma table_frame_machine:
  assumes "tab \<in> machine_tables" "\<And>tab'. tab' \<noteq> tab \<Longrightarrow> w_tables w' tab' = w_tables w tab'"
    "length (w_tables w' tab) = length (w_tables w tab)"
  shows "table_frame w w'"
proof -
  have "w_tables w' tab' = w_tables w tab'" if "tab' \<in> event_tables \<or> tab' = ''nodes'' \<or> tab' \<notin> machine_tables" for tab'
    using assms(1,2) table_names(1) [of tab] that by (cases "tab' = tab") auto
  moreover have "length (w_tables w' tab') = length (w_tables w tab')" for tab'
    using assms(2,3) by (cases "tab' = tab") auto
  ultimately show ?thesis by (auto simp: table_frame_def)
qed

lemma table_frame_insert:
  assumes "tab \<in> event_tables" "w_tables w' = (w_tables w)(tab := w_tables w tab @ rs)"
  shows "table_frame w w'"
  using assms table_names by (auto simp: table_frame_def)

interpretation frame: world_order e s table_frame for e s
proof
  fix w w' :: world assume "w_tables w' = w_tables w"
  then show "table_frame w w'" by (simp add: table_frame_def)
next
  fix w1 w2 w3 :: world assume "table_frame w1 w2" "table_frame w2 w3"
  then show "table_frame w1 w3" by (rule table_frame_trans)
next
  fix tab refID data out and w w' :: world
  assume "Store_Update e s tab refID data w = (w', out)" "tab \<in> machine_tables"
  then show "table_frame w w'"
    by (intro table_frame_machine) (auto dest: Store_Update_other Store_Update_length)
next
  fix tab refID to out and w w' :: world
  assume "Store_Transition e s tab refID to w = (w', out)" "tab \<in> machine_tables"
  then show "table_frame w w'"
    by (intro table_frame_machine) (auto dest: Store_Transition_other Store_Transition_length)
next
  fix tab r out and w w' :: world assume "db_insert e tab r w = (w', out)" "tab \<in> event_tables"
  then show "table_frame w w'"
    by (auto simp: db_insert_def Let_def table_frame_tick table_frame_insert split: option.splits if_splits)
next
  fix refID err and w w' :: world assume "Store_Delete e s ''nodes'' refID w = (w', err)"
  then show "table_frame w w'"
    by (auto simp: table_frame_def machine_tables_def event_tables_def Store_Delete_def db_delete_def
        split: option.splits sum.splits prod.splits if_splits)
qed

section \<open>Runs of the engine\<close>

lemma deleted_final: "rtranclp (CanTransition deployment_machine) ''deleted'' b \<Longrightarrow> b = ''deleted''"
  by (rule edsm.reach_terminal) (simp_all add: deployment_machine_def CanTransition_def)

lemma destroyed_final: "rtranclp (CanTransition provision_machine) ''destroyed'' b \<Longrightarrow> b = ''destroyed''"
  by (rule epsm.reach_terminal) (simp_all add: provision_machine_def CanTransition_def)

text \<open>Identity and ownership columns, which no handler writes.\<close>

definition identity_cols :: "string list" where
  "identity_cols = [''id'', ''reference_id'', ''name'', ''customer_id'', ''creator_id'', ''template_id'', ''variables'',
     ''credential_id'', ''provider'', ''created_at'']"

lemma identity_not_written: "c \<in> set identity_cols \<Longrightarrow> c \<notin> written_cols"
  by (auto simp: identity_cols_def written_cols_def handler_cols_def)

lemma row_life_facts:
  assumes "row_life sm r r'"
  shows "rtranclp (CanTransition sm) (col_state sm r) (col_state sm r')"
    and "\<forall>c \<in> set identity_cols. row_get r' c = row_get r c"
  using assms agree_outside_col identity_not_written by (auto simp: row_life_def)

lemma row_life_final:
  "row_life deployment_machine r r' \<Longrightarrow> col_state deployment_machine r = ''deleted'' \<Longrightarrow>
     col_state deployment_machine r' = ''deleted''"
  "row_life provision_machine r r' \<Longrightarrow> col_state provision_machine r = ''destroyed'' \<Longrightarrow>
     col_state provision_machine r' = ''destroyed''"
  using deleted_final destroyed_final by (auto simp: row_life_def)

text \<open>
  Whatever commands the engine executes, in whatever order and with whatever data, and
  whatever transitions are requested in between, and however the database, the containers
  and the cloud answer: every deployment and every provisioning job keeps existing with its
  identity and owner, its status moves only along the table of its machine, so a deleted deployment and a
  destroyed instance stay so, and no deployment appears. Templates, users, keys, credentials
  and invoices are untouched and usage events are only ever appended.
\<close>

theorem engine_run_lifecycle:
  assumes env: "engine_env e s" and w': "w' = run_commands e s d ops w"
  shows "(\<forall>ref. case find_row e ''deployments'' ref w of
        None \<Rightarrow> find_row e ''deployments'' ref w' = None
      | Some r \<Rightarrow> \<exists>r'. find_row e ''deployments'' ref w' = Some r'
          \<and> rtranclp (CanTransition deployment_machine) (col_state deployment_machine r) (col_state deployment_machine r')
          \<and> (col_state deployment_machine r = ''deleted'' \<longrightarrow> col_state deployment_machine r' = ''deleted'')
          \<and> (\<forall>c \<in> set identity_cols. row_get r' c = row_get r c))
    \<and> (\<forall>ref r. find_row e ''cloud_provisions'' ref w = Some r \<longrightarrow>
         (\<exists>r'. find_row e ''cloud_provisions'' ref w' = Some r'
          \<and> rtranclp (CanTransition provision_machine) (col_state provision_machine r) (col_state provision_machine r')
          \<and> (col_state provision_machine r = ''destroyed'' \<longrightarrow> col_state provision_machine r' = ''destroyed'')
          \<and> (\<forall>c \<in> set identity_cols. row_get r' c = row_get r c)))
    \<and> (\<forall>tab \<in> {''templates'', ''users'', ''ssh_keys'', ''cloud_credentials'', ''invoices''}. w_tables w' tab = w_tables w tab)
    \<and> (\<exists>rs. w_tables w' ''usage_events'' = w_tables w ''usage_events'' @ rs)"
proof -
  have dep: "rel_option (row_life deployment_machine) (find_row e ''deployments'' ref w) (find_row e ''deployments'' ref w')"
    and prov: "rel_option (row_life provision_machine) (find_row e ''cloud_provisions'' ref w)
      (find_row e ''cloud_provisions'' ref w')" for ref
    using life.run [where e = e and s = s and d = d and ops = ops and w = w] env w'
    by (auto simp: engine_life_def rows_related_def)
  have fr: "table_frame w w'" unfolding w' by (rule frame.run)
  have d: "case find_row e ''deployments'' ref w of
        None \<Rightarrow> find_row e ''deployments'' ref w' = None
      | Some r \<Rightarrow> \<exists>r'. find_row e ''deployments'' ref w' = Some r'
          \<and> rtranclp (CanTransition deployment_machine) (col_state deployment_machine r) (col_state deployment_machine r')
          \<and> (col_state deployment_machine r = ''deleted'' \<longrightarrow> col_state deployment_machine r' = ''deleted'')
          \<and> (\<forall>c \<in> set identity_cols. row_get r' c = row_get r c)" for ref
    using dep [of ref] row_life_facts [where sm = deployment_machine]
    by (cases "find_row e ''deployments'' ref w"; cases "find_row e ''deployments'' ref w'") (auto dest: row_life_final)
  have p: "\<exists>r'. find_row e ''cloud_provisions'' ref w' = Some r'
          \<and> rtranclp (CanTransition provision_machine) (col_state provision_machine r) (col_state provision_machine r')
          \<and> (col_state provision_machine r = ''destroyed'' \<longrightarrow> col_state provision_machine r' = ''destroyed'')
          \<and> (\<forall>c \<in> set identity_cols. row_get r' c = row_get r c)"
    if "find_row e ''cloud_provisions'' ref w = Some r" for ref r
    using prov [of ref] that row_life_facts [where sm = provision_machine]
    by (cases "find_row e ''cloud_provisions'' ref w'") (auto dest: row_life_final)
  have t: "w_tables w' tab = w_tables w tab"
    if "tab \<in> {''templates'', ''users'', ''ssh_keys'', ''cloud_credentials'', ''invoices''}" for tab
  proof -
    from that have "tab \<notin> machine_tables \<union> event_tables \<union> {''nodes''}"
      by (auto simp: machine_tables_def event_tables_def)
    then show ?thesis using fr unfolding table_frame_def by blast
  qed
  have u: "\<exists>rs. w_tables w' ''usage_events'' = w_tables w ''usage_events'' @ rs"
    using fr unfolding table_frame_def event_tables_def by blast
  from d p t u show ?thesis by blast
qed

definition life_store :: Store where
  "life_store = demo_store\<lparr>st_schema := (st_schema demo_store)(''cloud_provisions'' \<mapsto> CloudProvisionResource,
     ''templates'' \<mapsto> TemplateResource (\<lambda>s. s))\<rparr>"

definition demo_deps :: Deps where
  "demo_deps = \<lparr>dp_nodePool = None, dp_StartDeployment = (\<lambda>_ _ _ _ _. ([], Inr [])), dp_StopDeployment = (\<lambda>_ _ _. None),
     dp_RemoveDeployment = (\<lambda>_ _ _. None), dp_baseDomain = ''apps.example.com'', dp_encryptionKey = [],
     dp_open = tag_open, dp_NewProvider = (\<lambda>_ _. None), dp_DestroyInstance = (\<lambda>_ _ _ _ _. None),
     dp_MarshalDomains = (\<lambda>_. ''[]''), dp_MarshalContainers = (\<lambda>_. ''[]''), dp_UnmarshalConfigFiles = (\<lambda>_. []),
     dp_eventID = (\<lambda>_. ''evt_1''), dp_time = (\<lambda>_. 0)\<rparr>"

lemma life_store_env: "engine_env demo_env life_store"
  by (simp add: engine_env_def life_store_def demo_store_def demo_text_conv)

lemma demo_find_row:
  "find_row demo_env ''deployments'' ''d1'' demo_world = Some (demo_deployment ''d1'' ''scheduled'' (GInt64 30000))"
  by (simp add: find_row_def demo_world_def where_ok_def by_ref_def sql_eq_def demo_env_def sqlite_conv_def
      demo_deployment_def row_get_def)

theorem engine_run_lifecycle_witness:
  "\<exists>r'. find_row demo_env ''deployments'' ''d1'' (run_commands demo_env life_store demo_deps
        [Command ''ScheduleDeployment'' (demo_deployment ''d1'' ''scheduled'' (GInt64 30000)),
         MoveDeployment ''d1'' ''stopping'', Command ''StopDeployment'' [''reference_id'' \<mapsto> GStr ''d1'']] demo_world) = Some r'
     \<and> row_get r' ''customer_id'' = GInt64 7"
proof -
  let ?w = "run_commands demo_env life_store demo_deps
        [Command ''ScheduleDeployment'' (demo_deployment ''d1'' ''scheduled'' (GInt64 30000)),
         MoveDeployment ''d1'' ''stopping'', Command ''StopDeployment'' [''reference_id'' \<mapsto> GStr ''d1'']] demo_world"
  have "case find_row demo_env ''deployments'' ''d1'' demo_world of
        None \<Rightarrow> find_row demo_env ''deployments'' ''d1'' ?w = None
      | Some r \<Rightarrow> \<exists>r'. find_row demo_env ''deployments'' ''d1'' ?w = Some r'
          \<and> rtranclp (CanTransition deployment_machine) (col_state deployment_machine r) (col_state deployment_machine r')
          \<and> (col_state deployment_machine r = ''deleted'' \<longrightarrow> col_state deployment_machine r' = ''deleted'')
          \<and> (\<forall>c \<in> set identity_cols. row_get r' c = row_get r c)"
    using engine_run_lifecycle [OF life_store_env refl] by blast
  then obtain r' where "find_row demo_env ''deployments'' ''d1'' ?w = Some r'"
    "\<forall>c \<in> set identity_cols. row_get r' c = row_get (demo_deployment ''d1'' ''scheduled'' (GInt64 30000)) c"
    by (auto simp: demo_find_row)
  then show ?thesis by (auto simp: identity_cols_def demo_deployment_def row_get_def)
qed

section \<open>A scheduling failure\<close>

lemma as_string_simps: "as_string (GStr x) = x" "as_string GNil = []"
  by (simp_all add: as_string_def)

lemma update_keeps_status:
  assumes "engine_env e s" "dom data \<subseteq> handler_cols"
    "find_row e ''deployments'' ref w = Some r"
  shows "\<exists>r'. find_row e ''deployments'' ref (fst (Store_Update e s ''deployments'' refID data w)) = Some r'
    \<and> col_state deployment_machine r' = col_state deployment_machine r"
proof -
  have tc: "text_conv e ''deployments'' ''reference_id''" using assms(1) by (simp add: engine_env_def)
  have ns: "''status'' \<notin> insert ''updated_at'' (dom data)" using assms(2) by (auto simp: handler_cols_def)
  have "rel_option (agree_outside (insert ''updated_at'' (dom data))) (Some r)
      (find_row e ''deployments'' ref (fst (Store_Update e s ''deployments'' refID data w)))"
    using Store_Update_rows [where s = s and refID = refID and data = data and w = w, OF surjective_pairing tc] assms(3)
    by (simp add: rows_related_def) metis
  then show ?thesis using agree_outside_col [OF _ ns]
    by (auto simp: option_rel_Some1 col_state_def machine_status_field)
qed

lemma refused_transition:
  assumes env: "engine_env e s" and r: "find_row e ''deployments'' ref w = Some r"
    and no: "\<not> CanTransition deployment_machine (col_state deployment_machine r) to"
  shows "w_tables (fst (Store_Transition e s ''deployments'' ref to w)) = w_tables w"
proof -
  have sch: "st_schema s ''deployments'' = Some DeploymentResource"
    and mc: "machine_col e ''deployments'' DeploymentResource deployment_machine"
    using env by (auto simp: engine_env_def intro: deployment_machine_col)
  obtain w' out where t: "Store_Transition e s ''deployments'' ref to w = (w', out)" by fastforce
  from t sch mc show ?thesis
    using no r t by (cases rule: Store_Transition_cases) auto
qed

lemma failDeployment_unfailable:
  assumes env: "engine_env e s" and r: "find_row e ''deployments'' ref w = Some r"
    and no: "\<not> CanTransition deployment_machine (col_state deployment_machine r) ''failed''"
  shows "\<exists>r'. find_row e ''deployments'' ref (fst (failDeployment e s ref reason w)) = Some r'
    \<and> col_state deployment_machine r' = col_state deployment_machine r"
proof -
  let ?w1 = "fst (Store_Update e s ''deployments'' ref [''error_message'' \<mapsto> GStr reason] w)"
  from update_keeps_status [OF env _ r, of "[''error_message'' \<mapsto> GStr reason]"]
  obtain r1 where r1: "find_row e ''deployments'' ref ?w1 = Some r1"
    "col_state deployment_machine r1 = col_state deployment_machine r" by (auto simp: handler_cols_def)
  with no have "\<not> CanTransition deployment_machine (col_state deployment_machine r1) ''failed''" by simp
  from refused_transition [OF env r1(1) this] r1 show ?thesis
    by (auto simp: failDeployment_def Let_def find_row_def)
qed

text \<open>
  A deployment whose scheduling fails because no node was selected, or because the selected node is
  unknown, cannot be read or is not online, is not marked as failed: the table has no
  transition from \<open>scheduled\<close> to \<open>failed\<close>, so \<open>failDeployment\<close> is refused and the row stays
  \<open>scheduled\<close>. The handler does report an error.
\<close>

theorem schedule_failure_stays_scheduled:
  assumes env: "engine_env e s" and r: "find_row e ''deployments'' ref w = Some r"
    and st: "col_state deployment_machine r = ''scheduled''" and data: "row_get data ''reference_id'' = GStr ref"
    and bad: "as_string (row_get data ''node_id'') = []
      \<or> (\<forall>node. snd (Store_Get e s ''nodes'' (as_string (row_get data ''node_id'')) w) = Inr node
           \<longrightarrow> as_string (row_get node ''status'') \<noteq> ''online'')"
    and run: "scheduleDeployment e s d data w = (w', err)"
  shows "err \<noteq> None \<and> (\<exists>r'. find_row e ''deployments'' ref w' = Some r'
    \<and> col_state deployment_machine r' = ''scheduled'')"
proof -
  let ?node = "as_string (row_get data ''node_id'')"
  obtain w1 g where g: "Store_Get e s ''nodes'' ?node w = (w1, g)" by (cases "Store_Get e s ''nodes'' ?node w")
  have r1: "find_row e ''deployments'' ref w1 = Some r"
    using Store_Get_tables [OF g] r by (simp add: find_row_def)
  have no: "\<not> CanTransition deployment_machine (col_state deployment_machine r) ''failed''"
    unfolding st by (simp add: CanTransition_def deployment_machine_def)
  have "\<exists>w2 reason. (w2 = w \<or> w2 = w1) \<and> failDeployment e s ref reason w2 = (w', err)"
    using run bad g data
    by (cases "?node = []"; cases g) (auto simp: scheduleDeployment_def Let_def as_string_simps)
  then obtain w2 reason where w2: "w2 = w \<or> w2 = w1" and f: "failDeployment e s ref reason w2 = (w', err)" by blast
  have r2: "find_row e ''deployments'' ref w2 = Some r" using w2 r r1 by auto
  have "err \<noteq> None" using f by (auto simp: failDeployment_def Let_def)
  moreover have "w' = fst (failDeployment e s ref reason w2)" using f by simp
  ultimately show ?thesis using failDeployment_unfailable [OF env r2 no] st by auto
qed

theorem schedule_failure_stays_scheduled_witness:
  "\<exists>r'. find_row demo_env ''deployments'' ''d1'' (fst (scheduleDeployment demo_env life_store demo_deps
       [''reference_id'' \<mapsto> GStr ''d1''] demo_world)) = Some r' \<and> col_state deployment_machine r' = ''scheduled''"
proof -
  let ?t = "scheduleDeployment demo_env life_store demo_deps [''reference_id'' \<mapsto> GStr ''d1''] demo_world"
  have "col_state deployment_machine (demo_deployment ''d1'' ''scheduled'' (GInt64 30000)) = ''scheduled''" by code_simp
  from schedule_failure_stays_scheduled [OF life_store_env demo_find_row this _ _ surjective_pairing]
  show ?thesis by (simp add: row_get_def as_string_def)
qed

section \<open>The proxy port\<close>

text \<open>
  The port that scheduling chooses for a deployment without one is the least port of the range
  that no deployment on the node holds, counting every deployment with a port whose status is
  neither \<open>deleted\<close> nor \<open>stopped\<close>; it fails exactly when all ports of the range are held. A stopped
  deployment keeps its port in its row, and that port counts as free.
\<close>

theorem schedule_port_least:
  assumes new: "toInt (row_get data ''proxy_port'') = 0"
    and ok: "env_fail e (w_tick w) (RawStmt ports_query [GStr node]) = None"
    and held: "held = (\<lambda>p. \<exists>r \<in> set (w_tables w ''deployments''). holds_port e node r \<and> toInt (row_get r ''proxy_port'') = p)"
  shows "(case snd (schedule_port e data node w) of
      Some p \<Rightarrow> ValidatePort p DefaultPortRange \<and> \<not> held p \<and> (\<forall>q. ValidatePort q DefaultPortRange \<and> \<not> held q \<longrightarrow> p \<le> q)
    | None \<Rightarrow> (\<forall>q. ValidatePort q DefaultPortRange \<longrightarrow> held q))
    \<and> (\<forall>r p. strVal (row_get r ''status'') = ''stopped'' \<and> (\<forall>r' \<in> set (w_tables w ''deployments'') - {r}. holds_port e node r'
            \<longrightarrow> toInt (row_get r' ''proxy_port'') \<noteq> p) \<longrightarrow> \<not> held p)"
proof -
  define us where "us = filter (\<lambda>p. 0 < p) (map (\<lambda>r. toInt (row_get r ''proxy_port''))
            (filter (holds_port e node) (w_tables w ''deployments'')))"
  have us: "p \<in> set us \<longleftrightarrow> held p" if "ValidatePort p DefaultPortRange" for p
    using that by (auto simp: us_def held ValidatePort_def DefaultPortRange_def)
  have s: "snd (schedule_port e data node w) = AllocatePort us DefaultPortRange"
    using new ok by (simp add: schedule_port_def getUsedProxyPorts_def us_def)
  have alloc: "case AllocatePort us DefaultPortRange of
      Some p \<Rightarrow> ValidatePort p DefaultPortRange \<and> \<not> held p \<and> (\<forall>q. ValidatePort q DefaultPortRange \<and> \<not> held q \<longrightarrow> p \<le> q)
    | None \<Rightarrow> (\<forall>q. ValidatePort q DefaultPortRange \<longrightarrow> held q)"
  proof (cases "AllocatePort us DefaultPortRange")
    case None
    then show ?thesis
      using AllocatePort_result [where us = us and prange = DefaultPortRange] us by (simp add: ValidatePort_def)
  next
    case (Some p)
    then have p: "ValidatePort p DefaultPortRange" "p \<notin> set us"
      "\<And>q. pr_Start DefaultPortRange \<le> q \<Longrightarrow> q < p \<Longrightarrow> q \<in> set us"
      using AllocatePort_result [where us = us and prange = DefaultPortRange] by (auto simp: ValidatePort_def)
    then have "p \<le> q" if "ValidatePort q DefaultPortRange" "\<not> held q" for q
      using that us [of q] by (meson ValidatePort_def not_le)
    then show ?thesis using Some p us [of p] by simp
  qed
  have "\<not> holds_port e node r" if "strVal (row_get r ''status'') = ''stopped''" for r
    using that by (simp add: holds_port_def)
  then have "\<not> held p" if "strVal (row_get r ''status'') = ''stopped''"
    "\<forall>r' \<in> set (w_tables w ''deployments'') - {r}. holds_port e node r' \<longrightarrow> toInt (row_get r' ''proxy_port'') \<noteq> p" for r p
    using that unfolding held by blast
  with alloc show ?thesis unfolding s by blast
qed

definition stopped_world :: world where
  "stopped_world = demo_world\<lparr>w_tables := (w_tables demo_world)
     (''deployments'' := [demo_deployment ''d1'' ''stopped'' (GInt64 30000)])\<rparr>"

theorem schedule_port_least_witness:
  "snd (schedule_port demo_env Map.empty ''node_1'' stopped_world) = Some 30000
   \<and> (\<exists>r \<in> set (w_tables stopped_world ''deployments''). row_get r ''node_id'' = GStr ''node_1''
        \<and> row_get r ''proxy_port'' = GInt64 30000)
   \<and> ValidatePort 30000 DefaultPortRange"
proof -
  have n: "toInt (row_get Map.empty ''proxy_port'') = 0" by code_simp
  have f: "env_fail demo_env (w_tick stopped_world) (RawStmt ports_query [GStr ''node_1'']) = None"
    by (simp add: demo_env_def)
  have p: "snd (schedule_port demo_env Map.empty ''node_1'' stopped_world) = Some 30000" by code_simp
  show ?thesis using schedule_port_least [OF n f refl] p
    by (simp add: stopped_world_def demo_deployment_def row_get_def)
qed

end
