(* ===== verification/Engine_API.thy ===== *)
theory Engine_API
  imports Engine_Handlers Compose
begin

text \<open>
  \<open>internal/engine/auth_bridge.go\<close> and \<open>internal/engine/api.go\<close>: authentication of a request and the generic JSON:API
  handlers. A handler takes a request and the world and returns the new world and a response.
  The parts of a request that other libraries compute are its fields: path variables, the parsed
  query, headers, and the outcomes of decoding the body. JSON encoding of a response and log output
  are not modelled.
\<close>

section \<open>Requests and responses\<close>

text \<open>
  \<open>rq_query\<close> lists the keys in the order in which \<open>range\<close> visits them. \<open>rq_attributes\<close> is the
  decoder's error, or the attributes of the body, \<^const>\<open>None\<close> for \<open>nil\<close>. \<open>rq_object\<close> is the outcome of decoding
  the body as a plain object: the decoder's error, if any, and the text members it filled in, empty when absent.
\<close>

record Request =
  rq_method :: string
  rq_header :: "string \<Rightarrow> string"
  rq_id :: string
  rq_state :: string
  rq_query :: "(string \<times> string list) list"
  rq_attributes :: "string + (string \<times> gval) list option"
  rq_object :: "string option \<times> (string \<Rightarrow> string)"
  rq_auth :: "AuthContext option"

record jsonapi =
  ja_type :: string
  ja_id :: string
  ja_attributes :: row

datatype resp_body =
    RespError string
  | RespData jsonapi
  | RespList "jsonapi list" int int int
  | RespValue gval
  | RespEmpty

record Response =
  rs_status :: int
  rs_body :: resp_body

definition writeError :: "int \<Rightarrow> string \<Rightarrow> Response" where
  "writeError status detail = \<lparr>rs_status = status, rs_body = RespError detail\<rparr>"

definition writeJSON :: "int \<Rightarrow> resp_body \<Rightarrow> Response" where
  "writeJSON status v = \<lparr>rs_status = status, rs_body = v\<rparr>"

type_synonym http_handler = "Request \<Rightarrow> world \<Rightarrow> world \<times> Response"

definition query_Get :: "(string \<times> string list) list \<Rightarrow> string \<Rightarrow> string" where
  "query_Get q key = (case map_of q key of Some (v # _) \<Rightarrow> v | _ \<Rightarrow> [])"

section \<open>Authentication\<close>

definition AuthFromRequest :: "Request \<Rightarrow> AuthContext" where
  "AuthFromRequest r = (case rq_auth r of Some ac \<Rightarrow> ac | None \<Rightarrow> zero_AuthContext)"

definition WithAuth :: "AuthContext \<Rightarrow> Request \<Rightarrow> Request" where
  "WithAuth ac r = r\<lparr>rq_auth := Some ac\<rparr>"

definition getAuthContext :: "Request \<Rightarrow> AuthContext" where
  "getAuthContext r = AuthFromRequest r"

record jwtClaims =
  jc_UserID :: string
  jc_PlanID :: string
  jc_Exp :: int

definition engine_DefaultPlanLimits :: "string \<Rightarrow> engine_PlanLimits" where
  "engine_DefaultPlanLimits planID =
     (if planID = ''free'' then zero_PlanLimits\<lparr>pl_MaxDeployments := 1, pl_MaxCPUCores := Fin 1,
        pl_MaxMemoryMB := 1024, pl_MaxDiskMB := 5120\<rparr>
      else if planID = ''starter'' then zero_PlanLimits\<lparr>pl_MaxDeployments := 5, pl_MaxCPUCores := Fin 4,
        pl_MaxMemoryMB := 4096, pl_MaxDiskMB := 20480\<rparr>
      else if planID = ''pro'' then zero_PlanLimits\<lparr>pl_MaxDeployments := 20, pl_MaxCPUCores := Fin 16,
        pl_MaxMemoryMB := 16384, pl_MaxDiskMB := 102400\<rparr>
      else zero_PlanLimits)"

text \<open>\<open>json.Unmarshal\<close> into the two structures and the clock (in seconds) are arguments.\<close>

record auth_lib =
  al_claims :: "string \<Rightarrow> jwtClaims option"
  al_limits :: "string \<Rightarrow> engine_PlanLimits option"
  al_unix :: "nat \<Rightarrow> int"

definition parseJWTClaims :: "auth_lib \<Rightarrow> int \<Rightarrow> Request \<Rightarrow> jwtClaims option" where
  "parseJWTClaims al now r =
     (let auth = rq_header r ''Authorization''
      in if \<not> HasPrefix auth ''Bearer '' then None
         else let parts = SplitByte CHR ''.'' (TrimPrefix auth ''Bearer '')
              in if length parts \<noteq> 3 then None
                 else case RawURLEncoding_DecodeString (parts ! 1) of
                        None \<Rightarrow> None
                      | Some payload \<Rightarrow>
                          (case al_claims al payload of
                             None \<Rightarrow> None
                           | Some claims \<Rightarrow>
                               if 0 < jc_Exp claims \<and> jc_Exp claims < now then None
                               else if jc_UserID claims = [] then None else Some claims))"

definition AuthMiddleware :: "Env \<Rightarrow> auth_lib \<Rightarrow> string \<Rightarrow> http_handler \<Rightarrow> http_handler" where
  "AuthMiddleware e al sharedSecret next r w =
     (if sharedSecret \<noteq> [] \<and> rq_header r ''X-APIGate-Secret'' \<noteq> sharedSecret
      then (w, writeError 403 ''invalid gateway secret'')
      else
        let referenceID = rq_header r ''X-User-ID''; planID = rq_header r ''X-Plan-ID'';
            (referenceID, planID) =
              (if referenceID = []
               then (case parseJWTClaims al (al_unix al (w_tick w)) r of
                       None \<Rightarrow> (referenceID, planID)
                     | Some claims \<Rightarrow> (jc_UserID claims, if planID = [] then jc_PlanID claims else planID))
               else (referenceID, planID))
        in if referenceID = [] then next r w
           else case ResolveUser e referenceID [] [] planID w of
                  (w, Inl err) \<Rightarrow> (w, writeError 500 ''failed to resolve user identity'')
                | (w, Inr userID) \<Rightarrow>
                    let limitsJSON = rq_header r ''X-Plan-Limits'';
                        limits = (if limitsJSON \<noteq> []
                          then (case al_limits al limitsJSON of Some l \<Rightarrow> l | None \<Rightarrow> zero_PlanLimits)
                          else if planID \<noteq> [] then engine_DefaultPlanLimits planID else zero_PlanLimits);
                        ac = \<lparr>ac_Authenticated = True, ac_UserID = userID, ac_ReferenceID = referenceID,
                              ac_PlanID = planID, ac_PlanLimits = limits\<rparr>
                    in next (WithAuth ac r) w)"

section \<open>Helpers\<close>

definition rowToJSONAPI :: "string \<Rightarrow> row \<Rightarrow> jsonapi" where
  "rowToJSONAPI resourceType r =
     \<lparr>ja_type = resourceType, ja_id = as_string (row_get r ''reference_id''),
      ja_attributes = r(''id'' := None, ''reference_id'' := None)\<rparr>"

definition rowsToJSONAPI :: "string \<Rightarrow> row list \<Rightarrow> jsonapi list" where
  "rowsToJSONAPI resourceType rows = map (rowToJSONAPI resourceType) rows"

definition resolve_ref :: "Env \<Rightarrow> Field \<Rightarrow> row \<Rightarrow> world \<Rightarrow> world \<times> (string + row)" where
  "resolve_ref e f data w =
     (if fld_Type f \<noteq> TypeRef \<or> fld_Internal f then (w, Inr data)
      else case row_get data (fld_Name f) of
             GStr refID \<Rightarrow>
               if refID = [] then (w, Inr data)
               else (case db_select e [''id''] (fld_RefTable f) (by_ref refID) None w of
                       (w, Inr (r # _)) \<Rightarrow>
                         (case toInt64 (row_get r ''id'') of
                            Some intID \<Rightarrow> (w, Inr (data(fld_Name f \<mapsto> GInt intID)))
                          | None \<Rightarrow> (w, Inl (''invalid '' @ fld_Name f @ '': '' @ refID @ '' not found'')))
                     | (w, _) \<Rightarrow> (w, Inl (''invalid '' @ fld_Name f @ '': '' @ refID @ '' not found'')))
           | _ \<Rightarrow> (w, Inr data))"

fun resolve_loop :: "Env \<Rightarrow> Field list \<Rightarrow> row \<Rightarrow> world \<Rightarrow> world \<times> (string + row)" where
  "resolve_loop e [] data w = (w, Inr data)"
| "resolve_loop e (f # fs) data w =
     (case resolve_ref e f data w of
        (w, Inl err) \<Rightarrow> (w, Inl err)
      | (w, Inr data) \<Rightarrow> resolve_loop e fs data w)"

definition resolveRefFields :: "Env \<Rightarrow> Resource \<Rightarrow> row \<Rightarrow> world \<Rightarrow> world \<times> (string + row)" where
  "resolveRefFields e res data w = resolve_loop e (rsc_Fields res) data w"

definition is_owner :: "Resource \<Rightarrow> AuthContext \<Rightarrow> row \<Rightarrow> bool" where
  "is_owner res authCtx r \<longleftrightarrow> rsc_Owner res \<noteq> [] \<and> ac_Authenticated authCtx
     \<and> toInt64 (row_get r (rsc_Owner res)) = Some (ac_UserID authCtx)"

definition strip_field :: "Env \<Rightarrow> bool \<Rightarrow> Field \<Rightarrow> row \<Rightarrow> world \<Rightarrow> world \<times> row" where
  "strip_field e isOwner f r w =
     (if fld_WriteOnly f then (w, r(fld_Name f := None))
      else if fld_OwnerOnly f \<and> \<not> isOwner then (w, r(fld_Name f := None))
      else if fld_RefTable f \<noteq> [] then
        (case toInt64 (row_get r (fld_Name f)) of
           Some intID \<Rightarrow>
             if 0 < intID then
               (case GetRefIDByIntID e (fld_RefTable f) intID w of
                  (w, Inr refID) \<Rightarrow> (w, r(fld_Name f \<mapsto> GStr refID))
                | (w, Inl err) \<Rightarrow> (w, r))
             else (w, r)
         | None \<Rightarrow> (w, r))
      else (w, r))"

fun strip_loop :: "Env \<Rightarrow> bool \<Rightarrow> Field list \<Rightarrow> row \<Rightarrow> world \<Rightarrow> world \<times> row" where
  "strip_loop e isOwner [] r w = (w, r)"
| "strip_loop e isOwner (f # fs) r w =
     (case strip_field e isOwner f r w of (w, r) \<Rightarrow> strip_loop e isOwner fs r w)"

definition stripFields :: "Env \<Rightarrow> Resource \<Rightarrow> AuthContext \<Rightarrow> row \<Rightarrow> world \<Rightarrow> world \<times> row" where
  "stripFields e res authCtx r w =
     (case strip_loop e (is_owner res authCtx r) (rsc_Fields res) r w of (w, r) \<Rightarrow> (w, r(''id'' := None)))"

fun strip_rows :: "Env \<Rightarrow> Resource \<Rightarrow> AuthContext \<Rightarrow> row list \<Rightarrow> world \<Rightarrow> world \<times> row list" where
  "strip_rows e res authCtx [] w = (w, [])"
| "strip_rows e res authCtx (r # rs) w =
     (case stripFields e res authCtx r w of
        (w, r) \<Rightarrow> (case strip_rows e res authCtx rs w of (w, rs) \<Rightarrow> (w, r # rs)))"

definition parseJSONAPIBody :: "Request \<Rightarrow> string + (string \<times> gval) list" where
  "parseJSONAPIBody r =
     (case rq_attributes r of
        Inl err \<Rightarrow> Inl err
      | Inr (Some attrs) \<Rightarrow> Inr attrs
      | Inr None \<Rightarrow> Inl ''missing data.attributes in request body'')"

text \<open>The product of a page number and a page size wraps as a 64-bit \<open>int\<close>.\<close>

definition parsePage :: "Request \<Rightarrow> Page" where
  "parsePage r =
     (let p = DefaultPage; q = rq_query r; size = query_Get q ''page[size]'';
          p = (if size \<noteq> [] then (case Atoi size of (n, None) \<Rightarrow> p\<lparr>pg_Limit := n\<rparr> | _ \<Rightarrow> p) else p);
          off = query_Get q ''page[offset]'';
          p = (if off \<noteq> [] then (case Atoi off of (n, None) \<Rightarrow> p\<lparr>pg_Offset := n\<rparr> | _ \<Rightarrow> p) else p);
          num = query_Get q ''page[number]'';
          p = (if num \<noteq> [] then
                 (case Atoi num of
                    (pn, None) \<Rightarrow> if 0 < pn then p\<lparr>pg_Offset := wrap64 ((pn - 1) * pg_Limit p)\<rparr> else p
                  | _ \<Rightarrow> p)
               else p)
      in Page_Normalize p)"

definition isNotFoundErr :: "string \<Rightarrow> bool" where
  "isNotFoundErr err \<longleftrightarrow> contains_str ''not found'' err"

section \<open>Updates with keys chosen by the client\<close>

text \<open>
  \<open>Store.Update\<close> puts the keys of its map into the statement text. When each key is a column the
  statement is an update of these columns; any other key makes it a text that only the
  database can interpret (\<open>keys\<close> is the order of the map; the number of rows that \<open>env_raw\<close>
  returns stands for the affected rows).
\<close>

definition update_query :: "string \<Rightarrow> string list \<Rightarrow> string" where
  "update_query resource keys =
     ''UPDATE '' @ resource @ '' SET '' @ join_sep '', '' (map (\<lambda>k. k @ '' = ?'') keys) @ '' WHERE reference_id = ?''"

definition known_keys :: "Resource \<Rightarrow> string list \<Rightarrow> bool" where
  "known_keys res keys \<longleftrightarrow> list_all (\<lambda>k. k \<in> set (selectColumns res)) keys"

definition Store_UpdateKeys ::
  "Env \<Rightarrow> Store \<Rightarrow> string \<Rightarrow> string \<Rightarrow> string list \<Rightarrow> row \<Rightarrow> world \<Rightarrow> world \<times> (string + row)" where
  "Store_UpdateKeys e s resource refID keys data w =
     (case st_schema s resource of
        None \<Rightarrow> (w, Inl (unknown_resource resource))
      | Some res \<Rightarrow>
          if known_keys res keys then Store_Update e s resource refID data w
          else
            case json_loop e (rsc_Fields res) (clean_update e (w_tick w) data) of
              Inl err \<Rightarrow> (w, Inl err)
            | Inr data \<Rightarrow>
                let ks = filter (\<lambda>k. data k \<noteq> None) (remdups (keys @ [''updated_at'']))
                in case db_raw e (update_query resource ks) (map (row_get data) ks @ [GStr refID]) w of
                     (w, Inl err) \<Rightarrow> (w, Inl (''update '' @ resource @ '': '' @ err))
                   | (w, Inr rows) \<Rightarrow>
                       if rows = [] then (w, Inl (resource @ '' '' @ refID @ '': not found''))
                       else Store_Get e s resource refID w)"

section \<open>Generic handlers\<close>

text \<open>
  The hooks of a resource are closures over the store that \<open>Setup\<close> installs; a \<open>BeforeCreate\<close> hook may
  change the data. A missing bus is the one that does nothing.
\<close>

record APIConfig =
  api_Store :: Store
  api_Dispatch :: "string \<Rightarrow> handler"
  api_BeforeCreate :: "string \<Rightarrow> (AuthContext \<Rightarrow> row \<Rightarrow> world \<Rightarrow> world \<times> (string + row)) option"
  api_AfterCreate :: "string \<Rightarrow> (AuthContext \<Rightarrow> row \<Rightarrow> world \<Rightarrow> world) option"
  api_BeforeDelete :: "string \<Rightarrow> (AuthContext \<Rightarrow> row \<Rightarrow> world \<Rightarrow> world \<times> string option) option"

definition filter_param :: "string \<times> string list \<Rightarrow> Filter option" where
  "filter_param kv =
     (case kv of (key, values) \<Rightarrow>
        if HasPrefix key ''filter['' \<and> HasSuffix key '']''
        then (case values of v # _ \<Rightarrow> Some \<lparr>flt_Field = drop 7 (butlast key), flt_Value = GStr v\<rparr> | [] \<Rightarrow> None)
        else None)"

definition list_filters :: "Resource \<Rightarrow> AuthContext \<Rightarrow> Request \<Rightarrow> Filter list" where
  "list_filters res authCtx r =
     (let scopeMine = (query_Get (rq_query r) ''scope'' = ''mine'')
      in (if rsc_Owner res \<noteq> [] \<and> ac_Authenticated authCtx \<and> (\<not> rsc_PublicRead res \<or> scopeMine)
          then [\<lparr>flt_Field = rsc_Owner res, flt_Value = GInt (ac_UserID authCtx)\<rparr>] else [])
         @ List.map_filter filter_param (rq_query r))"

definition listHandler :: "Env \<Rightarrow> APIConfig \<Rightarrow> Resource \<Rightarrow> http_handler" where
  "listHandler e cfg res r w =
     (let authCtx = getAuthContext r; page = parsePage r; filters = list_filters res authCtx r
      in case Store_List e (api_Store cfg) (rsc_Name res) filters page w of
           (w, Inl err) \<Rightarrow> (w, writeError 500 err)
         | (w, Inr rows) \<Rightarrow>
             let rows = (case rsc_Visibility res of None \<Rightarrow> rows | Some vis \<Rightarrow> filter (vis authCtx) rows)
             in case strip_rows e res authCtx rows w of
                  (w, rows) \<Rightarrow> (w, writeJSON 200
                    (RespList (rowsToJSONAPI (rsc_Name res) rows) (int (length rows)) (pg_Limit page) (pg_Offset page))))"

definition get_response :: "Env \<Rightarrow> Resource \<Rightarrow> AuthContext \<Rightarrow> int \<Rightarrow> row \<Rightarrow> world \<Rightarrow> world \<times> Response" where
  "get_response e res authCtx status row w =
     (case stripFields e res authCtx row w of
        (w, row) \<Rightarrow> (w, writeJSON status (RespData (rowToJSONAPI (rsc_Name res) row))))"

definition store_error :: "Resource \<Rightarrow> string \<Rightarrow> Response" where
  "store_error res err =
     (if isNotFoundErr err then writeError 404 (rsc_Name res @ '' not found'') else writeError 500 err)"

definition getHandler :: "Env \<Rightarrow> APIConfig \<Rightarrow> Resource \<Rightarrow> http_handler" where
  "getHandler e cfg res r w =
     (let authCtx = getAuthContext r
      in case Store_Get e (api_Store cfg) (rsc_Name res) (rq_id r) w of
           (w, Inl err) \<Rightarrow> (w, store_error res err)
         | (w, Inr row) \<Rightarrow>
             if (case rsc_Visibility res of None \<Rightarrow> False | Some vis \<Rightarrow> \<not> vis authCtx row)
             then (w, writeError 404 (rsc_Name res @ '' not found''))
             else if rsc_Owner res \<noteq> [] \<and> ac_Authenticated authCtx \<and> \<not> rsc_PublicRead res then
               (case toInt64 (row_get row (rsc_Owner res)) of
                  None \<Rightarrow> (w, writeError 403 ''access denied'')
                | Some ownerID \<Rightarrow>
                    if ownerID \<noteq> ac_UserID authCtx then (w, writeError 404 (rsc_Name res @ '' not found''))
                    else get_response e res authCtx 200 row w)
             else get_response e res authCtx 200 row w)"

definition drop_internal :: "Resource \<Rightarrow> string \<Rightarrow> row \<Rightarrow> row" where
  "drop_internal res keep data =
     foldl (\<lambda>d f. if fld_Internal f \<and> fld_Name f \<noteq> keep then d(fld_Name f := None) else d) data (rsc_Fields res)"

definition createHandler :: "Env \<Rightarrow> APIConfig \<Rightarrow> Resource \<Rightarrow> http_handler" where
  "createHandler e cfg res r w =
     (let authCtx = getAuthContext r
      in if \<not> ac_Authenticated authCtx then (w, writeError 401 ''authentication required'')
         else case parseJSONAPIBody r of
           Inl err \<Rightarrow> (w, writeError 400 (''invalid request body: '' @ err))
         | Inr attrs \<Rightarrow>
             let data = map_of attrs;
                 data = (if rsc_Owner res \<noteq> [] then data(rsc_Owner res \<mapsto> GInt (ac_UserID authCtx)) else data);
                 data = drop_internal res (rsc_Owner res) data
             in case resolveRefFields e res data w of
                  (w, Inl err) \<Rightarrow> (w, writeError 400 err)
                | (w, Inr data) \<Rightarrow>
                    (case (case api_BeforeCreate cfg (rsc_Name res) of
                             None \<Rightarrow> (w, Inr data) | Some hook \<Rightarrow> hook authCtx data w) of
                       (w, Inl err) \<Rightarrow> (w, writeError 400 err)
                     | (w, Inr data) \<Rightarrow>
                         (case Store_Create e (api_Store cfg) (rsc_Name res) data w of
                            (w, Inl err) \<Rightarrow>
                              (w, if contains_str ''validation error'' err then writeError 400 err else writeError 500 err)
                          | (w, Inr row) \<Rightarrow>
                              let w = (case api_AfterCreate cfg (rsc_Name res) of None \<Rightarrow> w | Some hook \<Rightarrow> hook authCtx row w)
                              in get_response e res authCtx 201 row w)))"

text \<open>
  The prologue of every handler that acts on one row of its owner: the request is authenticated,
  the row is read, and its owner column must be the caller. \<open>onErr\<close> answers a failed read,
  \<open>badOwner\<close> an owner that is no number and \<open>notOwner\<close> another user's row.
\<close>

definition owner_denied :: "string \<Rightarrow> AuthContext \<Rightarrow> row \<Rightarrow> string \<Rightarrow> string \<Rightarrow> Response option" where
  "owner_denied owner authCtx row badOwner notOwner =
     (if owner = [] then None
      else case toInt64 (row_get row owner) of
             None \<Rightarrow> Some (writeError 403 badOwner)
           | Some ownerID \<Rightarrow> if ownerID \<noteq> ac_UserID authCtx then Some (writeError 403 notOwner) else None)"

definition owned_request ::
  "Env \<Rightarrow> Store \<Rightarrow> string \<Rightarrow> string \<Rightarrow> (string \<Rightarrow> Response) \<Rightarrow> string \<Rightarrow> string \<Rightarrow>
     (AuthContext \<Rightarrow> row \<Rightarrow> http_handler) \<Rightarrow> http_handler" where
  "owned_request e s resource owner onErr badOwner notOwner act r w =
     (let authCtx = getAuthContext r
      in if \<not> ac_Authenticated authCtx then (w, writeError 401 ''authentication required'')
         else case Store_Get e s resource (rq_id r) w of
           (w, Inl err) \<Rightarrow> (w, onErr err)
         | (w, Inr existing) \<Rightarrow>
             (case owner_denied owner authCtx existing badOwner notOwner of
                Some resp \<Rightarrow> (w, resp)
              | None \<Rightarrow> act authCtx existing r w))"

definition updateHandler :: "Env \<Rightarrow> APIConfig \<Rightarrow> Resource \<Rightarrow> http_handler" where
  "updateHandler e cfg res =
     owned_request e (api_Store cfg) (rsc_Name res) (rsc_Owner res) (store_error res) ''access denied''
       (''not authorized to modify this '' @ rsc_Name res)
       (\<lambda>authCtx existing r w.
          case parseJSONAPIBody r of
            Inl err \<Rightarrow> (w, writeError 400 (''invalid request body: '' @ err))
          | Inr attrs \<Rightarrow>
              let data = drop_internal res [] (map_of attrs)
              in case resolveRefFields e res data w of
                   (w, Inl err) \<Rightarrow> (w, writeError 400 err)
                 | (w, Inr data) \<Rightarrow>
                     (case Store_UpdateKeys e (api_Store cfg) (rsc_Name res) (rq_id r)
                             (filter (\<lambda>k. data k \<noteq> None) (map fst attrs)) data w of
                        (w, Inl err) \<Rightarrow> (w, writeError 500 err)
                      | (w, Inr row) \<Rightarrow> get_response e res authCtx 200 row w))"

text \<open>
  The transition that a delete makes first: to \<open>deleting\<close> or \<open>destroying\<close>, whichever the current
  state lists first. The flag says that a command was dispatched.
\<close>

definition delete_target :: "StateMachine \<Rightarrow> row \<Rightarrow> string option" where
  "delete_target sm existing =
     (case map_of (sm_Transitions sm) (as_string (row_get existing (sm_Field sm))) of
        None \<Rightarrow> None
      | Some targets \<Rightarrow> find (\<lambda>t. t = ''deleting'' \<or> t = ''destroying'') targets)"

definition delete_transition :: "Env \<Rightarrow> APIConfig \<Rightarrow> Resource \<Rightarrow> string \<Rightarrow> row \<Rightarrow> world \<Rightarrow> world \<times> bool" where
  "delete_transition e cfg res refID existing w =
     (case rsc_StateMachine res of
        None \<Rightarrow> (w, False)
      | Some sm \<Rightarrow>
          (case delete_target sm existing of
             None \<Rightarrow> (w, False)
           | Some t \<Rightarrow>
               (case Store_Transition e (api_Store cfg) (rsc_Name res) refID t w of
                  (w, Inl err) \<Rightarrow> (w, False)
                | (w, Inr (row, cmd)) \<Rightarrow>
                    if cmd \<noteq> [] then (fst (api_Dispatch cfg cmd row w), True) else (w, False))))"

definition destroy_failed :: "Env \<Rightarrow> APIConfig \<Rightarrow> Resource \<Rightarrow> string \<Rightarrow> world \<Rightarrow> world \<times> Response option" where
  "destroy_failed e cfg res refID w =
     (case rsc_StateMachine res of
        None \<Rightarrow> (w, None)
      | Some sm \<Rightarrow>
          (case Store_Get e (api_Store cfg) (rsc_Name res) refID w of
             (w, Inl err) \<Rightarrow> (w, None)
           | (w, Inr updated) \<Rightarrow>
               if as_string (row_get updated (sm_Field sm)) = ''failed'' then
                 let errMsg = as_string (row_get updated ''error_message'')
                 in (w, Some (writeError 409
                      (if errMsg \<noteq> [] then ''destroy failed: '' @ errMsg
                       else ''destroy failed '' @ em_dash @ '' cloud resource may still exist. Check error and retry.'')))
               else (w, None)))"

definition deleteHandler :: "Env \<Rightarrow> APIConfig \<Rightarrow> Resource \<Rightarrow> http_handler" where
  "deleteHandler e cfg res =
     owned_request e (api_Store cfg) (rsc_Name res) (rsc_Owner res) (store_error res) ''access denied''
       (''not authorized to delete this '' @ rsc_Name res)
       (\<lambda>authCtx existing r w.
          case (case api_BeforeDelete cfg (rsc_Name res) of
                  None \<Rightarrow> (w, None) | Some hook \<Rightarrow> hook authCtx existing w) of
            (w, Some err) \<Rightarrow> (w, writeError 409 err)
          | (w, None) \<Rightarrow>
              (case delete_transition e cfg res (rq_id r) existing w of
                 (w, handlerDispatched) \<Rightarrow>
                   (case (if handlerDispatched then destroy_failed e cfg res (rq_id r) w else (w, None)) of
                      (w, Some conflict) \<Rightarrow> (w, conflict)
                    | (w, None) \<Rightarrow>
                        (case Store_Delete e (api_Store cfg) (rsc_Name res) (rq_id r) w of
                           (w, Some err) \<Rightarrow>
                             (w, if contains_str ''FOREIGN KEY constraint failed'' err
                                 then writeError 409 (''cannot delete: other resources depend on this '' @ rsc_Name res)
                                 else writeError 500 err)
                         | (w, None) \<Rightarrow> (w, writeJSON 204 RespEmpty)))))"

definition transitionHandler :: "Env \<Rightarrow> APIConfig \<Rightarrow> Resource \<Rightarrow> http_handler" where
  "transitionHandler e cfg res =
     owned_request e (api_Store cfg) (rsc_Name res) (rsc_Owner res) (store_error res) ''access denied'' ''not authorized''
       (\<lambda>authCtx existing r w.
          case Store_Transition e (api_Store cfg) (rsc_Name res) (rq_id r) (rq_state r) w of
            (w, Inl err) \<Rightarrow>
              (w, if contains_str ''invalid state transition'' err then writeError 409 err
                  else if contains_str ''guard failed'' err then writeError 409 err
                  else writeError 500 err)
          | (w, Inr (row, cmd)) \<Rightarrow>
              let w = (if cmd \<noteq> [] then fst (api_Dispatch cfg cmd row w) else w)
              in get_response e res authCtx 200 row w)"

section \<open>Nothing secret in responses\<close>

lemma strip_field_None:
  "strip_field e own f r w = (w', r') \<Longrightarrow> r c = None \<Longrightarrow> r' c = None"
  by (auto simp: strip_field_def row_get_def toInt64_def split: if_splits option.splits prod.splits sum.splits gval.splits)

lemma strip_loop_None: "strip_loop e own fs r w = (w', r') \<Longrightarrow> r c = None \<Longrightarrow> r' c = None"
  by (induction fs arbitrary: r w) (auto split: prod.splits dest: strip_field_None)

lemma strip_loop_hidden:
  "strip_loop e own fs r w = (w', r') \<Longrightarrow> f \<in> set fs \<Longrightarrow> fld_WriteOnly f \<or> fld_OwnerOnly f \<and> \<not> own \<Longrightarrow>
     r' (fld_Name f) = None"
proof (induction fs arbitrary: r w)
  case (Cons g fs)
  obtain w1 r1 where g: "strip_field e own g r w = (w1, r1)" by (cases "strip_field e own g r w")
  then have rest: "strip_loop e own fs r1 w1 = (w', r')" using Cons.prems(1) by simp
  show ?case
  proof (cases "f = g")
    case True
    then have "r1 (fld_Name f) = None" using g Cons.prems(3) by (auto simp: strip_field_def split: if_splits)
    then show ?thesis by (rule strip_loop_None [OF rest])
  next
    case False
    then show ?thesis using Cons.IH [OF rest] Cons.prems(2,3) by simp
  qed
qed simp

lemma stripFields_hidden:
  assumes "stripFields e res a r w = (w', r')" "f \<in> set (rsc_Fields res)"
    "fld_WriteOnly f \<or> fld_OwnerOnly f \<and> \<not> is_owner res a r"
  shows "r' (fld_Name f) = None"
  using assms strip_loop_hidden [of e "is_owner res a r" "rsc_Fields res" r w]
  by (auto simp: stripFields_def split: prod.splits)

lemma strip_rows_hidden:
  "strip_rows e res a rs w = (w', rs') \<Longrightarrow> r' \<in> set rs' \<Longrightarrow> f \<in> set (rsc_Fields res) \<Longrightarrow> fld_WriteOnly f \<Longrightarrow>
     r' (fld_Name f) = None"
  by (induction rs arbitrary: w rs') (auto split: prod.splits dest: stripFields_hidden)

text \<open>The attributes of all resource objects of a response.\<close>

fun resp_attributes :: "resp_body \<Rightarrow> row list" where
  "resp_attributes (RespData x) = [ja_attributes x]"
| "resp_attributes (RespList xs n lm off) = map ja_attributes xs"
| "resp_attributes b = []"

lemma ja_attributes_rowToJSONAPI [simp]: "ja_attributes (rowToJSONAPI t r) = r(''id'' := None, ''reference_id'' := None)"
  by (simp add: rowToJSONAPI_def)

lemma writeError_attributes [simp]: "resp_attributes (rs_body (writeError c m)) = []"
  by (simp add: writeError_def)

definition secret_free :: "Resource \<Rightarrow> Response \<Rightarrow> bool" where
  "secret_free res rs \<longleftrightarrow> (\<forall>r \<in> set (resp_attributes (rs_body rs)). r ''id'' = None
     \<and> (\<forall>f \<in> set (rsc_Fields res). fld_WriteOnly f \<longrightarrow> r (fld_Name f) = None))"

lemma secret_free_error [simp]: "secret_free res (writeError c m)"
  by (simp add: secret_free_def)

text \<open>
  Properties of responses that hold of every error: the handlers have them when the successful
  responses do.
\<close>

locale response_property =
  fixes Q :: "Response \<Rightarrow> bool"
  assumes error: "Q (writeError c m)"

context response_property
begin

lemma pair_case: "(\<And>w x. t = (w, x) \<Longrightarrow> Q (snd (f w x))) \<Longrightarrow> Q (snd (case t of (w, x) \<Rightarrow> f w x))"
  by (cases t) auto

lemma sum_case:
  "(\<And>a. x = Inl a \<Longrightarrow> Q (snd (f a))) \<Longrightarrow> (\<And>b. x = Inr b \<Longrightarrow> Q (snd (g b))) \<Longrightarrow>
     Q (snd (case x of Inl a \<Rightarrow> f a | Inr b \<Rightarrow> g b))"
  by (cases x) auto

lemma option_case:
  "(x = None \<Longrightarrow> Q (snd a)) \<Longrightarrow> (\<And>y. x = Some y \<Longrightarrow> Q (snd (f y))) \<Longrightarrow>
     Q (snd (case x of None \<Rightarrow> a | Some y \<Rightarrow> f y))"
  by (cases x) auto

lemma if_case: "(c \<Longrightarrow> Q (snd a)) \<Longrightarrow> (\<not> c \<Longrightarrow> Q (snd b)) \<Longrightarrow> Q (snd (if c then a else b))"
  by simp

lemma let_case: "Q (snd (f x)) \<Longrightarrow> Q (snd (let y = x in f y))"
  by simp

lemma pair_result: "Q rs \<Longrightarrow> Q (snd (w, rs))"
  by simp

lemma if_error: "Q a \<Longrightarrow> Q b \<Longrightarrow> Q (if c then a else b)"
  by simp

lemma denied_error: "owner_denied ow a row b m = Some rs \<Longrightarrow> Q rs"
  by (auto simp: owner_denied_def error split: if_splits option.splits)

lemma store_error_error: "Q (store_error res err)"
  by (simp add: store_error_def error)

lemma destroy_error: "destroy_failed e cfg res i w = (w', Some rs) \<Longrightarrow> Q rs"
  by (auto simp: destroy_failed_def Let_def error split: option.splits prod.splits sum.splits if_splits)

lemma owned:
  "(\<And>a row w1. Q (snd (act a row r w1))) \<Longrightarrow> (\<And>err. Q (onErr err)) \<Longrightarrow>
     Q (snd (owned_request e s tab ow onErr bo no act r w))"
  unfolding owned_request_def
  by (rule let_case if_case pair_result error pair_case sum_case option_case | assumption | erule denied_error)+

lemma destroy_if: "(if b then destroy_failed e cfg res i w else (w, None)) = (w', x) \<Longrightarrow> x = Some rs \<Longrightarrow> Q rs"
  by (auto split: if_splits intro: destroy_error)

lemmas cases = let_case pair_case sum_case option_case if_case pair_result if_error error store_error_error

end

lemma get_response_secret_free: "secret_free res (snd (get_response e res a st row w))"
  by (auto simp: get_response_def secret_free_def writeJSON_def split: prod.splits dest: stripFields_hidden)

lemma no_content_secret_free: "secret_free res (writeJSON 204 RespEmpty)"
  by (simp add: secret_free_def writeJSON_def)

interpretation sf: response_property "secret_free res" for res
  by unfold_locales simp

text \<open>
  C8: No response of the generic handlers ever contains a write-only field (SSH private keys,
  cloud credentials) or the integer primary key, on any path and for any caller, hook and
  command bus.
\<close>

theorem responses_secret_free:
  "secret_free res (snd (listHandler e cfg res r w)) \<and> secret_free res (snd (getHandler e cfg res r w))
   \<and> secret_free res (snd (createHandler e cfg res r w)) \<and> secret_free res (snd (updateHandler e cfg res r w))
   \<and> secret_free res (snd (deleteHandler e cfg res r w)) \<and> secret_free res (snd (transitionHandler e cfg res r w))"
proof -
  have strip_id: "strip_rows e res a rs w = (w', rs') \<Longrightarrow> r' \<in> set rs' \<Longrightarrow> r' ''id'' = None" for a rs w w' rs' r'
    by (induction rs arbitrary: w rs') (auto simp: stripFields_def split: prod.splits)
  have "secret_free res (snd (listHandler e cfg res r w))"
    unfolding listHandler_def
    by (rule sf.cases)+ (auto simp: secret_free_def writeJSON_def rowsToJSONAPI_def dest: strip_rows_hidden strip_id)
  moreover have "secret_free res (snd (getHandler e cfg res r w))"
    unfolding getHandler_def by (rule sf.cases get_response_secret_free)+
  moreover have "secret_free res (snd (createHandler e cfg res r w))"
    unfolding createHandler_def by (rule sf.cases get_response_secret_free)+
  moreover have "secret_free res (snd (updateHandler e cfg res r w))"
    unfolding updateHandler_def by (rule sf.owned sf.cases get_response_secret_free)+
  moreover have "secret_free res (snd (deleteHandler e cfg res r w))"
    unfolding deleteHandler_def
    by (rule sf.owned sf.cases no_content_secret_free | erule (1) sf.destroy_if)+
  moreover have "secret_free res (snd (transitionHandler e cfg res r w))"
    unfolding transitionHandler_def by (rule sf.owned sf.cases get_response_secret_free)+
  ultimately show ?thesis by blast
qed

section \<open>Tenant isolation of writes\<close>

definition owns_row :: "Env \<Rightarrow> string \<Rightarrow> string \<Rightarrow> Request \<Rightarrow> world \<Rightarrow> bool" where
  "owns_row e tab owner r w \<longleftrightarrow> ac_Authenticated (getAuthContext r)
     \<and> (\<exists>row. find_row e tab (rq_id r) w = Some row
          \<and> toInt64 (row_get row owner) = Some (ac_UserID (getAuthContext r)))"

lemma toInt64_decode:
  assumes "plain_col res c" "c \<in> set (selectColumns res)"
  shows "toInt64 (row_get (decodeRow e res (project (selectColumns res) row)) c) = toInt64 (row_get row c)"
  using assms
  by (auto simp: row_get_def decodeRow_plain decode_bytes_def project_def toInt64_def split: option.splits gval.splits)

lemma owned_request_frame:
  assumes run: "owned_request e s tab owner onErr bo no act r w = (w', rs)"
    and sch: "st_schema s tab = Some res" and pl: "plain_col res owner" "owner \<in> set (selectColumns res)"
    and ne: "owner \<noteq> []" and notowned: "\<not> owns_row e tab owner r w"
  shows "w_tables w' = w_tables w \<and> w_calls w' = w_calls w \<and> w_jobs w' = w_jobs w"
proof (cases "ac_Authenticated (getAuthContext r)")
  case False
  then show ?thesis using run by (simp add: owned_request_def)
next
  case True
  obtain w1 g where g: "Store_Get e s tab (rq_id r) w = (w1, g)" by (cases "Store_Get e s tab (rq_id r) w")
  note gt = Store_Get_tables [OF g]
  show ?thesis
  proof (cases g)
    case (Inl err)
    then show ?thesis using run True g gt by (simp add: owned_request_def)
  next
    case (Inr row)
    with g obtain r0 where r0: "find_row e tab (rq_id r) w = Some r0"
      "row = decodeRow e res (project (selectColumns res) r0)"
      using sch by (auto elim: Store_Get_Inr)
    then have "toInt64 (row_get row owner) \<noteq> Some (ac_UserID (getAuthContext r))"
      using notowned True toInt64_decode [OF pl] by (simp add: owns_row_def)
    then obtain resp where "owner_denied owner (getAuthContext r) row bo no = Some resp"
      using ne by (cases "toInt64 (row_get row owner)") (auto simp: owner_denied_def)
    then show ?thesis using run True g Inr gt by (simp add: owned_request_def)
  qed
qed

text \<open>The owner column of each resource.\<close>

definition owner_col_ok :: "Resource \<Rightarrow> bool" where
  "owner_col_ok res \<longleftrightarrow> rsc_Owner res \<noteq> [] \<and> plain_col res (rsc_Owner res) \<and> rsc_Owner res \<in> set (selectColumns res)"

lemma schema_owner_cols: "res \<in> set (Schema uni) \<Longrightarrow> owner_col_ok res"
  by (auto simp: Schema_def owner_col_ok_def plain_col_def selectColumns_def resource_defs field_builder_defs)


section \<open>Reads\<close>

lemma store_error_status: "rs_status (store_error res err) \<noteq> 200"
  by (simp add: store_error_def writeError_def)

lemma get_response_status: "rs_status (snd (get_response e res a st row w)) = st"
  by (simp add: get_response_def writeJSON_def split: prod.splits)

text \<open>
  C31: Reading one row of a resource that is not public (deployments, keys, credentials, provisions,
  invoices), when the database answers: an authenticated caller gets it exactly when it exists and is
  their own. A request without any identity gets every existing row, because the ownership check is
  made only for authenticated callers.
\<close>

theorem get_isolation:
  assumes res: "res \<in> set (Schema uni)" "st_schema (api_Store cfg) (rsc_Name res) = Some res"
    and priv: "\<not> rsc_PublicRead res" "rsc_Visibility res = None"
    and ok: "env_fail e (w_tick w) (SelectStmt (selectColumns res) (rsc_Name res) (by_ref (rq_id r)) None) = None"
    and run: "getHandler e cfg res r w = (w', rs)"
  shows "rs_status rs = 200 \<longleftrightarrow>
    (\<exists>row. find_row e (rsc_Name res) (rq_id r) w = Some row
       \<and> (ac_Authenticated (getAuthContext r) \<longrightarrow>
            toInt64 (row_get row (rsc_Owner res)) = Some (ac_UserID (getAuthContext r))))"
proof (cases "find_row e (rsc_Name res) (rq_id r) w")
  case None
  then have "\<exists>w1 err. Store_Get e (api_Store cfg) (rsc_Name res) (rq_id r) w = (w1, Inl err)"
    using res(2) ok by (auto simp: Store_Get_def query_row_result find_row_def)
  then show ?thesis using run store_error_status None by (auto simp: getHandler_def)
next
  case (Some row)
  let ?row = "decodeRow e res (project (selectColumns res) row)"
  have g: "Store_Get e (api_Store cfg) (rsc_Name res) (rq_id r) w = (tick w, Inr ?row)"
    using Some res(2) ok by (simp add: Store_Get_def query_row_result find_row_def)
  have own: "owner_col_ok res" by (rule schema_owner_cols [OF res(1)])
  then have i: "toInt64 (row_get ?row (rsc_Owner res)) = toInt64 (row_get row (rsc_Owner res))"
    by (simp add: owner_col_ok_def toInt64_decode)
  have gr: "rs_status (snd (get_response e res a 200 ?row (tick w))) = 200" for a
    by (rule get_response_status)
  have "rs_status (snd (getHandler e cfg res r w)) = 200 \<longleftrightarrow>
      (ac_Authenticated (getAuthContext r) \<longrightarrow> toInt64 (row_get row (rsc_Owner res)) = Some (ac_UserID (getAuthContext r)))"
    using g priv own gr
    by (auto simp: getHandler_def Let_def i owner_col_ok_def writeError_def split: option.splits)
  then show ?thesis using run Some by simp
qed

section \<open>The state column\<close>

lemma Store_Update_plain:
  assumes sch: "st_schema s tab = Some res" and mc: "machine_col e tab res sm"
    and r: "find_row e tab refID w = Some r" and ok: "\<And>t st. env_fail e t st = None"
  shows "\<exists>w1 row t. Store_Update e s tab refID [sm_Field sm \<mapsto> GStr to] w = (w1, Inr row)
    \<and> find_row e tab refID w1 = Some (moved_row e tab t sm to r)"
proof -
  have tc: "text_conv e tab ''reference_id''" using mc by (simp add: machine_col_def)
  obtain w1 out where u: "Store_Update e s tab refID [sm_Field sm \<mapsto> GStr to] w = (w1, out)" by fastforce
  let ?d = "[sm_Field sm \<mapsto> GStr to, ''updated_at'' \<mapsto> GStr (env_now e (w_tick w))]"
  have n: "?d ''reference_id'' = None" using mc by (auto simp: machine_col_def std_cols_def)
  have js: "json_loop e (rsc_Fields res) (clean_update e (w_tick w) [sm_Field sm \<mapsto> GStr to]) = Inr ?d"
    by (rule transition_data [OF mc])
  have ne: "filter (where_ok e tab (by_ref refID)) (w_tables w tab) \<noteq> []"
    using r by (auto simp: find_row_def find_Some_iff filter_empty_conv)
  have f: "find (where_ok e tab (by_ref refID)) (map (\<lambda>r. if where_ok e tab (by_ref refID) r
      then r ++ stored e tab ?d else r) (w_tables w tab)) = Some (moved_row e tab (w_tick w) sm to r)"
    using find_row_update [where sets = ?d and refID = refID and ref' = refID and w = w, OF tc n] r
    by (simp add: moved_row_def)
  have "\<exists>row. out = Inr row" using u sch js ne ok f
    by (auto simp: Store_Update_def clean_update_def db_update_def Store_Get_def query_row_result)
  moreover have "find_row e tab refID w1 = Some (moved_row e tab (w_tick w) sm to r)"
    using u sch js ne ok f
    by (auto simp: Store_Update_def clean_update_def db_update_def Store_Get_def query_row_result find_row_def)
  ultimately show ?thesis using u by auto
qed

lemma resolve_loop_none:
  "(\<And>f refID. f \<in> set fs \<Longrightarrow> fld_Type f = TypeRef \<Longrightarrow> row_get data (fld_Name f) \<noteq> GStr refID) \<Longrightarrow>
     resolve_loop e fs data w = (w, Inr data)"
proof (induction fs)
  case (Cons f fs)
  have "resolve_ref e f data w = (w, Inr data)"
    using Cons.prems [of f] by (auto simp: resolve_ref_def split: gval.splits)
  then show ?case using Cons by simp
qed simp

lemma strip_keeps_tables: "strip_loop e own fs r w = (w', r') \<Longrightarrow> w_tables w' = w_tables w \<and> w_calls w' = w_calls w \<and> w_jobs w' = w_jobs w"
proof (induction fs arbitrary: r w)
  case (Cons f fs)
  have "strip_field e own f r w = (w1, r1) \<Longrightarrow> w_tables w1 = w_tables w \<and> w_calls w1 = w_calls w \<and> w_jobs w1 = w_jobs w" for w1 r1
    by (auto simp: strip_field_def GetRefIDByIntID_def db_select_def split: if_splits option.splits prod.splits sum.splits list.splits)
  then show ?case using Cons by (fastforce split: prod.splits)
qed simp

lemma get_response_frame:
  "w_tables (fst (get_response e res a st row w)) = w_tables w \<and> w_calls (fst (get_response e res a st row w)) = w_calls w
   \<and> w_jobs (fst (get_response e res a st row w)) = w_jobs w"
  by (auto simp: get_response_def stripFields_def split: prod.splits dest: strip_keeps_tables)

text \<open>The state column of every resource with a machine is a plain text field that clients may set.\<close>

definition client_state :: "Resource \<Rightarrow> StateMachine \<Rightarrow> bool" where
  "client_state res sm \<longleftrightarrow> sm_Field sm = ''status'' \<and> known_keys res [''status'']
     \<and> list_all (\<lambda>f. fld_Name f = ''status'' \<longrightarrow> fld_Type f \<noteq> TypeRef \<and> \<not> fld_Internal f) (rsc_Fields res)"

lemma schema_client_state:
  assumes "res \<in> set (Schema uni)" "rsc_StateMachine res = Some sm"
  shows "client_state res sm"
  using assms
  by (auto simp: Schema_def client_state_def known_keys_def selectColumns_def resource_defs field_builder_defs
      deployment_machine_def provision_machine_def invoice_machine_def)

lemma schema_machine_col:
  assumes "res \<in> set (Schema uni)" "rsc_StateMachine res = Some sm"
    "text_conv e (rsc_Name res) ''status''" "text_conv e (rsc_Name res) ''reference_id''"
  shows "machine_col e (rsc_Name res) res sm"
proof -
  consider "res = DeploymentResource" "sm = deployment_machine" | "res = CloudProvisionResource" "sm = provision_machine"
    | "res = InvoiceResource" "sm = invoice_machine"
    using assms(1,2)
    by (auto simp: Schema_def TemplateResource_def NodeResource_def SSHKeyResource_def CloudCredentialResource_def
        DeploymentResource_def CloudProvisionResource_def InvoiceResource_def)
  then show ?thesis
    using assms(3,4) by cases (auto intro: deployment_machine_col provision_machine_col invoice_machine_col)
qed

lemma drop_internal_state:
  assumes "client_state res sm" shows "drop_internal res [] [''status'' \<mapsto> v] = [''status'' \<mapsto> v]"
proof -
  have "foldl (\<lambda>d f. if fld_Internal f \<and> fld_Name f \<noteq> [] then d(fld_Name f := None) else d) [''status'' \<mapsto> v] fs
      = [''status'' \<mapsto> v]"
    if "list_all (\<lambda>f. fld_Name f = ''status'' \<longrightarrow> fld_Type f \<noteq> TypeRef \<and> \<not> fld_Internal f) fs" for fs
    using that by (induction fs) auto
  from this [of "rsc_Fields res"] show ?thesis using assms unfolding drop_internal_def client_state_def by blast
qed

text \<open>
  C32: The owner of a deployment, a provisioning job or an invoice can set its status to any text
  with a plain \<open>PATCH\<close>, whatever the current status is: the state machine, its guards and its
  commands are bypassed, because the field \<open>status\<close> of these resources is not marked as internal. So an
  owner can mark an invoice as paid. (The database answers every statement.)
\<close>

theorem patch_bypasses_machine:
  assumes res: "res \<in> set (Schema uni)" "rsc_StateMachine res = Some sm"
    and sch: "st_schema (api_Store cfg) (rsc_Name res) = Some res"
    and tc: "text_conv e (rsc_Name res) ''status''" "text_conv e (rsc_Name res) ''reference_id''"
    and ok: "\<And>t st. env_fail e t st = None"
    and own: "owns_row e (rsc_Name res) (rsc_Owner res) r w"
    and body: "rq_attributes r = Inr (Some [(''status'', GStr to)])"
    and run: "updateHandler e cfg res r w = (w', rs)"
  shows "rs_status rs = 200 \<and> w_calls w' = w_calls w
    \<and> (\<exists>row. find_row e (rsc_Name res) (rq_id r) w' = Some row \<and> strVal (row_get row ''status'') = to)"
proof -
  note cs = schema_client_state [OF res] and M = schema_machine_col [OF res tc]
  have fld: "sm_Field sm = ''status''" and k: "known_keys res [''status'']" using cs by (auto simp: client_state_def)
  let ?s = "api_Store cfg" and ?a = "getAuthContext r" and ?n = "rsc_Name res"
  from own obtain r0 where r0: "find_row e ?n (rq_id r) w = Some r0"
    and o: "toInt64 (row_get r0 (rsc_Owner res)) = Some (ac_UserID ?a)" and a: "ac_Authenticated ?a"
    by (auto simp: owns_row_def)
  let ?row = "decodeRow e res (project (selectColumns res) r0)"
  have g: "Store_Get e ?s ?n (rq_id r) w = (tick w, Inr ?row)"
    using r0 sch ok by (simp add: Store_Get_def query_row_result find_row_def)
  have d: "owner_denied (rsc_Owner res) ?a ?row bo no = None" for bo no
    using o schema_owner_cols [OF res(1)] toInt64_decode [of res "rsc_Owner res" e r0]
    by (simp add: owner_denied_def owner_col_ok_def)
  have rf: "resolveRefFields e res [''status'' \<mapsto> GStr to] (tick w) = (tick w, Inr [''status'' \<mapsto> GStr to])"
    unfolding resolveRefFields_def
    by (rule resolve_loop_none) (use cs in \<open>auto simp: client_state_def list_all_iff row_get_def\<close>)
  have r1: "find_row e ?n (rq_id r) (tick w) = Some r0" using r0 by simp
  from Store_Update_plain [OF sch M r1 ok, of to]
  obtain w1 row t where u: "Store_Update e ?s ?n (rq_id r) [''status'' \<mapsto> GStr to] (tick w) = (w1, Inr row)"
    and f: "find_row e ?n (rq_id r) w1 = Some (moved_row e ?n t sm to r0)" by (auto simp: fld)
  have eq: "(w', rs) = get_response e res ?a 200 row w1"
    using run a g d rf k u body sch
    by (simp add: updateHandler_def owned_request_def parseJSONAPIBody_def drop_internal_state [OF cs] Store_UpdateKeys_def)
  have "w_calls w1 = w_calls w"
    using u by (auto elim: Store_Update_cases [OF _ tc(2)])
  moreover have "w' = fst (get_response e res ?a 200 row w1)" "rs = snd (get_response e res ?a 200 row w1)"
    using eq by (metis fst_conv, metis snd_conv)
  ultimately show ?thesis
    using f col_state_moved [OF M, of t to r0] get_response_frame [of e res ?a 200 row w1]
      get_response_status [of e res ?a 200 row w1]
    by (simp add: find_row_def col_state_def fld)
qed

section \<open>Deleting a running deployment\<close>

lemma find_row_deleted:
  assumes "st_schema s tab = Some res" "Store_Delete e s tab refID w = (w', out)"
    "find_row e tab refID w = Some r" "env_fail e (w_tick w) (DeleteStmt tab refID) = None"
  shows "out = None \<and> find_row e tab refID w' = None \<and> w_calls w' = w_calls w"
proof -
  have "filter (where_ok e tab (by_ref refID)) (w_tables w tab) \<noteq> []"
    using assms(3) by (auto simp: find_row_def find_Some_iff filter_empty_conv)
  moreover have "find (where_ok e tab (by_ref refID)) (filter (\<lambda>r. \<not> where_ok e tab (by_ref refID) r) (w_tables w tab)) = None"
    by (simp add: find_None_iff)
  ultimately show ?thesis using assms(1,2,4) by (auto simp: Store_Delete_def db_delete_def find_row_def)
qed

lemma delete_running_result:
  assumes sch: "st_schema (api_Store cfg) ''deployments'' = Some DeploymentResource"
    and hook: "api_BeforeDelete cfg ''deployments'' = None"
    and ok: "\<And>t st. env_fail e t st = None"
    and own: "owns_row e ''deployments'' ''customer_id'' r w"
    and st: "map_option (\<lambda>row. row_get row ''status'') (find_row e ''deployments'' (rq_id r) w) = Some (GStr ''running'')"
    and run: "deleteHandler e cfg DeploymentResource r w = (w', rs)"
  shows "rs_status rs = 204 \<and> find_row e ''deployments'' (rq_id r) w' = None \<and> w_calls w' = w_calls w"
proof -
  let ?s = "api_Store cfg" and ?a = "getAuthContext r" and ?D = DeploymentResource
  from own obtain r0 where r0: "find_row e ''deployments'' (rq_id r) w = Some r0"
    and o: "toInt64 (row_get r0 ''customer_id'') = Some (ac_UserID ?a)" and a: "ac_Authenticated ?a"
    by (auto simp: owns_row_def)
  let ?row = "decodeRow e ?D (project (selectColumns ?D) r0)"
  have g: "Store_Get e ?s ''deployments'' (rq_id r) w = (tick w, Inr ?row)"
    using r0 sch ok by (simp add: Store_Get_def query_row_result find_row_def)
  have nm: "rsc_Name ?D = ''deployments''" "rsc_Owner ?D = ''customer_id''" "rsc_StateMachine ?D = Some deployment_machine"
    by (simp_all add: DeploymentResource_def)
  have "owner_col_ok ?D" by (rule schema_owner_cols) (simp add: Schema_def)
  then have d: "owner_denied ''customer_id'' ?a ?row bo no = None" for bo no
    using o toInt64_decode [of ?D "''customer_id''" e r0] by (simp add: owner_denied_def owner_col_ok_def nm)
  have p: "plain_col ?D ''status''" "''status'' \<in> set (selectColumns ?D)"
    by (simp_all add: plain_col_def selectColumns_def DeploymentResource_def field_builder_defs)
  have "row_get r0 ''status'' = GStr ''running''" using st r0 by simp
  then have "row_get ?row ''status'' = GStr ''running''"
    using p by (simp add: row_get_def decodeRow_plain decode_bytes_def project_def)
  then have t: "delete_target deployment_machine ?row = None"
    by (simp add: delete_target_def deployment_machine_def as_string_def)
  obtain w1 out where x: "Store_Delete e ?s ''deployments'' (rq_id r) (tick w) = (w1, out)" by fastforce
  have r1: "find_row e ''deployments'' (rq_id r) (tick w) = Some r0" using r0 by simp
  note y = find_row_deleted [OF sch x r1 ok]
  have "(w', rs) = (w1, writeJSON 204 RespEmpty)"
    using run a g d hook t x y
    by (simp add: deleteHandler_def owned_request_def nm delete_transition_def)
  then show ?thesis using y by (simp add: writeJSON_def)
qed

text \<open>
  C38: Deleting a running deployment removes its row at once and answers 204, without stopping or removing
  a container: the table has no transition from \<open>running\<close> to \<open>deleting\<close>, so no command is
  dispatched, and the containers keep running without a record.
\<close>

theorem delete_running_leaks:
  assumes "st_schema (api_Store cfg) ''deployments'' = Some DeploymentResource"
    and "api_BeforeDelete cfg ''deployments'' = None" and "\<And>t st. env_fail e t st = None"
    and "owns_row e ''deployments'' ''customer_id'' r w"
    and "map_option (\<lambda>row. row_get row ''status'') (find_row e ''deployments'' (rq_id r) w) = Some (GStr ''running'')"
    and "deleteHandler e cfg DeploymentResource r w = (w', rs)"
  shows "rs_status rs = 204 \<and> find_row e ''deployments'' (rq_id r) w' = None \<and> w_calls w' = w_calls w"
  using assms by (rule delete_running_result)

section \<open>Examples\<close>

definition alice_auth :: AuthContext where
  "alice_auth = \<lparr>ac_Authenticated = True, ac_UserID = 7, ac_ReferenceID = ''usr_alice'', ac_PlanID = ''free'',
     ac_PlanLimits = zero_PlanLimits\<rparr>"

definition alice_request :: Request where
  "alice_request = \<lparr>rq_method = ''PATCH'', rq_header = (\<lambda>_. []), rq_id = ''d1'', rq_state = [], rq_query = [],
     rq_attributes = Inr (Some [(''status'', GStr ''deleted'')]), rq_object = (None, \<lambda>_. []), rq_auth = Some alice_auth\<rparr>"

definition demo_api :: APIConfig where
  "demo_api = \<lparr>api_Store = demo_store, api_Dispatch = (\<lambda>_ _ w. (w, None)), api_BeforeCreate = (\<lambda>_. None),
     api_AfterCreate = (\<lambda>_. None), api_BeforeDelete = (\<lambda>_. None)\<rparr>"

definition running_world :: world where
  "running_world = demo_world\<lparr>w_tables := (w_tables demo_world)
     (''deployments'' := [demo_deployment ''d1'' ''running'' (GInt64 30000)])\<rparr>"

lemma demo_api_store: "st_schema (api_Store demo_api) ''deployments'' = Some DeploymentResource"
  by (simp add: demo_api_def demo_store_def)

lemma demo_nofail: "env_fail demo_env t st = None"
  by (simp add: demo_env_def)

lemma running_row:
  "find_row demo_env ''deployments'' ''d1'' running_world = Some (demo_deployment ''d1'' ''running'' (GInt64 30000))"
  by (simp add: find_row_def running_world_def where_ok_def by_ref_def sql_eq_def demo_env_def sqlite_conv_def
      demo_deployment_def row_get_def)

lemma alice_owns: "owns_row demo_env ''deployments'' ''customer_id'' alice_request running_world"
  by (simp add: owns_row_def alice_request_def getAuthContext_def AuthFromRequest_def alice_auth_def running_row
      demo_deployment_def row_get_def toInt64_def)

lemma alice_id: "rq_id alice_request = ''d1''"
  by (simp add: alice_request_def)

definition invoice_api :: APIConfig where
  "invoice_api = demo_api\<lparr>api_Store := demo_store\<lparr>st_schema := [''invoices'' \<mapsto> InvoiceResource]\<rparr>\<rparr>"

definition invoice_row :: row where
  "invoice_row = [''id'' \<mapsto> GInt64 1, ''reference_id'' \<mapsto> GStr ''inv_1'', ''user_id'' \<mapsto> GInt64 7,
     ''status'' \<mapsto> GStr ''draft'', ''total_cents'' \<mapsto> GInt64 4900]"

definition invoice_world :: world where
  "invoice_world = demo_world\<lparr>w_tables := (\<lambda>_. [])(''invoices'' := [invoice_row])\<rparr>"

definition pay_request :: Request where
  "pay_request = alice_request\<lparr>rq_id := ''inv_1'', rq_attributes := Inr (Some [(''status'', GStr ''paid'')])\<rparr>"

theorem patch_bypasses_machine_witness:
  "\<exists>row. find_row demo_env ''invoices'' ''inv_1'' (fst (updateHandler demo_env invoice_api InvoiceResource pay_request
      invoice_world)) = Some row \<and> strVal (row_get row ''status'') = ''paid''"
proof -
  have r: "InvoiceResource \<in> set (Schema (\<lambda>s. s))" "rsc_StateMachine InvoiceResource = Some invoice_machine"
    "rsc_Name InvoiceResource = ''invoices''" "rsc_Owner InvoiceResource = ''user_id''"
    by (simp_all add: Schema_def InvoiceResource_def)
  have "owns_row demo_env ''invoices'' ''user_id'' pay_request invoice_world"
    by (simp add: owns_row_def pay_request_def alice_request_def getAuthContext_def AuthFromRequest_def alice_auth_def
        invoice_world_def invoice_row_def find_row_def where_ok_def by_ref_def sql_eq_def demo_env_def sqlite_conv_def
        row_get_def toInt64_def)
  then show ?thesis
    using patch_bypasses_machine [OF r(1,2) _ demo_text_conv demo_text_conv demo_nofail _ _ surjective_pairing,
        where cfg = invoice_api and r = pay_request and w = invoice_world] r(3,4)
    by (simp add: invoice_api_def demo_api_def) (simp add: pay_request_def)
qed

theorem delete_running_leaks_witness:
  "find_row demo_env ''deployments'' ''d1'' (fst (deleteHandler demo_env demo_api DeploymentResource alice_request running_world))
     = None"
  using delete_running_leaks [OF demo_api_store _ demo_nofail alice_owns _ surjective_pairing]
  by (simp add: alice_id running_row demo_api_def demo_deployment_def row_get_def)


definition anonymous_request :: Request where
  "anonymous_request = alice_request\<lparr>rq_auth := None\<rparr>"

theorem get_isolation_witness:
  "rs_status (snd (getHandler demo_env demo_api DeploymentResource anonymous_request running_world)) = 200
   \<and> rs_status (snd (getHandler demo_env demo_api DeploymentResource
        (alice_request\<lparr>rq_auth := Some (alice_auth\<lparr>ac_UserID := 8\<rparr>)\<rparr>) running_world)) \<noteq> 200"
proof -
  have r: "DeploymentResource \<in> set (Schema (\<lambda>s. s))" by (simp add: Schema_def)
  have n: "rsc_Name DeploymentResource = ''deployments''" "rsc_Owner DeploymentResource = ''customer_id''"
    "\<not> rsc_PublicRead DeploymentResource" "rsc_Visibility DeploymentResource = None"
    by (simp_all add: DeploymentResource_def)
  note iso = get_isolation [OF r _ n(3,4) demo_nofail surjective_pairing, where cfg = demo_api]
  show ?thesis
    using iso [where r = anonymous_request and w = running_world]
      iso [where r = "alice_request\<lparr>rq_auth := Some (alice_auth\<lparr>ac_UserID := 8\<rparr>)\<rparr>" and w = running_world]
    by (simp add: demo_api_store n anonymous_request_def alice_request_def getAuthContext_def AuthFromRequest_def
        alice_auth_def zero_AuthContext_def running_row demo_deployment_def row_get_def toInt64_def)
qed

end
