(* ===== verification/Provider_Catalog.thy ===== *)
theory Provider_Catalog
  imports Go_Prelude Go_Float Dom_Cloud
begin

text \<open>
  \<open>internal/core/provider\<close>: the static catalogs of regions and instance sizes and the validation of
  provider credentials. \<open>json.Unmarshal\<close> into the credential structures is an argument.
\<close>

section \<open>Catalogs\<close>

record Region =
  rg_ID :: string
  rg_Name :: string
  rg_Available :: bool

record InstanceSize =
  is_ID :: string
  is_Name :: string
  is_CPUCores :: float64
  is_MemoryMB :: int
  is_DiskGB :: int
  is_PriceHourly :: float64

definition AWSRegions :: "Region list" where
  "AWSRegions = [
     \<lparr>rg_ID = ''us-east-1'', rg_Name = ''US East (N. Virginia)'', rg_Available = True\<rparr>,
     \<lparr>rg_ID = ''us-east-2'', rg_Name = ''US East (Ohio)'', rg_Available = True\<rparr>,
     \<lparr>rg_ID = ''us-west-1'', rg_Name = ''US West (N. California)'', rg_Available = True\<rparr>,
     \<lparr>rg_ID = ''us-west-2'', rg_Name = ''US West (Oregon)'', rg_Available = True\<rparr>,
     \<lparr>rg_ID = ''eu-west-1'', rg_Name = ''EU (Ireland)'', rg_Available = True\<rparr>,
     \<lparr>rg_ID = ''eu-west-2'', rg_Name = ''EU (London)'', rg_Available = True\<rparr>,
     \<lparr>rg_ID = ''eu-central-1'', rg_Name = ''EU (Frankfurt)'', rg_Available = True\<rparr>,
     \<lparr>rg_ID = ''ap-southeast-1'', rg_Name = ''Asia Pacific (Singapore)'', rg_Available = True\<rparr>,
     \<lparr>rg_ID = ''ap-northeast-1'', rg_Name = ''Asia Pacific (Tokyo)'', rg_Available = True\<rparr>]"

definition AWSSizes :: "InstanceSize list" where
  "AWSSizes = [
     \<lparr>is_ID = ''t3.micro'', is_Name = ''t3.micro (1 vCPU, 1 GB)'', is_CPUCores = Fin 1, is_MemoryMB = 1024, is_DiskGB = 8,
       is_PriceHourly = of_rat64 (104 / 10000)\<rparr>,
     \<lparr>is_ID = ''t3.small'', is_Name = ''t3.small (2 vCPU, 2 GB)'', is_CPUCores = Fin 2, is_MemoryMB = 2048, is_DiskGB = 20,
       is_PriceHourly = of_rat64 (208 / 10000)\<rparr>,
     \<lparr>is_ID = ''t3.medium'', is_Name = ''t3.medium (2 vCPU, 4 GB)'', is_CPUCores = Fin 2, is_MemoryMB = 4096, is_DiskGB = 40,
       is_PriceHourly = of_rat64 (416 / 10000)\<rparr>,
     \<lparr>is_ID = ''t3.large'', is_Name = ''t3.large (2 vCPU, 8 GB)'', is_CPUCores = Fin 2, is_MemoryMB = 8192, is_DiskGB = 80,
       is_PriceHourly = of_rat64 (832 / 10000)\<rparr>,
     \<lparr>is_ID = ''t3.xlarge'', is_Name = ''t3.xlarge (4 vCPU, 16 GB)'', is_CPUCores = Fin 4, is_MemoryMB = 16384, is_DiskGB = 160,
       is_PriceHourly = of_rat64 (1664 / 10000)\<rparr>]"

definition DigitalOceanRegions :: "Region list" where
  "DigitalOceanRegions = [
     \<lparr>rg_ID = ''nyc1'', rg_Name = ''New York 1'', rg_Available = True\<rparr>,
     \<lparr>rg_ID = ''nyc3'', rg_Name = ''New York 3'', rg_Available = True\<rparr>,
     \<lparr>rg_ID = ''sfo3'', rg_Name = ''San Francisco 3'', rg_Available = True\<rparr>,
     \<lparr>rg_ID = ''ams3'', rg_Name = ''Amsterdam 3'', rg_Available = True\<rparr>,
     \<lparr>rg_ID = ''lon1'', rg_Name = ''London 1'', rg_Available = True\<rparr>,
     \<lparr>rg_ID = ''fra1'', rg_Name = ''Frankfurt 1'', rg_Available = True\<rparr>,
     \<lparr>rg_ID = ''sgp1'', rg_Name = ''Singapore 1'', rg_Available = True\<rparr>,
     \<lparr>rg_ID = ''blr1'', rg_Name = ''Bangalore 1'', rg_Available = True\<rparr>]"

definition DigitalOceanSizes :: "InstanceSize list" where
  "DigitalOceanSizes = [
     \<lparr>is_ID = ''s-1vcpu-1gb'', is_Name = ''Basic (1 vCPU, 1 GB)'', is_CPUCores = Fin 1, is_MemoryMB = 1024, is_DiskGB = 25,
       is_PriceHourly = of_rat64 (893 / 100000)\<rparr>,
     \<lparr>is_ID = ''s-1vcpu-2gb'', is_Name = ''Basic (1 vCPU, 2 GB)'', is_CPUCores = Fin 1, is_MemoryMB = 2048, is_DiskGB = 50,
       is_PriceHourly = of_rat64 (1786 / 100000)\<rparr>,
     \<lparr>is_ID = ''s-2vcpu-2gb'', is_Name = ''Basic (2 vCPU, 2 GB)'', is_CPUCores = Fin 2, is_MemoryMB = 2048, is_DiskGB = 60,
       is_PriceHourly = of_rat64 (2679 / 100000)\<rparr>,
     \<lparr>is_ID = ''s-2vcpu-4gb'', is_Name = ''Basic (2 vCPU, 4 GB)'', is_CPUCores = Fin 2, is_MemoryMB = 4096, is_DiskGB = 80,
       is_PriceHourly = of_rat64 (3571 / 100000)\<rparr>,
     \<lparr>is_ID = ''s-4vcpu-8gb'', is_Name = ''Basic (4 vCPU, 8 GB)'', is_CPUCores = Fin 4, is_MemoryMB = 8192, is_DiskGB = 160,
       is_PriceHourly = of_rat64 (7143 / 100000)\<rparr>]"

definition HetznerRegions :: "Region list" where
  "HetznerRegions = [
     \<lparr>rg_ID = ''nbg1'', rg_Name = ''Nuremberg'', rg_Available = True\<rparr>,
     \<lparr>rg_ID = ''fsn1'', rg_Name = ''Falkenstein'', rg_Available = True\<rparr>,
     \<lparr>rg_ID = ''hel1'', rg_Name = ''Helsinki'', rg_Available = True\<rparr>,
     \<lparr>rg_ID = ''ash'', rg_Name = ''Ashburn, VA'', rg_Available = True\<rparr>,
     \<lparr>rg_ID = ''hil'', rg_Name = ''Hillsboro, OR'', rg_Available = True\<rparr>]"

definition HetznerSizes :: "InstanceSize list" where
  "HetznerSizes = [
     \<lparr>is_ID = ''cx22'', is_Name = ''CX22 (2 vCPU, 4 GB)'', is_CPUCores = Fin 2, is_MemoryMB = 4096, is_DiskGB = 40,
       is_PriceHourly = of_rat64 (65 / 10000)\<rparr>,
     \<lparr>is_ID = ''cx32'', is_Name = ''CX32 (4 vCPU, 8 GB)'', is_CPUCores = Fin 4, is_MemoryMB = 8192, is_DiskGB = 80,
       is_PriceHourly = of_rat64 (119 / 10000)\<rparr>,
     \<lparr>is_ID = ''cx42'', is_Name = ''CX42 (8 vCPU, 16 GB)'', is_CPUCores = Fin 8, is_MemoryMB = 16384, is_DiskGB = 160,
       is_PriceHourly = of_rat64 (229 / 10000)\<rparr>,
     \<lparr>is_ID = ''cx52'', is_Name = ''CX52 (16 vCPU, 32 GB)'', is_CPUCores = Fin 16, is_MemoryMB = 32768, is_DiskGB = 320,
       is_PriceHourly = of_rat64 (449 / 10000)\<rparr>]"

text \<open>A \<open>nil\<close> slice is the empty list.\<close>

definition StaticRegions :: "string \<Rightarrow> Region list" where
  "StaticRegions provider =
     (if provider = ''aws'' then AWSRegions
      else if provider = ''digitalocean'' then DigitalOceanRegions
      else if provider = ''hetzner'' then HetznerRegions
      else [])"

definition StaticSizes :: "string \<Rightarrow> InstanceSize list" where
  "StaticSizes provider =
     (if provider = ''aws'' then AWSSizes
      else if provider = ''digitalocean'' then DigitalOceanSizes
      else if provider = ''hetzner'' then HetznerSizes
      else [])"

fun lookup_size :: "string \<Rightarrow> InstanceSize list \<Rightarrow> InstanceSize option" where
  "lookup_size sizeID [] = None"
| "lookup_size sizeID (s # ss) = (if is_ID s = sizeID then Some s else lookup_size sizeID ss)"

definition LookupSize :: "string \<Rightarrow> string \<Rightarrow> InstanceSize option" where
  "LookupSize provider sizeID = lookup_size sizeID (StaticSizes provider)"

section \<open>Credentials\<close>

datatype provider_error =
    ErrAWSAccessKeyRequired | ErrAWSSecretKeyRequired | ErrDOTokenRequired | ErrHetznerTokenRequired
  | ErrUnknownProvider | ErrCredentialsJSON string

record AWSCredentials =
  aws_AccessKeyID :: string
  aws_SecretAccessKey :: string

record DigitalOceanCredentials =
  do_APIToken :: string

record HetznerCredentials =
  hz_APIToken :: string

definition ValidateAWSCredentials :: "AWSCredentials \<Rightarrow> provider_error option" where
  "ValidateAWSCredentials creds =
     (if aws_AccessKeyID creds = [] then Some ErrAWSAccessKeyRequired
      else if aws_SecretAccessKey creds = [] then Some ErrAWSSecretKeyRequired else None)"

definition ValidateDigitalOceanCredentials :: "DigitalOceanCredentials \<Rightarrow> provider_error option" where
  "ValidateDigitalOceanCredentials creds = (if do_APIToken creds = [] then Some ErrDOTokenRequired else None)"

definition ValidateHetznerCredentials :: "HetznerCredentials \<Rightarrow> provider_error option" where
  "ValidateHetznerCredentials creds = (if hz_APIToken creds = [] then Some ErrHetznerTokenRequired else None)"

record cred_json =
  cj_aws :: "string \<Rightarrow> AWSCredentials option"
  cj_do :: "string \<Rightarrow> DigitalOceanCredentials option"
  cj_hz :: "string \<Rightarrow> HetznerCredentials option"

definition ValidateCredentialsJSON :: "cred_json \<Rightarrow> string \<Rightarrow> string \<Rightarrow> provider_error option" where
  "ValidateCredentialsJSON cj provider credJSON =
     (if provider = ''aws'' then
        (case cj_aws cj credJSON of
           None \<Rightarrow> Some (ErrCredentialsJSON ''invalid AWS credentials JSON'')
         | Some creds \<Rightarrow> ValidateAWSCredentials creds)
      else if provider = ''digitalocean'' then
        (case cj_do cj credJSON of
           None \<Rightarrow> Some (ErrCredentialsJSON ''invalid DigitalOcean credentials JSON'')
         | Some creds \<Rightarrow> ValidateDigitalOceanCredentials creds)
      else if provider = ''hetzner'' then
        (case cj_hz cj credJSON of
           None \<Rightarrow> Some (ErrCredentialsJSON ''invalid Hetzner credentials JSON'')
         | Some creds \<Rightarrow> ValidateHetznerCredentials creds)
      else Some ErrUnknownProvider)"

text \<open>The error of the JSON library is passed on; it is represented by its class only.\<close>

definition ParseAWSCredentials :: "cred_json \<Rightarrow> string \<Rightarrow> provider_error + AWSCredentials" where
  "ParseAWSCredentials cj data =
     (case cj_aws cj data of
        None \<Rightarrow> Inl (ErrCredentialsJSON [])
      | Some creds \<Rightarrow> (case ValidateAWSCredentials creds of Some err \<Rightarrow> Inl err | None \<Rightarrow> Inr creds))"

definition ParseDigitalOceanCredentials :: "cred_json \<Rightarrow> string \<Rightarrow> provider_error + DigitalOceanCredentials" where
  "ParseDigitalOceanCredentials cj data =
     (case cj_do cj data of
        None \<Rightarrow> Inl (ErrCredentialsJSON [])
      | Some creds \<Rightarrow> (case ValidateDigitalOceanCredentials creds of Some err \<Rightarrow> Inl err | None \<Rightarrow> Inr creds))"

definition ParseHetznerCredentials :: "cred_json \<Rightarrow> string \<Rightarrow> provider_error + HetznerCredentials" where
  "ParseHetznerCredentials cj data =
     (case cj_hz cj data of
        None \<Rightarrow> Inl (ErrCredentialsJSON [])
      | Some creds \<Rightarrow> (case ValidateHetznerCredentials creds of Some err \<Rightarrow> Inl err | None \<Rightarrow> Inr creds))"

section \<open>Properties\<close>

lemma lookup_size_distinct: "distinct (map is_ID ss) \<Longrightarrow> s \<in> set ss \<Longrightarrow> lookup_size (is_ID s) ss = Some s"
  by (induction ss) auto

lemma lookup_size_sound: "lookup_size i ss = Some s \<Longrightarrow> s \<in> set ss \<and> is_ID s = i"
  by (induction ss) (auto split: if_splits)

lemmas catalog_defs = StaticSizes_def StaticRegions_def AWSSizes_def DigitalOceanSizes_def HetznerSizes_def
  AWSRegions_def DigitalOceanRegions_def HetznerRegions_def

lemma sizes_distinct: "distinct (map is_ID (StaticSizes p))"
  by (simp add: catalog_defs)

lemma regions_distinct: "distinct (map rg_ID (StaticRegions p))"
  by (simp add: catalog_defs)

text \<open>
  The catalogs are consistent: a size is found by its identifier exactly when the provider offers it,
  identifiers of sizes and regions are unique, every offered size has positive memory and disk, and
  the providers with a catalog are exactly the provider types of the domain.
\<close>

theorem catalog_lookup:
  "(LookupSize p i = Some s \<longleftrightarrow> s \<in> set (StaticSizes p) \<and> is_ID s = i)
   \<and> distinct (map is_ID (StaticSizes p)) \<and> distinct (map rg_ID (StaticRegions p))
   \<and> list_all (\<lambda>s. 0 < is_MemoryMB s \<and> 0 < is_DiskGB s) (StaticSizes p)
   \<and> (StaticSizes p \<noteq> [] \<longleftrightarrow> ProviderType_IsValid p) \<and> (StaticRegions p \<noteq> [] \<longleftrightarrow> ProviderType_IsValid p)"
proof -
  have "LookupSize p i = Some s \<longleftrightarrow> s \<in> set (StaticSizes p) \<and> is_ID s = i"
    using lookup_size_distinct [OF sizes_distinct] lookup_size_sound by (auto simp: LookupSize_def)
  moreover have "list_all (\<lambda>s. 0 < is_MemoryMB s \<and> 0 < is_DiskGB s) (StaticSizes p)"
    by (simp add: catalog_defs)
  moreover have "StaticSizes p \<noteq> [] \<longleftrightarrow> ProviderType_IsValid p" "StaticRegions p \<noteq> [] \<longleftrightarrow> ProviderType_IsValid p"
    by (auto simp: catalog_defs ProviderType_IsValid_def const_defs)
  ultimately show ?thesis using sizes_distinct regions_distinct by blast
qed

text \<open>Validating credentials accepts exactly what the provider's own parser accepts.\<close>

lemma validate_matches_parse:
  "ValidateCredentialsJSON cj ''aws'' c = None \<longleftrightarrow> (\<exists>x. ParseAWSCredentials cj c = Inr x)"
  "ValidateCredentialsJSON cj ''digitalocean'' c = None \<longleftrightarrow> (\<exists>x. ParseDigitalOceanCredentials cj c = Inr x)"
  "ValidateCredentialsJSON cj ''hetzner'' c = None \<longleftrightarrow> (\<exists>x. ParseHetznerCredentials cj c = Inr x)"
  by (auto simp: ValidateCredentialsJSON_def ParseAWSCredentials_def ParseDigitalOceanCredentials_def
      ParseHetznerCredentials_def split: option.splits)

end
