(* ===== verification/Engine_Setup.thy ===== *)
theory Engine_Setup
  imports Engine_API Engine_Lifecycle Provider_Catalog Planning
begin

text \<open>
  \<open>internal/engine/setup.go\<close>: the resource hooks that \<open>Setup\<close> installs and the custom action handlers. The
  functions of \<open>core/crypto\<close> are given as applied to their libraries; JSON of the domain list and the
  DNS lookup are arguments. A command that a handler starts in a goroutine is appended to the
  jobs of the world; \<open>run_job\<close> executes one of them, at any later time.
\<close>

section \<open>Configuration\<close>

record engine_DNSInstruction =
  ed_Type :: string
  ed_Name :: string
  ed_Value :: string
  ed_Priority :: string

record DomainInfo =
  di_Hostname :: string
  di_Type :: string
  di_SSLEnabled :: bool
  di_VerificationStatus :: string
  di_VerificationMethod :: string
  di_VerifiedAt :: string
  di_LastCheckError :: string
  di_Instructions :: "engine_DNSInstruction list"

record SetupConfig =
  su_Store :: Store
  su_Dispatch :: "string \<Rightarrow> handler"
  su_BaseDomain :: string
  su_StripeKey :: string
  su_fingerprint :: "string \<Rightarrow> crypto_error + string"
  su_publickey :: "string \<Rightarrow> crypto_error + string"
  su_keypair :: "nat \<Rightarrow> crypto_error + string \<times> string"
  su_MarshalDomains :: "DomainInfo list \<Rightarrow> string"
  su_UnmarshalDomains :: "string \<Rightarrow> DomainInfo list option"
  su_LookupCNAME :: "nat \<Rightarrow> string \<Rightarrow> string + string"
  su_time :: "nat \<Rightarrow> time"
  su_eventID :: "nat \<Rightarrow> string"

section \<open>Hooks\<close>

definition ssh_BeforeCreate :: "Env \<Rightarrow> SetupConfig \<Rightarrow> AuthContext \<Rightarrow> row \<Rightarrow> world \<Rightarrow> world \<times> (string + row)" where
  "ssh_BeforeCreate e cfg authCtx data w =
     (let pk = as_string (row_get data ''private_key'')
      in if pk = [] then (w, Inr data)
         else case su_fingerprint cfg pk of
                Inl err \<Rightarrow> (w, Inl (''invalid SSH private key: '' @ env_crypto_text e err))
              | Inr fp \<Rightarrow>
                  let data = data(''fingerprint'' \<mapsto> GStr fp)
                  in if data ''public_key'' = None
                     then (case su_publickey cfg pk of
                             Inl _ \<Rightarrow> (w, Inr data)
                           | Inr pubKey \<Rightarrow> (w, Inr (data(''public_key'' \<mapsto> GStr pubKey))))
                     else (w, Inr data))"

definition template_BeforeDelete :: "Env \<Rightarrow> SetupConfig \<Rightarrow> AuthContext \<Rightarrow> row \<Rightarrow> world \<Rightarrow> world \<times> string option" where
  "template_BeforeDelete e cfg authCtx row w =
     (case toInt64 (row_get row ''id'') of
        None \<Rightarrow> (w, Some ''invalid template ID'')
      | Some tmplID \<Rightarrow>
          (case Store_List e (su_Store cfg) ''deployments'' [\<lparr>flt_Field = ''template_id'', flt_Value = GInt64 tmplID\<rparr>]
                  \<lparr>pg_Limit = 1, pg_Offset = 0\<rparr> w of
             (w, Inr (_ # _)) \<Rightarrow> (w, Some ''cannot delete template: it has active deployments'')
           | (w, _) \<Rightarrow> (w, None)))"

definition active_count :: "row list \<Rightarrow> int" where
  "active_count existing = int (length (filter (\<lambda>d. as_string (row_get d ''status'') \<noteq> ''deleted'') existing))"

definition plan_limit_check :: "Env \<Rightarrow> SetupConfig \<Rightarrow> AuthContext \<Rightarrow> world \<Rightarrow> world \<times> string option" where
  "plan_limit_check e cfg authCtx w =
     (let maxDeployments = pl_MaxDeployments (ac_PlanLimits authCtx)
      in if 0 < maxDeployments then
           (case Store_List e (su_Store cfg) ''deployments''
                   [\<lparr>flt_Field = ''customer_id'', flt_Value = GInt (ac_UserID authCtx)\<rparr>]
                   \<lparr>pg_Limit = 1000, pg_Offset = 0\<rparr> w of
              (w, Inl err) \<Rightarrow> (w, None)
            | (w, Inr existing) \<Rightarrow>
                if maxDeployments \<le> active_count existing
                then (w, Some (''plan limit reached: maximum '' @ fmt_d maxDeployments @ '' deployments allowed''))
                else (w, None))
         else (w, None))"

definition deployment_BeforeCreate ::
  "Env \<Rightarrow> SetupConfig \<Rightarrow> AuthContext \<Rightarrow> row \<Rightarrow> world \<Rightarrow> world \<times> (string + row)" where
  "deployment_BeforeCreate e cfg authCtx data w =
     (case plan_limit_check e cfg authCtx w of
        (w, Some err) \<Rightarrow> (w, Inl err)
      | (w, None) \<Rightarrow>
          if row_get data ''template_version'' = GNil \<or> row_get data ''template_version'' = GStr [] then
            (case toInt64 (row_get data ''template_id'') of
               Some tid \<Rightarrow>
                 if 0 < tid then
                   (case Store_GetByID e (su_Store cfg) ''templates'' tid w of
                      (w, Inr tmpl) \<Rightarrow> (w, Inr (data(''template_version'' \<mapsto> GStr (strVal (row_get tmpl ''version'')))))
                    | (w, Inl err) \<Rightarrow> (w, Inr data))
                 else (w, Inr data)
             | None \<Rightarrow> (w, Inr data))
          else (w, Inr data))"

definition deployment_AfterCreate :: "Env \<Rightarrow> SetupConfig \<Rightarrow> AuthContext \<Rightarrow> row \<Rightarrow> world \<Rightarrow> world" where
  "deployment_AfterCreate e cfg authCtx row w =
     (let refID = as_string (row_get row ''reference_id'')
      in if refID \<noteq> [] \<and> 0 < ac_UserID authCtx
         then fst (RecordEvent e (su_time cfg (w_tick w)) (su_eventID cfg (w_tick w)) (ac_UserID authCtx)
                EventDeploymentCreated refID ''deployment'' None w)
         else w)"

definition create_provision_key ::
  "Env \<Rightarrow> SetupConfig \<Rightarrow> AuthContext \<Rightarrow> string \<Rightarrow> row \<Rightarrow> world \<Rightarrow> world \<times> (string + row)" where
  "create_provision_key e cfg authCtx keyName data w =
     (case su_keypair cfg (w_tick w) of
        Inl err \<Rightarrow> (w, Inl (''generate SSH key pair: '' @ env_crypto_text e err))
      | Inr (privateKeyPEM, publicKey) \<Rightarrow>
          (case su_fingerprint cfg privateKeyPEM of
             Inl err \<Rightarrow> (w, Inl (''compute SSH key fingerprint: '' @ env_crypto_text e err))
           | Inr fingerprint \<Rightarrow>
               (case Store_Create e (su_Store cfg) ''ssh_keys''
                       [''creator_id'' \<mapsto> GInt (ac_UserID authCtx), ''name'' \<mapsto> GStr keyName,
                        ''private_key'' \<mapsto> GStr privateKeyPEM, ''public_key'' \<mapsto> GStr publicKey,
                        ''fingerprint'' \<mapsto> GStr fingerprint] w of
                  (w, Inl err) \<Rightarrow> (w, Inl (''create SSH key: '' @ err))
                | (w, Inr sshKeyRow) \<Rightarrow>
                    (w, Inr (data(''ssh_key_id'' \<mapsto> GStr (strVal (row_get sshKeyRow ''reference_id''))))))))"

text \<open>Reuses a key of the same name, or creates a key pair and stores it.\<close>

definition provision_ssh_key ::
  "Env \<Rightarrow> SetupConfig \<Rightarrow> AuthContext \<Rightarrow> string \<Rightarrow> row \<Rightarrow> world \<Rightarrow> world \<times> (string + row)" where
  "provision_ssh_key e cfg authCtx keyName data w =
     (case Store_List e (su_Store cfg) ''ssh_keys''
             [\<lparr>flt_Field = ''creator_id'', flt_Value = GInt (ac_UserID authCtx)\<rparr>,
              \<lparr>flt_Field = ''name'', flt_Value = GStr keyName\<rparr>] \<lparr>pg_Limit = 1, pg_Offset = 0\<rparr> w of
        (w, Inr (key # _)) \<Rightarrow> (w, Inr (data(''ssh_key_id'' \<mapsto> GStr (strVal (row_get key ''reference_id'')))))
      | (w, _) \<Rightarrow> create_provision_key e cfg authCtx keyName data w)"

definition provision_BeforeCreate ::
  "Env \<Rightarrow> SetupConfig \<Rightarrow> AuthContext \<Rightarrow> row \<Rightarrow> world \<Rightarrow> world \<times> (string + row)" where
  "provision_BeforeCreate e cfg authCtx data w =
     (case toInt64 (row_get data ''credential_id'') of
        None \<Rightarrow> (w, Inl ''credential_id is required'')
      | Some credID \<Rightarrow>
          if credID = 0 then (w, Inl ''credential_id is required'')
          else case Store_GetByID e (su_Store cfg) ''cloud_credentials'' credID w of
                 (w, Inl err) \<Rightarrow> (w, Inl ''credential not found'')
               | (w, Inr cred) \<Rightarrow>
                   if toInt64 (row_get cred ''creator_id'') \<noteq> Some (ac_UserID authCtx)
                   then (w, Inl ''access denied: credential does not belong to you'')
                   else let data = data(''provider'' \<mapsto> GStr (strVal (row_get cred ''provider'')))
                        in provision_ssh_key e cfg authCtx (''cloud-'' @ strVal (row_get data ''instance_name'')) data w)"

text \<open>The configuration of the generic handlers that \<open>Setup\<close> passes to \<open>RegisterRoutes\<close>.\<close>

definition setup_api :: "Env \<Rightarrow> SetupConfig \<Rightarrow> APIConfig" where
  "setup_api e cfg = \<lparr>api_Store = su_Store cfg, api_Dispatch = su_Dispatch cfg,
     api_BeforeCreate = [''ssh_keys'' \<mapsto> ssh_BeforeCreate e cfg, ''deployments'' \<mapsto> deployment_BeforeCreate e cfg,
       ''cloud_provisions'' \<mapsto> provision_BeforeCreate e cfg],
     api_AfterCreate = [''deployments'' \<mapsto> deployment_AfterCreate e cfg],
     api_BeforeDelete = [''templates'' \<mapsto> template_BeforeDelete e cfg]\<rparr>"

section \<open>Action handlers\<close>

definition not_found :: "string \<Rightarrow> string \<Rightarrow> Response" where
  "not_found what err = writeError 404 (what @ '' not found'')"

text \<open>\<open>res := cfg.Store.Resource(name); stripFields(res, \<dots>)\<close>\<close>

definition resource_response :: "Env \<Rightarrow> SetupConfig \<Rightarrow> string \<Rightarrow> AuthContext \<Rightarrow> row \<Rightarrow> world \<Rightarrow> world \<times> Response" where
  "resource_response e cfg name authCtx row w =
     (case Store_Resource (su_Store cfg) name of
        None \<Rightarrow> (w, writeError 500 ''an unexpected error occurred'')
      | Some res \<Rightarrow> get_response e res authCtx 200 row w)"

definition publish_action :: "Env \<Rightarrow> SetupConfig \<Rightarrow> http_handler" where
  "publish_action e cfg =
     owned_request e (su_Store cfg) ''templates'' ''creator_id'' (not_found ''template'') ''access denied'' ''not authorized''
       (\<lambda>authCtx tmpl r w.
          case Store_Update e (su_Store cfg) ''templates'' (rq_id r) [''published'' \<mapsto> GInt 1] w of
            (w, Inl err) \<Rightarrow> (w, writeError 500 err)
          | (w, Inr row) \<Rightarrow> resource_response e cfg ''templates'' authCtx row w)"

definition start_target :: "string \<Rightarrow> string option" where
  "start_target status =
     (if status = ''pending'' then Some ''scheduled''
      else if status = ''scheduled'' then Some ''starting''
      else if status = ''stopped'' \<or> status = ''failed'' then Some ''starting''
      else None)"

definition go_dispatch :: "string \<Rightarrow> row \<Rightarrow> world \<Rightarrow> world" where
  "go_dispatch cmd row w = (if cmd \<noteq> [] then w\<lparr>w_jobs := w_jobs w @ [(cmd, row)]\<rparr> else w)"

definition start_action :: "Env \<Rightarrow> SetupConfig \<Rightarrow> http_handler" where
  "start_action e cfg =
     owned_request e (su_Store cfg) ''deployments'' ''customer_id'' (not_found ''deployment'') ''access denied'' ''not authorized''
       (\<lambda>authCtx existing r w.
          let status = as_string (row_get existing ''status'')
          in case start_target status of
               None \<Rightarrow> (w, writeError 409 (''cannot start deployment in state: '' @ status))
             | Some targetState \<Rightarrow>
                 (case Store_Transition e (su_Store cfg) ''deployments'' (rq_id r) targetState w of
                    (w, Inl err) \<Rightarrow> (w, writeError 409 err)
                  | (w, Inr (row, cmd)) \<Rightarrow> resource_response e cfg ''deployments'' authCtx row (go_dispatch cmd row w)))"

definition stop_action :: "Env \<Rightarrow> SetupConfig \<Rightarrow> http_handler" where
  "stop_action e cfg =
     owned_request e (su_Store cfg) ''deployments'' ''customer_id'' (not_found ''deployment'') ''access denied'' ''not authorized''
       (\<lambda>authCtx existing r w.
          case Store_Transition e (su_Store cfg) ''deployments'' (rq_id r) ''stopping'' w of
            (w, Inl err) \<Rightarrow> (w, writeError 409 err)
          | (w, Inr (row, cmd)) \<Rightarrow> resource_response e cfg ''deployments'' authCtx row (go_dispatch cmd row w))"

definition retry_target :: "row \<Rightarrow> string" where
  "retry_target prov =
     (if strVal (row_get prov ''provider_instance_id'') \<noteq> [] \<and> strVal (row_get prov ''completed_at'') \<noteq> []
      then ''destroying'' else ''pending'')"

definition retry_action :: "Env \<Rightarrow> SetupConfig \<Rightarrow> http_handler" where
  "retry_action e cfg =
     owned_request e (su_Store cfg) ''cloud_provisions'' ''creator_id'' (not_found ''provision'') ''access denied'' ''not authorized''
       (\<lambda>authCtx prov r w.
          if as_string (row_get prov ''status'') \<noteq> ''failed'' then (w, writeError 409 ''can only retry failed provisions'')
          else case Store_Transition e (su_Store cfg) ''cloud_provisions'' (rq_id r) (retry_target prov) w of
                 (w, Inl err) \<Rightarrow> (w, writeError 409 err)
               | (w, Inr (row, cmd)) \<Rightarrow>
                   let w = (if cmd \<noteq> [] then fst (su_Dispatch cfg cmd row w) else w)
                   in resource_response e cfg ''cloud_provisions'' authCtx row w)"

definition nodeMaintenanceHandler :: "Env \<Rightarrow> SetupConfig \<Rightarrow> http_handler" where
  "nodeMaintenanceHandler e cfg =
     owned_request e (su_Store cfg) ''nodes'' ''creator_id'' (not_found ''node'') ''not authorized'' ''not authorized''
       (\<lambda>authCtx node r w.
          let newStatus = (if rq_method r = ''POST'' then ''maintenance'' else ''online'')
          in case Store_Update e (su_Store cfg) ''nodes'' (rq_id r) [''status'' \<mapsto> GStr newStatus] w of
               (w, Inl err) \<Rightarrow> (w, writeError 500 err)
             | (w, Inr row) \<Rightarrow> resource_response e cfg ''nodes'' authCtx row w)"

definition cloudCatalogHandler :: "Env \<Rightarrow> SetupConfig \<Rightarrow> (string \<Rightarrow> gval) \<Rightarrow> http_handler" where
  "cloudCatalogHandler e cfg catalogFn =
     owned_request e (su_Store cfg) ''cloud_credentials'' ''creator_id'' (not_found ''credential'') ''access denied'' ''not authorized''
       (\<lambda>authCtx cred r w.
          (w, writeJSON 200 (RespValue (GMap [(''data'', catalogFn (as_string (row_get cred ''provider'')))]))))"

definition region_gval :: "Region \<Rightarrow> gval" where
  "region_gval x = GMap [(''id'', GStr (rg_ID x)), (''name'', GStr (rg_Name x)), (''available'', GBool (rg_Available x))]"

definition size_gval :: "InstanceSize \<Rightarrow> gval" where
  "size_gval x = GMap [(''id'', GStr (is_ID x)), (''name'', GStr (is_Name x)), (''cpu_cores'', GFloat (is_CPUCores x)),
     (''memory_mb'', GInt64 (is_MemoryMB x)), (''disk_gb'', GInt (is_DiskGB x)), (''price_hourly'', GFloat (is_PriceHourly x))]"

definition regions_action :: "Env \<Rightarrow> SetupConfig \<Rightarrow> http_handler" where
  "regions_action e cfg = cloudCatalogHandler e cfg (\<lambda>p. GList (map region_gval (StaticRegions p)))"

definition sizes_action :: "Env \<Rightarrow> SetupConfig \<Rightarrow> http_handler" where
  "sizes_action e cfg = cloudCatalogHandler e cfg (\<lambda>p. GList (map size_gval (StaticSizes p)))"

section \<open>Monitoring\<close>

definition monitoringHandler ::
  "Env \<Rightarrow> SetupConfig \<Rightarrow> (row \<Rightarrow> Request \<Rightarrow> world \<Rightarrow> world \<times> gval) \<Rightarrow> http_handler" where
  "monitoringHandler e cfg builder =
     owned_request e (su_Store cfg) ''deployments'' ''customer_id'' (not_found ''deployment'') ''access denied'' ''not authorized''
       (\<lambda>authCtx depl r w. case builder depl r w of (w, result) \<Rightarrow> (w, writeJSON 200 (RespValue result)))"

definition monitoring_doc :: "string \<Rightarrow> row \<Rightarrow> (string \<times> gval) list \<Rightarrow> gval" where
  "monitoring_doc typ depl attrs =
     GMap [(''data'', GMap [(''type'', GStr typ), (''id'', GStr (as_string (row_get depl ''reference_id''))),
       (''attributes'', GMap attrs)])]"

definition health_action :: "Env \<Rightarrow> SetupConfig \<Rightarrow> http_handler" where
  "health_action e cfg = monitoringHandler e cfg (\<lambda>depl r w. (tick w, monitoring_doc ''deployment-health'' depl
     [(''status'', GStr ''unknown''), (''containers'', GList []), (''checked_at'', GStr (env_now e (w_tick w)))]))"

definition stats_action :: "Env \<Rightarrow> SetupConfig \<Rightarrow> http_handler" where
  "stats_action e cfg = monitoringHandler e cfg (\<lambda>depl r w. (tick w, monitoring_doc ''deployment-stats'' depl
     [(''containers'', GList []), (''collected_at'', GStr (env_now e (w_tick w)))]))"

definition logs_action :: "Env \<Rightarrow> SetupConfig \<Rightarrow> http_handler" where
  "logs_action e cfg = monitoringHandler e cfg (\<lambda>depl r w. (w, monitoring_doc ''deployment-logs'' depl [(''logs'', GList [])]))"

definition event_gval :: "row \<Rightarrow> gval" where
  "event_gval row = GMap (map (\<lambda>k. (k, GStr (strVal (row_get row k)))) [''id'', ''type'', ''container'', ''message'', ''timestamp''])"

definition events_query :: string where
  "events_query = ''SELECT id, type, container, message, timestamp FROM container_events WHERE deployment_id = ? ORDER BY timestamp DESC LIMIT ?''"

definition typed_events_query :: string where
  "typed_events_query = ''SELECT id, type, container, message, timestamp FROM container_events WHERE deployment_id = ? AND type = ? ORDER BY timestamp DESC LIMIT ?''"

text \<open>
  The two event queries by their meaning: newest first is the reverse of the ascending order that \<open>env_sort_timestamp\<close>
  computes.
\<close>

definition container_event_rows :: "Env \<Rightarrow> int \<Rightarrow> string \<Rightarrow> int \<Rightarrow> world \<Rightarrow> world \<times> (string + row list)" where
  "container_event_rows e deplID eventType n w =
     (let stmt = (if eventType \<noteq> [] then RawStmt typed_events_query [GInt64 deplID, GStr eventType, GInt n]
                  else RawStmt events_query [GInt64 deplID, GInt n])
      in case env_fail e (w_tick w) stmt of
           Some err \<Rightarrow> (tick w, Inl err)
         | None \<Rightarrow> (tick w, Inr (take (nat n) (rev (env_sort_timestamp e (filter
             (\<lambda>r. sql_eq (row_get r ''deployment_id'') (env_conv e ''container_events'' ''deployment_id'' (GInt64 deplID))
                \<and> (eventType = [] \<or> sql_eq (row_get r ''type'') (env_conv e ''container_events'' ''type'' (GStr eventType))))
             (w_tables w ''container_events'')))))))"

definition events_limit :: "Request \<Rightarrow> int" where
  "events_limit r =
     (case Atoi (query_Get (rq_query r) ''limit'') of
        (n, None) \<Rightarrow> if query_Get (rq_query r) ''limit'' \<noteq> [] \<and> 0 < n \<and> n \<le> 1000 then n else 50
      | (_, Some _) \<Rightarrow> 50)"

definition events_action :: "Env \<Rightarrow> SetupConfig \<Rightarrow> http_handler" where
  "events_action e cfg = monitoringHandler e cfg
     (\<lambda>depl r w.
        let deplID = int64_or0 (row_get depl ''id'')
        in case container_event_rows e deplID (query_Get (rq_query r) ''type'') (events_limit r) w of
             (w, res) \<Rightarrow> (w, monitoring_doc ''deployment-events'' depl
               [(''events'', GList (map event_gval (case res of Inl _ \<Rightarrow> [] | Inr rows \<Rightarrow> rows)))]))"

section \<open>Domains of a deployment\<close>

text \<open>A \<open>nil\<close> slice is the empty list.\<close>

definition parseDomainsList :: "Env \<Rightarrow> SetupConfig \<Rightarrow> gval \<Rightarrow> DomainInfo list" where
  "parseDomainsList e cfg v =
     (case (case v of
              GNil \<Rightarrow> Inl []
            | GStr val \<Rightarrow> Inr val
            | GBytes val \<Rightarrow> Inr val
            | _ \<Rightarrow> env_Marshal e v) of
        Inl err \<Rightarrow> []
      | Inr raw \<Rightarrow>
          if raw = [] \<or> raw = ''null'' then []
          else case su_UnmarshalDomains cfg raw of None \<Rightarrow> [] | Some domains \<Rightarrow> domains)"

definition omit_empty :: "string \<Rightarrow> string \<Rightarrow> (string \<times> gval) list" where
  "omit_empty k v = (if v = [] then [] else [(k, GStr v)])"

definition instruction_gval :: "engine_DNSInstruction \<Rightarrow> gval" where
  "instruction_gval x = GMap [(''type'', GStr (ed_Type x)), (''name'', GStr (ed_Name x)), (''value'', GStr (ed_Value x)),
     (''priority'', GStr (ed_Priority x))]"

definition domain_gval :: "DomainInfo \<Rightarrow> gval" where
  "domain_gval d = GMap ([(''hostname'', GStr (di_Hostname d)), (''type'', GStr (di_Type d)), (''ssl_enabled'', GBool (di_SSLEnabled d))]
     @ omit_empty ''verification_status'' (di_VerificationStatus d) @ omit_empty ''verification_method'' (di_VerificationMethod d)
     @ omit_empty ''verified_at'' (di_VerifiedAt d) @ omit_empty ''last_check_error'' (di_LastCheckError d)
     @ (if di_Instructions d = [] then [] else [(''instructions'', GList (map instruction_gval (di_Instructions d)))]))"

definition zero_DomainInfo :: DomainInfo where
  "zero_DomainInfo = \<lparr>di_Hostname = [], di_Type = [], di_SSLEnabled = False, di_VerificationStatus = [],
     di_VerificationMethod = [], di_VerifiedAt = [], di_LastCheckError = [], di_Instructions = []\<rparr>"

definition own_deployment :: "Env \<Rightarrow> SetupConfig \<Rightarrow> (AuthContext \<Rightarrow> row \<Rightarrow> http_handler) \<Rightarrow> http_handler" where
  "own_deployment e cfg =
     owned_request e (su_Store cfg) ''deployments'' ''customer_id'' (not_found ''deployment'') ''not authorized'' ''not authorized''"

definition listed_domains :: "Env \<Rightarrow> SetupConfig \<Rightarrow> row \<Rightarrow> DomainInfo list" where
  "listed_domains e cfg depl =
     (let domains = parseDomainsList e cfg (row_get depl ''domains''); name = as_string (row_get depl ''name'')
      in if \<not> list_ex (\<lambda>d. di_Type d = ''auto'') domains \<and> su_BaseDomain cfg \<noteq> [] \<and> name \<noteq> []
         then zero_DomainInfo\<lparr>di_Hostname := Slugify name @ ''.'' @ su_BaseDomain cfg, di_Type := ''auto'',
                di_SSLEnabled := True, di_VerificationStatus := ''verified''\<rparr> # domains
         else domains)"

definition domainListHandler :: "Env \<Rightarrow> SetupConfig \<Rightarrow> http_handler" where
  "domainListHandler e cfg = own_deployment e cfg
     (\<lambda>authCtx depl r w. (w, writeJSON 200 (RespValue (GList (map domain_gval (listed_domains e cfg depl))))))"

text \<open>The last step of the handlers that change the domain list.\<close>

definition save_domains ::
  "Env \<Rightarrow> SetupConfig \<Rightarrow> string \<Rightarrow> DomainInfo list \<Rightarrow> Response \<Rightarrow> world \<Rightarrow> world \<times> Response" where
  "save_domains e cfg refID domains resp w =
     (case Store_Update e (su_Store cfg) ''deployments'' refID [''domains'' \<mapsto> GStr (su_MarshalDomains cfg domains)] w of
        (w, Inl err) \<Rightarrow> (w, writeError 500 ''failed to update domains'')
      | (w, Inr _) \<Rightarrow> (w, resp))"

definition cname_target :: "SetupConfig \<Rightarrow> row \<Rightarrow> string" where
  "cname_target cfg depl = Slugify (as_string (row_get depl ''name'')) @ ''.'' @ su_BaseDomain cfg"

definition new_domain :: "SetupConfig \<Rightarrow> row \<Rightarrow> string \<Rightarrow> DomainInfo" where
  "new_domain cfg depl hostname =
     zero_DomainInfo\<lparr>di_Hostname := hostname, di_Type := ''custom'', di_SSLEnabled := False, di_VerificationStatus := ''pending'',
       di_VerificationMethod := ''cname'', di_Instructions := [\<lparr>ed_Type = ''CNAME'', ed_Name = hostname,
         ed_Value = cname_target cfg depl, ed_Priority = ''required''\<rparr>]\<rparr>"

definition domainAddHandler :: "Env \<Rightarrow> SetupConfig \<Rightarrow> http_handler" where
  "domainAddHandler e cfg = own_deployment e cfg
     (\<lambda>authCtx depl r w.
        let hostname = (case rq_object r of (Some err, _) \<Rightarrow> [] | (None, body) \<Rightarrow> body ''hostname'')
        in if hostname = [] then (w, writeError 400 ''hostname is required'')
           else let domains = parseDomainsList e cfg (row_get depl ''domains'')
                in if list_ex (\<lambda>d. di_Hostname d = hostname) domains then (w, writeError 409 ''domain already exists'')
                   else let newDomain = new_domain cfg depl hostname
                        in save_domains e cfg (rq_id r) (domains @ [newDomain]) (writeJSON 201 (RespValue (domain_gval newDomain))) w)"

definition domainHandler :: "Env \<Rightarrow> SetupConfig \<Rightarrow> http_handler" where
  "domainHandler e cfg r w =
     (if rq_method r = ''GET'' then domainListHandler e cfg r w else domainAddHandler e cfg r w)"

text \<open>\<open>hostname\<close> is the path variable.\<close>

definition domainRemoveHandler :: "Env \<Rightarrow> SetupConfig \<Rightarrow> string \<Rightarrow> http_handler" where
  "domainRemoveHandler e cfg hostname = own_deployment e cfg
     (\<lambda>authCtx depl r w.
        let domains = parseDomainsList e cfg (row_get depl ''domains'')
        in if \<not> list_ex (\<lambda>d. di_Hostname d = hostname) domains then (w, writeError 404 ''domain not found'')
           else save_domains e cfg (rq_id r) (filter (\<lambda>d. di_Hostname d \<noteq> hostname) domains) (writeJSON 204 RespEmpty) w)"

text \<open>The outcome of the DNS check: \<^const>\<open>None\<close> when the alias points to the target, otherwise what is wrong.\<close>

definition cname_error :: "SetupConfig \<Rightarrow> nat \<Rightarrow> string \<Rightarrow> string \<Rightarrow> string option" where
  "cname_error cfg t hostname expectedTarget =
     (case su_LookupCNAME cfg t hostname of
        Inl err \<Rightarrow> Some err
      | Inr cname \<Rightarrow>
          if TrimSuffix cname ''.'' = expectedTarget then None else Some (''CNAME not pointing to '' @ expectedTarget))"

definition checked_domain :: "Env \<Rightarrow> nat \<Rightarrow> string option \<Rightarrow> DomainInfo \<Rightarrow> DomainInfo" where
  "checked_domain e t check d =
     (case check of
        None \<Rightarrow> d\<lparr>di_VerificationStatus := ''verified'', di_SSLEnabled := True, di_VerifiedAt := env_now e t, di_LastCheckError := []\<rparr>
      | Some checkErr \<Rightarrow> d\<lparr>di_VerificationStatus := ''failed'', di_LastCheckError := checkErr\<rparr>)"

fun find_domain :: "string \<Rightarrow> DomainInfo list \<Rightarrow> nat option" where
  "find_domain hostname [] = None"
| "find_domain hostname (d # ds) = (if di_Hostname d = hostname then Some 0 else map_option Suc (find_domain hostname ds))"

definition domainVerifyHandler :: "Env \<Rightarrow> SetupConfig \<Rightarrow> string \<Rightarrow> http_handler" where
  "domainVerifyHandler e cfg hostname = own_deployment e cfg
     (\<lambda>authCtx depl r w.
        let expectedTarget = cname_target cfg depl; domains = parseDomainsList e cfg (row_get depl ''domains'')
        in case find_domain hostname domains of
             None \<Rightarrow> (w, writeError 404 ''domain not found'')
           | Some i \<Rightarrow>
               let d = checked_domain e (w_tick w) (cname_error cfg (w_tick w) hostname expectedTarget) (domains ! i)
               in save_domains e cfg (rq_id r) (domains[i := d]) (writeJSON 200 (RespValue (domain_gval d))) (tick w))"

section \<open>Remaining endpoints\<close>

definition healthHandler :: "string \<Rightarrow> http_handler" where
  "healthHandler version r w =
     (w, writeJSON 200 (RespValue (GMap [(''status'', GStr ''healthy''), (''version'', GStr version)])))"

definition readyHandler :: http_handler where
  "readyHandler r w =
     (w, writeJSON 200 (RespValue (GMap [(''status'', GStr ''ready''), (''checks'', GMap [(''database'', GStr ''ok'')])])))"

text \<open>What the file handler serves for a path, given the files of the bundle.\<close>

datatype spa_result = SpaNotFound | SpaFile string

definition spaHandler :: "(string \<Rightarrow> bool) \<Rightarrow> string \<Rightarrow> spa_result" where
  "spaHandler stat path =
     (if HasPrefix path ''/api/'' then SpaNotFound
      else let p = TrimPrefix path ''/''; p = (if p = [] then ''index.html'' else p)
           in if stat p then SpaFile path else SpaFile ''/'')"

definition buildActionHandlers :: "Env \<Rightarrow> SetupConfig \<Rightarrow> http_handler \<Rightarrow> string \<rightharpoonup> http_handler" where
  "buildActionHandlers e cfg invoicePay =
     [''templates:publish'' \<mapsto> publish_action e cfg, ''deployments:start'' \<mapsto> start_action e cfg,
      ''deployments:stop'' \<mapsto> stop_action e cfg, ''deployments:monitoring/health'' \<mapsto> health_action e cfg,
      ''deployments:monitoring/stats'' \<mapsto> stats_action e cfg, ''deployments:monitoring/logs'' \<mapsto> logs_action e cfg,
      ''deployments:domains'' \<mapsto> domainHandler e cfg, ''nodes:maintenance'' \<mapsto> nodeMaintenanceHandler e cfg,
      ''cloud_credentials:regions'' \<mapsto> regions_action e cfg, ''cloud_credentials:sizes'' \<mapsto> sizes_action e cfg,
      ''invoices:pay'' \<mapsto> invoicePay, ''deployments:monitoring/events'' \<mapsto> events_action e cfg,
      ''cloud_provisions:retry'' \<mapsto> retry_action e cfg]"

text \<open>A background goroutine runs: the \<open>i\<close>-th pending job is dispatched.\<close>

definition run_job :: "SetupConfig \<Rightarrow> nat \<Rightarrow> world \<Rightarrow> world" where
  "run_job cfg i w =
     (if i < length (w_jobs w)
      then case w_jobs w ! i of (cmd, row) \<Rightarrow>
        fst (su_Dispatch cfg cmd row (w\<lparr>w_jobs := take i (w_jobs w) @ drop (Suc i) (w_jobs w)\<rparr>))
      else w)"

section \<open>Isolation of the actions\<close>

definition app_store :: "(string \<Rightarrow> string) \<Rightarrow> Store \<Rightarrow> bool" where
  "app_store uni s \<longleftrightarrow> list_all (\<lambda>res. st_schema s (rsc_Name res) = Some res) (Schema uni)"

lemma app_storeD: "app_store uni s \<Longrightarrow> res \<in> set (Schema uni) \<Longrightarrow> st_schema s (rsc_Name res) = Some res"
  by (simp add: app_store_def list_all_iff)

lemma schema_names:
  "app_store uni s \<Longrightarrow> st_schema s ''templates'' = Some (TemplateResource uni)"
  "app_store uni s \<Longrightarrow> st_schema s ''deployments'' = Some DeploymentResource"
  "app_store uni s \<Longrightarrow> st_schema s ''nodes'' = Some NodeResource"
  "app_store uni s \<Longrightarrow> st_schema s ''ssh_keys'' = Some SSHKeyResource"
  "app_store uni s \<Longrightarrow> st_schema s ''cloud_credentials'' = Some CloudCredentialResource"
  "app_store uni s \<Longrightarrow> st_schema s ''cloud_provisions'' = Some CloudProvisionResource"
  by (simp_all add: app_store_def Schema_def resource_defs)

text \<open>The resource and owner column that an action works on.\<close>

definition action_resource :: "string \<Rightarrow> string \<times> string" where
  "action_resource key =
     (if HasPrefix key ''templates:'' then (''templates'', ''creator_id'')
      else if HasPrefix key ''nodes:'' then (''nodes'', ''creator_id'')
      else if HasPrefix key ''cloud_credentials:'' then (''cloud_credentials'', ''creator_id'')
      else if HasPrefix key ''cloud_provisions:'' then (''cloud_provisions'', ''creator_id'')
      else (''deployments'', ''customer_id''))"

lemma owner_columns:
  "owner_col_ok (TemplateResource uni)" "owner_col_ok DeploymentResource" "owner_col_ok NodeResource"
  "owner_col_ok SSHKeyResource" "owner_col_ok CloudCredentialResource" "owner_col_ok CloudProvisionResource"
  using schema_owner_cols by (auto simp: Schema_def)

lemma app_frame:
  assumes "app_store uni s"
    "(tab, owner) \<in> {(''templates'', ''creator_id''), (''nodes'', ''creator_id''), (''cloud_credentials'', ''creator_id''),
       (''cloud_provisions'', ''creator_id''), (''deployments'', ''customer_id'')}"
    "owned_request e s tab owner onErr bo no act r w = (w', rs)" "\<not> owns_row e tab owner r w"
  shows "w_tables w' = w_tables w \<and> w_calls w' = w_calls w \<and> w_jobs w' = w_jobs w"
proof -
  have "\<exists>res. st_schema s tab = Some res \<and> owner_col_ok res \<and> rsc_Owner res = owner"
    using assms(2) owner_columns(1) [of uni] owner_columns(2-) schema_names [OF assms(1)]
    by (auto simp: TemplateResource_def DeploymentResource_def NodeResource_def CloudCredentialResource_def
        CloudProvisionResource_def)
  then show ?thesis using assms(3,4) by (auto simp: owner_col_ok_def dest: owned_request_frame)
qed

definition owned_handler :: "Env \<Rightarrow> SetupConfig \<Rightarrow> string \<times> string \<Rightarrow> http_handler \<Rightarrow> bool" where
  "owned_handler e cfg to h \<longleftrightarrow> (\<exists>onErr bo no act. h = owned_request e (su_Store cfg) (fst to) (snd to) onErr bo no act)"

lemma owned_handlerI: "owned_handler e cfg (tab, owner) (owned_request e (su_Store cfg) tab owner onErr bo no act)"
  by (auto simp: owned_handler_def)

lemma owned_actions:
  "owned_handler e cfg (''templates'', ''creator_id'') (publish_action e cfg)"
  "owned_handler e cfg (''deployments'', ''customer_id'') (start_action e cfg)"
  "owned_handler e cfg (''deployments'', ''customer_id'') (stop_action e cfg)"
  "owned_handler e cfg (''deployments'', ''customer_id'') (health_action e cfg)"
  "owned_handler e cfg (''deployments'', ''customer_id'') (stats_action e cfg)"
  "owned_handler e cfg (''deployments'', ''customer_id'') (logs_action e cfg)"
  "owned_handler e cfg (''deployments'', ''customer_id'') (events_action e cfg)"
  "owned_handler e cfg (''nodes'', ''creator_id'') (nodeMaintenanceHandler e cfg)"
  "owned_handler e cfg (''cloud_credentials'', ''creator_id'') (regions_action e cfg)"
  "owned_handler e cfg (''cloud_credentials'', ''creator_id'') (sizes_action e cfg)"
  "owned_handler e cfg (''cloud_provisions'', ''creator_id'') (retry_action e cfg)"
  "owned_handler e cfg (''deployments'', ''customer_id'') (domainListHandler e cfg)"
  "owned_handler e cfg (''deployments'', ''customer_id'') (domainAddHandler e cfg)"
  "owned_handler e cfg (''deployments'', ''customer_id'') (domainRemoveHandler e cfg host)"
  "owned_handler e cfg (''deployments'', ''customer_id'') (domainVerifyHandler e cfg host)"
  by (simp_all only: publish_action_def start_action_def stop_action_def health_action_def stats_action_def
      logs_action_def events_action_def monitoringHandler_def nodeMaintenanceHandler_def regions_action_def
      sizes_action_def cloudCatalogHandler_def retry_action_def domainListHandler_def domainAddHandler_def
      domainRemoveHandler_def domainVerifyHandler_def own_deployment_def owned_handlerI)

lemma owned_handler_frame:
  assumes "app_store uni (su_Store cfg)" "owned_handler e cfg to h" "h r w = (w', rs)"
    "to \<in> {(''templates'', ''creator_id''), (''nodes'', ''creator_id''), (''cloud_credentials'', ''creator_id''),
       (''cloud_provisions'', ''creator_id''), (''deployments'', ''customer_id'')}"
    "\<not> owns_row e (fst to) (snd to) r w"
  shows "w_tables w' = w_tables w \<and> w_calls w' = w_calls w \<and> w_jobs w' = w_jobs w"
  using assms app_frame [OF assms(1), where tab = "fst to" and owner = "snd to"]
  unfolding owned_handler_def by (metis prod.collapse)

lemma action_resources:
  "action_resource ''templates:publish'' = (''templates'', ''creator_id'')"
  "action_resource ''deployments:start'' = (''deployments'', ''customer_id'')"
  "action_resource ''deployments:stop'' = (''deployments'', ''customer_id'')"
  "action_resource ''deployments:monitoring/health'' = (''deployments'', ''customer_id'')"
  "action_resource ''deployments:monitoring/stats'' = (''deployments'', ''customer_id'')"
  "action_resource ''deployments:monitoring/logs'' = (''deployments'', ''customer_id'')"
  "action_resource ''deployments:monitoring/events'' = (''deployments'', ''customer_id'')"
  "action_resource ''deployments:domains'' = (''deployments'', ''customer_id'')"
  "action_resource ''nodes:maintenance'' = (''nodes'', ''creator_id'')"
  "action_resource ''cloud_credentials:regions'' = (''cloud_credentials'', ''creator_id'')"
  "action_resource ''cloud_credentials:sizes'' = (''cloud_credentials'', ''creator_id'')"
  "action_resource ''cloud_provisions:retry'' = (''cloud_provisions'', ''creator_id'')"
  by (simp_all add: action_resource_def HasPrefix_def)

lemma action_is_owned:
  assumes "buildActionHandlers e cfg pay key = Some h" "key \<noteq> ''invoices:pay''"
  shows "\<exists>h'. h r w = h' r w \<and> owned_handler e cfg (action_resource key) h'"
proof (cases "key = ''deployments:domains''")
  case True
  then have "h = domainHandler e cfg" using assms(1) by (simp add: buildActionHandlers_def)
  then show ?thesis using True owned_actions(12,13) [of e cfg]
    by (auto simp: domainHandler_def action_resources)
next
  case False
  then have "owned_handler e cfg (action_resource key) h"
    using assms owned_actions [of e cfg]
    by (auto simp: buildActionHandlers_def action_resources split: if_splits)
  then show ?thesis by auto
qed

lemma action_resource_cases:
  "action_resource key \<in> {(''templates'', ''creator_id''), (''nodes'', ''creator_id''), (''cloud_credentials'', ''creator_id''),
       (''cloud_provisions'', ''creator_id''), (''deployments'', ''customer_id'')}"
  by (simp add: action_resource_def)


end
