(* ===== verification/Engine_Requests.thy ===== *)
theory Engine_Requests
  imports Engine_Setup
begin

text \<open>
  Properties of the requests that \<open>Setup\<close> serves, with its own hooks: who owns a created row, the plan limit,
  where a start request leads, and what a retry does.
\<close>

section \<open>The owner of a created row\<close>

definition owner_field_ok :: "Resource \<Rightarrow> bool" where
  "owner_field_ok res \<longleftrightarrow> rsc_Owner res \<noteq> [] \<and> rsc_Owner res \<in> fld_Name ` set (rsc_Fields res)
     \<and> rsc_Owner res \<notin> set std_cols
     \<and> list_all (\<lambda>f. fld_Name f = rsc_Owner res \<longrightarrow> fld_Type f = TypeRef \<and> fld_Internal f \<and> \<not> fld_Encrypted f
          \<and> fld_Computed f = None) (rsc_Fields res)"

lemma schema_owner_field: "res \<in> set (Schema uni) \<Longrightarrow> owner_field_ok res"
  by (auto simp: Schema_def owner_field_ok_def std_cols_def resource_defs field_builder_defs)

lemma encrypt_loop_other:
  "encrypt_loop e s t fs data = Inr data' \<Longrightarrow> (\<And>f. f \<in> set fs \<Longrightarrow> fld_Name f = c \<Longrightarrow> \<not> fld_Encrypted f) \<Longrightarrow>
     data' c = data c"
proof (induction fs arbitrary: data)
  case (Cons f fs)
  then obtain d where d: "encrypt_field e s t f data = Inr d" "encrypt_loop e s t fs d = Inr data'"
    by (auto simp: bind_err_Inr)
  have "d c = data c" using encrypt_field_Inr [OF d(1)] Cons.prems(2) [of f] by (cases "fld_Name f = c") auto
  moreover have "data' c = d c" using Cons.IH [OF d(2)] Cons.prems(2) by auto
  ultimately show ?case by simp
qed simp

lemma apply_computed_keep:
  "(\<And>f. f \<in> set fs \<Longrightarrow> fld_Name f = c \<Longrightarrow> fld_Computed f = None) \<Longrightarrow> apply_computed fs data c = data c"
  unfolding apply_computed_def by (rule foldl_keep) (auto split: option.splits)

text \<open>A column whose values are stored as they are given.\<close>

definition raw_col :: "Resource \<Rightarrow> string \<Rightarrow> bool" where
  "raw_col res c \<longleftrightarrow> c \<in> fld_Name ` set (rsc_Fields res) \<and> c \<notin> set std_cols
     \<and> list_all (\<lambda>f. fld_Name f = c \<longrightarrow> fld_Type f \<noteq> TypeJSON \<and> \<not> fld_Encrypted f \<and> fld_Computed f = None) (rsc_Fields res)"

lemma owner_raw_col: "owner_field_ok res \<Longrightarrow> raw_col res (rsc_Owner res)"
  by (auto simp: owner_field_ok_def raw_col_def list_all_iff)

lemma create_columns:
  assumes cr: "Store_Create e s tab data w = (w', Inr row)" and sch: "st_schema s tab = Some res" and fo: "fields_ok res"
  obtains nr where "w_tables w' = (w_tables w)(tab := w_tables w tab @ [nr])"
    "\<And>c v. raw_col res c \<Longrightarrow> data c = Some v \<Longrightarrow> row_get nr c = env_conv e tab c v"
    "row_get row ''reference_id'' = GStr (create_ref e res (w_tick w))"
    "row_get nr ''reference_id'' = env_conv e tab ''reference_id'' (GStr (create_ref e res (w_tick w)))"
  using cr sch fo
proof (rule Store_Create_Inr)
  fix d0 d1 d2
  assume d0: "d0 = (prepare_create e res (w_tick w) data)
        (''created_at'' \<mapsto> GStr (env_now e (w_tick w)), ''updated_at'' \<mapsto> GStr (env_now e (w_tick w)))"
    and d1: "encrypt_loop e s (w_tick w) (rsc_Fields res) d0 = Inr d1" and d2: "json_loop e (rsc_Fields res) d1 = Inr d2"
    and row: "row = d2(''id'' \<mapsto> GInt64 (w_seq w tab + 1))"
    and ref: "d2 ''reference_id'' = Some (GStr (create_ref e res (w_tick w)))"
    and t: "w_tables w' = (w_tables w)(tab := w_tables w tab @ [new_row e tab (w_seq w tab + 1)
        (\<lambda>c. if c \<in> set (insert_columns res d0) then d2 c else None)])"
  let ?nr = "new_row e tab (w_seq w tab + 1) (\<lambda>c. if c \<in> set (insert_columns res d0) then d2 c else None)"
  have "row_get ?nr c = env_conv e tab c v" if c: "raw_col res c" and v: "data c = Some v" for c v
  proof -
    have cs: "c \<notin> set std_cols" "c \<in> fld_Name ` set (rsc_Fields res)" using c by (auto simp: raw_col_def)
    have cf: "fld_Type f \<noteq> TypeJSON \<and> \<not> fld_Encrypted f \<and> fld_Computed f = None"
      if "f \<in> set (rsc_Fields res)" "fld_Name f = c" for f
      using c that by (auto simp: raw_col_def list_all_iff)
    have "prepare_create e res (w_tick w) data c = Some v"
      using v cs cf
      by (auto simp: prepare_create_def Let_def std_cols_def apply_computed_keep intro!: apply_initial_keep apply_defaults_keep)
    then have "d0 c = Some v" using cs by (simp add: d0 std_cols_def)
    moreover have "d1 c = d0 c" using cf by (intro encrypt_loop_other [OF d1]) auto
    moreover have "d2 c = d1 c" using cf by (intro json_loop_other [OF d2]) (auto simp: list_all_iff)
    ultimately have "d2 c = Some v" "c \<in> set (insert_columns res d0)" using cs by (auto simp: insert_columns_def)
    then show ?thesis using cs by (simp add: new_row_def row_get_def stored_def std_cols_def)
  qed
  moreover have "row_get ?nr ''reference_id'' = env_conv e tab ''reference_id'' (GStr (create_ref e res (w_tick w)))"
    using ref by (simp add: new_row_def row_get_def stored_def insert_columns_def)
  ultimately show ?thesis using t ref row that by (simp add: row_get_def)
qed

lemma create_owner_column:
  assumes cr: "Store_Create e s tab data w = (w', Inr row)" and sch: "st_schema s tab = Some res"
    and fo: "fields_ok res" and oo: "owner_field_ok res" and v: "data (rsc_Owner res) = Some v"
  obtains nr where "w_tables w' = (w_tables w)(tab := w_tables w tab @ [nr])"
    "row_get nr (rsc_Owner res) = env_conv e tab (rsc_Owner res) v"
  using create_columns [OF cr sch fo] owner_raw_col [OF oo] v by metis

section \<open>Hooks\<close>

lemma Store_List_known:
  assumes "Store_List e s tab filters page w = (w', out)" "st_schema s tab = Some res"
    "list_all (\<lambda>f. flt_Field f \<in> set (selectColumns res)) filters"
  shows "w_tables w' = w_tables w"
  using assms by (auto simp: Store_List_def Let_def db_select_def split: option.splits prod.splits sum.splits)

lemma Store_Create_other: "Store_Create e s tab data w = (w', out) \<Longrightarrow> tab' \<noteq> tab \<Longrightarrow> w_tables w' tab' = w_tables w tab'"
  by (auto simp: Store_Create_def Let_def dest: db_insert_other split: option.splits prod.splits sum.splits)

lemma deployment_cols: "''customer_id'' \<in> set (selectColumns DeploymentResource)" "''template_id'' \<in> set (selectColumns DeploymentResource)"
  by (simp_all add: selectColumns_def DeploymentResource_def field_builder_defs)

lemma ssh_cols: "''creator_id'' \<in> set (selectColumns SSHKeyResource)" "''name'' \<in> set (selectColumns SSHKeyResource)"
  by (simp_all add: selectColumns_def SSHKeyResource_def field_builder_defs)

text \<open>What a hook may do before a row of its resource is created.\<close>

definition hook_ok :: "Resource \<Rightarrow> (AuthContext \<Rightarrow> row \<Rightarrow> world \<Rightarrow> world \<times> (string + row)) \<Rightarrow> bool" where
  "hook_ok res hook \<longleftrightarrow> (\<forall>a data w w' data'. hook a data w = (w', Inr data') \<longrightarrow>
     w_tables w' (rsc_Name res) = w_tables w (rsc_Name res) \<and> data' (rsc_Owner res) = data (rsc_Owner res))"

lemma ssh_hook_ok: "hook_ok SSHKeyResource (ssh_BeforeCreate e cfg)"
  by (auto simp: hook_ok_def ssh_BeforeCreate_def SSHKeyResource_def Let_def split: if_splits sum.splits)

lemma plan_limit_tables:
  "app_store uni (su_Store cfg) \<Longrightarrow> plan_limit_check e cfg a w = (w', out) \<Longrightarrow> w_tables w' = w_tables w"
  by (auto simp: plan_limit_check_def Let_def schema_names deployment_cols dest: Store_List_known
      split: if_splits prod.splits sum.splits)

lemma deployment_hook_ok:
  assumes "app_store uni (su_Store cfg)"
  shows "hook_ok DeploymentResource (deployment_BeforeCreate e cfg)"
proof -
  have "w_tables w' = w_tables w \<and> data' ''customer_id'' = data ''customer_id''"
    if "deployment_BeforeCreate e cfg a data w = (w', Inr data')" for a data w w' data'
    using that plan_limit_tables [OF assms]
    by (auto simp: deployment_BeforeCreate_def split: if_splits option.splits prod.splits sum.splits
        dest!: Store_GetByID_tables)
  then show ?thesis by (simp add: hook_ok_def DeploymentResource_def)
qed

lemma create_key:
  assumes "create_provision_key e cfg a kn data w = (w', Inr data')"
  shows "w_tables w' ''cloud_provisions'' = w_tables w ''cloud_provisions'' \<and> data' ''creator_id'' = data ''creator_id''"
  using assms
  by (auto simp: create_provision_key_def dest: Store_Create_other [where tab' = "''cloud_provisions''"]
      split: sum.splits prod.splits)

lemma provision_hook_ok:
  assumes "app_store uni (su_Store cfg)"
  shows "hook_ok CloudProvisionResource (provision_BeforeCreate e cfg)"
proof -
  have key: "w_tables w' ''cloud_provisions'' = w_tables w ''cloud_provisions'' \<and> data' ''creator_id'' = data ''creator_id''"
    if "provision_ssh_key e cfg a kn data w = (w', Inr data')" for a kn data w w' data'
  proof -
    let ?fs = "[\<lparr>flt_Field = ''creator_id'', flt_Value = GInt (ac_UserID a)\<rparr>, \<lparr>flt_Field = ''name'', flt_Value = GStr kn\<rparr>]"
    obtain w1 out where l: "Store_List e (su_Store cfg) ''ssh_keys'' ?fs \<lparr>pg_Limit = 1, pg_Offset = 0\<rparr> w = (w1, out)"
      by (cases "Store_List e (su_Store cfg) ''ssh_keys'' ?fs \<lparr>pg_Limit = 1, pg_Offset = 0\<rparr> w")
    have "w_tables w1 = w_tables w"
      using Store_List_known [OF l schema_names(4) [OF assms]] ssh_cols by simp
    then show ?thesis
      using that l create_key [of e cfg a kn data w1]
      by (auto simp: provision_ssh_key_def split: sum.splits list.splits)
  qed
  have "w_tables w' ''cloud_provisions'' = w_tables w ''cloud_provisions'' \<and> data' ''creator_id'' = data ''creator_id''"
    if "provision_BeforeCreate e cfg a data w = (w', Inr data')" for a data w w' data'
    using that
    by (auto simp: provision_BeforeCreate_def Let_def split: if_splits option.splits prod.splits sum.splits
        dest!: Store_GetByID_tables key)
  then show ?thesis by (simp add: hook_ok_def CloudProvisionResource_def)
qed

section \<open>Creating\<close>

lemma resolve_ref_frame:
  assumes "resolve_ref e f data w = (w', Inr data')"
  shows "w_tables w' = w_tables w \<and> (\<forall>c. (fld_Name f = c \<longrightarrow> fld_Internal f) \<longrightarrow> data' c = data c)"
  using assms
  by (auto simp: resolve_ref_def db_select_def split: if_splits gval.splits option.splits prod.splits sum.splits list.splits)

lemma resolve_loop_frame:
  "resolve_loop e fs data w = (w', Inr data') \<Longrightarrow>
     w_tables w' = w_tables w \<and> (\<forall>c. (\<forall>f \<in> set fs. fld_Name f = c \<longrightarrow> fld_Internal f) \<longrightarrow> data' c = data c)"
proof (induction fs arbitrary: data w)
  case (Cons f fs)
  from Cons.prems obtain w1 d where d: "resolve_ref e f data w = (w1, Inr d)" "resolve_loop e fs d w1 = (w', Inr data')"
    by (auto split: prod.splits sum.splits)
  show ?case using resolve_ref_frame [OF d(1)] Cons.IH [OF d(2)] by auto
qed simp

lemma drop_internal_keep: "drop_internal res keep data keep = data keep"
  unfolding drop_internal_def by (rule foldl_keep) auto

lemma resource_names:
  "rsc_Name (TemplateResource uni) = ''templates''" "rsc_Name DeploymentResource = ''deployments''"
  "rsc_Name NodeResource = ''nodes''" "rsc_Name SSHKeyResource = ''ssh_keys''"
  "rsc_Name CloudCredentialResource = ''cloud_credentials''" "rsc_Name CloudProvisionResource = ''cloud_provisions''"
  "rsc_Name InvoiceResource = ''invoices''"
  by (simp_all add: resource_defs)

lemma setup_hook_ok:
  assumes app: "app_store uni (su_Store cfg)" and res: "res \<in> set (Schema uni)"
    and hook: "api_BeforeCreate (setup_api e cfg) (rsc_Name res) = Some hook"
  shows "hook_ok res hook"
proof -
  have "res = SSHKeyResource \<and> hook = ssh_BeforeCreate e cfg \<or> res = DeploymentResource \<and> hook = deployment_BeforeCreate e cfg
      \<or> res = CloudProvisionResource \<and> hook = provision_BeforeCreate e cfg"
    using res hook by (auto simp: Schema_def setup_api_def resource_names split: if_splits)
  then show ?thesis using ssh_hook_ok deployment_hook_ok [OF app] provision_hook_ok [OF app] by auto
qed

lemma after_create_tables:
  "res \<in> set (Schema uni) \<Longrightarrow> api_AfterCreate (setup_api e cfg) n = Some hook \<Longrightarrow>
     w_tables (hook a row w) (rsc_Name res) = w_tables w (rsc_Name res)"
proof -
  assume res: "res \<in> set (Schema uni)" and "api_AfterCreate (setup_api e cfg) n = Some hook"
  then have h: "hook = deployment_AfterCreate e cfg" by (auto simp: setup_api_def split: if_splits)
  have n: "rsc_Name res \<noteq> ''usage_events''" using res by (auto simp: Schema_def resource_names)
  have "w_tables (fst (CreateUsageEvent e ev w)) (rsc_Name res) = w_tables w (rsc_Name res)" for ev w
    using n by (auto simp: CreateUsageEvent_def Let_def split: prod.splits sum.splits dest: db_insert_other)
  then show ?thesis by (simp add: h deployment_AfterCreate_def RecordEvent_def Let_def)
qed

text \<open>The successful path through \<open>createHandler\<close>.\<close>

lemma createHandler_success:
  assumes run: "createHandler e cfg res r w = (w', rs)" and ok: "rs_status rs = 201"
  obtains attrs w1 d1 w2 d2 w3 row where "ac_Authenticated (getAuthContext r)"
    "resolveRefFields e res (drop_internal res (rsc_Owner res) (if rsc_Owner res \<noteq> []
        then (map_of attrs)(rsc_Owner res \<mapsto> GInt (ac_UserID (getAuthContext r))) else map_of attrs)) w = (w1, Inr d1)"
    "(case api_BeforeCreate cfg (rsc_Name res) of None \<Rightarrow> (w1, Inr d1) | Some hook \<Rightarrow> hook (getAuthContext r) d1 w1) = (w2, Inr d2)"
    "Store_Create e (api_Store cfg) (rsc_Name res) d2 w2 = (w3, Inr row)"
    "w_tables w' = w_tables (case api_AfterCreate cfg (rsc_Name res) of None \<Rightarrow> w3 | Some hook \<Rightarrow> hook (getAuthContext r) row w3)"
proof -
  let ?a = "getAuthContext r"
  have a: "ac_Authenticated ?a"
  proof (rule ccontr)
    assume "\<not> ac_Authenticated ?a"
    then show False using run ok by (auto simp: createHandler_def writeError_def)
  qed
  obtain attrs where b: "parseJSONAPIBody r = Inr attrs"
    using run ok a by (cases "parseJSONAPIBody r") (auto simp: createHandler_def writeError_def)
  let ?d = "drop_internal res (rsc_Owner res) (if rsc_Owner res \<noteq> []
        then (map_of attrs)(rsc_Owner res \<mapsto> GInt (ac_UserID ?a)) else map_of attrs)"
  obtain w1 o1 where r1: "resolveRefFields e res ?d w = (w1, o1)" by fastforce
  obtain d1 where o1: "o1 = Inr d1"
    using run ok a b r1 by (cases o1) (auto simp: createHandler_def writeError_def Let_def)
  let ?h = "case api_BeforeCreate cfg (rsc_Name res) of None \<Rightarrow> (w1, Inr d1) | Some hook \<Rightarrow> hook ?a d1 w1"
  obtain w2 o2 where r2: "?h = (w2, o2)" by fastforce
  obtain d2 where o2: "o2 = Inr d2"
    using run ok a b r1 o1 r2 by (cases o2) (auto simp: createHandler_def writeError_def Let_def)
  obtain w3 o3 where r3: "Store_Create e (api_Store cfg) (rsc_Name res) d2 w2 = (w3, o3)" by fastforce
  obtain row where o3: "o3 = Inr row"
    using run ok a b r1 o1 r2 o2 r3 by (cases o3) (auto simp: createHandler_def writeError_def Let_def split: if_splits)
  let ?w4 = "case api_AfterCreate cfg (rsc_Name res) of None \<Rightarrow> w3 | Some hook \<Rightarrow> hook ?a row w3"
  have "(w', rs) = get_response e res ?a 201 row ?w4"
    using run a b r1 o1 r2 o2 r3 o3 by (simp add: createHandler_def Let_def)
  then have "w_tables w' = w_tables ?w4"
    using get_response_frame [of e res ?a 201 row ?w4] by (metis fst_conv)
  with a r1 o1 r2 o2 r3 o3 that show ?thesis by blast
qed

text \<open>
  Whatever the body says, a created row belongs to the caller: when a create request is answered
  with 201, the caller is authenticated and exactly one row was appended to the table of the resource,
  with the caller as its owner. This holds for every resource with the hooks that \<open>Setup\<close> installs.
\<close>

theorem create_sets_owner:
  assumes app: "app_store uni (su_Store cfg)" and res: "res \<in> set (Schema uni)"
    and run: "createHandler e (setup_api e cfg) res r w = (w', rs)" and ok: "rs_status rs = 201"
  shows "ac_Authenticated (getAuthContext r)
    \<and> (\<exists>nr. w_tables w' (rsc_Name res) = w_tables w (rsc_Name res) @ [nr]
         \<and> row_get nr (rsc_Owner res) = env_conv e (rsc_Name res) (rsc_Owner res) (GInt (ac_UserID (getAuthContext r))))"
  using run ok
proof (rule createHandler_success)
  fix attrs w1 d1 w2 d2 w3 row
  let ?a = "getAuthContext r" and ?o = "rsc_Owner res" and ?n = "rsc_Name res"
  assume a: "ac_Authenticated ?a"
    and r1: "resolveRefFields e res (drop_internal res ?o (if ?o \<noteq> [] then (map_of attrs)(?o \<mapsto> GInt (ac_UserID ?a))
        else map_of attrs)) w = (w1, Inr d1)"
    and r2: "(case api_BeforeCreate (setup_api e cfg) ?n of None \<Rightarrow> (w1, Inr d1) | Some hook \<Rightarrow> hook ?a d1 w1) = (w2, Inr d2)"
    and r3: "Store_Create e (api_Store (setup_api e cfg)) ?n d2 w2 = (w3, Inr row)"
    and t4: "w_tables w' = w_tables (case api_AfterCreate (setup_api e cfg) ?n of None \<Rightarrow> w3 | Some hook \<Rightarrow> hook ?a row w3)"
  note oo = schema_owner_field [OF res]
  have int: "\<forall>f \<in> set (rsc_Fields res). fld_Name f = ?o \<longrightarrow> fld_Internal f" and ne: "?o \<noteq> []"
    using oo by (auto simp: owner_field_ok_def list_all_iff)
  have d1: "d1 ?o = Some (GInt (ac_UserID ?a))" "w_tables w1 = w_tables w"
    using resolve_loop_frame [OF r1 [unfolded resolveRefFields_def]] int ne by (auto simp: drop_internal_keep)
  have d2: "d2 ?o = d1 ?o \<and> w_tables w2 ?n = w_tables w1 ?n"
    using r2 setup_hook_ok [OF app res] by (auto simp: hook_ok_def split: option.splits)
  have sch: "st_schema (api_Store (setup_api e cfg)) ?n = Some res"
    using app_storeD [OF app res] by (simp add: setup_api_def)
  obtain nr where nr: "w_tables w3 = (w_tables w2)(?n := w_tables w2 ?n @ [nr])"
    "row_get nr ?o = env_conv e ?n ?o (GInt (ac_UserID ?a))"
    using create_owner_column [OF r3 sch schema_fields_ok [OF res] oo] d1 d2 by auto
  have "w_tables w' ?n = w_tables w3 ?n"
    unfolding t4 using after_create_tables [OF res] by (auto split: option.splits)
  then show ?thesis using a nr d1 d2 by auto
qed

section \<open>The plan limit\<close>

lemma as_string_decode:
  assumes "plain_col res c" "c \<in> set (selectColumns res)"
  shows "as_string (row_get (decodeRow e res (project (selectColumns res) row)) c) = strVal (row_get row c)"
  using assms
  by (auto simp: row_get_def decodeRow_plain decode_bytes_def project_def as_string_def strVal_def split: option.splits gval.splits)

lemma active_count_rows:
  "active_count (map (decodeRow e DeploymentResource) (map (project (selectColumns DeploymentResource)) rows))
     = int (length (filter (\<lambda>r. strVal (row_get r ''status'') \<noteq> ''deleted'') rows))"
proof -
  have p: "plain_col DeploymentResource ''status''" "''status'' \<in> set (selectColumns DeploymentResource)"
    by (simp_all add: plain_col_def selectColumns_def DeploymentResource_def field_builder_defs)
  show ?thesis by (simp add: active_count_def filter_map comp_def as_string_decode [OF p])
qed

text \<open>The deployments of a customer, and those of them that are not deleted.\<close>

definition customer_rows :: "Env \<Rightarrow> int \<Rightarrow> world \<Rightarrow> row list" where
  "customer_rows e uid w = filter (where_ok e ''deployments'' [(''customer_id'', GInt uid)]) (w_tables w ''deployments'')"

definition active_rows :: "Env \<Rightarrow> int \<Rightarrow> world \<Rightarrow> row list" where
  "active_rows e uid w = filter (\<lambda>r. strVal (row_get r ''status'') \<noteq> ''deleted'') (customer_rows e uid w)"

lemma plan_limit_sound:
  assumes app: "app_store uni (su_Store cfg)" and run: "plan_limit_check e cfg a w = (w', None)"
    and pos: "0 < pl_MaxDeployments (ac_PlanLimits a)"
    and ok: "\<And>t. env_fail e t (SelectStmt (selectColumns DeploymentResource) ''deployments''
        [(''customer_id'', GInt (ac_UserID a))] (Some (1000, 0))) = None"
    and few: "length (customer_rows e (ac_UserID a) w) \<le> 1000"
  shows "int (length (active_rows e (ac_UserID a) w)) < pl_MaxDeployments (ac_PlanLimits a)"
proof -
  let ?rows = "take 1000 (rev (customer_rows e (ac_UserID a) w))"
  have all: "?rows = rev (customer_rows e (ac_UserID a) w)" using few by simp
  have "Store_List e (su_Store cfg) ''deployments'' [\<lparr>flt_Field = ''customer_id'', flt_Value = GInt (ac_UserID a)\<rparr>]
      \<lparr>pg_Limit = 1000, pg_Offset = 0\<rparr> w = (tick w, Inr (map (decodeRow e DeploymentResource)
        (map (project (selectColumns DeploymentResource)) ?rows)))"
    using ok schema_names(2) [OF app] deployment_cols
    by (simp add: Store_List_def Page_Normalize_def db_select_def paginate_def customer_rows_def)
  then have "active_count (map (decodeRow e DeploymentResource) (map (project (selectColumns DeploymentResource)) ?rows))
      < pl_MaxDeployments (ac_PlanLimits a)"
    using run pos by (auto simp: plan_limit_check_def Let_def split: if_splits)
  then show ?thesis
    unfolding active_count_rows all active_rows_def by (simp add: rev_filter [symmetric])
qed

text \<open>
  C25: The plan limit is enforced: when the database answers the count query and the customer has at
  most 1000 deployments (the page size of the query), a deployment is created (201) only when the number
  of the customer's deployments that are not deleted was below the limit of the plan.
\<close>

theorem plan_limit_enforced:
  assumes app: "app_store uni (su_Store cfg)"
    and run: "createHandler e (setup_api e cfg) DeploymentResource r w = (w', rs)" and status: "rs_status rs = 201"
    and pos: "0 < pl_MaxDeployments (ac_PlanLimits (getAuthContext r))"
    and ok: "\<And>t. env_fail e t (SelectStmt (selectColumns DeploymentResource) ''deployments''
        [(''customer_id'', GInt (ac_UserID (getAuthContext r)))] (Some (1000, 0))) = None"
    and few: "length (customer_rows e (ac_UserID (getAuthContext r)) w) \<le> 1000"
  shows "int (length (active_rows e (ac_UserID (getAuthContext r)) w)) < pl_MaxDeployments (ac_PlanLimits (getAuthContext r))"
  using run status
proof (rule createHandler_success)
  fix attrs w1 d1 w2 d2 w3 row
  let ?a = "getAuthContext r" and ?D = DeploymentResource
  assume r1: "resolveRefFields e ?D (drop_internal ?D (rsc_Owner ?D) (if rsc_Owner ?D \<noteq> []
        then (map_of attrs)(rsc_Owner ?D \<mapsto> GInt (ac_UserID ?a)) else map_of attrs)) w = (w1, Inr d1)"
    and r2: "(case api_BeforeCreate (setup_api e cfg) (rsc_Name ?D) of None \<Rightarrow> (w1, Inr d1) | Some hook \<Rightarrow> hook ?a d1 w1)
        = (w2, Inr d2)"
  have t1: "w_tables w1 = w_tables w" using resolve_loop_frame [OF r1 [unfolded resolveRefFields_def]] by simp
  have "deployment_BeforeCreate e cfg ?a d1 w1 = (w2, Inr d2)"
    using r2 by (simp add: setup_api_def resource_names)
  then obtain w1' where "plan_limit_check e cfg ?a w1 = (w1', None)"
    by (auto simp: deployment_BeforeCreate_def split: prod.splits option.splits)
  from plan_limit_sound [OF app this pos ok] few t1 show ?thesis
    by (simp add: active_rows_def customer_rows_def)
qed

section \<open>Starting\<close>

lemma status_literals:
  "StatusPending = ''pending''" "StatusScheduled = ''scheduled''" "StatusStarting = ''starting''" "StatusRunning = ''running''"
  "StatusStopping = ''stopping''" "StatusStopped = ''stopped''" "StatusDeleting = ''deleting''" "StatusDeleted = ''deleted''"
  "StatusFailed = ''failed''"
  by (simp_all add: const_defs)

text \<open>
  The start action and the pure planner agree. For every status but \<open>scheduled\<close>, the state that the
  start action requests is the first step of the path of \<open>DetermineStartPath\<close>, and it is refused
  exactly where the planner refuses; a \<open>scheduled\<close> deployment, which the planner refuses, is sent to
  \<open>starting\<close>. Every requested state is one that the table of the engine allows, so a start request
  fails only at the node guard or in the database.
\<close>

theorem start_action_matches_planner:
  "(st \<noteq> StatusScheduled \<longrightarrow> start_target st =
      (if sp_Valid (DetermineStartPath st) then Some (hd (sp_Transitions (DetermineStartPath st))) else None))
   \<and> start_target StatusScheduled = Some StatusStarting \<and> \<not> sp_Valid (DetermineStartPath StatusScheduled)
   \<and> (start_target st = Some t \<longrightarrow> CanTransition deployment_machine st t)"
  by (auto simp: start_target_def DetermineStartPath_def start_ok_def start_no_def status_literals CanTransition_def
      deployment_machine_def split: if_splits)

theorem start_action_matches_planner_witness:
  "start_target StatusPending = Some StatusScheduled \<and> CanTransition deployment_machine StatusPending StatusScheduled"
  using start_action_matches_planner [of StatusPending StatusScheduled]
  by (simp add: start_target_def status_literals)

text \<open>A start or stop request on an own deployment makes its transition and leaves the command to a background job.\<close>

lemma update_jobs: "Store_Update e s tab refID data w = (w', out) \<Longrightarrow> w_jobs w' = w_jobs w"
  by (auto simp: Store_Update_def db_update_def Let_def dest!: Store_Get_tables
      split: option.splits sum.splits prod.splits if_splits)

lemma transition_jobs: "Store_Transition e s tab refID to w = (w', out) \<Longrightarrow> w_jobs w' = w_jobs w"
  by (auto simp: Store_Transition_def Let_def dest!: Store_Get_tables update_jobs
      split: option.splits sum.splits prod.splits if_splits)

lemma own_deployment_passes:
  assumes app: "app_store uni (su_Store cfg)" and ok: "\<And>t st. env_fail e t st = None"
    and own: "owns_row e ''deployments'' ''customer_id'' r w"
  obtains row where "find_row e ''deployments'' (rq_id r) w = Some row"
    "owned_request e (su_Store cfg) ''deployments'' ''customer_id'' onErr bo no act r w
       = act (getAuthContext r) (decodeRow e DeploymentResource (project (selectColumns DeploymentResource) row)) r (tick w)"
proof -
  let ?D = DeploymentResource and ?a = "getAuthContext r"
  from own obtain row where row: "find_row e ''deployments'' (rq_id r) w = Some row"
    and o: "toInt64 (row_get row ''customer_id'') = Some (ac_UserID ?a)" and a: "ac_Authenticated ?a"
    by (auto simp: owns_row_def)
  let ?d = "decodeRow e ?D (project (selectColumns ?D) row)"
  have g: "Store_Get e (su_Store cfg) ''deployments'' (rq_id r) w = (tick w, Inr ?d)"
    using row schema_names(2) [OF app] ok by (simp add: Store_Get_def query_row_result find_row_def)
  have "owner_denied ''customer_id'' ?a ?d bo no = None"
    using o owner_columns(2) toInt64_decode [of ?D "''customer_id''" e row]
    by (simp add: owner_denied_def owner_col_ok_def DeploymentResource_def)
  then show ?thesis using that row a g by (simp add: owned_request_def)
qed

lemma stop_action_effect:
  assumes app: "app_store uni (su_Store cfg)" and ok: "\<And>t st. env_fail e t st = None"
    and tc: "text_conv e ''deployments'' ''status''" "text_conv e ''deployments'' ''reference_id''"
    and own: "owns_row e ''deployments'' ''customer_id'' r w"
    and st: "map_option (col_state deployment_machine) (find_row e ''deployments'' (rq_id r) w) = Some ''running''"
    and run: "stop_action e cfg r w = (w', rs)"
  shows "rs_status rs = 200
    \<and> map_option (col_state deployment_machine) (find_row e ''deployments'' (rq_id r) w') = Some ''stopping''
    \<and> (\<exists>row. w_jobs w' = w_jobs w @ [(''StopDeployment'', row)])"
proof -
  note M = deployment_machine_col [OF tc] and sch = schema_names(2) [OF app]
  let ?s = "su_Store cfg" and ?a = "getAuthContext r" and ?D = DeploymentResource
  obtain row where row: "find_row e ''deployments'' (rq_id r) w = Some row"
    and act: "stop_action e cfg r w = (case Store_Transition e ?s ''deployments'' (rq_id r) ''stopping'' (tick w) of
            (w, Inl err) \<Rightarrow> (w, writeError 409 err)
          | (w, Inr (row, cmd)) \<Rightarrow> resource_response e cfg ''deployments'' ?a row (go_dispatch cmd row w))"
    unfolding stop_action_def by (rule own_deployment_passes [OF app ok own])
  have run': "col_state deployment_machine row = ''running''" using st row by simp
  have can: "CanTransition deployment_machine (col_state deployment_machine row) ''stopping''"
    unfolding run' by (simp add: CanTransition_def deployment_machine_def)
  have gu: "guard_ok deployment_machine ''stopping'' x" for x by (simp add: guard_ok_def deployment_machine_def)
  have row1: "find_row e ''deployments'' (rq_id r) (tick w) = Some row" using row by simp
  obtain w1 out where t: "Store_Transition e ?s ''deployments'' (rq_id r) ''stopping'' (tick w) = (w1, out)" by fastforce
  from Store_Transition_succeeds [OF sch M row1 can gu ok] t obtain x cmd where out: "out = Inr (x, cmd)" by auto
  have "cmd = ''StopDeployment'' \<and> map_option (col_state deployment_machine) (find_row e ''deployments'' (rq_id r) w1) = Some ''stopping''"
    using t sch M
  proof (cases rule: Store_Transition_cases)
    case (same err)
    then show ?thesis using out by simp
  next
    case (moved r0 t0)
    then show ?thesis
      using out row1 find_row_moved [OF M moved(4), of "rq_id r"] col_state_moved [OF M]
      by (auto simp: deployment_machine_def)
  qed
  moreover have "(w', rs) = get_response e ?D ?a 200 x (w1\<lparr>w_jobs := w_jobs w1 @ [(cmd, x)]\<rparr>)"
    using run act t out calculation sch by (simp add: resource_response_def Store_Resource_def go_dispatch_def)
  moreover from this have "w' = fst (get_response e ?D ?a 200 x (w1\<lparr>w_jobs := w_jobs w1 @ [(cmd, x)]\<rparr>))"
    "rs = snd (get_response e ?D ?a 200 x (w1\<lparr>w_jobs := w_jobs w1 @ [(cmd, x)]\<rparr>))" by (metis fst_conv, metis snd_conv)
  ultimately show ?thesis
    using get_response_frame [of e ?D ?a 200 x "w1\<lparr>w_jobs := w_jobs w1 @ [(cmd, x)]\<rparr>"]
      get_response_status [of e ?D ?a 200 x "w1\<lparr>w_jobs := w_jobs w1 @ [(cmd, x)]\<rparr>"] transition_jobs [OF t]
    by (simp add: find_row_def)
qed

section \<open>Retrying a provision\<close>

lemma decode_time_GTime:
  "r c = Some (GTime t) \<Longrightarrow> decode_time e c r = r"
  by (simp add: decode_time_def)

lemma decode_time_parse:
  assumes "r c = Some (GStr s)" "env_ParseTime e RFC3339 s = Some t"
  shows "decode_time e c r c = Some (GTime t)"
  using assms by (simp add: decode_time_def)

lemma timestamp_fold_keeps:
  "r c = Some (GTime t) \<Longrightarrow> foldl (decode_timestamp e) r fs c = Some (GTime t)"
proof (induction fs arbitrary: r)
  case (Cons f fs)
  have "decode_timestamp e r f c = Some (GTime t)"
    using Cons.prems decode_time_other [of c "fld_Name f" e r] by (cases "fld_Name f = c") (auto simp: decode_timestamp_def decode_time_GTime)
  then show ?case using Cons.IH by simp
qed simp

lemma timestamp_fold:
  assumes "r c = Some (GStr s)" "s \<noteq> []" "env_ParseTime e RFC3339 s = Some t"
    "f \<in> set fs" "fld_Name f = c" "fld_Type f = TypeTimestamp"
  shows "foldl (decode_timestamp e) r fs c = Some (GTime t)"
  using assms
proof (induction fs arbitrary: r)
  case (Cons g fs)
  show ?case
  proof (cases "fld_Name g = c \<and> fld_Type g = TypeTimestamp")
    case True
    then have "decode_timestamp e r g c = Some (GTime t)"
      using Cons.prems(1,2,3) decode_time_parse [of r c s e t] by (auto simp: decode_timestamp_def)
    then show ?thesis by (simp add: timestamp_fold_keeps)
  next
    case False
    then have "decode_timestamp e r g c = r c"
      using decode_time_other [of c "fld_Name g" e r] by (auto simp: decode_timestamp_def)
    then show ?thesis using Cons.IH [of "decode_timestamp e r g"] Cons.prems False by auto
  qed
qed simp

lemma decodeRow_timestamp:
  assumes r: "strVal (row_get r c) = s" "s \<noteq> []" and p: "env_ParseTime e RFC3339 s = Some t"
    and f: "f \<in> set (rsc_Fields res)" "fld_Name f = c" "fld_Type f = TypeTimestamp"
    and only: "\<And>g. g \<in> set (rsc_Fields res) \<Longrightarrow> fld_Name g = c \<Longrightarrow> fld_Type g = TypeTimestamp"
    and std: "c \<notin> {''created_at'', ''updated_at''}"
  shows "decodeRow e res r c = Some (GTime t)"
proof -
  have b: "decode_bytes r c = Some (GStr s)"
    using r by (auto simp: decode_bytes_def row_get_def strVal_def split: option.splits gval.splits)
  have "foldl decode_bool r' (rsc_Fields res) c = r' c" for r'
    by (rule foldl_keep) (auto simp: decode_bool_def dest: only split: option.splits gval.splits)
  moreover have "foldl (decode_json e) r' (rsc_Fields res) c = r' c" for r'
    by (rule foldl_keep) (auto simp: decode_json_def dest: only split: option.splits gval.splits)
  ultimately have "decode_time e ''updated_at'' (decode_time e ''created_at'' (foldl (decode_json e)
      (foldl decode_bool (decode_bytes r) (rsc_Fields res)) (rsc_Fields res))) c = Some (GStr s)"
    using b std by (simp add: decode_time_other)
  then show ?thesis unfolding decodeRow_def Let_def by (rule timestamp_fold) (use r(2) p f in auto)
qed

text \<open>
  A retry never cleans up. The retry action is meant to send a failed provision whose instance was
  completed to \<open>destroying\<close>; but reading the row turns a valid completion time into a time value, of which the
  action takes the text, which is empty. So for every failed provision with a valid completion time the requested
  state is \<open>pending\<close>, and a new instance is created next to the old one.
\<close>

theorem retry_never_destroys:
  assumes g: "Store_Get e s ''cloud_provisions'' refID w = (w', Inr prov)"
    and sch: "st_schema s ''cloud_provisions'' = Some CloudProvisionResource"
    and r: "find_row e ''cloud_provisions'' refID w = Some row"
    and valid: "strVal (row_get row ''completed_at'') \<noteq> []"
      "env_ParseTime e RFC3339 (strVal (row_get row ''completed_at'')) = Some t"
  shows "retry_target prov = ''pending''"
proof -
  let ?P = CloudProvisionResource and ?c = "''completed_at''"
  have prov: "prov = decodeRow e ?P (project (selectColumns ?P) row)"
    using g sch r by (auto elim: Store_Get_Inr)
  have in_cols: "?c \<in> set (selectColumns ?P)"
    by (simp add: selectColumns_def CloudProvisionResource_def field_builder_defs)
  have pr: "row_get (project (selectColumns ?P) row) ?c = row_get row ?c"
    using in_cols by (simp add: row_get_project)
  have f: "TimestampField ?c \<in> set (rsc_Fields ?P)" by (simp add: CloudProvisionResource_def)
  have only: "g \<in> set (rsc_Fields ?P) \<Longrightarrow> fld_Name g = ?c \<Longrightarrow> fld_Type g = TypeTimestamp" for g
    by (auto simp: CloudProvisionResource_def field_builder_defs)
  have "prov ?c = Some (GTime t)"
    unfolding prov
    by (rule decodeRow_timestamp [where s = "strVal (row_get row ?c)", OF _ valid f _ _ only])
      (simp_all add: pr field_builder_defs)
  then have "strVal (row_get prov ?c) = []" by (simp add: row_get_def strVal_def)
  then show ?thesis by (simp add: retry_target_def)
qed

section \<open>Examples\<close>

definition full_store :: Store where
  "full_store = NewStore (Schema (\<lambda>s. s))"

lemma full_store_app: "app_store (\<lambda>s. s) full_store"
  by (simp add: app_store_def full_store_def NewStore_def Schema_def resource_names)

definition demo_setup :: SetupConfig where
  "demo_setup = \<lparr>su_Store = full_store, su_Dispatch = (\<lambda>_ _ w. (w, None)), su_BaseDomain = ''apps.example.com'',
     su_StripeKey = [], su_fingerprint = (\<lambda>_. Inr ''SHA256:x''), su_publickey = (\<lambda>_. Inr ''ssh-ed25519 x''),
     su_keypair = (\<lambda>_. Inr (''k'', ''p'')), su_MarshalDomains = (\<lambda>_. ''[]''), su_UnmarshalDomains = (\<lambda>_. Some []),
     su_LookupCNAME = (\<lambda>_ _. Inl ''no such host''), su_time = (\<lambda>_. 0), su_eventID = (\<lambda>_. ''evt_1'')\<rparr>"

lemma demo_setup_app: "app_store (\<lambda>s. s) (su_Store demo_setup)"
  by (simp add: demo_setup_def full_store_app)


definition create_request :: Request where
  "create_request = alice_request\<lparr>rq_method := ''POST'', rq_auth := Some (alice_auth\<lparr>ac_PlanLimits := engine_DefaultPlanLimits ''free''\<rparr>),
     rq_attributes := Inr (Some [(''name'', GStr ''shop''), (''template_id'', GInt 3), (''template_version'', GStr ''1.0.0''),
       (''customer_id'', GInt 99)])\<rparr>"

definition empty_world :: world where
  "empty_world = demo_world\<lparr>w_tables := (\<lambda>_. [])\<rparr>"

lemma Store_Create_ok:
  assumes sch: "st_schema s tab = Some res" and val: "Store_validate res (prepare_create e res (w_tick w) data) = None"
    and noenc: "list_all (\<lambda>f. \<not> fld_Encrypted f) (rsc_Fields res)"
    and nojson: "\<And>f. f \<in> set (rsc_Fields res) \<Longrightarrow> fld_Type f = TypeJSON \<Longrightarrow>
      prepare_create e res (w_tick w) data (fld_Name f) = None \<and> fld_Name f \<notin> set std_cols"
    and ok: "\<And>t st. env_fail e t st = None" and empty: "w_tables w tab = []"
  shows "\<exists>w' row. Store_Create e s tab data w = (w', Inr row)"
proof -
  let ?d = "(prepare_create e res (w_tick w) data)
        (''created_at'' \<mapsto> GStr (env_now e (w_tick w)), ''updated_at'' \<mapsto> GStr (env_now e (w_tick w)))"
  have "encrypt_loop e s t fs d = Inr d" if "list_all (\<lambda>f. \<not> fld_Encrypted f) fs" for t fs d
    using that by (induction fs) (simp_all add: encrypt_field_def)
  then have enc: "encrypt_loop e s (w_tick w) (rsc_Fields res) ?d = Inr ?d" using noenc by blast
  have js: "json_loop e (rsc_Fields res) ?d = Inr ?d"
    by (rule json_loop_absent) (use nojson in \<open>auto simp: row_get_def std_cols_def\<close>)
  show ?thesis
    using sch val enc js ok empty by (simp add: Store_Create_def db_insert_def Let_def)
qed

lemma validate_loop_None: "(\<And>f. f \<in> set fs \<Longrightarrow> validate_field f data = None) \<Longrightarrow> validate_loop fs data = None"
  by (induction fs) auto

lemma validate_unconstrained:
  assumes "fld_MinLen f = None" "fld_MaxLen f = None" "fld_Pattern f = None" "fld_MinInt f = None" "fld_MaxInt f = None"
    "fld_Required f \<longrightarrow> row_get data (fld_Name f) \<notin> {GNil, GStr []}"
  shows "validate_field f data = None"
proof -
  have "data (fld_Name f) = None \<Longrightarrow> row_get data (fld_Name f) = GNil" by (simp add: row_get_def)
  then show ?thesis using assms by (auto simp: validate_field_def Let_def split: gval.splits)
qed

lemma deployment_unconstrained:
  "f \<in> set (rsc_Fields DeploymentResource) \<Longrightarrow> fld_MinLen f = None \<and> fld_MaxLen f = None \<and> fld_Pattern f = None
     \<and> fld_MinInt f = None \<and> fld_MaxInt f = None \<and> (fld_Required f \<longrightarrow> fld_Name f = ''name'')"
  by (auto simp: DeploymentResource_def field_builder_defs)

lemma validate_name_only:
  assumes "row_get data ''name'' \<notin> {GNil, GStr []}"
  shows "Store_validate DeploymentResource data = None"
  unfolding Store_validate_def
  by (rule validate_loop_None, rule validate_unconstrained) (use assms deployment_unconstrained in auto)

lemma deployment_fields:
  "list_all (\<lambda>f. \<not> fld_Encrypted f) (rsc_Fields DeploymentResource)"
  "f \<in> set (rsc_Fields DeploymentResource) \<Longrightarrow> fld_Type f = TypeJSON \<Longrightarrow>
     fld_Name f \<in> {''variables'', ''domains'', ''containers''} \<and> fld_DefaultValue f = GNil"
  by (auto simp: DeploymentResource_def field_builder_defs)

lemma apply_defaults_absent:
  "(\<And>f. f \<in> set fs \<Longrightarrow> fld_Name f = c \<Longrightarrow> fld_DefaultValue f = GNil) \<Longrightarrow> apply_defaults fs data c = data c"
  unfolding apply_defaults_def by (rule foldl_keep) auto

lemma prepare_deployment:
  assumes "c \<noteq> ''reference_id''" "c \<noteq> ''status''"
    "\<And>f. f \<in> set (rsc_Fields DeploymentResource) \<Longrightarrow> fld_Name f = c \<Longrightarrow> fld_DefaultValue f = GNil"
  shows "prepare_create e DeploymentResource t data c = data c"
proof -
  have comp: "f \<in> set (rsc_Fields DeploymentResource) \<Longrightarrow> fld_Computed f = None" for f
    by (auto simp: DeploymentResource_def field_builder_defs)
  have sm: "rsc_StateMachine DeploymentResource = Some deployment_machine" by (simp add: DeploymentResource_def)
  show ?thesis
    using assms apply_defaults_absent [OF assms(3)] comp
    by (simp add: prepare_create_def Let_def apply_initial_def sm machine_status_field apply_computed_keep)
qed

lemma create_deployment_ok:
  assumes "st_schema s ''deployments'' = Some DeploymentResource" "\<And>t st. env_fail e t st = None" "w_tables w ''deployments'' = []"
    "row_get data ''name'' \<notin> {GNil, GStr []}"
    "data ''variables'' = None" "data ''domains'' = None" "data ''containers'' = None"
  shows "\<exists>w' row. Store_Create e s ''deployments'' data w = (w', Inr row)"
proof (rule Store_Create_ok [OF assms(1) _ deployment_fields(1) _ assms(2,3)])
  let ?p = "prepare_create e DeploymentResource (w_tick w) data"
  have d: "f \<in> set (rsc_Fields DeploymentResource) \<Longrightarrow> fld_Name f \<in> {''name'', ''variables'', ''domains'', ''containers''} \<Longrightarrow>
      fld_DefaultValue f = GNil" for f
    by (auto simp: DeploymentResource_def field_builder_defs)
  have "?p ''name'' = data ''name''" by (rule prepare_deployment) (use d in auto)
  then show "Store_validate DeploymentResource ?p = None"
    using assms(4) by (intro validate_name_only) (simp add: row_get_def)
  fix f assume f: "f \<in> set (rsc_Fields DeploymentResource)" "fld_Type f = TypeJSON"
  have n: "fld_Name f \<in> {''variables'', ''domains'', ''containers''}" using deployment_fields(2) [OF f] by blast
  have "?p (fld_Name f) = data (fld_Name f)" by (rule prepare_deployment) (use n d in auto)
  then show "?p (fld_Name f) = None \<and> fld_Name f \<notin> set std_cols"
    using n assms(5,6,7) by (auto simp: std_cols_def)
qed

text \<open>The example deployment is created with 201.\<close>

lemma create_data:
  "drop_internal DeploymentResource ''customer_id'' ((map_of [(''name'', GStr ''shop''), (''template_id'', GInt 3),
      (''template_version'', GStr ''1.0.0''), (''customer_id'', GInt 99)])(''customer_id'' \<mapsto> GInt 7))
   = [''name'' \<mapsto> GStr ''shop'', ''template_id'' \<mapsto> GInt 3, ''template_version'' \<mapsto> GStr ''1.0.0'', ''customer_id'' \<mapsto> GInt 7]"
  by (simp add: drop_internal_def DeploymentResource_def field_builder_defs fun_eq_iff)

lemma demo_create:
  "rs_status (snd (createHandler demo_env (setup_api demo_env demo_setup) DeploymentResource create_request empty_world)) = 201"
proof -
  let ?d = "[''name'' \<mapsto> GStr ''shop'', ''template_id'' \<mapsto> GInt 3, ''template_version'' \<mapsto> GStr ''1.0.0'', ''customer_id'' \<mapsto> GInt 7]"
  let ?a = "getAuthContext create_request"
  have a: "ac_Authenticated ?a" "ac_UserID ?a = 7" "pl_MaxDeployments (ac_PlanLimits ?a) = 1"
    by (simp_all add: create_request_def getAuthContext_def AuthFromRequest_def alice_auth_def engine_DefaultPlanLimits_def)
  have b: "parseJSONAPIBody create_request = Inr [(''name'', GStr ''shop''), (''template_id'', GInt 3),
      (''template_version'', GStr ''1.0.0''), (''customer_id'', GInt 99)]"
    by (simp add: create_request_def parseJSONAPIBody_def)
  have r: "resolveRefFields demo_env DeploymentResource ?d empty_world = (empty_world, Inr ?d)"
    unfolding resolveRefFields_def
    by (rule resolve_loop_none) (auto simp: DeploymentResource_def field_builder_defs row_get_def)
  have l: "Store_List demo_env full_store ''deployments'' [\<lparr>flt_Field = ''customer_id'', flt_Value = GInt 7\<rparr>]
      \<lparr>pg_Limit = 1000, pg_Offset = 0\<rparr> empty_world = (tick empty_world, Inr [])"
    using schema_names(2) [OF full_store_app] deployment_cols
    by (simp add: Store_List_def db_select_def paginate_def demo_env_def empty_world_def Page_Normalize_def)
  have h: "deployment_BeforeCreate demo_env demo_setup ?a ?d empty_world = (tick empty_world, Inr ?d)"
    using l a by (simp add: deployment_BeforeCreate_def plan_limit_check_def demo_setup_def active_count_def row_get_def)
  obtain w1 row where c: "Store_Create demo_env full_store ''deployments'' ?d (tick empty_world) = (w1, Inr row)"
    using create_deployment_ok [OF schema_names(2) [OF full_store_app] demo_nofail, of "tick empty_world" ?d]
    by (auto simp: empty_world_def row_get_def)
  have o: "rsc_Owner DeploymentResource = ''customer_id''" by (simp add: DeploymentResource_def)
  have "snd (createHandler demo_env (setup_api demo_env demo_setup) DeploymentResource create_request empty_world)
      = snd (get_response demo_env DeploymentResource ?a 201 row (deployment_AfterCreate demo_env demo_setup ?a row w1))"
    using a b r h c create_data
    by (simp add: createHandler_def o resource_names setup_api_def demo_setup_def Let_def)
  then show ?thesis by (simp add: get_response_status)
qed

theorem create_sets_owner_witness:
  "\<exists>nr. w_tables (fst (createHandler demo_env (setup_api demo_env demo_setup) DeploymentResource create_request empty_world))
       ''deployments'' = [nr] \<and> row_get nr ''customer_id'' = GInt64 7"
proof -
  have d: "DeploymentResource \<in> set (Schema (\<lambda>s. s))" by (simp add: Schema_def)
  have o: "rsc_Owner DeploymentResource = ''customer_id''" by (simp add: DeploymentResource_def)
  have u: "ac_UserID (getAuthContext create_request) = 7"
    by (simp add: create_request_def getAuthContext_def AuthFromRequest_def alice_auth_def)
  from create_sets_owner [OF demo_setup_app d surjective_pairing demo_create]
  show ?thesis by (simp add: resource_names o u empty_world_def demo_env_def sqlite_conv_def)
qed

theorem plan_limit_enforced_witness:
  "rs_status (snd (createHandler demo_env (setup_api demo_env demo_setup) DeploymentResource create_request empty_world)) = 201
   \<and> int (length (active_rows demo_env 7 empty_world)) < 1"
proof -
  have a: "ac_UserID (getAuthContext create_request) = 7" "pl_MaxDeployments (ac_PlanLimits (getAuthContext create_request)) = 1"
    by (simp_all add: create_request_def getAuthContext_def AuthFromRequest_def alice_auth_def engine_DefaultPlanLimits_def)
  from plan_limit_enforced [OF demo_setup_app surjective_pairing demo_create _ demo_nofail] demo_create
  show ?thesis by (simp add: a customer_rows_def empty_world_def)
qed

definition provision_row :: row where
  "provision_row = [''id'' \<mapsto> GInt64 1, ''reference_id'' \<mapsto> GStr ''prov_1'', ''creator_id'' \<mapsto> GInt64 7, ''status'' \<mapsto> GStr ''failed'',
     ''provider_instance_id'' \<mapsto> GStr ''i-1'', ''completed_at'' \<mapsto> GStr ''2026-01-01T00:00:00Z'']"

definition provision_world :: world where
  "provision_world = demo_world\<lparr>w_tables := (\<lambda>_. [])(''cloud_provisions'' := [provision_row])\<rparr>"

definition time_env :: Env where
  "time_env = demo_env\<lparr>env_ParseTime := (\<lambda>_ _. Some 0)\<rparr>"

theorem retry_never_destroys_witness:
  "\<exists>w' prov. Store_Get time_env full_store ''cloud_provisions'' ''prov_1'' provision_world = (w', Inr prov)
     \<and> retry_target prov = ''pending'' \<and> row_get provision_row ''provider_instance_id'' = GStr ''i-1''"
proof -
  note sch = schema_names(6) [OF full_store_app]
  have f: "find_row time_env ''cloud_provisions'' ''prov_1'' provision_world = Some provision_row"
    by (simp add: find_row_def provision_world_def where_ok_def by_ref_def sql_eq_def time_env_def demo_env_def sqlite_conv_def
        provision_row_def row_get_def)
  have v: "strVal (row_get provision_row ''completed_at'') \<noteq> []" by (simp add: provision_row_def row_get_def strVal_def)
  have p: "env_ParseTime time_env RFC3339 (strVal (row_get provision_row ''completed_at'')) = Some 0" by (simp add: time_env_def)
  obtain w' prov where g: "Store_Get time_env full_store ''cloud_provisions'' ''prov_1'' provision_world = (w', Inr prov)"
    using f sch by (auto simp: Store_Get_def query_row_result find_row_def time_env_def demo_env_def)
  from retry_never_destroys [OF g sch f v p] g show ?thesis by (auto simp: provision_row_def row_get_def)
qed

end
