(* ===== verification/Engine_Billing.thy ===== *)
theory Engine_Billing
  imports Engine_Requests
begin

text \<open>
  \<open>internal/engine/billing_handlers.go\<close>: paying an invoice through a Stripe checkout session and verifying the
  payment. The HTTP client is an argument: it maps a request to a transport error or to a status code and a body;
  decoding the bodies is an argument too.
\<close>

section \<open>Stripe\<close>

record stripe_request =
  sr_method :: string
  sr_url :: string
  sr_user :: string
  sr_form :: "(string \<times> string) list"

record stripe_lib =
  sb_url_error :: "string \<Rightarrow> string option"
  sb_Do :: "nat \<Rightarrow> stripe_request \<Rightarrow> string + int \<times> string"
  sb_session :: "string \<Rightarrow> string + string \<times> string"
  sb_payment_status :: "string \<Rightarrow> string + string"
  sb_ToLower :: "string \<Rightarrow> string"

text \<open>
  \<open>sb_url_error\<close> is the error of \<open>http.NewRequest\<close> for a URL it cannot parse. The URL of the checkout
  endpoint is fixed and parses. Results are \<open>(url, id)\<close>.
\<close>

definition createStripeCheckout ::
  "stripe_lib \<Rightarrow> nat \<Rightarrow> string \<Rightarrow> int \<Rightarrow> string \<Rightarrow> string \<Rightarrow> string \<Rightarrow> string \<Rightarrow> string + string \<times> string" where
  "createStripeCheckout sb t stripeKey amountCents currency successURL cancelURL description =
     (let form = [(''mode'', ''payment''),
            (''line_items[0][price_data][currency]'', sb_ToLower sb currency),
            (''line_items[0][price_data][product_data][name]'', description),
            (''line_items[0][price_data][unit_amount]'', fmt_d amountCents),
            (''line_items[0][quantity]'', ''1''), (''success_url'', successURL), (''cancel_url'', cancelURL)];
          req = \<lparr>sr_method = ''POST'', sr_url = ''https://api.stripe.com/v1/checkout/sessions'', sr_user = stripeKey,
                 sr_form = form\<rparr>
      in case sb_Do sb t req of
           Inl err \<Rightarrow> Inl (''stripe request: '' @ err)
         | Inr (status, body) \<Rightarrow>
             if status \<noteq> 200 then Inl (''stripe error ('' @ fmt_d status @ ''): '' @ body)
             else case sb_session sb body of
                    Inl err \<Rightarrow> Inl (''parse response: '' @ err)
                  | Inr (ident, url) \<Rightarrow> Inr (url, ident))"

definition checkStripeSession :: "stripe_lib \<Rightarrow> nat \<Rightarrow> string \<Rightarrow> string \<Rightarrow> string + bool" where
  "checkStripeSession sb t stripeKey sessionID =
     (let req = \<lparr>sr_method = ''GET'', sr_url = ''https://api.stripe.com/v1/checkout/sessions/'' @ sessionID,
                 sr_user = stripeKey, sr_form = []\<rparr>
      in case sb_url_error sb (sr_url req) of
           Some err \<Rightarrow> Inl (''create request: '' @ err)
         | None \<Rightarrow>
             (case sb_Do sb t req of
                Inl err \<Rightarrow> Inl (''stripe request: '' @ err)
              | Inr (status, body) \<Rightarrow>
                  if status \<noteq> 200 then Inl (''stripe error ('' @ fmt_d status @ ''): '' @ body)
                  else case sb_payment_status sb body of
                         Inl err \<Rightarrow> Inl (''parse response: '' @ err)
                       | Inr st \<Rightarrow> Inr (st = ''paid'')))"

section \<open>Handlers\<close>

definition success_url :: "Request \<Rightarrow> string \<Rightarrow> string" where
  "success_url r refID =
     (let body = snd (rq_object r);
          url = (if body ''success_url'' = [] then ''http://localhost:3000/billing?payment=success&invoice='' @ refID
                 else body ''success_url'')
      in if contains_str ''{CHECKOUT_SESSION_ID}'' url then url
         else url @ (if contains_str ''?'' url then ''&'' else ''?'') @ ''session_id={CHECKOUT_SESSION_ID}'')"

definition cancel_url :: "Request \<Rightarrow> string" where
  "cancel_url r =
     (let body = snd (rq_object r)
      in if body ''cancel_url'' = [] then ''http://localhost:3000/billing?payment=cancelled'' else body ''cancel_url'')"

definition invoicePayHandler :: "Env \<Rightarrow> SetupConfig \<Rightarrow> stripe_lib \<Rightarrow> http_handler" where
  "invoicePayHandler e cfg sb r w =
     (if ac_Authenticated (getAuthContext r) \<and> su_StripeKey cfg = [] then (w, writeError 503 ''payment not configured'')
      else owned_request e (su_Store cfg) ''invoices'' ''user_id'' (not_found ''invoice'') ''not authorized'' ''not authorized''
        (\<lambda>authCtx invoice r w.
           let status = as_string (row_get invoice ''status''); totalCents = int64_or0 (row_get invoice ''total_cents'')
           in if status \<noteq> ''draft'' \<and> status \<noteq> ''failed''
              then (w, writeError 409 (''invoice is not payable in state: '' @ status))
              else if totalCents \<le> 0 then (w, writeError 400 ''invoice has no amount'')
              else
                let refID = strVal (row_get invoice ''reference_id'')
                in case createStripeCheckout sb (w_tick w) (su_StripeKey cfg) totalCents (strVal (row_get invoice ''currency''))
                          (success_url r refID) (cancel_url r) (''Hoster Invoice '' @ refID) of
                     Inl err \<Rightarrow> (tick w, writeError 502 (''payment provider error: '' @ err))
                   | Inr (checkoutURL, sessionID) \<Rightarrow>
                       let w = fst (Store_Update e (su_Store cfg) ''invoices'' (rq_id r)
                                      [''stripe_session_id'' \<mapsto> GStr sessionID, ''stripe_payment_url'' \<mapsto> GStr checkoutURL] (tick w));
                           w = fst (Store_Transition e (su_Store cfg) ''invoices'' (rq_id r) ''pending'' w)
                       in (w, writeJSON 200 (RespValue (GMap [(''data'', GMap [(''checkout_url'', GStr checkoutURL),
                            (''session_id'', GStr sessionID), (''invoice_id'', GStr refID)])])))) r w)"

text \<open>The first invoice of the page with this session that belongs to the caller; a missing owner counts as 0.\<close>

definition session_invoice :: "int \<Rightarrow> string \<Rightarrow> row list \<Rightarrow> row option" where
  "session_invoice uid sessionID invoices =
     find (\<lambda>ivc. strVal (row_get ivc ''stripe_session_id'') = sessionID \<and> int64_or0 (row_get ivc ''user_id'') = uid) invoices"

definition mark_paid :: "Env \<Rightarrow> SetupConfig \<Rightarrow> string \<Rightarrow> world \<Rightarrow> world" where
  "mark_paid e cfg refID w =
     (let w = fst (Store_Update e (su_Store cfg) ''invoices'' refID [''paid_at'' \<mapsto> GStr (env_now e (w_tick w))] w)
      in fst (Store_Transition e (su_Store cfg) ''invoices'' refID ''paid'' w))"

definition verifyPaymentHandler :: "Env \<Rightarrow> SetupConfig \<Rightarrow> stripe_lib \<Rightarrow> http_handler" where
  "verifyPaymentHandler e cfg sb r w =
     (let authCtx = getAuthContext r; sessionID = query_Get (rq_query r) ''session_id''
      in if \<not> ac_Authenticated authCtx then (w, writeError 401 ''authentication required'')
         else if su_StripeKey cfg = [] then (w, writeError 503 ''payment not configured'')
         else if sessionID = [] then (w, writeError 400 ''session_id required'')
         else case Store_List e (su_Store cfg) ''invoices'' [] \<lparr>pg_Limit = 100, pg_Offset = 0\<rparr> w of
                (w, Inl err) \<Rightarrow> (w, writeError 500 ''failed to query invoices'')
              | (w, Inr allInvoices) \<Rightarrow>
                  (case session_invoice (ac_UserID authCtx) sessionID allInvoices of
                     None \<Rightarrow> (w, writeError 404 ''invoice not found for this session'')
                   | Some invoice \<Rightarrow>
                       (case checkStripeSession sb (w_tick w) (su_StripeKey cfg) sessionID of
                          Inl err \<Rightarrow> (tick w, writeError 502 ''payment verification failed'')
                        | Inr paid \<Rightarrow>
                            let refID = strVal (row_get invoice ''reference_id''); status = as_string (row_get invoice ''status'');
                                w = (if paid \<and> status = ''pending'' then mark_paid e cfg refID (tick w) else tick w)
                            in (w, writeJSON 200 (RespValue (GMap [(''data'', GMap [(''invoice_id'', GStr refID),
                                 (''paid'', GBool paid), (''status'', GStr (if paid then ''paid'' else status))])]))))))"

section \<open>What a write touches\<close>

text \<open>Only the row with one reference, in one table.\<close>

definition only_row :: "Env \<Rightarrow> string \<Rightarrow> string \<Rightarrow> world \<Rightarrow> world \<Rightarrow> bool" where
  "only_row e tab ref w w' \<longleftrightarrow> (\<forall>t. t \<noteq> tab \<longrightarrow> w_tables w' t = w_tables w t)
     \<and> (\<forall>ref'. ref' \<noteq> ref \<longrightarrow> find_row e tab ref' w' = find_row e tab ref' w)"

lemma only_row_same: "w_tables w' = w_tables w \<Longrightarrow> only_row e tab ref w w'"
  by (simp add: only_row_def find_row_def)

lemma only_row_trans: "only_row e tab ref w1 w2 \<Longrightarrow> only_row e tab ref w2 w3 \<Longrightarrow> only_row e tab ref w1 w3"
  by (simp add: only_row_def)

lemma only_row_update:
  assumes up: "Store_Update e s tab ref data w = (w', out)" and tc: "text_conv e tab ''reference_id''"
  shows "only_row e tab ref w w'"
  using up tc
proof (cases rule: Store_Update_cases)
  case (same err)
  then show ?thesis by (intro only_row_same)
next
  case (written res data' w1 r)
  have n: "data' ''reference_id'' = None"
    using json_loop_dom [OF written(2)] by (auto simp: clean_update_def dom_def set_eq_iff split: if_splits)
  show ?thesis
    using find_row_update [where sets = data' and refID = ref and w = w, OF tc n] written(4)
    by (simp add: only_row_def find_row_def)
qed

lemma only_row_transition:
  assumes tr: "Store_Transition e s tab ref to w = (w', out)"
    and sch: "st_schema s tab = Some res" and mc: "machine_col e tab res sm"
  shows "only_row e tab ref w w'"
  using tr sch mc
proof (cases rule: Store_Transition_cases)
  case (same err)
  then show ?thesis by (intro only_row_same)
next
  case (moved r t)
  show ?thesis using moved(4) by (simp add: only_row_def find_row_moved [OF mc moved(4)])
qed

lemma invoice_plain:
  "plain_col InvoiceResource ''status''" "plain_col InvoiceResource ''stripe_session_id''"
  "plain_col InvoiceResource ''reference_id''" "plain_col InvoiceResource ''user_id''" "plain_col InvoiceResource ''total_cents''"
  by (simp_all add: plain_col_def InvoiceResource_def field_builder_defs)

lemma invoice_cols:
  "''status'' \<in> set (selectColumns InvoiceResource)" "''stripe_session_id'' \<in> set (selectColumns InvoiceResource)"
  "''reference_id'' \<in> set (selectColumns InvoiceResource)" "''user_id'' \<in> set (selectColumns InvoiceResource)"
  "''total_cents'' \<in> set (selectColumns InvoiceResource)"
  by (simp_all add: selectColumns_def InvoiceResource_def field_builder_defs)

text \<open>What the handlers read of an invoice is what the row holds.\<close>

lemma invoice_decode:
  fixes e :: Env and row :: row
  defines "r \<equiv> decodeRow e InvoiceResource (project (selectColumns InvoiceResource) row)"
  shows "as_string (row_get r ''status'') = strVal (row_get row ''status'')"
    "strVal (row_get r ''stripe_session_id'') = strVal (row_get row ''stripe_session_id'')"
    "strVal (row_get r ''reference_id'') = strVal (row_get row ''reference_id'')"
    "int64_or0 (row_get r ''user_id'') = int64_or0 (row_get row ''user_id'')"
    "int64_or0 (row_get r ''total_cents'') = int64_or0 (row_get row ''total_cents'')"
  by (simp_all add: r_def as_string_decode strVal_decodeRow int64_or0_def toInt64_decode invoice_plain invoice_cols)

lemma find_map_decode: "(\<And>x. P (f x) = Q x) \<Longrightarrow> find P (map f xs) = map_option f (find Q xs)"
  by (induction xs) auto

section \<open>Soundness\<close>

lemma only_row_mark_paid:
  assumes "st_schema (su_Store cfg) ''invoices'' = Some InvoiceResource"
    "text_conv e ''invoices'' ''status''" "text_conv e ''invoices'' ''reference_id''"
  shows "only_row e ''invoices'' ref w (mark_paid e cfg ref w)"
  unfolding mark_paid_def Let_def
  by (rule only_row_trans [OF only_row_update [OF surjective_pairing assms(3)]
        only_row_transition [OF surjective_pairing assms(1) invoice_machine_col [OF assms(2,3)]]])


text \<open>
  Conversely, when the database answers, a paid session of a pending invoice on the page marks that
  invoice as paid.
\<close>

lemma update_then_move:
  assumes sch: "st_schema s tab = Some res" and mc: "machine_col e tab res sm" and g: "sm_Guards sm to = None"
    and ok: "\<And>t st. env_fail e t st = None"
    and r: "find_row e tab ref w = Some r" and mv: "CanTransition sm (col_state sm r) to" and dt: "data (sm_Field sm) = None"
  shows "\<exists>r'. find_row e tab ref (fst (Store_Transition e s tab ref to (fst (Store_Update e s tab ref data w)))) = Some r'
    \<and> col_state sm r' = to"
proof -
  have tc: "text_conv e tab ''reference_id''" using mc by (simp add: machine_col_def)
  obtain w1 out where u: "Store_Update e s tab ref data w = (w1, out)" by fastforce
  from Store_Update_rows [OF u tc, unfolded rows_related_def, THEN spec, of ref]
  obtain r1 where r1: "find_row e tab ref w1 = Some r1" and ag: "agree_outside (insert ''updated_at'' (dom data)) r r1"
    unfolding r option_rel_Some1 by blast
  have "row_get r1 (sm_Field sm) = row_get r (sm_Field sm)"
    using mc by (intro agree_outside_col [OF ag]) (auto simp: dt domIff machine_col_def std_cols_def)
  then have c: "CanTransition sm (col_state sm r1) to" "guard_ok sm to (decodeRow e res (project (selectColumns res) r1))"
    using mv g by (simp_all add: col_state_def guard_ok_def)
  obtain w2 t where t: "Store_Transition e s tab ref to w1 = (w2, t)" by fastforce
  from t Store_Transition_succeeds [OF sch mc r1 c ok] obtain x where x: "t = Inr x" by auto
  have "\<exists>r'. find_row e tab ref w2 = Some r' \<and> col_state sm r' = to"
    using t sch mc
  proof (cases rule: Store_Transition_cases)
    case (moved r' tt)
    then show ?thesis using find_row_moved [OF mc moved(4)] col_state_moved [OF mc, of tt to r'] by simp
  qed (simp add: x)
  then show ?thesis using u t by simp
qed

lemma invoice_status: "col_state invoice_machine r = strVal (row_get r ''status'')" "sm_Guards invoice_machine to = None"
  "sm_Field invoice_machine = ''status''"
  by (simp_all add: col_state_def invoice_machine_def)

lemmas invoice_update_then_move = update_then_move [OF _ invoice_machine_col invoice_status(2), unfolded invoice_status]

lemma payment_verification_complete:
  assumes sch: "st_schema (su_Store cfg) ''invoices'' = Some InvoiceResource"
    and tc: "text_conv e ''invoices'' ''status''" "text_conv e ''invoices'' ''reference_id''"
    and ok: "\<And>t st. env_fail e t st = None"
    and who: "ac_Authenticated (getAuthContext r)" "su_StripeKey cfg \<noteq> []" "query_Get (rq_query r) ''session_id'' \<noteq> []"
    and ivc: "find (\<lambda>ivc. strVal (row_get ivc ''stripe_session_id'') = query_Get (rq_query r) ''session_id''
                  \<and> int64_or0 (row_get ivc ''user_id'') = ac_UserID (getAuthContext r))
                (take 100 (rev (w_tables w ''invoices''))) = Some ivc"
      "find_row e ''invoices'' (strVal (row_get ivc ''reference_id'')) w = Some ivc" "strVal (row_get ivc ''status'') = ''pending''"
    and paid: "\<And>t. checkStripeSession sb t (su_StripeKey cfg) (query_Get (rq_query r) ''session_id'') = Inr True"
    and run: "verifyPaymentHandler e cfg sb r w = (w', rs)"
  shows "\<exists>ivc'. find_row e ''invoices'' (strVal (row_get ivc ''reference_id'')) w' = Some ivc'
    \<and> strVal (row_get ivc' ''status'') = ''paid''"
proof -
  let ?I = InvoiceResource and ?a = "getAuthContext r" and ?sid = "query_Get (rq_query r) ''session_id''"
  let ?d = "\<lambda>row. decodeRow e ?I (project (selectColumns ?I) row)"
  let ?rows = "map ?d (take 100 (rev (w_tables w ''invoices'')))"
  have l: "Store_List e (su_Store cfg) ''invoices'' [] \<lparr>pg_Limit = 100, pg_Offset = 0\<rparr> w = (tick w, Inr ?rows)"
    using sch ok by (simp add: Store_List_def db_select_def paginate_def Page_Normalize_def where_ok_def comp_def)
  have "session_invoice (ac_UserID ?a) ?sid ?rows = map_option ?d (find (\<lambda>ivc.
      strVal (row_get ivc ''stripe_session_id'') = ?sid \<and> int64_or0 (row_get ivc ''user_id'') = ac_UserID ?a)
      (take 100 (rev (w_tables w ''invoices''))))"
    unfolding session_invoice_def by (rule find_map_decode) (simp add: invoice_decode)
  then have si: "session_invoice (ac_UserID ?a) ?sid ?rows = Some (?d ivc)" using ivc(1) by simp
  have w': "w' = mark_paid e cfg (strVal (row_get ivc ''reference_id'')) (tick (tick w))"
    using run who l si paid ivc(3) by (simp add: verifyPaymentHandler_def invoice_decode Let_def)
  have "find_row e ''invoices'' (strVal (row_get ivc ''reference_id'')) (tick (tick w)) = Some ivc" using ivc(2) by simp
  moreover have "CanTransition invoice_machine (strVal (row_get ivc ''status'')) ''paid''"
    unfolding ivc(3) by (simp add: invoice_machine_def CanTransition_def)
  ultimately show ?thesis
    unfolding w' mark_paid_def Let_def by (rule invoice_update_then_move [OF sch tc ok]) simp
qed

text \<open>
  Requesting a payment changes the database only for an invoice of the caller that is draft or
  failed and has a positive amount, and only after Stripe opened a checkout session for
  exactly this amount and currency; no other invoice and no other table is touched.
\<close>

theorem payment_request_sound:
  assumes sch: "st_schema (su_Store cfg) ''invoices'' = Some InvoiceResource"
    and tc: "text_conv e ''invoices'' ''status''" "text_conv e ''invoices'' ''reference_id''"
    and run: "invoicePayHandler e cfg sb r w = (w', rs)" and changed: "w_tables w' \<noteq> w_tables w"
  shows "owns_row e ''invoices'' ''user_id'' r w \<and> only_row e ''invoices'' (rq_id r) w w'
    \<and> (\<exists>ivc. find_row e ''invoices'' (rq_id r) w = Some ivc
         \<and> strVal (row_get ivc ''status'') \<in> {''draft'', ''failed''} \<and> 0 < int64_or0 (row_get ivc ''total_cents'')
         \<and> (\<exists>t success cancel descr session.
              createStripeCheckout sb t (su_StripeKey cfg) (int64_or0 (row_get ivc ''total_cents''))
                (strVal (row_get ivc ''currency'')) success cancel descr = Inr session))"
proof -
  let ?a = "getAuthContext r" and ?I = InvoiceResource
  have k: "\<not> (ac_Authenticated ?a \<and> su_StripeKey cfg = [])"
    using run changed by (auto simp: invoicePayHandler_def)
  have own: "owns_row e ''invoices'' ''user_id'' r w"
  proof (rule ccontr)
    assume "\<not> ?thesis"
    from owned_request_frame [OF _ sch invoice_plain(4) invoice_cols(4) _ this] show False
      using run changed k by (auto simp: invoicePayHandler_def split: if_splits)
  qed
  then have a: "ac_Authenticated ?a" by (simp add: owns_row_def)
  obtain w1 g where g: "Store_Get e (su_Store cfg) ''invoices'' (rq_id r) w = (w1, g)" by fastforce
  note t1 = Store_Get_tables [OF g]
  obtain row where row: "g = Inr row"
    using run changed k g t1 a by (cases g) (auto simp: invoicePayHandler_def owned_request_def)
  with g sch obtain ivc where ivc: "find_row e ''invoices'' (rq_id r) w = Some ivc"
    "row = decodeRow e ?I (project (selectColumns ?I) ivc)" by (auto elim: Store_Get_Inr)
  have cur: "strVal (row_get row ''currency'') = strVal (row_get ivc ''currency'')"
    unfolding ivc(2) by (rule strVal_decodeRow)
      (simp_all add: plain_col_def selectColumns_def InvoiceResource_def field_builder_defs)
  let ?st = "as_string (row_get row ''status'')" and ?n = "int64_or0 (row_get row ''total_cents'')"
  let ?ref = "strVal (row_get row ''reference_id'')"
  let ?c = "createStripeCheckout sb (w_tick w1) (su_StripeKey cfg) ?n (strVal (row_get row ''currency''))
      (success_url r ?ref) (cancel_url r) (''Hoster Invoice '' @ ?ref)"
  have p: "owner_denied ''user_id'' ?a row ''not authorized'' ''not authorized'' = None"
    "?st = ''draft'' \<or> ?st = ''failed''" "0 < ?n"
    using run changed k g t1 a row
    by (auto simp: invoicePayHandler_def owned_request_def Let_def split: option.splits if_splits)
  obtain url sid where c: "?c = Inr (url, sid)"
    using run changed k g t1 a row p by (cases ?c) (auto simp: invoicePayHandler_def owned_request_def Let_def)
  let ?w2 = "fst (Store_Update e (su_Store cfg) ''invoices'' (rq_id r)
      [''stripe_session_id'' \<mapsto> GStr sid, ''stripe_payment_url'' \<mapsto> GStr url] (tick w1))"
  have w': "w' = fst (Store_Transition e (su_Store cfg) ''invoices'' (rq_id r) ''pending'' ?w2)"
    using run k g a row p c by (auto simp: invoicePayHandler_def owned_request_def Let_def)
  have "only_row e ''invoices'' (rq_id r) w (tick w1)" using t1 by (intro only_row_same) simp
  then have "only_row e ''invoices'' (rq_id r) w w'"
    unfolding w' using only_row_update [OF surjective_pairing tc(2)]
      only_row_transition [OF surjective_pairing sch invoice_machine_col [OF tc]]
    by (meson only_row_trans)
  moreover have "strVal (row_get ivc ''status'') \<in> {''draft'', ''failed''}" "0 < int64_or0 (row_get ivc ''total_cents'')"
    using p(2,3) by (auto simp: ivc(2) invoice_decode)
  moreover have "createStripeCheckout sb (w_tick w1) (su_StripeKey cfg) (int64_or0 (row_get ivc ''total_cents''))
      (strVal (row_get ivc ''currency'')) (success_url r ?ref) (cancel_url r) (''Hoster Invoice '' @ ?ref) = Inr (url, sid)"
    using c unfolding cur by (simp add: ivc(2) invoice_decode)
  ultimately show ?thesis using own ivc(1) by blast
qed

section \<open>Examples\<close>

definition paying_stripe :: stripe_lib where
  "paying_stripe = \<lparr>sb_url_error = (\<lambda>_. None), sb_Do = (\<lambda>_ _. Inr (200, [])), sb_session = (\<lambda>_. Inr (''cs_1'', ''https://pay'')),
     sb_payment_status = (\<lambda>_. Inr ''paid''), sb_ToLower = (\<lambda>c. c)\<rparr>"

definition billing_setup :: SetupConfig where
  "billing_setup = demo_setup\<lparr>su_StripeKey := ''sk_test''\<rparr>"

definition pending_invoice :: row where
  "pending_invoice = invoice_row(''status'' \<mapsto> GStr ''pending'', ''stripe_session_id'' \<mapsto> GStr ''cs_1'')"

definition pending_world :: world where
  "pending_world = invoice_world\<lparr>w_tables := (\<lambda>_. [])(''invoices'' := [pending_invoice])\<rparr>"

definition verify_request :: Request where
  "verify_request = alice_request\<lparr>rq_query := [(''session_id'', [''cs_1''])]\<rparr>"

lemma billing_store: "st_schema (su_Store billing_setup) ''invoices'' = Some InvoiceResource"
  using app_storeD [OF full_store_app, of InvoiceResource]
  by (simp add: billing_setup_def demo_setup_def Schema_def resource_names)

lemma stripe_paid: "checkStripeSession paying_stripe t key sid = Inr True"
  by (simp add: checkStripeSession_def paying_stripe_def)

lemma verify_request_auth: "ac_Authenticated (getAuthContext verify_request)" "ac_UserID (getAuthContext verify_request) = 7"
  "query_Get (rq_query verify_request) ''session_id'' = ''cs_1''"
  by (simp_all add: verify_request_def alice_request_def getAuthContext_def AuthFromRequest_def alice_auth_def query_Get_def)

lemma pending_row:
  "find_row demo_env ''invoices'' ''inv_1'' pending_world = Some pending_invoice"
  "w_tables pending_world ''invoices'' = [pending_invoice]"
  "strVal (row_get pending_invoice ''reference_id'') = ''inv_1''" "strVal (row_get pending_invoice ''status'') = ''pending''"
  "strVal (row_get pending_invoice ''stripe_session_id'') = ''cs_1''" "int64_or0 (row_get pending_invoice ''user_id'') = 7"
  by (simp_all add: find_row_def pending_world_def pending_invoice_def invoice_row_def where_ok_def by_ref_def sql_eq_def
      demo_env_def sqlite_conv_def row_get_def strVal_def int64_or0_def toInt64_def)

lemma verified_paid:
  "\<exists>ivc'. find_row demo_env ''invoices'' ''inv_1'' (fst (verifyPaymentHandler demo_env billing_setup paying_stripe
      verify_request pending_world)) = Some ivc' \<and> strVal (row_get ivc' ''status'') = ''paid''"
proof -
  have key: "su_StripeKey billing_setup \<noteq> []" by (simp add: billing_setup_def)
  have "find (\<lambda>ivc. strVal (row_get ivc ''stripe_session_id'') = query_Get (rq_query verify_request) ''session_id''
                  \<and> int64_or0 (row_get ivc ''user_id'') = ac_UserID (getAuthContext verify_request))
                (take 100 (rev (w_tables pending_world ''invoices''))) = Some pending_invoice"
    by (simp add: pending_row verify_request_auth)
  from payment_verification_complete [OF billing_store demo_text_conv demo_text_conv demo_nofail verify_request_auth(1) key _ this
      _ _ stripe_paid surjective_pairing]
  show ?thesis by (simp add: pending_row verify_request_auth)
qed


lemma draft_row: "find_row demo_env ''invoices'' ''inv_1'' invoice_world = Some invoice_row"
  by (simp add: find_row_def invoice_world_def invoice_row_def where_ok_def by_ref_def sql_eq_def
      demo_env_def sqlite_conv_def row_get_def)

theorem payment_request_sound_witness:
  "w_tables (fst (invoicePayHandler demo_env billing_setup paying_stripe (alice_request\<lparr>rq_id := ''inv_1''\<rparr>) invoice_world))
     \<noteq> w_tables invoice_world
   \<and> owns_row demo_env ''invoices'' ''user_id'' (alice_request\<lparr>rq_id := ''inv_1''\<rparr>) invoice_world"
proof -
  let ?r = "alice_request\<lparr>rq_id := ''inv_1''\<rparr>" and ?s = "su_Store billing_setup" and ?I = InvoiceResource
  let ?w = "fst (invoicePayHandler demo_env billing_setup paying_stripe ?r invoice_world)"
  let ?d = "decodeRow demo_env ?I (project (selectColumns ?I) invoice_row)"
  let ?u = "[''stripe_session_id'' \<mapsto> GStr ''cs_1'', ''stripe_payment_url'' \<mapsto> GStr ''https://pay'']"
  note mc = invoice_machine_col [OF demo_text_conv demo_text_conv]
  have g: "Store_Get demo_env ?s ''invoices'' ''inv_1'' invoice_world = (tick invoice_world, Inr ?d)"
    using draft_row billing_store by (simp add: Store_Get_def query_row_result find_row_def demo_nofail)
  have d: "owner_denied ''user_id'' alice_auth ?d bo no = None" for bo no
    by (simp add: owner_denied_def toInt64_decode invoice_plain invoice_cols)
      (simp add: invoice_row_def row_get_def toInt64_def alice_auth_def)
  have iv: "as_string (row_get ?d ''status'') = ''draft''" "int64_or0 (row_get ?d ''total_cents'') = 4900"
    by (simp_all add: invoice_decode) (simp_all add: invoice_row_def row_get_def strVal_def int64_or0_def toInt64_def)
  let ?w1 = "fst (Store_Update demo_env ?s ''invoices'' ''inv_1'' ?u (tick (tick invoice_world)))"
  let ?w2 = "fst (Store_Transition demo_env ?s ''invoices'' ''inv_1'' ''pending'' ?w1)"
  have w: "?w = ?w2"
    using g d iv
    by (simp add: invoicePayHandler_def owned_request_def getAuthContext_def AuthFromRequest_def alice_request_def
        alice_auth_def [THEN arg_cong, of ac_Authenticated] createStripeCheckout_def paying_stripe_def Let_def
        billing_setup_def [THEN arg_cong, of su_StripeKey])
  have st: "strVal (row_get invoice_row ''status'') = ''draft''" by (simp add: invoice_row_def row_get_def strVal_def)
  have "find_row demo_env ''invoices'' ''inv_1'' (tick (tick invoice_world)) = Some invoice_row" using draft_row by simp
  moreover have "CanTransition invoice_machine (strVal (row_get invoice_row ''status'')) ''pending''"
    unfolding st by (simp add: invoice_machine_def CanTransition_def)
  ultimately have "\<exists>ivc'. find_row demo_env ''invoices'' ''inv_1'' ?w2 = Some ivc' \<and> strVal (row_get ivc' ''status'') = ''pending''"
    by (rule invoice_update_then_move [OF billing_store demo_text_conv demo_text_conv demo_nofail]) simp
  then have c: "w_tables ?w \<noteq> w_tables invoice_world"
    using draft_row st unfolding w by (auto simp: find_row_def)
  from payment_request_sound [OF billing_store demo_text_conv demo_text_conv surjective_pairing c] c show ?thesis by blast
qed

end
