(* ===== verification/Engine_Workers.thy ===== *)
theory Engine_Workers
  imports Engine_Billing
begin

text \<open>
  \<open>internal/engine/workers.go\<close>: the background workers. One round of each worker (\<open>checkAll\<close>,
  \<open>runCycle\<close>, \<open>checkDomains\<close>, \<open>generateAll\<close>) is a function of the world; the tickers that call them, the
  goroutines and the log are not modelled. What the workers call is an argument (\<open>WorkerDeps\<close>): the
  node pool, the cloud SDKs, dialling, and the clock with the formatting of instants.
\<close>

section \<open>Dependencies\<close>

text \<open>
  \<open>wd_today\<close> is the UTC year and month of \<open>time.Now\<close>. \<open>wd_range\<close> is the order in which \<open>range\<close> visits the
  keys of a map. \<open>wd_PingNode\<close> is \<^const>\<open>None\<close> when no pool is configured.
\<close>

record lineItem =
  li_DeploymentID :: string
  li_DeploymentName :: string
  li_TemplateName :: string
  li_MonthlyCents :: int
  li_Description :: string

record WorkerDeps =
  wd_PingNode :: "(nat \<Rightarrow> string \<Rightarrow> string option) option"
  wd_encryptionKey :: string
  wd_open :: open_fn
  wd_NewProvider :: "string \<Rightarrow> string \<Rightarrow> string option"
  wd_CreateInstance :: "nat \<Rightarrow> string \<Rightarrow> string \<Rightarrow> string \<Rightarrow> string \<Rightarrow> string \<Rightarrow> string + string \<times> string"
  wd_Dial :: "nat \<Rightarrow> string \<Rightarrow> string option"
  wd_time :: "nat \<Rightarrow> time"
  wd_today :: "nat \<Rightarrow> int \<times> int"
  wd_FormatYM :: "time \<Rightarrow> string"
  wd_MarshalItems :: "lineItem list \<Rightarrow> string"
  wd_range :: "nat \<Rightarrow> int list \<Rightarrow> int list"

section \<open>Health checker\<close>

definition ping_update :: "Env \<Rightarrow> nat \<Rightarrow> string option \<Rightarrow> row" where
  "ping_update e t ping =
     (case ping of
        Some err \<Rightarrow> [''status'' \<mapsto> GStr ''offline'', ''last_health_check'' \<mapsto> GStr (env_now e t), ''error_message'' \<mapsto> GStr err]
      | None \<Rightarrow> [''status'' \<mapsto> GStr ''online'', ''last_health_check'' \<mapsto> GStr (env_now e t), ''error_message'' \<mapsto> GStr []])"

definition CheckNode :: "Env \<Rightarrow> Store \<Rightarrow> WorkerDeps \<Rightarrow> string \<Rightarrow> world \<Rightarrow> world" where
  "CheckNode e s wd nodeRefID w =
     (case wd_PingNode wd of
        None \<Rightarrow> w
      | Some ping \<Rightarrow>
          fst (Store_Update e s ''nodes'' nodeRefID (ping_update e (Suc (w_tick w)) (ping (w_tick w) nodeRefID)) (tick w)))"

fun check_loop :: "Env \<Rightarrow> Store \<Rightarrow> WorkerDeps \<Rightarrow> row list \<Rightarrow> world \<Rightarrow> world" where
  "check_loop e s wd [] w = w"
| "check_loop e s wd (node # nodes) w =
     (if as_string (row_get node ''status'') = ''maintenance'' then check_loop e s wd nodes w
      else check_loop e s wd nodes (CheckNode e s wd (as_string (row_get node ''reference_id'')) w))"

definition checkAll :: "Env \<Rightarrow> Store \<Rightarrow> WorkerDeps \<Rightarrow> world \<Rightarrow> world" where
  "checkAll e s wd w =
     (case Store_List e s ''nodes'' [] \<lparr>pg_Limit = 1000, pg_Offset = 0\<rparr> w of
        (w, Inl err) \<Rightarrow> w
      | (w, Inr nodes) \<Rightarrow> check_loop e s wd nodes w)"

section \<open>Provisioner\<close>

definition active_query :: string where
  "active_query = ''SELECT cp.*, cc.credentials, cc.provider as cred_provider FROM cloud_provisions cp JOIN cloud_credentials cc ON cc.id = cp.credential_id WHERE cp.status IN ('pending', 'creating', 'configuring', 'destroying') ORDER BY cp.id ASC LIMIT 10''"

definition active_provision :: "row \<Rightarrow> bool" where
  "active_provision r \<longleftrightarrow> row_get r ''status'' \<noteq> GNil
     \<and> strVal (row_get r ''status'') \<in> {''pending'', ''creating'', ''configuring'', ''destroying''}"

text \<open>The rows of the query: each active provision joined with its credential. Tables are in the order of \<open>id\<close>.\<close>

definition joined_provisions :: "world \<Rightarrow> row list" where
  "joined_provisions w =
     take 10 (concat (map (\<lambda>cp.
       map (\<lambda>cc. cp(''credentials'' \<mapsto> row_get cc ''credentials'', ''cred_provider'' \<mapsto> row_get cc ''provider''))
         (filter (\<lambda>cc. sql_eq (row_get cc ''id'') (row_get cp ''credential_id'')) (w_tables w ''cloud_credentials'')))
       (filter active_provision (w_tables w ''cloud_provisions''))))"

definition worker_failProvision :: "Env \<Rightarrow> Store \<Rightarrow> string \<Rightarrow> string \<Rightarrow> world \<Rightarrow> world" where
  "worker_failProvision e s refID reason w =
     (let w = fst (Store_Update e s ''cloud_provisions'' refID [''error_message'' \<mapsto> GStr reason] w)
      in fst (Store_Transition e s ''cloud_provisions'' refID ''failed'' w))"

text \<open>The public key of the linked SSH key: an error text, or the key, empty when there is none.\<close>

definition provision_public_key :: "Env \<Rightarrow> Store \<Rightarrow> row \<Rightarrow> world \<Rightarrow> world \<times> (string + string)" where
  "provision_public_key e s row w =
     (let sshKeyRefID = strVal (row_get row ''ssh_key_id'')
      in if sshKeyRefID = [] then (w, Inr [])
         else case Store_Get e s ''ssh_keys'' sshKeyRefID w of
                (w, Inl err) \<Rightarrow> (w, Inl (''lookup SSH key: '' @ err))
              | (w, Inr sshKey) \<Rightarrow> (w, Inr (strVal (row_get sshKey ''public_key''))))"

definition stepCreate :: "Env \<Rightarrow> Store \<Rightarrow> WorkerDeps \<Rightarrow> row \<Rightarrow> world \<Rightarrow> world" where
  "stepCreate e s wd row w =
     (let refID = strVal (row_get row ''reference_id''); providerType = strVal (row_get row ''provider'')
      in case Decrypt (wd_open wd) (strVal (row_get row ''credentials'')) (wd_encryptionKey wd) of
           Inl err \<Rightarrow> worker_failProvision e s refID (''decrypt credentials: '' @ env_crypto_text e err) w
         | Inr decrypted \<Rightarrow>
             (case wd_NewProvider wd providerType decrypted of
                Some err \<Rightarrow> worker_failProvision e s refID (''create provider: '' @ err) w
              | None \<Rightarrow>
                  (case provision_public_key e s row w of
                     (w, Inl err) \<Rightarrow> worker_failProvision e s refID err w
                   | (w, Inr sshPublicKey) \<Rightarrow>
                       if sshPublicKey = []
                       then worker_failProvision e s refID
                              (''SSH public key is empty '' @ em_dash @ '' cannot provision without an SSH key'') w
                       else
                         let instanceName = strVal (row_get row ''instance_name''); t = w_tick w;
                             w = ext_log (CreateCloudInstance providerType instanceName) w
                         in case wd_CreateInstance wd t providerType instanceName (strVal (row_get row ''region''))
                                   (strVal (row_get row ''size'')) sshPublicKey of
                              Inl err \<Rightarrow> worker_failProvision e s refID (''create instance: '' @ err) w
                            | Inr (instanceID, publicIP) \<Rightarrow>
                                let w = fst (Store_Update e s ''cloud_provisions'' refID
                                      [''provider_instance_id'' \<mapsto> GStr instanceID, ''public_ip'' \<mapsto> GStr publicIP,
                                       ''current_step'' \<mapsto> GStr ''instance_created''] w)
                                in fst (Store_Transition e s ''cloud_provisions'' refID ''creating'' w))))"

definition stepConfigure :: "Env \<Rightarrow> Store \<Rightarrow> row \<Rightarrow> world \<Rightarrow> world" where
  "stepConfigure e s row w =
     (let refID = strVal (row_get row ''reference_id'');
          w = fst (Store_Update e s ''cloud_provisions'' refID [''current_step'' \<mapsto> GStr ''configuring_instance''] w)
      in fst (Store_Transition e s ''cloud_provisions'' refID ''configuring'' w))"

text \<open>Instants are nanoseconds.\<close>

definition five_minutes :: int where "five_minutes = 5 * 60 * 1000000000"

definition ssh_overdue :: "Env \<Rightarrow> WorkerDeps \<Rightarrow> nat \<Rightarrow> row \<Rightarrow> bool" where
  "ssh_overdue e wd t row \<longleftrightarrow>
     (case row_get row ''created_at'' of
        GStr created \<Rightarrow> (case env_ParseTime e RFC3339 created of
                           Some c \<Rightarrow> five_minutes < wd_time wd t - c
                         | None \<Rightarrow> False)
      | _ \<Rightarrow> False)"

definition node_data :: "row \<Rightarrow> int \<Rightarrow> row" where
  "node_data row sshKeyIntID =
     (let providerType = strVal (row_get row ''provider'');
          nodeData = [''name'' \<mapsto> GStr (strVal (row_get row ''instance_name'')),
            ''ssh_host'' \<mapsto> GStr (strVal (row_get row ''public_ip'')), ''ssh_port'' \<mapsto> GInt 22,
            ''ssh_user'' \<mapsto> GStr ''root'', ''ssh_key_id'' \<mapsto> GInt sshKeyIntID,
            ''creator_id'' \<mapsto> GInt (int64_or0 (row_get row ''creator_id'')),
            ''provider_type'' \<mapsto> GStr providerType, ''provision_id'' \<mapsto> GStr (strVal (row_get row ''reference_id'')),
            ''status'' \<mapsto> GStr ''online'', ''docker_socket'' \<mapsto> GStr ''/var/run/docker.sock'']
      in case LookupSize providerType (strVal (row_get row ''size'')) of
           None \<Rightarrow> nodeData
         | Some spec \<Rightarrow> nodeData(''capacity_cpu_cores'' \<mapsto> GFloat (is_CPUCores spec),
             ''capacity_memory_mb'' \<mapsto> GInt64 (is_MemoryMB spec),
             ''capacity_disk_mb'' \<mapsto> GInt (wrap64 (is_DiskGB spec * 1024)),
             ''location'' \<mapsto> GStr (strVal (row_get row ''region''))))"

definition node_ssh_key :: "Env \<Rightarrow> Store \<Rightarrow> row \<Rightarrow> world \<Rightarrow> world \<times> (string + int)" where
  "node_ssh_key e s row w =
     (let sshKeyRefID = strVal (row_get row ''ssh_key_id'')
      in if sshKeyRefID = [] then (w, Inr 0)
         else case Store_Get e s ''ssh_keys'' sshKeyRefID w of
                (w, Inl err) \<Rightarrow> (w, Inl (''lookup SSH key for node: '' @ err))
              | (w, Inr sshKey) \<Rightarrow> (w, Inr (int64_or0 (row_get sshKey ''id''))))"

definition stepFinalize :: "Env \<Rightarrow> Store \<Rightarrow> WorkerDeps \<Rightarrow> row \<Rightarrow> world \<Rightarrow> world" where
  "stepFinalize e s wd row w =
     (let refID = strVal (row_get row ''reference_id''); publicIP = strVal (row_get row ''public_ip'')
      in if ssh_overdue e wd (w_tick w) row
         then worker_failProvision e s refID (''SSH not reachable after 5 minutes on '' @ publicIP @ '':22'') w
         else case wd_Dial wd (w_tick w) (publicIP @ '':22'') of
                Some err \<Rightarrow> fst (Store_Update e s ''cloud_provisions'' refID
                              [''current_step'' \<mapsto> GStr ''waiting_for_ssh''] (tick w))
              | None \<Rightarrow>
                  (case node_ssh_key e s row (tick w) of
                     (w, Inl err) \<Rightarrow> worker_failProvision e s refID err w
                   | (w, Inr sshKeyIntID) \<Rightarrow>
                       (case Store_Create e s ''nodes'' (node_data row sshKeyIntID) w of
                          (w, Inl err) \<Rightarrow> worker_failProvision e s refID (''create node: '' @ err) w
                        | (w, Inr nodeRow) \<Rightarrow>
                            let w = fst (Store_Update e s ''cloud_provisions'' refID
                                  [''current_step'' \<mapsto> GStr ''ready'', ''completed_at'' \<mapsto> GStr (env_now e (w_tick w)),
                                   ''node_id'' \<mapsto> GStr (strVal (row_get nodeRow ''reference_id''))] w)
                            in fst (Store_Transition e s ''cloud_provisions'' refID ''ready'' w))))"

text \<open>The outcome of \<open>DestroyInstance\<close> is only logged, so it is no argument here.\<close>

definition stepDestroy :: "Env \<Rightarrow> Store \<Rightarrow> WorkerDeps \<Rightarrow> row \<Rightarrow> world \<Rightarrow> world" where
  "stepDestroy e s wd row w =
     (let refID = strVal (row_get row ''reference_id''); providerType = strVal (row_get row ''provider'');
          instanceID = strVal (row_get row ''provider_instance_id'')
      in if instanceID = [] then fst (Store_Transition e s ''cloud_provisions'' refID ''destroyed'' w)
         else case Decrypt (wd_open wd) (strVal (row_get row ''credentials'')) (wd_encryptionKey wd) of
                Inl err \<Rightarrow> worker_failProvision e s refID (''decrypt credentials: '' @ env_crypto_text e err) w
              | Inr decrypted \<Rightarrow>
                  (case wd_NewProvider wd providerType decrypted of
                     Some err \<Rightarrow> worker_failProvision e s refID (''create provider: '' @ err) w
                   | None \<Rightarrow>
                       let w = ext_log (DestroyCloudInstance providerType instanceID) w
                       in fst (Store_Transition e s ''cloud_provisions'' refID ''destroyed'' w)))"

definition provision_step :: "Env \<Rightarrow> Store \<Rightarrow> WorkerDeps \<Rightarrow> row \<Rightarrow> world \<Rightarrow> world" where
  "provision_step e s wd row w =
     (let status = strVal (row_get row ''status'')
      in if status = ''pending'' then stepCreate e s wd row w
         else if status = ''creating'' then stepConfigure e s row w
         else if status = ''configuring'' then stepFinalize e s wd row w
         else if status = ''destroying'' then stepDestroy e s wd row w
         else w)"

definition runCycle :: "Env \<Rightarrow> Store \<Rightarrow> WorkerDeps \<Rightarrow> world \<Rightarrow> world" where
  "runCycle e s wd w =
     (case env_fail e (w_tick w) (RawStmt active_query []) of
        Some err \<Rightarrow> tick w
      | None \<Rightarrow> fold (provision_step e s wd) (joined_provisions w) (tick w))"

section \<open>Domain verifier\<close>

text \<open>The loop over the running deployments has no body.\<close>

definition checkDomains :: "Env \<Rightarrow> Store \<Rightarrow> world \<Rightarrow> world" where
  "checkDomains e s w =
     fst (Store_List e s ''deployments'' [\<lparr>flt_Field = ''status'', flt_Value = GStr ''running''\<rparr>]
            \<lparr>pg_Limit = 1000, pg_Offset = 0\<rparr> w)"

section \<open>Invoice generator\<close>

subsection \<open>The billing period\<close>

definition pad2 :: "int \<Rightarrow> string" where
  "pad2 n = (if n < 10 then ''0'' @ fmt_d n else fmt_d n)"

definition pad4 :: "int \<Rightarrow> string" where
  "pad4 n = replicate (4 - length (fmt_d n)) CHR ''0'' @ fmt_d n"

definition leap_year :: "int \<Rightarrow> bool" where
  "leap_year y \<longleftrightarrow> y mod 4 = 0 \<and> (y mod 100 \<noteq> 0 \<or> y mod 400 = 0)"

definition days_in_month :: "int \<Rightarrow> int \<Rightarrow> int" where
  "days_in_month y m = (if m = 2 then if leap_year y then 29 else 28 else if m \<in> {4, 6, 9, 11} then 30 else 31)"

definition year_month :: "int \<times> int \<Rightarrow> string" where
  "year_month = (\<lambda>(y, m). pad4 y @ ''-'' @ pad2 m)"

text \<open>Midnight of the first day, one second before the first day of the next month, and \<open>Jan 2006\<close>.\<close>

definition period_start :: "int \<times> int \<Rightarrow> string" where
  "period_start ym = year_month ym @ ''-01T00:00:00Z''"

definition period_end :: "int \<times> int \<Rightarrow> string" where
  "period_end ym = year_month ym @ ''-'' @ pad2 (days_in_month (fst ym) (snd ym)) @ ''T23:59:59Z''"

definition month_label :: "int \<times> int \<Rightarrow> string" where
  "month_label = (\<lambda>(y, m). [''Jan'', ''Feb'', ''Mar'', ''Apr'', ''May'', ''Jun'', ''Jul'', ''Aug'', ''Sep'', ''Oct'', ''Nov'', ''Dec'']
     ! nat (m - 1) @ '' '' @ pad4 y)"

definition timeToYearMonth :: "WorkerDeps \<Rightarrow> gval \<Rightarrow> string" where
  "timeToYearMonth wd v =
     (case v of
        GTime t \<Rightarrow> wd_FormatYM wd t
      | GStr t \<Rightarrow> if 7 \<le> length t then take 7 t else []
      | GBytes t \<Rightarrow> if 7 \<le> length t then take 7 t else []
      | _ \<Rightarrow> [])"

subsection \<open>Bills\<close>

record userBill =
  ub_items :: "lineItem list"
  ub_totalCents :: int

text \<open>Price and name of the template of a deployment; a template that cannot be read costs nothing.\<close>

definition template_price :: "Env \<Rightarrow> Store \<Rightarrow> row \<Rightarrow> world \<Rightarrow> world \<times> int \<times> string" where
  "template_price e s d w =
     (case toInt64 (row_get d ''template_id'') of
        Some tmplID \<Rightarrow>
          if 0 < tmplID then
            (case Store_GetByID e s ''templates'' tmplID w of
               (w, Inl err) \<Rightarrow> (w, 0, [])
             | (w, Inr tmpl) \<Rightarrow> (w, int64_or0 (row_get tmpl ''price_monthly_cents''), strVal (row_get tmpl ''name'')))
          else (w, 0, [])
      | None \<Rightarrow> (w, 0, []))"

definition line_item :: "string \<Rightarrow> row \<Rightarrow> int \<Rightarrow> string \<Rightarrow> lineItem" where
  "line_item label d priceCents templateName =
     (let deplName = strVal (row_get d ''name'')
      in \<lparr>li_DeploymentID = strVal (row_get d ''reference_id''), li_DeploymentName = deplName,
          li_TemplateName = templateName, li_MonthlyCents = priceCents,
          li_Description = deplName @ '' ('' @ templateName @ '') '' @ em_dash @ '' '' @ label\<rparr>)"

definition add_item :: "int \<Rightarrow> lineItem \<Rightarrow> (int \<times> userBill) list \<Rightarrow> (int \<times> userBill) list" where
  "add_item uid item bills =
     (let bill = (case map_of bills uid of None \<Rightarrow> \<lparr>ub_items = [], ub_totalCents = 0\<rparr> | Some b \<Rightarrow> b)
      in AList.update uid (bill\<lparr>ub_items := ub_items bill @ [item],
           ub_totalCents := wrap64 (ub_totalCents bill + li_MonthlyCents item)\<rparr>) bills)"

fun bill_loop :: "Env \<Rightarrow> Store \<Rightarrow> string \<Rightarrow> row list \<Rightarrow> (int \<times> userBill) list \<Rightarrow> world \<Rightarrow> world \<times> (int \<times> userBill) list" where
  "bill_loop e s label [] bills w = (w, bills)"
| "bill_loop e s label (d # ds) bills w =
     (let ownerID = int64_or0 (row_get d ''customer_id'')
      in if ownerID = 0 then bill_loop e s label ds bills w
         else case template_price e s d w of
                (w, priceCents, templateName) \<Rightarrow>
                  bill_loop e s label ds (add_item ownerID (line_item label d priceCents templateName) bills) w)"

subsection \<open>Invoices\<close>

definition settled :: "row \<Rightarrow> bool" where
  "settled ivc \<longleftrightarrow> as_string (row_get ivc ''status'') = ''paid'' \<or> as_string (row_get ivc ''status'') = ''pending''"

definition existing_step :: "WorkerDeps \<Rightarrow> string \<Rightarrow> (int \<rightharpoonup> row) \<Rightarrow> row \<Rightarrow> (int \<rightharpoonup> row)" where
  "existing_step wd currentYM m ivc =
     (if timeToYearMonth wd (row_get ivc ''period_start'') = currentYM then
        let uid = int64_or0 (row_get ivc ''user_id'')
        in case m uid of
             Some prev \<Rightarrow> if settled prev then m else m(uid \<mapsto> ivc)
           | None \<Rightarrow> m(uid \<mapsto> ivc)
      else m)"

definition existing_by_user :: "WorkerDeps \<Rightarrow> string \<Rightarrow> row list \<Rightarrow> (int \<rightharpoonup> row)" where
  "existing_by_user wd currentYM invoices = foldl (existing_step wd currentYM) Map.empty invoices"

definition invoice_data :: "WorkerDeps \<Rightarrow> int \<times> int \<Rightarrow> int \<Rightarrow> userBill \<Rightarrow> row" where
  "invoice_data wd ym userID bill =
     [''user_id'' \<mapsto> GInt userID, ''period_start'' \<mapsto> GStr (period_start ym), ''period_end'' \<mapsto> GStr (period_end ym),
      ''items'' \<mapsto> GStr (wd_MarshalItems wd (ub_items bill)), ''subtotal_cents'' \<mapsto> GInt (ub_totalCents bill),
      ''tax_cents'' \<mapsto> GInt 0, ''total_cents'' \<mapsto> GInt (ub_totalCents bill), ''currency'' \<mapsto> GStr ''USD'']"

definition invoice_step ::
  "Env \<Rightarrow> Store \<Rightarrow> WorkerDeps \<Rightarrow> int \<times> int \<Rightarrow> (int \<rightharpoonup> row) \<Rightarrow> (int \<times> userBill) list \<Rightarrow> int \<Rightarrow> world \<Rightarrow> world" where
  "invoice_step e s wd ym existingByUser bills userID w =
     (case map_of bills userID of
        None \<Rightarrow> w
      | Some bill \<Rightarrow>
          if ub_totalCents bill = 0 then w
          else case existingByUser userID of
                 Some existing \<Rightarrow>
                   if settled existing then w
                   else fst (Store_Update e s ''invoices'' (strVal (row_get existing ''reference_id''))
                          [''items'' \<mapsto> GStr (wd_MarshalItems wd (ub_items bill)),
                           ''subtotal_cents'' \<mapsto> GInt (ub_totalCents bill), ''total_cents'' \<mapsto> GInt (ub_totalCents bill)] w)
               | None \<Rightarrow> fst (Store_Create e s ''invoices'' (invoice_data wd ym userID bill) w))"

definition generateAll :: "Env \<Rightarrow> Store \<Rightarrow> WorkerDeps \<Rightarrow> world \<Rightarrow> world" where
  "generateAll e s wd w =
     (let ym = wd_today wd (w_tick w)
      in case Store_List e s ''deployments'' [\<lparr>flt_Field = ''status'', flt_Value = GStr ''running''\<rparr>]
                \<lparr>pg_Limit = 1000, pg_Offset = 0\<rparr> w of
           (w, Inl err) \<Rightarrow> w
         | (w, Inr deployments) \<Rightarrow>
             if deployments = [] then w
             else case bill_loop e s (month_label ym) deployments [] w of
                    (w, bills) \<Rightarrow>
                      (case Store_List e s ''invoices'' [] \<lparr>pg_Limit = 1000, pg_Offset = 0\<rparr> w of
                         (w, Inl err) \<Rightarrow> w
                       | (w, Inr allInvoices) \<Rightarrow>
                           fold (invoice_step e s wd ym (existing_by_user wd (year_month ym) allInvoices) bills)
                             (wd_range wd (w_tick w) (map fst bills)) w))"

section \<open>What the workers may change\<close>

text \<open>
  The workers use more of the store than the handlers: they write nodes and invoices and list
  whole tables. Every preorder that respects these operations too is respected by each round of
  each worker.
\<close>

definition running_filter :: "Filter list" where
  "running_filter = [\<lparr>flt_Field = ''status'', flt_Value = GStr ''running''\<rparr>]"

locale worker_order = world_order +
  assumes other_update: "Store_Update e s tab refID data w = (w', out) \<Longrightarrow> tab \<in> {''nodes'', ''invoices''} \<Longrightarrow> R w w'"
    and other_create: "Store_Create e s tab data w = (w', out) \<Longrightarrow> tab \<in> {''nodes'', ''invoices''} \<Longrightarrow> R w w'"
    and listing: "Store_List e s tab fs pg w = (w', lst) \<Longrightarrow> fs = [] \<or> tab = ''deployments'' \<and> fs = running_filter \<Longrightarrow> R w w'"
begin

lemma world_and_then:
  assumes "R w (fst t)" "\<And>w1 err. R w1 (f w1 err)" "\<And>w1 x. R w1 (g w1 x)"
  shows "R w (case t of (w, Inl err) \<Rightarrow> f w err | (w, Inr x) \<Rightarrow> g w x)"
  using assms by (cases t; cases "snd t") (auto intro: trans)

lemma world_after: "R w w1 \<Longrightarrow> R w1 (f w1) \<Longrightarrow> R w (let w = w1 in f w)"
  by (auto simp: Let_def intro: trans)

lemma world_option: "R w a \<Longrightarrow> (\<And>y. R w (f y)) \<Longrightarrow> R w (case x of None \<Rightarrow> a | Some y \<Rightarrow> f y)"
  by (cases x) auto

lemma world_sum: "(\<And>a. R w (f a)) \<Longrightarrow> (\<And>b. R w (g b)) \<Longrightarrow> R w (case x of Inl a \<Rightarrow> f a | Inr b \<Rightarrow> g b)"
  by (cases x) auto

lemma world_if: "R w a \<Longrightarrow> R w b \<Longrightarrow> R w (if c then a else b)"
  by simp

lemma world_pair: "(\<And>a b. R w (f a b)) \<Longrightarrow> R w (case t of (a, b) \<Rightarrow> f a b)"
  by (cases t) auto

lemma world_fold: "(\<And>x w. R w (f x w)) \<Longrightarrow> R w (fold f xs w)"
  by (induction xs arbitrary: w) (auto intro: trans)

lemma ticked: "R (tick w) w' \<Longrightarrow> R w w'"
  using trans [OF same, of "tick w" w] by simp

lemma tick_step: "R w (tick w)"
  by (rule same) simp

lemmas world_steps = world_and_then world_option world_sum world_if refl

lemma other_fst:
  "tab \<in> {''nodes'', ''invoices''} \<Longrightarrow> R w (fst (Store_Update e s tab refID data w))"
  "tab \<in> {''nodes'', ''invoices''} \<Longrightarrow> R w (fst (Store_Create e s tab data w))"
  by (rule other_update [OF surjective_pairing] other_create [OF surjective_pairing]; assumption)+

lemma list_fst: "fs = [] \<or> tab = ''deployments'' \<and> fs = running_filter \<Longrightarrow> R w (fst (Store_List e s tab fs pg w))"
  by (rule listing [OF surjective_pairing])

lemma provision_update:
  "dom data \<subseteq> handler_cols \<Longrightarrow> R w (fst (Store_Update e s ''cloud_provisions'' refID data w))"
  by (rule update_fst [OF in_tables(2)])

lemma fail_worker: "R w (worker_failProvision e s refID reason w)"
  unfolding worker_failProvision_def
  by (rule world_after provision_update moves(2) | simp add: handler_cols_def)+

lemma check_node: "R w (CheckNode e s wd n w)"
  by (auto simp: CheckNode_def split: option.splits intro: ticked [OF other_fst(1)])

lemma check_loop: "R w (check_loop e s wd nodes w)"
  by (induction nodes arbitrary: w) (auto intro: trans check_node)

lemma check_all: "R w (checkAll e s wd w)"
  unfolding checkAll_def by (rule world_and_then list_fst world_steps check_loop | simp)+

lemma public_key: "R w (fst (provision_public_key e s row w))"
  unfolding provision_public_key_def Let_def by (rule steps)+

lemma node_key: "R w (fst (node_ssh_key e s row w))"
  unfolding node_ssh_key_def Let_def by (rule steps)+

lemma step_create: "R w (stepCreate e s wd row w)"
  unfolding stepCreate_def Let_def [of "strVal _"] Let_def [of "w_tick _"]
  by (rule world_steps fail_worker public_key world_after log_step world_pair
      provision_update moves(2) | simp add: handler_cols_def)+

lemma step_configure: "R w (stepConfigure e s row w)"
  unfolding stepConfigure_def Let_def [of "strVal _"]
  by (rule world_after provision_update moves(2) | simp add: handler_cols_def)+

lemma step_finalize: "R w (stepFinalize e s wd row w)"
  unfolding stepFinalize_def Let_def [of "strVal _"]
  by (rule world_if fail_worker world_option ticked [OF provision_update] world_and_then ticked [OF node_key]
      other_fst world_after provision_update moves(2) | simp add: handler_cols_def)+

lemma step_destroy: "R w (stepDestroy e s wd row w)"
  unfolding stepDestroy_def Let_def [of "strVal _"]
  by (rule world_steps fail_worker world_after log_step moves(2))+

lemma provision_step: "R w (provision_step e s wd row w)"
  unfolding provision_step_def Let_def by (rule world_if step_create step_configure step_finalize step_destroy refl)+

lemma run_cycle: "R w (runCycle e s wd w)"
  unfolding runCycle_def by (rule world_option tick_step ticked [OF world_fold] provision_step)+

lemma check_domains: "R w (checkDomains e s w)"
  unfolding checkDomains_def by (rule list_fst) (simp add: running_filter_def)

lemma template_price: "R w (fst (template_price e s d w))"
  unfolding template_price_def
  by (auto split: option.splits prod.splits sum.splits intro: get_id_step)

lemma bill_loop: "R w (fst (bill_loop e s label ds bills w))"
proof (induction ds arbitrary: bills w)
  case (Cons d ds)
  obtain w1 p n where t: "template_price e s d w = (w1, p, n)" by (cases "template_price e s d w")
  then have "R w w1" using template_price [of w d] by simp
  then show ?case using Cons t by (auto simp: Let_def intro: trans)
qed simp

lemma invoice_step: "R w (invoice_step e s wd ym ex bills uid w)"
  unfolding invoice_step_def by (rule world_option world_if refl other_fst | simp)+

lemma generate_all: "R w (generateAll e s wd w)"
proof -
  have bills: "R w (case bill_loop e s lbl ds [] w of (w1, bills) \<Rightarrow> g w1 bills)" if "\<And>w1 b. R w1 (g w1 b)" for w lbl ds g
    using that bill_loop [of w lbl ds "[]"] by (auto split: prod.splits intro: trans)
  show ?thesis
    unfolding generateAll_def Let_def
    by (rule world_and_then list_fst refl world_if bills world_fold invoice_step | simp add: running_filter_def)+
qed

end

section \<open>The life cycles under commands and workers\<close>

definition worker_frame :: "world \<Rightarrow> world \<Rightarrow> bool" where
  "worker_frame w w' \<longleftrightarrow>
     (\<forall>tab \<in> {''templates'', ''users'', ''ssh_keys'', ''cloud_credentials''}. w_tables w' tab = w_tables w tab)
     \<and> (\<exists>rs. w_tables w' ''usage_events'' = w_tables w ''usage_events'' @ rs)"

definition system_life :: "Env \<Rightarrow> Store \<Rightarrow> world \<Rightarrow> world \<Rightarrow> bool" where
  "system_life e s w w' \<longleftrightarrow> engine_life e s w w' \<and> (engine_env e s \<longrightarrow> worker_frame w w')"

lemma worker_frame_table: "table_frame w w' \<Longrightarrow> worker_frame w w'"
  unfolding table_frame_def worker_frame_def machine_tables_def event_tables_def by auto

lemma worker_frame_trans: "worker_frame w1 w2 \<Longrightarrow> worker_frame w2 w3 \<Longrightarrow> worker_frame w1 w3"
  by (auto simp: worker_frame_def)

text \<open>An operation on one table with no life cycle.\<close>

lemma system_life_other:
  assumes "\<And>tab'. tab' \<noteq> tab \<Longrightarrow> w_tables w' tab' = w_tables w tab'" "tab \<in> {''nodes'', ''invoices''}"
  shows "system_life e s w w'"
proof -
  have t: "w_tables w' tab' = w_tables w tab'" if "tab' \<notin> {''nodes'', ''invoices''}" for tab'
    using assms that by auto
  have "rows_related e tab' (row_life sm) w w'" if "tab' \<notin> {''nodes'', ''invoices''}" for tab' sm
    using t [OF that] by (intro rows_related_same) auto
  moreover have "worker_frame w w'" by (simp add: worker_frame_def t)
  ultimately show ?thesis by (simp add: system_life_def engine_life_def)
qed

lemma system_life_same: "w_tables w' = w_tables w \<Longrightarrow> system_life e s w w'"
  by (rule system_life_other [of "''nodes''"]) simp_all

interpretation sys: worker_order e s "system_life e s" for e s
proof
  fix w w' :: world assume "w_tables w' = w_tables w"
  then show "system_life e s w w'" by (rule system_life_same)
next
  fix w1 w2 w3 :: world assume "system_life e s w1 w2" "system_life e s w2 w3"
  then show "system_life e s w1 w3"
    using life.trans [of e s w1 w2 w3] worker_frame_trans [of w1 w2 w3] by (auto simp: system_life_def)
next
  fix tab refID data out and w w' :: world
  assume a: "Store_Update e s tab refID data w = (w', out)" "tab \<in> machine_tables" "dom data \<subseteq> handler_cols"
  show "system_life e s w w'"
    using life.update [OF a] frame.update [OF a] by (simp add: system_life_def worker_frame_table)
next
  fix tab refID to out and w w' :: world
  assume a: "Store_Transition e s tab refID to w = (w', out)" "tab \<in> machine_tables"
  show "system_life e s w w'"
    using life.transition [OF a] frame.transition [OF a] by (simp add: system_life_def worker_frame_table)
next
  fix tab r out and w w' :: world assume a: "db_insert e tab r w = (w', out)" "tab \<in> event_tables"
  show "system_life e s w w'"
    using life.event [OF a] frame.event [OF a] by (simp add: system_life_def worker_frame_table)
next
  fix refID err and w w' :: world assume a: "Store_Delete e s ''nodes'' refID w = (w', err)"
  show "system_life e s w w'"
    using life.node [OF a] frame.node [OF a] by (simp add: system_life_def worker_frame_table)
next
  fix tab refID data out and w w' :: world
  assume "Store_Update e s tab refID data w = (w', out)" "tab \<in> {''nodes'', ''invoices''}"
  then show "system_life e s w w'" by (intro system_life_other [of tab]) (auto dest: Store_Update_other)
next
  fix tab data out and w w' :: world
  assume "Store_Create e s tab data w = (w', out)" "tab \<in> {''nodes'', ''invoices''}"
  then show "system_life e s w w'" by (intro system_life_other [of tab]) (auto dest: Store_Create_other)
next
  fix tab fs pg out and w w' :: world
  assume a: "Store_List e s tab fs pg w = (w', out)" "fs = [] \<or> tab = ''deployments'' \<and> fs = running_filter"
  have "w_tables w' = w_tables w" if "engine_env e s"
  proof (cases "st_schema s tab")
    case None
    then show ?thesis using a(1) by (auto simp: Store_List_def)
  next
    case (Some res)
    then have "list_all (\<lambda>f. flt_Field f \<in> set (selectColumns res)) fs"
      using a(2) that by (auto simp: engine_env_def running_filter_def selectColumns_def DeploymentResource_def field_builder_defs)
    then show ?thesis by (rule Store_List_known [OF a(1) Some])
  qed
  then show "system_life e s w w'"
    using system_life_same [of w' w e s] by (auto simp: system_life_def engine_life_def)
qed

text \<open>One step of the running system: an engine operation or one round of a worker.\<close>

datatype system_op =
    EngineOp engine_op | HealthRound | NodeCheck string | ProvisionRound | DomainRound | InvoiceRound

fun system_step :: "Env \<Rightarrow> Store \<Rightarrow> Deps \<Rightarrow> WorkerDeps \<Rightarrow> system_op \<Rightarrow> world \<Rightarrow> world" where
  "system_step e s d wd (EngineOp op) w = engine_step e s d op w"
| "system_step e s d wd HealthRound w = checkAll e s wd w"
| "system_step e s d wd (NodeCheck n) w = CheckNode e s wd n w"
| "system_step e s d wd ProvisionRound w = runCycle e s wd w"
| "system_step e s d wd DomainRound w = checkDomains e s w"
| "system_step e s d wd InvoiceRound w = generateAll e s wd w"

definition run_system :: "Env \<Rightarrow> Store \<Rightarrow> Deps \<Rightarrow> WorkerDeps \<Rightarrow> system_op list \<Rightarrow> world \<Rightarrow> world" where
  "run_system e s d wd ops w = fold (system_step e s d wd) ops w"

lemma run_system_life: "system_life e s w (run_system e s d wd ops w)"
  unfolding run_system_def
proof (rule sys.world_fold)
  fix op and w :: world
  show "system_life e s w (system_step e s d wd op w)"
    by (cases op) (simp_all add: sys.step sys.check_all sys.check_node sys.run_cycle sys.check_domains sys.generate_all)
qed


section \<open>Invoices\<close>

lemma add_item_map:
  "map_of (add_item uid item bills) = (map_of bills)(uid \<mapsto>
     (let bill = (case map_of bills uid of None \<Rightarrow> \<lparr>ub_items = [], ub_totalCents = 0\<rparr> | Some b \<Rightarrow> b)
      in bill\<lparr>ub_items := ub_items bill @ [item], ub_totalCents := wrap64 (ub_totalCents bill + li_MonthlyCents item)\<rparr>))"
  by (simp add: add_item_def Let_def update_conv')

text \<open>The bill of one owner, as it should be: one item for each deployment, and the sum of their prices.\<close>

definition owner_items :: "Env \<Rightarrow> Store \<Rightarrow> string \<Rightarrow> world \<Rightarrow> row list \<Rightarrow> int \<Rightarrow> lineItem list" where
  "owner_items e s label w ds uid =
     map (\<lambda>d. case snd (template_price e s d w) of (price, name) \<Rightarrow> line_item label d price name)
       (filter (\<lambda>d. int64_or0 (row_get d ''customer_id'') = uid) ds)"

definition bill_of :: "lineItem list \<Rightarrow> userBill option" where
  "bill_of items = (if items = [] then None
     else Some \<lparr>ub_items = items, ub_totalCents = wrap64 (sum_list (map li_MonthlyCents items))\<rparr>)"

lemma wrap64_add: "wrap64 (wrap64 a + b) = wrap64 (a + b)"
proof -
  have "wrap64 a + b + 2 ^ 63 = (a + 2 ^ 63) mod 2 ^ 64 + b" by (simp add: wrap64_def)
  then have "wrap64 (wrap64 a + b) = ((a + 2 ^ 63) mod 2 ^ 64 + b) mod 2 ^ 64 - 2 ^ 63"
    by (simp only: wrap64_def [of "wrap64 a + b"])
  also have "\<dots> = (a + 2 ^ 63 + b) mod 2 ^ 64 - 2 ^ 63" by (simp only: mod_add_left_eq)
  finally show ?thesis by (simp add: wrap64_def ac_simps)
qed

lemma bill_of_snoc:
  "bill_of (xs @ [x]) = Some (let bill = (case bill_of xs of None \<Rightarrow> \<lparr>ub_items = [], ub_totalCents = 0\<rparr> | Some b \<Rightarrow> b)
      in bill\<lparr>ub_items := ub_items bill @ [x], ub_totalCents := wrap64 (ub_totalCents bill + li_MonthlyCents x)\<rparr>)"
  by (auto simp: bill_of_def Let_def wrap64_add)

lemma template_price_world:
  assumes "\<And>t st. env_fail e t st = None" "w_tables w1 = w_tables w"
  shows "snd (template_price e s d w1) = snd (template_price e s d w) \<and> w_tables (fst (template_price e s d w1)) = w_tables w"
  using assms
  by (auto simp: template_price_def Store_GetByID_def query_row_result split: option.splits prod.splits sum.splits list.splits)

lemma bill_loop_result:
  assumes ok: "\<And>t st. env_fail e t st = None"
  shows "bill_loop e s label ds bills w1 = (w', bills') \<Longrightarrow> w_tables w1 = w_tables w \<Longrightarrow>
    (\<And>uid. uid \<noteq> 0 \<Longrightarrow> map_of bills uid = bill_of (its uid)) \<Longrightarrow> map_of bills 0 = None \<Longrightarrow>
    w_tables w' = w_tables w \<and> map_of bills' 0 = None
    \<and> (\<forall>uid. uid \<noteq> 0 \<longrightarrow> map_of bills' uid = bill_of (its uid @ owner_items e s label w ds uid))"
proof (induction ds arbitrary: bills w1 its)
  case Nil
  then show ?case by (simp add: owner_items_def)
next
  case (Cons d ds)
  let ?o = "int64_or0 (row_get d ''customer_id'')"
  show ?case
  proof (cases "?o = 0")
    case True
    then have "bill_loop e s label ds bills w1 = (w', bills')" using Cons.prems(1) by simp
    from Cons.IH [OF this Cons.prems(2-4)] True show ?thesis by (auto simp: owner_items_def)
  next
    case False
    obtain w2 p n where t: "template_price e s d w1 = (w2, p, n)" by (cases "template_price e s d w1")
    have t': "snd (template_price e s d w) = (p, n)" "w_tables w2 = w_tables w"
      using template_price_world [OF ok Cons.prems(2), of s d] t by auto
    let ?item = "line_item label d p n"
    let ?its = "its(?o := its ?o @ [?item])"
    have b: "bill_loop e s label ds (add_item ?o ?item bills) w2 = (w', bills')"
      using Cons.prems(1) False t by (simp add: Let_def)
    have m: "map_of (add_item ?o ?item bills) uid = bill_of (?its uid)" if "uid \<noteq> 0" for uid
      using Cons.prems(3) [OF that] by (auto simp: add_item_map bill_of_snoc)
    have z: "map_of (add_item ?o ?item bills) 0 = None" using Cons.prems(4) False by (simp add: add_item_map)
    from Cons.IH [OF b t'(2) m z] t'(1) show ?thesis by (auto simp: owner_items_def)
  qed
qed

text \<open>
  C16: The invoice generator bills exactly. When the database answers, the bills it computes from the
  list of running deployments are, for each owner, one line item per deployment of that owner, in
  the order of the list, priced by the template, with the 64-bit sum of the prices as total; an
  owner without a deployment has no bill, and deployments without an owner are left out.
\<close>

theorem bills_by_owner:
  assumes "\<And>t st. env_fail e t st = None" and "bill_loop e s label ds [] w = (w', bills)"
  shows "map_of bills uid = (if uid = 0 then None else bill_of (owner_items e s label w ds uid))
    \<and> w_tables w' = w_tables w"
  using bill_loop_result [OF assms, of w "\<lambda>_. []"] by (simp add: bill_of_def)

subsection \<open>Settled invoices\<close>

lemma bill_loop_tables: "w_tables (fst (bill_loop e s label ds bills w)) = w_tables w"
proof (induction ds arbitrary: bills w)
  case (Cons d ds)
  have "w_tables (fst (template_price e s d w)) = w_tables w"
    by (auto simp: template_price_def split: option.splits prod.splits sum.splits dest: Store_GetByID_tables)
  then show ?case using Cons by (auto simp: Let_def split: prod.splits)
qed simp

lemma existing_by_user_member: "existing_by_user wd ym ivcs uid = Some ivc \<Longrightarrow> ivc \<in> set ivcs"
proof -
  have "foldl (existing_step wd ym) m ivcs uid = Some ivc \<Longrightarrow> m uid = Some ivc \<or> ivc \<in> set ivcs" for m
  proof (induction ivcs arbitrary: m)
    case (Cons x xs)
    then have "existing_step wd ym m x uid = Some ivc \<or> ivc \<in> set xs" by simp
    then show ?case by (auto simp: existing_step_def Let_def split: if_splits option.splits)
  qed simp
  then show "existing_by_user wd ym ivcs uid = Some ivc \<Longrightarrow> ivc \<in> set ivcs"
    by (auto simp: existing_by_user_def)
qed

lemma Store_Create_appends: "Store_Create e s tab data w = (w', out) \<Longrightarrow> \<exists>rs. w_tables w' tab = w_tables w tab @ rs"
  by (auto simp: Store_Create_def Let_def db_insert_def split: option.splits sum.splits prod.splits if_splits)

lemma create_keeps_row:
  assumes "Store_Create e s tab data w = (w', out)" "find_row e tab ref w = Some r"
  shows "find_row e tab ref w' = Some r"
proof -
  obtain rs where "w_tables w' tab = w_tables w tab @ rs" using Store_Create_appends [OF assms(1)] by blast
  moreover have "find P (xs @ ys) = (case find P xs of None \<Rightarrow> find P ys | Some x \<Rightarrow> Some x)" for P :: "row \<Rightarrow> bool" and xs ys
    by (induction xs) auto
  ultimately show ?thesis using assms(2) by (simp add: find_row_def)
qed

lemma invoice_step_keeps:
  assumes tc: "text_conv e ''invoices'' ''reference_id''"
    and ex: "\<And>x. ex uid = Some x \<Longrightarrow> settled x \<or> strVal (row_get x ''reference_id'') \<noteq> ref"
    and r: "find_row e ''invoices'' ref w = Some r"
  shows "find_row e ''invoices'' ref (invoice_step e s wd ym ex bills uid w) = Some r"
    "tab \<noteq> ''invoices'' \<Longrightarrow> w_tables (invoice_step e s wd ym ex bills uid w) tab = w_tables w tab"
proof -
  have up: "find_row e ''invoices'' ref (fst (Store_Update e s ''invoices'' ref' data w)) = Some r" if "ref' \<noteq> ref" for ref' data
    using only_row_update [where s = s and ref = ref' and data = data and w = w, OF surjective_pairing tc] that r
    by (simp add: only_row_def)
  have cr: "find_row e ''invoices'' ref (fst (Store_Create e s ''invoices'' data w)) = Some r" for data
    by (rule create_keeps_row [OF surjective_pairing r])
  show "find_row e ''invoices'' ref (invoice_step e s wd ym ex bills uid w) = Some r"
    using up cr r ex by (auto simp: invoice_step_def split: option.splits)
  show "w_tables (invoice_step e s wd ym ex bills uid w) tab = w_tables w tab" if "tab \<noteq> ''invoices''"
    using that Store_Update_other [OF surjective_pairing] Store_Create_other [OF surjective_pairing]
    by (auto simp: invoice_step_def split: option.splits)
qed

lemma invoice_steps_keep:
  assumes tc: "text_conv e ''invoices'' ''reference_id''"
    and ex: "\<And>uid x. ex uid = Some x \<Longrightarrow> settled x \<or> strVal (row_get x ''reference_id'') \<noteq> ref"
    and r: "find_row e ''invoices'' ref w = Some r"
  shows "find_row e ''invoices'' ref (fold (invoice_step e s wd ym ex bills) uids w) = Some r
    \<and> (\<forall>tab. tab \<noteq> ''invoices'' \<longrightarrow> w_tables (fold (invoice_step e s wd ym ex bills) uids w) tab = w_tables w tab)"
  using r
proof (induction uids arbitrary: w)
  case (Cons uid uids)
  have r1: "find_row e ''invoices'' ref (invoice_step e s wd ym ex bills uid w) = Some r"
    by (rule invoice_step_keeps [OF tc ex Cons.prems])
  have "w_tables (invoice_step e s wd ym ex bills uid w) tab = w_tables w tab" if "tab \<noteq> ''invoices''" for tab
    by (rule invoice_step_keeps(2) [OF tc ex Cons.prems that])
  then show ?case using Cons.IH [OF r1] by simp
qed simp

text \<open>
  C15: A round of the invoice generator never changes an invoice that is paid or in payment, whatever
  the database answers, whatever the deployments and their prices are and in whatever order the bills
  are visited, and it changes no other table. (References of invoices are unique.)
\<close>

theorem settled_invoices_kept:
  assumes sch: "st_schema s ''invoices'' = Some InvoiceResource" "st_schema s ''deployments'' = Some DeploymentResource"
    and tc: "text_conv e ''invoices'' ''reference_id''"
    and uniq: "distinct (map (\<lambda>r. strVal (row_get r ''reference_id'')) (w_tables w ''invoices''))"
    and ivc: "find_row e ''invoices'' ref w = Some ivc" "strVal (row_get ivc ''status'') \<in> {''paid'', ''pending''}"
    and run: "w' = generateAll e s wd w"
  shows "find_row e ''invoices'' ref w' = Some ivc \<and> (\<forall>tab. tab \<noteq> ''invoices'' \<longrightarrow> w_tables w' tab = w_tables w tab)"
proof -
  let ?pg = "\<lparr>pg_Limit = 1000, pg_Offset = 0\<rparr>" and ?ym = "wd_today wd (w_tick w)"
  let ?f = "[\<lparr>flt_Field = ''status'', flt_Value = GStr ''running''\<rparr>]"
  obtain w1 l1 where l1: "Store_List e s ''deployments'' ?f ?pg w = (w1, l1)" by fastforce
  have t1: "w_tables w1 = w_tables w"
    by (rule Store_List_known [OF l1 sch(2)]) (simp add: selectColumns_def DeploymentResource_def field_builder_defs)
  show ?thesis
  proof (cases "\<exists>ds. l1 = Inr ds \<and> ds \<noteq> []")
    case False
    then have "w' = w1" using run l1 by (cases l1) (auto simp: generateAll_def)
    then show ?thesis using t1 ivc by (simp add: find_row_def)
  next
    case True
    then obtain ds where ds: "l1 = Inr ds" "ds \<noteq> []" by blast
    obtain w2 bills where b: "bill_loop e s (month_label ?ym) ds [] w1 = (w2, bills)" by fastforce
    obtain w3 l3 where l3: "Store_List e s ''invoices'' [] ?pg w2 = (w3, l3)" by fastforce
    have t3: "w_tables w3 = w_tables w" "w_tables w2 = w_tables w"
      using Store_List_known [OF l3 sch(1)] bill_loop_tables [of e s "month_label ?ym" ds "[]" w1] b t1 by auto
    show ?thesis
    proof (cases l3)
      case (Inl err)
      then have "w' = w3" using run l1 ds b l3 by (simp add: generateAll_def)
      then show ?thesis using t3 ivc by (simp add: find_row_def)
    next
      case (Inr ivcs)
      let ?ex = "existing_by_user wd (year_month ?ym) ivcs"
      have w': "w' = fold (invoice_step e s wd ?ym ?ex bills) (wd_range wd (w_tick w3) (map fst bills)) w3"
        using run l1 ds b l3 Inr by (simp add: generateAll_def Let_def)
      have "settled x \<or> strVal (row_get x ''reference_id'') \<noteq> ref" if x: "?ex uid = Some x" for uid x
      proof (rule disjCI)
        assume "\<not> strVal (row_get x ''reference_id'') \<noteq> ref"
        moreover obtain raw where raw: "raw \<in> set (w_tables w ''invoices'')"
          "x = decodeRow e InvoiceResource (project (selectColumns InvoiceResource) raw)"
          using existing_by_user_member [OF x] l3 Inr sch(1) t3(2)
          by (auto simp: Store_List_def db_select_def paginate_def Let_def where_ok_def
              dest!: in_set_takeD in_set_dropD split: prod.splits sum.splits option.splits)
        moreover have "ivc \<in> set (w_tables w ''invoices'')" "strVal (row_get ivc ''reference_id'') = ref"
          using ivc(1) by (auto simp: find_row_def find_Some_iff by_ref_iff [OF tc] text_conv_strVal [OF tc])
        ultimately have "raw = ivc" using uniq by (auto simp: invoice_decode distinct_map inj_on_def)
        then show "settled x" using ivc(2) raw(2) by (auto simp: settled_def invoice_decode)
      qed
      moreover have "find_row e ''invoices'' ref w3 = Some ivc" using ivc(1) t3 by (simp add: find_row_def)
      ultimately show ?thesis
        using invoice_steps_keep [OF tc, where ex = ?ex and ref = ref and w = w3] t3 unfolding w' by metis
    qed
  qed
qed

section \<open>Provisioned nodes\<close>

lemma update_keeps_state:
  assumes mc: "machine_col e tab res sm" and r: "find_row e tab ref w = Some r" and dt: "data (sm_Field sm) = None"
  shows "\<exists>r'. find_row e tab ref (fst (Store_Update e s tab ref data w)) = Some r' \<and> col_state sm r' = col_state sm r"
proof -
  have tc: "text_conv e tab ''reference_id''" using mc by (simp add: machine_col_def)
  from Store_Update_rows [where s = s and data = data and refID = ref and w = w, OF surjective_pairing tc,
      unfolded rows_related_def, THEN spec, of ref]
  obtain r' where "find_row e tab ref (fst (Store_Update e s tab ref data w)) = Some r'"
    "agree_outside (insert ''updated_at'' (dom data)) r r'" unfolding r option_rel_Some1 by blast
  moreover from this(2) have "row_get r' (sm_Field sm) = row_get r (sm_Field sm)"
    by (rule agree_outside_col) (use mc dt in \<open>auto simp: machine_col_def std_cols_def domIff\<close>)
  ultimately show ?thesis by (simp add: col_state_def)
qed

lemma transition_state:
  assumes sch: "st_schema s tab = Some res" and mc: "machine_col e tab res sm" and r: "find_row e tab ref w = Some r"
  shows "\<exists>r'. find_row e tab ref (fst (Store_Transition e s tab ref to w)) = Some r' \<and> col_state sm r' \<in> {col_state sm r, to}"
proof -
  obtain w' out where t: "Store_Transition e s tab ref to w = (w', out)" by fastforce
  have "\<exists>r'. find_row e tab ref w' = Some r' \<and> col_state sm r' \<in> {col_state sm r, to}"
    using t sch mc
  proof (cases rule: Store_Transition_cases)
    case (same err)
    then show ?thesis using r by (simp add: find_row_def)
  next
    case (moved r1 tt)
    then show ?thesis using r find_row_moved [OF mc moved(4)] col_state_moved [OF mc, of tt to r] by simp
  qed
  then show ?thesis using t by simp
qed

lemma update_then_transition_state:
  assumes sch: "st_schema s tab = Some res" and mc: "machine_col e tab res sm" and r: "find_row e tab ref w = Some r"
    and dt: "data (sm_Field sm) = None"
  shows "\<exists>r'. find_row e tab ref (fst (Store_Transition e s tab ref to (fst (Store_Update e s tab ref data w)))) = Some r'
    \<and> col_state sm r' \<in> {col_state sm r, to}"
  using update_keeps_state [where s = s and data = data, OF mc r] dt transition_state [OF sch mc] by metis

lemma node_raw_cols: "raw_col NodeResource ''provision_id''" "raw_col NodeResource ''ssh_host''" "raw_col NodeResource ''creator_id''"
  by (simp_all add: raw_col_def NodeResource_def field_builder_defs std_cols_def)

lemma node_data_cols:
  "node_data row k ''provision_id'' = Some (GStr (strVal (row_get row ''reference_id'')))"
  "node_data row k ''ssh_host'' = Some (GStr (strVal (row_get row ''public_ip'')))"
  "node_data row k ''creator_id'' = Some (GInt (int64_or0 (row_get row ''creator_id'')))"
  by (simp_all add: node_data_def Let_def split: option.splits)

lemma node_fields_ok: "fields_ok NodeResource"
  by (rule schema_fields_ok [where uni = "\<lambda>s. s"]) (simp add: Schema_def)

lemma stepFinalize_cases:
  fixes w :: world and row :: row
  defines "ref \<equiv> strVal (row_get row ''reference_id'')" and "host \<equiv> strVal (row_get row ''public_ip'') @ '':22''"
  obtains (failed) w1 reason where "w_tables w1 ''cloud_provisions'' = w_tables w ''cloud_provisions''"
      "stepFinalize e s wd row w = worker_failProvision e s ref reason w1"
  | (waiting) "stepFinalize e s wd row w
      = fst (Store_Update e s ''cloud_provisions'' ref [''current_step'' \<mapsto> GStr ''waiting_for_ssh''] (tick w))"
  | (ready) kid w1 w2 nodeRow data where "\<not> ssh_overdue e wd (w_tick w) row" "wd_Dial wd (w_tick w) host = None"
      "w_tables w1 = w_tables w" "Store_Create e s ''nodes'' (node_data row kid) w1 = (w2, Inr nodeRow)"
      "stepFinalize e s wd row w = fst (Store_Transition e s ''cloud_provisions'' ref ''ready''
         (fst (Store_Update e s ''cloud_provisions'' ref data w2)))"
proof -
  obtain w1 k where k: "node_ssh_key e s row (tick w) = (w1, k)" by fastforce
  have t1: "w_tables w1 = w_tables w"
    using k by (auto simp: node_ssh_key_def Let_def split: if_splits prod.splits sum.splits dest: Store_Get_tables)
  consider "ssh_overdue e wd (w_tick w) row"
    | err where "\<not> ssh_overdue e wd (w_tick w) row" "wd_Dial wd (w_tick w) host = Some err"
    | "\<not> ssh_overdue e wd (w_tick w) row" "wd_Dial wd (w_tick w) host = None" by fastforce
  then show ?thesis
  proof cases
    case 1
    then show ?thesis by (intro failed [of w]) (simp_all add: stepFinalize_def ref_def)
  next
    case 2
    then show ?thesis by (intro waiting) (simp add: stepFinalize_def ref_def host_def)
  next
    case 3
    note go = 3 [unfolded host_def]
    show ?thesis
    proof (cases k)
      case (Inl err)
      then show ?thesis using go k t1 by (intro failed [of w1]) (simp_all add: stepFinalize_def ref_def)
    next
      case (Inr kid)
      obtain w2 c where c: "Store_Create e s ''nodes'' (node_data row kid) w1 = (w2, c)" by fastforce
      show ?thesis
      proof (cases c)
        case (Inl err)
        then show ?thesis
          using go k Inr c t1 Store_Create_other [OF c, of "''cloud_provisions''"]
          by (intro failed [of w2]) (simp_all add: stepFinalize_def ref_def)
      next
        case (Inr nodeRow)
        then show ?thesis
          using go k \<open>k = Inr kid\<close> c t1 3 by (intro ready [of w1 kid w2 nodeRow]) (simp_all add: stepFinalize_def ref_def Let_def)
      qed
    qed
  qed
qed


section \<open>Examples\<close>

definition demo_workers :: WorkerDeps where
  "demo_workers = \<lparr>wd_PingNode = Some (\<lambda>_ _. None), wd_encryptionKey = [], wd_open = tag_open,
     wd_NewProvider = (\<lambda>_ _. None), wd_CreateInstance = (\<lambda>_ _ _ _ _ _. Inr (''i-1'', ''203.0.113.7'')),
     wd_Dial = (\<lambda>_ _. None), wd_time = (\<lambda>_. 0), wd_today = (\<lambda>_. (2026, 2)), wd_FormatYM = (\<lambda>_. []),
     wd_MarshalItems = (\<lambda>_. ''[]''), wd_range = (\<lambda>_ ks. ks)\<rparr>"


theorem bills_by_owner_witness:
  "map (\<lambda>i. li_DeploymentID i) (case map_of (snd (bill_loop demo_env life_store ''Feb 2026''
        [demo_deployment ''d1'' ''running'' GNil, demo_deployment ''d2'' ''running'' GNil] [] demo_world)) 7 of
      Some b \<Rightarrow> ub_items b | None \<Rightarrow> []) = [''d1'', ''d2'']"
proof -
  let ?ds = "[demo_deployment ''d1'' ''running'' GNil, demo_deployment ''d2'' ''running'' GNil]"
  have o: "int64_or0 (row_get (demo_deployment x ''running'' GNil) ''customer_id'') = 7"
    "strVal (row_get (demo_deployment x ''running'' GNil) ''reference_id'') = x" for x
    by (simp_all add: demo_deployment_def row_get_def int64_or0_def toInt64_def strVal_def)
  show ?thesis
    using bills_by_owner [OF demo_nofail surjective_pairing, of life_store "''Feb 2026''" ?ds demo_world 7]
    by (simp add: owner_items_def bill_of_def o line_item_def Let_def split: prod.splits)
qed

definition settled_world :: world where
  "settled_world = pending_world\<lparr>w_tables := (w_tables pending_world)
     (''deployments'' := [demo_deployment ''d1'' ''running'' GNil])\<rparr>"

theorem settled_invoices_kept_witness:
  "find_row demo_env ''invoices'' ''inv_1'' (generateAll demo_env full_store demo_workers settled_world) = Some pending_invoice"
proof -
  have "find_row demo_env ''invoices'' ''inv_1'' settled_world = Some pending_invoice"
    "w_tables settled_world ''invoices'' = [pending_invoice]"
    using pending_row by (simp_all add: settled_world_def find_row_def)
  moreover have "st_schema full_store ''invoices'' = Some InvoiceResource" "st_schema full_store ''deployments'' = Some DeploymentResource"
    using billing_store schema_names(2) [OF full_store_app] by (simp_all add: billing_setup_def demo_setup_def)
  ultimately show ?thesis
    using settled_invoices_kept [OF _ _ demo_text_conv _ _ _ refl, of full_store settled_world "''inv_1''" pending_invoice demo_workers]
      pending_row(4) by simp
qed

text \<open>A job whose instance answers becomes ready, with its node.\<close>

definition configuring_row :: row where
  "configuring_row = [''id'' \<mapsto> GInt64 1, ''reference_id'' \<mapsto> GStr ''prov_1'', ''creator_id'' \<mapsto> GInt64 7,
     ''status'' \<mapsto> GStr ''configuring'', ''instance_name'' \<mapsto> GStr ''worker-1'', ''public_ip'' \<mapsto> GStr ''203.0.113.7'']"

definition configuring_world :: world where
  "configuring_world = demo_world\<lparr>w_tables := (\<lambda>_. [])(''cloud_provisions'' := [configuring_row])\<rparr>"

lemma node_constraints_all:
  "list_all (\<lambda>f. \<not> fld_Encrypted f \<and> fld_Computed f = None
     \<and> (fld_Name f \<noteq> ''name'' \<longrightarrow> fld_MinLen f = None \<and> fld_MaxLen f = None)
     \<and> fld_Pattern f = None \<and> fld_MinInt f = None \<and> fld_MaxInt f = None
     \<and> (fld_Required f \<longrightarrow> fld_Name f \<in> {''name'', ''ssh_host'', ''ssh_user''})
     \<and> (fld_Type f = TypeJSON \<longrightarrow> fld_Name f = ''capabilities'' \<and> fld_DefaultValue f = GNil)
     \<and> (fld_Name f = ''capabilities'' \<longrightarrow> fld_DefaultValue f = GNil)
     \<and> (fld_Name f = ''name'' \<longrightarrow> f = WithMaxLen 100 (WithMinLen 3 (WithRequired (StringField ''name''))))) (rsc_Fields NodeResource)"
  by (simp add: NodeResource_def field_builder_defs)

lemmas node_constraints = bspec [OF node_constraints_all [unfolded list_all_iff]]

lemma prepare_node:
  assumes "c \<noteq> ''reference_id''" "data c = Some v \<or> c = ''capabilities'' \<and> data c = None"
  shows "prepare_create e NodeResource t data c = data c"
proof -
  have sm: "rsc_StateMachine NodeResource = None" by (simp add: NodeResource_def)
  have "apply_defaults (rsc_Fields NodeResource) d c = d c" if "d c = data c" for d
    using assms(2)
  proof
    assume "data c = Some v"
    then show ?thesis using that apply_defaults_keep [of d c v] by simp
  next
    assume "c = ''capabilities'' \<and> data c = None"
    then show ?thesis using node_constraints by (intro apply_defaults_absent) blast
  qed
  moreover have "apply_computed (rsc_Fields NodeResource) d c = d c" for d
    by (rule apply_computed_keep) (use node_constraints in blast)
  ultimately show ?thesis using assms(1) by (simp add: prepare_create_def Let_def apply_initial_def sm)
qed

lemma create_node_ok:
  assumes sch: "st_schema s ''nodes'' = Some NodeResource" and ok: "\<And>t st. env_fail e t st = None" and em: "w_tables w ''nodes'' = []"
    and name: "data ''name'' = Some (GStr n)" "3 \<le> length n" "length n \<le> 100"
    and host: "data ''ssh_host'' = Some (GStr h)" "h \<noteq> []" and user: "data ''ssh_user'' = Some (GStr u)" "u \<noteq> []"
    and cap: "data ''capabilities'' = None"
  shows "\<exists>w' row. Store_Create e s ''nodes'' data w = (w', Inr row)"
proof (rule Store_Create_ok [OF sch _ _ _ ok em])
  let ?p = "prepare_create e NodeResource (w_tick w) data"
  have p: "?p ''name'' = Some (GStr n)" "?p ''ssh_host'' = Some (GStr h)" "?p ''ssh_user'' = Some (GStr u)" "?p ''capabilities'' = None"
    using prepare_node [where data = data and t = "w_tick w" and e = e] name(1) host(1) user(1) cap by auto
  have "validate_field f ?p = None" if f: "f \<in> set (rsc_Fields NodeResource)" for f
  proof (cases "fld_Name f = ''name''")
    case True
    then have "f = WithMaxLen 100 (WithMinLen 3 (WithRequired (StringField ''name'')))" using node_constraints [OF f] by blast
    then show ?thesis
      using p(1) name by (auto simp: validate_field_def Let_def field_builder_defs row_get_def toInt64_def)
  next
    case False
    show ?thesis
      by (rule validate_unconstrained) (use node_constraints [OF f] False p host(2) user(2) in \<open>auto simp: row_get_def\<close>)
  qed
  then show "Store_validate NodeResource ?p = None" unfolding Store_validate_def by (rule validate_loop_None)
  show "list_all (\<lambda>f. \<not> fld_Encrypted f) (rsc_Fields NodeResource)" using node_constraints by (auto simp: list_all_iff)
  fix f assume f: "f \<in> set (rsc_Fields NodeResource)" "fld_Type f = TypeJSON"
  then have "fld_Name f = ''capabilities''" using node_constraints [OF f(1)] by blast
  then show "?p (fld_Name f) = None \<and> fld_Name f \<notin> set std_cols" using p(4) by (simp add: std_cols_def)
qed

lemma configuring_cols:
  "strVal (row_get configuring_row ''reference_id'') = ''prov_1''" "strVal (row_get configuring_row ''public_ip'') = ''203.0.113.7''"
  "strVal (row_get configuring_row ''ssh_key_id'') = []" "strVal (row_get configuring_row ''instance_name'') = ''worker-1''"
  "strVal (row_get configuring_row ''provider'') = []" "col_state provision_machine configuring_row = ''configuring''"
  "row_get configuring_row ''created_at'' = GNil" "int64_or0 (row_get configuring_row ''creator_id'') = 7"
  by (simp_all add: configuring_row_def row_get_def strVal_def col_state_def machine_status_field int64_or0_def toInt64_def)

lemma configuring_found: "find_row demo_env ''cloud_provisions'' ''prov_1'' configuring_world = Some configuring_row"
  by (simp add: find_row_def configuring_world_def where_ok_def by_ref_def sql_eq_def demo_env_def sqlite_conv_def
      configuring_row_def row_get_def)

lemma full_store_env: "engine_env demo_env full_store"
  using schema_names(2,6) [OF full_store_app] by (simp add: engine_env_def demo_text_conv)

lemma configuring_ready:
  "\<exists>r'. find_row demo_env ''cloud_provisions'' ''prov_1'' (stepFinalize demo_env full_store demo_workers configuring_row configuring_world)
      = Some r' \<and> col_state provision_machine r' = ''ready''"
proof -
  let ?w1 = "tick configuring_world" and ?P = "''cloud_provisions''"
  let ?data = "node_data configuring_row 0"
  have nodes: "st_schema full_store ''nodes'' = Some NodeResource"
    using app_storeD [OF full_store_app, of NodeResource] by (simp add: Schema_def resource_names)
  have sch: "st_schema full_store ?P = Some CloudProvisionResource" using schema_names(6) [OF full_store_app] .
  have d: "?data ''name'' = Some (GStr ''worker-1'')" "?data ''ssh_host'' = Some (GStr ''203.0.113.7'')"
    "?data ''ssh_user'' = Some (GStr ''root'')" "?data ''capabilities'' = None"
    by (simp_all add: node_data_def Let_def configuring_cols split: option.splits)
  obtain w2 nodeRow where c: "Store_Create demo_env full_store ''nodes'' ?data ?w1 = (w2, Inr nodeRow)"
    using create_node_ok [OF nodes demo_nofail _ d(1) _ _ d(2) _ d(3) _ d(4), of ?w1] by (auto simp: configuring_world_def)
  let ?u = "[''current_step'' \<mapsto> GStr ''ready'', ''completed_at'' \<mapsto> GStr (env_now demo_env (w_tick w2)),
      ''node_id'' \<mapsto> GStr (strVal (row_get nodeRow ''reference_id''))]"
  have eq: "stepFinalize demo_env full_store demo_workers configuring_row configuring_world
      = fst (Store_Transition demo_env full_store ?P ''prov_1'' ''ready'' (fst (Store_Update demo_env full_store ?P ''prov_1'' ?u w2)))"
    using c by (simp add: stepFinalize_def configuring_cols ssh_overdue_def demo_workers_def node_ssh_key_def Let_def)
  have "find_row demo_env ?P ''prov_1'' w2 = Some configuring_row"
    using configuring_found Store_Create_other [OF c, of ?P] by (simp add: find_row_def)
  moreover have "CanTransition provision_machine (col_state provision_machine configuring_row) ''ready''"
    unfolding configuring_cols by (simp add: CanTransition_def provision_machine_def)
  moreover have "sm_Guards provision_machine ''ready'' = None" by (simp add: provision_machine_def)
  ultimately show ?thesis
    unfolding eq
    using update_then_move [where data = ?u, OF sch provision_machine_col [OF demo_text_conv demo_text_conv] _ demo_nofail]
    by (simp add: machine_status_field)
qed


end
