(* ===== verification/Engine_Migrate.thy ===== *)
theory Engine_Migrate
  imports Engine_Store
begin

text \<open>
  Table creation (\<open>GenerateCreateSQL\<close> and \<open>sqlDefault\<close> of \<open>internal/engine/schema.go\<close>) and
  \<open>internal/engine/migrate.go\<close>: the statements that bring a database to the schema of the resources. The
  database answers each statement with an error or not, as an argument that sees the statements executed so far;
  the migration library is an argument as well.
\<close>

section \<open>Statements\<close>

text \<open>\<open>%f\<close> of a float and \<open>%v\<close> of any other value are arguments.\<close>

record sql_fmt =
  sf_float :: "float64 \<Rightarrow> string"
  sf_value :: "gval \<Rightarrow> string"

definition sqlDefault :: "sql_fmt \<Rightarrow> gval \<Rightarrow> string" where
  "sqlDefault sf v =
     (case v of
        GStr val \<Rightarrow> [CHR 0x27] @ val @ [CHR 0x27]
      | GBool val \<Rightarrow> if val then ''1'' else ''0''
      | GInt val \<Rightarrow> fmt_d val
      | GInt64 val \<Rightarrow> fmt_d val
      | GFloat val \<Rightarrow> sf_float sf val
      | _ \<Rightarrow> [CHR 0x27] @ sf_value sf v @ [CHR 0x27])"

definition column_def :: "sql_fmt \<Rightarrow> Field \<Rightarrow> string" where
  "column_def sf f =
     fld_Name f @ '' '' @ SQLType (fld_Type f)
     @ (if \<not> fld_Nullable f \<and> fld_DefaultValue f = GNil \<and> fld_Type f \<noteq> TypeJSON then '' NOT NULL'' else [])
     @ (if fld_Unique f then '' UNIQUE'' else [])
     @ (if fld_DefaultValue f \<noteq> GNil then '' DEFAULT '' @ sqlDefault sf (fld_DefaultValue f) else [])"

definition now_default :: string where
  "now_default = '' DATETIME NOT NULL DEFAULT (datetime('' @ [CHR 0x27] @ ''now'' @ [CHR 0x27] @ ''))''"

definition table_columns :: "sql_fmt \<Rightarrow> Resource \<Rightarrow> string list" where
  "table_columns sf r =
     [''id INTEGER PRIMARY KEY AUTOINCREMENT'', ''reference_id TEXT UNIQUE NOT NULL''] @ map (column_def sf) (rsc_Fields r)
     @ [''created_at'' @ now_default, ''updated_at'' @ now_default]"

definition foreign_keys :: "Resource \<Rightarrow> string list" where
  "foreign_keys r = map (\<lambda>f. ''FOREIGN KEY ('' @ fld_Name f @ '') REFERENCES '' @ fld_RefTable f @ ''(id)'')
     (filter (\<lambda>f. fld_Type f = TypeRef \<and> fld_RefTable f \<noteq> []) (rsc_Fields r))"

definition table_indexes :: "Resource \<Rightarrow> string list" where
  "table_indexes r = map (\<lambda>f. ''CREATE INDEX IF NOT EXISTS idx_'' @ rsc_Name r @ ''_'' @ fld_Name f @ '' ON '' @ rsc_Name r
       @ ''('' @ fld_Name f @ '')'') (filter (\<lambda>f. fld_Type f = TypeRef \<or> fld_Type f = TypeSoftRef) (rsc_Fields r))"

definition nl :: string where "nl = [CHR 0x0A]"

definition GenerateCreateSQL :: "sql_fmt \<Rightarrow> Resource \<Rightarrow> string" where
  "GenerateCreateSQL sf r =
     (let cols = table_columns sf r @ foreign_keys r;
          sql = ''CREATE TABLE IF NOT EXISTS '' @ rsc_Name r @ '' ('' @ nl @ ''  '' @ join_sep ('','' @ nl @ ''  '') cols @ nl @ '')'';
          indexes = table_indexes r
      in if indexes \<noteq> [] then sql @ '';'' @ nl @ join_sep ('';'' @ nl) indexes else sql)"

section \<open>Running the migrations\<close>

text \<open>A database session: the statements executed so far. \<open>ex\<close> answers a statement with its error.\<close>

type_synonym db_exec = "string list \<Rightarrow> string \<Rightarrow> string option"

definition exec_sql :: "db_exec \<Rightarrow> string \<Rightarrow> string list \<Rightarrow> string list \<times> string option" where
  "exec_sql ex sql done = (done @ [sql], ex done sql)"

fun create_tables :: "sql_fmt \<Rightarrow> db_exec \<Rightarrow> Resource list \<Rightarrow> string list \<Rightarrow> string list \<times> string option" where
  "create_tables sf ex [] done = (done, None)"
| "create_tables sf ex (res # rs) done =
     (case exec_sql ex (GenerateCreateSQL sf res) done of
        (done, Some err) \<Rightarrow> (done, Some (''create table '' @ rsc_Name res @ '': '' @ err))
      | (done, None) \<Rightarrow> create_tables sf ex rs done)"

text \<open>Errors of these statements are only logged.\<close>

definition exec_all :: "db_exec \<Rightarrow> string list \<Rightarrow> string list \<Rightarrow> string list" where
  "exec_all ex sqls done = foldl (\<lambda>done sql. fst (exec_sql ex sql done)) done sqls"

definition quoted_empty :: string where "quoted_empty = [CHR 0x27, CHR 0x27]"

definition alter_statements :: "Resource list \<Rightarrow> string list" where
  "alter_statements resources =
     concat (map (\<lambda>res. [''ALTER TABLE '' @ rsc_Name res @ '' ADD COLUMN created_at TEXT DEFAULT '' @ quoted_empty,
                         ''ALTER TABLE '' @ rsc_Name res @ '' ADD COLUMN updated_at TEXT DEFAULT '' @ quoted_empty]) resources)
     @ [''ALTER TABLE nodes ADD COLUMN public INTEGER DEFAULT 0'',
        ''ALTER TABLE ssh_keys RENAME COLUMN private_key_encrypted TO private_key'',
        ''ALTER TABLE ssh_keys ADD COLUMN public_key TEXT'',
        ''ALTER TABLE cloud_credentials RENAME COLUMN credentials_encrypted TO credentials'']"

definition tabs :: "nat \<Rightarrow> string" where "tabs n = replicate n CHR 0x09"

definition ancillary_tables :: "string list" where
  "ancillary_tables =
     [''CREATE TABLE IF NOT EXISTS usage_events ('' @ nl
        @ tabs 3 @ ''id INTEGER PRIMARY KEY AUTOINCREMENT,'' @ nl
        @ tabs 3 @ ''reference_id TEXT UNIQUE NOT NULL,'' @ nl
        @ tabs 3 @ ''user_id INTEGER NOT NULL,'' @ nl
        @ tabs 3 @ ''event_type TEXT NOT NULL,'' @ nl
        @ tabs 3 @ ''resource_id TEXT NOT NULL DEFAULT '' @ quoted_empty @ '','' @ nl
        @ tabs 3 @ ''resource_type TEXT NOT NULL DEFAULT '' @ quoted_empty @ '','' @ nl
        @ tabs 3 @ ''quantity INTEGER NOT NULL DEFAULT 1,'' @ nl
        @ tabs 3 @ ''metadata TEXT,'' @ nl
        @ tabs 3 @ ''timestamp TEXT NOT NULL,'' @ nl
        @ tabs 3 @ ''reported_at TEXT,'' @ nl
        @ tabs 3 @ ''created_at TEXT NOT NULL DEFAULT (datetime('now'))'' @ nl
        @ tabs 2 @ '')'',
      ''CREATE INDEX IF NOT EXISTS idx_usage_events_unreported ON usage_events(reported_at) WHERE reported_at IS NULL'',
      ''CREATE TABLE IF NOT EXISTS container_events ('' @ nl
        @ tabs 3 @ ''id INTEGER PRIMARY KEY AUTOINCREMENT,'' @ nl
        @ tabs 3 @ ''reference_id TEXT UNIQUE NOT NULL,'' @ nl
        @ tabs 3 @ ''deployment_id INTEGER NOT NULL,'' @ nl
        @ tabs 3 @ ''type TEXT NOT NULL,'' @ nl
        @ tabs 3 @ ''container TEXT NOT NULL DEFAULT '' @ quoted_empty @ '','' @ nl
        @ tabs 3 @ ''message TEXT NOT NULL DEFAULT '' @ quoted_empty @ '','' @ nl
        @ tabs 3 @ ''details TEXT,'' @ nl
        @ tabs 3 @ ''timestamp TEXT NOT NULL DEFAULT (datetime('now'))'' @ nl
        @ tabs 2 @ '')'',
      ''CREATE INDEX IF NOT EXISTS idx_container_events_deployment_time ON container_events(deployment_id, timestamp DESC)'']"

definition container_fixes :: "string list" where
  "container_fixes = [''ALTER TABLE container_events RENAME COLUMN container_name TO container'',
     ''ALTER TABLE container_events ADD COLUMN reference_id TEXT'']"

definition runSchemaMigrations ::
  "sql_fmt \<Rightarrow> db_exec \<Rightarrow> Resource list \<Rightarrow> string list \<Rightarrow> string list \<times> string option" where
  "runSchemaMigrations sf ex resources done =
     (case create_tables sf ex resources done of
        (done, Some err) \<Rightarrow> (done, Some err)
      | (done, None) \<Rightarrow> (exec_all ex (alter_statements resources @ ancillary_tables @ container_fixes) done, None))"

text \<open>The migration library: opening the driver, the embedded source and the migrator, and its operations.\<close>

datatype migrate_result = NoChange | MigrateError string

record migrator =
  mg_driver :: "string option"
  mg_source :: "string option"
  mg_new :: "string option"
  mg_Version :: "string + int \<times> bool"
  mg_Force :: "int \<Rightarrow> string option"
  mg_Up :: "bool \<Rightarrow> migrate_result option"

text \<open>The result: whether the version was forced to 1, and the error. \<open>mg_Up\<close> sees whether it was.\<close>

definition runFileMigrations :: "migrator \<Rightarrow> bool \<times> string option" where
  "runFileMigrations m =
     (case mg_driver m of
        Some err \<Rightarrow> (False, Some (''create migration driver: '' @ err))
      | None \<Rightarrow>
          (case mg_source m of
             Some err \<Rightarrow> (False, Some (''create migration source: '' @ err))
           | None \<Rightarrow>
               (case mg_new m of
                  Some err \<Rightarrow> (False, Some (''create migrator: '' @ err))
                | None \<Rightarrow>
                    let reset = (case mg_Version m of Inr (version, dirty) \<Rightarrow> \<not> dirty \<and> 2 < version \<and> version < 100 | Inl _ \<Rightarrow> False)
                    in case (if reset then mg_Force m 1 else None) of
                         Some err \<Rightarrow> (False, Some (''force migration version: '' @ err))
                       | None \<Rightarrow>
                           (case mg_Up m reset of
                              Some (MigrateError err) \<Rightarrow> (reset, Some (''run migrations: '' @ err))
                            | _ \<Rightarrow> (reset, None)))))"

definition OpenDB ::
  "sql_fmt \<Rightarrow> string option \<Rightarrow> string option \<Rightarrow> migrator \<Rightarrow> db_exec \<Rightarrow> Resource list \<Rightarrow>
     string list \<times> (string + Store)" where
  "OpenDB sf opening ping m ex resources =
     (case opening of
        Some err \<Rightarrow> ([], Inl (''open database: '' @ err))
      | None \<Rightarrow>
          (case ping of
             Some err \<Rightarrow> ([], Inl (''ping database: '' @ err))
           | None \<Rightarrow>
               (case runFileMigrations m of
                  (_, Some err) \<Rightarrow> ([], Inl (''run migrations: '' @ err))
                | (_, None) \<Rightarrow>
                    (case runSchemaMigrations sf ex resources [] of
                       (done, Some err) \<Rightarrow> (done, Inl (''schema migrations: '' @ err))
                     | (done, None) \<Rightarrow> (done, Inr (NewStore resources))))))"

section \<open>The schema of an opened database\<close>

definition col_name :: "string \<Rightarrow> string" where
  "col_name c = takeWhile (\<lambda>x. x \<noteq> CHR 0x20) c"

lemma col_name_app: "CHR 0x20 \<notin> set n \<Longrightarrow> col_name (n @ CHR 0x20 # x) = n"
  unfolding col_name_def by (subst takeWhile_append2) auto

lemma col_name_field: "CHR 0x20 \<notin> set (fld_Name f) \<Longrightarrow> col_name (column_def sf f) = fld_Name f"
  unfolding column_def_def by (simp add: col_name_app)

lemma schema_names_plain: "res \<in> set (Schema uni) \<Longrightarrow> list_all (\<lambda>f. CHR 0x20 \<notin> set (fld_Name f)) (rsc_Fields res)"
  by (auto simp: Schema_def resource_defs field_builder_defs)

lemma table_columns_select:
  assumes "res \<in> set (Schema uni)"
  shows "map col_name (table_columns sf res) = selectColumns res"
proof -
  have "map col_name (map (column_def sf) (rsc_Fields res)) = map fld_Name (rsc_Fields res)"
    using schema_names_plain [OF assms] by (simp add: col_name_field list_all_iff)
  then show ?thesis by (simp add: table_columns_def selectColumns_def col_name_def now_default_def)
qed

text \<open>A statement was executed and the database accepted it.\<close>

definition accepted :: "db_exec \<Rightarrow> string list \<Rightarrow> string \<Rightarrow> bool" where
  "accepted ex stmts sql \<longleftrightarrow> (\<exists>i < length stmts. stmts ! i = sql \<and> ex (take i stmts) sql = None)"

lemma accepted_later: "accepted ex stmts sql \<Longrightarrow> accepted ex (stmts @ rest) sql"
  unfolding accepted_def by (elim exE) (auto simp: nth_append intro!: exI)

lemma accepted_now: "ex done sql = None \<Longrightarrow> accepted ex (done @ [sql]) sql"
  unfolding accepted_def by (rule exI [of _ "length done"]) simp

lemma create_tables_done:
  "create_tables sf ex rs done = (done', None) \<Longrightarrow>
     (\<exists>rest. done' = done @ rest) \<and> (\<forall>r \<in> set rs. accepted ex done' (GenerateCreateSQL sf r))"
proof (induction rs arbitrary: "done")
  case (Cons r rs)
  let ?d = "done @ [GenerateCreateSQL sf r]"
  have n: "ex done (GenerateCreateSQL sf r) = None" and c: "create_tables sf ex rs ?d = (done', None)"
    using Cons.prems by (auto simp: exec_sql_def split: option.splits)
  from Cons.IH [OF c] obtain rest where rest: "done' = ?d @ rest"
    and acc: "\<forall>r \<in> set rs. accepted ex done' (GenerateCreateSQL sf r)" by blast
  have "accepted ex done' (GenerateCreateSQL sf r)"
    unfolding rest by (rule accepted_later [OF accepted_now [where ex = ex, OF n]])
  then show ?case using rest acc by auto
qed simp

lemma exec_all_append: "\<exists>rest. exec_all ex sqls done = done @ rest"
  unfolding exec_all_def
proof (induction sqls arbitrary: "done")
  case (Cons a sqls)
  from Cons.IH [of "done @ [a]"] show ?case by (auto simp: exec_sql_def)
qed simp

lemma foldl_names:
  "n \<notin> rsc_Name ` set rs \<Longrightarrow> foldl (\<lambda>m r. m(rsc_Name r \<mapsto> r)) m rs n = m n"
  by (induction rs arbitrary: m) auto

lemma store_schema:
  assumes "distinct (map rsc_Name rs)" "res \<in> set rs"
  shows "st_schema (NewStore rs) (rsc_Name res) = Some res"
proof -
  from split_list [OF assms(2)] obtain xs ys where rs: "rs = xs @ res # ys" by blast
  then have "rsc_Name res \<notin> rsc_Name ` set ys" using assms(1) by simp
  then show ?thesis by (simp add: NewStore_def rs foldl_names)
qed

text \<open>
  When opening the database succeeds, the store knows every resource of the application, the
  \<open>CREATE TABLE\<close> statement of each was executed and accepted by the database, and that
  statement declares exactly the columns that the store selects, in the order in which it
  selects them. The statements that bring old databases up to date come after all of them.
\<close>

theorem OpenDB_tables:
  assumes run: "OpenDB sf opening ping m ex (Schema uni) = (stmts, Inr s)" and res: "res \<in> set (Schema uni)"
  shows "st_schema s (rsc_Name res) = Some res \<and> accepted ex stmts (GenerateCreateSQL sf res)
    \<and> map col_name (table_columns sf res) = selectColumns res \<and> distinct (selectColumns res)"
proof -
  from run obtain done1 where c: "create_tables sf ex (Schema uni) [] = (done1, None)"
    and st: "stmts = exec_all ex (alter_statements (Schema uni) @ ancillary_tables @ container_fixes) done1"
    and s: "s = NewStore (Schema uni)"
    by (auto simp: OpenDB_def runSchemaMigrations_def split: option.splits prod.splits)
  obtain rest where "stmts = done1 @ rest" using exec_all_append st by blast
  then have "accepted ex stmts (GenerateCreateSQL sf res)"
    using create_tables_done [OF c] res by (auto intro: accepted_later)
  moreover have "distinct (map rsc_Name (Schema uni))" by (simp add: Schema_def resource_defs)
  then have "st_schema s (rsc_Name res) = Some res" unfolding s by (rule store_schema [OF _ res])
  moreover have "distinct (selectColumns res)"
    using schema_fields_ok [OF res] by (auto simp: fields_ok_def selectColumns_def std_cols_def list_all_iff)
  ultimately show ?thesis using table_columns_select [OF res] by blast
qed

definition fresh_migrator :: migrator where
  "fresh_migrator = \<lparr>mg_driver = None, mg_source = None, mg_new = None, mg_Version = Inr (11, False),
     mg_Force = (\<lambda>_. None), mg_Up = (\<lambda>_. Some NoChange)\<rparr>"

theorem OpenDB_tables_witness:
  "\<exists>stmts s. OpenDB \<lparr>sf_float = (\<lambda>_. []), sf_value = (\<lambda>_. [])\<rparr> None None fresh_migrator (\<lambda>_ _. None) (Schema (\<lambda>s. s)) = (stmts, Inr s)
     \<and> st_schema s ''invoices'' = Some InvoiceResource"
proof -
  let ?sf = "\<lparr>sf_float = (\<lambda>_. []), sf_value = (\<lambda>_. [])\<rparr>" and ?ex = "(\<lambda>_ _. None) :: db_exec"
  have "\<exists>done'. create_tables ?sf ?ex rs d = (done', None)" for rs d
    by (induction rs arbitrary: d) (simp_all add: exec_sql_def)
  moreover have "runFileMigrations fresh_migrator = (True, None)" by (simp add: runFileMigrations_def fresh_migrator_def)
  ultimately obtain stmts s where o: "OpenDB ?sf None None fresh_migrator ?ex (Schema (\<lambda>s. s)) = (stmts, Inr s)"
    by (metis (mono_tags, lifting) OpenDB_def option.simps(4) prod.case runSchemaMigrations_def)
  have "InvoiceResource \<in> set (Schema (\<lambda>s. s))" by (simp add: Schema_def)
  from OpenDB_tables [OF o this] o show ?thesis by (auto simp: InvoiceResource_def)
qed

end
