(* ===== verification/Orchestrator.thy ===== *)
theory Orchestrator
  imports Planning Monitoring
begin

text \<open>
  \<open>internal/shell/docker/orchestrator.go\<close> with \<open>types.go\<close>: starting, stopping and removing the
  containers of a deployment. The docker client is an argument; it answers each call with a value that may
  depend on all calls made before, and every call is recorded. Records whose names the core packages
  use already carry the prefix \<open>docker_\<close>. Log output is not modelled, except that slicing a container
  identifier to 12 bytes for the log panics when it is shorter.
\<close>

section \<open>Types\<close>

record docker_VolumeMount =
  dvm_Source :: string
  dvm_Target :: string
  dvm_ReadOnly :: bool

record docker_RestartPolicy =
  drp_Name :: string
  drp_MaximumRetryCount :: int

record docker_ResourceLimits =
  drl_CPULimit :: float64
  drl_MemoryLimit :: int

record docker_HealthCheck =
  dhc_Test :: "string list"
  dhc_Interval :: int
  dhc_Timeout :: int
  dhc_Retries :: int
  dhc_StartPeriod :: int

record docker_ContainerSpec =
  dcs_Name :: string
  dcs_Image :: string
  dcs_Command :: "string list"
  dcs_Entrypoint :: "string list"
  dcs_Env :: go_strmap
  dcs_Labels :: go_strmap
  dcs_Ports :: "PortBinding list"
  dcs_Volumes :: "docker_VolumeMount list"
  dcs_Networks :: "string list"
  dcs_NetworkAliases :: "string \<rightharpoonup> string list"
  dcs_WorkingDir :: string
  dcs_User :: string
  dcs_RestartPolicy :: docker_RestartPolicy
  dcs_Resources :: docker_ResourceLimits
  dcs_HealthCheck :: "docker_HealthCheck option"

type_synonym ContainerStatus = string
definition ContainerStatusRunning :: ContainerStatus where [const_defs]: "ContainerStatusRunning = ''running''"

record docker_ContainerInfo =
  dci_ID :: string
  dci_Name :: string
  dci_Image :: string
  dci_Status :: ContainerStatus
  dci_State :: string
  dci_Health :: string
  dci_CreatedAt :: time
  dci_StartedAt :: "time option"
  dci_FinishedAt :: "time option"
  dci_Ports :: "PortBinding list"
  dci_Labels :: go_strmap
  dci_ExitCode :: int

record docker_NetworkSpec =
  dns_Name :: string
  dns_Driver :: string
  dns_Labels :: go_strmap

record docker_VolumeSpec =
  dvs_Name :: string
  dvs_Driver :: string
  dvs_Labels :: go_strmap

section \<open>The client\<close>

text \<open>The calls, with the arguments that matter: the filter of a listing is the value of its label entry.\<close>

datatype docker_call =
    CallCreateContainer docker_ContainerSpec
  | CallStartContainer string
  | CallStopContainer string int
  | CallRemoveContainer string bool bool
  | CallInspectContainer string
  | CallListContainers bool string
  | CallContainerLogs string string bool
  | CallCreateNetwork docker_NetworkSpec
  | CallRemoveNetwork string
  | CallCreateVolume docker_VolumeSpec
  | CallPullImage string
  | CallImageExists string

text \<open>The answers; the first argument is the list of calls made before. A log reader is given by what its first read returns.\<close>

record docker_client =
  dc_CreateContainer :: "docker_call list \<Rightarrow> docker_ContainerSpec \<Rightarrow> string + string"
  dc_StartContainer :: "docker_call list \<Rightarrow> string \<Rightarrow> string option"
  dc_StopContainer :: "docker_call list \<Rightarrow> string \<Rightarrow> string option"
  dc_RemoveContainer :: "docker_call list \<Rightarrow> string \<Rightarrow> string option"
  dc_InspectContainer :: "docker_call list \<Rightarrow> string \<Rightarrow> string + docker_ContainerInfo"
  dc_ListContainers :: "docker_call list \<Rightarrow> string \<Rightarrow> string + docker_ContainerInfo list"
  dc_ContainerLogs :: "docker_call list \<Rightarrow> string \<Rightarrow> string \<Rightarrow> string + string"
  dc_CreateNetwork :: "docker_call list \<Rightarrow> docker_NetworkSpec \<Rightarrow> string + string"
  dc_RemoveNetwork :: "docker_call list \<Rightarrow> string \<Rightarrow> string option"
  dc_CreateVolume :: "docker_call list \<Rightarrow> docker_VolumeSpec \<Rightarrow> string + string"
  dc_PullImage :: "docker_call list \<Rightarrow> string \<Rightarrow> string option"
  dc_ImageExists :: "docker_call list \<Rightarrow> string \<Rightarrow> bool"

text \<open>The state of one orchestrator call: the calls made, the events recorded and the files written.\<close>

record ostate =
  os_calls :: "docker_call list"
  os_events :: "ContainerEvent list"
  os_files :: "(string \<times> string \<times> int) list"

definition log_call :: "docker_call \<Rightarrow> ostate \<Rightarrow> ostate" where
  "log_call c st = st\<lparr>os_calls := os_calls st @ [c]\<rparr>"

datatype orch_error = OrchError string | OrchPanic

section \<open>Configuration\<close>

text \<open>
  \<open>or_order\<close> is the order in which \<open>range\<close> visits a map, \<open>or_keys\<close> the enumeration that \<open>TopologicalSort\<close> uses;
  \<open>or_store\<close> tells whether a store is configured. The file system, the YAML reader and loader, and the
  parsers of durations and octal modes are arguments.
\<close>

record Orchestrator =
  or_docker :: docker_client
  or_configDir :: string
  or_store :: bool
  or_uuid :: "nat \<Rightarrow> string"
  or_now :: "nat \<Rightarrow> time"
  or_order :: "(string \<times> string) list \<Rightarrow> (string \<times> string) list"
  or_keys :: "Service list \<Rightarrow> string list"
  or_unmarshal :: "string \<Rightarrow> bool option"
  or_load :: "string \<Rightarrow> string + types_Project"
  or_compose_text :: "compose_error \<Rightarrow> string"
  or_parse_duration :: "string \<Rightarrow> int option"
  or_parse_mode :: "string \<Rightarrow> int option"
  or_Abs :: "string \<Rightarrow> string + string"
  or_MkdirAll :: "string \<Rightarrow> string option"
  or_WriteFile :: "string \<Rightarrow> string \<Rightarrow> string option"
  or_RemoveAll :: "string \<Rightarrow> string option"

definition default_config_dir :: "string \<Rightarrow> string" where
  "default_config_dir configDir = (if configDir = [] then ''/var/lib/hoster/configs'' else configDir)"

section \<open>Config files\<close>

subsection \<open>Paths\<close>

text \<open>\<open>filepath.Clean\<close> on a slash-separated path.\<close>

fun clean_parts :: "bool \<Rightarrow> string list \<Rightarrow> string list \<Rightarrow> string list" where
  "clean_parts rooted stack [] = rev stack"
| "clean_parts rooted stack (p # ps) =
     (if p = [] \<or> p = ''.'' then clean_parts rooted stack ps
      else if p = ''..'' then
        (case stack of
           [] \<Rightarrow> if rooted then clean_parts rooted [] ps else clean_parts rooted [p] ps
         | t # rest \<Rightarrow> if t = ''..'' then clean_parts rooted (p # stack) ps else clean_parts rooted rest ps)
      else clean_parts rooted (p # stack) ps)"

fun join_slash :: "string list \<Rightarrow> string" where
  "join_slash [] = []"
| "join_slash [p] = p"
| "join_slash (p # q # ps) = p @ ''/'' @ join_slash (q # ps)"

definition filepath_Clean :: "string \<Rightarrow> string" where
  "filepath_Clean path =
     (let rooted = HasPrefix path ''/''; body = join_slash (clean_parts rooted [] (SplitByte CHR ''/'' path))
      in if rooted then ''/'' @ body else if body = [] then ''.'' else body)"

definition filepath_Join :: "string \<Rightarrow> string \<Rightarrow> string" where
  "filepath_Join a b =
     (if a = [] \<and> b = [] then [] else if a = [] then filepath_Clean b
      else if b = [] then filepath_Clean a else filepath_Clean (a @ ''/'' @ b))"

text \<open>\<open>filepath.Base\<close>: the last element, without trailing slashes.\<close>

definition filepath_Base :: "string \<Rightarrow> string" where
  "filepath_Base path =
     (if path = [] then ''.''
      else case filter (\<lambda>p. p \<noteq> []) (SplitByte CHR ''/'' path) of [] \<Rightarrow> ''/'' | ps \<Rightarrow> last ps)"

definition unsafe_chars :: string where
  "unsafe_chars = [CHR ''/'', CHR 0x5C, CHR '':'', CHR ''*'', CHR ''?'', CHR 0x22, CHR ''<'', CHR ''>'', CHR ''|'', CHR '' '']"

definition trim_underscore :: "string \<Rightarrow> string" where
  "trim_underscore s = rev (dropWhile (\<lambda>c. c = CHR ''_'') (rev (dropWhile (\<lambda>c. c = CHR ''_'') s)))"

definition sanitizeFileName :: "string \<Rightarrow> string" where
  "sanitizeFileName name = trim_underscore (map (\<lambda>c. if c \<in> set unsafe_chars then CHR ''_'' else c) name)"

subsection \<open>Writing\<close>

definition config_host_path :: "string \<Rightarrow> ConfigFile \<Rightarrow> string" where
  "config_host_path deploymentDir cf =
     (let hostFileName = sanitizeFileName (cf_Name cf);
          hostFileName = (if hostFileName = [] then sanitizeFileName (filepath_Base (cf_Path cf)) else hostFileName)
      in filepath_Join deploymentDir hostFileName)"

definition config_mode :: "Orchestrator \<Rightarrow> ConfigFile \<Rightarrow> int" where
  "config_mode orch cf =
     (if cf_Mode cf \<noteq> [] then (case or_parse_mode orch (cf_Mode cf) of Some mode \<Rightarrow> mode | None \<Rightarrow> 420) else 420)"

fun write_loop :: "Orchestrator \<Rightarrow> string \<Rightarrow> ConfigFile list \<Rightarrow> (string \<times> string) list \<Rightarrow> ostate \<Rightarrow>
    ostate \<times> (string + (string \<times> string) list)" where
  "write_loop orch dir [] mounts st = (st, Inr mounts)"
| "write_loop orch dir (cf # cfs) mounts st =
     (let hostPath = config_host_path dir cf
      in case or_WriteFile orch hostPath (cf_Content cf) of
           Some err \<Rightarrow> (st, Inl (''failed to write config file '' @ cf_Name cf @ '': '' @ err))
         | None \<Rightarrow> write_loop orch dir cfs (AList.update (cf_Path cf) hostPath mounts)
                     (st\<lparr>os_files := os_files st @ [(hostPath, cf_Content cf, config_mode orch cf)]\<rparr>))"

definition writeConfigFiles :: "Orchestrator \<Rightarrow> string \<Rightarrow> ConfigFile list \<Rightarrow> ostate \<Rightarrow> ostate \<times> (string + (string \<times> string) list)" where
  "writeConfigFiles orch deploymentID configFiles st =
     (if configFiles = [] then (st, Inr [])
      else case (if HasPrefix (or_configDir orch) ''/'' then Inr (or_configDir orch) else or_Abs orch (or_configDir orch)) of
             Inl err \<Rightarrow> (st, Inl (''failed to get absolute path for config dir: '' @ err))
           | Inr configDir \<Rightarrow>
               let deploymentDir = filepath_Join configDir deploymentID
               in case or_MkdirAll orch deploymentDir of
                    Some err \<Rightarrow> (st, Inl (''failed to create config directory: '' @ err))
                  | None \<Rightarrow> write_loop orch deploymentDir configFiles [] st)"

definition CleanupConfigFiles :: "Orchestrator \<Rightarrow> string \<Rightarrow> string option" where
  "CleanupConfigFiles orch deploymentID =
     map_option (\<lambda>err. ''failed to cleanup config files: '' @ err)
       (or_RemoveAll orch (filepath_Join (or_configDir orch) deploymentID))"

section \<open>Helpers\<close>

definition recordEvent :: "Orchestrator \<Rightarrow> int \<Rightarrow> ContainerEventType \<Rightarrow> string \<Rightarrow> ostate \<Rightarrow> ostate" where
  "recordEvent orch deploymentID eventType containerName st =
     (if \<not> or_store orch then st
      else st\<lparr>os_events := os_events st @ [NewContainerEvent (or_now orch (length (os_events st)))
             (or_uuid orch (length (os_events st))) deploymentID eventType containerName
             (ContainerEventMessage eventType containerName)]\<rparr>)"

definition managed_labels :: "string \<Rightarrow> go_strmap" where
  "managed_labels deploymentID = [LabelManaged \<mapsto> ''true'', LabelDeployment \<mapsto> deploymentID]"

definition network_spec :: "string \<Rightarrow> string \<Rightarrow> docker_NetworkSpec" where
  "network_spec deploymentID networkName =
     \<lparr>dns_Name = networkName, dns_Driver = ''bridge'', dns_Labels = managed_labels deploymentID\<rparr>"

definition createDeploymentNetwork :: "Orchestrator \<Rightarrow> string \<Rightarrow> string \<Rightarrow> ostate \<Rightarrow> ostate \<times> (string + string)" where
  "createDeploymentNetwork orch deploymentID networkName st =
     (let spec = network_spec deploymentID networkName;
          st' = log_call (CallCreateNetwork spec) st
      in case dc_CreateNetwork (or_docker orch) (os_calls st) spec of
           Inl err \<Rightarrow> if contains_str ''already exists'' err then (st', Inr networkName) else (st', Inl err)
         | Inr networkID \<Rightarrow> (st', Inr networkID))"

definition createDeploymentVolume :: "Orchestrator \<Rightarrow> string \<Rightarrow> string \<Rightarrow> ostate \<Rightarrow> ostate \<times> (string + string)" where
  "createDeploymentVolume orch deploymentID volumeName st =
     (let spec = \<lparr>dvs_Name = volumeName, dvs_Driver = [], dvs_Labels = managed_labels deploymentID\<rparr>;
          st' = log_call (CallCreateVolume spec) st
      in case dc_CreateVolume (or_docker orch) (os_calls st) spec of
           Inl err \<Rightarrow> if contains_str ''already exists'' err then (st', Inr volumeName) else (st', Inl err)
         | Inr volID \<Rightarrow> (st', Inr volID))"

definition RemoveNetwork_call :: "string \<Rightarrow> ostate \<Rightarrow> ostate" where
  "RemoveNetwork_call networkID st = log_call (CallRemoveNetwork networkID) st"

definition convertPorts :: "PortBinding list \<Rightarrow> PortMapping list" where
  "convertPorts ports =
     map (\<lambda>p. \<lparr>pm_ContainerPort = pb_ContainerPort p, pm_HostPort = pb_HostPort p,
               pm_Protocol = (if pb_Protocol p = [] then ''tcp'' else pb_Protocol p)\<rparr>) ports"

subsection \<open>Container specifications\<close>

text \<open>The proxy port goes to the first port of the primary service.\<close>

fun bind_ports :: "int \<Rightarrow> bool \<Rightarrow> bool \<Rightarrow> Port list \<Rightarrow> PortBinding list" where
  "bind_ports proxyPort isPrimary used [] = []"
| "bind_ports proxyPort isPrimary used (p # ps) =
     (if isPrimary \<and> 0 < proxyPort \<and> \<not> used
      then \<lparr>pb_ContainerPort = uint (port_Target p), pb_HostPort = proxyPort, pb_Protocol = port_Protocol p,
             pb_HostIP = ''0.0.0.0''\<rparr> # bind_ports proxyPort isPrimary True ps
      else \<lparr>pb_ContainerPort = uint (port_Target p), pb_HostPort = uint (port_Published p), pb_Protocol = port_Protocol p,
             pb_HostIP = port_HostIP p\<rparr> # bind_ports proxyPort isPrimary used ps)"

definition spec_volume :: "string \<Rightarrow> VolumeMount \<Rightarrow> docker_VolumeMount" where
  "spec_volume deploymentID v =
     \<lparr>dvm_Source = (if vm_Type v = VolumeMountTypeVolume then VolumeName deploymentID (vm_Source v) else vm_Source v),
      dvm_Target = vm_Target v, dvm_ReadOnly = vm_ReadOnly v\<rparr>"

definition spec_health :: "(string \<Rightarrow> int option) \<Rightarrow> HealthCheck \<Rightarrow> docker_HealthCheck" where
  "spec_health pd h = \<lparr>dhc_Test = hc_Test h, dhc_Interval = plan_duration pd (hc_Interval h),
     dhc_Timeout = plan_duration pd (hc_Timeout h), dhc_Retries = hc_Retries h, dhc_StartPeriod = plan_duration pd (hc_StartPeriod h)\<rparr>"

definition spec_restart :: "RestartPolicy \<Rightarrow> docker_RestartPolicy" where
  "spec_restart r =
     (if r = RestartAlways then \<lparr>drp_Name = ''always'', drp_MaximumRetryCount = 0\<rparr>
      else if r = RestartOnFailure then \<lparr>drp_Name = ''on-failure'', drp_MaximumRetryCount = 0\<rparr>
      else if r = RestartUnlessStopped then \<lparr>drp_Name = ''unless-stopped'', drp_MaximumRetryCount = 0\<rparr>
      else \<lparr>drp_Name = ''no'', drp_MaximumRetryCount = 0\<rparr>)"

definition buildContainerSpec ::
  "Orchestrator \<Rightarrow> Deployment \<Rightarrow> Service \<Rightarrow> string \<Rightarrow> string \<Rightarrow> (string \<times> string) list \<Rightarrow> bool \<Rightarrow> docker_ContainerSpec" where
  "buildContainerSpec orch d svc containerName networkName configMounts isPrimary =
     \<lparr>dcs_Name = containerName, dcs_Image = svc_Image svc, dcs_Command = svc_Command svc, dcs_Entrypoint = svc_Entrypoint svc,
      dcs_Env = (\<lambda>k. map_option (\<lambda>v. SubstituteVariables v (dep_Variables d)) (svc_Environment svc k)),
      dcs_Labels = [LabelManaged \<mapsto> ''true'', LabelDeployment \<mapsto> dep_ReferenceID d, LabelTemplate \<mapsto> dep_TemplateRefID d,
         LabelService \<mapsto> svc_Name svc] ++ svc_Labels svc,
      dcs_Ports = bind_ports (dep_ProxyPort d) isPrimary False (svc_Ports svc),
      dcs_Volumes = map (spec_volume (dep_ReferenceID d)) (svc_Volumes svc)
        @ map (\<lambda>(containerPath, hostPath). \<lparr>dvm_Source = hostPath, dvm_Target = containerPath, dvm_ReadOnly = True\<rparr>)
            (or_order orch configMounts),
      dcs_Networks = [networkName], dcs_NetworkAliases = [networkName \<mapsto> [svc_Name svc]],
      dcs_WorkingDir = [], dcs_User = [],
      dcs_RestartPolicy = spec_restart (svc_Restart svc),
      dcs_Resources = \<lparr>drl_CPULimit = (if flt (Fin 0) (sres_CPULimit (svc_Resources svc)) then sres_CPULimit (svc_Resources svc) else Fin 0),
         drl_MemoryLimit = (if 0 < sres_MemoryLimit (svc_Resources svc) then sres_MemoryLimit (svc_Resources svc) else 0)\<rparr>,
      dcs_HealthCheck = map_option (spec_health (or_parse_duration orch)) (svc_HealthCheck svc)\<rparr>"

subsection \<open>Cleanup\<close>

text \<open>Stops and removes each container; the identifier in the log line may be too short.\<close>

definition short_id :: "string \<Rightarrow> bool" where
  "short_id i \<longleftrightarrow> length i < 12"

fun cleanup_loop :: "(string \<times> string) list \<Rightarrow> ostate \<Rightarrow> ostate \<times> orch_error option" where
  "cleanup_loop [] st = (st, None)"
| "cleanup_loop ((name, i) # cs) st =
     (let st = log_call (CallRemoveContainer i True False) (log_call (CallStopContainer i 5000000000) st)
      in if short_id i then (st, Some OrchPanic) else cleanup_loop cs st)"

definition cleanupCreatedContainers :: "Orchestrator \<Rightarrow> (string \<times> string) list \<Rightarrow> ostate \<Rightarrow> ostate \<times> orch_error option" where
  "cleanupCreatedContainers orch created st = cleanup_loop (or_order orch created) st"

text \<open>Clean up, remove the network and report the error; a panic during the cleanup goes up instead.\<close>

definition abort_start :: "Orchestrator \<Rightarrow> (string \<times> string) list \<Rightarrow> string \<Rightarrow> string \<Rightarrow> ostate \<Rightarrow> ostate \<times> (orch_error + 'a)" where
  "abort_start orch created networkID err st =
     (case cleanupCreatedContainers orch created st of
        (st, Some p) \<Rightarrow> (st, Inl p)
      | (st, None) \<Rightarrow> (RemoveNetwork_call networkID st, Inl (OrchError err)))"

section \<open>Starting\<close>

fun volume_loop :: "Orchestrator \<Rightarrow> string \<Rightarrow> string \<Rightarrow> Volume list \<Rightarrow> ostate \<Rightarrow> ostate \<times> string option" where
  "volume_loop orch deploymentID networkID [] st = (st, None)"
| "volume_loop orch deploymentID networkID (vol # vols) st =
     (if vol_External vol then volume_loop orch deploymentID networkID vols st
      else case createDeploymentVolume orch deploymentID (VolumeName deploymentID (vol_Name vol)) st of
             (st, Inl err) \<Rightarrow> (RemoveNetwork_call networkID st, Some (''failed to create volume '' @ vol_Name vol @ '': '' @ err))
           | (st, Inr _) \<Rightarrow> volume_loop orch deploymentID networkID vols st)"

fun pull_loop :: "Orchestrator \<Rightarrow> Deployment \<Rightarrow> Service list \<Rightarrow> ostate \<Rightarrow> ostate \<times> string option" where
  "pull_loop orch d [] st = (st, None)"
| "pull_loop orch d (svc # svcs) st =
     (if svc_Image svc = [] then pull_loop orch d svcs st
      else
        let present = dc_ImageExists (or_docker orch) (os_calls st) (svc_Image svc);
            st = log_call (CallImageExists (svc_Image svc)) st
        in if present then pull_loop orch d svcs st
           else
             let st = recordEvent orch (dep_ID d) EventImagePulling (svc_Image svc) st
             in case dc_PullImage (or_docker orch) (os_calls st) (svc_Image svc) of
                  Some err \<Rightarrow> (log_call (CallPullImage (svc_Image svc)) st,
                                Some (''failed to pull image '' @ svc_Image svc @ '': '' @ err))
                | None \<Rightarrow> pull_loop orch d svcs (recordEvent orch (dep_ID d) EventImagePulled (svc_Image svc)
                                (log_call (CallPullImage (svc_Image svc)) st)))"

definition label_filter :: "Deployment \<Rightarrow> string" where
  "label_filter d = LabelDeployment @ ''='' @ dep_ReferenceID d"

definition list_deployment :: "Orchestrator \<Rightarrow> Deployment \<Rightarrow> ostate \<Rightarrow> ostate \<times> (string + docker_ContainerInfo list)" where
  "list_deployment orch d st =
     (log_call (CallListContainers True (label_filter d)) st, dc_ListContainers (or_docker orch) (os_calls st) (label_filter d))"

text \<open>The existing container of each service; the last one listed wins.\<close>

definition existing_by_service :: "docker_ContainerInfo list \<Rightarrow> go_strmap" where
  "existing_by_service cs = foldl (\<lambda>m c. case dci_Labels c LabelService of Some svc \<Rightarrow> m(svc \<mapsto> dci_ID c) | None \<Rightarrow> m) Map.empty cs"

definition primary_service :: "Service list \<Rightarrow> string" where
  "primary_service svcs = (case find (\<lambda>s. svc_Ports s \<noteq> []) svcs of Some s \<Rightarrow> svc_Name s | None \<Rightarrow> [])"

record start_ctx =
  sc_networkName :: string
  sc_networkID :: string
  sc_mounts :: "(string \<times> string) list"
  sc_existing :: go_strmap
  sc_primary :: string

text \<open>The container of a service: an existing one, or a new one. The flag tells a restart.\<close>

definition obtain_container ::
  "Orchestrator \<Rightarrow> Deployment \<Rightarrow> start_ctx \<Rightarrow> Service \<Rightarrow> (string \<times> string) list \<Rightarrow> ostate \<Rightarrow> ostate \<times> (orch_error + string \<times> bool)" where
  "obtain_container orch d cx svc created st =
     (case sc_existing cx (svc_Name svc) of
        Some i \<Rightarrow> if short_id i then (st, Inl OrchPanic) else (st, Inr (i, True))
      | None \<Rightarrow>
          let spec = buildContainerSpec orch d svc (ContainerName (dep_ReferenceID d) (svc_Name svc)) (sc_networkName cx)
                       (sc_mounts cx) (svc_Name svc = sc_primary cx)
          in case dc_CreateContainer (or_docker orch) (os_calls st) spec of
               Inl err \<Rightarrow> abort_start orch created (sc_networkID cx)
                            (''failed to create container '' @ svc_Name svc @ '': '' @ err) (log_call (CallCreateContainer spec) st)
             | Inr i \<Rightarrow>
                 if short_id i then (log_call (CallCreateContainer spec) st, Inl OrchPanic)
                 else (recordEvent orch (dep_ID d) EventContainerCreated (svc_Name svc) (log_call (CallCreateContainer spec) st),
                       Inr (i, False)))"

definition start_tolerated :: "string \<Rightarrow> bool" where
  "start_tolerated err \<longleftrightarrow> contains_str ''already started'' err \<or> contains_str ''is already running'' err"

definition start_container ::
  "Orchestrator \<Rightarrow> Deployment \<Rightarrow> start_ctx \<Rightarrow> Service \<Rightarrow> (string \<times> string) list \<Rightarrow> string \<Rightarrow> bool \<Rightarrow> ostate \<Rightarrow>
     ostate \<times> (orch_error + ContainerInfo)" where
  "start_container orch d cx svc created i isRestart st =
     (let started = dc_StartContainer (or_docker orch) (os_calls st) i; st = log_call (CallStartContainer i) st
      in if started \<noteq> None \<and> \<not> start_tolerated (the started)
         then abort_start orch created (sc_networkID cx) (''failed to start container '' @ svc_Name svc @ '': '' @ the started) st
         else
           let st = recordEvent orch (dep_ID d) (if isRestart then EventContainerRestarted else EventContainerStarted) (svc_Name svc) st
           in case dc_InspectContainer (or_docker orch) (os_calls st) i of
                Inl err \<Rightarrow> abort_start orch created (sc_networkID cx) (''failed to inspect container '' @ svc_Name svc @ '': '' @ err)
                             (log_call (CallInspectContainer i) st)
              | Inr info \<Rightarrow> (log_call (CallInspectContainer i) st,
                  Inr \<lparr>ci_ID = dci_ID info, ci_ServiceName = svc_Name svc, ci_Image = svc_Image svc, ci_Status = dci_Status info,
                       ci_Ports = convertPorts (dci_Ports info)\<rparr>))"

fun container_loop ::
  "Orchestrator \<Rightarrow> Deployment \<Rightarrow> start_ctx \<Rightarrow> Service list \<Rightarrow> (string \<times> string) list \<Rightarrow> ContainerInfo list \<Rightarrow> ostate \<Rightarrow>
     ostate \<times> (orch_error + ContainerInfo list)" where
  "container_loop orch d cx [] created containers st = (st, Inr containers)"
| "container_loop orch d cx (svc # svcs) created containers st =
     (case obtain_container orch d cx svc created st of
        (st, Inl err) \<Rightarrow> (st, Inl err)
      | (st, Inr (i, isRestart)) \<Rightarrow>
          let created = AList.update (svc_Name svc) i created
          in case start_container orch d cx svc created i isRestart st of
               (st, Inl err) \<Rightarrow> (st, Inl err)
             | (st, Inr info) \<Rightarrow> container_loop orch d cx svcs created (containers @ [info]) st)"

text \<open>The three parts of \<open>StartDeployment\<close>: files and specification, network with volumes and images, containers.\<close>

definition read_spec :: "Orchestrator \<Rightarrow> Deployment \<Rightarrow> string \<Rightarrow> ConfigFile list \<Rightarrow> ostate \<Rightarrow>
    ostate \<times> (orch_error + (string \<times> string) list \<times> ParsedSpec)" where
  "read_spec orch d composeSpec configFiles st =
     (case writeConfigFiles orch (dep_ReferenceID d) configFiles st of
        (st, Inl err) \<Rightarrow> (st, Inl (OrchError (''failed to write config files: '' @ err)))
      | (st, Inr configMounts) \<Rightarrow>
          (case ParseComposeSpec (or_unmarshal orch) (or_load orch) composeSpec of
             None \<Rightarrow> (st, Inl OrchPanic)
           | Some (Inl err) \<Rightarrow> (st, Inl (OrchError (''failed to parse compose spec: '' @ or_compose_text orch err)))
           | Some (Inr parsedSpec) \<Rightarrow> (st, Inr (configMounts, parsedSpec))))"

definition prepare_resources :: "Orchestrator \<Rightarrow> Deployment \<Rightarrow> ParsedSpec \<Rightarrow> ostate \<Rightarrow> ostate \<times> (orch_error + string)" where
  "prepare_resources orch d parsedSpec st =
     (case createDeploymentNetwork orch (dep_ReferenceID d) (NetworkName (dep_ReferenceID d)) st of
        (st, Inl err) \<Rightarrow> (st, Inl (OrchError (''failed to create network: '' @ err)))
      | (st, Inr networkID) \<Rightarrow>
          (case volume_loop orch (dep_ReferenceID d) networkID (spec_Volumes parsedSpec) st of
             (st, Some err) \<Rightarrow> (st, Inl (OrchError err))
           | (st, None) \<Rightarrow>
               (case pull_loop orch d (spec_Services parsedSpec) st of
                  (st, Some err) \<Rightarrow> (st, Inl (OrchError err))
                | (st, None) \<Rightarrow> (st, Inr networkID))))"

definition services_ctx :: "Orchestrator \<Rightarrow> Deployment \<Rightarrow> Service list \<Rightarrow> string \<Rightarrow> (string \<times> string) list \<Rightarrow>
    string + docker_ContainerInfo list \<Rightarrow> start_ctx" where
  "services_ctx orch d ordered networkID configMounts listed =
     \<lparr>sc_networkName = NetworkName (dep_ReferenceID d), sc_networkID = networkID, sc_mounts = configMounts,
      sc_existing = existing_by_service (case listed of Inl _ \<Rightarrow> [] | Inr cs \<Rightarrow> cs),
      sc_primary = primary_service ordered\<rparr>"

definition start_services :: "Orchestrator \<Rightarrow> Deployment \<Rightarrow> ParsedSpec \<Rightarrow> string \<Rightarrow> (string \<times> string) list \<Rightarrow> ostate \<Rightarrow>
    ostate \<times> (orch_error + ContainerInfo list)" where
  "start_services orch d parsedSpec networkID configMounts st =
     (case list_deployment orch d st of
        (st, listed) \<Rightarrow>
          let ordered = TopologicalSort (or_keys orch (spec_Services parsedSpec)) (spec_Services parsedSpec)
          in container_loop orch d (services_ctx orch d ordered networkID configMounts listed) ordered [] [] st)"

definition StartDeployment ::
  "Orchestrator \<Rightarrow> Deployment \<Rightarrow> string \<Rightarrow> ConfigFile list \<Rightarrow> ostate \<Rightarrow> ostate \<times> (orch_error + ContainerInfo list)" where
  "StartDeployment orch d composeSpec configFiles st =
     (case read_spec orch d composeSpec configFiles st of
        (st, Inl err) \<Rightarrow> (st, Inl err)
      | (st, Inr (configMounts, parsedSpec)) \<Rightarrow>
          (case prepare_resources orch d parsedSpec st of
             (st, Inl err) \<Rightarrow> (st, Inl err)
           | (st, Inr networkID) \<Rightarrow> start_services orch d parsedSpec networkID configMounts st))"

section \<open>Waiting for healthy containers\<close>

definition container_ready :: "string \<Rightarrow> docker_ContainerInfo \<Rightarrow> string + bool" where
  "container_ready serviceName info =
     (if dci_Health info \<noteq> [] then
        if dci_Health info = ''unhealthy'' then Inl (''container '' @ serviceName @ '' is unhealthy'')
        else Inr (dci_Health info = ''healthy'')
      else Inr (dci_Status info = ContainerStatusRunning))"

fun healthy_loop :: "Orchestrator \<Rightarrow> ContainerInfo list \<Rightarrow> ostate \<Rightarrow> ostate \<times> (string + bool)" where
  "healthy_loop orch [] st = (st, Inr True)"
| "healthy_loop orch (c # cs) st =
     (case dc_InspectContainer (or_docker orch) (os_calls st) (ci_ID c) of
        Inl err \<Rightarrow> (log_call (CallInspectContainer (ci_ID c)) st, Inl (''failed to inspect container '' @ ci_ServiceName c @ '': '' @ err))
      | Inr info \<Rightarrow>
          (case container_ready (ci_ServiceName c) info of
             Inl err \<Rightarrow> (log_call (CallInspectContainer (ci_ID c)) st, Inl err)
           | Inr False \<Rightarrow> (log_call (CallInspectContainer (ci_ID c)) st, Inr False)
           | Inr True \<Rightarrow> healthy_loop orch cs (log_call (CallInspectContainer (ci_ID c)) st)))"

definition checkAllContainersHealthy :: "Orchestrator \<Rightarrow> Deployment \<Rightarrow> ostate \<Rightarrow> ostate \<times> (string + bool)" where
  "checkAllContainersHealthy orch d st = healthy_loop orch (dep_Containers d) st"

text \<open>
  The \<open>select\<close> of round \<open>k\<close> takes the cancellation of the context when \<open>we_done\<close> gives its error and the tick of the
  five-second ticker otherwise; \<open>we_now k\<close> is the clock after the check of round \<open>k\<close>, \<open>we_start\<close> the clock on entry.
\<close>

record wait_env =
  we_done :: "nat \<Rightarrow> string option"
  we_start :: int
  we_now :: "nat \<Rightarrow> int"

definition wait_timeout_error :: string where
  "wait_timeout_error = ''timeout waiting for containers to become healthy''"

partial_function (option) wait_loop ::
  "Orchestrator \<Rightarrow> Deployment \<Rightarrow> wait_env \<Rightarrow> int \<Rightarrow> nat \<Rightarrow> ostate \<Rightarrow> (ostate \<times> string option) option" where
  "wait_loop orch d w deadline k st =
     (case we_done w k of
        Some err \<Rightarrow> Some (st, Some err)
      | None \<Rightarrow>
          (case checkAllContainersHealthy orch d st of
             (st', Inl err) \<Rightarrow> Some (st', Some err)
           | (st', Inr allHealthy) \<Rightarrow>
               if allHealthy then Some (st', None)
               else if deadline < we_now w k then Some (st', Some wait_timeout_error)
               else wait_loop orch d w deadline (Suc k) st'))"

definition WaitForHealthy :: "Orchestrator \<Rightarrow> Deployment \<Rightarrow> wait_env \<Rightarrow> int \<Rightarrow> ostate \<Rightarrow> (ostate \<times> string option) option" where
  "WaitForHealthy orch d w timeout st = wait_loop orch d w (we_start w + timeout) 0 st"

section \<open>Stopping and removing\<close>

definition stop_timeout :: int where
  "stop_timeout = 10 * 1000000000"

definition label_value :: "docker_ContainerInfo \<Rightarrow> string" where
  "label_value c = (case dci_Labels c LabelService of Some svc \<Rightarrow> svc | None \<Rightarrow> [])"

fun stop_loop :: "Orchestrator \<Rightarrow> Deployment \<Rightarrow> docker_ContainerInfo list \<Rightarrow> ostate \<Rightarrow> ostate \<times> orch_error option" where
  "stop_loop orch d [] st = (st, None)"
| "stop_loop orch d (c # cs) st =
     (if dci_Status c = ContainerStatusRunning then
        if short_id (dci_ID c) then (st, Some OrchPanic)
        else
          let failed = dc_StopContainer (or_docker orch) (os_calls st) (dci_ID c);
              st = log_call (CallStopContainer (dci_ID c) stop_timeout) st
          in stop_loop orch d cs
               (if failed = None then recordEvent orch (dep_ID d) EventContainerStopped (label_value c) st else st)
      else stop_loop orch d cs st)"

definition StopDeployment :: "Orchestrator \<Rightarrow> Deployment \<Rightarrow> ostate \<Rightarrow> ostate \<times> orch_error option" where
  "StopDeployment orch d st =
     (case list_deployment orch d st of
        (st, Inl err) \<Rightarrow> (st, Some (OrchError (''failed to list containers: '' @ err)))
      | (st, Inr containers) \<Rightarrow> stop_loop orch d containers st)"

fun remove_loop :: "docker_ContainerInfo list \<Rightarrow> ostate \<Rightarrow> ostate \<times> orch_error option" where
  "remove_loop [] st = (st, None)"
| "remove_loop (c # cs) st =
     (let st = (if dci_Status c = ContainerStatusRunning then log_call (CallStopContainer (dci_ID c) stop_timeout) st else st);
          st = log_call (CallRemoveContainer (dci_ID c) True False) st
      in if short_id (dci_ID c) then (st, Some OrchPanic) else remove_loop cs st)"

definition RemoveDeployment :: "Orchestrator \<Rightarrow> Deployment \<Rightarrow> ostate \<Rightarrow> ostate \<times> orch_error option" where
  "RemoveDeployment orch d st =
     (case list_deployment orch d st of
        (st, Inl err) \<Rightarrow> (st, Some (OrchError (''failed to list containers: '' @ err)))
      | (st, Inr containers) \<Rightarrow>
          (case remove_loop containers st of
             (st, Some p) \<Rightarrow> (st, Some p)
           | (st, None) \<Rightarrow> (RemoveNetwork_call (NetworkName (dep_ReferenceID d)) st, None)))"

section \<open>Logs and refresh\<close>

text \<open>One read into a buffer of 64 KB.\<close>

definition GetContainerLogs :: "Orchestrator \<Rightarrow> string \<Rightarrow> string \<Rightarrow> ostate \<Rightarrow> ostate \<times> (string + string)" where
  "GetContainerLogs orch containerID tail st =
     (log_call (CallContainerLogs containerID tail True) st,
      map_sum id (take (64 * 1024)) (dc_ContainerLogs (or_docker orch) (os_calls st) containerID tail))"

definition service_of :: "docker_ContainerInfo \<Rightarrow> string" where
  "service_of c =
     (case dci_Labels c LabelService of
        Some svc \<Rightarrow> svc
      | None \<Rightarrow> let parts = SplitByte CHR ''_'' (dci_Name c) in if 3 \<le> length parts then last parts else [])"

definition RefreshContainerInfo :: "Orchestrator \<Rightarrow> Deployment \<Rightarrow> ostate \<Rightarrow> ostate \<times> (string + ContainerInfo list)" where
  "RefreshContainerInfo orch d st =
     (case list_deployment orch d st of
        (st, Inl err) \<Rightarrow> (st, Inl err)
      | (st, Inr containers) \<Rightarrow>
          (st, Inr (map (\<lambda>c. \<lparr>ci_ID = dci_ID c, ci_ServiceName = service_of c, ci_Image = dci_Image c,
                             ci_Status = dci_Status c, ci_Ports = convertPorts (dci_Ports c)\<rparr>) containers)))"

section \<open>Traces\<close>

lemma os_calls_log [simp]: "os_calls (log_call c st) = os_calls st @ [c]"
  by (simp add: log_call_def)

lemma os_calls_recordEvent [simp]: "os_calls (recordEvent orch n e c st) = os_calls st"
  by (simp add: recordEvent_def)

lemma os_calls_RemoveNetwork [simp]: "os_calls (RemoveNetwork_call n st) = os_calls st @ [CallRemoveNetwork n]"
  by (simp add: RemoveNetwork_call_def)

lemma os_calls_files [simp]: "os_calls (os_files_update f st) = os_calls st"
  by simp

text \<open>The containers that a trace created, with the specification and the answer of the client.\<close>

definition made :: "docker_client \<Rightarrow> docker_call list \<Rightarrow> docker_ContainerSpec \<Rightarrow> string \<Rightarrow> bool" where
  "made dc calls spec i \<longleftrightarrow>
     (\<exists>pre post. calls = pre @ CallCreateContainer spec # post \<and> dc_CreateContainer dc pre spec = Inr i)"

lemma made_Nil [simp]: "\<not> made dc [] spec i"
  by (simp add: made_def)

lemma made_snoc:
  "made dc (calls @ [c]) spec i \<longleftrightarrow>
     made dc calls spec i \<or> c = CallCreateContainer spec \<and> dc_CreateContainer dc calls spec = Inr i"
proof
  assume "made dc (calls @ [c]) spec i"
  then obtain pre post where e: "calls @ [c] = pre @ CallCreateContainer spec # post"
    and a: "dc_CreateContainer dc pre spec = Inr i"
    by (auto simp: made_def)
  show "made dc calls spec i \<or> c = CallCreateContainer spec \<and> dc_CreateContainer dc calls spec = Inr i"
  proof (cases post rule: rev_cases)
    case Nil
    then show ?thesis using e a by simp
  next
    case (snoc ps q)
    then have "calls = pre @ CallCreateContainer spec # ps" using e by simp
    then show ?thesis using a unfolding made_def by blast
  qed
next
  assume "made dc calls spec i \<or> c = CallCreateContainer spec \<and> dc_CreateContainer dc calls spec = Inr i"
  then show "made dc (calls @ [c]) spec i" unfolding made_def by fastforce
qed

definition creates :: "docker_call \<Rightarrow> bool" where
  "creates c \<longleftrightarrow> (\<exists>spec. c = CallCreateContainer spec)"

lemma creates_simps [simp]:
  "creates (CallCreateContainer spec)" "\<not> creates (CallStartContainer i)" "\<not> creates (CallStopContainer i t)"
  "\<not> creates (CallRemoveContainer i f v)" "\<not> creates (CallInspectContainer i)" "\<not> creates (CallListContainers b l)"
  "\<not> creates (CallCreateNetwork n)" "\<not> creates (CallRemoveNetwork m)" "\<not> creates (CallCreateVolume vs)"
  "\<not> creates (CallPullImage img)" "\<not> creates (CallImageExists img)"
  by (simp_all add: creates_def)

lemma made_other: "list_all (\<lambda>c. \<not> creates c) new \<Longrightarrow> made dc (calls @ new) spec i \<longleftrightarrow> made dc calls spec i"
proof (induction new rule: rev_induct)
  case (snoc c new)
  then show ?case using made_snoc [of dc "calls @ new" c] by (auto simp: creates_def)
qed simp

lemma made_mono: "made dc calls spec i \<Longrightarrow> made dc (calls @ new) spec i"
  unfolding made_def by (metis append.assoc append_Cons)

text \<open>The containers started, in order.\<close>

fun starts :: "docker_call list \<Rightarrow> string list" where
  "starts [] = []"
| "starts (CallStartContainer i # cs) = i # starts cs"
| "starts (c # cs) = starts cs"

lemma starts_append [simp]: "starts (xs @ ys) = starts xs @ starts ys"
  by (induction xs rule: starts.induct) simp_all

section \<open>The phases before the containers\<close>

text \<open>Calls of the phases that prepare the network, the volumes and the images.\<close>

fun preparing :: "docker_call \<Rightarrow> bool" where
  "preparing (CallCreateNetwork _) = True"
| "preparing (CallCreateVolume _) = True"
| "preparing (CallPullImage _) = True"
| "preparing (CallImageExists _) = True"
| "preparing (CallListContainers _ _) = True"
| "preparing _ = False"

lemma preparing_creates: "preparing c \<Longrightarrow> \<not> creates c"
  by (cases c) simp_all

lemma preparing_starts: "list_all preparing cs \<Longrightarrow> starts cs = []"
proof (induction cs)
  case (Cons c cs)
  then show ?case by (cases c) simp_all
qed simp

lemma write_loop_calls: "write_loop orch dir cfs mounts st = (st', r) \<Longrightarrow> os_calls st' = os_calls st"
  by (induction orch dir cfs mounts st rule: write_loop.induct) (auto simp: Let_def split: option.splits)

lemma writeConfigFiles_calls: "writeConfigFiles orch i cfs st = (st', r) \<Longrightarrow> os_calls st' = os_calls st"
  by (auto simp: writeConfigFiles_def Let_def write_loop_calls split: if_splits sum.splits option.splits)

lemma network_calls:
  "createDeploymentNetwork orch i n st = (st', r) \<Longrightarrow>
     os_calls st' = os_calls st @ [CallCreateNetwork (network_spec i n)]
       \<and> (case r of Inl err \<Rightarrow> dc_CreateNetwork (or_docker orch) (os_calls st) (network_spec i n) = Inl err
                  | Inr m \<Rightarrow> dc_CreateNetwork (or_docker orch) (os_calls st) (network_spec i n) = Inr m \<or> m = n)"
  by (auto simp: createDeploymentNetwork_def Let_def split: sum.splits if_splits)

lemma volume_calls:
  "createDeploymentVolume orch i n st = (st', r) \<Longrightarrow> \<exists>spec. os_calls st' = os_calls st @ [CallCreateVolume spec]"
  by (auto simp: createDeploymentVolume_def Let_def split: sum.splits if_splits)

lemma volume_loop_calls:
  "volume_loop orch i n vols st = (st', r) \<Longrightarrow>
     \<exists>new. list_all preparing new \<and> os_calls st' = os_calls st @ new @ (if r = None then [] else [CallRemoveNetwork n])"
proof (induction orch i n vols st arbitrary: st' r rule: volume_loop.induct)
  case (1 orch i n st)
  then show ?case by simp
next
  case (2 orch i n vol vols st)
  obtain st1 r1 where v: "createDeploymentVolume orch i (VolumeName i (vol_Name vol)) st = (st1, r1)" by fastforce
  obtain spec where c: "os_calls st1 = os_calls st @ [CallCreateVolume spec]" using volume_calls [OF v] by blast
  consider (ext) "vol_External vol" | (bad) err where "\<not> vol_External vol" "r1 = Inl err"
    | (good) m where "\<not> vol_External vol" "r1 = Inr m"
    by (cases r1) auto
  then show ?case
  proof cases
    case ext
    then show ?thesis using 2 by simp
  next
    case bad
    then show ?thesis using 2(3) v c by (intro exI [of _ "[CallCreateVolume spec]"]) auto
  next
    case good
    then have "volume_loop orch i n vols st1 = (st', r)" using 2(3) v by simp
    then obtain new where "list_all preparing new"
      "os_calls st' = os_calls st1 @ new @ (if r = None then [] else [CallRemoveNetwork n])"
      using 2(2) [OF good(1) v [symmetric] good(2)] by blast
    then show ?thesis using c by (intro exI [of _ "CallCreateVolume spec # new"]) simp
  qed
qed

definition pull_failed :: "docker_client \<Rightarrow> docker_call list \<Rightarrow> bool" where
  "pull_failed dc calls \<longleftrightarrow>
     (\<exists>pre img err. calls = pre @ [CallPullImage img] \<and> dc_PullImage dc pre img = Some err)"

lemma pull_loop_calls:
  "pull_loop orch d svcs st = (st', r) \<Longrightarrow>
     (\<exists>new. list_all preparing new \<and> os_calls st' = os_calls st @ new)
     \<and> (r \<noteq> None \<longrightarrow> pull_failed (or_docker orch) (os_calls st'))"
proof (induction svcs arbitrary: st)
  case Nil
  then show ?case by simp
next
  case (Cons svc svcs)
  let ?img = "svc_Image svc"
  let ?exists = "log_call (CallImageExists ?img) st"
  let ?pulling = "recordEvent orch (dep_ID d) EventImagePulling ?img ?exists"
  let ?pulled = "log_call (CallPullImage ?img) ?pulling"
  consider (skip) "pull_loop orch d svcs st = (st', r)" | (present) "pull_loop orch d svcs ?exists = (st', r)"
    | (bad) err where "dc_PullImage (or_docker orch) (os_calls ?exists) ?img = Some err" "st' = ?pulled"
    | (good) "pull_loop orch d svcs (recordEvent orch (dep_ID d) EventImagePulled ?img ?pulled) = (st', r)"
    using Cons.prems by (auto simp: Let_def split: if_splits option.splits)
  then show ?case
  proof cases
    case skip
    then show ?thesis by (rule Cons.IH)
  next
    case present
    from Cons.IH [OF this] show ?thesis by (auto intro: exI [of _ "CallImageExists ?img # _"])
  next
    case bad
    then have "pull_failed (or_docker orch) (os_calls st')"
      unfolding pull_failed_def by (intro exI [of _ "os_calls ?exists"]) auto
    then show ?thesis using bad by (auto intro: exI [of _ "[CallImageExists ?img, CallPullImage ?img]"])
  next
    case good
    from Cons.IH [OF this] show ?thesis
      by (auto intro: exI [of _ "CallImageExists ?img # CallPullImage ?img # _"])
  qed
qed

section \<open>The container phase\<close>

definition removal :: "string \<times> string \<Rightarrow> docker_call list" where
  "removal c = [CallStopContainer (snd c) 5000000000, CallRemoveContainer (snd c) True False]"

lemma removal_other: "list_all (\<lambda>c. \<not> creates c) (concat (map removal cs) @ [CallRemoveNetwork n])"
  by (induction cs) (simp_all add: removal_def)

lemma cleanup_loop_done:
  "cleanup_loop cs st = (st', None) \<Longrightarrow> os_calls st' = os_calls st @ concat (map removal cs)"
  by (induction cs st rule: cleanup_loop.induct) (auto simp: Let_def removal_def split: if_splits)

lemma abort_start_error:
  "abort_start orch created n err st = (st', r) \<Longrightarrow>
     r = Inl OrchPanic
     \<or> r = Inl (OrchError err)
       \<and> os_calls st' = os_calls st @ concat (map removal (or_order orch created)) @ [CallRemoveNetwork n]"
proof -
  have "cleanup_loop cs s = (s', Some p) \<Longrightarrow> p = OrchPanic" for cs s s' p
    by (induction cs s rule: cleanup_loop.induct) (auto simp: Let_def split: if_splits)
  then show "abort_start orch created n err st = (st', r) \<Longrightarrow> ?thesis"
    by (auto simp: abort_start_def cleanupCreatedContainers_def dest: cleanup_loop_done
        split: prod.splits option.splits)
qed

abbreviation service_spec :: "Orchestrator \<Rightarrow> Deployment \<Rightarrow> start_ctx \<Rightarrow> Service \<Rightarrow> docker_ContainerSpec" where
  "service_spec orch d cx svc \<equiv>
     buildContainerSpec orch d svc (ContainerName (dep_ReferenceID d) (svc_Name svc)) (sc_networkName cx)
       (sc_mounts cx) (svc_Name svc = sc_primary cx)"

lemma obtain_container_ok:
  "obtain_container orch d cx svc created st = (st', Inr (i, again)) \<Longrightarrow>
     sc_existing cx (svc_Name svc) = Some i \<and> os_calls st' = os_calls st
     \<or> sc_existing cx (svc_Name svc) = None
       \<and> os_calls st' = os_calls st @ [CallCreateContainer (service_spec orch d cx svc)]
       \<and> dc_CreateContainer (or_docker orch) (os_calls st) (service_spec orch d cx svc) = Inr i"
  unfolding obtain_container_def Let_def
  by (auto split: option.splits sum.splits if_splits dest: abort_start_error)

lemma obtain_container_error:
  "obtain_container orch d cx svc created st = (st', Inl (OrchError e)) \<Longrightarrow>
     (\<exists>err. dc_CreateContainer (or_docker orch) (os_calls st) (service_spec orch d cx svc) = Inl err)
     \<and> os_calls st' = os_calls st @ [CallCreateContainer (service_spec orch d cx svc)]
         @ concat (map removal (or_order orch created)) @ [CallRemoveNetwork (sc_networkID cx)]"
  unfolding obtain_container_def Let_def
  by (auto split: option.splits sum.splits if_splits dest: abort_start_error)

lemma start_container_ok:
  "start_container orch d cx svc created i again st = (st', Inr info) \<Longrightarrow>
     os_calls st' = os_calls st @ [CallStartContainer i, CallInspectContainer i] \<and> ci_ServiceName info = svc_Name svc"
  unfolding start_container_def Let_def
  by (auto split: sum.splits if_splits dest: abort_start_error)

lemma start_container_error:
  "start_container orch d cx svc created i again st = (st', Inl (OrchError e)) \<Longrightarrow>
     \<exists>new. list_all (\<lambda>c. \<not> creates c) new
       \<and> os_calls st' = os_calls st @ new @ concat (map removal (or_order orch created)) @ [CallRemoveNetwork (sc_networkID cx)]"
  unfolding start_container_def Let_def
  by (auto split: sum.splits if_splits dest!: abort_start_error
      intro: exI [of _ "[CallStartContainer i]"] exI [of _ "[CallStartContainer i, CallInspectContainer i]"])

text \<open>Whose container an identifier is: one listed before the start, or one created for the service.\<close>

definition container_of :: "Orchestrator \<Rightarrow> Deployment \<Rightarrow> start_ctx \<Rightarrow> docker_call list \<Rightarrow> Service \<Rightarrow> string \<Rightarrow> bool" where
  "container_of orch d cx calls svc i \<longleftrightarrow>
     sc_existing cx (svc_Name svc) = Some i
     \<or> sc_existing cx (svc_Name svc) = None \<and> made (or_docker orch) calls (service_spec orch d cx svc) i"

lemma container_of_mono: "container_of orch d cx calls svc i \<Longrightarrow> container_of orch d cx (calls @ new) svc i"
  unfolding container_of_def by (auto intro: made_mono)

lemma container_loop_ok:
  "container_loop orch d cx svcs created containers st = (st', Inr result) \<Longrightarrow>
     \<exists>ids infos new. list_all2 (container_of orch d cx (os_calls st')) svcs ids
       \<and> os_calls st' = os_calls st @ new \<and> starts new = ids
       \<and> result = containers @ infos \<and> map ci_ServiceName infos = map svc_Name svcs"
proof (induction svcs arbitrary: created containers st)
  case Nil
  then show ?case by simp
next
  case (Cons svc svcs)
  obtain st1 i again where o: "obtain_container orch d cx svc created st = (st1, Inr (i, again))"
    using Cons.prems by (auto split: prod.splits sum.splits)
  obtain st2 info where s: "start_container orch d cx svc (AList.update (svc_Name svc) i created) i again st1 = (st2, Inr info)"
    using Cons.prems o by (auto simp: Let_def split: prod.splits sum.splits)
  have "container_loop orch d cx svcs (AList.update (svc_Name svc) i created) (containers @ [info]) st2 = (st', Inr result)"
    using Cons.prems o s by (simp add: Let_def)
  from Cons.IH [OF this] obtain ids infos new where
    ih: "list_all2 (container_of orch d cx (os_calls st')) svcs ids" "os_calls st' = os_calls st2 @ new"
      "starts new = ids" "result = (containers @ [info]) @ infos" "map ci_ServiceName infos = map svc_Name svcs"
    by blast
  note c2 = start_container_ok [OF s]
  have "container_of orch d cx (os_calls st1) svc i"
    using obtain_container_ok [OF o] by (auto simp: container_of_def made_snoc)
  then have "container_of orch d cx (os_calls st') svc i"
    using c2 ih(2) container_of_mono by (metis append.assoc)
  moreover obtain first where "os_calls st1 = os_calls st @ first" "starts first = []"
    using obtain_container_ok [OF o] by auto
  ultimately show ?case using ih c2
    by (intro exI [of _ "i # ids"] exI [of _ "info # infos"]
        exI [of _ "first @ CallStartContainer i # CallInspectContainer i # new"]) simp
qed

lemma set_update_new: "k \<notin> fst ` set al \<Longrightarrow> set (AList.update k v al) = insert (k, v) (set al)"
  by (induction al) auto

text \<open>A trace is tracked by the map of created containers when it contains every container made.\<close>

definition tracked :: "docker_client \<Rightarrow> (string \<times> string) list \<Rightarrow> docker_call list \<Rightarrow> bool" where
  "tracked dc created calls \<longleftrightarrow> (\<forall>spec i. made dc calls spec i \<longrightarrow> i \<in> snd ` set created)"

lemma tracked_other: "list_all (\<lambda>c. \<not> creates c) new \<Longrightarrow> tracked dc created (calls @ new) \<longleftrightarrow> tracked dc created calls"
  by (simp add: tracked_def made_other)

lemma tracked_snoc:
  "tracked dc created calls \<Longrightarrow> dc_CreateContainer dc calls spec = Inr i \<Longrightarrow> i \<in> snd ` set created' \<Longrightarrow>
     set created \<subseteq> set created' \<Longrightarrow> tracked dc created' (calls @ [CallCreateContainer spec])"
  unfolding tracked_def made_snoc by (metis docker_call.inject(1) image_mono subsetD sum.inject(2))

lemma tracked_failed:
  "tracked dc created calls \<Longrightarrow> dc_CreateContainer dc calls spec = Inl err \<Longrightarrow>
     tracked dc created (calls @ [CallCreateContainer spec])"
  by (auto simp: tracked_def made_snoc)

lemma tracked_set: "set created \<subseteq> set created' \<Longrightarrow> tracked dc created calls \<Longrightarrow> tracked dc created' calls"
  unfolding tracked_def by (meson image_mono subsetD)

definition cleaned :: "docker_client \<Rightarrow> string \<Rightarrow> docker_call list \<Rightarrow> docker_call list \<Rightarrow> bool" where
  "cleaned dc n before after \<longleftrightarrow>
     (\<exists>new cl. after = before @ new @ concat (map removal cl) @ [CallRemoveNetwork n] \<and> tracked dc cl (before @ new))"

lemma cleaned_trans: "cleaned dc n (before @ first) after \<Longrightarrow> cleaned dc n before after"
proof -
  assume "cleaned dc n (before @ first) after"
  then obtain new cl where "after = before @ (first @ new) @ concat (map removal cl) @ [CallRemoveNetwork n]"
    "tracked dc cl (before @ first @ new)"
    unfolding cleaned_def by auto
  then show "cleaned dc n before after" unfolding cleaned_def by blast
qed

lemma obtain_container_tracked:
  assumes "obtain_container orch d cx svc created st = (st1, Inr (i, again))"
    and "svc_Name svc \<notin> fst ` set created" "tracked (or_docker orch) created (os_calls st)"
  shows "tracked (or_docker orch) (AList.update (svc_Name svc) i created) (os_calls st1)
    \<and> (\<exists>first. os_calls st1 = os_calls st @ first)"
proof -
  have u: "set created \<subseteq> set (AList.update (svc_Name svc) i created)"
    "i \<in> snd ` set (AList.update (svc_Name svc) i created)"
    by (auto simp: set_update_new [OF assms(2)])
  show ?thesis
    using obtain_container_ok [OF assms(1)] tracked_set [OF u(1) assms(3)] tracked_snoc [OF assms(3) _ u(2, 1)]
    by (elim disjE) simp_all
qed

lemma obtain_container_cleaned:
  assumes "obtain_container orch d cx svc created st = (st', Inl (OrchError e))"
    and "tracked (or_docker orch) created (os_calls st)" and order: "\<And>xs. set (or_order orch xs) = set xs"
  shows "cleaned (or_docker orch) (sc_networkID cx) (os_calls st) (os_calls st')"
proof -
  note e = obtain_container_error [OF assms(1)]
  then have "tracked (or_docker orch) created (os_calls st @ [CallCreateContainer (service_spec orch d cx svc)])"
    using tracked_failed [OF assms(2)] by blast
  then have "tracked (or_docker orch) (or_order orch created)
      (os_calls st @ [CallCreateContainer (service_spec orch d cx svc)])"
    using tracked_set order by blast
  then show ?thesis using e unfolding cleaned_def by blast
qed

lemma start_container_cleaned:
  assumes "start_container orch d cx svc created i again st = (st', Inl (OrchError e))"
    and "tracked (or_docker orch) created (os_calls st)" and order: "\<And>xs. set (or_order orch xs) = set xs"
  shows "cleaned (or_docker orch) (sc_networkID cx) (os_calls st) (os_calls st')"
proof -
  obtain new where n: "list_all (\<lambda>c. \<not> creates c) new"
    "os_calls st' = os_calls st @ new @ concat (map removal (or_order orch created)) @ [CallRemoveNetwork (sc_networkID cx)]"
    using start_container_error [OF assms(1)] by blast
  have "tracked (or_docker orch) (or_order orch created) (os_calls st @ new)"
    using tracked_set [OF _ assms(2), of "or_order orch created"] order n(1) by (simp add: tracked_other)
  then show ?thesis using n(2) unfolding cleaned_def by blast
qed

lemma container_loop_error:
  assumes "container_loop orch d cx svcs created containers st = (st', Inl (OrchError e))"
    and "distinct (map svc_Name svcs)" "fst ` set created \<inter> svc_Name ` set svcs = {}"
    and "tracked (or_docker orch) created (os_calls st)" and order: "\<And>xs. set (or_order orch xs) = set xs"
  shows "cleaned (or_docker orch) (sc_networkID cx) (os_calls st) (os_calls st')"
  using assms(1-4)
proof (induction svcs arbitrary: created containers st)
  case Nil
  then show ?case by simp
next
  case (Cons svc svcs)
  consider (failed) "obtain_container orch d cx svc created st = (st', Inl (OrchError e))"
    | (got) st1 i again where "obtain_container orch d cx svc created st = (st1, Inr (i, again))"
    using Cons.prems(1) by (auto split: prod.splits sum.splits)
  then show ?case
  proof cases
    case failed
    then show ?thesis using Cons.prems(4) order by (rule obtain_container_cleaned)
  next
    case got
    let ?created = "AList.update (svc_Name svc) i created"
    have fresh: "svc_Name svc \<notin> fst ` set created" using Cons.prems(3) by auto
    obtain first where t: "tracked (or_docker orch) ?created (os_calls st1)" and f: "os_calls st1 = os_calls st @ first"
      using obtain_container_tracked [OF got fresh Cons.prems(4)] by blast
    consider (unstarted) "start_container orch d cx svc ?created i again st1 = (st', Inl (OrchError e))"
      | (started) st2 info where "start_container orch d cx svc ?created i again st1 = (st2, Inr info)"
        "container_loop orch d cx svcs ?created (containers @ [info]) st2 = (st', Inl (OrchError e))"
      using Cons.prems(1) got by (auto simp: Let_def split: prod.splits sum.splits)
    then have "cleaned (or_docker orch) (sc_networkID cx) (os_calls st1) (os_calls st')"
    proof cases
      case unstarted
      then show ?thesis using t order by (rule start_container_cleaned)
    next
      case started
      have c2: "os_calls st2 = os_calls st1 @ [CallStartContainer i, CallInspectContainer i]"
        using start_container_ok [OF started(1)] by simp
      have "tracked (or_docker orch) ?created (os_calls st2)" using t by (simp add: c2 tracked_other)
      moreover have "fst ` set ?created \<inter> svc_Name ` set svcs = {}"
        using Cons.prems(2, 3) by (auto simp: set_update_new [OF fresh])
      ultimately have "cleaned (or_docker orch) (sc_networkID cx) (os_calls st2) (os_calls st')"
        using Cons.IH [OF started(2)] Cons.prems(2) by simp
      then show ?thesis unfolding c2 by (rule cleaned_trans)
    qed
    then show ?thesis unfolding f by (rule cleaned_trans)
  qed
qed

section \<open>Starting a deployment\<close>

lemma read_spec_calls:
  "read_spec orch d y cfs st = (st', r) \<Longrightarrow> os_calls st' = os_calls st
     \<and> (\<forall>mounts spec. r = Inr (mounts, spec) \<longrightarrow> ParseComposeSpec (or_unmarshal orch) (or_load orch) y = Some (Inr spec))"
  unfolding read_spec_def
  by (auto split: prod.splits sum.splits option.splits dest: writeConfigFiles_calls)

abbreviation deployment_network :: "Deployment \<Rightarrow> docker_NetworkSpec" where
  "deployment_network d \<equiv> network_spec (dep_ReferenceID d) (NetworkName (dep_ReferenceID d))"

text \<open>The identifier of the network: the answer of the client, or the name of a network that exists already.\<close>

definition network_of :: "Orchestrator \<Rightarrow> Deployment \<Rightarrow> docker_call list \<Rightarrow> string \<Rightarrow> bool" where
  "network_of orch d calls n \<longleftrightarrow>
     dc_CreateNetwork (or_docker orch) calls (deployment_network d) = Inr n \<or> n = NetworkName (dep_ReferenceID d)"

lemma prepare_resources_ok:
  assumes "prepare_resources orch d spec st = (st', Inr n)"
  shows "network_of orch d (os_calls st) n \<and> (\<exists>new. list_all preparing new \<and> os_calls st' = os_calls st @ new)"
proof -
  obtain st1 st2 where s: "createDeploymentNetwork orch (dep_ReferenceID d) (NetworkName (dep_ReferenceID d)) st = (st1, Inr n)"
    "volume_loop orch (dep_ReferenceID d) n (spec_Volumes spec) st1 = (st2, None)"
    "pull_loop orch d (spec_Services spec) st2 = (st', None)"
    using assms by (auto simp: prepare_resources_def split: prod.splits sum.splits option.splits)
  obtain v where "list_all preparing v" "os_calls st2 = os_calls st1 @ v" using volume_loop_calls [OF s(2)] by auto
  moreover obtain p where "list_all preparing p" "os_calls st' = os_calls st2 @ p" using pull_loop_calls [OF s(3)] by auto
  ultimately show ?thesis using network_calls [OF s(1)]
    by (auto simp: network_of_def intro: exI [of _ "CallCreateNetwork _ # v @ p"])
qed

text \<open>Failing there leaves the network behind only when an image could not be pulled.\<close>

lemma prepare_resources_error:
  assumes "prepare_resources orch d spec st = (st', Inl e)"
  shows "\<exists>msg new. e = OrchError msg \<and> list_all preparing new
    \<and> (os_calls st' = os_calls st @ new
         \<and> ((\<exists>err. new = [CallCreateNetwork (deployment_network d)]
                \<and> dc_CreateNetwork (or_docker orch) (os_calls st) (deployment_network d) = Inl err)
            \<or> pull_failed (or_docker orch) (os_calls st'))
       \<or> (\<exists>n. network_of orch d (os_calls st) n \<and> os_calls st' = os_calls st @ new @ [CallRemoveNetwork n]))"
proof -
  let ?nets = "[CallCreateNetwork (deployment_network d)]"
  obtain st1 rn where n: "createDeploymentNetwork orch (dep_ReferenceID d) (NetworkName (dep_ReferenceID d)) st = (st1, rn)"
    by fastforce
  note c1 = network_calls [OF n]
  show ?thesis
  proof (cases rn)
    case (Inl err)
    then show ?thesis using assms n c1 by (auto simp: prepare_resources_def)
  next
    case rn: (Inr m)
    obtain st2 rv where v: "volume_loop orch (dep_ReferenceID d) m (spec_Volumes spec) st1 = (st2, rv)" by fastforce
    obtain vs where vs: "list_all preparing vs" "os_calls st2 = os_calls st1 @ vs @ (if rv = None then [] else [CallRemoveNetwork m])"
      using volume_loop_calls [OF v] by blast
    have m: "network_of orch d (os_calls st) m" using c1 rn by (simp add: network_of_def)
    show ?thesis
    proof (cases rv)
      case (Some err)
      then have "e = OrchError err" "st' = st2" using assms n rn v by (simp_all add: prepare_resources_def)
      then show ?thesis using vs c1 m Some by (intro exI [of _ err] exI [of _ "?nets @ vs"]) auto
    next
      case None
      then obtain err where p: "pull_loop orch d (spec_Services spec) st2 = (st', Some err)" "e = OrchError err"
        using assms n rn v by (auto simp: prepare_resources_def split: prod.splits option.splits)
      obtain ps where "list_all preparing ps" "os_calls st' = os_calls st2 @ ps" "pull_failed (or_docker orch) (os_calls st')"
        using pull_loop_calls [OF p(1)] by auto
      then show ?thesis using vs c1 None p(2) by (intro exI [of _ err] exI [of _ "?nets @ vs @ ps"]) auto
    qed
  qed
qed

text \<open>What compose-go checks before it returns a project.\<close>

definition load_ok :: "string + types_Project \<Rightarrow> bool" where
  "load_ok r \<longleftrightarrow>
     (case r of
        Inl _ \<Rightarrow> True
      | Inr project \<Rightarrow> distinct (map ts_Name (tj_Services project))
          \<and> (\<forall>s \<in> set (tj_Services project). set (ts_DependsOn s) \<subseteq> ts_Name ` set (tj_Services project)))"

lemma load_okD:
  "load_ok r \<Longrightarrow> r = Inr project \<Longrightarrow> distinct (map ts_Name (tj_Services project))
     \<and> (\<forall>s \<in> set (tj_Services project). set (ts_DependsOn s) \<subseteq> ts_Name ` set (tj_Services project))"
  by (simp add: load_ok_def)

lemma StartDeployment_ok:
  assumes "StartDeployment orch d y cfs st = (st', Inr containers)"
  obtains spec mounts st1 st2 n where
    "ParseComposeSpec (or_unmarshal orch) (or_load orch) y = Some (Inr spec)" "os_calls st1 = os_calls st"
    "prepare_resources orch d spec st1 = (st2, Inr n)" "start_services orch d spec n mounts st2 = (st', Inr containers)"
proof -
  obtain mounts spec st1 where r: "read_spec orch d y cfs st = (st1, Inr (mounts, spec))"
    using assms by (auto simp: StartDeployment_def split: prod.splits sum.splits)
  moreover obtain st2 n where "prepare_resources orch d spec st1 = (st2, Inr n)"
    using assms r by (auto simp: StartDeployment_def split: prod.splits sum.splits)
  moreover from this r have "start_services orch d spec n mounts st2 = (st', Inr containers)"
    using assms by (simp add: StartDeployment_def)
  ultimately show ?thesis using read_spec_calls [OF r] by (intro that [of spec st1 st2 n mounts]) simp_all
qed


text \<open>How a failing start comes about.\<close>

lemma StartDeployment_failed:
  assumes "StartDeployment orch d y cfs st = (st', Inl (OrchError e))"
  obtains (spec) "os_calls st' = os_calls st"
  | (resources) spec st1 where "os_calls st1 = os_calls st" "prepare_resources orch d spec st1 = (st', Inl (OrchError e))"
  | (services) spec mounts st1 st2 n where
      "ParseComposeSpec (or_unmarshal orch) (or_load orch) y = Some (Inr spec)" "os_calls st1 = os_calls st"
      "prepare_resources orch d spec st1 = (st2, Inr n)" "start_services orch d spec n mounts st2 = (st', Inl (OrchError e))"
proof -
  obtain st1 r where r: "read_spec orch d y cfs st = (st1, r)" by fastforce
  note c = read_spec_calls [OF r]
  show ?thesis
  proof (cases r)
    case (Inl err)
    then show ?thesis using assms r c by (intro spec) (simp add: StartDeployment_def)
  next
    case (Inr x)
    then obtain mounts spec where x: "r = Inr (mounts, spec)" by (cases x) auto
    obtain st2 r2 where p: "prepare_resources orch d spec st1 = (st2, r2)" by fastforce
    show ?thesis
    proof (cases r2)
      case (Inl err)
      then show ?thesis using assms r x c p by (intro resources [of st1 spec]) (simp_all add: StartDeployment_def)
    next
      case (Inr n)
      then show ?thesis using assms r x c p
        by (intro services [of spec st1 st2 n mounts]) (simp_all add: StartDeployment_def)
    qed
  qed
qed

lemma preparing_tracked: "list_all preparing calls \<Longrightarrow> tracked dc [] calls"
  using tracked_other [of calls dc "[]" "[]"] by (auto simp: tracked_def preparing_creates list_all_iff)

lemma services_cleaned:
  assumes "start_services orch d spec n mounts st = (st', Inl (OrchError e))" and "list_all preparing (os_calls st)"
    and "distinct (map svc_Name (TopologicalSort (or_keys orch (spec_Services spec)) (spec_Services spec)))"
    and order: "\<And>xs. set (or_order orch xs) = set xs"
  shows "cleaned (or_docker orch) n (os_calls st) (os_calls st')"
proof -
  let ?ordered = "TopologicalSort (or_keys orch (spec_Services spec)) (spec_Services spec)"
  let ?cx = "services_ctx orch d ?ordered n mounts (dc_ListContainers (or_docker orch) (os_calls st) (label_filter d))"
  have "container_loop orch d ?cx ?ordered [] [] (log_call (CallListContainers True (label_filter d)) st) = (st', Inl (OrchError e))"
    using assms(1) by (simp add: start_services_def list_deployment_def Let_def)
  moreover have "tracked (or_docker orch) [] (os_calls (log_call (CallListContainers True (label_filter d)) st))"
    using assms(2) by (intro preparing_tracked) simp
  ultimately have "cleaned (or_docker orch) (sc_networkID ?cx) (os_calls st @ [CallListContainers True (label_filter d)]) (os_calls st')"
    using container_loop_error [OF _ assms(3) _ _ order] by fastforce
  then show ?thesis using cleaned_trans by (simp add: services_ctx_def)
qed

text \<open>
  C14: A failed start leaves no container behind. When \<open>StartDeployment\<close> returns an error, every container it
  created is stopped and then removed by force, after the last creation; the network is removed as well, unless
  it was never created or the error is that of an image that could not be pulled: then the run ends with the
  failed pull and the network stays.
\<close>

theorem StartDeployment_cleanup:
  assumes run: "StartDeployment orch d y cfs st = (st', Inl (OrchError e))" and calls: "os_calls st = []"
    and loader: "load_ok (or_load orch y)"
    and keys: "\<And>ss. distinct (or_keys orch ss) \<and> set (or_keys orch ss) = svc_Name ` set ss"
    and order: "\<And>xs. set (or_order orch xs) = set xs"
  shows "\<exists>first cl. (\<forall>spec i. made (or_docker orch) (os_calls st') spec i \<longrightarrow>
              made (or_docker orch) first spec i \<and> i \<in> snd ` set cl)
    \<and> ((\<exists>n. network_of orch d [] n \<and> os_calls st' = first @ concat (map removal cl) @ [CallRemoveNetwork n])
       \<or> os_calls st' = first \<and> cl = []
         \<and> (first = [] \<or> (\<exists>err. dc_CreateNetwork (or_docker orch) [] (deployment_network d) = Inl err)
            \<or> pull_failed (or_docker orch) first))"
  using run
proof (cases rule: StartDeployment_failed)
  case spec
  then show ?thesis using calls by (intro exI [of _ "[]"]) simp
next
  case (resources spec st1)
  obtain new where n: "list_all preparing new"
    and alt: "os_calls st' = new \<and> ((\<exists>err. dc_CreateNetwork (or_docker orch) [] (deployment_network d) = Inl err)
        \<or> pull_failed (or_docker orch) new)
      \<or> (\<exists>n. network_of orch d [] n \<and> os_calls st' = new @ [CallRemoveNetwork n])"
    using prepare_resources_error [OF resources(2)] resources(1) calls by auto
  have "\<not> made (or_docker orch) (new @ rest) s i" if "list_all (\<lambda>c. \<not> creates c) rest" for s i rest
    using preparing_tracked [OF n, of "or_docker orch"] made_other [OF that, of "or_docker orch" new] by (auto simp: tracked_def)
  from this [of "[]"] this [of "[CallRemoveNetwork _]"] show ?thesis
    using alt by (intro exI [of _ new] exI [of _ "[]"]) auto
next
  case (services spec mounts st1 st2 n)
  note sorted = accepted_spec_start_order [OF services(1) load_okD [OF loader] conjunct1 [OF keys] conjunct2 [OF keys]]
  obtain prep where "network_of orch d [] n" "list_all preparing (os_calls st2)"
    using prepare_resources_ok [OF services(3)] services(2) calls by auto
  moreover have "distinct (map svc_Name (TopologicalSort (or_keys orch (spec_Services spec)) (spec_Services spec)))"
    using sorted by blast
  ultimately obtain new cl where
    "os_calls st' = (os_calls st2 @ new) @ concat (map removal cl) @ [CallRemoveNetwork n]"
    "tracked (or_docker orch) cl (os_calls st2 @ new)"
    using services_cleaned [OF services(4) _ _ order] unfolding cleaned_def by auto
  then show ?thesis using made_other [OF removal_other, of "or_docker orch" "os_calls st2 @ new"] \<open>network_of orch d [] n\<close>
    by (intro exI [of _ "os_calls st2 @ new"] exI [of _ cl]) (auto simp: tracked_def)
qed

section \<open>Stopping and removing a deployment\<close>

definition running :: "docker_ContainerInfo \<Rightarrow> bool" where
  "running c \<longleftrightarrow> dci_Status c = ContainerStatusRunning"

definition stop_call :: "docker_ContainerInfo \<Rightarrow> docker_call" where
  "stop_call c = CallStopContainer (dci_ID c) stop_timeout"

definition takedown :: "docker_ContainerInfo \<Rightarrow> docker_call list" where
  "takedown c = (if running c then [stop_call c] else []) @ [CallRemoveContainer (dci_ID c) True False]"

lemma stop_loop_done:
  "list_all (\<lambda>c. \<not> short_id (dci_ID c)) cs \<Longrightarrow>
     snd (stop_loop orch d cs st) = None
     \<and> os_calls (fst (stop_loop orch d cs st)) = os_calls st @ map stop_call (filter running cs)"
  by (induction cs arbitrary: st) (simp_all add: Let_def running_def stop_call_def)

lemma remove_loop_done:
  "list_all (\<lambda>c. \<not> short_id (dci_ID c)) cs \<Longrightarrow>
     snd (remove_loop cs st) = None \<and> os_calls (fst (remove_loop cs st)) = os_calls st @ concat (map takedown cs)"
  by (induction cs arbitrary: st) (simp_all add: Let_def running_def stop_call_def takedown_def)

text \<open>
  What stopping and removing do. Both fail without any further call when the containers of the deployment
  cannot be listed. Otherwise they succeed, whatever the client answers: stopping stops exactly the running
  containers of the list, in order, and removes nothing; removing stops each running one, removes each
  container by force but never its volumes, and removes the network after all containers. The identifiers have
  at least the 12 characters that the log lines show.
\<close>

theorem stop_remove_calls:
  assumes ids: "\<And>cs. dc_ListContainers (or_docker orch) (os_calls st) (label_filter d) = Inr cs \<Longrightarrow>
      list_all (\<lambda>c. \<not> short_id (dci_ID c)) cs"
  defines "listing \<equiv> CallListContainers True (label_filter d)"
  shows "case dc_ListContainers (or_docker orch) (os_calls st) (label_filter d) of
      Inl err \<Rightarrow> (\<forall>act \<in> {StopDeployment orch d st, RemoveDeployment orch d st}.
         snd act = Some (OrchError (''failed to list containers: '' @ err)) \<and> os_calls (fst act) = os_calls st @ [listing])
    | Inr cs \<Rightarrow>
        snd (StopDeployment orch d st) = None
        \<and> os_calls (fst (StopDeployment orch d st)) = os_calls st @ [listing] @ map stop_call (filter running cs)
        \<and> snd (RemoveDeployment orch d st) = None
        \<and> os_calls (fst (RemoveDeployment orch d st)) =
            os_calls st @ [listing] @ concat (map takedown cs) @ [CallRemoveNetwork (NetworkName (dep_ReferenceID d))]"
proof (cases "dc_ListContainers (or_docker orch) (os_calls st) (label_filter d)")
  case (Inl err)
  then show ?thesis by (simp add: StopDeployment_def RemoveDeployment_def list_deployment_def listing_def)
next
  case (Inr cs)
  let ?st = "log_call listing st"
  obtain st2 where "remove_loop cs ?st = (st2, None)" "os_calls st2 = os_calls ?st @ concat (map takedown cs)"
    using remove_loop_done [OF ids [OF Inr], of ?st] by (cases "remove_loop cs ?st") simp
  then show ?thesis using Inr stop_loop_done [OF ids [OF Inr], of orch d ?st]
    by (simp add: StopDeployment_def RemoveDeployment_def list_deployment_def listing_def)
qed

section \<open>Waiting\<close>

text \<open>A container was seen ready in a trace when an inspection recorded there showed it so.\<close>

definition seen_ready :: "Orchestrator \<Rightarrow> docker_call list \<Rightarrow> ContainerInfo \<Rightarrow> bool" where
  "seen_ready orch calls c \<longleftrightarrow>
     (\<exists>pre post info. calls = pre @ CallInspectContainer (ci_ID c) # post
        \<and> dc_InspectContainer (or_docker orch) pre (ci_ID c) = Inr info
        \<and> container_ready (ci_ServiceName c) info = Inr True)"

lemma healthy_loop_calls:
  "healthy_loop orch cs st = (st', r) \<Longrightarrow>
     \<exists>new. os_calls st' = os_calls st @ new \<and> length new \<le> length cs
       \<and> (r = Inr True \<longrightarrow> list_all (seen_ready orch (os_calls st')) cs)"
proof (induction cs arbitrary: st)
  case Nil
  then show ?case by simp
next
  case (Cons c cs)
  let ?st = "log_call (CallInspectContainer (ci_ID c)) st"
  consider (stop) "st' = ?st" "r \<noteq> Inr True"
    | (next_one) info where "dc_InspectContainer (or_docker orch) (os_calls st) (ci_ID c) = Inr info"
      "container_ready (ci_ServiceName c) info = Inr True" "healthy_loop orch cs ?st = (st', r)"
  proof (cases "dc_InspectContainer (or_docker orch) (os_calls st) (ci_ID c)")
    case (Inl err)
    then show ?thesis using Cons.prems stop by auto
  next
    case (Inr info)
    then have loop: "healthy_loop orch (c # cs) st =
        (case container_ready (ci_ServiceName c) info of
           Inl err \<Rightarrow> (?st, Inl err) | Inr False \<Rightarrow> (?st, Inr False) | Inr True \<Rightarrow> healthy_loop orch cs ?st)"
      by simp
    show ?thesis
    proof (cases "container_ready (ci_ServiceName c) info = Inr True")
      case True
      then show ?thesis using Cons.prems loop Inr by (intro next_one) simp_all
    next
      case False
      have "st' = ?st \<and> r = container_ready (ci_ServiceName c) info"
        using Cons.prems loop False by (cases "container_ready (ci_ServiceName c) info") (simp_all split: bool.splits)
      then show ?thesis using False by (intro stop) simp_all
    qed
  qed
  then show ?case
  proof cases
    case stop
    then show ?thesis by (intro exI [of _ "[CallInspectContainer (ci_ID c)]"]) simp
  next
    case next_one
    from Cons.IH [OF this(3)] obtain new where n: "os_calls st' = os_calls st @ CallInspectContainer (ci_ID c) # new"
      "length new \<le> length cs" "r = Inr True \<longrightarrow> list_all (seen_ready orch (os_calls st')) cs"
      by auto
    moreover have "seen_ready orch (os_calls st') c" unfolding seen_ready_def using next_one n(1) by blast
    ultimately show ?thesis by (intro exI [of _ "CallInspectContainer (ci_ID c) # new"]) simp
  qed
qed

lemma wait_loop_returns:
  assumes "n = N - k" and "k \<le> N" and "deadline < we_now w N"
  shows "\<exists>st' r new. wait_loop orch d w deadline k st = Some (st', r) \<and> os_calls st' = os_calls st @ new
    \<and> length new \<le> Suc n * length (dep_Containers d)
    \<and> (r = None \<longrightarrow> list_all (seen_ready orch (os_calls st')) (dep_Containers d))"
  using assms
proof (induction n arbitrary: k st)
  case (0 k st)
  obtain st1 r1 where h: "healthy_loop orch (dep_Containers d) st = (st1, r1)" by fastforce
  show ?case
    using 0 h healthy_loop_calls [OF h]
    by (subst wait_loop.simps)
      (auto simp: checkAllContainersHealthy_def split: option.split sum.split)
next
  case (Suc n k st)
  obtain st1 r1 where h: "healthy_loop orch (dep_Containers d) st = (st1, r1)" by fastforce
  obtain new1 where c1: "os_calls st1 = os_calls st @ new1" "length new1 \<le> length (dep_Containers d)"
    "r1 = Inr True \<longrightarrow> list_all (seen_ready orch (os_calls st1)) (dep_Containers d)"
    using healthy_loop_calls [OF h] by blast
  have "n = N - Suc k" "Suc k \<le> N" using Suc.prems by auto
  from Suc.IH [OF this Suc.prems(3), of st1] obtain st' r new where
    ih: "wait_loop orch d w deadline (Suc k) st1 = Some (st', r)" "os_calls st' = os_calls st1 @ new"
      "length new \<le> Suc n * length (dep_Containers d)"
      "r = None \<longrightarrow> list_all (seen_ready orch (os_calls st')) (dep_Containers d)"
    by blast
  have "length (new1 @ new) \<le> Suc (Suc n) * length (dep_Containers d)" using c1(2) ih(3) by simp
  moreover have "length new1 \<le> Suc (Suc n) * length (dep_Containers d)" using c1(2) by (simp add: le_add1 trans_le_add1)
  ultimately show ?case
    using c1 ih h by (subst wait_loop.simps)
      (auto simp: checkAllContainersHealthy_def split: option.split sum.split)
qed


section \<open>Paths of config files\<close>

lemma clean_parts_snoc:
  "q \<noteq> [] \<Longrightarrow> q \<noteq> ''.'' \<Longrightarrow> q \<noteq> ''..'' \<Longrightarrow> clean_parts rooted stack (ps @ [q]) = clean_parts rooted stack ps @ [q]"
  by (induction rooted stack ps rule: clean_parts.induct) (auto split: list.split)

lemma join_slash_snoc: "ps \<noteq> [] \<Longrightarrow> join_slash (ps @ [q]) = join_slash ps @ ''/'' @ q"
  by (induction ps rule: join_slash.induct) simp_all

lemma SplitByte_snoc: "c \<notin> set q \<Longrightarrow> SplitByte c (s @ c # q) = SplitByte c s @ [q]"
  by (induction c s rule: SplitByte.induct) (auto simp: SplitByte_no_sep split: list.split)

text \<open>A clean absolute directory other than the root.\<close>

definition clean_dir :: "string \<Rightarrow> bool" where
  "clean_dir dir \<longleftrightarrow> HasPrefix dir ''/'' \<and> dir \<noteq> ''/'' \<and> filepath_Clean dir = dir"

lemma Clean_rooted:
  "HasPrefix p ''/'' \<Longrightarrow> filepath_Clean p = ''/'' @ join_slash (clean_parts True [] (SplitByte CHR ''/'' p))"
  by (simp add: filepath_Clean_def)

lemma HasPrefix_dir: "HasPrefix dir ''/'' \<Longrightarrow> HasPrefix (dir @ s) ''/''"
  by (cases dir) (simp_all add: HasPrefix_def)

lemma clean_dirD:
  assumes "clean_dir dir"
  shows "HasPrefix (dir @ s) ''/''" "dir \<noteq> ''/''" "''/'' @ join_slash (clean_parts True [] (SplitByte CHR ''/'' dir)) = dir"
    "filepath_Clean dir = dir"
  using assms HasPrefix_dir Clean_rooted [of dir] by (auto simp: clean_dir_def)

lemma Clean_child:
  assumes "clean_dir dir" and "CHR ''/'' \<notin> set q" "q \<noteq> []" "q \<noteq> ''.''" "q \<noteq> ''..''"
  shows "filepath_Clean (dir @ ''/'' @ q) = dir @ ''/'' @ q"
proof -
  have "clean_parts True [] (SplitByte CHR ''/'' dir) \<noteq> []" using clean_dirD(2, 3) [OF assms(1)] by auto
  then have "filepath_Clean (dir @ ''/'' @ q) = (''/'' @ join_slash (clean_parts True [] (SplitByte CHR ''/'' dir))) @ ''/'' @ q"
    using assms(2-) clean_dirD(1) [OF assms(1)]
    by (simp add: Clean_rooted SplitByte_snoc clean_parts_snoc join_slash_snoc)
  then show ?thesis unfolding clean_dirD(3) [OF assms(1)] .
qed

lemma set_trim: "set (trim_underscore s) \<subseteq> set s"
  unfolding trim_underscore_def by (auto dest!: set_dropWhileD)

lemma sanitize_safe: "set (sanitizeFileName name) \<inter> set unsafe_chars = {}"
proof -
  have "CHR ''_'' \<notin> set unsafe_chars" by (simp add: unsafe_chars_def)
  then show ?thesis using set_trim unfolding sanitizeFileName_def by fastforce
qed

lemma sanitize_no_slash: "CHR ''/'' \<notin> set (sanitizeFileName name)"
proof -
  have "CHR ''/'' \<in> set unsafe_chars" by (simp add: unsafe_chars_def)
  then show ?thesis using sanitize_safe by blast
qed

definition config_name :: "ConfigFile \<Rightarrow> string" where
  "config_name cf = (if sanitizeFileName (cf_Name cf) = [] then sanitizeFileName (filepath_Base (cf_Path cf))
     else sanitizeFileName (cf_Name cf))"

lemma clean_parts_parent:
  "q \<noteq> [] \<Longrightarrow> q \<noteq> ''.'' \<Longrightarrow> q \<noteq> ''..'' \<Longrightarrow> clean_parts rooted stack (ps @ [q, ''..'']) = clean_parts rooted stack ps"
  by (induction rooted stack ps rule: clean_parts.induct) (auto split: list.split)

lemma clean_parts_dot: "clean_parts rooted stack (ps @ [''.'']) = clean_parts rooted stack ps"
  by (induction rooted stack ps rule: clean_parts.induct) (auto split: list.split)

lemma Clean_dot: assumes "clean_dir dir" shows "filepath_Clean (dir @ ''/.'') = dir"
proof -
  have "SplitByte CHR ''/'' (dir @ ''/.'') = SplitByte CHR ''/'' dir @ [''.'']"
    using SplitByte_snoc [of "CHR ''/''" "''.''" dir] by simp
  then show ?thesis using clean_dirD(3) [OF assms] Clean_rooted [OF clean_dirD(1) [OF assms]] by (simp only: clean_parts_dot)
qed

lemma Clean_parent:
  assumes "clean_dir dir" and "CHR ''/'' \<notin> set q" "q \<noteq> []" "q \<noteq> ''.''" "q \<noteq> ''..''"
  shows "filepath_Clean ((dir @ ''/'' @ q) @ ''/..'') = dir"
proof -
  have "SplitByte CHR ''/'' (dir @ ''/'' @ q @ ''/..'') = SplitByte CHR ''/'' dir @ [q, ''..'']"
    using SplitByte_snoc [of "CHR ''/''" "''..''" "dir @ ''/'' @ q"] SplitByte_snoc [of "CHR ''/''" q dir] assms(2) by simp
  then show ?thesis
    using clean_dirD(3) [OF assms(1)] Clean_rooted [OF clean_dirD(1) [OF assms(1)], of "''/'' @ q @ ''/..''"]
    by (simp only: clean_parts_parent [OF assms(3-)] append_assoc)
qed

lemma clean_dir_child:
  "clean_dir dir \<Longrightarrow> CHR ''/'' \<notin> set q \<Longrightarrow> q \<noteq> [] \<Longrightarrow> q \<noteq> ''.'' \<Longrightarrow> q \<noteq> ''..'' \<Longrightarrow> clean_dir (dir @ ''/'' @ q)"
  using Clean_child [of dir q] HasPrefix_dir [of dir "''/'' @ q"] by (cases dir) (auto simp: clean_dir_def)

lemma config_host_path_cases:
  assumes "clean_dir dir" and "CHR ''/'' \<notin> set i" "i \<notin> {[], ''.'', ''..''}"
  shows "CHR ''/'' \<notin> set (config_name cf)
    \<and> config_host_path (dir @ ''/'' @ i) cf =
        (if config_name cf \<in> {[], ''.''} then dir @ ''/'' @ i else if config_name cf = ''..'' then dir
         else dir @ ''/'' @ i @ ''/'' @ config_name cf)"
proof -
  let ?d = "dir @ ''/'' @ i"
  have d: "clean_dir ?d" using clean_dir_child assms by simp
  have s: "CHR ''/'' \<notin> set (config_name cf)" by (simp add: config_name_def sanitize_no_slash)
  moreover have "config_host_path ?d cf = filepath_Join ?d (config_name cf)"
    by (simp add: config_host_path_def config_name_def Let_def)
  moreover have "filepath_Clean ?d = ?d" using d by (simp add: clean_dir_def)
  ultimately show ?thesis
    using Clean_child [OF d s] Clean_dot [OF d] Clean_parent [OF assms(1, 2)] assms(3) by (simp add: filepath_Join_def)
qed

lemma write_loop_files:
  "write_loop orch dir cfs mounts st = (st', Inr result) \<Longrightarrow>
     \<exists>files. os_files st' = os_files st @ files
       \<and> map (\<lambda>(p, content, mode). (p, content)) files = map (\<lambda>cf. (config_host_path dir cf, cf_Content cf)) cfs
       \<and> list_all (\<lambda>(p, content, mode). or_WriteFile orch p content = None) files
       \<and> (\<forall>x \<in> set result. x \<in> set mounts \<or> x \<in> (\<lambda>cf. (cf_Path cf, config_host_path dir cf)) ` set cfs)
       \<and> (\<forall>cf \<in> set cfs. cf_Path cf \<in> fst ` set result) \<and> fst ` set mounts \<subseteq> fst ` set result"
proof (induction cfs arbitrary: mounts st)
  case (Cons cf cfs)
  let ?p = "config_host_path dir cf"
  let ?f = "(?p, cf_Content cf, config_mode orch cf)"
  have w: "or_WriteFile orch ?p (cf_Content cf) = None"
    and l: "write_loop orch dir cfs (AList.update (cf_Path cf) ?p mounts) (st\<lparr>os_files := os_files st @ [?f]\<rparr>) = (st', Inr result)"
    using Cons.prems by (auto simp: Let_def split: option.splits)
  have u: "set (AList.update (cf_Path cf) ?p mounts) \<subseteq> insert (cf_Path cf, ?p) (set mounts)" by (induction mounts) auto
  have k: "fst ` set (AList.update (cf_Path cf) ?p mounts) = insert (cf_Path cf) (fst ` set mounts)"
    by (simp add: AList.dom_update)
  from Cons.IH [OF l] obtain files where
    "os_files st' = os_files st @ ?f # files"
    "map (\<lambda>(p, content, mode). (p, content)) files = map (\<lambda>cf. (config_host_path dir cf, cf_Content cf)) cfs"
    "list_all (\<lambda>(p, content, mode). or_WriteFile orch p content = None) files"
    "\<forall>x \<in> set result. x \<in> set (AList.update (cf_Path cf) ?p mounts) \<or> x \<in> (\<lambda>cf. (cf_Path cf, config_host_path dir cf)) ` set cfs"
    "\<forall>cf \<in> set cfs. cf_Path cf \<in> fst ` set result" "insert (cf_Path cf) (fst ` set mounts) \<subseteq> fst ` set result"
    unfolding k by auto
  with u w show ?case by (intro exI [of _ "?f # files"]) auto
qed simp


section \<open>Agreement with the planner\<close>

definition port_plan :: "PortBinding \<Rightarrow> PortPlan" where
  "port_plan b = \<lparr>pp_ContainerPort = pb_ContainerPort b, pp_HostPort = pb_HostPort b, pp_Protocol = pb_Protocol b,
     pp_HostIP = pb_HostIP b\<rparr>"

definition mount_plan :: "docker_VolumeMount \<Rightarrow> VolumePlan" where
  "mount_plan m = \<lparr>vp_Source = dvm_Source m, vp_Target = dvm_Target m, vp_ReadOnly = dvm_ReadOnly m\<rparr>"

definition health_plan :: "docker_HealthCheck \<Rightarrow> HealthCheckPlan" where
  "health_plan h = \<lparr>hp_Test = dhc_Test h, hp_Interval = dhc_Interval h, hp_Timeout = dhc_Timeout h,
     hp_Retries = dhc_Retries h, hp_StartPeriod = dhc_StartPeriod h\<rparr>"

text \<open>The plan that a container specification amounts to.\<close>

definition spec_plan :: "docker_ContainerSpec \<Rightarrow> ContainerPlan" where
  "spec_plan c =
     \<lparr>cp_Name = dcs_Name c, cp_Image = dcs_Image c, cp_Command = dcs_Command c, cp_Entrypoint = dcs_Entrypoint c,
      cp_Env = dcs_Env c, cp_Labels = dcs_Labels c, cp_Ports = map port_plan (dcs_Ports c),
      cp_Volumes = map mount_plan (dcs_Volumes c), cp_Networks = dcs_Networks c,
      cp_RestartPolicy = \<lparr>rp_Name = drp_Name (dcs_RestartPolicy c), rp_MaximumRetryCount = drp_MaximumRetryCount (dcs_RestartPolicy c)\<rparr>,
      cp_Resources = \<lparr>rsp_CPULimit = drl_CPULimit (dcs_Resources c), rsp_MemoryLimit = drl_MemoryLimit (dcs_Resources c)\<rparr>,
      cp_HealthCheck = map_option health_plan (dcs_HealthCheck c)\<rparr>"

definition proxy_ports :: "int \<Rightarrow> bool \<Rightarrow> PortPlan list \<Rightarrow> PortPlan list" where
  "proxy_ports proxyPort isPrimary ps =
     (case ps of
        p # rest \<Rightarrow> if isPrimary \<and> 0 < proxyPort then p\<lparr>pp_HostPort := proxyPort, pp_HostIP := ''0.0.0.0''\<rparr> # rest else ps
      | [] \<Rightarrow> [])"

lemma bind_ports_rest: "\<not> isPrimary \<or> proxyPort \<le> 0 \<or> used \<Longrightarrow> map port_plan (bind_ports proxyPort isPrimary used ps) = map plan_port ps"
  by (induction ps) (auto simp: port_plan_def plan_port_def)

lemma bind_ports_plan:
  "map port_plan (bind_ports proxyPort isPrimary False ps) = proxy_ports proxyPort isPrimary (map plan_port ps)"
  by (cases ps) (auto simp: bind_ports_rest proxy_ports_def port_plan_def plan_port_def)

text \<open>
  The orchestrator builds its containers as the core planner \<open>BuildContainerPlan\<close> plans them: all
  fields agree, with two additions. The first port of the primary service is bound to the proxy port of the deployment on all
  interfaces, and the config files are mounted read-only after the volumes of the service.
\<close>

theorem container_spec_matches_plan:
  "spec_plan (buildContainerSpec orch d svc (ContainerName (dep_ReferenceID d) (svc_Name svc)) net mounts primary) =
   (let plan = BuildContainerPlan (or_parse_duration orch)
          \<lparr>bp_DeploymentID = dep_ReferenceID d, bp_TemplateID = dep_TemplateRefID d, bp_ServiceName = svc_Name svc,
           bp_Service = svc, bp_Variables = dep_Variables d, bp_NetworkName = net, bp_Volumes = vols\<rparr>
    in plan\<lparr>cp_Ports := proxy_ports (dep_ProxyPort d) primary (cp_Ports plan),
            cp_Volumes := cp_Volumes plan @ map (\<lambda>(target, source). \<lparr>vp_Source = source, vp_Target = target, vp_ReadOnly = True\<rparr>)
              (or_order orch mounts)\<rparr>)"
proof -
  have "mount_plan \<circ> spec_volume i = plan_volume i" for i
    by (rule ext) (simp add: mount_plan_def spec_volume_def plan_volume_def)
  moreover have "health_plan \<circ> spec_health pd = plan_health pd" for pd
    by (rule ext) (simp add: health_plan_def spec_health_def plan_health_def)
  moreover have "\<lparr>rp_Name = drp_Name (spec_restart r), rp_MaximumRetryCount = drp_MaximumRetryCount (spec_restart r)\<rparr> = mapRestartPolicy r" for r
    by (simp add: spec_restart_def mapRestartPolicy_def)
  moreover have "mount_plan \<circ> (\<lambda>(t, s). \<lparr>dvm_Source = s, dvm_Target = t, dvm_ReadOnly = True\<rparr>)
      = (\<lambda>(t, s). \<lparr>vp_Source = s, vp_Target = t, vp_ReadOnly = True\<rparr>)"
    by (rule ext) (simp add: mount_plan_def split: prod.split)
  ultimately show ?thesis
    by (simp add: spec_plan_def buildContainerSpec_def BuildContainerPlan_def Let_def bind_ports_plan option.map_comp)
qed

section \<open>Examples\<close>

text \<open>A client that answers every call, with the name of a container as its identifier; pulling fails on request.\<close>

definition demo_client :: "string option \<Rightarrow> string option \<Rightarrow> docker_client" where
  "demo_client start_error pull_error =
     \<lparr>dc_CreateContainer = (\<lambda>_ spec. Inr (dcs_Name spec)), dc_StartContainer = (\<lambda>calls _. if starts calls = [] then None else start_error),
      dc_StopContainer = (\<lambda>_ _. None), dc_RemoveContainer = (\<lambda>_ _. None),
      dc_InspectContainer = (\<lambda>_ i. Inr \<lparr>dci_ID = i, dci_Name = i, dci_Image = ''nginx'', dci_Status = ''created'', dci_State = ''created'',
         dci_Health = [], dci_CreatedAt = 0, dci_StartedAt = None, dci_FinishedAt = None, dci_Ports = [], dci_Labels = Map.empty,
         dci_ExitCode = 0\<rparr>),
      dc_ListContainers = (\<lambda>_ _. Inr []), dc_ContainerLogs = (\<lambda>_ _ _. Inr []), dc_CreateNetwork = (\<lambda>_ _. Inr ''net-1''),
      dc_RemoveNetwork = (\<lambda>_ _. None), dc_CreateVolume = (\<lambda>_ _. Inr ''vol-1''), dc_PullImage = (\<lambda>_ _. pull_error),
      dc_ImageExists = (\<lambda>_ _. False)\<rparr>"

definition demo_orch :: "string option \<Rightarrow> string option \<Rightarrow> Orchestrator" where
  "demo_orch start_error pull_error =
     \<lparr>or_docker = demo_client start_error pull_error, or_configDir = ''/var/lib/hoster/configs'', or_store = True, or_uuid = (\<lambda>_. ''evt''),
      or_now = (\<lambda>_. 0), or_order = (\<lambda>xs. xs), or_keys = (\<lambda>ss. remdups (map svc_Name ss)), or_unmarshal = (\<lambda>_. Some True),
      or_load = (\<lambda>_. Inr demo_project), or_compose_text = (\<lambda>_. []), or_parse_duration = (\<lambda>_. None), or_parse_mode = (\<lambda>_. None),
      or_Abs = Inr, or_MkdirAll = (\<lambda>_. None),
      or_WriteFile = (\<lambda>p _. if p \<in> {''/var/lib/hoster/configs'', ''/var/lib/hoster/configs/depl_1''} then Some ''is a directory'' else None),
      or_RemoveAll = (\<lambda>_. None)\<rparr>"

definition demo_target :: Deployment where
  "demo_target = \<lparr>dep_ID = 1, dep_ReferenceID = ''depl_1'', dep_Name = ''shop'', dep_TemplateID = 1, dep_TemplateRefID = ''tmpl_1'',
     dep_TemplateVersion = ''1.0.0'', dep_CustomerID = 7, dep_NodeID = ''node_1'', dep_Status = StatusStarting, dep_Variables = Map.empty,
     dep_Domains = [], dep_Containers = [\<lparr>ci_ID = ''hoster_depl_1_web'', ci_ServiceName = ''web'', ci_Image = ''nginx'',
       ci_Status = ''created'', ci_Ports = []\<rparr>],
     dep_Resources = \<lparr>res_CPUCores = Fin 1, res_MemoryMB = 512, res_DiskMB = 1024\<rparr>, dep_ProxyPort = 30000, dep_ErrorMessage = [],
     dep_CreatedAt = 0, dep_UpdatedAt = 0, dep_StartedAt = None, dep_StoppedAt = None\<rparr>"

definition fresh_ostate :: ostate where
  "fresh_ostate = \<lparr>os_calls = [], os_events = [], os_files = []\<rparr>"

lemma demo_loader: "load_ok (or_load (demo_orch s p) y)"
  by (auto simp: load_ok_def demo_orch_def demo_project_def demo_service_def)

lemma demo_keys: "distinct (or_keys (demo_orch s p) ss) \<and> set (or_keys (demo_orch s p) ss) = svc_Name ` set ss"
  by (simp add: demo_orch_def)


theorem StartDeployment_cleanup_witness:
  "\<exists>st' first. \<exists>cl :: (string \<times> string) list. StartDeployment (demo_orch (Some ''no space'') None) demo_target ''services:'' [] fresh_ostate
       = (st', Inl (OrchError ''failed to start container web: no space''))
     \<and> (\<forall>spec i. made (or_docker (demo_orch (Some ''no space'') None)) (os_calls st') spec i \<longrightarrow>
          made (or_docker (demo_orch (Some ''no space'') None)) first spec i \<and> i \<in> snd ` set cl)"
proof -
  let ?o = "demo_orch (Some ''no space'') None"
  have "case StartDeployment ?o demo_target ''services:'' [] fresh_ostate of
      (st', Inl (OrchError e)) \<Rightarrow> e = ''failed to start container web: no space'' | _ \<Rightarrow> False"
    by code_simp
  then obtain st' where run: "StartDeployment ?o demo_target ''services:'' [] fresh_ostate
      = (st', Inl (OrchError ''failed to start container web: no space''))"
    by (auto split: prod.splits sum.splits orch_error.splits)
  have c: "os_calls fresh_ostate = []" by (simp add: fresh_ostate_def)
  have ord: "set (or_order ?o xs) = set xs" for xs by (simp add: demo_orch_def)
  from StartDeployment_cleanup [OF run c demo_loader demo_keys ord] obtain first and cl :: "(string \<times> string) list" where
    "\<forall>spec i. made (or_docker ?o) (os_calls st') spec i \<longrightarrow> made (or_docker ?o) first spec i \<and> i \<in> snd ` set cl"
    by (elim exE conjE)
  then show ?thesis by (intro exI [of _ st'] exI [of _ first] exI [of _ cl] conjI run)
qed

theorem stop_remove_calls_witness:
  "os_calls (fst (RemoveDeployment (demo_orch None None) demo_target fresh_ostate)) =
     [CallListContainers True ''com.hoster.deployment=depl_1'', CallRemoveNetwork ''hoster_depl_1'']"
proof -
  have l: "dc_ListContainers (or_docker (demo_orch None None)) c f = Inr []" for c f
    by (simp add: demo_orch_def demo_client_def)
  have n: "NetworkName ''depl_1'' = ''hoster_depl_1''" by code_simp
  show ?thesis
    using stop_remove_calls [of "demo_orch None None" fresh_ostate demo_target]
    by (simp add: l n fresh_ostate_def label_filter_def demo_target_def const_defs)
qed

definition demo_wait :: wait_env where
  "demo_wait = \<lparr>we_done = (\<lambda>_. None), we_start = 0, we_now = (\<lambda>k. int (Suc k) * 5000000000)\<rparr>"


definition demo_config :: "ConfigFile list" where
  "demo_config = [\<lparr>cf_Name = ''../../etc/passwd'', cf_Path = ''/etc/app.conf'', cf_Content = ''x'', cf_Mode = []\<rparr>]"


end
