(* ===== verification/Proxy_Server.thy ===== *)
theory Proxy_Server
  imports Engine_API Routing
begin

text \<open>
  \<open>internal/shell/proxy/server.go\<close>: the reverse proxy in front of the deployments, on top of the store queries of
  \<open>Engine_Queries\<close> and the pure routing of \<open>Routing\<close>. Parsing of the upstream address, the round trip to the
  container, the execution of the error templates and Unicode case folding are arguments.
\<close>

section \<open>Configuration\<close>

record proxy_Config =
  pcfg_Address :: string
  pcfg_BaseDomain :: string
  pcfg_ReadTimeout :: int
  pcfg_WriteTimeout :: int
  pcfg_IdleTimeout :: int

definition proxy_DefaultConfig :: proxy_Config where
  "proxy_DefaultConfig = \<lparr>pcfg_Address = ''0.0.0.0:9091'', pcfg_BaseDomain = ''apps.localhost'',
     pcfg_ReadTimeout = 30 * 1000000000, pcfg_WriteTimeout = 60 * 1000000000, pcfg_IdleTimeout = 120 * 1000000000\<rparr>"

text \<open>\<open>px_RoundTrip\<close> answers the forwarded request with an error or with nothing; \<open>px_Execute\<close> fills an error template.\<close>

record Server =
  px_env :: Env
  px_store :: Store
  px_parser :: HostnameParser
  px_config :: proxy_Config
  px_ParseURL :: "string \<Rightarrow> string + string"
  px_RoundTrip :: "string \<Rightarrow> string option"
  px_Execute :: "string \<Rightarrow> string option"
  px_unifold :: "string \<Rightarrow> string \<Rightarrow> bool"

definition NewServer :: "proxy_Config \<Rightarrow> Server \<Rightarrow> string option \<Rightarrow> string + Server" where
  "NewServer cfg s parseTemplates =
     (case parseTemplates of
        Some err \<Rightarrow> Inl err
      | None \<Rightarrow> Inr (s\<lparr>px_parser := \<lparr>hp_BaseDomain = pcfg_BaseDomain cfg\<rparr>, px_config := cfg\<rparr>))"

section \<open>Requests and responses\<close>

record proxy_Request =
  pr_Host :: string
  pr_Method :: string
  pr_Path :: string
  pr_Header :: "string \<Rightarrow> string"
  pr_RemoteAddr :: string

record HealthResponse =
  hr_Status :: string
  hr_DeploymentsRoutable :: int
  hr_BaseDomain :: string

text \<open>The headers the director sets on the forwarded request.\<close>

record forward =
  fw_Upstream :: string
  fw_ForwardedHost :: string
  fw_RealIP :: string
  fw_DeploymentID :: string

datatype proxy_response =
    HealthPage int HealthResponse
  | ErrorPage int string string string
  | ErrorText int string
  | Forwarded forward

definition getRealIP :: "proxy_Request \<Rightarrow> string" where
  "getRealIP r =
     (let ip = pr_Header r ''X-Real-IP''; xff = pr_Header r ''X-Forwarded-For''
      in if ip \<noteq> [] then ip
         else if xff \<noteq> [] then
           if CHR '','' \<in> set xff then TrimSpace (takeWhile (\<lambda>c. c \<noteq> CHR '','') xff) else TrimSpace xff
         else pr_RemoteAddr r)"

definition error_template :: "ProxyErrorType \<Rightarrow> string" where
  "error_template t =
     (case t of ErrorNotFound \<Rightarrow> ''not_found.html'' | ErrorStopped \<Rightarrow> ''stopped.html''
      | ErrorVerificationPending \<Rightarrow> ''verification_pending.html'' | _ \<Rightarrow> ''unavailable.html'')"

definition serveError :: "Server \<Rightarrow> ProxyError \<Rightarrow> proxy_response" where
  "serveError s err =
     (case px_Execute s (error_template (pe_Type err)) of
        None \<Rightarrow> ErrorPage (pe_StatusCode err) (error_template (pe_Type err)) (pe_Hostname err) (pe_Message err)
      | Some _ \<Rightarrow> ErrorText (pe_StatusCode err) (pe_Message err))"

definition serveHealth :: "Server \<Rightarrow> world \<Rightarrow> world \<times> proxy_response" where
  "serveHealth s w =
     (case CountRoutableDeployments (px_env s) w of
        (w, r) \<Rightarrow> (w, HealthPage 200 \<lparr>hr_Status = ''ok'',
          hr_DeploymentsRoutable = (case r of Inl _ \<Rightarrow> 0 | Inr n \<Rightarrow> n), hr_BaseDomain = pcfg_BaseDomain (px_config s)\<rparr>))"

section \<open>Resolving\<close>

text \<open>An error of \<open>resolveTarget\<close>: one of the proxy's own, or one of the store.\<close>

datatype resolve_error = ProxyFailure ProxyError | StoreFailure string

text \<open>\<open>errors.Is(err, ErrNotFound)\<close>: the store wraps it in this text only.\<close>

definition domain_not_found :: "string \<Rightarrow> string \<Rightarrow> bool" where
  "domain_not_found hostname err \<longleftrightarrow> err = ''deployment for hostname '' @ hostname @ '': not found''"

text \<open>The first custom domain of the deployment that is the host decides.\<close>

definition pending_domain :: "Server \<Rightarrow> string \<Rightarrow> Domain list \<Rightarrow> bool" where
  "pending_domain s hostname ds =
     (case find (\<lambda>d. EqualFold (px_unifold s) (dom_Hostname d) hostname \<and> dom_Type d = DomainTypeCustom) ds of
        Some d \<Rightarrow> dom_VerificationStatus d \<noteq> DomainVerificationVerified
      | None \<Rightarrow> False)"

definition deployment_target :: "Deployment \<Rightarrow> ProxyTarget" where
  "deployment_target d = \<lparr>pt_DeploymentID = dep_ReferenceID d, pt_NodeID = dep_NodeID d, pt_NodeIP = [],
     pt_Port = dep_ProxyPort d, pt_Status = dep_Status d, pt_CustomerID = fmt_d (dep_CustomerID d)\<rparr>"

definition resolveTarget :: "Server \<Rightarrow> string \<Rightarrow> string \<Rightarrow> world \<Rightarrow> world \<times> (resolve_error + ProxyTarget)" where
  "resolveTarget s slug hostname w =
     (case GetDeploymentByDomain (px_env s) (px_store s) hostname w of
        (w, Inl err) \<Rightarrow>
          if domain_not_found hostname err then (w, Inl (ProxyFailure (NewNotFoundError hostname)))
          else (w, Inl (StoreFailure err))
      | (w, Inr d) \<Rightarrow>
          if pending_domain s hostname (dep_Domains d) then (w, Inl (ProxyFailure (NewVerificationPendingError hostname)))
          else
            let target = deployment_target d
            in if \<not> IsLocal target \<and> dep_NodeID d \<noteq> [] then
                 (case GetNodeSSHHost (px_env s) (dep_NodeID d) w of
                    (w, Inl err) \<Rightarrow> (w, Inl (ProxyFailure (NewUnavailableError hostname)))
                  | (w, Inr sshHost) \<Rightarrow> (w, Inr (target\<lparr>pt_NodeIP := sshHost\<rparr>)))
               else (w, Inr target))"

definition getUpstreamURL :: "Server \<Rightarrow> ProxyTarget \<Rightarrow> string + string" where
  "getUpstreamURL s target =
     (if IsLocal target then px_ParseURL s (''http://'' @ LocalAddress target)
      else px_ParseURL s (''http://'' @ RemoteAddress target))"

definition proxyRequest :: "Server \<Rightarrow> proxy_Request \<Rightarrow> string \<Rightarrow> ProxyTarget \<Rightarrow> proxy_response" where
  "proxyRequest s r upstream target =
     (case px_RoundTrip s upstream of
        Some err \<Rightarrow> serveError s (NewUnavailableError (pr_Host r))
      | None \<Rightarrow> Forwarded \<lparr>fw_Upstream = upstream, fw_ForwardedHost = pr_Host r, fw_RealIP = getRealIP r,
                  fw_DeploymentID = pt_DeploymentID target\<rparr>)"

definition host_without_port :: "string \<Rightarrow> string" where
  "host_without_port hostname =
     (case LastIndexByte hostname CHR '':'' of Some idx \<Rightarrow> take idx hostname | None \<Rightarrow> hostname)"

definition ServeHTTP :: "Server \<Rightarrow> proxy_Request \<Rightarrow> world \<Rightarrow> world \<times> proxy_response" where
  "ServeHTTP s r w =
     (let hostname = pr_Host r
      in if pr_Path r = ''/health'' \<and> pr_Method r = ''GET'' then serveHealth s w
         else
           let hostnameWithoutPort = host_without_port hostname;
               (slug, ok) = HostnameParser_Parse (px_parser s) hostname
           in case (if ok then resolveTarget s slug hostnameWithoutPort w else resolveTarget s [] hostnameWithoutPort w) of
                (w, Inl (ProxyFailure err)) \<Rightarrow> (w, serveError s err)
              | (w, Inl (StoreFailure err)) \<Rightarrow> (w, serveError s (NewUnavailableError hostname))
              | (w, Inr target) \<Rightarrow>
                  if \<not> CanRoute target then (w, serveError s (NewStoppedError hostname))
                  else case getUpstreamURL s target of
                         Inl err \<Rightarrow> (w, serveError s (NewUnavailableError hostname))
                       | Inr upstreamURL \<Rightarrow> (w, proxyRequest s r upstreamURL target))"

section \<open>Routing is sound\<close>

lemma serveError_not_forward [simp]: "serveError s err \<noteq> Forwarded f"
  by (simp add: serveError_def split: option.split)

lemma proxy_deployment_cols:
  "plain_col DeploymentResource ''reference_id''" "plain_col DeploymentResource ''status''"
  "plain_col DeploymentResource ''node_id''" "plain_col DeploymentResource ''proxy_port''"
  "''reference_id'' \<in> set (selectColumns DeploymentResource)" "''status'' \<in> set (selectColumns DeploymentResource)"
  "''node_id'' \<in> set (selectColumns DeploymentResource)" "''proxy_port'' \<in> set (selectColumns DeploymentResource)"
  by (simp_all add: plain_col_def selectColumns_def DeploymentResource_def field_builder_defs)

definition serves :: "Env \<Rightarrow> string \<Rightarrow> row \<Rightarrow> bool" where
  "serves e hostname r \<longleftrightarrow> hostname \<in> set (env_json_hostnames e (row_get r ''domains''))"

lemma GetDeploymentByDomain_row:
  assumes "GetDeploymentByDomain e s hostname w = (w', Inr d)" "st_schema s ''deployments'' = Some DeploymentResource"
  shows "w' = tick w \<and> (\<exists>r. find (serves e hostname) (w_tables w ''deployments'') = Some r
    \<and> dep_ReferenceID d = strVal (row_get r ''reference_id'') \<and> dep_Status d = strVal (row_get r ''status'')
    \<and> dep_NodeID d = strVal (row_get r ''node_id'') \<and> dep_ProxyPort d = int64_or0 (row_get r ''proxy_port''))"
proof -
  have f: "(\<lambda>r. hostname \<in> set (env_json_hostnames e (row_get r ''domains''))) = serves e hostname"
    by (rule ext) (simp add: serves_def)
  obtain r where r: "find (serves e hostname) (w_tables w ''deployments'') = Some r"
    and d: "w' = tick w" "d = mapToDeployment e (decodeRow e DeploymentResource (project (selectColumns DeploymentResource) r))"
    using assms by (auto simp: GetDeploymentByDomain_def f Let_def split: option.splits)
  show ?thesis
    using r d(1) unfolding d(2) mapToDeployment_def int64_or0_def
    by (simp add: strVal_decodeRow toInt64_decode proxy_deployment_cols)
qed

lemma GetNodeSSHHost_row:
  "GetNodeSSHHost e i w = (w', r) \<Longrightarrow> w' = tick w"
  "GetNodeSSHHost e i w = (w', Inr h) \<Longrightarrow>
     \<exists>n \<in> set (w_tables w ''nodes''). where_ok e ''nodes'' (by_ref i) n \<and> h = strVal (row_get n ''ssh_host'')"
  by (auto simp: GetNodeSSHHost_def db_select_def paginate_def row_get_project filter_eq_Cons_iff
      split: option.splits list.splits sum.splits)

lemma w_tables_tick [simp]: "w_tables (tick w) = w_tables w"
  by (simp add: tick_def)

lemma GetDeploymentByDomain_tick: "GetDeploymentByDomain e s hostname w = (w', r) \<Longrightarrow> w' = tick w"
  by (auto simp: GetDeploymentByDomain_def Let_def split: option.splits)

lemma resolveTarget_tables: "resolveTarget s slug hostname w = (w', r) \<Longrightarrow> w_tables w' = w_tables w"
  unfolding resolveTarget_def
  by (auto simp: Let_def split: prod.splits sum.splits if_splits dest!: GetDeploymentByDomain_tick GetNodeSSHHost_row(1))

lemma status_codes:
  "pe_StatusCode (NewUnavailableError h) \<in> {403, 404, 503}" "pe_StatusCode (NewStoppedError h) \<in> {403, 404, 503}"
  by (simp_all add: NewUnavailableError_def NewStoppedError_def)

lemma resolveTarget_status:
  "resolveTarget s slug hostname w = (w', Inl (ProxyFailure err)) \<Longrightarrow> pe_StatusCode err \<in> {403, 404, 503}"
  unfolding resolveTarget_def
  by (auto simp: Let_def NewNotFoundError_def NewVerificationPendingError_def NewUnavailableError_def
      split: prod.splits sum.splits if_splits)

lemma resolveTarget_ok:
  assumes "resolveTarget s slug hostname w = (w', Inr t)"
  obtains d where "GetDeploymentByDomain (px_env s) (px_store s) hostname w = (tick w, Inr d)"
    "\<not> pending_domain s hostname (dep_Domains d)" "IsLocal t \<longleftrightarrow> IsLocal (deployment_target d)"
    "pt_DeploymentID t = dep_ReferenceID d" "pt_Status t = dep_Status d" "pt_Port t = dep_ProxyPort d" "pt_NodeID t = dep_NodeID d"
    "IsLocal t \<or> (\<exists>n \<in> set (w_tables w ''nodes''). where_ok (px_env s) ''nodes'' (by_ref (dep_NodeID d)) n
        \<and> pt_NodeIP t = strVal (row_get n ''ssh_host''))"
proof -
  obtain w1 d where g: "GetDeploymentByDomain (px_env s) (px_store s) hostname w = (w1, Inr d)"
    and p: "\<not> pending_domain s hostname (dep_Domains d)"
    using assms by (auto simp: resolveTarget_def split: prod.splits sum.splits if_splits)
  have w1: "w1 = tick w" using GetDeploymentByDomain_tick [OF g] .
  show ?thesis
  proof (cases "IsLocal (deployment_target d)")
    case True
    then have "t = deployment_target d" using assms g p by (simp add: resolveTarget_def)
    then show ?thesis using that [of d] g w1 p True by (simp add: deployment_target_def)
  next
    case False
    then have "dep_NodeID d \<noteq> []" by (simp add: IsLocal_def deployment_target_def)
    then obtain w2 h where n: "GetNodeSSHHost (px_env s) (dep_NodeID d) w1 = (w2, Inr h)"
      and t: "t = (deployment_target d)\<lparr>pt_NodeIP := h\<rparr>"
      using assms g p False by (auto simp: resolveTarget_def Let_def split: prod.splits sum.splits)
    then show ?thesis using that [of d] g w1 p GetNodeSSHHost_row(2) [OF n]
      by (simp add: deployment_target_def IsLocal_def)
  qed
qed

text \<open>What a forwarded request rests on: the first row of the table that lists the host.\<close>

definition routed_to :: "Server \<Rightarrow> string \<Rightarrow> world \<Rightarrow> forward \<Rightarrow> row \<Rightarrow> Deployment \<Rightarrow> bool" where
  "routed_to s hostname w f r d \<longleftrightarrow>
     find (serves (px_env s) hostname) (w_tables w ''deployments'') = Some r
     \<and> GetDeploymentByDomain (px_env s) (px_store s) hostname w = (tick w, Inr d)
     \<and> fw_DeploymentID f = strVal (row_get r ''reference_id'') \<and> strVal (row_get r ''status'') = ''running''
     \<and> 0 < int64_or0 (row_get r ''proxy_port'') \<and> \<not> pending_domain s hostname (dep_Domains d)
     \<and> (strVal (row_get r ''node_id'') \<in> {[], ''local''}
          \<and> px_ParseURL s (''http://127.0.0.1:'' @ fmt_d (int64_or0 (row_get r ''proxy_port''))) = Inr (fw_Upstream f)
        \<or> (\<exists>n \<in> set (w_tables w ''nodes''). where_ok (px_env s) ''nodes'' (by_ref (strVal (row_get r ''node_id''))) n
             \<and> px_ParseURL s (''http://'' @ strVal (row_get n ''ssh_host'') @ '':'' @ fmt_d (int64_or0 (row_get r ''proxy_port'')))
                 = Inr (fw_Upstream f)))"

lemma target_routed:
  assumes "resolveTarget s slug hostname w = (w', Inr t)" "CanRoute t" "getUpstreamURL s t = Inr u"
    and sch: "st_schema (px_store s) ''deployments'' = Some DeploymentResource"
    and "fw_Upstream f = u" "fw_DeploymentID f = pt_DeploymentID t"
  shows "\<exists>r d. routed_to s hostname w f r d"
proof -
  obtain d where d: "GetDeploymentByDomain (px_env s) (px_store s) hostname w = (tick w, Inr d)"
    "\<not> pending_domain s hostname (dep_Domains d)" "pt_DeploymentID t = dep_ReferenceID d" "pt_Status t = dep_Status d"
    "pt_Port t = dep_ProxyPort d" "pt_NodeID t = dep_NodeID d"
    and n: "IsLocal t \<or> (\<exists>n \<in> set (w_tables w ''nodes''). where_ok (px_env s) ''nodes'' (by_ref (dep_NodeID d)) n
        \<and> pt_NodeIP t = strVal (row_get n ''ssh_host''))"
    using resolveTarget_ok [OF assms(1)] by metis
  obtain r where r: "find (serves (px_env s) hostname) (w_tables w ''deployments'') = Some r"
    "dep_ReferenceID d = strVal (row_get r ''reference_id'')" "dep_Status d = strVal (row_get r ''status'')"
    "dep_NodeID d = strVal (row_get r ''node_id'')" "dep_ProxyPort d = int64_or0 (row_get r ''proxy_port'')"
    using GetDeploymentByDomain_row [OF d(1) sch] by blast
  have "routed_to s hostname w f r d"
    unfolding routed_to_def
    using r(1) d(1, 2) assms(2, 3, 5, 6) n
    by (simp add: d(3-6) r(2-5) CanRoute_def IsLocal_def getUpstreamURL_def LocalAddress_def RemoteAddress_def split: if_splits) metis
  then show ?thesis by blast
qed

text \<open>The answers to a request that is not the health check.\<close>

lemma ServeHTTP_cases:
  assumes run: "ServeHTTP s req w = (w', rs)" and "\<not> (pr_Path req = ''/health'' \<and> pr_Method req = ''GET'')"
  obtains (failed) err where "rs = serveError s err" "pe_StatusCode err \<in> {403, 404, 503}" "w_tables w' = w_tables w"
  | (routed) slug target u where "resolveTarget s slug (host_without_port (pr_Host req)) w = (w', Inr target)" "CanRoute target"
      "getUpstreamURL s target = Inr u" "rs = proxyRequest s req u target" "w_tables w' = w_tables w"
proof -
  let ?h = "host_without_port (pr_Host req)"
  obtain slug where "(if snd (HostnameParser_Parse (px_parser s) (pr_Host req)) then resolveTarget s
      (fst (HostnameParser_Parse (px_parser s) (pr_Host req))) ?h w else resolveTarget s [] ?h w) = resolveTarget s slug ?h w"
    by metis
  then have eq: "ServeHTTP s req w =
      (case resolveTarget s slug ?h w of
         (w, Inl (ProxyFailure err)) \<Rightarrow> (w, serveError s err)
       | (w, Inl (StoreFailure err)) \<Rightarrow> (w, serveError s (NewUnavailableError (pr_Host req)))
       | (w, Inr target) \<Rightarrow>
           if \<not> CanRoute target then (w, serveError s (NewStoppedError (pr_Host req)))
           else case getUpstreamURL s target of
                  Inl err \<Rightarrow> (w, serveError s (NewUnavailableError (pr_Host req)))
                | Inr u \<Rightarrow> (w, proxyRequest s req u target))"
    using assms(2) by (simp only: ServeHTTP_def Let_def case_prod_beta if_False)
  obtain w1 res where t: "resolveTarget s slug ?h w = (w1, res)" by fastforce
  note tab = resolveTarget_tables [OF t]
  consider (bad) err where "rs = serveError s err" "pe_StatusCode err \<in> {403, 404, 503}" "w' = w1"
    | (good) target u where "res = Inr target" "CanRoute target" "getUpstreamURL s target = Inr u"
        "rs = proxyRequest s req u target" "w' = w1"
  proof (cases res)
    case (Inl e)
    show ?thesis
    proof (cases e)
      case (ProxyFailure err)
      have "rs = serveError s err \<and> w' = w1" using run eq t Inl ProxyFailure by simp
      then show ?thesis using bad [of err] resolveTarget_status [OF t [unfolded Inl ProxyFailure]] by blast
    next
      case (StoreFailure err)
      have "rs = serveError s (NewUnavailableError (pr_Host req)) \<and> w' = w1" using run eq t Inl StoreFailure by simp
      then show ?thesis using bad status_codes by blast
    qed
  next
    case (Inr target)
    show ?thesis
    proof (cases "CanRoute target")
      case True
      then show ?thesis using run eq t Inr bad [OF sym status_codes(1) [of "pr_Host req"]] good [OF Inr True]
        by (cases "getUpstreamURL s target") simp_all
    next
      case False
      then show ?thesis using run eq t Inr bad [OF sym status_codes(2) [of "pr_Host req"]] by simp
    qed
  qed
  then show ?thesis using failed routed t tab by cases simp_all
qed

text \<open>
  C26: The proxy routes soundly and only reads. A request is forwarded only to the running deployment with a port whose row is the
  first to list the requested host, at the port of the deployment on its own node, and with its identifier in
  the forwarded headers; a custom domain of that deployment is forwarded only when it is verified. Every other answer is the health
  page, or an error with status 403, 404 or 503.
\<close>

theorem proxy_routes_soundly:
  assumes run: "ServeHTTP s req w = (w', rs)" and sch: "st_schema (px_store s) ''deployments'' = Some DeploymentResource"
  shows "w_tables w' = w_tables w \<and>
    (case rs of
       Forwarded f \<Rightarrow> fw_ForwardedHost f = pr_Host req \<and> (\<exists>r d. routed_to s (host_without_port (pr_Host req)) w f r d)
     | HealthPage st h \<Rightarrow> st = 200 \<and> pr_Path req = ''/health''
     | ErrorPage st tmpl h m \<Rightarrow> st \<in> {403, 404, 503}
     | ErrorText st m \<Rightarrow> st \<in> {403, 404, 503})"
proof (cases "pr_Path req = ''/health'' \<and> pr_Method req = ''GET''")
  case True
  then show ?thesis using run by (auto simp: ServeHTTP_def serveHealth_def CountRoutableDeployments_def split: option.splits)
next
  case False
  have err: "case serveError s e of Forwarded f \<Rightarrow> P f | HealthPage a b \<Rightarrow> Q a b | ErrorPage st t h m \<Rightarrow> st \<in> {403, 404, 503}
      | ErrorText st m \<Rightarrow> st \<in> {403, 404, 503}" if "pe_StatusCode e \<in> {403, 404, 503}" for e P Q
    using that by (simp add: serveError_def split: option.split)
  from run False show ?thesis
  proof (cases rule: ServeHTTP_cases)
    case (failed e)
    then show ?thesis using err by simp
  next
    case (routed slug target u)
    then show ?thesis
      using target_routed [OF routed(1-3) sch] err [OF status_codes(1)]
      by (cases "px_RoundTrip s u") (simp_all add: proxyRequest_def)
  qed
qed

text \<open>
  C37: A host can be taken by an unverified custom domain. The proxy looks at the first row that lists the host only: when
  that row lists it as a custom domain that is not verified, every request for the host is refused, whatever the other rows
  are, also when one of them is a running deployment with the host as its verified domain. Adding a domain checks for
  duplicates within its deployment only.
\<close>

theorem unverified_domain_shadows:
  assumes rows: "find (serves (px_env s) hostname) (w_tables w ''deployments'') = Some r"
    and pending: "pending_domain s hostname (dep_Domains (mapToDeployment (px_env s)
        (decodeRow (px_env s) DeploymentResource (project (selectColumns DeploymentResource) r))))"
    and req: "host_without_port (pr_Host req) = hostname" "pr_Path req \<noteq> ''/health''"
    and sch: "st_schema (px_store s) ''deployments'' = Some DeploymentResource"
    and db: "env_fail (px_env s) (w_tick w) (RawStmt domain_query [GStr hostname]) = None"
  shows "ServeHTTP s req w = (tick w, serveError s (NewVerificationPendingError hostname))"
proof -
  have f: "(\<lambda>r. hostname \<in> set (env_json_hostnames (px_env s) (row_get r ''domains''))) = serves (px_env s) hostname"
    by (rule ext) (simp add: serves_def)
  have "resolveTarget s slug hostname w = (tick w, Inl (ProxyFailure (NewVerificationPendingError hostname)))" for slug
    using rows pending sch db by (simp add: resolveTarget_def GetDeploymentByDomain_def f Let_def)
  then show ?thesis using req by (simp add: ServeHTTP_def Let_def case_prod_beta)
qed

section \<open>Examples\<close>

definition demo_domain :: "DomainVerificationStatus \<Rightarrow> Domain" where
  "demo_domain st = \<lparr>dom_Hostname = ''shop.example.com'', dom_Type = DomainTypeCustom, dom_SSLEnabled = False, dom_SSLExpiresAt = None,
     dom_VerificationStatus = st, dom_VerificationMethod = ''cname'', dom_VerifiedAt = None, dom_LastCheckError = []\<rparr>"

text \<open>The text of the domains column names the verification status of its one custom domain.\<close>

definition demo_proxy_env :: Env where
  "demo_proxy_env = demo_env\<lparr>env_json_hostnames := (\<lambda>v. if v = GNil then [] else [''shop.example.com'']),
     env_UnmarshalDomains := (\<lambda>txt. [demo_domain txt])\<rparr>"

definition demo_server :: Server where
  "demo_server = \<lparr>px_env = demo_proxy_env, px_store = demo_store, px_parser = \<lparr>hp_BaseDomain = ''apps.hoster.io''\<rparr>,
     px_config = proxy_DefaultConfig, px_ParseURL = Inr, px_RoundTrip = (\<lambda>_. None), px_Execute = (\<lambda>_. None), px_unifold = (=)\<rparr>"

definition demo_host_row :: "string \<Rightarrow> string \<Rightarrow> row" where
  "demo_host_row refID domains = (demo_deployment refID ''running'' (GInt64 81))
     (''node_id'' := Some (GStr []), ''domains'' := Some (GStr domains))"

definition demo_proxy_world :: "row list \<Rightarrow> world" where
  "demo_proxy_world rows = demo_world\<lparr>w_tables := (\<lambda>_. [])(''deployments'' := rows)\<rparr>"

definition demo_request :: proxy_Request where
  "demo_request = \<lparr>pr_Host = ''shop.example.com:443'', pr_Method = ''GET'', pr_Path = ''/'', pr_Header = (\<lambda>_. []),
     pr_RemoteAddr = ''10.0.0.9''\<rparr>"

theorem proxy_routes_soundly_witness:
  "\<exists>w' f r d. ServeHTTP demo_server demo_request (demo_proxy_world [demo_host_row ''d2'' ''verified'']) = (w', Forwarded f)
     \<and> routed_to demo_server ''shop.example.com'' (demo_proxy_world [demo_host_row ''d2'' ''verified'']) f r d
     \<and> fw_Upstream f = ''http://127.0.0.1:81''"
proof -
  have "case ServeHTTP demo_server demo_request (demo_proxy_world [demo_host_row ''d2'' ''verified'']) of
      (w', Forwarded f) \<Rightarrow> fw_Upstream f = ''http://127.0.0.1:81'' | _ \<Rightarrow> False"
    by code_simp
  then obtain w' f where run: "ServeHTTP demo_server demo_request (demo_proxy_world [demo_host_row ''d2'' ''verified'']) = (w', Forwarded f)"
    and u: "fw_Upstream f = ''http://127.0.0.1:81''"
    by (auto split: prod.splits proxy_response.splits)
  have h: "host_without_port (pr_Host demo_request) = ''shop.example.com''" by code_simp
  have "st_schema (px_store demo_server) ''deployments'' = Some DeploymentResource" by (simp add: demo_server_def demo_store_def)
  from proxy_routes_soundly [OF run this] obtain r d where
    "routed_to demo_server ''shop.example.com'' (demo_proxy_world [demo_host_row ''d2'' ''verified'']) f r d"
    unfolding h proxy_response.case by (elim conjE exE)
  with run u show ?thesis by (intro exI conjI)
qed

theorem unverified_domain_shadows_witness:
  "snd (ServeHTTP demo_server demo_request (demo_proxy_world [demo_host_row ''d1'' ''pending'', demo_host_row ''d2'' ''verified'']))
     = ErrorPage 403 ''verification_pending.html'' ''shop.example.com'' ''DNS verification pending for shop.example.com''"
proof -
  let ?w = "demo_proxy_world [demo_host_row ''d1'' ''pending'', demo_host_row ''d2'' ''verified'']"
  have r: "find (serves (px_env demo_server) ''shop.example.com'') (w_tables ?w ''deployments'') = Some (demo_host_row ''d1'' ''pending'')"
    by (simp add: serves_def demo_server_def demo_proxy_env_def demo_proxy_world_def demo_host_row_def row_get_def)
  have p: "pending_domain demo_server ''shop.example.com'' (dep_Domains (mapToDeployment (px_env demo_server)
      (decodeRow (px_env demo_server) DeploymentResource (project (selectColumns DeploymentResource) (demo_host_row ''d1'' ''pending'')))))"
    by code_simp
  have h: "host_without_port (pr_Host demo_request) = ''shop.example.com''" by code_simp
  have "ServeHTTP demo_server demo_request ?w = (tick ?w, serveError demo_server (NewVerificationPendingError ''shop.example.com''))"
    by (rule unverified_domain_shadows [OF r p h])
      (simp_all add: demo_request_def demo_server_def demo_store_def demo_proxy_env_def demo_env_def)
  then show ?thesis
    by (simp add: serveError_def demo_server_def NewVerificationPendingError_def error_template_def)
qed

end
