(* ===== verification/Docker_Engine.thy ===== *)
theory Docker_Engine
  imports Orchestrator Engine_Schema
begin

text \<open>
  \<open>internal/shell/docker/client.go\<close> with \<open>errors.go\<close>: the client that talks to a docker daemon through the docker SDK. The
  SDK is an argument, a record of functions that may depend on all calls made before; so are the nat package and the parsing and
  formatting of times. Every SDK call is recorded, in the form in which the SDK receives it.
\<close>

section \<open>Errors\<close>

datatype docker_err =
    NoErr | OtherErr string
  | ErrContainerNotFound | ErrContainerAlreadyExists | ErrContainerNotRunning | ErrContainerAlreadyRunning
  | ErrNetworkNotFound | ErrNetworkAlreadyExists | ErrNetworkInUse
  | ErrVolumeNotFound | ErrVolumeInUse | ErrImageNotFound | ErrImagePullFailed
  | ErrPortAlreadyAllocated | ErrConnectionFailed | ErrTimeout

record DockerError =
  de_Op :: string
  de_Entity :: string
  de_ID :: string
  de_Message :: string
  de_Err :: docker_err

definition NewDockerError :: "string \<Rightarrow> string \<Rightarrow> string \<Rightarrow> string \<Rightarrow> docker_err \<Rightarrow> DockerError" where
  "NewDockerError op entity i message err =
     \<lparr>de_Op = op, de_Entity = entity, de_ID = i, de_Message = message, de_Err = err\<rparr>"

definition DockerError_Error :: "DockerError \<Rightarrow> string" where
  "DockerError_Error e =
     (if de_ID e \<noteq> [] then de_Op e @ '' '' @ de_Entity e @ '' '' @ de_ID e @ '': '' @ de_Message e
      else if de_Entity e \<noteq> [] then de_Op e @ '' '' @ de_Entity e @ '': '' @ de_Message e
      else de_Op e @ '': '' @ de_Message e)"

definition DockerError_Unwrap :: "DockerError \<Rightarrow> docker_err" where
  "DockerError_Unwrap e = de_Err e"

section \<open>The SDK\<close>

text \<open>The parts of the SDK types that the program fills in or reads.\<close>

record sdk_HealthConfig =
  hcf_Test :: "string list"
  hcf_Interval :: int
  hcf_Timeout :: int
  hcf_Retries :: int
  hcf_StartPeriod :: int

record sdk_Config =
  ccf_Image :: string
  ccf_Cmd :: "string list"
  ccf_Entrypoint :: "string list"
  ccf_WorkingDir :: string
  ccf_User :: string
  ccf_Labels :: go_strmap
  ccf_Env :: "string list"
  ccf_ExposedPorts :: "string set"
  ccf_Healthcheck :: "sdk_HealthConfig option"

record sdk_Mount =
  mnt_Type :: string
  mnt_Source :: string
  mnt_Target :: string
  mnt_ReadOnly :: bool

record sdk_HostConfig =
  hcg_PortBindings :: "string \<rightharpoonup> (string \<times> string) list"
  hcg_Mounts :: "sdk_Mount list"
  hcg_NanoCPUs :: int
  hcg_Memory :: int
  hcg_RestartPolicy :: "string \<times> int"

text \<open>The endpoints of a new container: the aliases per network.\<close>

type_synonym sdk_Networking = "(string \<rightharpoonup> string list) option"

record sdk_LogsOptions =
  lo_Follow :: bool
  lo_Tail :: string
  lo_Timestamps :: bool
  lo_Since :: string
  lo_Until :: string

record sdk_Inspect =
  ins_ID :: string
  ins_Name :: string
  ins_Image :: string
  ins_Labels :: go_strmap
  ins_Created :: string
  ins_Status :: string
  ins_StartedAt :: string
  ins_FinishedAt :: string
  ins_Health :: "string option"
  ins_ExitCode :: int
  ins_Ports :: "(string \<times> (string \<times> string) list) list"

record sdk_Summary =
  sum_ID :: string
  sum_Names :: "string list"
  sum_Image :: string
  sum_State :: string
  sum_Created :: int
  sum_Labels :: go_strmap
  sum_Ports :: "(int \<times> int \<times> string \<times> string) list"

record sdk_Stats =
  st_CPUTotal :: "64 word"
  st_CPUSystem :: "64 word"
  st_CPUOnline :: "32 word"
  st_CPUPercpu :: nat
  st_PreCPUTotal :: "64 word"
  st_PreCPUSystem :: "64 word"
  st_MemUsage :: "64 word"
  st_MemLimit :: "64 word"
  st_Networks :: "(64 word \<times> 64 word) list"
  st_Blkio :: "(string \<times> 64 word) list"
  st_Pids :: "64 word"

record sdk_error =
  se_text :: string
  se_notfound :: bool

datatype sdk_call =
    SDKPing | SDKServerVersion
  | SDKContainerCreate sdk_Config sdk_HostConfig sdk_Networking string
  | SDKContainerStart string | SDKContainerStop string "int option" | SDKContainerRemove string bool bool
  | SDKContainerInspect string | SDKContainerList bool go_strmap | SDKContainerLogs string sdk_LogsOptions | SDKContainerStats string
  | SDKNetworkCreate string string go_strmap | SDKNetworkRemove string | SDKNetworkConnect string string
  | SDKNetworkDisconnect string string bool
  | SDKVolumeCreate string string go_strmap | SDKVolumeRemove string bool
  | SDKImagePull string string | SDKImageInspect string

type_synonym hist = "sdk_call list"

text \<open>
  A reader is given by its whole content and the error that ends it, if any; the stats of a container by what decoding them returns.
  \<open>sdk_range\<close> is the order in which \<open>range\<close> visits a map.
\<close>

record sdk =
  sdk_Ping :: "hist \<Rightarrow> sdk_error option"
  sdk_ServerVersion :: "hist \<Rightarrow> sdk_error + string \<times> string \<times> string"
  sdk_ContainerCreate :: "hist \<Rightarrow> sdk_Config \<Rightarrow> sdk_HostConfig \<Rightarrow> sdk_Networking \<Rightarrow> string \<Rightarrow> sdk_error + string"
  sdk_ContainerStart :: "hist \<Rightarrow> string \<Rightarrow> sdk_error option"
  sdk_ContainerStop :: "hist \<Rightarrow> string \<Rightarrow> int option \<Rightarrow> sdk_error option"
  sdk_ContainerRemove :: "hist \<Rightarrow> string \<Rightarrow> bool \<Rightarrow> bool \<Rightarrow> sdk_error option"
  sdk_ContainerInspect :: "hist \<Rightarrow> string \<Rightarrow> sdk_error + sdk_Inspect"
  sdk_ContainerList :: "hist \<Rightarrow> bool \<Rightarrow> go_strmap \<Rightarrow> sdk_error + sdk_Summary list"
  sdk_ContainerLogs :: "hist \<Rightarrow> string \<Rightarrow> sdk_LogsOptions \<Rightarrow> sdk_error + string \<times> string option"
  sdk_ContainerStats :: "hist \<Rightarrow> string \<Rightarrow> sdk_error + (string + sdk_Stats)"
  sdk_NetworkCreate :: "hist \<Rightarrow> string \<Rightarrow> string \<Rightarrow> go_strmap \<Rightarrow> sdk_error + string"
  sdk_NetworkRemove :: "hist \<Rightarrow> string \<Rightarrow> sdk_error option"
  sdk_NetworkConnect :: "hist \<Rightarrow> string \<Rightarrow> string \<Rightarrow> sdk_error option"
  sdk_NetworkDisconnect :: "hist \<Rightarrow> string \<Rightarrow> string \<Rightarrow> bool \<Rightarrow> sdk_error option"
  sdk_VolumeCreate :: "hist \<Rightarrow> string \<Rightarrow> string \<Rightarrow> go_strmap \<Rightarrow> sdk_error + string"
  sdk_VolumeRemove :: "hist \<Rightarrow> string \<Rightarrow> bool \<Rightarrow> sdk_error option"
  sdk_ImagePull :: "hist \<Rightarrow> string \<Rightarrow> string \<Rightarrow> sdk_error + string \<times> string option"
  sdk_ImageInspect :: "hist \<Rightarrow> string \<Rightarrow> sdk_error option"
  sdk_range :: "go_strmap \<Rightarrow> (string \<times> string) list"
  nat_Port :: "string \<Rightarrow> string"
  nat_Proto :: "string \<Rightarrow> string"
  time_ParseNano :: "string \<Rightarrow> time option"
  time_Format :: "time \<Rightarrow> string"
  time_Unix :: "int \<Rightarrow> time"

section \<open>The container request\<close>

definition port_key :: "PortBinding \<Rightarrow> string" where
  "port_key p = fmt_d (pb_ContainerPort p) @ ''/'' @ (if pb_Protocol p = [] then ''tcp'' else pb_Protocol p)"

definition host_port :: "PortBinding \<Rightarrow> string" where
  "host_port p = (if pb_HostPort p \<noteq> 0 then fmt_d (pb_HostPort p) else [])"

definition bind_port :: "(string \<rightharpoonup> (string \<times> string) list) \<Rightarrow> PortBinding \<Rightarrow> (string \<rightharpoonup> (string \<times> string) list)" where
  "bind_port m p = m(port_key p \<mapsto> [(pb_HostIP p, host_port p)])"

definition mount_of :: "docker_VolumeMount \<Rightarrow> sdk_Mount" where
  "mount_of v = \<lparr>mnt_Type = (if HasPrefix (dvm_Source v) ''/'' then ''bind'' else ''volume''), mnt_Source = dvm_Source v,
     mnt_Target = dvm_Target v, mnt_ReadOnly = dvm_ReadOnly v\<rparr>"

definition health_config :: "docker_HealthCheck \<Rightarrow> sdk_HealthConfig" where
  "health_config h = \<lparr>hcf_Test = dhc_Test h, hcf_Interval = dhc_Interval h, hcf_Timeout = dhc_Timeout h,
     hcf_Retries = dhc_Retries h, hcf_StartPeriod = dhc_StartPeriod h\<rparr>"

definition env_list :: "sdk \<Rightarrow> go_strmap \<Rightarrow> string list" where
  "env_list k env = map (\<lambda>(n, v). n @ ''='' @ v) (sdk_range k env)"

definition container_config :: "sdk \<Rightarrow> docker_ContainerSpec \<Rightarrow> sdk_Config" where
  "container_config k spec =
     \<lparr>ccf_Image = dcs_Image spec, ccf_Cmd = dcs_Command spec, ccf_Entrypoint = dcs_Entrypoint spec, ccf_WorkingDir = dcs_WorkingDir spec,
      ccf_User = dcs_User spec, ccf_Labels = dcs_Labels spec, ccf_Env = env_list k (dcs_Env spec),
      ccf_ExposedPorts = port_key ` set (dcs_Ports spec), ccf_Healthcheck = map_option health_config (dcs_HealthCheck spec)\<rparr>"

definition nano_cpus :: "float64 \<Rightarrow> int" where
  "nano_cpus limit = (if flt (Fin 0) limit then int64_of_float (fmul limit (float_of_int 1000000000)) else 0)"

definition container_host_config :: "docker_ContainerSpec \<Rightarrow> sdk_HostConfig" where
  "container_host_config spec =
     \<lparr>hcg_PortBindings = foldl bind_port Map.empty (dcs_Ports spec), hcg_Mounts = map mount_of (dcs_Volumes spec),
      hcg_NanoCPUs = nano_cpus (drl_CPULimit (dcs_Resources spec)),
      hcg_Memory = (if 0 < drl_MemoryLimit (dcs_Resources spec) then drl_MemoryLimit (dcs_Resources spec) else 0),
      hcg_RestartPolicy = (if drp_Name (dcs_RestartPolicy spec) \<noteq> []
        then (drp_Name (dcs_RestartPolicy spec), drp_MaximumRetryCount (dcs_RestartPolicy spec)) else ([], 0))\<rparr>"

definition container_networking :: "docker_ContainerSpec \<Rightarrow> sdk_Networking" where
  "container_networking spec =
     (if dcs_Networks spec = [] then None
      else Some (foldl (\<lambda>m n. m(n \<mapsto> (case dcs_NetworkAliases spec n of Some aliases \<Rightarrow> aliases | None \<Rightarrow> []))) Map.empty
             (dcs_Networks spec)))"

section \<open>Operations\<close>

text \<open>The call with no result, and how its error is reported.\<close>

definition sdk_unit :: "sdk_call \<Rightarrow> sdk_error option \<Rightarrow> (sdk_error \<Rightarrow> DockerError) \<Rightarrow> hist \<Rightarrow> hist \<times> DockerError option" where
  "sdk_unit c r report h = (h @ [c], map_option report r)"

definition sdk_value :: "sdk_call \<Rightarrow> sdk_error + 'a \<Rightarrow> (sdk_error \<Rightarrow> DockerError) \<Rightarrow> hist \<Rightarrow> hist \<times> (DockerError + 'a)" where
  "sdk_value c r report h = (h @ [c], map_sum report id r)"

definition DockerClient_Ping :: "sdk \<Rightarrow> hist \<Rightarrow> hist \<times> DockerError option" where
  "DockerClient_Ping k h = sdk_unit SDKPing (sdk_Ping k h)
     (\<lambda>err. NewDockerError ''Ping'' [] [] (''failed to ping docker: '' @ se_text err) ErrConnectionFailed) h"

definition create_error :: "string \<Rightarrow> sdk_error \<Rightarrow> DockerError" where
  "create_error name err =
     (if contains_str ''Conflict'' (se_text err)
      then NewDockerError ''CreateContainer'' ''container'' name ''container already exists'' ErrContainerAlreadyExists
      else if contains_str ''port is already allocated'' (se_text err)
      then NewDockerError ''CreateContainer'' ''container'' name (se_text err) ErrPortAlreadyAllocated
      else NewDockerError ''CreateContainer'' ''container'' name (se_text err) (OtherErr (se_text err)))"

definition DockerClient_CreateContainer :: "sdk \<Rightarrow> docker_ContainerSpec \<Rightarrow> hist \<Rightarrow> hist \<times> (DockerError + string)" where
  "DockerClient_CreateContainer k spec h =
     (let config = container_config k spec; hostConfig = container_host_config spec; networkConfig = container_networking spec
      in sdk_value (SDKContainerCreate config hostConfig networkConfig (dcs_Name spec))
           (sdk_ContainerCreate k h config hostConfig networkConfig (dcs_Name spec)) (create_error (dcs_Name spec)) h)"

definition start_error :: "string \<Rightarrow> sdk_error \<Rightarrow> DockerError" where
  "start_error i err =
     (if se_notfound err then NewDockerError ''StartContainer'' ''container'' i ''container not found'' ErrContainerNotFound
      else if contains_str ''is already running'' (se_text err)
      then NewDockerError ''StartContainer'' ''container'' i ''container is already running'' ErrContainerAlreadyRunning
      else NewDockerError ''StartContainer'' ''container'' i (se_text err) (OtherErr (se_text err)))"

definition DockerClient_StartContainer :: "sdk \<Rightarrow> string \<Rightarrow> hist \<Rightarrow> hist \<times> DockerError option" where
  "DockerClient_StartContainer k i h = sdk_unit (SDKContainerStart i) (sdk_ContainerStart k h i) (start_error i) h"

text \<open>\<open>Duration.Seconds\<close> of a duration in nanoseconds: whole seconds and the rest, added as floats.\<close>

definition Duration_Seconds :: "int \<Rightarrow> float64" where
  "Duration_Seconds d =
     (let sec = quot64 d 1000000000; nsec = d - 1000000000 * sec
      in fadd (float_of_int sec) (fdiv (float_of_int nsec) (float_of_int 1000000000)))"

definition timeout_seconds :: "int option \<Rightarrow> int option" where
  "timeout_seconds timeout = map_option (\<lambda>t. int64_of_float (Duration_Seconds t)) timeout"

definition stop_error :: "string \<Rightarrow> sdk_error \<Rightarrow> DockerError" where
  "stop_error i err =
     (if se_notfound err then NewDockerError ''StopContainer'' ''container'' i ''container not found'' ErrContainerNotFound
      else if contains_str ''is not running'' (se_text err)
      then NewDockerError ''StopContainer'' ''container'' i ''container is not running'' ErrContainerNotRunning
      else NewDockerError ''StopContainer'' ''container'' i (se_text err) (OtherErr (se_text err)))"

definition DockerClient_StopContainer :: "sdk \<Rightarrow> string \<Rightarrow> int option \<Rightarrow> hist \<Rightarrow> hist \<times> DockerError option" where
  "DockerClient_StopContainer k i timeout h =
     sdk_unit (SDKContainerStop i (timeout_seconds timeout)) (sdk_ContainerStop k h i (timeout_seconds timeout)) (stop_error i) h"

definition missing_error :: "string \<Rightarrow> string \<Rightarrow> sdk_error \<Rightarrow> DockerError" where
  "missing_error op i err =
     (if se_notfound err then NewDockerError op ''container'' i ''container not found'' ErrContainerNotFound
      else NewDockerError op ''container'' i (se_text err) (OtherErr (se_text err)))"

definition DockerClient_RemoveContainer :: "sdk \<Rightarrow> string \<Rightarrow> bool \<Rightarrow> bool \<Rightarrow> hist \<Rightarrow> hist \<times> DockerError option" where
  "DockerClient_RemoveContainer k i force removeVolumes h =
     sdk_unit (SDKContainerRemove i force removeVolumes) (sdk_ContainerRemove k h i force removeVolumes)
       (missing_error ''RemoveContainer'' i) h"

text \<open>\<open>fmt.Sscanf(s, "%d", &n)\<close>: blanks, a sign, the digits that follow; zero when there are none or they do not fit.\<close>

definition Sscanf_d :: "string \<Rightarrow> int" where
  "Sscanf_d s =
     (let s = dropWhile (\<lambda>c. c = CHR '' '' \<or> c = CHR 0x09) s;
          (neg, body) = (case s of c # cs \<Rightarrow> if c = CHR ''-'' then (True, cs) else if c = CHR ''+'' then (False, cs) else (False, s)
                         | [] \<Rightarrow> (False, []));
          ds = takeWhile is_digit body; v = (if neg then - int (read_digits ds) else int (read_digits ds))
      in if ds = [] \<or> \<not> in_int64 v then 0 else v)"

definition no_time :: string where "no_time = ''0001-01-01T00:00:00Z''"

text \<open>\<open>t, _ := time.Parse(...)\<close>: the zero time on an error, and still a pointer to it.\<close>

definition client_time :: "sdk \<Rightarrow> string \<Rightarrow> time option" where
  "client_time k s = (if s \<noteq> [] \<and> s \<noteq> no_time then Some (case time_ParseNano k s of Some t \<Rightarrow> t | None \<Rightarrow> 0) else None)"

definition inspect_ports :: "sdk \<Rightarrow> (string \<Rightarrow> int) \<Rightarrow> (string \<times> (string \<times> string) list) list \<Rightarrow> PortBinding list" where
  "inspect_ports k number ports =
     concat (map (\<lambda>(key, bindings). map (\<lambda>(ip, hp). \<lparr>pb_ContainerPort = number (nat_Port k key), pb_HostPort = number hp,
        pb_Protocol = nat_Proto k key, pb_HostIP = ip\<rparr>) bindings) ports)"

definition inspect_info :: "sdk \<Rightarrow> sdk_Inspect \<Rightarrow> docker_ContainerInfo" where
  "inspect_info k r =
     \<lparr>dci_ID = ins_ID r, dci_Name = TrimPrefix (ins_Name r) ''/'', dci_Image = ins_Image r, dci_Status = ins_Status r,
      dci_State = ins_Status r, dci_Health = (case ins_Health r of Some s \<Rightarrow> s | None \<Rightarrow> []),
      dci_CreatedAt = (case time_ParseNano k (ins_Created r) of Some t \<Rightarrow> t | None \<Rightarrow> 0),
      dci_StartedAt = client_time k (ins_StartedAt r), dci_FinishedAt = client_time k (ins_FinishedAt r),
      dci_Ports = inspect_ports k Sscanf_d (ins_Ports r), dci_Labels = ins_Labels r, dci_ExitCode = ins_ExitCode r\<rparr>"

definition DockerClient_InspectContainer :: "sdk \<Rightarrow> string \<Rightarrow> hist \<Rightarrow> hist \<times> (DockerError + docker_ContainerInfo)" where
  "DockerClient_InspectContainer k i h =
     sdk_value (SDKContainerInspect i) (map_sum id (inspect_info k) (sdk_ContainerInspect k h i)) (missing_error ''InspectContainer'' i) h"

definition summary_port :: "int \<times> int \<times> string \<times> string \<Rightarrow> PortBinding" where
  "summary_port p = (case p of (private, public, proto, ip) \<Rightarrow>
     \<lparr>pb_ContainerPort = private, pb_HostPort = public, pb_Protocol = proto, pb_HostIP = ip\<rparr>)"

definition summary_name :: "sdk_Summary \<Rightarrow> string" where
  "summary_name c = (case sum_Names c of n # _ \<Rightarrow> TrimPrefix n ''/'' | [] \<Rightarrow> [])"

definition summary_info :: "sdk \<Rightarrow> sdk_Summary \<Rightarrow> docker_ContainerInfo" where
  "summary_info k c =
     \<lparr>dci_ID = sum_ID c, dci_Name = summary_name c, dci_Image = sum_Image c, dci_Status = sum_State c, dci_State = sum_State c,
      dci_Health = [], dci_CreatedAt = time_Unix k (sum_Created c), dci_StartedAt = None, dci_FinishedAt = None,
      dci_Ports = map summary_port (sum_Ports c), dci_Labels = sum_Labels c, dci_ExitCode = 0\<rparr>"

definition plain_error :: "string \<Rightarrow> string \<Rightarrow> string \<Rightarrow> sdk_error \<Rightarrow> DockerError" where
  "plain_error op entity i err = NewDockerError op entity i (se_text err) (OtherErr (se_text err))"

definition DockerClient_ListContainers :: "sdk \<Rightarrow> bool \<Rightarrow> go_strmap \<Rightarrow> hist \<Rightarrow> hist \<times> (DockerError + docker_ContainerInfo list)" where
  "DockerClient_ListContainers k all filters h =
     sdk_value (SDKContainerList all filters) (map_sum id (map (summary_info k)) (sdk_ContainerList k h all filters))
       (plain_error ''ListContainers'' ''container'' []) h"

record docker_LogOptions =
  dlo_Follow :: bool
  dlo_Tail :: string
  dlo_Since :: time
  dlo_Until :: time
  dlo_Timestamps :: bool

definition format_time :: "sdk \<Rightarrow> time \<Rightarrow> string" where
  "format_time k t = (if t = 0 then [] else time_Format k t)"

definition logs_options :: "sdk \<Rightarrow> docker_LogOptions \<Rightarrow> sdk_LogsOptions" where
  "logs_options k opts = \<lparr>lo_Follow = dlo_Follow opts, lo_Tail = dlo_Tail opts, lo_Timestamps = dlo_Timestamps opts,
     lo_Since = format_time k (dlo_Since opts), lo_Until = format_time k (dlo_Until opts)\<rparr>"

definition DockerClient_ContainerLogs :: "sdk \<Rightarrow> string \<Rightarrow> docker_LogOptions \<Rightarrow> hist \<Rightarrow> hist \<times> (DockerError + string \<times> string option)" where
  "DockerClient_ContainerLogs k i opts h =
     sdk_value (SDKContainerLogs i (logs_options k opts)) (sdk_ContainerLogs k h i (logs_options k opts)) (missing_error ''ContainerLogs'' i) h"

definition DockerClient_CreateNetwork :: "sdk \<Rightarrow> docker_NetworkSpec \<Rightarrow> hist \<Rightarrow> hist \<times> (DockerError + string)" where
  "DockerClient_CreateNetwork k spec h =
     (let driver = (if dns_Driver spec = [] then ''bridge'' else dns_Driver spec)
      in sdk_value (SDKNetworkCreate (dns_Name spec) driver (dns_Labels spec)) (sdk_NetworkCreate k h (dns_Name spec) driver (dns_Labels spec))
           (\<lambda>err. if contains_str ''already exists'' (se_text err)
                  then NewDockerError ''CreateNetwork'' ''network'' (dns_Name spec) ''network already exists'' ErrNetworkAlreadyExists
                  else plain_error ''CreateNetwork'' ''network'' (dns_Name spec) err) h)"

definition DockerClient_RemoveNetwork :: "sdk \<Rightarrow> string \<Rightarrow> hist \<Rightarrow> hist \<times> DockerError option" where
  "DockerClient_RemoveNetwork k n h =
     sdk_unit (SDKNetworkRemove n) (sdk_NetworkRemove k h n)
       (\<lambda>err. if se_notfound err then NewDockerError ''RemoveNetwork'' ''network'' n ''network not found'' ErrNetworkNotFound
              else if contains_str ''has active endpoints'' (se_text err)
              then NewDockerError ''RemoveNetwork'' ''network'' n ''network has active endpoints'' ErrNetworkInUse
              else plain_error ''RemoveNetwork'' ''network'' n err) h"

definition endpoint_error :: "string \<Rightarrow> string \<Rightarrow> string \<Rightarrow> sdk_error \<Rightarrow> DockerError" where
  "endpoint_error op n i err =
     (if se_notfound err then
        if contains_str ''network'' (se_text err) then NewDockerError op ''network'' n ''network not found'' ErrNetworkNotFound
        else NewDockerError op ''container'' i ''container not found'' ErrContainerNotFound
      else plain_error op ''network'' n err)"

definition DockerClient_ConnectNetwork :: "sdk \<Rightarrow> string \<Rightarrow> string \<Rightarrow> hist \<Rightarrow> hist \<times> DockerError option" where
  "DockerClient_ConnectNetwork k n i h =
     sdk_unit (SDKNetworkConnect n i) (sdk_NetworkConnect k h n i) (endpoint_error ''ConnectNetwork'' n i) h"

definition DockerClient_DisconnectNetwork :: "sdk \<Rightarrow> string \<Rightarrow> string \<Rightarrow> bool \<Rightarrow> hist \<Rightarrow> hist \<times> DockerError option" where
  "DockerClient_DisconnectNetwork k n i force h =
     sdk_unit (SDKNetworkDisconnect n i force) (sdk_NetworkDisconnect k h n i force) (endpoint_error ''DisconnectNetwork'' n i) h"

definition DockerClient_CreateVolume :: "sdk \<Rightarrow> docker_VolumeSpec \<Rightarrow> hist \<Rightarrow> hist \<times> (DockerError + string)" where
  "DockerClient_CreateVolume k spec h =
     (let driver = (if dvs_Driver spec = [] then ''local'' else dvs_Driver spec)
      in sdk_value (SDKVolumeCreate (dvs_Name spec) driver (dvs_Labels spec)) (sdk_VolumeCreate k h (dvs_Name spec) driver (dvs_Labels spec))
           (plain_error ''CreateVolume'' ''volume'' (dvs_Name spec)) h)"

definition DockerClient_RemoveVolume :: "sdk \<Rightarrow> string \<Rightarrow> bool \<Rightarrow> hist \<Rightarrow> hist \<times> DockerError option" where
  "DockerClient_RemoveVolume k v force h =
     sdk_unit (SDKVolumeRemove v force) (sdk_VolumeRemove k h v force)
       (\<lambda>err. if se_notfound err then NewDockerError ''RemoveVolume'' ''volume'' v ''volume not found'' ErrVolumeNotFound
              else if contains_str ''in use'' (se_text err) then NewDockerError ''RemoveVolume'' ''volume'' v ''volume is in use'' ErrVolumeInUse
              else plain_error ''RemoveVolume'' ''volume'' v err) h"

definition pull_error :: "string \<Rightarrow> string \<Rightarrow> DockerError" where
  "pull_error img errStr =
     (if contains_str ''not found'' errStr \<or> contains_str ''manifest unknown'' errStr \<or> contains_str ''repository does not exist'' errStr
         \<or> contains_str ''pull access denied'' errStr
      then NewDockerError ''PullImage'' ''image'' img ''image not found'' ErrImageNotFound
      else NewDockerError ''PullImage'' ''image'' img errStr ErrImagePullFailed)"

definition DockerClient_PullImage :: "sdk \<Rightarrow> string \<Rightarrow> string \<Rightarrow> hist \<Rightarrow> hist \<times> DockerError option" where
  "DockerClient_PullImage k img platform h =
     (h @ [SDKImagePull img platform],
      case sdk_ImagePull k h img platform of
        Inl err \<Rightarrow> Some (pull_error img (se_text err))
      | Inr (content, None) \<Rightarrow> None
      | Inr (content, Some err) \<Rightarrow> Some (NewDockerError ''PullImage'' ''image'' img err ErrImagePullFailed))"

definition DockerClient_ImageExists :: "sdk \<Rightarrow> string \<Rightarrow> hist \<Rightarrow> hist \<times> (DockerError + bool)" where
  "DockerClient_ImageExists k img h =
     (h @ [SDKImageInspect img],
      case sdk_ImageInspect k h img of
        Some err \<Rightarrow> if se_notfound err then Inr False else Inl (plain_error ''ImageExists'' ''image'' img err)
      | None \<Rightarrow> Inr True)"

section \<open>Statistics\<close>

record ContainerResourceStats =
  crs_CPUPercent :: float64
  crs_MemoryUsageBytes :: int
  crs_MemoryLimitBytes :: int
  crs_MemoryPercent :: float64
  crs_NetworkRxBytes :: int
  crs_NetworkTxBytes :: int
  crs_BlockReadBytes :: int
  crs_BlockWriteBytes :: int
  crs_PIDs :: int

definition float_of_word :: "'a::len word \<Rightarrow> float64" where
  "float_of_word w = float_of_int (uint w)"

text \<open>\<open>int64(w)\<close> of an unsigned value reads its bits as a signed number.\<close>

definition int64_of_word :: "64 word \<Rightarrow> int" where
  "int64_of_word w = sint w"

definition calculateCPUPercent :: "sdk_Stats \<Rightarrow> float64" where
  "calculateCPUPercent s =
     (let cpuDelta = float_of_word (st_CPUTotal s - st_PreCPUTotal s); systemDelta = float_of_word (st_CPUSystem s - st_PreCPUSystem s)
      in if flt (Fin 0) systemDelta \<and> flt (Fin 0) cpuDelta then
           let cpuCount = float_of_word (st_CPUOnline s);
               cpuCount = (if cpuCount = Fin 0 then float_of_int (int (st_CPUPercpu s)) else cpuCount);
               cpuCount = (if cpuCount = Fin 0 then Fin 1 else cpuCount)
           in fmul (fmul (fdiv cpuDelta systemDelta) cpuCount) (Fin 100)
         else Fin 0)"

definition sum_int64 :: "64 word list \<Rightarrow> int" where
  "sum_int64 ws = foldl (\<lambda>a w. wrap64 (a + int64_of_word w)) 0 ws"

definition blkio_sum :: "string list \<Rightarrow> (string \<times> 64 word) list \<Rightarrow> int" where
  "blkio_sum ops es = sum_int64 (map snd (filter (\<lambda>(op, _). op \<in> set ops) es))"

definition client_stats :: "sdk_Stats \<Rightarrow> ContainerResourceStats" where
  "client_stats s =
     \<lparr>crs_CPUPercent = calculateCPUPercent s, crs_MemoryUsageBytes = int64_of_word (st_MemUsage s),
      crs_MemoryLimitBytes = int64_of_word (st_MemLimit s),
      crs_MemoryPercent = (if 0 < st_MemLimit s
         then fmul (fdiv (float_of_word (st_MemUsage s)) (float_of_word (st_MemLimit s))) (Fin 100) else Fin 0),
      crs_NetworkRxBytes = sum_int64 (map fst (st_Networks s)), crs_NetworkTxBytes = sum_int64 (map snd (st_Networks s)),
      crs_BlockReadBytes = blkio_sum [''Read'', ''read''] (st_Blkio s), crs_BlockWriteBytes = blkio_sum [''Write'', ''write''] (st_Blkio s),
      crs_PIDs = int64_of_word (st_Pids s)\<rparr>"

definition DockerClient_ContainerStats :: "sdk \<Rightarrow> string \<Rightarrow> hist \<Rightarrow> hist \<times> (DockerError + ContainerResourceStats)" where
  "DockerClient_ContainerStats k i h =
     (h @ [SDKContainerStats i],
      case sdk_ContainerStats k h i of
        Inl err \<Rightarrow> Inl (missing_error ''ContainerStats'' i err)
      | Inr (Inl err) \<Rightarrow> Inl (NewDockerError ''ContainerStats'' ''container'' i (''failed to decode stats: '' @ err) (OtherErr err))
      | Inr (Inr stats) \<Rightarrow> Inr (client_stats stats))"

section \<open>Connecting\<close>

text \<open>Making an SDK client for a host (none: from the environment), and whether it answers a ping.\<close>

record 'c sdk_factory =
  fac_New :: "string option \<Rightarrow> string + 'c"
  fac_Ping :: "'c \<Rightarrow> bool"
  fac_HomeDir :: string

text \<open>The result, with the clients that were closed.\<close>

definition NewDockerClient :: "'c sdk_factory \<Rightarrow> string \<Rightarrow> 'c list \<times> (DockerError + 'c)" where
  "NewDockerClient fac host =
     (case fac_New fac (if host = [] then None else Some host) of
        Inl err \<Rightarrow> ([], Inl (NewDockerError ''NewDockerClient'' [] [] ''failed to create client'' ErrConnectionFailed))
      | Inr cli \<Rightarrow>
          if fac_Ping fac cli then ([], Inr cli)
          else (case fac_New fac (Some (''unix://'' @ fac_HomeDir fac @ ''/.docker/run/docker.sock'')) of
                  Inl _ \<Rightarrow> ([], Inr cli)
                | Inr cli2 \<Rightarrow> if fac_Ping fac cli2 then ([cli], Inr cli2) else ([cli2], Inr cli)))"

end
