(* ===== verification/Minion_Agent.thy ===== *)
theory Minion_Agent
  imports Docker_Engine
begin

text \<open>
  The agent that runs docker commands on a node: the protocol of \<open>internal/core/minion/protocol.go\<close> and the commands of
  \<open>cmd/hoster-minion\<close>. A run of the agent reads its arguments and its standard input, makes SDK calls and writes one
  response. JSON encoding and decoding of the protocol types are arguments, as are the SDK and the facts of the host.
\<close>

section \<open>Protocol\<close>

definition protocol_Version :: string where "protocol_Version = ''1.1.0''"

record ErrorInfo =
  ei_Command :: string
  ei_Code :: string
  ei_Message :: string

record minion_Response =
  mr_Success :: bool
  mr_Data :: "string option"
  mr_Error :: "ErrorInfo option"

text \<open>The argument is the marshalled data, none for \<open>nil\<close>.\<close>

definition NewSuccessResponse :: "(string + string) option \<Rightarrow> string + minion_Response" where
  "NewSuccessResponse data =
     (case data of
        None \<Rightarrow> Inr \<lparr>mr_Success = True, mr_Data = None, mr_Error = None\<rparr>
      | Some (Inl err) \<Rightarrow> Inl (''marshal data: '' @ err)
      | Some (Inr raw) \<Rightarrow> Inr \<lparr>mr_Success = True, mr_Data = Some raw, mr_Error = None\<rparr>)"

definition NewErrorResponse :: "string \<Rightarrow> string \<Rightarrow> string \<Rightarrow> minion_Response" where
  "NewErrorResponse command code message =
     \<lparr>mr_Success = False, mr_Data = None,
      mr_Error = Some \<lparr>ei_Command = command, ei_Code = code, ei_Message = message\<rparr>\<rparr>"

definition ErrCodeNotFound :: string where [const_defs]: "ErrCodeNotFound = ''not_found''"
definition ErrCodeAlreadyExists :: string where [const_defs]: "ErrCodeAlreadyExists = ''already_exists''"
definition ErrCodeNotRunning :: string where [const_defs]: "ErrCodeNotRunning = ''not_running''"
definition ErrCodeAlreadyRunning :: string where [const_defs]: "ErrCodeAlreadyRunning = ''already_running''"
definition ErrCodeInUse :: string where [const_defs]: "ErrCodeInUse = ''in_use''"
definition ErrCodePortConflict :: string where [const_defs]: "ErrCodePortConflict = ''port_conflict''"
definition ErrCodeConnectionFailed :: string where [const_defs]: "ErrCodeConnectionFailed = ''connection_failed''"
definition ErrCodeTimeout :: string where [const_defs]: "ErrCodeTimeout = ''timeout''"
definition ErrCodePullFailed :: string where [const_defs]: "ErrCodePullFailed = ''pull_failed''"
definition ErrCodeInvalidInput :: string where [const_defs]: "ErrCodeInvalidInput = ''invalid_input''"
definition ErrCodeInternal :: string where [const_defs]: "ErrCodeInternal = ''internal''"

record VersionInfo =
  vi_Version :: string
  vi_BuildTime :: string
  vi_GoVersion :: string

record PingInfo =
  pi_DockerVersion :: string
  pi_APIVersion :: string
  pi_OS :: string
  pi_Arch :: string

record SystemInfo =
  si_CPUCores :: float64
  si_MemoryTotalMB :: int
  si_DiskTotalMB :: int
  si_CPUUsedPct :: float64
  si_MemoryUsedMB :: int
  si_DiskUsedMB :: int

record minion_PortBinding =
  mpb_ContainerPort :: int
  mpb_HostPort :: int
  mpb_Protocol :: string
  mpb_HostIP :: string

record minion_VolumeMount =
  mvm_Source :: string
  mvm_Target :: string
  mvm_ReadOnly :: bool

record minion_HealthCheck =
  mhc_Test :: "string list"
  mhc_Interval :: int
  mhc_Timeout :: int
  mhc_Retries :: int
  mhc_StartPeriod :: int

record minion_ContainerSpec =
  mcs_Name :: string
  mcs_Image :: string
  mcs_Command :: "string list"
  mcs_Entrypoint :: "string list"
  mcs_Env :: go_strmap
  mcs_Labels :: go_strmap
  mcs_Ports :: "minion_PortBinding list"
  mcs_Volumes :: "minion_VolumeMount list"
  mcs_Networks :: "string list"
  mcs_WorkingDir :: string
  mcs_User :: string
  mcs_RestartPolicy :: "string \<times> int"
  mcs_CPULimit :: float64
  mcs_MemoryLimit :: int
  mcs_HealthCheck :: "minion_HealthCheck option"

record minion_ContainerInfo =
  mci_ID :: string
  mci_Name :: string
  mci_Image :: string
  mci_Status :: string
  mci_State :: string
  mci_Health :: string
  mci_CreatedAt :: time
  mci_StartedAt :: "time option"
  mci_FinishedAt :: "time option"
  mci_Ports :: "minion_PortBinding list"
  mci_Labels :: go_strmap
  mci_ExitCode :: int

record minion_NetworkSpec =
  mns_Name :: string
  mns_Driver :: string
  mns_Labels :: go_strmap

record minion_VolumeSpec =
  mvs_Name :: string
  mvs_Driver :: string
  mvs_Labels :: go_strmap

record minion_RemoveOptions =
  mro_Force :: bool
  mro_RemoveVolumes :: bool

record minion_ListOptions =
  mlo_All :: bool
  mlo_Filters :: go_strmap

text \<open>The statistics and the log options have the fields of the docker types.\<close>

type_synonym minion_Stats = ContainerResourceStats
type_synonym minion_LogOptions = docker_LogOptions

text \<open>\<open>json.Marshal\<close> and decoding for the types that cross the wire.\<close>

record json_pkg =
  enc_Response :: "minion_Response \<Rightarrow> string"
  dec_Response :: "string \<Rightarrow> string + minion_Response"
  enc_Spec :: "minion_ContainerSpec \<Rightarrow> string + string"
  dec_Spec :: "string \<Rightarrow> string + minion_ContainerSpec"
  enc_Network :: "minion_NetworkSpec \<Rightarrow> string + string"
  dec_Network :: "string \<Rightarrow> string + minion_NetworkSpec"
  enc_Volume :: "minion_VolumeSpec \<Rightarrow> string + string"
  dec_Volume :: "string \<Rightarrow> string + minion_VolumeSpec"
  enc_Remove :: "minion_RemoveOptions \<Rightarrow> string + string"
  dec_Remove :: "string \<Rightarrow> string + minion_RemoveOptions"
  enc_List :: "minion_ListOptions \<Rightarrow> string + string"
  dec_List :: "string \<Rightarrow> string + minion_ListOptions"
  enc_Log :: "minion_LogOptions \<Rightarrow> string + string"
  dec_Log :: "string \<Rightarrow> string + minion_LogOptions"
  enc_ID :: "string \<Rightarrow> string + string"
  dec_ID :: "string \<Rightarrow> string + string"
  enc_Name :: "string \<Rightarrow> string + string"
  dec_Name :: "string \<Rightarrow> string + string"
  enc_Exists :: "bool \<Rightarrow> string + string"
  dec_Exists :: "string \<Rightarrow> string + bool"
  enc_Logs :: "string \<Rightarrow> string + string"
  dec_Logs :: "string \<Rightarrow> string + string"
  enc_Info :: "minion_ContainerInfo \<Rightarrow> string + string"
  dec_Info :: "string \<Rightarrow> string + minion_ContainerInfo"
  enc_Infos :: "minion_ContainerInfo list \<Rightarrow> string + string"
  dec_Infos :: "string \<Rightarrow> string + minion_ContainerInfo list"
  enc_Stats :: "minion_Stats \<Rightarrow> string + string"
  dec_Stats :: "string \<Rightarrow> string + minion_Stats"
  enc_Version :: "VersionInfo \<Rightarrow> string + string"
  dec_Version :: "string \<Rightarrow> string + VersionInfo"
  enc_Ping :: "PingInfo \<Rightarrow> string + string"
  enc_System :: "SystemInfo \<Rightarrow> string + string"
  dec_System :: "string \<Rightarrow> string + SystemInfo"

definition ParseResponse :: "json_pkg \<Rightarrow> string \<Rightarrow> string + minion_Response" where
  "ParseResponse J data = map_sum (\<lambda>err. ''parse response: '' @ err) id (dec_Response J data)"

text \<open>The target keeps its zero value when there is no data.\<close>

definition UnmarshalData :: "minion_Response \<Rightarrow> (string \<Rightarrow> string + 'a) \<Rightarrow> 'a \<Rightarrow> string + 'a" where
  "UnmarshalData r dec zero = (case mr_Data r of None \<Rightarrow> Inr zero | Some raw \<Rightarrow> dec raw)"

section \<open>The agent\<close>

text \<open>
  \<open>ag_NewClient\<close> is the error of making an SDK client; \<open>ag_meminfo\<close> and \<open>ag_stat\<close> are the lines of the two files under \<open>/proc\<close>
  (the second is read twice), \<open>ag_Statfs\<close> gives total blocks, available blocks and the block size.
\<close>

record agent =
  ag_sdk :: sdk
  ag_json :: json_pkg
  ag_NewClient :: "string option"
  ag_Version :: string
  ag_BuildTime :: string
  ag_GoVersion :: string
  ag_GOARCH :: string
  ag_NumCPU :: int
  ag_meminfo :: "string list option"
  ag_Statfs :: "(64 word \<times> 64 word \<times> 64 word) option"
  ag_stat :: "nat \<Rightarrow> string list option"

text \<open>A command returns the calls made, the response it wrote and whether it succeeded.\<close>

type_synonym agent_result = "hist \<times> minion_Response \<times> bool"

definition outputSuccess :: "(string + string) option \<Rightarrow> minion_Response" where
  "outputSuccess data =
     (case NewSuccessResponse data of Inl err \<Rightarrow> NewErrorResponse ''internal'' ErrCodeInternal err | Inr resp \<Rightarrow> resp)"

definition usage_error :: "string \<Rightarrow> string \<Rightarrow> hist \<Rightarrow> agent_result" where
  "usage_error cmd usage h = (h, NewErrorResponse cmd ErrCodeInvalidInput (''usage: '' @ usage), False)"

definition with_client :: "agent \<Rightarrow> string \<Rightarrow> (hist \<Rightarrow> agent_result) \<Rightarrow> hist \<Rightarrow> agent_result" where
  "with_client ag cmd body h =
     (case ag_NewClient ag of
        Some err \<Rightarrow> (h, NewErrorResponse cmd ErrCodeConnectionFailed err, False)
      | None \<Rightarrow> body h)"

definition agent_unit :: "string \<Rightarrow> sdk_call \<Rightarrow> sdk_error option \<Rightarrow> (string \<Rightarrow> string) \<Rightarrow> hist \<Rightarrow> agent_result" where
  "agent_unit cmd c r code h =
     (h @ [c],
      case r of
        None \<Rightarrow> (outputSuccess None, True)
      | Some err \<Rightarrow> (NewErrorResponse cmd (code (se_text err)) (se_text err), False))"

definition agent_value :: "string \<Rightarrow> sdk_call \<Rightarrow> sdk_error + 'a \<Rightarrow> ('a \<Rightarrow> string + string) \<Rightarrow> (string \<Rightarrow> string) \<Rightarrow> hist \<Rightarrow> agent_result" where
  "agent_value cmd c r enc code h =
     (h @ [c],
      case r of
        Inr x \<Rightarrow> (outputSuccess (Some (enc x)), True)
      | Inl err \<Rightarrow> (NewErrorResponse cmd (code (se_text err)) (se_text err), False))"

definition not_found_code :: "string \<Rightarrow> string \<Rightarrow> string" where
  "not_found_code pattern err = (if contains_str pattern err then ErrCodeNotFound else ErrCodeInternal)"

section \<open>Container commands\<close>

definition agent_port_key :: "minion_PortBinding \<Rightarrow> string" where
  "agent_port_key p = fmt_d (mpb_ContainerPort p) @ ''/'' @ (if mpb_Protocol p = [] then ''tcp'' else mpb_Protocol p)"

definition agent_bind_port :: "(string \<rightharpoonup> (string \<times> string) list) \<Rightarrow> minion_PortBinding \<Rightarrow> (string \<rightharpoonup> (string \<times> string) list)" where
  "agent_bind_port m p = m(agent_port_key p \<mapsto>
     [(mpb_HostIP p, if mpb_HostPort p \<noteq> 0 then fmt_d (mpb_HostPort p) else [])])"

definition agent_config :: "sdk \<Rightarrow> minion_ContainerSpec \<Rightarrow> sdk_Config" where
  "agent_config k spec =
     \<lparr>ccf_Image = mcs_Image spec, ccf_Cmd = mcs_Command spec, ccf_Entrypoint = mcs_Entrypoint spec, ccf_WorkingDir = mcs_WorkingDir spec,
      ccf_User = mcs_User spec, ccf_Labels = mcs_Labels spec, ccf_Env = map (\<lambda>(n, v). n @ ''='' @ v) (sdk_range k (mcs_Env spec)),
      ccf_ExposedPorts = agent_port_key ` set (mcs_Ports spec),
      ccf_Healthcheck = map_option (\<lambda>h. \<lparr>hcf_Test = mhc_Test h, hcf_Interval = mhc_Interval h, hcf_Timeout = mhc_Timeout h,
        hcf_Retries = mhc_Retries h, hcf_StartPeriod = mhc_StartPeriod h\<rparr>) (mcs_HealthCheck spec)\<rparr>"

definition agent_mount :: "minion_VolumeMount \<Rightarrow> sdk_Mount" where
  "agent_mount v = \<lparr>mnt_Type = (if HasPrefix (mvm_Source v) ''/'' then ''bind'' else ''volume''), mnt_Source = mvm_Source v,
     mnt_Target = mvm_Target v, mnt_ReadOnly = mvm_ReadOnly v\<rparr>"

definition agent_host_config :: "minion_ContainerSpec \<Rightarrow> sdk_HostConfig" where
  "agent_host_config spec =
     \<lparr>hcg_PortBindings = foldl agent_bind_port Map.empty (mcs_Ports spec), hcg_Mounts = map agent_mount (mcs_Volumes spec),
      hcg_NanoCPUs = (if flt (Fin 0) (mcs_CPULimit spec) then int64_of_float (fmul (mcs_CPULimit spec) (float_of_int 1000000000)) else 0),
      hcg_Memory = (if 0 < mcs_MemoryLimit spec then mcs_MemoryLimit spec else 0),
      hcg_RestartPolicy = (if fst (mcs_RestartPolicy spec) \<noteq> [] then mcs_RestartPolicy spec else ([], 0))\<rparr>"

definition agent_networking :: "minion_ContainerSpec \<Rightarrow> sdk_Networking" where
  "agent_networking spec =
     (if mcs_Networks spec = [] then None else Some (foldl (\<lambda>m n. m(n \<mapsto> [])) Map.empty (mcs_Networks spec)))"

definition agent_create_code :: "string \<Rightarrow> string" where
  "agent_create_code err =
     (if contains_str ''Conflict'' err then ErrCodeAlreadyExists
      else if contains_str ''port is already allocated'' err then ErrCodePortConflict else ErrCodeInternal)"

definition createContainerCmd :: "agent \<Rightarrow> string \<Rightarrow> hist \<Rightarrow> agent_result" where
  "createContainerCmd ag stdin h =
     (case dec_Spec (ag_json ag) stdin of
        Inl err \<Rightarrow> (h, NewErrorResponse ''create-container'' ErrCodeInvalidInput (''invalid JSON input: '' @ err), False)
      | Inr spec \<Rightarrow>
          with_client ag ''create-container''
            (\<lambda>h. let config = agent_config (ag_sdk ag) spec; hostConfig = agent_host_config spec; networkConfig = agent_networking spec
                 in agent_value ''create-container'' (SDKContainerCreate config hostConfig networkConfig (mcs_Name spec))
                      (sdk_ContainerCreate (ag_sdk ag) h config hostConfig networkConfig (mcs_Name spec)) (enc_ID (ag_json ag))
                      agent_create_code h) h)"

definition startContainerCmd :: "agent \<Rightarrow> string list \<Rightarrow> hist \<Rightarrow> agent_result" where
  "startContainerCmd ag args h =
     (case args of
        [] \<Rightarrow> usage_error ''start-container'' ''start-container <container_id>'' h
      | i # _ \<Rightarrow> with_client ag ''start-container''
          (\<lambda>h. agent_unit ''start-container'' (SDKContainerStart i) (sdk_ContainerStart (ag_sdk ag) h i)
             (\<lambda>err. if contains_str ''No such container'' err then ErrCodeNotFound
                    else if contains_str ''is already running'' err then ErrCodeAlreadyRunning else ErrCodeInternal) h) h)"

text \<open>The timeout argument in milliseconds; one that is no number is left out.\<close>

definition stop_seconds :: "string list \<Rightarrow> int option" where
  "stop_seconds rest =
     (case rest of
        [] \<Rightarrow> None
      | ms # _ \<Rightarrow> (case Atoi ms of (n, None) \<Rightarrow> Some (quot64 n 1000) | (_, Some _) \<Rightarrow> None))"

definition stopContainerCmd :: "agent \<Rightarrow> string list \<Rightarrow> hist \<Rightarrow> agent_result" where
  "stopContainerCmd ag args h =
     (case args of
        [] \<Rightarrow> usage_error ''stop-container'' ''stop-container <container_id> [timeout_ms]'' h
      | i # rest \<Rightarrow> with_client ag ''stop-container''
          (\<lambda>h. agent_unit ''stop-container'' (SDKContainerStop i (stop_seconds rest)) (sdk_ContainerStop (ag_sdk ag) h i (stop_seconds rest))
             (\<lambda>err. if contains_str ''No such container'' err then ErrCodeNotFound
                    else if contains_str ''is not running'' err then ErrCodeNotRunning else ErrCodeInternal) h) h)"

text \<open>Options on the standard input are optional: what cannot be decoded keeps its zero value.\<close>

definition optional_input :: "string + 'a \<Rightarrow> 'a \<Rightarrow> 'a" where
  "optional_input r zero = (case r of Inl _ \<Rightarrow> zero | Inr x \<Rightarrow> x)"

definition removeContainerCmd :: "agent \<Rightarrow> string list \<Rightarrow> string \<Rightarrow> hist \<Rightarrow> agent_result" where
  "removeContainerCmd ag args stdin h =
     (case args of
        [] \<Rightarrow> usage_error ''remove-container'' ''remove-container <container_id>'' h
      | i # _ \<Rightarrow>
          let opts = optional_input (dec_Remove (ag_json ag) stdin) \<lparr>mro_Force = False, mro_RemoveVolumes = False\<rparr>
          in with_client ag ''remove-container''
               (\<lambda>h. agent_unit ''remove-container'' (SDKContainerRemove i (mro_Force opts) (mro_RemoveVolumes opts))
                  (sdk_ContainerRemove (ag_sdk ag) h i (mro_Force opts) (mro_RemoveVolumes opts)) (not_found_code ''No such container'') h) h)"

text \<open>A time is kept only when it can be parsed.\<close>

definition agent_time :: "sdk \<Rightarrow> string \<Rightarrow> time option" where
  "agent_time k s = (if s \<noteq> [] \<and> s \<noteq> no_time then time_ParseNano k s else None)"

definition agent_ports :: "sdk \<Rightarrow> (string \<times> (string \<times> string) list) list \<Rightarrow> minion_PortBinding list" where
  "agent_ports k ports =
     concat (map (\<lambda>(key, bindings). map (\<lambda>(ip, hp). \<lparr>mpb_ContainerPort = fst (Atoi (nat_Port k key)), mpb_HostPort = fst (Atoi hp),
        mpb_Protocol = nat_Proto k key, mpb_HostIP = ip\<rparr>) bindings) ports)"

definition convertContainerInspect :: "sdk \<Rightarrow> sdk_Inspect \<Rightarrow> minion_ContainerInfo" where
  "convertContainerInspect k r =
     \<lparr>mci_ID = ins_ID r, mci_Name = TrimPrefix (ins_Name r) ''/'', mci_Image = ins_Image r, mci_Status = ins_Status r,
      mci_State = ins_Status r, mci_Health = (case ins_Health r of Some s \<Rightarrow> s | None \<Rightarrow> []),
      mci_CreatedAt = (case time_ParseNano k (ins_Created r) of Some t \<Rightarrow> t | None \<Rightarrow> 0),
      mci_StartedAt = agent_time k (ins_StartedAt r), mci_FinishedAt = agent_time k (ins_FinishedAt r),
      mci_Ports = agent_ports k (ins_Ports r), mci_Labels = ins_Labels r, mci_ExitCode = ins_ExitCode r\<rparr>"

definition inspectContainerCmd :: "agent \<Rightarrow> string list \<Rightarrow> hist \<Rightarrow> agent_result" where
  "inspectContainerCmd ag args h =
     (case args of
        [] \<Rightarrow> usage_error ''inspect-container'' ''inspect-container <container_id>'' h
      | i # _ \<Rightarrow> with_client ag ''inspect-container''
          (\<lambda>h. agent_value ''inspect-container'' (SDKContainerInspect i) (sdk_ContainerInspect (ag_sdk ag) h i)
             (\<lambda>r. enc_Info (ag_json ag) (convertContainerInspect (ag_sdk ag) r)) (not_found_code ''No such container'') h) h)"

definition agent_summary_port :: "int \<times> int \<times> string \<times> string \<Rightarrow> minion_PortBinding" where
  "agent_summary_port p = (case p of (private, public, proto, ip) \<Rightarrow>
     \<lparr>mpb_ContainerPort = private, mpb_HostPort = public, mpb_Protocol = proto, mpb_HostIP = ip\<rparr>)"

definition agent_summary :: "sdk \<Rightarrow> sdk_Summary \<Rightarrow> minion_ContainerInfo" where
  "agent_summary k c =
     \<lparr>mci_ID = sum_ID c, mci_Name = (case sum_Names c of n # _ \<Rightarrow> TrimPrefix n ''/'' | [] \<Rightarrow> []), mci_Image = sum_Image c,
      mci_Status = sum_State c, mci_State = sum_State c, mci_Health = [], mci_CreatedAt = time_Unix k (sum_Created c),
      mci_StartedAt = None, mci_FinishedAt = None, mci_Ports = map agent_summary_port (sum_Ports c), mci_Labels = sum_Labels c,
      mci_ExitCode = 0\<rparr>"

definition listContainersCmd :: "agent \<Rightarrow> string \<Rightarrow> hist \<Rightarrow> agent_result" where
  "listContainersCmd ag stdin h =
     (let opts = optional_input (dec_List (ag_json ag) stdin) \<lparr>mlo_All = False, mlo_Filters = Map.empty\<rparr>
      in with_client ag ''list-containers''
           (\<lambda>h. agent_value ''list-containers'' (SDKContainerList (mlo_All opts) (mlo_Filters opts))
              (sdk_ContainerList (ag_sdk ag) h (mlo_All opts) (mlo_Filters opts))
              (\<lambda>cs. enc_Infos (ag_json ag) (map (agent_summary (ag_sdk ag)) cs)) (\<lambda>_. ErrCodeInternal) h) h)"

definition agent_log_options :: "sdk \<Rightarrow> minion_LogOptions \<Rightarrow> sdk_LogsOptions" where
  "agent_log_options k opts =
     \<lparr>lo_Follow = False, lo_Tail = (if dlo_Tail opts \<noteq> [] then dlo_Tail opts else ''100''), lo_Timestamps = dlo_Timestamps opts,
      lo_Since = format_time k (dlo_Since opts), lo_Until = format_time k (dlo_Until opts)\<rparr>"

definition zero_LogOptions :: minion_LogOptions where
  "zero_LogOptions = \<lparr>dlo_Follow = False, dlo_Tail = [], dlo_Since = 0, dlo_Until = 0, dlo_Timestamps = False\<rparr>"

text \<open>At most 64 KB are copied.\<close>

definition containerLogsCmd :: "agent \<Rightarrow> string list \<Rightarrow> string \<Rightarrow> hist \<Rightarrow> agent_result" where
  "containerLogsCmd ag args stdin h =
     (case args of
        [] \<Rightarrow> usage_error ''container-logs'' ''container-logs <container_id>'' h
      | i # _ \<Rightarrow>
          let opts = agent_log_options (ag_sdk ag) (optional_input (dec_Log (ag_json ag) stdin) zero_LogOptions)
          in with_client ag ''container-logs''
               (\<lambda>h. agent_value ''container-logs'' (SDKContainerLogs i opts) (sdk_ContainerLogs (ag_sdk ag) h i opts)
                  (\<lambda>r. enc_Logs (ag_json ag) (take (64 * 1024) (fst r))) (not_found_code ''No such container'') h) h)"

definition calculateStats :: "sdk_Stats \<Rightarrow> minion_Stats" where
  "calculateStats s =
     (let cpuDelta = float_of_word (st_CPUTotal s - st_PreCPUTotal s); systemDelta = float_of_word (st_CPUSystem s - st_PreCPUSystem s);
          cpuCount = float_of_word (st_CPUOnline s); cpuCount = (if cpuCount = Fin 0 then Fin 1 else cpuCount);
          usage = int64_of_word (st_MemUsage s); memLimit = int64_of_word (st_MemLimit s)
      in \<lparr>crs_CPUPercent = (if flt (Fin 0) systemDelta \<and> flt (Fin 0) cpuDelta
            then fmul (fmul (fdiv cpuDelta systemDelta) cpuCount) (Fin 100) else Fin 0),
          crs_MemoryUsageBytes = usage, crs_MemoryLimitBytes = memLimit,
          crs_MemoryPercent = (if 0 < memLimit then fmul (fdiv (float_of_int usage) (float_of_int memLimit)) (Fin 100) else Fin 0),
          crs_NetworkRxBytes = sum_int64 (map fst (st_Networks s)), crs_NetworkTxBytes = sum_int64 (map snd (st_Networks s)),
          crs_BlockReadBytes = blkio_sum [''Read'', ''read''] (st_Blkio s), crs_BlockWriteBytes = blkio_sum [''Write'', ''write''] (st_Blkio s),
          crs_PIDs = int64_of_word (st_Pids s)\<rparr>)"

definition containerStatsCmd :: "agent \<Rightarrow> string list \<Rightarrow> hist \<Rightarrow> agent_result" where
  "containerStatsCmd ag args h =
     (case args of
        [] \<Rightarrow> usage_error ''container-stats'' ''container-stats <container_id>'' h
      | i # _ \<Rightarrow> with_client ag ''container-stats''
          (\<lambda>h. (h @ [SDKContainerStats i],
             case sdk_ContainerStats (ag_sdk ag) h i of
               Inl err \<Rightarrow> (NewErrorResponse ''container-stats'' (not_found_code ''No such container'' (se_text err)) (se_text err), False)
             | Inr (Inl err) \<Rightarrow> (NewErrorResponse ''container-stats'' ErrCodeInternal (''failed to parse stats: '' @ err), False)
             | Inr (Inr stats) \<Rightarrow> (outputSuccess (Some (enc_Stats (ag_json ag) (calculateStats stats))), True))) h)"

section \<open>Network, volume and image commands\<close>

definition createNetworkCmd :: "agent \<Rightarrow> string \<Rightarrow> hist \<Rightarrow> agent_result" where
  "createNetworkCmd ag stdin h =
     (case dec_Network (ag_json ag) stdin of
        Inl err \<Rightarrow> (h, NewErrorResponse ''create-network'' ErrCodeInvalidInput (''invalid JSON input: '' @ err), False)
      | Inr spec \<Rightarrow>
          with_client ag ''create-network''
            (\<lambda>h. let driver = (if mns_Driver spec = [] then ''bridge'' else mns_Driver spec)
                 in agent_value ''create-network'' (SDKNetworkCreate (mns_Name spec) driver (mns_Labels spec))
                      (sdk_NetworkCreate (ag_sdk ag) h (mns_Name spec) driver (mns_Labels spec)) (enc_ID (ag_json ag))
                      (\<lambda>err. if contains_str ''already exists'' err then ErrCodeAlreadyExists else ErrCodeInternal) h) h)"

definition removeNetworkCmd :: "agent \<Rightarrow> string list \<Rightarrow> hist \<Rightarrow> agent_result" where
  "removeNetworkCmd ag args h =
     (case args of
        [] \<Rightarrow> usage_error ''remove-network'' ''remove-network <network_id>'' h
      | n # _ \<Rightarrow> with_client ag ''remove-network''
          (\<lambda>h. agent_unit ''remove-network'' (SDKNetworkRemove n) (sdk_NetworkRemove (ag_sdk ag) h n)
             (\<lambda>err. if contains_str ''not found'' err then ErrCodeNotFound
                    else if contains_str ''has active endpoints'' err then ErrCodeInUse else ErrCodeInternal) h) h)"

definition connectNetworkCmd :: "agent \<Rightarrow> string list \<Rightarrow> hist \<Rightarrow> agent_result" where
  "connectNetworkCmd ag args h =
     (case args of
        n # i # _ \<Rightarrow> with_client ag ''connect-network''
          (\<lambda>h. agent_unit ''connect-network'' (SDKNetworkConnect n i) (sdk_NetworkConnect (ag_sdk ag) h n i) (not_found_code ''not found'') h) h
      | _ \<Rightarrow> usage_error ''connect-network'' ''connect-network <network_id> <container_id>'' h)"

definition has_force :: "string list \<Rightarrow> bool" where
  "has_force rest \<longleftrightarrow> (case rest of a # _ \<Rightarrow> a = ''--force'' | [] \<Rightarrow> False)"

definition disconnectNetworkCmd :: "agent \<Rightarrow> string list \<Rightarrow> hist \<Rightarrow> agent_result" where
  "disconnectNetworkCmd ag args h =
     (case args of
        n # i # rest \<Rightarrow> with_client ag ''disconnect-network''
          (\<lambda>h. agent_unit ''disconnect-network'' (SDKNetworkDisconnect n i (has_force rest))
             (sdk_NetworkDisconnect (ag_sdk ag) h n i (has_force rest)) (not_found_code ''not found'') h) h
      | _ \<Rightarrow> usage_error ''disconnect-network'' ''disconnect-network <network_id> <container_id> [--force]'' h)"

definition createVolumeCmd :: "agent \<Rightarrow> string \<Rightarrow> hist \<Rightarrow> agent_result" where
  "createVolumeCmd ag stdin h =
     (case dec_Volume (ag_json ag) stdin of
        Inl err \<Rightarrow> (h, NewErrorResponse ''create-volume'' ErrCodeInvalidInput (''invalid JSON input: '' @ err), False)
      | Inr spec \<Rightarrow>
          with_client ag ''create-volume''
            (\<lambda>h. let driver = (if mvs_Driver spec = [] then ''local'' else mvs_Driver spec)
                 in agent_value ''create-volume'' (SDKVolumeCreate (mvs_Name spec) driver (mvs_Labels spec))
                      (sdk_VolumeCreate (ag_sdk ag) h (mvs_Name spec) driver (mvs_Labels spec)) (enc_Name (ag_json ag)) (\<lambda>_. ErrCodeInternal) h) h)"

definition removeVolumeCmd :: "agent \<Rightarrow> string list \<Rightarrow> hist \<Rightarrow> agent_result" where
  "removeVolumeCmd ag args h =
     (case args of
        [] \<Rightarrow> usage_error ''remove-volume'' ''remove-volume <volume_name> [--force]'' h
      | v # rest \<Rightarrow> with_client ag ''remove-volume''
          (\<lambda>h. agent_unit ''remove-volume'' (SDKVolumeRemove v (has_force rest)) (sdk_VolumeRemove (ag_sdk ag) h v (has_force rest))
             (\<lambda>err. if contains_str ''not found'' err then ErrCodeNotFound
                    else if contains_str ''in use'' err then ErrCodeInUse else ErrCodeInternal) h) h)"

text \<open>The error that ends the stream of a pull is ignored.\<close>

definition pullImageCmd :: "agent \<Rightarrow> string list \<Rightarrow> hist \<Rightarrow> agent_result" where
  "pullImageCmd ag args h =
     (case args of
        [] \<Rightarrow> usage_error ''pull-image'' ''pull-image <image>'' h
      | img # rest \<Rightarrow>
          let platform = (case rest of p # _ \<Rightarrow> p | [] \<Rightarrow> [])
          in with_client ag ''pull-image''
               (\<lambda>h. agent_unit ''pull-image'' (SDKImagePull img platform)
                  (case sdk_ImagePull (ag_sdk ag) h img platform of Inl err \<Rightarrow> Some err | Inr _ \<Rightarrow> None)
                  (\<lambda>err. if contains_str ''not found'' err \<or> contains_str ''manifest unknown'' err then ErrCodeNotFound
                         else ErrCodePullFailed) h) h)"

definition imageExistsCmd :: "agent \<Rightarrow> string list \<Rightarrow> hist \<Rightarrow> agent_result" where
  "imageExistsCmd ag args h =
     (case args of
        [] \<Rightarrow> usage_error ''image-exists'' ''image-exists <image>'' h
      | img # _ \<Rightarrow> with_client ag ''image-exists''
          (\<lambda>h. (h @ [SDKImageInspect img],
             case sdk_ImageInspect (ag_sdk ag) h img of
               Some err \<Rightarrow>
                 if contains_str ''No such image'' (se_text err) then (outputSuccess (Some (enc_Exists (ag_json ag) False)), True)
                 else (NewErrorResponse ''image-exists'' ErrCodeInternal (se_text err), False)
             | None \<Rightarrow> (outputSuccess (Some (enc_Exists (ag_json ag) True)), True))) h)"

section \<open>Health commands\<close>

text \<open>\<open>strings.Fields\<close> on the ASCII text of the files under \<open>/proc\<close>.\<close>

definition is_blank :: "char \<Rightarrow> bool" where
  "is_blank c \<longleftrightarrow> c = CHR '' '' \<or> CHR 0x09 \<le> c \<and> c \<le> CHR 0x0D"

fun fields_loop :: "string \<Rightarrow> string \<Rightarrow> string list" where
  "fields_loop cur [] = (if cur = [] then [] else [rev cur])"
| "fields_loop cur (c # cs) =
     (if is_blank c then (if cur = [] then fields_loop [] cs else rev cur # fields_loop [] cs) else fields_loop (c # cur) cs)"

definition Fields :: "string \<Rightarrow> string list" where
  "Fields s = fields_loop [] s"

definition parseMemInfoValue :: "string \<Rightarrow> int" where
  "parseMemInfoValue line = (case Fields line of _ # v # _ \<Rightarrow> fst (Atoi v) | _ \<Rightarrow> 0)"

text \<open>Total and available memory; both values are kept once they were seen.\<close>

fun mem_loop :: "string list \<Rightarrow> int option \<Rightarrow> int option \<Rightarrow> int \<times> int" where
  "mem_loop [] t a = (case t of Some x \<Rightarrow> x | None \<Rightarrow> 0, case a of Some x \<Rightarrow> x | None \<Rightarrow> 0)"
| "mem_loop (line # ls) t a =
     (let t' = (if HasPrefix line ''MemTotal:'' then Some (parseMemInfoValue line) else t);
          a' = (if \<not> HasPrefix line ''MemTotal:'' \<and> HasPrefix line ''MemAvailable:'' then Some (parseMemInfoValue line) else a)
      in case (t', a') of (Some x, Some y) \<Rightarrow> (x, y) | _ \<Rightarrow> mem_loop ls t' a')"

definition readMemInfo :: "agent \<Rightarrow> (int \<times> int) option" where
  "readMemInfo ag = map_option (\<lambda>ls. mem_loop ls None None) (ag_meminfo ag)"

definition parse_ticks :: "string \<Rightarrow> 64 word" where
  "parse_ticks f = word_of_int (fst (ParseUint f 64))"

text \<open>Idle and total ticks of the first line of all processors.\<close>

fun cpu_sample :: "string list \<Rightarrow> 64 word \<times> 64 word" where
  "cpu_sample [] = (0, 0)"
| "cpu_sample (line # ls) =
     (if \<not> HasPrefix line ''cpu '' then cpu_sample ls
      else let fs = Fields line
           in if length fs < 5 then (0, 0) else (parse_ticks (fs ! 4), sum_list (map parse_ticks (tl fs))))"

definition readCPUSample :: "agent \<Rightarrow> nat \<Rightarrow> 64 word \<times> 64 word" where
  "readCPUSample ag n = (case ag_stat ag n of None \<Rightarrow> (0, 0) | Some ls \<Rightarrow> cpu_sample ls)"

definition readCPUPercent :: "agent \<Rightarrow> float64" where
  "readCPUPercent ag =
     (let (idle1, total1) = readCPUSample ag 0
      in if total1 = 0 then Fin 0
         else let (idle2, total2) = readCPUSample ag 1
              in if total2 = 0 then Fin 0
                 else let idleDelta = float_of_word (idle2 - idle1); totalDelta = float_of_word (total2 - total1)
                      in if totalDelta = Fin 0 then Fin 0 else fmul (fsub (Fin 1) (fdiv idleDelta totalDelta)) (Fin 100))"

definition system_info :: "agent \<Rightarrow> SystemInfo" where
  "system_info ag =
     (let (memTotal, memUsed) = (case readMemInfo ag of
              Some (t, a) \<Rightarrow> (quot64 t 1024, quot64 (wrap64 (t - a)) 1024) | None \<Rightarrow> (0, 0));
          (diskTotal, diskUsed) = (case ag_Statfs ag of
              Some (blocks, bavail, bsize) \<Rightarrow>
                (int64_of_word (blocks * bsize div (1024 * 1024)),
                 int64_of_word ((blocks * bsize - bavail * bsize) div (1024 * 1024)))
            | None \<Rightarrow> (0, 0))
      in \<lparr>si_CPUCores = float_of_int (ag_NumCPU ag), si_MemoryTotalMB = memTotal, si_DiskTotalMB = diskTotal,
          si_CPUUsedPct = readCPUPercent ag, si_MemoryUsedMB = memUsed, si_DiskUsedMB = diskUsed\<rparr>)"

definition systemInfoCmd :: "agent \<Rightarrow> hist \<Rightarrow> agent_result" where
  "systemInfoCmd ag h = (h, outputSuccess (Some (enc_System (ag_json ag) (system_info ag))), True)"

definition pingCmd :: "agent \<Rightarrow> hist \<Rightarrow> agent_result" where
  "pingCmd ag h =
     (case ag_NewClient ag of
        Some err \<Rightarrow> (h, NewErrorResponse ''ping'' ErrCodeConnectionFailed (''failed to create docker client: '' @ err), False)
      | None \<Rightarrow>
          (h @ [SDKServerVersion],
           case sdk_ServerVersion (ag_sdk ag) h of
             Inl err \<Rightarrow> (NewErrorResponse ''ping'' ErrCodeConnectionFailed (''failed to connect to docker: '' @ se_text err), False)
           | Inr (version, api, os) \<Rightarrow> (outputSuccess (Some (enc_Ping (ag_json ag)
               \<lparr>pi_DockerVersion = version, pi_APIVersion = api, pi_OS = os, pi_Arch = ag_GOARCH ag\<rparr>)), True)))"

definition versionCmd :: "agent \<Rightarrow> hist \<Rightarrow> agent_result" where
  "versionCmd ag h = (h, outputSuccess (Some (enc_Version (ag_json ag)
     \<lparr>vi_Version = ag_Version ag, vi_BuildTime = ag_BuildTime ag, vi_GoVersion = ag_GoVersion ag\<rparr>)), True)"

section \<open>Dispatch\<close>

definition dispatch :: "agent \<Rightarrow> string \<Rightarrow> string list \<Rightarrow> string \<Rightarrow> hist \<Rightarrow> agent_result" where
  "dispatch ag cmd args stdin h =
     (if cmd = ''version'' then versionCmd ag h
      else if cmd = ''ping'' then pingCmd ag h
      else if cmd = ''system-info'' then systemInfoCmd ag h
      else if cmd = ''create-container'' then createContainerCmd ag stdin h
      else if cmd = ''start-container'' then startContainerCmd ag args h
      else if cmd = ''stop-container'' then stopContainerCmd ag args h
      else if cmd = ''remove-container'' then removeContainerCmd ag args stdin h
      else if cmd = ''inspect-container'' then inspectContainerCmd ag args h
      else if cmd = ''list-containers'' then listContainersCmd ag stdin h
      else if cmd = ''container-logs'' then containerLogsCmd ag args stdin h
      else if cmd = ''container-stats'' then containerStatsCmd ag args h
      else if cmd = ''create-network'' then createNetworkCmd ag stdin h
      else if cmd = ''remove-network'' then removeNetworkCmd ag args h
      else if cmd = ''connect-network'' then connectNetworkCmd ag args h
      else if cmd = ''disconnect-network'' then disconnectNetworkCmd ag args h
      else if cmd = ''create-volume'' then createVolumeCmd ag stdin h
      else if cmd = ''remove-volume'' then removeVolumeCmd ag args h
      else if cmd = ''pull-image'' then pullImageCmd ag args h
      else if cmd = ''image-exists'' then imageExistsCmd ag args h
      else (h, NewErrorResponse cmd ErrCodeInvalidInput (''unknown command: '' @ cmd), False))"

text \<open>The arguments after the program name; the result is the standard output and the exit code.\<close>

definition minion_main :: "agent \<Rightarrow> string list \<Rightarrow> string \<Rightarrow> hist \<Rightarrow> hist \<times> string \<times> int" where
  "minion_main ag argv stdin h =
     (case argv of
        [] \<Rightarrow> (h, enc_Response (ag_json ag) (NewErrorResponse ''usage'' ErrCodeInvalidInput ''usage: hoster-minion <command> [args...]''), 2)
      | cmd # args \<Rightarrow>
          (case dispatch ag cmd args stdin h of
             (h, resp, ok) \<Rightarrow> (h, enc_Response (ag_json ag) resp, if ok then 0 else 1)))"

end
