(* ===== verification/SSH_Client.thy ===== *)
theory SSH_Client
  imports Minion_Agent Dom_Node Routing
begin

text \<open>
  \<open>internal/shell/docker/ssh_client.go\<close> with \<open>minion_embed.go\<close>: the docker client that runs the agent of \<open>Minion_Agent\<close> on a
  remote node over SSH, one process per operation. The SSH library is an argument whose answers may depend on everything that
  happened on the connection before. A result of \<open>None\<close> is a panic: the use of a connection that is \<open>nil\<close>, or of the error
  record of a response that has none.
\<close>

section \<open>Configuration\<close>

record SSHClientConfig =
  scc_MinionPath :: string
  scc_CommandTimeout :: int
  scc_ConnectTimeout :: int

definition DefaultSSHClientConfig :: SSHClientConfig where
  "DefaultSSHClientConfig = \<lparr>scc_MinionPath = ''~/.hoster/minion'', scc_CommandTimeout = 30 * 1000000000,
     scc_ConnectTimeout = 10 * 1000000000\<rparr>"

text \<open>What happened on the connection; dialling has the user, the private key and the address.\<close>

datatype ssh_event =
    EvKeepalive | EvDial string string string | EvClose | EvSession | EvRun string string

text \<open>The outcome of a command: the context ended, the time ran out, or the command ended with an exit error or none and its output.\<close>

datatype run_result = RunCanceled string | RunTimeout string | RunDone "string option" string

record ssh_lib =
  sp_ParseKey :: "string \<Rightarrow> string option"
  sp_Keepalive :: "ssh_event list \<Rightarrow> bool"
  sp_Dial :: "ssh_event list \<Rightarrow> string \<Rightarrow> string \<Rightarrow> string \<Rightarrow> string option"
  sp_Close :: "ssh_event list \<Rightarrow> string option"
  sp_NewSession :: "ssh_event list \<Rightarrow> string option"
  sp_Run :: "ssh_event list \<Rightarrow> string \<Rightarrow> string \<Rightarrow> run_result"
  sp_binaries :: "string \<Rightarrow> string + string"

text \<open>The fixed part of a client, and the part that changes: the connection, the use of \<open>sync.Once\<close>, and the events so far.\<close>

record SSHDockerClient =
  sdc_node :: Node
  sdc_signer :: string
  sdc_minionPath :: string
  sdc_timeout :: int

record ssh_state =
  ss_connected :: bool
  ss_ensured :: bool
  ss_events :: "ssh_event list"

definition new_state :: ssh_state where
  "new_state = \<lparr>ss_connected = False, ss_ensured = False, ss_events = []\<rparr>"

definition log_event :: "ssh_event \<Rightarrow> ssh_state \<Rightarrow> ssh_state" where
  "log_event e st = st\<lparr>ss_events := ss_events st @ [e]\<rparr>"

definition NewSSHDockerClient :: "ssh_lib \<Rightarrow> Node \<Rightarrow> string \<Rightarrow> SSHClientConfig \<Rightarrow> string + SSHDockerClient" where
  "NewSSHDockerClient sp node privateKey config =
     (case sp_ParseKey sp privateKey of
        Some err \<Rightarrow> Inl (''parse SSH private key: '' @ err)
      | None \<Rightarrow> Inr \<lparr>sdc_node = node, sdc_signer = privateKey,
          sdc_minionPath = (if scc_MinionPath config = [] then ''~/.hoster/minion'' else scc_MinionPath config),
          sdc_timeout = (if scc_CommandTimeout config = 0 then 30 * 1000000000 else scc_CommandTimeout config)\<rparr>)"

section \<open>Connection\<close>

definition ssh_address :: "Node \<Rightarrow> string" where
  "ssh_address node = JoinHostPort (node_SSHHost node) (fmt_d (node_SSHPort node))"

definition drop_connection :: "ssh_state \<Rightarrow> ssh_state" where
  "drop_connection st = log_event EvClose (st\<lparr>ss_connected := False\<rparr>)"

definition dial :: "ssh_lib \<Rightarrow> SSHDockerClient \<Rightarrow> ssh_state \<Rightarrow> ssh_state \<times> string option" where
  "dial sp c st =
     (let user = node_SSHUser (sdc_node c); addr = ssh_address (sdc_node c); st' = log_event (EvDial user (sdc_signer c) addr) st
      in case sp_Dial sp (ss_events st) user (sdc_signer c) addr of
           Some err \<Rightarrow> (st', Some (''SSH dial '' @ addr @ '': '' @ err))
         | None \<Rightarrow> (st'\<lparr>ss_connected := True\<rparr>, None))"

definition connect :: "ssh_lib \<Rightarrow> SSHDockerClient \<Rightarrow> ssh_state \<Rightarrow> ssh_state \<times> string option" where
  "connect sp c st =
     (if ss_connected st then
        if sp_Keepalive sp (ss_events st) then (log_event EvKeepalive st, None)
        else dial sp c (drop_connection (log_event EvKeepalive st))
      else dial sp c st)"

definition Close :: "ssh_lib \<Rightarrow> ssh_state \<Rightarrow> ssh_state \<times> string option" where
  "Close sp st = (if ss_connected st then (drop_connection st, sp_Close sp (ss_events st)) else (st, None))"

text \<open>A session on a connection that is \<open>nil\<close> panics.\<close>

definition open_session :: "ssh_lib \<Rightarrow> ssh_state \<Rightarrow> (ssh_state \<times> string option) option" where
  "open_session sp st =
     (if ss_connected st then Some (log_event EvSession st, sp_NewSession sp (ss_events st)) else None)"

definition run_command :: "ssh_lib \<Rightarrow> string \<Rightarrow> string \<Rightarrow> ssh_state \<Rightarrow> ssh_state \<times> run_result" where
  "run_command sp cmd stdin st = (log_event (EvRun cmd stdin) st, sp_Run sp (ss_events st) cmd stdin)"

text \<open>One session that runs a command for its output; the texts are put before the errors.\<close>

definition session_output :: "ssh_lib \<Rightarrow> string \<Rightarrow> string \<Rightarrow> string \<Rightarrow> string \<Rightarrow> string \<Rightarrow> ssh_state \<Rightarrow>
    (ssh_state \<times> (string + string)) option" where
  "session_output sp cmd stdin sessErr timeoutText runErr st =
     (case open_session sp st of
        None \<Rightarrow> None
      | Some (st, Some err) \<Rightarrow> Some (st, Inl (sessErr @ err))
      | Some (st, None) \<Rightarrow>
          (case run_command sp cmd stdin st of
             (st, RunCanceled err) \<Rightarrow> Some (st, Inl err)
           | (st, RunTimeout _) \<Rightarrow> Some (st, Inl timeoutText)
           | (st, RunDone (Some err) out) \<Rightarrow> Some (st, Inl (runErr @ err))
           | (st, RunDone None out) \<Rightarrow> Some (st, Inr out)))"

section \<open>Deployment of the agent\<close>

definition MinionVersion :: string where "MinionVersion = ''1.2.0''"

definition GetMinionBinary :: "ssh_lib \<Rightarrow> string \<Rightarrow> string \<Rightarrow> string + string" where
  "GetMinionBinary sp goos goarch =
     (if goos \<noteq> ''linux'' then Inl (''unsupported OS: '' @ goos @ '' (only linux is supported)'')
      else if goarch \<noteq> ''amd64'' \<and> goarch \<noteq> ''arm64''
      then Inl (''unsupported architecture: '' @ goarch @ '' (only amd64 and arm64 are supported)'')
      else case sp_binaries sp (''binaries/minion-linux-'' @ goarch) of
             Inl err \<Rightarrow> Inl (''minion binary not found for '' @ goos @ ''/'' @ goarch @ '': '' @ err @
               '' (run '' @ [CHR 0x27] @ ''make build-minion'' @ [CHR 0x27] @ '' first)'')
           | Inr data \<Rightarrow> Inr data)"

definition zero_VersionInfo :: VersionInfo where
  "zero_VersionInfo = \<lparr>vi_Version = [], vi_BuildTime = [], vi_GoVersion = []\<rparr>"

definition read_version :: "json_pkg \<Rightarrow> string \<Rightarrow> string + string" where
  "read_version J out =
     (case ParseResponse J out of
        Inl err \<Rightarrow> Inl err
      | Inr resp \<Rightarrow>
          if \<not> mr_Success resp then Inl ''minion version check failed''
          else map_sum id vi_Version (UnmarshalData resp (dec_Version J) zero_VersionInfo))"

definition getMinionVersion :: "ssh_lib \<Rightarrow> json_pkg \<Rightarrow> SSHDockerClient \<Rightarrow> ssh_state \<Rightarrow> (ssh_state \<times> (string + string)) option" where
  "getMinionVersion sp J c st =
     (case session_output sp (sdc_minionPath c @ '' version'') [] [] ''timeout checking minion version'' [] st of
        None \<Rightarrow> None
      | Some (st, Inl err) \<Rightarrow> Some (st, Inl err)
      | Some (st, Inr out) \<Rightarrow> Some (st, read_version J out))"

definition deploy_command :: string where
  "deploy_command = ''mkdir -p ~/.hoster && cat > ~/.hoster/minion && chmod +x ~/.hoster/minion''"

definition deployMinion :: "ssh_lib \<Rightarrow> string \<Rightarrow> ssh_state \<Rightarrow> (ssh_state \<times> string option) option" where
  "deployMinion sp binary st =
     (case session_output sp deploy_command binary ''create session: '' ''timeout deploying minion binary'' ''deploy minion: '' st of
        None \<Rightarrow> None
      | Some (st, Inl err) \<Rightarrow> Some (st, Some err)
      | Some (st, Inr _) \<Rightarrow> Some (st, None))"

definition EnsureMinion :: "ssh_lib \<Rightarrow> json_pkg \<Rightarrow> SSHDockerClient \<Rightarrow> string \<Rightarrow> string \<Rightarrow> ssh_state \<Rightarrow> (ssh_state \<times> string option) option" where
  "EnsureMinion sp J c binary expectedVersion st =
     (case connect sp c st of
        (st, Some err) \<Rightarrow> Some (st, Some err)
      | (st, None) \<Rightarrow>
          (case getMinionVersion sp J c st of
             None \<Rightarrow> None
           | Some (st, r) \<Rightarrow> if r = Inr expectedVersion then Some (st, None) else deployMinion sp binary st))"

definition detectOS :: "ssh_lib \<Rightarrow> (string \<Rightarrow> string) \<Rightarrow> ssh_state \<Rightarrow> (ssh_state \<times> (string + string)) option" where
  "detectOS sp uni st =
     map_option (\<lambda>(st, r). (st, map_sum id (\<lambda>out. TrimSpace (ToLower uni out)) r))
       (session_output sp ''uname -s'' [] [] ''timeout detecting OS'' ''uname -s: '' st)"

definition arch_name :: "string \<Rightarrow> string + string" where
  "arch_name arch =
     (if arch = ''x86_64'' then Inr ''amd64''
      else if arch = ''aarch64'' \<or> arch = ''arm64'' then Inr ''arm64''
      else Inl (''unsupported architecture: '' @ arch))"

definition detectArch :: "ssh_lib \<Rightarrow> ssh_state \<Rightarrow> (ssh_state \<times> (string + string)) option" where
  "detectArch sp st =
     (case session_output sp ''uname -m'' [] [] ''timeout detecting architecture'' ''uname -m: '' st of
        None \<Rightarrow> None
      | Some (st, Inl err) \<Rightarrow> Some (st, Inl err)
      | Some (st, Inr out) \<Rightarrow> Some (st, arch_name (TrimSpace out)))"

definition ensure_linux :: "ssh_lib \<Rightarrow> json_pkg \<Rightarrow> SSHDockerClient \<Rightarrow> ssh_state \<Rightarrow> (ssh_state \<times> string option) option" where
  "ensure_linux sp J c st =
     (case detectArch sp st of
        None \<Rightarrow> None
      | Some (st, Inl err) \<Rightarrow> Some (st, Some (''detect remote architecture: '' @ err))
      | Some (st, Inr goarch) \<Rightarrow>
          (case GetMinionBinary sp ''linux'' goarch of
             Inl err \<Rightarrow> Some (st, Some (''get minion binary for linux/'' @ goarch @ '': '' @ err))
           | Inr binary \<Rightarrow> EnsureMinion sp J c binary MinionVersion st))"

definition AutoEnsureMinion :: "ssh_lib \<Rightarrow> json_pkg \<Rightarrow> (string \<Rightarrow> string) \<Rightarrow> SSHDockerClient \<Rightarrow> ssh_state \<Rightarrow>
    (ssh_state \<times> string option) option" where
  "AutoEnsureMinion sp J uni c st =
     (case connect sp c st of
        (st, Some err) \<Rightarrow> Some (st, Some err)
      | (st, None) \<Rightarrow>
          (case detectOS sp uni st of
             None \<Rightarrow> None
           | Some (st, Inl err) \<Rightarrow> Some (st, Some (''detect remote OS: '' @ err))
           | Some (st, Inr goos) \<Rightarrow> if goos \<noteq> ''linux'' then Some (st, None) else ensure_linux sp J c st))"

section \<open>Running a command\<close>

fun join_space :: "string list \<Rightarrow> string" where
  "join_space [] = []"
| "join_space [w] = w"
| "join_space (w # v # ws) = w @ '' '' @ join_space (v # ws)"

definition command_line :: "SSHDockerClient \<Rightarrow> string \<Rightarrow> string list \<Rightarrow> string" where
  "command_line c command args =
     (let cmdStr = join_space (sdc_minionPath c # command # args); socket = node_DockerSocket (sdc_node c)
      in if socket \<noteq> [] \<and> socket \<noteq> ''/var/run/docker.sock'' then ''DOCKER_HOST=unix://'' @ socket @ '' '' @ cmdStr else cmdStr)"

text \<open>What is done with the outcome of the command.\<close>

definition exec_outcome :: "json_pkg \<Rightarrow> run_result \<Rightarrow> string + minion_Response" where
  "exec_outcome J r =
     (case r of
        RunCanceled err \<Rightarrow> Inl err
      | RunTimeout t \<Rightarrow> Inl (''command timeout after '' @ t)
      | RunDone err out \<Rightarrow>
          (case ParseResponse J out of
             Inr resp \<Rightarrow> Inr resp
           | Inl parseErr \<Rightarrow>
               Inl (case err of Some e \<Rightarrow> ''command failed: '' @ e @ '', output: '' @ out
                    | None \<Rightarrow> ''parse response: '' @ parseErr)))"

text \<open>The error of the deployment on the first command is ignored.\<close>

definition ensure_once :: "ssh_lib \<Rightarrow> json_pkg \<Rightarrow> (string \<Rightarrow> string) \<Rightarrow> SSHDockerClient \<Rightarrow> ssh_state \<Rightarrow> ssh_state option" where
  "ensure_once sp J uni c st =
     (if ss_ensured st then Some st else map_option (\<lambda>(st, _). st\<lparr>ss_ensured := True\<rparr>) (AutoEnsureMinion sp J uni c st))"

text \<open>The input is absent, or the result of marshalling it.\<close>

definition execMinion :: "ssh_lib \<Rightarrow> json_pkg \<Rightarrow> (string \<Rightarrow> string) \<Rightarrow> SSHDockerClient \<Rightarrow> string \<Rightarrow> string list \<Rightarrow> (string + string) option \<Rightarrow>
    ssh_state \<Rightarrow> (ssh_state \<times> (string + minion_Response)) option" where
  "execMinion sp J uni c command args input st =
     (case connect sp c st of
        (st, Some err) \<Rightarrow> Some (st, Inl err)
      | (st, None) \<Rightarrow>
          (case ensure_once sp J uni c st of
             None \<Rightarrow> None
           | Some st \<Rightarrow>
               (case open_session sp st of
                  None \<Rightarrow> None
                | Some (st, Some err) \<Rightarrow> Some (st, Inl (''create SSH session: '' @ err))
                | Some (st, None) \<Rightarrow>
                    (case input of
                       Some (Inl err) \<Rightarrow> Some (st, Inl (''marshal input: '' @ err))
                     | _ \<Rightarrow>
                         (case run_command sp (command_line c command args) (case input of Some (Inr txt) \<Rightarrow> txt | _ \<Rightarrow> []) st of
                            (st, r) \<Rightarrow> Some (st, exec_outcome J r))))))"

definition translateError :: "ErrorInfo \<Rightarrow> DockerError" where
  "translateError e =
     NewDockerError (ei_Command e) [] [] (ei_Message e)
       (if ei_Code e = ErrCodeNotFound then ErrContainerNotFound
        else if ei_Code e = ErrCodeAlreadyExists then ErrContainerAlreadyExists
        else if ei_Code e = ErrCodeNotRunning then ErrContainerNotRunning
        else if ei_Code e = ErrCodeAlreadyRunning then ErrContainerAlreadyRunning
        else if ei_Code e = ErrCodeInUse then ErrNetworkInUse
        else if ei_Code e = ErrCodePortConflict then ErrPortAlreadyAllocated
        else if ei_Code e = ErrCodeConnectionFailed then ErrConnectionFailed
        else if ei_Code e = ErrCodePullFailed then ErrImagePullFailed
        else NoErr)"

section \<open>Operations\<close>

datatype ssh_error = PlainErr string | RemoteErr DockerError

primrec ssh_error_text :: "ssh_error \<Rightarrow> string" where
  "ssh_error_text (PlainErr s) = s"
| "ssh_error_text (RemoteErr e) = DockerError_Error e"

text \<open>The package and the client an operation works with.\<close>

record ssh_env =
  se_ssh :: ssh_lib
  se_json :: json_pkg
  se_lower :: "string \<Rightarrow> string"
  se_client :: SSHDockerClient

type_synonym 'a ssh_op = "ssh_state \<Rightarrow> (ssh_state \<times> (ssh_error + 'a)) option"

text \<open>Every operation runs a command, turns an error response into an error and decodes the data of a success.\<close>

definition minion_call :: "ssh_env \<Rightarrow> string \<Rightarrow> string list \<Rightarrow> (string + string) option \<Rightarrow> (minion_Response \<Rightarrow> ssh_error + 'a) \<Rightarrow> 'a ssh_op" where
  "minion_call E command args input decode st =
     (case execMinion (se_ssh E) (se_json E) (se_lower E) (se_client E) command args input st of
        None \<Rightarrow> None
      | Some (st, Inl err) \<Rightarrow> Some (st, Inl (PlainErr err))
      | Some (st, Inr resp) \<Rightarrow>
          if mr_Success resp then Some (st, decode resp)
          else (case mr_Error resp of None \<Rightarrow> None | Some info \<Rightarrow> Some (st, Inl (RemoteErr (translateError info)))))"

definition decode_unit :: "minion_Response \<Rightarrow> ssh_error + unit" where
  "decode_unit resp = Inr ()"

definition decode_data :: "(string \<Rightarrow> string + 'a) \<Rightarrow> 'a \<Rightarrow> ('a \<Rightarrow> 'b) \<Rightarrow> minion_Response \<Rightarrow> ssh_error + 'b" where
  "decode_data dec zero f resp = map_sum (\<lambda>err. PlainErr (''unmarshal result: '' @ err)) f (UnmarshalData resp dec zero)"


definition toMinionContainerSpec :: "docker_ContainerSpec \<Rightarrow> minion_ContainerSpec" where
  "toMinionContainerSpec spec =
     \<lparr>mcs_Name = dcs_Name spec, mcs_Image = dcs_Image spec, mcs_Command = dcs_Command spec, mcs_Entrypoint = dcs_Entrypoint spec,
      mcs_Env = dcs_Env spec, mcs_Labels = dcs_Labels spec,
      mcs_Ports = map (\<lambda>p. \<lparr>mpb_ContainerPort = pb_ContainerPort p, mpb_HostPort = pb_HostPort p, mpb_Protocol = pb_Protocol p,
        mpb_HostIP = pb_HostIP p\<rparr>) (dcs_Ports spec),
      mcs_Volumes = map (\<lambda>v. \<lparr>mvm_Source = dvm_Source v, mvm_Target = dvm_Target v, mvm_ReadOnly = dvm_ReadOnly v\<rparr>) (dcs_Volumes spec),
      mcs_Networks = dcs_Networks spec, mcs_WorkingDir = dcs_WorkingDir spec, mcs_User = dcs_User spec,
      mcs_RestartPolicy = (drp_Name (dcs_RestartPolicy spec), drp_MaximumRetryCount (dcs_RestartPolicy spec)),
      mcs_CPULimit = drl_CPULimit (dcs_Resources spec), mcs_MemoryLimit = drl_MemoryLimit (dcs_Resources spec),
      mcs_HealthCheck = map_option (\<lambda>h. \<lparr>mhc_Test = dhc_Test h, mhc_Interval = dhc_Interval h, mhc_Timeout = dhc_Timeout h,
        mhc_Retries = dhc_Retries h, mhc_StartPeriod = dhc_StartPeriod h\<rparr>) (dcs_HealthCheck spec)\<rparr>"

definition from_minion_port :: "minion_PortBinding \<Rightarrow> PortBinding" where
  "from_minion_port p = \<lparr>pb_ContainerPort = mpb_ContainerPort p, pb_HostPort = mpb_HostPort p, pb_Protocol = mpb_Protocol p,
     pb_HostIP = mpb_HostIP p\<rparr>"

definition fromMinionContainerInfo :: "minion_ContainerInfo \<Rightarrow> docker_ContainerInfo" where
  "fromMinionContainerInfo m =
     \<lparr>dci_ID = mci_ID m, dci_Name = mci_Name m, dci_Image = mci_Image m, dci_Status = mci_Status m, dci_State = mci_State m,
      dci_Health = mci_Health m, dci_CreatedAt = mci_CreatedAt m, dci_StartedAt = mci_StartedAt m, dci_FinishedAt = mci_FinishedAt m,
      dci_Ports = map from_minion_port (mci_Ports m), dci_Labels = mci_Labels m, dci_ExitCode = mci_ExitCode m\<rparr>"

definition zero_minion_Info :: minion_ContainerInfo where
  "zero_minion_Info =
     \<lparr>mci_ID = [], mci_Name = [], mci_Image = [], mci_Status = [], mci_State = [], mci_Health = [], mci_CreatedAt = 0,
      mci_StartedAt = None, mci_FinishedAt = None, mci_Ports = [], mci_Labels = Map.empty, mci_ExitCode = 0\<rparr>"

definition zero_Stats :: ContainerResourceStats where
  "zero_Stats = \<lparr>crs_CPUPercent = Fin 0, crs_MemoryUsageBytes = 0, crs_MemoryLimitBytes = 0, crs_MemoryPercent = Fin 0,
     crs_NetworkRxBytes = 0, crs_NetworkTxBytes = 0, crs_BlockReadBytes = 0, crs_BlockWriteBytes = 0, crs_PIDs = 0\<rparr>"

definition zero_System :: SystemInfo where
  "zero_System = \<lparr>si_CPUCores = Fin 0, si_MemoryTotalMB = 0, si_DiskTotalMB = 0, si_CPUUsedPct = Fin 0, si_MemoryUsedMB = 0, si_DiskUsedMB = 0\<rparr>"

definition SSH_CreateContainer :: "ssh_env \<Rightarrow> docker_ContainerSpec \<Rightarrow> string ssh_op" where
  "SSH_CreateContainer E spec =
     minion_call E ''create-container'' [] (Some (enc_Spec (se_json E) (toMinionContainerSpec spec))) (decode_data (dec_ID (se_json E)) [] id)"

definition SSH_StartContainer :: "ssh_env \<Rightarrow> string \<Rightarrow> unit ssh_op" where
  "SSH_StartContainer E i = minion_call E ''start-container'' [i] None decode_unit"

definition SSH_StopContainer :: "ssh_env \<Rightarrow> string \<Rightarrow> int option \<Rightarrow> unit ssh_op" where
  "SSH_StopContainer E i timeout =
     minion_call E ''stop-container'' (case timeout of None \<Rightarrow> [i] | Some t \<Rightarrow> [i, fmt_d (quot64 t 1000000)]) None decode_unit"

definition SSH_RemoveContainer :: "ssh_env \<Rightarrow> string \<Rightarrow> bool \<Rightarrow> bool \<Rightarrow> unit ssh_op" where
  "SSH_RemoveContainer E i force removeVolumes =
     minion_call E ''remove-container'' [i] (Some (enc_Remove (se_json E) \<lparr>mro_Force = force, mro_RemoveVolumes = removeVolumes\<rparr>)) decode_unit"

definition SSH_InspectContainer :: "ssh_env \<Rightarrow> string \<Rightarrow> docker_ContainerInfo ssh_op" where
  "SSH_InspectContainer E i =
     minion_call E ''inspect-container'' [i] None (decode_data (dec_Info (se_json E)) zero_minion_Info fromMinionContainerInfo)"

definition SSH_ListContainers :: "ssh_env \<Rightarrow> bool \<Rightarrow> go_strmap \<Rightarrow> docker_ContainerInfo list ssh_op" where
  "SSH_ListContainers E all filters =
     minion_call E ''list-containers'' [] (Some (enc_List (se_json E) \<lparr>mlo_All = all, mlo_Filters = filters\<rparr>))
       (decode_data (dec_Infos (se_json E)) [] (map fromMinionContainerInfo))"

definition SSH_ContainerLogs :: "ssh_env \<Rightarrow> string \<Rightarrow> docker_LogOptions \<Rightarrow> string ssh_op" where
  "SSH_ContainerLogs E i opts =
     minion_call E ''container-logs'' [i] (Some (enc_Log (se_json E) (opts\<lparr>dlo_Follow := False\<rparr>)))
       (decode_data (dec_Logs (se_json E)) [] id)"

definition SSH_ContainerStats :: "ssh_env \<Rightarrow> string \<Rightarrow> ContainerResourceStats ssh_op" where
  "SSH_ContainerStats E i = minion_call E ''container-stats'' [i] None (decode_data (dec_Stats (se_json E)) zero_Stats id)"

definition SSH_CreateNetwork :: "ssh_env \<Rightarrow> docker_NetworkSpec \<Rightarrow> string ssh_op" where
  "SSH_CreateNetwork E spec =
     minion_call E ''create-network'' []
       (Some (enc_Network (se_json E) \<lparr>mns_Name = dns_Name spec, mns_Driver = dns_Driver spec, mns_Labels = dns_Labels spec\<rparr>))
       (decode_data (dec_ID (se_json E)) [] id)"

definition SSH_RemoveNetwork :: "ssh_env \<Rightarrow> string \<Rightarrow> unit ssh_op" where
  "SSH_RemoveNetwork E n = minion_call E ''remove-network'' [n] None decode_unit"

definition SSH_ConnectNetwork :: "ssh_env \<Rightarrow> string \<Rightarrow> string \<Rightarrow> unit ssh_op" where
  "SSH_ConnectNetwork E n i = minion_call E ''connect-network'' [n, i] None decode_unit"

definition force_flag :: "bool \<Rightarrow> string list" where
  "force_flag force = (if force then [''--force''] else [])"

definition SSH_DisconnectNetwork :: "ssh_env \<Rightarrow> string \<Rightarrow> string \<Rightarrow> bool \<Rightarrow> unit ssh_op" where
  "SSH_DisconnectNetwork E n i force = minion_call E ''disconnect-network'' ([n, i] @ force_flag force) None decode_unit"

definition SSH_CreateVolume :: "ssh_env \<Rightarrow> docker_VolumeSpec \<Rightarrow> string ssh_op" where
  "SSH_CreateVolume E spec =
     minion_call E ''create-volume'' []
       (Some (enc_Volume (se_json E) \<lparr>mvs_Name = dvs_Name spec, mvs_Driver = dvs_Driver spec, mvs_Labels = dvs_Labels spec\<rparr>))
       (decode_data (dec_Name (se_json E)) [] id)"

definition SSH_RemoveVolume :: "ssh_env \<Rightarrow> string \<Rightarrow> bool \<Rightarrow> unit ssh_op" where
  "SSH_RemoveVolume E v force = minion_call E ''remove-volume'' (v # force_flag force) None decode_unit"

definition SSH_PullImage :: "ssh_env \<Rightarrow> string \<Rightarrow> string \<Rightarrow> unit ssh_op" where
  "SSH_PullImage E img platform =
     minion_call E ''pull-image'' (if platform \<noteq> [] then [img, platform] else [img]) None decode_unit"

definition SSH_ImageExists :: "ssh_env \<Rightarrow> string \<Rightarrow> bool ssh_op" where
  "SSH_ImageExists E img = minion_call E ''image-exists'' [img] None (decode_data (dec_Exists (se_json E)) False id)"

definition SSH_Ping :: "ssh_env \<Rightarrow> unit ssh_op" where
  "SSH_Ping E = minion_call E ''ping'' [] None decode_unit"

definition SSH_SystemInfo :: "ssh_env \<Rightarrow> SystemInfo ssh_op" where
  "SSH_SystemInfo E =
     minion_call E ''system-info'' [] None
       (\<lambda>resp. map_sum (\<lambda>err. PlainErr (''unmarshal system info: '' @ err)) id (UnmarshalData resp (dec_System (se_json E)) zero_System))"


section \<open>When a command panics\<close>

named_theorems ssh_defs \<open>the bookkeeping of connections\<close>

lemmas [ssh_defs] = log_event_def drop_connection_def open_session_def run_command_def

lemma dial_connected: "dial sp c st = (st', None) \<Longrightarrow> ss_connected st'"
  by (auto simp: dial_def Let_def split: option.splits)

lemma connect_connected: "connect sp c st = (st', None) \<Longrightarrow> ss_connected st'"
  by (auto simp: connect_def ssh_defs intro: dial_connected split: if_splits)

lemma session_output_connected:
  assumes "ss_connected st"
  shows "\<exists>st' r. session_output sp cmd stdin e1 e2 e3 st = Some (st', r) \<and> ss_connected st'"
  using assms by (auto simp: session_output_def ssh_defs split: option.splits run_result.splits)

lemma getMinionVersion_connected:
  assumes "ss_connected st"
  shows "\<exists>st' r. getMinionVersion sp J c st = Some (st', r) \<and> ss_connected st'"
  using session_output_connected [OF assms, of sp "sdc_minionPath c @ '' version''" "[]" "[]" "''timeout checking minion version''" "[]"]
  by (auto simp: getMinionVersion_def split: sum.splits)

lemma deployMinion_connected:
  assumes "ss_connected st"
  shows "\<exists>st' r. deployMinion sp binary st = Some (st', r) \<and> ss_connected st'"
  using session_output_connected [OF assms, of sp deploy_command binary "''create session: ''" "''timeout deploying minion binary''"
      "''deploy minion: ''"]
  by (auto simp: deployMinion_def split: sum.splits)

lemma EnsureMinion_returns:
  "\<exists>st' r. EnsureMinion sp J c binary v st = Some (st', r) \<and> (ss_connected st' \<or> r \<noteq> None)"
proof (cases "connect sp c st")
  case (Pair st1 e)
  show ?thesis
  proof (cases e)
    case None
    with Pair have "ss_connected st1" by (simp add: connect_connected)
    then obtain st2 r where v: "getMinionVersion sp J c st1 = Some (st2, r)" "ss_connected st2"
      using getMinionVersion_connected by blast
    with deployMinion_connected [OF v(2), of sp binary] show ?thesis
      using Pair None by (auto simp: EnsureMinion_def)
  qed (use Pair in \<open>simp add: EnsureMinion_def\<close>)
qed

lemma detectOS_connected:
  assumes "ss_connected st"
  shows "\<exists>st' r. detectOS sp uni st = Some (st', r) \<and> ss_connected st'"
  using session_output_connected [OF assms, of sp "''uname -s''" "[]" "[]" "''timeout detecting OS''" "''uname -s: ''"]
  by (auto simp: detectOS_def)

lemma detectArch_connected:
  assumes "ss_connected st"
  shows "\<exists>st' r. detectArch sp st = Some (st', r) \<and> ss_connected st'"
  using session_output_connected [OF assms, of sp "''uname -m''" "[]" "[]" "''timeout detecting architecture''" "''uname -m: ''"]
  by (auto simp: detectArch_def split: sum.splits)

lemma ensure_linux_returns:
  assumes "ss_connected st"
  shows "\<exists>st' r. ensure_linux sp J c st = Some (st', r) \<and> (ss_connected st' \<or> r \<noteq> None)"
proof -
  obtain st1 r where "detectArch sp st = Some (st1, r)" "ss_connected st1"
    using detectArch_connected [OF assms] by blast
  then show ?thesis
    using EnsureMinion_returns by (auto simp: ensure_linux_def split: sum.splits)
qed

lemma AutoEnsureMinion_returns:
  "\<exists>st' r. AutoEnsureMinion sp J uni c st = Some (st', r) \<and> (ss_connected st' \<or> r \<noteq> None)"
proof (cases "connect sp c st")
  case (Pair st1 e)
  show ?thesis
  proof (cases e)
    case None
    with Pair have "ss_connected st1" by (simp add: connect_connected)
    then obtain st2 r where os: "detectOS sp uni st1 = Some (st2, r)" "ss_connected st2"
      using detectOS_connected by blast
    with ensure_linux_returns [OF os(2), of sp J c] show ?thesis
      using Pair None by (auto simp: AutoEnsureMinion_def split: sum.splits)
  qed (use Pair in \<open>simp add: AutoEnsureMinion_def\<close>)
qed

lemma execMinion_None:
  assumes "connect sp c st = (st1, None)"
  shows "execMinion sp J uni c command args input st = None \<longleftrightarrow>
    (case ensure_once sp J uni c st1 of None \<Rightarrow> True | Some st2 \<Rightarrow> \<not> ss_connected st2)"
  using assms by (auto simp: execMinion_def ssh_defs split: option.splits sum.splits)

text \<open>
  C35: a command over SSH panics exactly when it is the first of its client, the connection was made, and the deployment of the
  agent that follows lost it again and could not dial: the error of the deployment is ignored and the next session is
  opened on a connection that is \<open>nil\<close>. Every later command returns a response or an error.
\<close>

theorem execMinion_panic:
  "execMinion sp J uni c command args input st = None \<longleftrightarrow>
     (\<exists>st1 st2 err. connect sp c st = (st1, None) \<and> \<not> ss_ensured st1 \<and> AutoEnsureMinion sp J uni c st1 = Some (st2, Some err)
        \<and> \<not> ss_connected st2)"
proof (cases "connect sp c st")
  case (Pair st1 e)
  show ?thesis
  proof (cases e)
    case None
    then have con: "connect sp c st = (st1, None)" using Pair by simp
    obtain st2 r where "AutoEnsureMinion sp J uni c st1 = Some (st2, r)" "ss_connected st2 \<or> r \<noteq> None"
      using AutoEnsureMinion_returns by blast
    then show ?thesis
      using connect_connected [OF con] by (auto simp: execMinion_None [OF con] con ensure_once_def)
  qed (use Pair in \<open>simp add: execMinion_def\<close>)
qed

text \<open>Such a run exists: the connection breaks between the first dial and the keep-alive request.\<close>

definition broken_ssh :: ssh_lib where
  "broken_ssh = \<lparr>sp_ParseKey = (\<lambda>_. None), sp_Keepalive = (\<lambda>_. False),
     sp_Dial = (\<lambda>es _ _ _. if es = [] then None else Some ''connection refused''), sp_Close = (\<lambda>_. None),
     sp_NewSession = (\<lambda>_. None), sp_Run = (\<lambda>_ _ _. RunDone None []), sp_binaries = (\<lambda>_. Inl [])\<rparr>"

lemma execMinion_panics: "execMinion broken_ssh J uni c command args input new_state = None"
  by (simp add: execMinion_def connect_def dial_def Let_def new_state_def broken_ssh_def ensure_once_def AutoEnsureMinion_def ssh_defs)

end
