(* ===== verification/Remote_Docker.thy ===== *)
theory Remote_Docker
  imports SSH_Client Scheduling
begin

text \<open>
  The remote client of \<open>SSH_Client\<close>, the protocol and the agent of \<open>Minion_Agent\<close> composed, and compared with the local client
  of \<open>Docker_Engine\<close>: both must ask the docker daemon for the same and report the same.
\<close>

section \<open>One delivered command\<close>

text \<open>
  The agent \<open>ag\<close> runs on the node with the SDK calls \<open>h\<close> behind it. The command is delivered when the connection is up, the shell of the
  node passes the words of the command line to the agent, and the response it writes is decoded as it was encoded.
\<close>

definition delivers :: "ssh_env \<Rightarrow> agent \<Rightarrow> string \<Rightarrow> string list \<Rightarrow> string \<Rightarrow> ssh_state \<Rightarrow> hist \<Rightarrow> bool" where
  "delivers E ag command args stdin st h \<longleftrightarrow>
     ss_connected st \<and> ss_ensured st \<and> sp_Keepalive (se_ssh E) (ss_events st)
     \<and> sp_NewSession (se_ssh E) (ss_events st @ [EvKeepalive]) = None
     \<and> (\<exists>e. sp_Run (se_ssh E) (ss_events st @ [EvKeepalive, EvSession]) (command_line (se_client E) command args) stdin
            = RunDone e (fst (snd (minion_main ag (command # args) stdin h))))
     \<and> (let resp = fst (snd (dispatch ag command args stdin h)) in dec_Response (se_json E) (enc_Response (ag_json ag) resp) = Inr resp)"

definition stdin_of :: "(string + string) option \<Rightarrow> string" where
  "stdin_of input = (case input of Some (Inr txt) \<Rightarrow> txt | _ \<Rightarrow> [])"

lemma execMinion_delivered:
  assumes "delivers E ag command args (stdin_of input) st h" and "\<And>err. input \<noteq> Some (Inl err)"
  shows "\<exists>st'. execMinion (se_ssh E) (se_json E) uni (se_client E) command args input st
    = Some (st', Inr (fst (snd (dispatch ag command args (stdin_of input) h))))"
  using assms
  by (auto simp: delivers_def execMinion_def connect_def ensure_once_def ssh_defs exec_outcome_def ParseResponse_def minion_main_def
      stdin_of_def Let_def split: option.splits sum.splits prod.splits)

lemma minion_call_delivered:
  assumes "delivers E ag command args (stdin_of input) st h" and "\<And>err. input \<noteq> Some (Inl err)"
  shows "\<exists>st'. minion_call E command args input decode st =
    (let resp = fst (snd (dispatch ag command args (stdin_of input) h))
     in if mr_Success resp then Some (st', decode resp)
        else case mr_Error resp of None \<Rightarrow> None | Some info \<Rightarrow> Some (st', Inl (RemoteErr (translateError info))))"
proof -
  obtain st' where "execMinion (se_ssh E) (se_json E) (se_lower E) (se_client E) command args input st
      = Some (st', Inr (fst (snd (dispatch ag command args (stdin_of input) h))))"
    using execMinion_delivered [OF assms] by blast
  then show ?thesis by (intro exI [of _ st']) (simp add: minion_call_def Let_def)
qed

lemma response_fields [simp]:
  "mr_Success (NewErrorResponse command code message) = False"
  "mr_Error (NewErrorResponse command code message) = Some \<lparr>ei_Command = command, ei_Code = code, ei_Message = message\<rparr>"
  "mr_Success (outputSuccess None)" "mr_Success (outputSuccess (Some (Inr raw)))" "mr_Data (outputSuccess (Some (Inr raw))) = Some raw"
  by (simp_all add: NewErrorResponse_def outputSuccess_def NewSuccessResponse_def)

text \<open>An operation with a result, when the agent makes one SDK call for it.\<close>

lemma remote_value:
  assumes "delivers E ag command args (stdin_of input) st h" and "\<And>err. input \<noteq> Some (Inl err)"
    and disp: "dispatch ag command args (stdin_of input) h = agent_value command call res enc code h"
    and wire: "\<And>x. res = Inr x \<Longrightarrow> \<exists>raw. enc x = Inr raw \<and> dec raw = Inr (m x)"
  shows "\<exists>st'. minion_call E command args input (decode_data dec zero f) st = Some (st',
    case res of Inr x \<Rightarrow> Inr (f (m x))
    | Inl err \<Rightarrow> Inl (RemoteErr (translateError \<lparr>ei_Command = command, ei_Code = code (se_text err), ei_Message = se_text err\<rparr>)))"
proof (cases res)
  case (Inr x)
  then obtain raw where "enc x = Inr raw" "dec raw = Inr (m x)" using wire by blast
  with Inr minion_call_delivered [OF assms(1,2), of "decode_data dec zero f"] show ?thesis
    by (simp add: disp agent_value_def decode_data_def UnmarshalData_def)
qed (use minion_call_delivered [OF assms(1,2), of "decode_data dec zero f"] in \<open>simp add: disp agent_value_def\<close>)

section \<open>Creating a container\<close>

lemma agent_port_key [simp]:
  "agent_port_key \<lparr>mpb_ContainerPort = pb_ContainerPort p, mpb_HostPort = pb_HostPort p, mpb_Protocol = pb_Protocol p,
     mpb_HostIP = pb_HostIP p\<rparr> = port_key p"
  by (simp add: agent_port_key_def port_key_def)

lemma agent_config_matches: "agent_config k (toMinionContainerSpec spec) = container_config k spec"
  by (simp add: agent_config_def container_config_def toMinionContainerSpec_def env_list_def health_config_def [abs_def] option.map_comp o_def
      image_image)

lemma agent_bindings: "foldl agent_bind_port m (mcs_Ports (toMinionContainerSpec spec)) = foldl bind_port m (dcs_Ports spec)"
proof -
  have "agent_bind_port m \<lparr>mpb_ContainerPort = pb_ContainerPort p, mpb_HostPort = pb_HostPort p, mpb_Protocol = pb_Protocol p,
     mpb_HostIP = pb_HostIP p\<rparr> = bind_port m p" for m p
    by (simp add: agent_bind_port_def bind_port_def host_port_def)
  then show ?thesis by (simp add: toMinionContainerSpec_def foldl_map)
qed

lemma agent_host_config_matches: "agent_host_config (toMinionContainerSpec spec) = container_host_config spec"
  using agent_bindings [of Map.empty spec]
  by (simp add: agent_host_config_def container_host_config_def agent_mount_def mount_of_def nano_cpus_def o_def)
     (simp add: toMinionContainerSpec_def agent_mount_def mount_of_def o_def)

lemma agent_networking_matches:
  "agent_networking (toMinionContainerSpec spec) = container_networking (spec\<lparr>dcs_NetworkAliases := Map.empty\<rparr>)"
  by (simp add: agent_networking_def container_networking_def toMinionContainerSpec_def)

text \<open>A code of the protocol loses the kind of the errors that have no code.\<close>

definition over_the_wire :: "docker_err \<Rightarrow> docker_err" where
  "over_the_wire e = (case e of OtherErr _ \<Rightarrow> NoErr | _ \<Rightarrow> e)"

lemma translate_create:
  "de_Err (translateError \<lparr>ei_Command = cmd, ei_Code = agent_create_code (se_text err), ei_Message = msg\<rparr>)
     = over_the_wire (de_Err (create_error name err))"
  by (simp add: translateError_def agent_create_code_def create_error_def NewDockerError_def over_the_wire_def const_defs)

text \<open>
  C18: creating a container on a remote node asks the docker daemon there for exactly what the local client would ask its
  daemon for, with the same image, command, environment, labels, ports, mounts, limits, restart policy and health check,
  except that the network aliases are dropped. The identifier of the new container is returned, and a failure
  has the same kind as the local one.
\<close>

theorem remote_create_matches_local:
  assumes deliv: "delivers E ag ''create-container'' [] txt st h"
    and spec: "enc_Spec (se_json E) (toMinionContainerSpec spec) = Inr txt" "dec_Spec (ag_json ag) txt = Inr (toMinionContainerSpec spec)"
    and cli: "ag_NewClient ag = None"
    and loc: "DockerClient_CreateContainer (ag_sdk ag) (spec\<lparr>dcs_NetworkAliases := Map.empty\<rparr>) h = (h', r)"
    and ids: "\<And>i. r = Inr i \<Longrightarrow> \<exists>raw. enc_ID (ag_json ag) i = Inr raw \<and> dec_ID (se_json E) raw = Inr i"
  shows "fst (dispatch ag ''create-container'' [] txt h) = h'
    \<and> (\<exists>st' r'. SSH_CreateContainer E spec st = Some (st', r')
        \<and> (case r of Inr i \<Rightarrow> r' = Inr i
           | Inl e \<Rightarrow> \<exists>e'. r' = Inl (RemoteErr e') \<and> de_Err e' = over_the_wire (de_Err e)))"
proof -
  let ?args = "\<lambda>f. f (container_config (ag_sdk ag) spec) (container_host_config spec)
    (container_networking (spec\<lparr>dcs_NetworkAliases := Map.empty\<rparr>)) (dcs_Name spec)"
  let ?res = "?args (sdk_ContainerCreate (ag_sdk ag) h)"
  have same: "container_config (ag_sdk ag) (spec\<lparr>dcs_NetworkAliases := Map.empty\<rparr>) = container_config (ag_sdk ag) spec"
    "container_host_config (spec\<lparr>dcs_NetworkAliases := Map.empty\<rparr>) = container_host_config spec"
    by (simp_all add: container_config_def container_host_config_def)
  have name: "mcs_Name (toMinionContainerSpec spec) = dcs_Name spec" by (simp add: toMinionContainerSpec_def)
  have disp: "dispatch ag ''create-container'' [] txt h =
      agent_value ''create-container'' (?args SDKContainerCreate) ?res (enc_ID (ag_json ag)) agent_create_code h"
    by (simp add: dispatch_def createContainerCmd_def spec with_client_def cli Let_def agent_config_matches agent_host_config_matches
        agent_networking_matches name)
  have h': "h' = h @ [?args SDKContainerCreate]" and r: "r = map_sum (create_error (dcs_Name spec)) id ?res"
    using loc by (auto simp: DockerClient_CreateContainer_def sdk_value_def same Let_def)
  have "\<exists>st'. SSH_CreateContainer E spec st = Some (st', case ?res of Inr i \<Rightarrow> Inr (id i)
    | Inl err \<Rightarrow> Inl (RemoteErr (translateError \<lparr>ei_Command = ''create-container'', ei_Code = agent_create_code (se_text err),
           ei_Message = se_text err\<rparr>)))"
    unfolding SSH_CreateContainer_def spec(1)
    by (rule remote_value [where m = "\<lambda>i. i"]) (use deliv disp ids r in \<open>simp_all add: stdin_of_def\<close>)
  then show ?thesis
    by (cases ?res) (auto simp: disp agent_value_def h' r translate_create)
qed

text \<open>
  the containers of a deployment reach each other by service name on a local node only: the orchestrator gives every container the
  name of its service as an alias in the network of the deployment, and on a remote node the daemon is asked for an endpoint without alias.
\<close>

theorem remote_loses_service_alias:
  "container_networking (buildContainerSpec orch d svc name net mounts isPrimary) = Some [net \<mapsto> [svc_Name svc]]
   \<and> agent_networking (toMinionContainerSpec (buildContainerSpec orch d svc name net mounts isPrimary)) = Some [net \<mapsto> []]"
  by (simp add: container_networking_def agent_networking_def toMinionContainerSpec_def buildContainerSpec_def)

text \<open>An argument with a space is two words of the command line: the remote shell cannot tell them apart.\<close>

lemma join_space_splits: "join_space ((a @ '' '' @ b) # ws) = join_space (a # b # ws)"
  by (cases ws) simp_all

lemma command_line_splits: "command_line c command ((a @ '' '' @ b) # ws) = command_line c command (a # b # ws)"
  using join_space_splits [of a b ws] by (simp add: command_line_def Let_def)

section \<open>Listing and inspecting containers\<close>

lemma summary_matches: "fromMinionContainerInfo (agent_summary k c) = summary_info k c"
  by (auto simp: fromMinionContainerInfo_def agent_summary_def summary_info_def summary_name_def agent_summary_port_def summary_port_def
      from_minion_port_def split: prod.splits)

text \<open>
  listing the containers of a remote node returns what the local client would return there, entry by entry, and fails
  exactly when the local client would.
\<close>

theorem remote_list_matches_local:
  assumes deliv: "delivers E ag ''list-containers'' [] txt st h"
    and opts: "enc_List (se_json E) \<lparr>mlo_All = all, mlo_Filters = filters\<rparr> = Inr txt"
      "dec_List (ag_json ag) txt = Inr \<lparr>mlo_All = all, mlo_Filters = filters\<rparr>"
    and cli: "ag_NewClient ag = None"
    and loc: "DockerClient_ListContainers (ag_sdk ag) all filters h = (h', r)"
    and wire: "\<And>cs. sdk_ContainerList (ag_sdk ag) h all filters = Inr cs \<Longrightarrow>
      \<exists>raw. enc_Infos (ag_json ag) (map (agent_summary (ag_sdk ag)) cs) = Inr raw
        \<and> dec_Infos (se_json E) raw = Inr (map (agent_summary (ag_sdk ag)) cs)"
  shows "fst (dispatch ag ''list-containers'' [] txt h) = h'
    \<and> (\<exists>st' r'. SSH_ListContainers E all filters st = Some (st', r')
        \<and> (case r of Inr infos \<Rightarrow> r' = Inr infos | Inl e \<Rightarrow> \<exists>e'. r' = Inl (RemoteErr e') \<and> de_Message e' = de_Message e))"
proof -
  let ?res = "sdk_ContainerList (ag_sdk ag) h all filters"
  have disp: "dispatch ag ''list-containers'' [] txt h = agent_value ''list-containers'' (SDKContainerList all filters) ?res
      (\<lambda>cs. enc_Infos (ag_json ag) (map (agent_summary (ag_sdk ag)) cs)) (\<lambda>_. ErrCodeInternal) h"
    by (simp add: dispatch_def listContainersCmd_def opts optional_input_def with_client_def cli)
  have "\<exists>st'. SSH_ListContainers E all filters st = Some (st',
      case ?res of Inr cs \<Rightarrow> Inr (map fromMinionContainerInfo (map (agent_summary (ag_sdk ag)) cs))
      | Inl err \<Rightarrow> Inl (RemoteErr (translateError \<lparr>ei_Command = ''list-containers'', ei_Code = ErrCodeInternal, ei_Message = se_text err\<rparr>)))"
    unfolding SSH_ListContainers_def opts(1)
    by (rule remote_value [where m = "map (agent_summary (ag_sdk ag))"]) (use deliv disp wire in \<open>simp_all add: stdin_of_def\<close>)
  then show ?thesis
    using loc by (cases ?res)
      (auto simp: disp agent_value_def DockerClient_ListContainers_def sdk_value_def summary_matches plain_error_def NewDockerError_def
        translateError_def)
qed

text \<open>The texts that the docker daemon gives for a port and for a time.\<close>

definition port_text :: "string \<Rightarrow> bool" where
  "port_text s \<longleftrightarrow> s \<noteq> [] \<and> length s \<le> 5 \<and> list_all is_digit s"

definition time_text :: "sdk \<Rightarrow> string \<Rightarrow> bool" where
  "time_text k s \<longleftrightarrow> s = [] \<or> s = no_time \<or> time_ParseNano k s \<noteq> None"

definition daemon_inspect :: "sdk \<Rightarrow> sdk_Inspect \<Rightarrow> bool" where
  "daemon_inspect k r \<longleftrightarrow> time_text k (ins_StartedAt r) \<and> time_text k (ins_FinishedAt r)
     \<and> list_all (\<lambda>(key, bs). port_text (nat_Port k key) \<and> list_all (\<lambda>(ip, hp). hp = [] \<or> port_text hp) bs) (ins_Ports r)"

lemma parse_uint_loop_value:
  assumes "list_all is_digit s" and "(int n + 1) * 10 ^ length s - 1 \<le> mx"
  shows "parse_uint_loop mx (int n) s = (int (foldl (\<lambda>a c. 10 * a + (of_char c - 48)) n s), None)"
  using assms
proof (induction s arbitrary: n)
  case (Cons c s)
  let ?n = "10 * n + (of_char c - 48)"
  have c: "48 \<le> (of_char c :: nat)" "(of_char c :: nat) \<le> 57" using Cons.prems(1) by (auto simp: is_digit_code)
  then have n: "10 * int n + (of_char c - 48) = int ?n" by (simp add: of_nat_diff of_nat_of_char)
  have p: "(1::int) \<le> 10 ^ length s" by simp
  have "(int ?n + 1) * 10 ^ length s \<le> (10 * int n + 10) * 10 ^ length s"
    using c by (intro mult_right_mono) auto
  also have "\<dots> = (int n + 1) * 10 ^ length (c # s)" by (simp add: algebra_simps)
  finally have le: "(int ?n + 1) * 10 ^ length s - 1 \<le> mx" using Cons.prems(2) by linarith
  have "int ?n + 1 \<le> (int ?n + 1) * 10 ^ length s" using p by (simp add: mult_le_cancel_left1 del: of_nat_add of_nat_mult)
  with le have "int ?n \<le> mx" by linarith
  then show ?case
    using Cons.IH [OF _ le] Cons.prems(1) by (simp add: n Let_def del: of_nat_add of_nat_mult)
qed simp

lemma read_digits_less: "list_all is_digit s \<Longrightarrow> read_digits s < 10 ^ length s"
proof (induction s rule: rev_induct)
  case (snoc c s)
  then have "of_char c - 48 \<le> (9::nat)" by (auto simp: is_digit_code)
  with snoc show ?case by simp
qed (simp add: read_digits_def)

lemma port_text_numbers:
  assumes "port_text s"
  shows "fst (Atoi s) = int (read_digits s)" and "Sscanf_d s = int (read_digits s)"
proof -
  have s: "s \<noteq> []" "length s \<le> 5" "list_all is_digit s" using assms by (auto simp: port_text_def)
  then obtain c cs where c: "s = c # cs" "is_digit c" by (cases s) auto
  then have sign: "c \<noteq> CHR ''-''" "c \<noteq> CHR ''+''" "c \<noteq> CHR '' ''" "c \<noteq> CHR 0x09" by (auto simp: is_digit_def)
  have "(10::nat) ^ length s \<le> 10 ^ 5" using s(2) by (intro power_increasing) auto
  then have "read_digits s < 10 ^ 5" using read_digits_less [OF s(3)] by (rule order.strict_trans2 [rotated])
  then have small: "int (read_digits s) < 10 ^ 5" by simp
  have "(10::int) ^ length s \<le> 10 ^ 5" using s(2) by (intro power_increasing) auto
  then have "ParseUint s 64 = (int (read_digits s), None)"
    using parse_uint_loop_value [OF s(3), of 0 "2 ^ 64 - 1"] s(1) by (simp add: ParseUint_def read_digits_def)
  then show "fst (Atoi s) = int (read_digits s)" using c sign small by (simp add: Atoi_def)
  have tw: "takeWhile is_digit cs = cs" using s(3) c by (simp add: takeWhile_eq_all_conv list_all_iff)
  show "Sscanf_d s = int (read_digits s)"
    using c sign small unfolding Sscanf_d_def by (simp add: in_int64_def Let_def tw)
qed

lemma empty_numbers: "fst (Atoi []) = 0" "Sscanf_d [] = 0"
  by (simp_all add: Atoi_def Sscanf_d_def ParseUint_def)

lemma host_port_numbers: "hp = [] \<or> port_text hp \<Longrightarrow> fst (Atoi hp) = Sscanf_d hp"
  using port_text_numbers [of hp] empty_numbers by auto

lemma ports_match:
  assumes "list_all (\<lambda>(key, bs). port_text (nat_Port k key) \<and> list_all (\<lambda>(ip, hp). hp = [] \<or> port_text hp) bs) ps"
  shows "map from_minion_port (agent_ports k ps) = inspect_ports k Sscanf_d ps"
  using assms
  by (induction ps)
    (fastforce simp: agent_ports_def inspect_ports_def from_minion_port_def port_text_numbers list_all_iff intro: host_port_numbers)+

lemma times_match: "time_text k s \<Longrightarrow> agent_time k s = client_time k s"
  by (auto simp: time_text_def agent_time_def client_time_def)

lemma inspect_matches: "daemon_inspect k r \<Longrightarrow> fromMinionContainerInfo (convertContainerInspect k r) = inspect_info k r"
  by (simp add: daemon_inspect_def fromMinionContainerInfo_def convertContainerInspect_def inspect_info_def ports_match times_match)

text \<open>
  inspecting a container of a remote node returns what the local client would return there, when the daemon
  writes ports as decimal numbers and times that can be parsed.
\<close>

theorem remote_inspect_matches_local:
  assumes deliv: "delivers E ag ''inspect-container'' [i] [] st h"
    and cli: "ag_NewClient ag = None"
    and found: "sdk_ContainerInspect (ag_sdk ag) h i = Inr r" "daemon_inspect (ag_sdk ag) r"
    and wire: "\<exists>raw. enc_Info (ag_json ag) (convertContainerInspect (ag_sdk ag) r) = Inr raw
      \<and> dec_Info (se_json E) raw = Inr (convertContainerInspect (ag_sdk ag) r)"
  shows "\<exists>st'. SSH_InspectContainer E i st = Some (st', Inr (inspect_info (ag_sdk ag) r))
    \<and> DockerClient_InspectContainer (ag_sdk ag) i h = (fst (dispatch ag ''inspect-container'' [i] [] h), Inr (inspect_info (ag_sdk ag) r))"
proof -
  have disp: "dispatch ag ''inspect-container'' [i] [] h = agent_value ''inspect-container'' (SDKContainerInspect i)
      (sdk_ContainerInspect (ag_sdk ag) h i) (\<lambda>r. enc_Info (ag_json ag) (convertContainerInspect (ag_sdk ag) r))
      (not_found_code ''No such container'') h"
    by (simp add: dispatch_def inspectContainerCmd_def with_client_def cli)
  have "\<exists>st'. SSH_InspectContainer E i st = Some (st',
      case sdk_ContainerInspect (ag_sdk ag) h i of Inr r \<Rightarrow> Inr (fromMinionContainerInfo (convertContainerInspect (ag_sdk ag) r))
      | Inl err \<Rightarrow> Inl (RemoteErr (translateError \<lparr>ei_Command = ''inspect-container'',
          ei_Code = not_found_code ''No such container'' (se_text err), ei_Message = se_text err\<rparr>)))"
    unfolding SSH_InspectContainer_def
    by (rule remote_value [where m = "convertContainerInspect (ag_sdk ag)"]) (use deliv disp found wire in \<open>simp_all add: stdin_of_def\<close>)
  then show ?thesis
    using found by (simp add: inspect_matches disp agent_value_def DockerClient_InspectContainer_def sdk_value_def)
qed

section \<open>Statistics\<close>

lemma sint_small: "uint (w :: 64 word) < 2 ^ 63 \<Longrightarrow> sint w = uint w"
  by (simp add: sint_uint signed_take_bit_int_eq_self_iff order.trans [OF _ uint_ge_0])

lemma online_not_zero: "w \<noteq> 0 \<Longrightarrow> float_of_word (w :: 32 word) \<noteq> Fin 0"
proof -
  assume w: "w \<noteq> 0"
  have "uint w < 4294967296" using uint_lt2p [of w] by simp
  then have "\<bar>uint w\<bar> \<le> 2 ^ 53" using uint_ge_0 [of w] by (simp del: uint_ge_0)
  then have "float_of_word w = Fin (of_int (uint w))" unfolding float_of_word_def by (rule float_of_int_Fin)
  moreover have "of_int (uint w) \<noteq> (0::rat)" using w by (simp only: of_int_eq_0_iff uint_0_iff not_False_eq_True)
  ultimately show ?thesis by (simp only: float64.inject not_False_eq_True)
qed

lemma stats_match:
  assumes "st_CPUOnline s \<noteq> 0" and "uint (st_MemUsage s) < 2 ^ 63" and "uint (st_MemLimit s) < 2 ^ 63"
  shows "calculateStats s = client_stats s"
proof -
  have "0 < st_MemLimit s \<longleftrightarrow> 0 < uint (st_MemLimit s)" by (simp add: word_less_def)
  then show ?thesis
    using assms online_not_zero [OF assms(1)]
    by (simp add: calculateStats_def client_stats_def calculateCPUPercent_def int64_of_word_def sint_small float_of_word_def Let_def)
qed


section \<open>A concrete node\<close>

definition demo_spec :: docker_ContainerSpec where
  "demo_spec = \<lparr>dcs_Name = ''web'', dcs_Image = ''nginx'', dcs_Command = [], dcs_Entrypoint = [], dcs_Env = Map.empty, dcs_Labels = Map.empty,
     dcs_Ports = [], dcs_Volumes = [], dcs_Networks = [''net''], dcs_NetworkAliases = [''net'' \<mapsto> [''web'']], dcs_WorkingDir = [],
     dcs_User = [], dcs_RestartPolicy = \<lparr>drp_Name = ''always'', drp_MaximumRetryCount = 0\<rparr>,
     dcs_Resources = \<lparr>drl_CPULimit = Fin 0, drl_MemoryLimit = 0\<rparr>, dcs_HealthCheck = None\<rparr>"

definition demo_inspect :: sdk_Inspect where
  "demo_inspect = \<lparr>ins_ID = ''c1'', ins_Name = ''/web'', ins_Image = ''nginx'', ins_Labels = Map.empty, ins_Created = ''t'', ins_Status = ''running'',
     ins_StartedAt = ''t'', ins_FinishedAt = no_time, ins_Health = Some ''healthy'', ins_ExitCode = 0,
     ins_Ports = [(''80/tcp'', [(''0.0.0.0'', ''8080'')])]\<rparr>"

definition demo_summary :: sdk_Summary where
  "demo_summary = \<lparr>sum_ID = ''c1'', sum_Names = [''/web''], sum_Image = ''nginx'', sum_State = ''running'', sum_Created = 5, sum_Labels = Map.empty,
     sum_Ports = [(80, 8080, ''tcp'', ''0.0.0.0'')]\<rparr>"

definition demo_stats :: sdk_Stats where
  "demo_stats = \<lparr>st_CPUTotal = 300, st_CPUSystem = 2000, st_CPUOnline = 2, st_CPUPercpu = 0, st_PreCPUTotal = 100, st_PreCPUSystem = 1000,
     st_MemUsage = 512, st_MemLimit = 1024, st_Networks = [(7, 8)], st_Blkio = [(''Read'', 3)], st_Pids = 4\<rparr>"

definition demo_sdk :: sdk where
  "demo_sdk = \<lparr>sdk_Ping = (\<lambda>_. None), sdk_ServerVersion = (\<lambda>_. Inr ([], [], [])), sdk_ContainerCreate = (\<lambda>_ _ _ _ _. Inr ''c1''),
     sdk_ContainerStart = (\<lambda>_ _. None), sdk_ContainerStop = (\<lambda>_ _ _. None), sdk_ContainerRemove = (\<lambda>_ _ _ _. None),
     sdk_ContainerInspect = (\<lambda>_ _. Inr demo_inspect), sdk_ContainerList = (\<lambda>_ _ _. Inr [demo_summary]),
     sdk_ContainerLogs = (\<lambda>_ _ _. Inr ([], None)), sdk_ContainerStats = (\<lambda>_ _. Inr (Inr demo_stats)),
     sdk_NetworkCreate = (\<lambda>_ _ _ _. Inr ''n1''), sdk_NetworkRemove = (\<lambda>_ _. None), sdk_NetworkConnect = (\<lambda>_ _ _. None),
     sdk_NetworkDisconnect = (\<lambda>_ _ _ _. None), sdk_VolumeCreate = (\<lambda>_ _ _ _. Inr ''v1''), sdk_VolumeRemove = (\<lambda>_ _ _. None),
     sdk_ImagePull = (\<lambda>_ _ _. Inr ([], None)), sdk_ImageInspect = (\<lambda>_ _. None), sdk_range = (\<lambda>_. []),
     nat_Port = (\<lambda>_. ''80''), nat_Proto = (\<lambda>_. ''tcp''), time_ParseNano = (\<lambda>_. Some 9), time_Format = (\<lambda>_. []), time_Unix = (\<lambda>n. n)\<rparr>"

text \<open>An encoding for the messages of the example only: all data is empty text.\<close>

definition blank_json :: json_pkg where
  "blank_json = \<lparr>enc_Response = (\<lambda>_. []), dec_Response = (\<lambda>_. Inr \<lparr>mr_Success = True, mr_Data = Some [], mr_Error = None\<rparr>),
     enc_Spec = (\<lambda>_. Inr []), dec_Spec = (\<lambda>_. Inl []), enc_Network = (\<lambda>_. Inl []), dec_Network = (\<lambda>_. Inl []),
     enc_Volume = (\<lambda>_. Inl []), dec_Volume = (\<lambda>_. Inl []), enc_Remove = (\<lambda>_. Inl []), dec_Remove = (\<lambda>_. Inl []),
     enc_List = (\<lambda>_. Inr []), dec_List = (\<lambda>_. Inl []), enc_Log = (\<lambda>_. Inl []), dec_Log = (\<lambda>_. Inl []),
     enc_ID = (\<lambda>_. Inr []), dec_ID = (\<lambda>_. Inr ''c1''), enc_Name = (\<lambda>_. Inl []), dec_Name = (\<lambda>_. Inl []), enc_Exists = (\<lambda>_. Inl []),
     dec_Exists = (\<lambda>_. Inl []), enc_Logs = (\<lambda>_. Inl []), dec_Logs = (\<lambda>_. Inl []), enc_Info = (\<lambda>_. Inr []), dec_Info = (\<lambda>_. Inl []),
     enc_Infos = (\<lambda>_. Inr []), dec_Infos = (\<lambda>_. Inl []), enc_Stats = (\<lambda>_. Inr []), dec_Stats = (\<lambda>_. Inl []),
     enc_Version = (\<lambda>_. Inl []), dec_Version = (\<lambda>_. Inl []), enc_Ping = (\<lambda>_. Inl []), enc_System = (\<lambda>_. Inl []), dec_System = (\<lambda>_. Inl [])\<rparr>"

definition demo_json :: json_pkg where
  "demo_json = blank_json\<lparr>dec_Spec := (\<lambda>_. Inr (toMinionContainerSpec demo_spec)),
     dec_List := (\<lambda>_. Inr \<lparr>mlo_All = True, mlo_Filters = Map.empty\<rparr>), dec_Info := (\<lambda>_. Inr (convertContainerInspect demo_sdk demo_inspect)),
     dec_Infos := (\<lambda>_. Inr [agent_summary demo_sdk demo_summary]), dec_Stats := (\<lambda>_. Inr (calculateStats demo_stats))\<rparr>"

definition demo_agent :: agent where
  "demo_agent = \<lparr>ag_sdk = demo_sdk, ag_json = demo_json, ag_NewClient = None, ag_Version = ''dev'', ag_BuildTime = [], ag_GoVersion = [],
     ag_GOARCH = ''amd64'', ag_NumCPU = 2, ag_meminfo = None, ag_Statfs = None, ag_stat = (\<lambda>_. None)\<rparr>"

definition demo_ssh :: ssh_lib where
  "demo_ssh = \<lparr>sp_ParseKey = (\<lambda>_. None), sp_Keepalive = (\<lambda>_. True), sp_Dial = (\<lambda>_ _ _ _. None), sp_Close = (\<lambda>_. None),
     sp_NewSession = (\<lambda>_. None), sp_Run = (\<lambda>_ _ _. RunDone None []), sp_binaries = (\<lambda>_. Inl [])\<rparr>"

definition demo_ssh_env :: ssh_env where
  "demo_ssh_env = \<lparr>se_ssh = demo_ssh, se_json = demo_json, se_lower = id,
     se_client = \<lparr>sdc_node = demo_node ''n1'' 1, sdc_signer = [], sdc_minionPath = ''~/.hoster/minion'', sdc_timeout = 1\<rparr>\<rparr>"

definition demo_conn :: ssh_state where
  "demo_conn = \<lparr>ss_connected = True, ss_ensured = True, ss_events = []\<rparr>"

lemma demo_dispatch:
  "dispatch demo_agent ''create-container'' [] [] [] =
     ([SDKContainerCreate (container_config demo_sdk demo_spec) (container_host_config demo_spec)
        (container_networking (demo_spec\<lparr>dcs_NetworkAliases := Map.empty\<rparr>)) ''web''],
      \<lparr>mr_Success = True, mr_Data = Some [], mr_Error = None\<rparr>, True)"
  "snd (dispatch demo_agent ''list-containers'' [] [] []) = (\<lparr>mr_Success = True, mr_Data = Some [], mr_Error = None\<rparr>, True)"
  "snd (dispatch demo_agent ''inspect-container'' [''c1''] [] []) = (\<lparr>mr_Success = True, mr_Data = Some [], mr_Error = None\<rparr>, True)"
  "snd (dispatch demo_agent ''container-stats'' [''c1''] [] []) = (\<lparr>mr_Success = True, mr_Data = Some [], mr_Error = None\<rparr>, True)"
  by (simp_all add: dispatch_def createContainerCmd_def listContainersCmd_def inspectContainerCmd_def containerStatsCmd_def with_client_def
      agent_value_def outputSuccess_def NewSuccessResponse_def demo_agent_def demo_json_def blank_json_def demo_sdk_def agent_config_matches
      agent_host_config_matches agent_networking_matches Let_def)
   (simp add: toMinionContainerSpec_def demo_spec_def)

lemma demo_delivers:
  assumes "fst (snd (dispatch demo_agent command args [] [])) = \<lparr>mr_Success = True, mr_Data = Some [], mr_Error = None\<rparr>"
  shows "delivers demo_ssh_env demo_agent command args [] demo_conn []"
proof -
  have "fst (snd (minion_main demo_agent (command # args) [] [])) = []"
    by (simp add: minion_main_def demo_agent_def demo_json_def blank_json_def split: prod.splits)
  then show ?thesis using assms by (simp add: delivers_def demo_ssh_env_def demo_conn_def demo_ssh_def demo_json_def blank_json_def Let_def)
qed

lemma demo_parts:
  "ag_NewClient demo_agent = None" "ag_sdk demo_agent = demo_sdk" "ag_json demo_agent = demo_json" "se_json demo_ssh_env = demo_json"
  by (simp_all add: demo_agent_def demo_ssh_env_def)

theorem remote_create_matches_local_witness:
  "\<exists>st'. SSH_CreateContainer demo_ssh_env demo_spec demo_conn = Some (st', Inr ''c1'')"
proof -
  have loc: "DockerClient_CreateContainer (ag_sdk demo_agent) (demo_spec\<lparr>dcs_NetworkAliases := Map.empty\<rparr>) [] =
      (fst (DockerClient_CreateContainer (ag_sdk demo_agent) (demo_spec\<lparr>dcs_NetworkAliases := Map.empty\<rparr>) []), Inr ''c1'')"
    by (simp add: DockerClient_CreateContainer_def sdk_value_def demo_parts demo_sdk_def Let_def)
  have "enc_Spec demo_json x = Inr []" "dec_Spec demo_json y = Inr (toMinionContainerSpec demo_spec)"
    "enc_ID demo_json u = Inr []" "dec_ID demo_json y = Inr ''c1''" for x y u
    by (simp_all add: demo_json_def blank_json_def)
  then show ?thesis
    using remote_create_matches_local [OF demo_delivers [of "''create-container''" "[]"] _ _ demo_parts(1) loc]
    by (simp add: demo_dispatch demo_parts)
qed

theorem remote_list_matches_local_witness:
  "\<exists>st'. SSH_ListContainers demo_ssh_env True Map.empty demo_conn = Some (st', Inr [summary_info demo_sdk demo_summary])"
proof -
  have res: "sdk_ContainerList demo_sdk [] True Map.empty = Inr [demo_summary]" by (simp add: demo_sdk_def)
  then have loc: "DockerClient_ListContainers (ag_sdk demo_agent) True Map.empty [] =
      (fst (DockerClient_ListContainers (ag_sdk demo_agent) True Map.empty []), Inr [summary_info demo_sdk demo_summary])"
    by (simp add: DockerClient_ListContainers_def sdk_value_def demo_parts)
  have "enc_List demo_json x = Inr []" "dec_List demo_json y = Inr \<lparr>mlo_All = True, mlo_Filters = Map.empty\<rparr>"
    "enc_Infos demo_json u = Inr []" "dec_Infos demo_json y = Inr [agent_summary demo_sdk demo_summary]" for x y u
    by (simp_all add: demo_json_def blank_json_def)
  then show ?thesis
    using remote_list_matches_local [OF demo_delivers [of "''list-containers''" "[]"] _ _ demo_parts(1) loc] res
    by (simp add: demo_dispatch demo_parts)
qed

theorem remote_inspect_matches_local_witness:
  "\<exists>st'. SSH_InspectContainer demo_ssh_env ''c1'' demo_conn = Some (st', Inr (inspect_info demo_sdk demo_inspect))"
proof -
  have "sdk_ContainerInspect demo_sdk [] i = Inr demo_inspect" "enc_Info demo_json x = Inr []"
    "dec_Info demo_json y = Inr (convertContainerInspect demo_sdk demo_inspect)" for i x y
    by (simp_all add: demo_sdk_def demo_json_def blank_json_def)
  moreover have "daemon_inspect demo_sdk demo_inspect" by code_simp
  ultimately show ?thesis
    using remote_inspect_matches_local [OF demo_delivers [of "''inspect-container''" "[''c1'']"] demo_parts(1), of demo_inspect]
    by (auto simp: demo_dispatch demo_parts)
qed


end
