(* ===== verification/Node_Pool.thy ===== *)
theory Node_Pool
  imports Remote_Docker Engine_Queries Secrets "HOL-Library.AList" "HOL-Library.Multiset"
begin

text \<open>
  \<open>internal/shell/docker/node_pool.go\<close>: the cache of SSH clients by node. Clients are objects: the pool maps a node to the number of
  its client, and the list of objects holds the fixed part and the state of every client ever made. The operations are first defined
  as a whole; then each is cut at the places where it holds no lock, and the calls of many threads are interleaved
  at these places in every possible way, with changes of the database and uses of the clients in between.
\<close>

section \<open>State\<close>

text \<open>\<open>np_order\<close> is the order in which \<open>range\<close> visits the map of clients.\<close>

record NodePool =
  np_env :: Env
  np_store :: Store
  np_encryptionKey :: string
  np_open :: open_fn
  np_config :: SSHClientConfig
  np_ssh :: ssh_lib
  np_json :: json_pkg
  np_lower :: "string \<Rightarrow> string"
  np_order :: "(string \<times> nat) list \<Rightarrow> (string \<times> nat) list"

text \<open>The objects that were closed are listed, one entry per call.\<close>

record pool_state =
  pl_world :: world
  pl_clients :: "(string \<times> nat) list"
  pl_objs :: "(SSHDockerClient \<times> ssh_state) list"
  pl_closed :: "nat list"

datatype pool_error =
    GetNodeErr string | NodeUnavailable string NodeStatus | NoSSHKey string | GetKeyErr string | DecryptErr crypto_error
  | CreateErr string | PingErr ssh_error | RemoveErr string

definition DefaultNodePoolConfig :: SSHClientConfig where
  "DefaultNodePoolConfig = DefaultSSHClientConfig"

definition NewNodePool :: "world \<Rightarrow> pool_state" where
  "NewNodePool w = \<lparr>pl_world = w, pl_clients = [], pl_objs = [], pl_closed = []\<rparr>"

definition cached :: "pool_state \<Rightarrow> string \<Rightarrow> nat option" where
  "cached s n = map_of (pl_clients s) n"

definition put :: "string \<Rightarrow> nat \<Rightarrow> pool_state \<Rightarrow> pool_state" where
  "put n i s = s\<lparr>pl_clients := AList.update n i (pl_clients s)\<rparr>"

definition add_object :: "SSHDockerClient \<Rightarrow> pool_state \<Rightarrow> pool_state" where
  "add_object c s = s\<lparr>pl_objs := pl_objs s @ [(c, new_state)]\<rparr>"

section \<open>Operations\<close>

text \<open>From the node to its client: the status is checked by \<open>GetClient\<close> and not by \<open>PingNode\<close>.\<close>

definition make_client :: "NodePool \<Rightarrow> bool \<Rightarrow> string \<Rightarrow> pool_state \<Rightarrow> pool_state \<times> (pool_error + SSHDockerClient)" where
  "make_client P check n s =
     (case GetNode (np_env P) (np_store P) n (pl_world s) of
        (w, Inl err) \<Rightarrow> (s\<lparr>pl_world := w\<rparr>, Inl (GetNodeErr err))
      | (w, Inr node) \<Rightarrow>
          if check \<and> \<not> NodeStatus_IsAvailable (node_Status node) then (s\<lparr>pl_world := w\<rparr>, Inl (NodeUnavailable n (node_Status node)))
          else if node_SSHKeyID node = 0 then (s\<lparr>pl_world := w\<rparr>, Inl (NoSSHKey n))
          else
            (case GetSSHKey (np_env P) (np_store P) (node_SSHKeyRefID node) w of
               (w, Inl err) \<Rightarrow> (s\<lparr>pl_world := w\<rparr>, Inl (GetKeyErr err))
             | (w, Inr key) \<Rightarrow>
                 (s\<lparr>pl_world := w\<rparr>,
                  case DecryptSSHKey (np_open P) (key_PrivateKeyEncrypted key) (np_encryptionKey P) of
                    Inl err \<Rightarrow> Inl (DecryptErr err)
                  | Inr privateKey \<Rightarrow> map_sum CreateErr id (NewSSHDockerClient (np_ssh P) node privateKey (np_config P)))))"

text \<open>The part of \<open>GetClient\<close> under the write lock.\<close>

definition get_locked :: "NodePool \<Rightarrow> string \<Rightarrow> pool_state \<Rightarrow> pool_state \<times> (pool_error + nat)" where
  "get_locked P n s =
     (case cached s n of
        Some i \<Rightarrow> (s, Inr i)
      | None \<Rightarrow>
          (case make_client P True n s of
             (s, Inl err) \<Rightarrow> (s, Inl err)
           | (s, Inr c) \<Rightarrow> (put n (length (pl_objs s)) (add_object c s), Inr (length (pl_objs s)))))"

definition GetClient :: "NodePool \<Rightarrow> string \<Rightarrow> pool_state \<Rightarrow> pool_state \<times> (pool_error + nat)" where
  "GetClient P n s = (case cached s n of Some i \<Rightarrow> (s, Inr i) | None \<Rightarrow> get_locked P n s)"

definition get_for_locked :: "NodePool \<Rightarrow> Node \<Rightarrow> string \<Rightarrow> pool_state \<Rightarrow> pool_state \<times> (pool_error + nat)" where
  "get_for_locked P node privateKey s =
     (case cached s (node_ReferenceID node) of
        Some i \<Rightarrow> (s, Inr i)
      | None \<Rightarrow>
          (case NewSSHDockerClient (np_ssh P) node privateKey (np_config P) of
             Inl err \<Rightarrow> (s, Inl (CreateErr err))
           | Inr c \<Rightarrow> (put (node_ReferenceID node) (length (pl_objs s)) (add_object c s), Inr (length (pl_objs s)))))"

definition GetClientForNode :: "NodePool \<Rightarrow> Node \<Rightarrow> string \<Rightarrow> pool_state \<Rightarrow> pool_state \<times> (pool_error + nat)" where
  "GetClientForNode P node privateKey s =
     (case cached s (node_ReferenceID node) of Some i \<Rightarrow> (s, Inr i) | None \<Rightarrow> get_for_locked P node privateKey s)"

definition close_object :: "NodePool \<Rightarrow> nat \<Rightarrow> pool_state \<Rightarrow> pool_state \<times> string option" where
  "close_object P i s =
     (let (c, st) = pl_objs s ! i; (st', err) = Close (np_ssh P) st
      in (s\<lparr>pl_objs := (pl_objs s)[i := (c, st')], pl_closed := pl_closed s @ [i]\<rparr>, err))"

definition forget :: "string \<Rightarrow> pool_state \<Rightarrow> pool_state" where
  "forget n s = s\<lparr>pl_clients := AList.delete n (pl_clients s)\<rparr>"

definition RemoveClient :: "NodePool \<Rightarrow> string \<Rightarrow> pool_state \<Rightarrow> pool_state \<times> string option" where
  "RemoveClient P n s = (case cached s n of None \<Rightarrow> (s, None) | Some i \<Rightarrow> close_object P i (forget n s))"

fun close_loop :: "NodePool \<Rightarrow> (string \<times> nat) list \<Rightarrow> string option \<Rightarrow> pool_state \<Rightarrow> pool_state \<times> string option" where
  "close_loop P [] firstErr s = (s, firstErr)"
| "close_loop P ((n, i) # rest) firstErr s =
     (case close_object P i s of
        (s, err) \<Rightarrow>
          close_loop P rest
            (case (err, firstErr) of (Some e, None) \<Rightarrow> Some (''close client for node '' @ n @ '': '' @ e) | _ \<Rightarrow> firstErr) (forget n s))"

definition CloseAll :: "NodePool \<Rightarrow> pool_state \<Rightarrow> pool_state \<times> string option" where
  "CloseAll P s = close_loop P (np_order P (pl_clients s)) None s"

definition ClientCount :: "pool_state \<Rightarrow> nat" where
  "ClientCount s = length (pl_clients s)"

definition HasClient :: "pool_state \<Rightarrow> string \<Rightarrow> bool" where
  "HasClient s n \<longleftrightarrow> cached s n \<noteq> None"

definition client_env :: "NodePool \<Rightarrow> SSHDockerClient \<Rightarrow> ssh_env" where
  "client_env P c = \<lparr>se_ssh = np_ssh P, se_json = np_json P, se_lower = np_lower P, se_client = c\<rparr>"

text \<open>\<open>None\<close> is a panic of the client.\<close>

definition ping_object :: "NodePool \<Rightarrow> nat \<Rightarrow> pool_state \<Rightarrow> (pool_state \<times> pool_error option) option" where
  "ping_object P i s =
     (let (c, st) = pl_objs s ! i
      in map_option (\<lambda>(st', r). (s\<lparr>pl_objs := (pl_objs s)[i := (c, st')]\<rparr>, case r of Inl err \<Rightarrow> Some (PingErr err) | Inr _ \<Rightarrow> None))
           (SSH_Ping (client_env P c) st))"

text \<open>The part of \<open>PingNode\<close> that makes a client without the lock; a client that does not answer is closed.\<close>

definition ping_new :: "NodePool \<Rightarrow> string \<Rightarrow> pool_state \<Rightarrow> (pool_state \<times> (pool_error + nat)) option" where
  "ping_new P n s =
     (case make_client P False n s of
        (s, Inl err) \<Rightarrow> Some (s, Inl err)
      | (s, Inr c) \<Rightarrow>
          let i = length (pl_objs s)
          in case ping_object P i (add_object c s) of
               None \<Rightarrow> None
             | Some (s, Some err) \<Rightarrow> Some (fst (close_object P i s), Inl err)
             | Some (s, None) \<Rightarrow> Some (s, Inr i))"

definition PingNode :: "NodePool \<Rightarrow> string \<Rightarrow> pool_state \<Rightarrow> (pool_state \<times> pool_error option) option" where
  "PingNode P n s =
     (case cached s n of
        Some i \<Rightarrow> ping_object P i s
      | None \<Rightarrow>
          (case ping_new P n s of
             None \<Rightarrow> None
           | Some (s, Inl err) \<Rightarrow> Some (s, Some err)
           | Some (s, Inr i) \<Rightarrow> Some (put n i s, None)))"

definition RefreshClient :: "NodePool \<Rightarrow> string \<Rightarrow> pool_state \<Rightarrow> pool_state \<times> (pool_error + nat)" where
  "RefreshClient P n s =
     (case RemoveClient P n s of
        (s, Some err) \<Rightarrow> (s, Inl (RemoveErr err))
      | (s, None) \<Rightarrow> GetClient P n s)"

section \<open>Threads\<close>

datatype pool_call = CGet string | CGetFor Node string | CRemove string | CCloseAll | CPing string | CRefresh string

text \<open>Where a call is: at its start, between two of its locked sections, or finished with its result.\<close>

datatype thread =
    Start | GetSlow | PingCached nat | PingSlow | PingStore nat | RefreshGet | Finished "pool_error + nat option"

definition finish :: "pool_state \<times> (pool_error + nat) \<Rightarrow> (pool_state \<times> thread) option" where
  "finish r = Some (fst r, Finished (map_sum id Some (snd r)))"

definition finish_error :: "(string \<Rightarrow> pool_error) \<Rightarrow> pool_state \<times> string option \<Rightarrow> (pool_state \<times> thread) option" where
  "finish_error f r = Some (fst r, Finished (case snd r of None \<Rightarrow> Inr None | Some err \<Rightarrow> Inl (f err)))"

definition first_look :: "pool_state \<Rightarrow> string \<Rightarrow> (nat \<Rightarrow> thread) \<Rightarrow> thread \<Rightarrow> (pool_state \<times> thread) option" where
  "first_look s n hit miss = Some (s, case cached s n of Some i \<Rightarrow> hit i | None \<Rightarrow> miss)"

text \<open>The next step of a thread; none when it is finished or panics.\<close>

fun thread_step :: "NodePool \<Rightarrow> pool_call \<Rightarrow> thread \<Rightarrow> pool_state \<Rightarrow> (pool_state \<times> thread) option" where
  "thread_step P (CGet n) Start s = first_look s n (\<lambda>i. Finished (Inr (Some i))) GetSlow"
| "thread_step P (CGet n) GetSlow s = finish (get_locked P n s)"
| "thread_step P (CGetFor node key) Start s = first_look s (node_ReferenceID node) (\<lambda>i. Finished (Inr (Some i))) GetSlow"
| "thread_step P (CGetFor node key) GetSlow s = finish (get_for_locked P node key s)"
| "thread_step P (CRemove n) Start s = finish_error RemoveErr (RemoveClient P n s)"
| "thread_step P CCloseAll Start s = finish_error RemoveErr (CloseAll P s)"
| "thread_step P (CPing n) Start s = first_look s n PingCached PingSlow"
| "thread_step P (CPing n) (PingCached i) s =
     map_option (\<lambda>(s, r). (s, Finished (case r of None \<Rightarrow> Inr None | Some err \<Rightarrow> Inl err))) (ping_object P i s)"
| "thread_step P (CPing n) PingSlow s =
     map_option (\<lambda>(s, r). (s, case r of Inl err \<Rightarrow> Finished (Inl err) | Inr i \<Rightarrow> PingStore i)) (ping_new P n s)"
| "thread_step P (CPing n) (PingStore i) s = Some (put n i s, Finished (Inr None))"
| "thread_step P (CRefresh n) Start s =
     (case RemoveClient P n s of
        (s, Some err) \<Rightarrow> Some (s, Finished (Inl (RemoveErr err)))
      | (s, None) \<Rightarrow> Some (s, RefreshGet))"
| "thread_step P (CRefresh n) RefreshGet s = first_look s n (\<lambda>i. Finished (Inr (Some i))) GetSlow"
| "thread_step P (CRefresh n) GetSlow s = finish (get_locked P n s)"
| "thread_step P _ _ s = None"

text \<open>Any thread may move, a call that is allowed may start, the database may change, and a client may be used by whoever holds it.\<close>

inductive pool_step :: "NodePool \<Rightarrow> (pool_call \<Rightarrow> bool) \<Rightarrow> pool_state \<times> (pool_call \<times> thread) list \<Rightarrow>
    pool_state \<times> (pool_call \<times> thread) list \<Rightarrow> bool" for P calls where
  move: "k < length ts \<Longrightarrow> ts ! k = (c, t) \<Longrightarrow> thread_step P c t s = Some (s', t') \<Longrightarrow> pool_step P calls (s, ts) (s', ts[k := (c, t')])"
| spawn: "calls c \<Longrightarrow> pool_step P calls (s, ts) (s, ts @ [(c, Start)])"
| database: "pool_step P calls (s, ts) (s\<lparr>pl_world := w\<rparr>, ts)"
| use: "pool_step P calls (s, ts) (s\<lparr>pl_objs := (pl_objs s)[i := (fst (pl_objs s ! i), st)]\<rparr>, ts)"

abbreviation pool_runs where "pool_runs P calls \<equiv> (pool_step P calls)\<^sup>*\<^sup>*"

inductive_cases pool_stepE: "pool_step P calls (s, ts) u"

section \<open>Association lists\<close>

lemma update_new: "n \<notin> fst ` set xs \<Longrightarrow> AList.update n i xs = xs @ [(n, i)]"
  by (induction xs) auto

lemma update_old:
  "map_of xs n = Some j \<Longrightarrow> mset (map snd (AList.update n i xs)) + {#j#} = mset (map snd xs) + {#i#}"
  by (induction xs) (auto split: if_splits)

lemma delete_old:
  "distinct (map fst xs) \<Longrightarrow> map_of xs n = Some i \<Longrightarrow> mset (map snd xs) = mset (map snd (AList.delete n xs)) + {#i#}"
proof (induction xs)
  case (Cons p xs)
  obtain k v where p: "p = (k, v)" by fastforce
  show ?case
  proof (cases "k = n")
    case True
    then have "n \<notin> fst ` set xs" using Cons.prems p by simp
    with True show ?thesis using Cons.prems p by (simp add: delete_idem)
  next
    case False
    then show ?thesis using Cons p by auto
  qed
qed simp

lemma delete_distinct: "distinct (map fst xs) \<Longrightarrow> distinct (map fst (AList.delete n xs))"
  by (rule distinct_delete)

section \<open>Where every client is\<close>

text \<open>The clients that a thread has made and not yet stored.\<close>

fun held :: "thread \<Rightarrow> nat list" where
  "held (PingStore i) = [i]"
| "held _ = []"

definition in_flight :: "(pool_call \<times> thread) list \<Rightarrow> nat multiset" where
  "in_flight ts = mset (concat (map (held \<circ> snd) ts))"

lemma in_flight_append [simp]: "in_flight (ts @ [(c, t)]) = in_flight ts + mset (held t)"
  by (simp add: in_flight_def)

lemma in_flight_update:
  "k < length ts \<Longrightarrow> ts ! k = (c, t) \<Longrightarrow> in_flight (ts[k := (c, t')]) + mset (held t) = in_flight ts + mset (held t')"
proof (induction ts arbitrary: k)
  case (Cons x ts)
  show ?case
  proof (cases k)
    case (Suc j)
    then have "in_flight (ts[j := (c, t')]) + mset (held t) = in_flight ts + mset (held t')" using Cons by simp
    then show ?thesis using Suc by (simp add: in_flight_def ac_simps)
  qed (use Cons in \<open>simp add: in_flight_def ac_simps\<close>)
qed simp

definition all_clients :: "pool_state \<Rightarrow> nat multiset" where
  "all_clients s = mset [0..<length (pl_objs s)]"

definition known_clients :: "pool_state \<Rightarrow> nat multiset" where
  "known_clients s = mset (map snd (pl_clients s)) + mset (pl_closed s)"

definition keys_ok :: "pool_state \<Rightarrow> bool" where
  "keys_ok s \<longleftrightarrow> distinct (map fst (pl_clients s))"

lemmas pool_defs = keys_ok_def known_clients_def all_clients_def put_def forget_def add_object_def cached_def

lemma keys_put [simp]: "keys_ok s \<Longrightarrow> keys_ok (put n i s)"
  by (simp add: keys_ok_def put_def distinct_update)

lemma keys_other [simp]:
  "keys_ok (s\<lparr>pl_world := w\<rparr>) = keys_ok s" "keys_ok (s\<lparr>pl_objs := os\<rparr>) = keys_ok s" "keys_ok (add_object c s) = keys_ok s"
  by (simp_all add: pool_defs)

lemma clients_other [simp]:
  "known_clients (s\<lparr>pl_world := w\<rparr>) = known_clients s" "known_clients (s\<lparr>pl_objs := os\<rparr>) = known_clients s"
  "known_clients (add_object c s) = known_clients s" "all_clients (s\<lparr>pl_world := w\<rparr>) = all_clients s"
  "all_clients (put n i s) = all_clients s" "all_clients (add_object c s) = all_clients s + {#length (pl_objs s)#}"
  "all_clients (s\<lparr>pl_objs := (pl_objs s)[i := x]\<rparr>) = all_clients s" "cached (add_object c s) n = cached s n"
  "cached (s\<lparr>pl_world := w\<rparr>) n = cached s n" "cached (s\<lparr>pl_objs := os\<rparr>) n = cached s n"
  by (simp_all add: pool_defs)

lemma known_put_new: "cached s n = None \<Longrightarrow> known_clients (put n i s) = known_clients s + {#i#}"
  by (simp add: pool_defs update_new map_of_eq_None_iff)

lemma known_put_old: "cached s n = Some j \<Longrightarrow> known_clients (put n i s) + {#j#} = known_clients s + {#i#}"
  using update_old [of "pl_clients s" n j i] by (simp add: pool_defs)

lemma close_object_effect:
  "known_clients (fst (close_object P i s)) = known_clients s + {#i#}" "all_clients (fst (close_object P i s)) = all_clients s"
  "keys_ok (fst (close_object P i s)) = keys_ok s" "pl_clients (fst (close_object P i s)) = pl_clients s"
  by (simp_all add: close_object_def pool_defs Let_def split: prod.splits)

lemma forget_effect:
  assumes "keys_ok s" "cached s n = Some i"
  shows "known_clients (forget n s) + {#i#} = known_clients s" "all_clients (forget n s) = all_clients s" "keys_ok (forget n s)"
  using assms delete_old [of "pl_clients s" n i] by (simp_all add: pool_defs distinct_delete)

lemma close_forget: "forget n (fst (close_object P i s)) = fst (close_object P i (forget n s))"
  by (simp add: close_object_def forget_def Let_def split: prod.splits)

lemma removed_effect:
  assumes "keys_ok s" "cached s n = Some i"
  shows "known_clients (fst (close_object P i (forget n s))) = known_clients s" "all_clients (fst (close_object P i (forget n s))) = all_clients s"
    "keys_ok (fst (close_object P i (forget n s)))"
  using forget_effect [OF assms] by (simp_all add: close_object_effect)

text \<open>What an operation of the pool does to the bookkeeping: the known clients grow as the clients made do.\<close>

definition balanced :: "pool_state \<Rightarrow> pool_state \<Rightarrow> bool" where
  "balanced s s' \<longleftrightarrow> (keys_ok s \<longrightarrow> keys_ok s' \<and> known_clients s' + all_clients s = known_clients s + all_clients s')"

lemma make_client_frame: "make_client P b n s = (s', r) \<Longrightarrow> \<exists>w. s' = s\<lparr>pl_world := w\<rparr>"
  by (auto simp: make_client_def split: prod.splits sum.splits if_splits)

lemma balanced_get_locked: "balanced s (fst (get_locked P n s))"
proof (cases "cached s n")
  case None
  obtain s1 r where mk: "make_client P True n s = (s1, r)" by fastforce
  then obtain w where "s1 = s\<lparr>pl_world := w\<rparr>" using make_client_frame by blast
  then show ?thesis
    using None mk by (cases r) (auto simp: get_locked_def balanced_def known_put_new)
qed (simp add: get_locked_def balanced_def)

lemma balanced_get_for_locked: "balanced s (fst (get_for_locked P node key s))"
  by (auto simp: get_for_locked_def balanced_def known_put_new split: option.splits sum.splits)

lemma balanced_RemoveClient: "balanced s (fst (RemoveClient P n s))"
  by (auto simp: RemoveClient_def balanced_def removed_effect split: option.splits)

lemma close_loop_effect:
  assumes "keys_ok s" "distinct (map fst xs)" "\<And>n i. (n, i) \<in> set xs \<Longrightarrow> cached s n = Some i"
  shows "keys_ok (fst (close_loop P xs e s)) \<and> known_clients (fst (close_loop P xs e s)) = known_clients s
    \<and> all_clients (fst (close_loop P xs e s)) = all_clients s
    \<and> pl_clients (fst (close_loop P xs e s)) = filter (\<lambda>(n, _). n \<notin> fst ` set xs) (pl_clients s)"
  using assms
proof (induction xs arbitrary: e s)
  case (Cons x xs)
  obtain n i where x: "x = (n, i)" by fastforce
  obtain s1 r where cl: "close_object P i s = (s1, r)" by fastforce
  let ?s = "forget n s1"
  have s: "?s = fst (close_object P i (forget n s))" using close_forget [of n P i s] cl by simp
  have here: "cached s n = Some i" using Cons.prems(3) x by simp
  have cl': "pl_clients ?s = AList.delete n (pl_clients s)" by (simp add: s close_object_effect) (simp add: forget_def)
  have "cached ?s m = Some j" if "(m, j) \<in> set xs" for m j
  proof -
    have "m \<noteq> n" using that Cons.prems(2) x by force
    then show ?thesis using that Cons.prems(3) [of m j] cl' by (simp add: cached_def delete_conv')
  qed
  then have IH: "keys_ok (fst (close_loop P xs e' ?s)) \<and> known_clients (fst (close_loop P xs e' ?s)) = known_clients ?s
      \<and> all_clients (fst (close_loop P xs e' ?s)) = all_clients ?s
      \<and> pl_clients (fst (close_loop P xs e' ?s)) = filter (\<lambda>(n, _). n \<notin> fst ` set xs) (pl_clients ?s)" for e'
    using Cons.IH [of ?s] Cons.prems(2) x removed_effect [OF Cons.prems(1) here, of P] by (simp add: s)
  have del: "AList.delete n zs = filter (\<lambda>(k, _). k \<noteq> n) zs" for zs :: "(string \<times> nat) list"
    by (auto simp: AList.delete_eq intro!: filter_cong)
  show ?case
    using IH removed_effect [OF Cons.prems(1) here, of P] x
    by (simp add: cl cl' del s [symmetric]) (auto intro!: filter_cong)
qed (simp add: case_prod_beta)

lemma CloseAll_effect:
  assumes "keys_ok s" "mset (np_order P (pl_clients s)) = mset (pl_clients s)"
  shows "keys_ok (fst (CloseAll P s)) \<and> known_clients (fst (CloseAll P s)) = known_clients s
    \<and> all_clients (fst (CloseAll P s)) = all_clients s \<and> pl_clients (fst (CloseAll P s)) = []"
proof -
  have "distinct (map fst (pl_clients s))" using assms(1) by (simp add: keys_ok_def)
  moreover have "mset (map fst (np_order P (pl_clients s))) = mset (map fst (pl_clients s))" using assms(2) by (metis mset_map)
  ultimately have d: "distinct (map fst (np_order P (pl_clients s)))" by (metis mset_eq_imp_distinct_iff)
  have st: "set (np_order P (pl_clients s)) = set (pl_clients s)" using assms(2) by (metis set_mset_mset)
  show ?thesis
    using close_loop_effect [OF assms(1) d, of P None] assms(1)
    by (auto simp: CloseAll_def st cached_def keys_ok_def filter_empty_conv image_iff intro: map_of_is_SomeI)
qed

lemma ping_object_frame:
  "ping_object P i s = Some (s', r) \<Longrightarrow> \<exists>x. s' = s\<lparr>pl_objs := (pl_objs s)[i := x]\<rparr>"
  by (auto simp: ping_object_def Let_def split: prod.splits)

lemma ping_new_effect:
  assumes "ping_new P n s = Some (s', r)" "keys_ok s"
  shows "keys_ok s'" "known_clients s' + (case r of Inl _ \<Rightarrow> {#} | Inr i \<Rightarrow> {#i#}) + all_clients s = known_clients s + all_clients s'"
    and "\<And>i. r = Inr i \<Longrightarrow> i = length (pl_objs s) \<and> pl_clients s' = pl_clients s \<and> pl_closed s' = pl_closed s \<and> length (pl_objs s') = Suc i"
proof -
  obtain s1 c where mk: "make_client P False n s = (s1, c)" by fastforce
  then obtain w where s1: "s1 = s\<lparr>pl_world := w\<rparr>" using make_client_frame by blast
  have "keys_ok s' \<and> known_clients s' + (case r of Inl _ \<Rightarrow> {#} | Inr i \<Rightarrow> {#i#}) + all_clients s = known_clients s + all_clients s'
    \<and> (\<forall>i. r = Inr i \<longrightarrow> i = length (pl_objs s) \<and> pl_clients s' = pl_clients s \<and> pl_closed s' = pl_closed s \<and> length (pl_objs s') = Suc i)"
  proof (cases c)
    case (Inr cl)
    then obtain s2 e where p: "ping_object P (length (pl_objs s)) (add_object cl s1) = Some (s2, e)"
      using assms(1) mk by (auto simp: ping_new_def s1 Let_def split: option.splits prod.splits)
    from ping_object_frame [OF p] obtain x where s2: "s2 = (add_object cl s1)\<lparr>pl_objs := (pl_objs (add_object cl s1))[length (pl_objs s) := x]\<rparr>"
      by blast
    show ?thesis
      using assms mk Inr p
      by (cases e) (auto simp: ping_new_def s1 s2 close_object_effect Let_def, auto simp: add_object_def)
  qed (use assms mk s1 in \<open>auto simp: ping_new_def\<close>)
  then show "keys_ok s'" "known_clients s' + (case r of Inl _ \<Rightarrow> {#} | Inr i \<Rightarrow> {#i#}) + all_clients s = known_clients s + all_clients s'"
    and "\<And>i. r = Inr i \<Longrightarrow> i = length (pl_objs s) \<and> pl_clients s' = pl_clients s \<and> pl_closed s' = pl_closed s \<and> length (pl_objs s') = Suc i"
    by auto
qed

text \<open>One step of a thread: the clients it gains, holds and loses; only the last step of a ping loses one.\<close>

definition step_account :: "pool_state \<Rightarrow> thread \<Rightarrow> pool_state \<Rightarrow> thread \<Rightarrow> nat multiset \<Rightarrow> bool" where
  "step_account s t s' t' lost \<longleftrightarrow>
     keys_ok s' \<and> known_clients s' + mset (held t') + lost + all_clients s = known_clients s + mset (held t) + all_clients s'"

lemma account_balanced: "balanced s s' \<Longrightarrow> keys_ok s \<Longrightarrow> held t = [] \<Longrightarrow> held t' = [] \<Longrightarrow> step_account s t s' t' {#}"
  by (simp add: balanced_def step_account_def)

lemma put_account:
  assumes "keys_ok s"
  shows "\<exists>lost. step_account s (PingStore i) (put n i s) (Finished r) lost"
proof (cases "cached s n")
  case None
  then show ?thesis using assms by (intro exI [of _ "{#}"]) (simp add: step_account_def known_put_new)
next
  case (Some j)
  have "known_clients (put n i s) + {#j#} = known_clients s + {#i#}" by (rule known_put_old [OF Some])
  then show ?thesis using assms by (intro exI [of _ "{#j#}"]) (simp add: step_account_def)
qed

lemma thread_step_account:
  assumes "thread_step P c t s = Some (s', t')" "keys_ok s" "\<And>xs. mset (np_order P xs) = mset xs"
  shows "\<exists>lost. step_account s t s' t' lost \<and> (lost \<noteq> {#} \<or> held t \<noteq> [] \<or> held t' \<noteq> [] \<longrightarrow> (\<exists>n. c = CPing n))"
proof -
  have quiet: "step_account s t s t' {#}" if "held t = []" "held t' = []"
    using that assms(2) by (simp add: step_account_def)
  have gets: "step_account s t (fst (get_locked P n s)) t' {#}" "step_account s t (fst (get_for_locked P node key s)) t' {#}"
    "step_account s t (fst (RemoveClient P n s)) t' {#}" if "held t = []" "held t' = []" for n node key
    using that assms(2) by (simp_all add: account_balanced balanced_get_locked balanced_get_for_locked balanced_RemoveClient)
  have all: "step_account s t (fst (CloseAll P s)) t' {#}" if "held t = []" "held t' = []"
    using that CloseAll_effect [OF assms(2), of P] assms(3) by (simp add: step_account_def)
  from assms(1) show ?thesis
  proof (cases rule: thread_step.elims)
    case (8 n i)
    then obtain r where "ping_object P i s = Some (s', r)" "held t' = []" by (cases "ping_object P i s") auto
    with 8 ping_object_frame [of P i s s' r] assms(2) show ?thesis
      by (intro exI [of _ "{#}"]) (auto simp: step_account_def)
  next
    case (9 n)
    then obtain r where "ping_new P n s = Some (s', r)" "t' = (case r of Inl err \<Rightarrow> Finished (Inl err) | Inr i \<Rightarrow> PingStore i)"
      by (cases "ping_new P n s") auto
    with 9 ping_new_effect [of P n s s' r] assms(2) show ?thesis
      by (intro exI [of _ "{#}"]) (cases r; simp add: step_account_def)
  next
    case (10 n i)
    then show ?thesis using put_account [OF assms(2), of i n] by auto
  next
    case (11 n)
    then show ?thesis using gets(3) [of n] by (auto split: prod.splits option.splits)
  qed (use quiet gets all in \<open>auto simp: first_look_def finish_def finish_error_def split: option.splits\<close>)
qed

definition pings_allowed :: "(pool_call \<Rightarrow> bool) \<Rightarrow> bool" where
  "pings_allowed calls \<longleftrightarrow> (\<exists>n. calls (CPing n))"

definition accounted :: "(pool_call \<Rightarrow> bool) \<Rightarrow> pool_state \<times> (pool_call \<times> thread) list \<Rightarrow> bool" where
  "accounted calls u \<longleftrightarrow>
     (case u of (s, ts) \<Rightarrow>
        keys_ok s \<and> (\<exists>lost. known_clients s + in_flight ts + lost = all_clients s
          \<and> (\<not> pings_allowed calls \<longrightarrow> lost = {#} \<and> in_flight ts = {#} \<and> (\<forall>n t. (CPing n, t) \<notin> set ts))))"

lemma accounted_move:
  assumes acc: "accounted calls (s, ts)" and k: "k < length ts" "ts ! k = (c, t)"
    and st: "thread_step P c t s = Some (s', t')" and order: "\<And>xs. mset (np_order P xs) = mset xs"
  shows "accounted calls (s', ts[k := (c, t')])"
proof -
  obtain lost where keys: "keys_ok s" and sum: "known_clients s + in_flight ts + lost = all_clients s"
    and quiet: "\<not> pings_allowed calls \<Longrightarrow> lost = {#} \<and> in_flight ts = {#} \<and> (\<forall>n t. (CPing n, t) \<notin> set ts)"
    using acc by (auto simp: accounted_def)
  obtain l where sa: "step_account s t s' t' l" and ping: "l \<noteq> {#} \<or> held t \<noteq> [] \<or> held t' \<noteq> [] \<Longrightarrow> \<exists>n. c = CPing n"
    using thread_step_account [OF st keys order] by blast
  note fl = in_flight_update [OF k, of t']
  have "known_clients s' + in_flight (ts[k := (c, t')]) + (l + lost) + (mset (held t) + all_clients s)
      = (known_clients s' + mset (held t') + l + all_clients s) + in_flight ts + lost"
    using fl by (simp add: ac_simps)
  also have "\<dots> = (known_clients s + in_flight ts + lost) + mset (held t) + all_clients s'"
    using sa by (simp add: step_account_def ac_simps)
  also have "\<dots> = all_clients s' + (mset (held t) + all_clients s)" unfolding sum by (simp add: ac_simps)
  finally have "known_clients s' + in_flight (ts[k := (c, t')]) + (l + lost) = all_clients s'"
    by (simp only: add_right_cancel)
  moreover have "l + lost = {#} \<and> in_flight (ts[k := (c, t')]) = {#} \<and> (\<forall>n t. (CPing n, t) \<notin> set (ts[k := (c, t')]))"
    if np: "\<not> pings_allowed calls"
  proof -
    have "c \<noteq> CPing n" for n using quiet [OF np] k nth_mem [OF k(1)] by auto
    moreover from this have "l = {#}" "held t = []" "held t' = []" using ping by blast+
    ultimately show ?thesis using quiet [OF np] fl set_update_subset_insert [of ts k "(c, t')"] by auto
  qed
  ultimately show ?thesis using sa by (auto simp: accounted_def step_account_def)
qed

lemma pool_step_accounted:
  assumes "pool_step P calls u v" "accounted calls u" "\<And>xs. mset (np_order P xs) = mset xs"
  shows "accounted calls v"
  using assms(1,2)
proof cases
  case (move k ts c t s s' t')
  then show ?thesis using accounted_move [of calls s ts k c t P s' t'] assms(2,3) by simp
next
  case (spawn c s ts)
  then show ?thesis using assms(2) by (auto simp: accounted_def pings_allowed_def)
qed (use assms(2) in \<open>simp_all add: accounted_def\<close>)

lemma pool_runs_accounted:
  assumes "pool_runs P calls (NewNodePool w, []) u" "\<And>xs. mset (np_order P xs) = mset xs"
  shows "accounted calls u"
  using assms(1)
proof (induction rule: rtranclp_induct)
  case base
  show ?case by (simp add: accounted_def NewNodePool_def pool_defs in_flight_def)
next
  case (step u v)
  then show ?case using pool_step_accounted assms(2) by blast
qed

lemma within_upt:
  assumes "mset xs + r = mset [0..<n]"
  shows "distinct xs" "set xs \<subseteq> {..<n}" "r = {#} \<Longrightarrow> set xs = {..<n}"
proof -
  have c: "count (mset xs) i \<le> 1" for i
  proof -
    have "count (mset xs) i \<le> count (mset [0..<n]) i" unfolding assms [symmetric] by simp
    also have "\<dots> \<le> 1" using distinct_count_atmost_1 [of "[0..<n]"] by (simp del: mset_upt)
    finally show ?thesis .
  qed
  have "set_mset (mset xs + r) = {..<n}" unfolding assms by auto
  then show "set xs \<subseteq> {..<n}" "r = {#} \<Longrightarrow> set xs = {..<n}" by auto
  show "distinct xs"
    using c by (metis count_mset_0_iff distinct_count_atmost_1 le_less less_one)
qed

text \<open>
  C19: over every interleaving of calls of the pool by any number of threads, with any changes of the database and any use of the clients,
  a node has at most one client, no client serves two nodes, no client is closed twice and no client in the pool was closed.
  When no node is pinged, every client the pool ever made is in the pool or was closed, so that none is lost, and closing
  the pool then closes all of them.
\<close>

theorem pool_accounts_for_clients:
  assumes run: "pool_runs P calls (NewNodePool w, []) (s, ts)" and order: "\<And>xs. mset (np_order P xs) = mset xs"
  shows "distinct (map fst (pl_clients s)) \<and> distinct (map snd (pl_clients s) @ pl_closed s)
    \<and> set (map snd (pl_clients s) @ pl_closed s) \<subseteq> {..<length (pl_objs s)}
    \<and> (\<not> pings_allowed calls \<longrightarrow> set (map snd (pl_clients s) @ pl_closed s) = {..<length (pl_objs s)}
        \<and> pl_clients (fst (CloseAll P s)) = [] \<and> set (pl_closed (fst (CloseAll P s))) = {..<length (pl_objs s)})"
proof -
  obtain lost where keys: "keys_ok s" and sum: "known_clients s + in_flight ts + lost = all_clients s"
    and quiet: "\<not> pings_allowed calls \<Longrightarrow> lost = {#} \<and> in_flight ts = {#}"
    using pool_runs_accounted [OF run order] by (auto simp: accounted_def)
  have known: "mset (map snd (pl_clients s) @ pl_closed s) + (in_flight ts + lost) = mset [0..<length (pl_objs s)]"
    using sum by (simp add: pool_defs ac_simps)
  have closed: "pl_clients (fst (CloseAll P s)) = []" "known_clients (fst (CloseAll P s)) = known_clients s"
    using CloseAll_effect [OF keys order] by simp_all
  have "mset (pl_closed (fst (CloseAll P s))) = known_clients s"
    unfolding closed(2) [symmetric] by (simp add: known_clients_def closed(1))
  then have "set (pl_closed (fst (CloseAll P s))) = set (map snd (pl_clients s) @ pl_closed s)"
    by (metis known_clients_def mset_append set_mset_mset)
  then have "set (pl_closed (fst (CloseAll P s))) = {..<length (pl_objs s)}" if "\<not> pings_allowed calls"
    using quiet [OF that] within_upt(3) [OF known] by simp
  then show ?thesis
    using keys within_upt [OF known] quiet closed(1) by (simp add: keys_ok_def)
qed

section \<open>Concurrent requests for a client\<close>

definition gets_only :: "pool_call \<Rightarrow> bool" where
  "gets_only c \<longleftrightarrow> (\<exists>n. c = CGet n)"

definition answers_cached :: "pool_state \<times> (pool_call \<times> thread) list \<Rightarrow> bool" where
  "answers_cached u \<longleftrightarrow>
     (case u of (s, ts) \<Rightarrow> \<forall>(c, t) \<in> set ts. gets_only c \<and> (\<forall>n i. c = CGet n \<and> t = Finished (Inr (Some i)) \<longrightarrow> cached s n = Some i))"

lemma get_locked_cached:
  "cached s m = Some j \<Longrightarrow> cached (fst (get_locked P n s)) m = Some j"
  "snd (get_locked P n s) = Inr i \<Longrightarrow> cached (fst (get_locked P n s)) n = Some i"
  by (auto simp: get_locked_def put_def add_object_def cached_def update_conv' split: option.splits prod.splits sum.splits
      dest!: make_client_frame)

lemma get_thread_step:
  assumes "thread_step P (CGet n) t s = Some (s', t')"
  shows "cached s m = Some j \<Longrightarrow> cached s' m = Some j" and "t' = Finished (Inr (Some i)) \<Longrightarrow> cached s' n = Some i"
proof -
  have "(cached s m = Some j \<longrightarrow> cached s' m = Some j) \<and> (t' = Finished (Inr (Some i)) \<longrightarrow> cached s' n = Some i)"
    using assms
  proof (cases t)
    case GetSlow
    then have "s' = fst (get_locked P n s)" "t' = Finished (map_sum id Some (snd (get_locked P n s)))"
      using assms by (auto simp: finish_def)
    then show ?thesis using get_locked_cached(1) [of s m j P n] get_locked_cached(2) [of P n s i]
      by (cases "snd (get_locked P n s)") auto
  qed (auto simp: first_look_def split: option.splits)
  then show "cached s m = Some j \<Longrightarrow> cached s' m = Some j" and "t' = Finished (Inr (Some i)) \<Longrightarrow> cached s' n = Some i" by auto
qed

lemma pool_step_answers:
  assumes "pool_step P gets_only u v" "answers_cached u"
  shows "answers_cached v"
  using assms(1)
proof cases
  case (move k ts c t s s' t')
  then have c: "gets_only c" using assms(2) nth_mem [of k ts] by (auto simp: answers_cached_def)
  then obtain n where n: "c = CGet n" by (auto simp: gets_only_def)
  show ?thesis unfolding answers_cached_def move(2) prod.case
  proof (intro ballI, clarify, intro conjI allI impI)
    fix d t1 assume "(d, t1) \<in> set (ts[k := (c, t')])"
    then have d: "(d, t1) = (c, t') \<or> (d, t1) \<in> set ts" using set_update_subset_insert by fastforce
    then show "gets_only d" using c assms(2) move(1) by (auto simp: answers_cached_def)
    fix m i assume "d = CGet m \<and> t1 = Finished (Inr (Some i))"
    then show "cached s' m = Some i"
      using d get_thread_step [OF move(5) [unfolded n]] assms(2) move(1) n by (auto simp: answers_cached_def)
  qed
qed (use assms(2) in \<open>auto simp: answers_cached_def\<close>)

text \<open>
  C20: the requests of any number of threads for the client of one node, interleaved in any way, are all answered with the same client, the
  one in the pool, although the check without the write lock lets several threads go on to make one.
\<close>

theorem concurrent_gets_agree:
  assumes run: "pool_runs P gets_only (NewNodePool w, []) (s, ts)"
    and fin: "(CGet n, Finished (Inr (Some i))) \<in> set ts" "(CGet n, Finished (Inr (Some j))) \<in> set ts"
  shows "i = j \<and> cached s n = Some i"
proof -
  have "answers_cached (s, ts)" using run
  proof (induction rule: rtranclp_induct)
    case (step u v)
    then show ?case using pool_step_answers by blast
  qed (simp add: answers_cached_def)
  then have "cached s n = Some i" "cached s n = Some j" using fin by (auto simp: answers_cached_def)
  then show ?thesis by simp
qed

section \<open>Concurrent pings\<close>

lemma execMinion_connected: "execMinion sp J uni c command args input st = Some (st', Inr resp) \<Longrightarrow> ss_connected st'"
  by (auto simp: execMinion_def ssh_defs split: prod.splits option.splits sum.splits if_splits)

lemma SSH_Ping_connected: "SSH_Ping E st = Some (st', Inr u) \<Longrightarrow> ss_connected st'"
  by (auto simp: SSH_Ping_def minion_call_def decode_unit_def split: option.splits prod.splits sum.splits if_splits
      dest!: execMinion_connected)

lemma ping_new_object:
  assumes "ping_new P n s = Some (s', Inr i)"
  shows "ss_connected (snd (pl_objs s' ! i))" and "k < length (pl_objs s) \<Longrightarrow> pl_objs s' ! k = pl_objs s ! k"
proof -
  obtain s1 c where mk: "make_client P False n s = (s1, Inr c)"
    using assms by (auto simp: ping_new_def split: prod.splits sum.splits)
  then obtain w where s1: "s1 = s\<lparr>pl_world := w\<rparr>" using make_client_frame by blast
  have i: "i = length (pl_objs s)" and p: "ping_object P i (add_object c s1) = Some (s', None)"
    using assms mk by (auto simp: ping_new_def s1 Let_def split: option.splits)
  then obtain st r where r: "SSH_Ping (client_env P c) new_state = Some (st, r)"
    and s': "pl_objs s' = (pl_objs s @ [(c, new_state)])[i := (c, st)]" "(case r of Inl err \<Rightarrow> Some (PingErr err) | Inr _ \<Rightarrow> None) = None"
    by (auto simp: ping_object_def add_object_def s1)
  then obtain u where "SSH_Ping (client_env P c) new_state = Some (st, Inr u)" by (cases r) auto
  with s' show "ss_connected (snd (pl_objs s' ! i))" and "k < length (pl_objs s) \<Longrightarrow> pl_objs s' ! k = pl_objs s ! k"
    using i by (simp_all add: SSH_Ping_connected nth_append nth_list_update)
qed

lemma thread_moves:
  assumes "k < length ts" "ts ! k = (c, t)" "thread_step P c t s = Some (s', t')" "ts' = ts[k := (c, t')]"
  shows "pool_step P calls (s, ts) (s', ts')"
  using assms by (auto intro: pool_step.move)

text \<open>
  C36: two threads that ping a node of which no client is cached, such as two rounds of the health checker, each make a client. The
  one that stores its client last overwrites the other, whose client then is neither in the pool nor closed and keeps its connection.
\<close>

theorem ping_race_loses_client:
  assumes p1: "ping_new P n (NewNodePool w) = Some (s1, Inr i)" and p2: "ping_new P n s1 = Some (s2, Inr j)"
  shows "\<exists>s. pool_runs P (\<lambda>c. c = CPing n) (NewNodePool w, [])
      (s, [(CPing n, Finished (Inr None)), (CPing n, Finished (Inr None))])
    \<and> cached s n = Some j \<and> i \<notin> set (map snd (pl_clients s) @ pl_closed s) \<and> ss_connected (snd (pl_objs s ! i))"
proof -
  let ?s = "NewNodePool w" and ?c = "CPing n" and ?z = "put n j (put n i s2)" and ?f = "Finished (Inr None)"
  have k0: "keys_ok ?s" by (simp add: keys_ok_def NewNodePool_def)
  note e1 = ping_new_effect [OF p1 k0]
  note e2 = ping_new_effect [OF p2 e1(1)]
  have s2: "pl_clients s2 = []" "pl_closed s2 = []" "i = 0" "j = 1"
    using e1(3) e2(3) by (simp_all add: NewNodePool_def)
  have "cached ?s n = None" by (simp add: cached_def NewNodePool_def)
  then have look: "thread_step P ?c Start ?s = Some (?s, PingSlow)" by (simp add: first_look_def)
  have make: "thread_step P ?c PingSlow ?s = Some (s1, PingStore i)" "thread_step P ?c PingSlow s1 = Some (s2, PingStore j)"
    by (simp_all add: p1 p2)
  have store: "thread_step P ?c (PingStore i) s2 = Some (put n i s2, ?f)"
    "thread_step P ?c (PingStore j) (put n i s2) = Some (?z, ?f)" by simp_all
  let ?go = "pool_step P (\<lambda>c. c = ?c)"
  have m1: "?go (?s, []) (?s, [(?c, Start)])" "?go (?s, [(?c, Start)]) (?s, [(?c, Start), (?c, Start)])"
    using pool_step.spawn [of "\<lambda>c. c = ?c" ?c P ?s "[]"] pool_step.spawn [of "\<lambda>c. c = ?c" ?c P ?s "[(?c, Start)]"] by simp_all
  have m2: "?go (?s, [(?c, Start), (?c, Start)]) (?s, [(?c, PingSlow), (?c, Start)])"
    "?go (?s, [(?c, PingSlow), (?c, Start)]) (?s, [(?c, PingSlow), (?c, PingSlow)])"
    by (rule thread_moves [OF _ _ look, of 0], simp_all) (rule thread_moves [OF _ _ look, of 1], simp_all)
  have m3: "?go (?s, [(?c, PingSlow), (?c, PingSlow)]) (s1, [(?c, PingStore i), (?c, PingSlow)])"
    "?go (s1, [(?c, PingStore i), (?c, PingSlow)]) (s2, [(?c, PingStore i), (?c, PingStore j)])"
    by (rule thread_moves [OF _ _ make(1), of 0], simp_all) (rule thread_moves [OF _ _ make(2), of 1], simp_all)
  have m4: "?go (s2, [(?c, PingStore i), (?c, PingStore j)]) (put n i s2, [(?c, ?f), (?c, PingStore j)])"
    "?go (put n i s2, [(?c, ?f), (?c, PingStore j)]) (?z, [(?c, ?f), (?c, ?f)])"
    by (rule thread_moves [OF _ _ store(1), of 0], simp_all) (rule thread_moves [OF _ _ store(2), of 1], simp_all)
  have "?go\<^sup>*\<^sup>* (?s, []) (?z, [(?c, ?f), (?c, ?f)])"
    by (intro converse_rtranclp_into_rtranclp [of ?go, OF m1(1)] converse_rtranclp_into_rtranclp [of ?go, OF m1(2)] converse_rtranclp_into_rtranclp [of ?go, OF m2(1)]
        converse_rtranclp_into_rtranclp [of ?go, OF m2(2)] converse_rtranclp_into_rtranclp [of ?go, OF m3(1)] converse_rtranclp_into_rtranclp [of ?go, OF m3(2)]
        converse_rtranclp_into_rtranclp [of ?go, OF m4(1)] converse_rtranclp_into_rtranclp [of ?go, OF m4(2)] rtranclp.rtrancl_refl)
  moreover have "cached ?z n = Some j" "i \<notin> set (map snd (pl_clients ?z) @ pl_closed ?z)"
    using s2 by (simp_all add: put_def cached_def)
  moreover have "ss_connected (snd (pl_objs ?z ! i))"
    using ping_new_object(1) [OF p1] ping_new_object(2) [OF p2, of i] e1(3) [of i] by (simp add: put_def)
  ultimately show ?thesis by blast
qed

section \<open>Examples\<close>

definition demo_pool :: NodePool where
  "demo_pool = \<lparr>np_env = demo_env, np_store = demo_store, np_encryptionKey = replicate 32 CHR ''k'', np_open = tag_open,
     np_config = DefaultNodePoolConfig, np_ssh = demo_ssh, np_json = blank_json, np_lower = id, np_order = (\<lambda>xs. xs)\<rparr>"

lemma demo_cols:
  "plain_col NodeResource ''ssh_key_id''" "''ssh_key_id'' \<in> set (selectColumns NodeResource)"
  "plain_col NodeResource ''status''" "''status'' \<in> set (selectColumns NodeResource)"
  "plain_col SSHKeyResource ''reference_id''" "''reference_id'' \<in> set (selectColumns SSHKeyResource)"
  "plain_col SSHKeyResource ''private_key''" "''private_key'' \<in> set (selectColumns SSHKeyResource)"
  by code_simp+

definition demo_key_row :: row where
  "demo_key_row = [''id'' \<mapsto> GInt64 1, ''reference_id'' \<mapsto> GStr ''k'',
     ''private_key'' \<mapsto> GStr (replicate 12 CHR ''0'' @ tag_seal (replicate 32 CHR ''k'') (replicate 12 CHR ''0'') ''pem'')]"

definition demo_node_row :: row where
  "demo_node_row = [''id'' \<mapsto> GInt64 1, ''reference_id'' \<mapsto> GStr ''n'', ''status'' \<mapsto> GStr ''online'', ''ssh_key_id'' \<mapsto> GInt64 1]"

definition demo_pool_world :: world where
  "demo_pool_world = demo_world\<lparr>w_tables := (\<lambda>_. [])(''nodes'' := [demo_node_row], ''ssh_keys'' := [demo_key_row])\<rparr>"

lemma demo_rows:
  "row_get demo_node_row ''reference_id'' = GStr ''n''" "row_get demo_node_row ''ssh_key_id'' = GInt64 1"
  "row_get demo_node_row ''status'' = GStr ''online''"
  "row_get demo_key_row ''id'' = GInt64 1" "row_get demo_key_row ''reference_id'' = GStr ''k''"
  "strVal (row_get demo_key_row ''private_key'')
     = replicate 12 CHR ''0'' @ tag_seal (replicate 32 CHR ''k'') (replicate 12 CHR ''0'') ''pem''"
  by (simp_all add: demo_node_row_def demo_key_row_def row_get_def strVal_def)

lemma demo_schema: "st_schema demo_store ''nodes'' = Some NodeResource" "st_schema demo_store ''ssh_keys'' = Some SSHKeyResource"
  by (simp_all add: demo_store_def)

lemma demo_conv: "env_conv demo_env tab col (GStr x) = GStr x" "env_conv demo_env tab col (GInt i) = GInt64 i" "env_fail demo_env t st = None"
  by (simp_all add: demo_env_def sqlite_conv_def)

lemma demo_node:
  assumes "w_tables w = w_tables demo_pool_world"
  shows "\<exists>v node. GetNode demo_env demo_store ''n'' w = (v, Inr node) \<and> w_tables v = w_tables w \<and> node_SSHKeyID node = 1
    \<and> node_SSHKeyRefID node = ''k'' \<and> NodeStatus_IsAvailable (node_Status node)"
proof -
  let ?node = "decodeRow demo_env NodeResource (project (selectColumns NodeResource) demo_node_row)"
  have t: "w_tables w ''nodes'' = [demo_node_row]" "w_tables w ''ssh_keys'' = [demo_key_row]"
    using assms by (simp_all add: demo_pool_world_def)
  have g: "Store_Get demo_env demo_store ''nodes'' ''n'' w = (tick w, Inr ?node)"
    by (simp add: Store_Get_def demo_schema query_row_result t demo_conv where_ok_def sql_eq_def by_ref_def demo_rows)
  have k: "Store_GetByID demo_env demo_store ''ssh_keys'' 1 (tick w) =
      (tick (tick w), Inr (decodeRow demo_env SSHKeyResource (project (selectColumns SSHKeyResource) demo_key_row)))"
    by (simp add: Store_GetByID_def demo_schema query_row_result tick_def t demo_conv where_ok_def sql_eq_def demo_rows)
  have i: "int64_or0 (row_get ?node ''ssh_key_id'') = 1"
    by (simp add: row_get_def [of "decodeRow _ _ _"] decodeRow_plain [OF demo_cols(1)] decode_bytes_def project_def demo_cols demo_rows
        int64_or0_def toInt64_def)
  show ?thesis
    by (simp add: GetNode_def g k i mapToNode_def Let_def strVal_decodeRow demo_cols demo_rows) (simp add: tick_def strVal_def NodeStatus_IsAvailable_def NodeStatusOnline_def)
qed

lemma demo_key:
  assumes "w_tables w = w_tables demo_pool_world"
  shows "\<exists>v key. GetSSHKey demo_env demo_store ''k'' w = (v, Inr key) \<and> w_tables v = w_tables w
    \<and> DecryptSSHKey tag_open (key_PrivateKeyEncrypted key) (replicate 32 CHR ''k'') = Inr ''pem''"
proof -
  have t: "w_tables w ''ssh_keys'' = [demo_key_row]" using assms by (simp add: demo_pool_world_def)
  have g: "Store_Get demo_env demo_store ''ssh_keys'' ''k'' w =
      (tick w, Inr (decodeRow demo_env SSHKeyResource (project (selectColumns SSHKeyResource) demo_key_row)))"
    by (simp add: Store_Get_def demo_schema query_row_result t demo_conv where_ok_def sql_eq_def by_ref_def demo_rows)
  have d: "DecryptSSHKey tag_open (replicate 12 CHR ''0'' @ tag_seal (replicate 32 CHR ''k'') (replicate 12 CHR ''0'') ''pem'')
      (replicate 32 CHR ''k'') = Inr ''pem''"
    by code_simp
  show ?thesis
    by (simp add: GetSSHKey_def g mapToSSHKey_def strVal_decodeRow demo_cols demo_rows d)
qed

lemma demo_trim: "TrimSpace (ToLower id []) \<noteq> ''linux''"
  by code_simp

lemma demo_ping: "\<exists>st. SSH_Ping (client_env demo_pool c) new_state = Some (st, Inr ())"
  using demo_trim
  by (simp add: SSH_Ping_def minion_call_def client_env_def demo_pool_def execMinion_def connect_def dial_def new_state_def ssh_defs demo_ssh_def
      Let_def ensure_once_def AutoEnsureMinion_def detectOS_def session_output_def blank_json_def exec_outcome_def ParseResponse_def decode_unit_def)

lemma demo_make:
  assumes "w_tables (pl_world s) = w_tables demo_pool_world"
  shows "\<exists>w c. make_client demo_pool b ''n'' s = (s\<lparr>pl_world := w\<rparr>, Inr c) \<and> w_tables w = w_tables demo_pool_world"
proof -
  obtain v node where n: "GetNode demo_env demo_store ''n'' (pl_world s) = (v, Inr node)" "w_tables v = w_tables demo_pool_world"
      "node_SSHKeyID node = 1" "node_SSHKeyRefID node = ''k''" "NodeStatus_IsAvailable (node_Status node)"
    using demo_node [OF assms] assms by auto
  obtain u key where k: "GetSSHKey demo_env demo_store ''k'' v = (u, Inr key)" "w_tables u = w_tables demo_pool_world"
      "DecryptSSHKey tag_open (key_PrivateKeyEncrypted key) (replicate 32 CHR ''k'') = Inr ''pem''"
    using demo_key [OF n(2)] n(2) by auto
  show ?thesis
    using n k by (intro exI [of _ u]) (simp add: make_client_def demo_pool_def NewSSHDockerClient_def demo_ssh_def)
qed

lemma demo_ping_new:
  assumes "w_tables (pl_world s) = w_tables demo_pool_world"
  shows "\<exists>s' i. ping_new demo_pool ''n'' s = Some (s', Inr i) \<and> w_tables (pl_world s') = w_tables demo_pool_world"
proof -
  obtain w c where mk: "make_client demo_pool False ''n'' s = (s\<lparr>pl_world := w\<rparr>, Inr c)" "w_tables w = w_tables demo_pool_world"
    using demo_make [OF assms] by blast
  obtain st where "SSH_Ping (client_env demo_pool c) new_state = Some (st, Inr ())" using demo_ping by blast
  then show ?thesis using mk by (simp add: ping_new_def ping_object_def add_object_def Let_def)
qed

theorem ping_race_loses_client_witness:
  "\<exists>s i. pool_runs demo_pool (\<lambda>c. c = CPing ''n'') (NewNodePool demo_pool_world, [])
      (s, [(CPing ''n'', Finished (Inr None)), (CPing ''n'', Finished (Inr None))])
    \<and> i \<notin> set (map snd (pl_clients s) @ pl_closed s) \<and> ss_connected (snd (pl_objs s ! i))"
proof -
  obtain s1 i where p1: "ping_new demo_pool ''n'' (NewNodePool demo_pool_world) = Some (s1, Inr i)"
      "w_tables (pl_world s1) = w_tables demo_pool_world"
    using demo_ping_new [of "NewNodePool demo_pool_world"] by (auto simp: NewNodePool_def)
  obtain s2 j where "ping_new demo_pool ''n'' s1 = Some (s2, Inr j)" using demo_ping_new [OF p1(2)] by blast
  from ping_race_loses_client [OF p1(1) this] show ?thesis by blast
qed

text \<open>Two requests that both miss the client; the second finds it under the lock.\<close>

lemma double_get_run:
  assumes mk: "make_client P True n (NewNodePool w) = (s1, Inr c)"
  shows "\<exists>s. pool_runs P gets_only (NewNodePool w, []) (s, [(CGet n, Finished (Inr (Some 0))), (CGet n, Finished (Inr (Some 0)))])
    \<and> length (pl_objs s) = 1"
proof -
  let ?s = "NewNodePool w" and ?c = "CGet n" and ?f = "Finished (Inr (Some 0))" and ?go = "pool_step P gets_only"
  obtain v where s1: "s1 = ?s\<lparr>pl_world := v\<rparr>" using make_client_frame [OF mk] by blast
  let ?z = "put n 0 (add_object c s1)"
  have none: "cached ?s n = None" by (simp add: cached_def NewNodePool_def)
  have len: "length (pl_objs s1) = 0" by (simp add: s1 NewNodePool_def)
  have z: "cached ?z n = Some 0" by (simp add: cached_def put_def update_conv')
  have look: "thread_step P ?c Start ?s = Some (?s, GetSlow)" using none by (simp add: first_look_def)
  have slow: "thread_step P ?c GetSlow ?s = Some (?z, ?f)" "thread_step P ?c GetSlow ?z = Some (?z, ?f)"
    using none mk len z by (simp_all add: finish_def get_locked_def)
  have g: "gets_only ?c" by (simp add: gets_only_def)
  have m1: "?go (?s, []) (?s, [(?c, Start)])" "?go (?s, [(?c, Start)]) (?s, [(?c, Start), (?c, Start)])"
    using pool_step.spawn [of gets_only ?c P ?s "[]"] pool_step.spawn [of gets_only ?c P ?s "[(?c, Start)]"] g by simp_all
  have m2: "?go (?s, [(?c, Start), (?c, Start)]) (?s, [(?c, GetSlow), (?c, Start)])"
    "?go (?s, [(?c, GetSlow), (?c, Start)]) (?s, [(?c, GetSlow), (?c, GetSlow)])"
    by (rule thread_moves [OF _ _ look, of 0], simp_all) (rule thread_moves [OF _ _ look, of 1], simp_all)
  have m3: "?go (?s, [(?c, GetSlow), (?c, GetSlow)]) (?z, [(?c, ?f), (?c, GetSlow)])"
    "?go (?z, [(?c, ?f), (?c, GetSlow)]) (?z, [(?c, ?f), (?c, ?f)])"
    by (rule thread_moves [OF _ _ slow(1), of 0], simp_all) (rule thread_moves [OF _ _ slow(2), of 1], simp_all)
  have "?go\<^sup>*\<^sup>* (?s, []) (?z, [(?c, ?f), (?c, ?f)])"
    by (intro converse_rtranclp_into_rtranclp [of ?go, OF m1(1)] converse_rtranclp_into_rtranclp [of ?go, OF m1(2)]
        converse_rtranclp_into_rtranclp [of ?go, OF m2(1)] converse_rtranclp_into_rtranclp [of ?go, OF m2(2)]
        converse_rtranclp_into_rtranclp [of ?go, OF m3(1)] converse_rtranclp_into_rtranclp [of ?go, OF m3(2)] rtranclp.rtrancl_refl)
  moreover have "length (pl_objs ?z) = 1" using len by (simp add: put_def add_object_def)
  ultimately show ?thesis by blast
qed

lemma demo_gets:
  "\<exists>s. pool_runs demo_pool gets_only (NewNodePool demo_pool_world, [])
      (s, [(CGet ''n'', Finished (Inr (Some 0))), (CGet ''n'', Finished (Inr (Some 0)))]) \<and> length (pl_objs s) = 1"
proof -
  have "w_tables (pl_world (NewNodePool demo_pool_world)) = w_tables demo_pool_world" by (simp add: NewNodePool_def)
  then show ?thesis using demo_make [of "NewNodePool demo_pool_world" True] double_get_run by blast
qed

theorem concurrent_gets_agree_witness:
  "\<exists>s ts. pool_runs demo_pool gets_only (NewNodePool demo_pool_world, []) (s, ts) \<and> cached s ''n'' = Some 0"
proof -
  obtain s where r: "pool_runs demo_pool gets_only (NewNodePool demo_pool_world, [])
      (s, [(CGet ''n'', Finished (Inr (Some 0))), (CGet ''n'', Finished (Inr (Some 0)))])"
    using demo_gets by blast
  then show ?thesis using concurrent_gets_agree [OF r, of "''n''" 0 0] by auto
qed

theorem pool_accounts_for_clients_witness:
  "\<exists>s ts. pool_runs demo_pool gets_only (NewNodePool demo_pool_world, []) (s, ts) \<and> set (map snd (pl_clients s) @ pl_closed s) = {0}
     \<and> set (pl_closed (fst (CloseAll demo_pool s))) = {0}"
proof -
  obtain s ts where r: "pool_runs demo_pool gets_only (NewNodePool demo_pool_world, []) (s, ts)" "length (pl_objs s) = 1"
    using demo_gets by blast
  have "\<not> pings_allowed gets_only" by (simp add: pings_allowed_def gets_only_def)
  moreover have "mset (np_order demo_pool xs) = mset xs" for xs by (simp add: demo_pool_def)
  ultimately show ?thesis
    using pool_accounts_for_clients [OF r(1)] r by (intro exI [of _ s] exI [of _ ts]) (simp add: lessThan_Suc)
qed

end
