(* ===== verification/Cloud_Providers.thy ===== *)
theory Cloud_Providers
  imports Provider_Catalog Engine_Schema "HOL-Library.Word"
begin

text \<open>
  \<open>internal/shell/provider\<close>: the clients of the three cloud providers. Every request of a cloud API is an event of a history, and
  so is the answer that an instance was created. The SDKs are arguments whose answers may depend on the history, the request
  itself included; so may the \<open>select\<close> of a waiting loop, which either ends with the error of the context or after five seconds.
  A result of \<open>None\<close> is a panic: a \<open>nil\<close> pointer of an answer is dereferenced.
\<close>

section \<open>Interface\<close>

record ProvisionRequest =
  prq_InstanceName :: string
  prq_Region :: string
  prq_Size :: string
  prq_SSHPublicKey :: string

record ProvisionResult =
  prs_ProviderInstanceID :: string
  prs_PublicIP :: string

record DestroyRequest =
  drq_ProviderInstanceID :: string
  drq_InstanceName :: string
  drq_Region :: string

definition key_name :: "string \<Rightarrow> string" where
  "key_name instanceName = ''hoster-'' @ instanceName"

text \<open>
  The loop \<open>waitForPublicIP\<close>, written three times in the code: a wait, a request, and another round unless the answer has an
  address. The number is that of the rounds left.
\<close>

datatype glance = Again | Found string | Crash

fun poll :: "string \<Rightarrow> ('c list \<Rightarrow> string option) \<Rightarrow> ('c list \<Rightarrow> 'c list \<times> glance) \<Rightarrow> nat \<Rightarrow> 'c list
    \<Rightarrow> 'c list \<times> (string + string) option" where
  "poll late waiting look 0 h = (h, Some (Inl late))"
| "poll late waiting look (Suc n) h =
     (case waiting h of
        Some err \<Rightarrow> (h, Some (Inl err))
      | None \<Rightarrow> (case look h of
                  (h', Again) \<Rightarrow> poll late waiting look n h'
                | (h', Found ip) \<Rightarrow> (h', Some (Inr ip))
                | (h', Crash) \<Rightarrow> (h', None)))"

text \<open>The end of \<open>CreateInstance\<close>: the address, or the error of the wait.\<close>

definition await_ip :: "string \<Rightarrow> 'c list \<times> (string + string) option \<Rightarrow> 'c list \<times> (string + ProvisionResult) option" where
  "await_ip i out =
     (case out of
        (h, None) \<Rightarrow> (h, None)
      | (h, Some (Inl err)) \<Rightarrow> (h, Some (Inl (''failed waiting for public IP: '' @ err)))
      | (h, Some (Inr ip)) \<Rightarrow> (h, Some (Inr \<lparr>prs_ProviderInstanceID = i, prs_PublicIP = ip\<rparr>)))"

definition dockerInstallScript :: string where
  "dockerInstallScript = concat (map (\<lambda>l. l @ [CHR 0x0A])
     [''#!/bin/bash'',
      ''set -e'',
      ''apt-get update -y'',
      ''apt-get install -y ca-certificates curl gnupg'',
      ''install -m 0755 -d /etc/apt/keyrings'',
      ''curl -fsSL https://download.docker.com/linux/ubuntu/gpg | gpg --dearmor -o /etc/apt/keyrings/docker.gpg'',
      ''chmod a+r /etc/apt/keyrings/docker.gpg'',
      ''echo \"deb [arch=$(dpkg --print-architecture) signed-by=/etc/apt/keyrings/docker.gpg] https://download.docker.com/linux/ubuntu $(. /etc/os-release && echo \"$VERSION_CODENAME\") stable\" | tee /etc/apt/sources.list.d/docker.list > /dev/null'',
      ''apt-get update -y'',
      ''apt-get install -y docker-ce docker-ce-cli containerd.io docker-buildx-plugin docker-compose-plugin'',
      ''systemctl enable docker'',
      ''systemctl start docker''])"

text \<open>The script of the AWS client is the same text; it is not encoded.\<close>

definition dockerInstallUserData :: string where
  "dockerInstallUserData = dockerInstallScript"

section \<open>AWS\<close>

text \<open>A rule of a security group: protocol, first and last port, address range and description.\<close>

record ec2_rule =
  er_IpProtocol :: string
  er_FromPort :: int
  er_ToPort :: int
  er_CidrIp :: string
  er_Description :: string

record ec2_image =
  ei_ImageId :: "string option"
  ei_CreationDate :: "string option"

record ec2_run =
  ru_ImageId :: "string option"
  ru_InstanceType :: string
  ru_KeyName :: string
  ru_SecurityGroupIds :: "string list"
  ru_MinCount :: int
  ru_MaxCount :: int
  ru_UserData :: string
  ru_Tags :: "(string \<times> string) list"

text \<open>The requests, each sent to the endpoint of a region; the last event is the answer of \<open>RunInstances\<close>.\<close>

datatype ec2_call =
    DeleteKeyPair string | ImportKeyPair string string | CreateSecurityGroup string string
  | AuthorizeSecurityGroupIngress "string option" "ec2_rule list" | DescribeImages "(string \<times> string list) list" "string list"
  | RunInstances ec2_run | DescribeInstances "string list" | TerminateInstances "string list" | DeleteSecurityGroup string
  | DescribeRegions "(string \<times> string list) list" | InstancesLaunched "string list"

datatype aws_event = EC2 string ec2_call

text \<open>The error of \<open>TerminateInstances\<close>: its text, and the code when it is one of the API.\<close>

record ec2_api =
  ec_ImportKeyPair :: "aws_event list \<Rightarrow> string option"
  ec_CreateSecurityGroup :: "aws_event list \<Rightarrow> string + string option"
  ec_AuthorizeSecurityGroupIngress :: "aws_event list \<Rightarrow> string option"
  ec_DescribeImages :: "aws_event list \<Rightarrow> string + ec2_image list"
  ec_RunInstances :: "aws_event list \<Rightarrow> string + string option list"
  ec_DescribeInstances :: "aws_event list \<Rightarrow> string + string option list list"
  ec_TerminateInstances :: "aws_event list \<Rightarrow> (string \<times> string option) option"
  ec_DescribeRegions :: "aws_event list \<Rightarrow> string + string option list"
  ec_wait :: "aws_event list \<Rightarrow> string option"

definition aws_ToString :: "string option \<Rightarrow> string" where
  "aws_ToString p = (case p of None \<Rightarrow> [] | Some s \<Rightarrow> s)"

text \<open>The order of Go strings: by bytes.\<close>

fun byte_less :: "string \<Rightarrow> string \<Rightarrow> bool" where
  "byte_less s [] \<longleftrightarrow> False"
| "byte_less [] (d # ds) \<longleftrightarrow> True"
| "byte_less (c # cs) (d # ds) \<longleftrightarrow> (of_char c :: nat) < of_char d \<or> c = d \<and> byte_less cs ds"

fun latest_image :: "ec2_image \<Rightarrow> ec2_image list \<Rightarrow> ec2_image" where
  "latest_image ami [] = ami"
| "latest_image ami (img # imgs) =
     latest_image (if byte_less (aws_ToString (ei_CreationDate ami)) (aws_ToString (ei_CreationDate img)) then img else ami) imgs"

definition tcp_rule :: "int \<Rightarrow> string \<Rightarrow> ec2_rule" where
  "tcp_rule port descr = \<lparr>er_IpProtocol = ''tcp'', er_FromPort = port, er_ToPort = port, er_CidrIp = ''0.0.0.0/0'',
     er_Description = descr\<rparr>"

definition aws_ingress :: "ec2_rule list" where
  "aws_ingress = [tcp_rule 22 ''SSH'', tcp_rule 80 ''HTTP'', tcp_rule 443 ''HTTPS'']"

definition aws_image_filters :: "(string \<times> string list) list" where
  "aws_image_filters = [(''name'', [''ubuntu/images/hvm-ssd/ubuntu-jammy-22.04-amd64-server-*'']), (''state'', [''available''])]"

text \<open>The first address that is neither \<open>nil\<close> nor empty, reservation by reservation.\<close>

definition first_address :: "string option list list \<Rightarrow> string option" where
  "first_address reservations =
     (case filter (\<lambda>a. a \<noteq> None \<and> a \<noteq> Some []) (concat reservations) of [] \<Rightarrow> None | a # as \<Rightarrow> a)"

definition aws_look :: "ec2_api \<Rightarrow> string \<Rightarrow> string \<Rightarrow> aws_event list \<Rightarrow> aws_event list \<times> glance" where
  "aws_look a region instanceID h =
     (let h = h @ [EC2 region (DescribeInstances [instanceID])]
      in (h, case ec_DescribeInstances a h of
               Inl err \<Rightarrow> Again
             | Inr reservations \<Rightarrow> (case first_address reservations of None \<Rightarrow> Again | Some ip \<Rightarrow> Found ip)))"

definition aws_waitForPublicIP :: "ec2_api \<Rightarrow> string \<Rightarrow> string \<Rightarrow> aws_event list \<Rightarrow> aws_event list \<times> (string + string) option" where
  "aws_waitForPublicIP a region instanceID h =
     poll ''timed out waiting for public IP'' (ec_wait a) (aws_look a region instanceID) 60 h"

definition aws_run_input :: "ProvisionRequest \<Rightarrow> ec2_image \<Rightarrow> string \<Rightarrow> ec2_run" where
  "aws_run_input req ami groupID =
     \<lparr>ru_ImageId = ei_ImageId ami, ru_InstanceType = prq_Size req, ru_KeyName = key_name (prq_InstanceName req),
      ru_SecurityGroupIds = [groupID], ru_MinCount = 1, ru_MaxCount = 1, ru_UserData = dockerInstallUserData,
      ru_Tags = [(''Name'', prq_InstanceName req), (''ManagedBy'', ''hoster'')]\<rparr>"

text \<open>From the launch on.\<close>

definition aws_launch :: "ec2_api \<Rightarrow> ProvisionRequest \<Rightarrow> ec2_image \<Rightarrow> string option \<Rightarrow> aws_event list
    \<Rightarrow> aws_event list \<times> (string + ProvisionResult) option" where
  "aws_launch a req ami groupID h =
     (case groupID of
        None \<Rightarrow> (h, None)
      | Some g \<Rightarrow>
          let h = h @ [EC2 (prq_Region req) (RunInstances (aws_run_input req ami g))]
          in case ec_RunInstances a h of
               Inl err \<Rightarrow> (h, Some (Inl (''failed to launch instance: '' @ err)))
             | Inr [] \<Rightarrow> (h, Some (Inl ''no instance returned from RunInstances''))
             | Inr (i # is) \<Rightarrow>
                 let instanceID = aws_ToString i;
                     h = h @ [EC2 (prq_Region req) (InstancesLaunched (map aws_ToString (i # is)))]
                 in await_ip instanceID (aws_waitForPublicIP a (prq_Region req) instanceID h))"

definition aws_pick_image :: "ec2_api \<Rightarrow> ProvisionRequest \<Rightarrow> string option \<Rightarrow> aws_event list
    \<Rightarrow> aws_event list \<times> (string + ProvisionResult) option" where
  "aws_pick_image a req groupID h =
     (let h = h @ [EC2 (prq_Region req) (DescribeImages aws_image_filters [''099720109477''])]
      in case ec_DescribeImages a h of
           Inl err \<Rightarrow> (h, Some (Inl (''failed to find Ubuntu AMI: '' @ err)))
         | Inr [] \<Rightarrow> (h, Some (Inl ''no Ubuntu AMI found''))
         | Inr (img # imgs) \<Rightarrow> aws_launch a req (latest_image img imgs) groupID h)"

definition aws_CreateInstance :: "ec2_api \<Rightarrow> ProvisionRequest \<Rightarrow> aws_event list
    \<Rightarrow> aws_event list \<times> (string + ProvisionResult) option" where
  "aws_CreateInstance a req h =
     (let ev = EC2 (prq_Region req); n = key_name (prq_InstanceName req);
          h = h @ [ev (DeleteKeyPair n), ev (ImportKeyPair n (prq_SSHPublicKey req))]
      in case ec_ImportKeyPair a h of
           Some err \<Rightarrow> (h, Some (Inl (''failed to import SSH key: '' @ err)))
         | None \<Rightarrow>
             let h = h @ [ev (CreateSecurityGroup n (''Hoster managed node - '' @ prq_InstanceName req))]
             in case ec_CreateSecurityGroup a h of
                  Inl err \<Rightarrow> (h, Some (Inl (''failed to create security group: '' @ err)))
                | Inr groupID \<Rightarrow>
                    let h = h @ [ev (AuthorizeSecurityGroupIngress groupID aws_ingress)]
                    in case ec_AuthorizeSecurityGroupIngress a h of
                         Some err \<Rightarrow> (h, Some (Inl (''failed to configure security group: '' @ err)))
                       | None \<Rightarrow> aws_pick_image a req groupID h)"

text \<open>A result of \<open>Some None\<close> is success. The two removals at the end are best effort: their errors are only logged.\<close>

definition aws_DestroyInstance :: "ec2_api \<Rightarrow> DestroyRequest \<Rightarrow> aws_event list \<Rightarrow> aws_event list \<times> string option option" where
  "aws_DestroyInstance a req h =
     (let ev = EC2 (drq_Region req); n = key_name (drq_InstanceName req);
          h = h @ [ev (TerminateInstances [drq_ProviderInstanceID req])];
          cleaned = h @ [ev (DeleteKeyPair n), ev (DeleteSecurityGroup n)]
      in case ec_TerminateInstances a h of
           None \<Rightarrow> (cleaned, Some None)
         | Some (err, code) \<Rightarrow>
             if code = Some ''InvalidInstanceID.NotFound'' then (cleaned, Some None)
             else (h, Some (Some (''failed to terminate instance '' @ drq_ProviderInstanceID req @ '': '' @ err))))"

definition aws_ListRegions :: "ec2_api \<Rightarrow> aws_event list \<Rightarrow> aws_event list \<times> Region list" where
  "aws_ListRegions a h =
     (let h = h @ [EC2 ''us-east-1'' (DescribeRegions [(''opt-in-status'', [''opt-in-not-required'', ''opted-in''])])]
      in (h, case ec_DescribeRegions a h of
               Inl err \<Rightarrow> AWSRegions
             | Inr rs \<Rightarrow> map (\<lambda>r. \<lparr>rg_ID = aws_ToString r, rg_Name = aws_ToString r, rg_Available = True\<rparr>) rs))"

definition aws_ListSizes :: "string \<Rightarrow> InstanceSize list" where
  "aws_ListSizes region = AWSSizes"

section \<open>DigitalOcean\<close>

text \<open>An \<open>int\<close> of an answer has 64 bits.\<close>

record do_key =
  dk_ID :: "64 word"
  dk_Name :: string

record droplet =
  dl_ID :: "64 word"
  dl_Status :: string
  dl_PublicIPv4 :: "string + string"

record droplet_create =
  dc_Name :: string
  dc_Region :: string
  dc_Size :: string
  dc_ImageSlug :: string
  dc_SSHKeys :: "int list"
  dc_Tags :: "string list"

record do_region =
  dg_Slug :: string
  dg_Name :: string
  dg_Available :: bool

record do_size =
  ds_Slug :: string
  ds_Regions :: "string list"
  ds_Vcpus :: int
  ds_Memory :: int
  ds_Disk :: int
  ds_PriceHourly :: float64

datatype do_event =
    DOKeysList nat | DOKeysDelete int | DOKeysCreate string string | DODropletsCreate droplet_create | DODropletCreated int
  | DODropletsGet int | DODropletsDelete int | DORegionsList nat | DOSizesList nat

text \<open>The error of a deletion: its text, and the status of the response when it has one.\<close>

record do_api =
  do_KeysList :: "do_event list \<Rightarrow> string + do_key list"
  do_KeysCreate :: "do_event list \<Rightarrow> string + do_key option"
  do_DropletsCreate :: "do_event list \<Rightarrow> string + droplet option"
  do_DropletsGet :: "do_event list \<Rightarrow> string + droplet option"
  do_DropletsDelete :: "do_event list \<Rightarrow> (string \<times> int option) option"
  do_RegionsList :: "do_event list \<Rightarrow> string + do_region list"
  do_SizesList :: "do_event list \<Rightarrow> string + do_size list"
  do_wait :: "do_event list \<Rightarrow> string option"

text \<open>The first key of the name among the 200 of a page is deleted; an error is only logged.\<close>

fun delete_first_named :: "string \<Rightarrow> do_key list \<Rightarrow> do_event list \<Rightarrow> do_event list" where
  "delete_first_named name [] h = h"
| "delete_first_named name (k # ks) h =
     (if dk_Name k = name then h @ [DOKeysDelete (sint (dk_ID k))] else delete_first_named name ks h)"

definition deleteSSHKeyByName :: "do_api \<Rightarrow> string \<Rightarrow> do_event list \<Rightarrow> do_event list" where
  "deleteSSHKeyByName a name h =
     (let h = h @ [DOKeysList 200]
      in case do_KeysList a h of Inl err \<Rightarrow> h | Inr keys \<Rightarrow> delete_first_named name keys h)"

definition do_look :: "do_api \<Rightarrow> int \<Rightarrow> do_event list \<Rightarrow> do_event list \<times> glance" where
  "do_look a dropletID h =
     (let h = h @ [DODropletsGet dropletID]
      in (h, case do_DropletsGet a h of
               Inl err \<Rightarrow> Again
             | Inr None \<Rightarrow> Crash
             | Inr (Some d) \<Rightarrow>
                 if dl_Status d = ''active''
                 then (case dl_PublicIPv4 d of Inl err \<Rightarrow> Again | Inr ip \<Rightarrow> if ip \<noteq> [] then Found ip else Again)
                 else Again))"

definition do_waitForPublicIP :: "do_api \<Rightarrow> int \<Rightarrow> do_event list \<Rightarrow> do_event list \<times> (string + string) option" where
  "do_waitForPublicIP a dropletID h = poll ''timed out waiting for droplet public IP'' (do_wait a) (do_look a dropletID) 60 h"

definition do_create_input :: "ProvisionRequest \<Rightarrow> do_key \<Rightarrow> droplet_create" where
  "do_create_input req key = \<lparr>dc_Name = prq_InstanceName req, dc_Region = prq_Region req, dc_Size = prq_Size req,
     dc_ImageSlug = ''docker-20-04'', dc_SSHKeys = [sint (dk_ID key)], dc_Tags = [''hoster'', ''managed'']\<rparr>"

definition do_launch :: "do_api \<Rightarrow> ProvisionRequest \<Rightarrow> do_key \<Rightarrow> do_event list \<Rightarrow> do_event list \<times> (string + ProvisionResult) option" where
  "do_launch a req key h =
     (let h = h @ [DODropletsCreate (do_create_input req key)]
      in case do_DropletsCreate a h of
           Inl err \<Rightarrow> (h, Some (Inl (''failed to create droplet: '' @ err)))
         | Inr None \<Rightarrow> (h, None)
         | Inr (Some d) \<Rightarrow>
             let dropletID = sint (dl_ID d); h = h @ [DODropletCreated dropletID]
             in await_ip (fmt_d dropletID) (do_waitForPublicIP a dropletID h))"

definition do_CreateInstance :: "do_api \<Rightarrow> ProvisionRequest \<Rightarrow> do_event list \<Rightarrow> do_event list \<times> (string + ProvisionResult) option" where
  "do_CreateInstance a req h =
     (let keyName = key_name (prq_InstanceName req);
          h = deleteSSHKeyByName a keyName h @ [DOKeysCreate keyName (prq_SSHPublicKey req)]
      in case do_KeysCreate a h of
           Inl err \<Rightarrow> (h, Some (Inl (''failed to upload SSH key: '' @ err)))
         | Inr None \<Rightarrow> (h, None)
         | Inr (Some key) \<Rightarrow> do_launch a req key h)"

text \<open>
  \<open>fmt.Sscanf(s, "%d", &n)\<close> with its error: blanks are skipped, then a sign and decimal digits are read; what follows them is
  not looked at.
\<close>

definition blank :: "char \<Rightarrow> bool" where
  "blank c \<longleftrightarrow> c = CHR '' '' \<or> (of_char c :: nat) \<in> {9, 11, 12, 13}"

definition Sscanf_int :: "string \<Rightarrow> int option" where
  "Sscanf_int s =
     (let s = dropWhile blank s;
          (neg, body) = (case s of
                           c # cs \<Rightarrow> if c = CHR ''-'' then (True, cs) else if c = CHR ''+'' then (False, cs) else (False, s)
                         | [] \<Rightarrow> (False, []));
          ds = takeWhile is_digit body; v = (if neg then - int (read_digits ds) else int (read_digits ds))
      in if ds = [] \<or> \<not> in_int64 v then None else Some v)"

text \<open>The error text of \<open>Sscanf\<close> is an argument.\<close>

definition do_DestroyInstance :: "do_api \<Rightarrow> (string \<Rightarrow> string) \<Rightarrow> DestroyRequest \<Rightarrow> do_event list \<Rightarrow> do_event list \<times> string option option" where
  "do_DestroyInstance a scan_err req h =
     (case Sscanf_int (drq_ProviderInstanceID req) of
        None \<Rightarrow> (h, Some (Some (''invalid droplet ID: '' @ scan_err (drq_ProviderInstanceID req))))
      | Some dropletID \<Rightarrow>
          let h = h @ [DODropletsDelete dropletID];
              cleaned = deleteSSHKeyByName a (key_name (drq_InstanceName req)) h
          in case do_DropletsDelete a h of
               None \<Rightarrow> (cleaned, Some None)
             | Some (err, status) \<Rightarrow>
                 if status = Some 404 then (cleaned, Some None)
                 else (h, Some (Some (''failed to delete droplet: '' @ err))))"

definition do_ListRegions :: "do_api \<Rightarrow> do_event list \<Rightarrow> do_event list \<times> Region list" where
  "do_ListRegions a h =
     (let h = h @ [DORegionsList 100]
      in (h, case do_RegionsList a h of
               Inl err \<Rightarrow> DigitalOceanRegions
             | Inr rs \<Rightarrow> map (\<lambda>r. \<lparr>rg_ID = dg_Slug r, rg_Name = dg_Name r, rg_Available = dg_Available r\<rparr>) rs))"

definition do_instance_size :: "do_size \<Rightarrow> InstanceSize" where
  "do_instance_size s = \<lparr>is_ID = ds_Slug s,
     is_Name = ds_Slug s @ '' ('' @ fmt_d (ds_Vcpus s) @ '' vCPU, '' @ fmt_d (ds_Memory s) @ '' MB)'',
     is_CPUCores = float_of_int (ds_Vcpus s), is_MemoryMB = ds_Memory s, is_DiskGB = ds_Disk s,
     is_PriceHourly = ds_PriceHourly s\<rparr>"

definition do_ListSizes :: "do_api \<Rightarrow> string \<Rightarrow> do_event list \<Rightarrow> do_event list \<times> InstanceSize list" where
  "do_ListSizes a region h =
     (let h = h @ [DOSizesList 100]
      in (h, case do_SizesList a h of
               Inl err \<Rightarrow> DigitalOceanSizes
             | Inr ss \<Rightarrow> map do_instance_size (filter (\<lambda>s. region \<in> set (ds_Regions s) \<or> region = []) ss)))"

section \<open>Hetzner\<close>

text \<open>An address is its text, \<open>None\<close> when it is \<open>nil\<close>, which \<open>IsUnspecified\<close> does not recognise and \<open>String\<close> writes as \<open><nil>\<close>.\<close>

definition IsUnspecified :: "string option \<Rightarrow> bool" where
  "IsUnspecified ip \<longleftrightarrow> ip = Some ''0.0.0.0'' \<or> ip = Some ''::''"

definition IP_String :: "string option \<Rightarrow> string" where
  "IP_String ip = (case ip of None \<Rightarrow> ''<nil>'' | Some s \<Rightarrow> s)"

record hz_server =
  hs_ID :: "64 word"
  hs_Status :: string
  hs_IPv4 :: "string option"

record hz_server_create =
  hc_Name :: string
  hc_ServerType :: string
  hc_Image :: string
  hc_Location :: string
  hc_SSHKeys :: "string list"
  hc_UserData :: string
  hc_Labels :: "(string \<times> string) list"

record hz_pricing =
  hp_Location :: "string option"
  hp_Hourly :: string

text \<open>The memory is a \<open>float32\<close>, whose values are a part of those of \<open>float64\<close>; multiplying it by 1024 is exact.\<close>

record hz_server_type =
  ht_Name :: string
  ht_CPUType :: string
  ht_Pricings :: "hz_pricing list"
  ht_Cores :: int
  ht_Memory :: float64
  ht_Disk :: int

record hz_location =
  hl_Name :: string
  hl_City :: string
  hl_Country :: string

datatype hz_event =
    HzKeyGetByName string | HzKeyDelete string | HzKeyCreate string string | HzTypeGetByName string | HzLocationGetByName string
  | HzImageGet string string | HzServerCreate hz_server_create | HzServerCreated int | HzServerGetByID int | HzServerMissing int
  | HzServerDelete int | HzLocationList | HzTypeList

text \<open>
  Of the objects only passed on (keys, server types, locations, images) the record has a name for the identity. The event
  \<open>HzServerMissing\<close> is an answer: there is no such server.
\<close>

record hz_api =
  hz_KeyGetByName :: "hz_event list \<Rightarrow> string option"
  hz_KeyCreate :: "hz_event list \<Rightarrow> string + string"
  hz_TypeGetByName :: "hz_event list \<Rightarrow> string + string option"
  hz_LocationGetByName :: "hz_event list \<Rightarrow> string + string option"
  hz_ImageGet :: "hz_event list \<Rightarrow> string + string option"
  hz_ServerCreate :: "hz_event list \<Rightarrow> string + hz_server option"
  hz_ServerGetByID :: "hz_event list \<Rightarrow> string + hz_server option"
  hz_ServerDelete :: "hz_event list \<Rightarrow> string option"
  hz_LocationList :: "hz_event list \<Rightarrow> string + hz_location list"
  hz_TypeList :: "hz_event list \<Rightarrow> string + hz_server_type list"
  hz_wait :: "hz_event list \<Rightarrow> string option"

definition hz_look :: "hz_api \<Rightarrow> int \<Rightarrow> hz_event list \<Rightarrow> hz_event list \<times> glance" where
  "hz_look a serverID h =
     (let h = h @ [HzServerGetByID serverID]
      in (h, case hz_ServerGetByID a h of
               Inl err \<Rightarrow> Again
             | Inr None \<Rightarrow> Again
             | Inr (Some server) \<Rightarrow>
                 if hs_Status server = ''running'' \<and> \<not> IsUnspecified (hs_IPv4 server) then Found (IP_String (hs_IPv4 server))
                 else Again))"

definition hz_waitForPublicIP :: "hz_api \<Rightarrow> int \<Rightarrow> hz_event list \<Rightarrow> hz_event list \<times> (string + string) option" where
  "hz_waitForPublicIP a serverID h = poll ''timed out waiting for server public IP'' (hz_wait a) (hz_look a serverID) 60 h"

text \<open>A removal of the key when there is one; its error is dropped or only logged.\<close>

definition hz_drop_key :: "hz_api \<Rightarrow> string \<Rightarrow> hz_event list \<Rightarrow> hz_event list" where
  "hz_drop_key a keyName h =
     (let h = h @ [HzKeyGetByName keyName]
      in case hz_KeyGetByName a h of None \<Rightarrow> h | Some existing \<Rightarrow> h @ [HzKeyDelete existing])"

text \<open>\<open>err != nil || x == nil\<close>, with the text \<open>fmt.Errorf\<close> gives to an error that is \<open>nil\<close>.\<close>

definition hz_found :: "string + string option \<Rightarrow> string + string" where
  "hz_found out = (case out of Inl err \<Rightarrow> Inl err | Inr None \<Rightarrow> Inl ''%!w(<nil>)'' | Inr (Some x) \<Rightarrow> Inr x)"

definition hz_launch :: "hz_api \<Rightarrow> hz_server_create \<Rightarrow> hz_event list \<Rightarrow> hz_event list \<times> (string + ProvisionResult) option" where
  "hz_launch a opts h =
     (let h = h @ [HzServerCreate opts]
      in case hz_ServerCreate a h of
           Inl err \<Rightarrow> (h, Some (Inl (''failed to create server: '' @ err)))
         | Inr None \<Rightarrow> (h, None)
         | Inr (Some server) \<Rightarrow>
             let serverID = sint (hs_ID server); h = h @ [HzServerCreated serverID]
             in await_ip (fmt_d serverID) (hz_waitForPublicIP a serverID h))"

definition hz_CreateInstance :: "hz_api \<Rightarrow> ProvisionRequest \<Rightarrow> hz_event list \<Rightarrow> hz_event list \<times> (string + ProvisionResult) option" where
  "hz_CreateInstance a req h =
     (let keyName = key_name (prq_InstanceName req);
          h = hz_drop_key a keyName h @ [HzKeyCreate keyName (prq_SSHPublicKey req)]
      in case hz_KeyCreate a h of
           Inl err \<Rightarrow> (h, Some (Inl (''failed to upload SSH key: '' @ err)))
         | Inr key \<Rightarrow>
             let h = h @ [HzTypeGetByName (prq_Size req)]
             in case hz_found (hz_TypeGetByName a h) of
                  Inl err \<Rightarrow> (h, Some (Inl (''invalid server type '' @ prq_Size req @ '': '' @ err)))
                | Inr serverType \<Rightarrow>
                    let h = h @ [HzLocationGetByName (prq_Region req)]
                    in case hz_found (hz_LocationGetByName a h) of
                         Inl err \<Rightarrow> (h, Some (Inl (''invalid location '' @ prq_Region req @ '': '' @ err)))
                       | Inr location \<Rightarrow>
                           let h = h @ [HzImageGet ''ubuntu-22.04'' ''x86'']
                           in case hz_found (hz_ImageGet a h) of
                                Inl err \<Rightarrow> (h, Some (Inl (''failed to find Ubuntu image: '' @ err)))
                              | Inr img \<Rightarrow>
                                  hz_launch a \<lparr>hc_Name = prq_InstanceName req, hc_ServerType = serverType, hc_Image = img,
                                    hc_Location = location, hc_SSHKeys = [key], hc_UserData = dockerInstallScript,
                                    hc_Labels = [(''managed-by'', ''hoster'')]\<rparr> h)"

text \<open>\<open>strconv.ParseInt(s, 10, 64)\<close> reads what \<open>Atoi\<close> does; its error text is an argument.\<close>

definition hz_DestroyInstance :: "hz_api \<Rightarrow> (string \<Rightarrow> num_err \<Rightarrow> string) \<Rightarrow> DestroyRequest \<Rightarrow> hz_event list
    \<Rightarrow> hz_event list \<times> string option option" where
  "hz_DestroyInstance a num_text req h =
     (case Atoi (drq_ProviderInstanceID req) of
        (_, Some err) \<Rightarrow> (h, Some (Some (''invalid server ID: '' @ num_text (drq_ProviderInstanceID req) err)))
      | (serverID, None) \<Rightarrow>
          let h = h @ [HzServerGetByID serverID]; keyName = key_name (drq_InstanceName req)
          in case hz_ServerGetByID a h of
               Inl err \<Rightarrow> (h, Some (Some (''failed to get server: '' @ err)))
             | Inr None \<Rightarrow> (hz_drop_key a keyName (h @ [HzServerMissing serverID]), Some None)
             | Inr (Some server) \<Rightarrow>
                 let h = h @ [HzServerDelete (sint (hs_ID server))]
                 in case hz_ServerDelete a h of
                      Some err \<Rightarrow> (h, Some (Some (''failed to delete server: '' @ err)))
                    | None \<Rightarrow> (hz_drop_key a keyName h, Some None))"

definition hz_ListRegions :: "hz_api \<Rightarrow> hz_event list \<Rightarrow> hz_event list \<times> Region list" where
  "hz_ListRegions a h =
     (let h = h @ [HzLocationList]
      in (h, case hz_LocationList a h of
               Inl err \<Rightarrow> HetznerRegions
             | Inr ls \<Rightarrow> map (\<lambda>l. \<lparr>rg_ID = hl_Name l, rg_Name = hl_City l @ '' ('' @ hl_Country l @ '')'', rg_Available = True\<rparr>) ls))"

text \<open>The price of the region, of the first entry when no region is asked for, and zero when there is none.\<close>

fun hz_price :: "(string \<Rightarrow> float64) \<Rightarrow> string \<Rightarrow> hz_pricing list \<Rightarrow> float64 option" where
  "hz_price parse region [] = Some (Fin 0)"
| "hz_price parse region (p # ps) =
     (case hp_Location p of
        None \<Rightarrow> None
      | Some l \<Rightarrow> if l = region \<or> region = [] then Some (parse (hp_Hourly p)) else hz_price parse region ps)"

text \<open>The verb \<open>%.0f\<close>: the exact value rounded half to even.\<close>

fun fmt_f0 :: "float64 \<Rightarrow> string" where
  "fmt_f0 (Fin x) = (if x < 0 then CHR ''-'' # digits_nat (nat (rhe (- x))) else digits_nat (nat (rhe x)))"
| "fmt_f0 PInf = ''+Inf''"
| "fmt_f0 NInf = ''-Inf''"
| "fmt_f0 NaN = ''NaN''"

fun hz_sizes :: "(string \<Rightarrow> float64) \<Rightarrow> string \<Rightarrow> hz_server_type list \<Rightarrow> InstanceSize list option" where
  "hz_sizes parse region [] = Some []"
| "hz_sizes parse region (st # sts) =
     (if ht_CPUType st \<noteq> ''shared'' then hz_sizes parse region sts
      else case (hz_price parse region (ht_Pricings st), hz_sizes parse region sts) of
             (Some price, Some sizes) \<Rightarrow>
               Some (\<lparr>is_ID = ht_Name st,
                      is_Name = ht_Name st @ '' ('' @ fmt_d (ht_Cores st) @ '' vCPU, '' @ fmt_f0 (ht_Memory st) @ '' GB)'',
                      is_CPUCores = float_of_int (ht_Cores st), is_MemoryMB = int64_of_float (fmul (ht_Memory st) (Fin 1024)),
                      is_DiskGB = ht_Disk st, is_PriceHourly = price\<rparr> # sizes)
           | _ \<Rightarrow> None)"

text \<open>The value of \<open>strconv.ParseFloat\<close>, whose error is dropped, is an argument.\<close>

definition hz_ListSizes :: "hz_api \<Rightarrow> (string \<Rightarrow> float64) \<Rightarrow> string \<Rightarrow> hz_event list \<Rightarrow> hz_event list \<times> InstanceSize list option" where
  "hz_ListSizes a parse region h =
     (let h = h @ [HzTypeList]
      in (h, case hz_TypeList a h of Inl err \<Rightarrow> Some HetznerSizes | Inr sts \<Rightarrow> hz_sizes parse region sts))"

section \<open>Factory\<close>

text \<open>A client with the credentials it was made from.\<close>

datatype Provider = AWSProvider string string | DigitalOceanProvider string | HetznerProvider string

definition NewProvider :: "cred_json \<Rightarrow> (provider_error \<Rightarrow> string) \<Rightarrow> string \<Rightarrow> string \<Rightarrow> string + Provider" where
  "NewProvider cj err_text providerType credJSON =
     (if providerType = ''aws'' then
        (case ParseAWSCredentials cj credJSON of
           Inl err \<Rightarrow> Inl (''invalid AWS credentials: '' @ err_text err)
         | Inr creds \<Rightarrow> Inr (AWSProvider (aws_AccessKeyID creds) (aws_SecretAccessKey creds)))
      else if providerType = ''digitalocean'' then
        (case ParseDigitalOceanCredentials cj credJSON of
           Inl err \<Rightarrow> Inl (''invalid DigitalOcean credentials: '' @ err_text err)
         | Inr creds \<Rightarrow> Inr (DigitalOceanProvider (do_APIToken creds)))
      else if providerType = ''hetzner'' then
        (case ParseHetznerCredentials cj credJSON of
           Inl err \<Rightarrow> Inl (''invalid Hetzner credentials: '' @ err_text err)
         | Inr creds \<Rightarrow> Inr (HetznerProvider (hz_APIToken creds)))
      else Inl (''unsupported provider type: '' @ providerType))"

section \<open>Polling\<close>

lemma poll_keeps:
  assumes "\<And>h. f (fst (look h)) = f h"
  shows "f (fst (poll late waiting look n h)) = f h"
proof (induction n arbitrary: h)
  case (Suc n)
  show ?case
    using Suc assms [of h] by (cases "look h") (auto split: option.splits glance.splits)
qed simp

lemma poll_late:
  assumes "\<And>h. waiting h = None" and "\<And>h. snd (look h) = Again"
  shows "poll late waiting look n h = (((\<lambda>h. fst (look h)) ^^ n) h, Some (Inl late))"
proof (induction n arbitrary: h)
  case (Suc n)
  obtain h' where l: "look h = (h', Again)" using assms(2) [of h] by (cases "look h") simp
  have "((\<lambda>h. fst (look h)) ^^ Suc n) h = ((\<lambda>h. fst (look h)) ^^ n) h'"
    unfolding funpow_Suc_right by (simp add: l)
  with Suc [of h'] assms(1) l show ?case by (simp del: funpow.simps)
qed simp

lemma poll_found: "0 < n \<Longrightarrow> waiting h = None \<Longrightarrow> look h = (h', Found ip) \<Longrightarrow> poll late waiting look n h = (h', Some (Inr ip))"
  by (cases n) simp_all

text \<open>A wait ends after as many requests as it has rounds.\<close>

lemma poll_bounded:
  assumes "\<And>h. length (fst (look h)) = Suc (length h)"
  shows "length (fst (poll late waiting look n h)) \<le> length h + n"
proof (induction n arbitrary: h)
  case (Suc n)
  show ?case
    using Suc [of "fst (look h)"] assms [of h] by (cases "look h") (auto split: option.splits glance.splits)
qed simp

lemma await_ip_fst [simp]: "fst (await_ip i out) = fst out"
  by (simp add: await_ip_def split: prod.splits option.splits sum.splits)

lemma await_ip_ok: "await_ip i out = (h, Some (Inr res)) \<Longrightarrow> prs_ProviderInstanceID res = i"
  by (auto simp: await_ip_def split: prod.splits option.splits sum.splits)

section \<open>Numbers in identifiers\<close>

lemma parse_uint_loop_append:
  "parse_uint_loop mx n s = (v, None) \<Longrightarrow> parse_uint_loop mx n (s @ t) = parse_uint_loop mx v t"
  by (induction s arbitrary: n) (auto simp: Let_def split: if_splits)

lemma digit_char_value: "m < 10 \<Longrightarrow> of_char (char_of (48 + m) :: char) = (48 + int m)"
proof -
  assume "m < 10"
  then have "(of_char (char_of (48 + m) :: char) :: nat) = 48 + m" by simp
  then have "int (of_char (char_of (48 + m) :: char)) = 48 + int m" by linarith
  then show ?thesis by (simp only: of_nat_of_char)
qed

lemma parse_uint_loop_digits_nat: "int m \<le> mx \<Longrightarrow> parse_uint_loop mx 0 (digits_nat m) = (int m, None)"
proof (induction m rule: digits_nat.induct)
  case (1 m)
  show ?case
  proof (cases "m < 10")
    case True
    then have "is_digit (char_of (48 + m))" by (simp add: is_digit_code)
    moreover have "of_char (char_of (48 + m) :: char) = (48 + int m)" using True by (rule digit_char_value)
    ultimately show ?thesis using True 1(2) by (subst digits_nat.simps) simp
  next
    case False
    have "is_digit (char_of (48 + m mod 10))" by (simp add: is_digit_code)
    moreover have "of_char (char_of (48 + m mod 10) :: char) = (48 + int (m mod 10))" by (rule digit_char_value) simp
    moreover have "parse_uint_loop mx 0 (digits_nat (m div 10)) = (int (m div 10), None)"
      by (rule "1.IH") (use False 1(2) in linarith)+
    moreover have "10 * int (m div 10) + int (m mod 10) = int m" by presburger
    ultimately show ?thesis using False 1(2)
      by (subst digits_nat.simps) (simp add: parse_uint_loop_append)
  qed
qed

lemma hd_digits_nat: "is_digit (hd (digits_nat n))"
  by (rule digits_nat_digits [OF hd_in_set]) simp

lemma digits_nat_no_sign [simp]: "hd (digits_nat n) \<noteq> CHR ''-''" "hd (digits_nat n) \<noteq> CHR ''+''"
  using hd_digits_nat [of n] by (auto simp: is_digit_code)

text \<open>Reading an identifier back gives the number it was printed from, by either of the two readers.\<close>

lemma Atoi_fmt_d: "in_int64 n \<Longrightarrow> Atoi (fmt_d n) = (n, None)"
  by (simp add: Atoi_def fmt_d_def ParseUint_def parse_uint_loop_digits_nat in_int64_def)

lemma takeWhile_digits_nat: "takeWhile is_digit (digits_nat n) = digits_nat n"
  by (simp add: takeWhile_eq_all_conv digits_nat_digits)

lemma Sscanf_int_fmt_d:
  assumes "in_int64 n"
  shows "Sscanf_int (fmt_d n) = Some n"
proof (cases "n < 0")
  case True
  have "\<not> blank CHR ''-''" by (simp add: blank_def)
  with True assms show ?thesis by (simp add: Sscanf_int_def fmt_d_def takeWhile_digits_nat)
next
  case False
  obtain c cs where d: "digits_nat (nat n) = c # cs" by (cases "digits_nat (nat n)") auto
  then have c: "is_digit c" "c \<noteq> CHR ''-''" "c \<noteq> CHR ''+''"
    using hd_digits_nat [of "nat n"] digits_nat_no_sign [of "nat n"] by simp_all
  then have "\<not> blank c" by (auto simp: blank_def is_digit_code)
  then show ?thesis
    using False assms c d takeWhile_digits_nat [of "nat n"] read_digits_digits_nat [of "nat n"]
    by (simp add: Sscanf_int_def fmt_d_def Let_def takeWhile_eq_all_conv [THEN iffD2])
qed

lemma in_int64_sint [simp]: "in_int64 (sint (w :: 64 word))"
  using sint_greater_eq [of w] sint_lt [of w] by (simp add: in_int64_def)

section \<open>The newest image\<close>

lemma byte_less_total: "byte_less s t \<or> s = t \<or> byte_less t s"
proof (induction s t rule: byte_less.induct)
  case (1 s)
  then show ?case by (cases s) auto
next
  case (3 c cs d ds)
  have "(of_char c :: nat) = of_char d \<Longrightarrow> c = d" by simp
  with 3 show ?case by (auto simp del: of_char_eq_iff)
qed simp

lemma byte_less_trans: "byte_less s t \<Longrightarrow> byte_less t u \<Longrightarrow> byte_less s u"
proof (induction s t arbitrary: u rule: byte_less.induct)
  case (3 c cs d ds)
  then show ?case by (cases u) auto
qed (auto elim: byte_less.elims)

lemma byte_less_irrefl [simp]: "\<not> byte_less s s"
  by (induction s) auto

lemma latest_image_newest:
  "latest_image ami imgs \<in> insert ami (set imgs)
   \<and> (\<forall>img \<in> insert ami (set imgs).
        \<not> byte_less (aws_ToString (ei_CreationDate (latest_image ami imgs))) (aws_ToString (ei_CreationDate img)))"
proof (induction imgs arbitrary: ami)
  case (Cons img imgs)
  let ?d = "\<lambda>i. aws_ToString (ei_CreationDate i)"
  let ?b = "if byte_less (?d ami) (?d img) then img else ami"
  show ?case
    using Cons [of ?b] byte_less_trans byte_less_total [of "?d ami" "?d img"] by (auto split: if_splits; metis)
qed simp

section \<open>The contract of a provider\<close>

text \<open>
  Every client ends in one of two ways: with no instance created, or with the outcome of the wait for the one created.
\<close>

definition early_end :: "(string + ProvisionResult) option \<Rightarrow> bool" where
  "early_end r = (case r of None \<Rightarrow> True | Some (Inl err) \<Rightarrow> take 8 err \<noteq> ''failed w'' | Some (Inr res) \<Rightarrow> False)"

definition launch_shape :: "('c list \<Rightarrow> string list) \<Rightarrow> ('c list \<Rightarrow> string list) \<Rightarrow> (string \<Rightarrow> bool) \<Rightarrow> 'c list
    \<Rightarrow> 'c list \<times> (string + ProvisionResult) option \<Rightarrow> bool" where
  "launch_shape launched removed issued h out \<longleftrightarrow> removed (fst out) = removed h
     \<and> (launched (fst out) = launched h \<and> early_end (snd out)
        \<or> (\<exists>i is w. out = await_ip i w \<and> issued i \<and> launched (fst w) = launched h @ i # is))"

lemma launch_shape_early:
  "removed h' = removed h \<Longrightarrow> launched h' = launched h \<Longrightarrow> early_end r \<Longrightarrow> launch_shape launched removed issued h (h', r)"
  by (simp add: launch_shape_def)

lemma launch_shape_await:
  "removed (fst w) = removed h \<Longrightarrow> launched (fst w) = launched h @ i # is \<Longrightarrow> issued i
    \<Longrightarrow> launch_shape launched removed issued h (await_ip i w)"
  unfolding launch_shape_def await_ip_fst by blast

lemma launch_shape_ok:
  "launch_shape launched removed issued h (h', Some (Inr res)) \<Longrightarrow>
     issued (prs_ProviderInstanceID res) \<and> (\<exists>is. launched h' = launched h @ prs_ProviderInstanceID res # is)"
  by (auto simp: launch_shape_def early_end_def) (metis await_ip_fst await_ip_ok fst_conv)+

lemma launch_shape_late:
  "launch_shape launched removed issued h (h', Some (Inl (''failed waiting for public IP: '' @ err))) \<Longrightarrow>
     \<exists>i is. launched h' = launched h @ i # is"
  by (auto simp: launch_shape_def early_end_def) (metis await_ip_fst fst_conv)

lemma launch_shape_trans:
  "launch_shape launched removed issued h' out \<Longrightarrow> launched h' = launched h \<Longrightarrow> removed h' = removed h
    \<Longrightarrow> launch_shape launched removed issued h out"
  by (simp add: launch_shape_def)

text \<open>
  What a history says of instances, by the text of their identifiers: those the cloud created, those it was asked to remove, and
  those it said do not exist.
\<close>

datatype provider_op = OpCreate ProvisionRequest | OpDestroy DestroyRequest

primrec op_history :: "(ProvisionRequest \<Rightarrow> 'c list \<Rightarrow> 'c list \<times> (string + ProvisionResult) option)
    \<Rightarrow> (DestroyRequest \<Rightarrow> 'c list \<Rightarrow> 'c list \<times> string option option) \<Rightarrow> provider_op \<Rightarrow> 'c list \<Rightarrow> 'c list" where
  "op_history create destroy (OpCreate req) h = fst (create req h)"
| "op_history create destroy (OpDestroy d) h = fst (destroy d h)"

locale cloud_provider =
  fixes create :: "ProvisionRequest \<Rightarrow> 'c list \<Rightarrow> 'c list \<times> (string + ProvisionResult) option"
    and destroy :: "DestroyRequest \<Rightarrow> 'c list \<Rightarrow> 'c list \<times> string option option"
    and launched :: "'c list \<Rightarrow> string list"
    and removed :: "'c list \<Rightarrow> string list"
    and missing :: "'c list \<Rightarrow> string list"
    and issued :: "string \<Rightarrow> bool"
    and honest :: bool
  assumes create_shape: "launch_shape launched removed issued h (create req h)"
    and destroy_launches_nothing: "launched (fst (destroy d h)) = launched h"
    and destroy_own: "honest \<Longrightarrow> issued (drq_ProviderInstanceID d) \<Longrightarrow>
      set (removed (fst (destroy d h))) \<subseteq> insert (drq_ProviderInstanceID d) (set (removed h))"
    and destroy_ok: "honest \<Longrightarrow> issued (drq_ProviderInstanceID d) \<Longrightarrow> destroy d h = (h', Some None) \<Longrightarrow>
      drq_ProviderInstanceID d \<in> set (removed h') \<union> set (missing h')"
begin

lemma create_removes_nothing: "removed (fst (create req h)) = removed h"
  using create_shape [of h req] by (simp add: launch_shape_def)

lemma lifecycle:
  assumes "honest" and "create req h = (h1, Some (Inr res))" and "destroy d h2 = (h3, Some None)"
    and "drq_ProviderInstanceID d = prs_ProviderInstanceID res"
  shows "prs_ProviderInstanceID res \<in> set (launched h1)
    \<and> prs_ProviderInstanceID res \<in> set (removed h3) \<union> set (missing h3)
    \<and> set (removed h3) \<subseteq> insert (prs_ProviderInstanceID res) (set (removed h2))"
  using launch_shape_ok [OF create_shape [of h req, unfolded assms(2)]] destroy_ok [OF assms(1) _ assms(3)] destroy_own [OF assms(1), of d h2] assms(3,4) by auto

lemma only_named_removed:
  assumes "honest" and "\<forall>d. OpDestroy d \<in> set ops \<longrightarrow> issued (drq_ProviderInstanceID d)"
  shows "set (removed (fold (op_history create destroy) ops h)) \<subseteq> set (removed h) \<union> {drq_ProviderInstanceID d |d. OpDestroy d \<in> set ops}"
  using assms(2)
proof (induction ops arbitrary: h)
  case (Cons p ops)
  have "set (removed (op_history create destroy p h)) \<subseteq> set (removed h) \<union> {drq_ProviderInstanceID d |d. p = OpDestroy d}"
    using Cons.prems destroy_own [OF assms(1), of _ h] by (cases p) (auto simp: create_removes_nothing)
  moreover have "set (removed (fold (op_history create destroy) ops (op_history create destroy p h)))
      \<subseteq> set (removed (op_history create destroy p h)) \<union> {drq_ProviderInstanceID d |d. OpDestroy d \<in> set ops}"
    using Cons.prems by (intro Cons.IH) simp
  ultimately show ?case by auto
qed simp

lemma late_instance_stays:
  assumes "honest" and "create req h = (h', Some (Inl (''failed waiting for public IP: '' @ err)))"
  shows "\<exists>i is. launched h' = launched h @ i # is \<and> removed h' = removed h
    \<and> (\<forall>ops. i \<notin> set (removed h) \<longrightarrow>
          (\<forall>d. OpDestroy d \<in> set ops \<longrightarrow> issued (drq_ProviderInstanceID d) \<and> drq_ProviderInstanceID d \<noteq> i) \<longrightarrow>
          i \<notin> set (removed (fold (op_history create destroy) ops h')))"
proof -
  obtain i "is" where l: "launched h' = launched h @ i # is" using launch_shape_late [OF create_shape [of h req, unfolded assms(2)]] by blast
  have r: "removed h' = removed h" using create_removes_nothing [of req h] assms(2) by simp
  have "i \<notin> set (removed (fold (op_history create destroy) ops h'))"
    if "i \<notin> set (removed h)"
      "\<forall>d. OpDestroy d \<in> set ops \<longrightarrow> issued (drq_ProviderInstanceID d) \<and> drq_ProviderInstanceID d \<noteq> i" for ops
    using only_named_removed [OF assms(1), of ops h'] that r by auto
  with l r show ?thesis by blast
qed

end

subsection \<open>AWS\<close>

definition aws_launched :: "aws_event list \<Rightarrow> string list" where
  "aws_launched h = concat (map (\<lambda>e. case e of EC2 r (InstancesLaunched is) \<Rightarrow> is | _ \<Rightarrow> []) h)"

definition aws_removed :: "aws_event list \<Rightarrow> string list" where
  "aws_removed h = concat (map (\<lambda>e. case e of EC2 r (TerminateInstances is) \<Rightarrow> is | _ \<Rightarrow> []) h)"

lemmas aws_views = aws_launched_def aws_removed_def

lemma aws_wait_views:
  "aws_launched (fst (aws_waitForPublicIP a r i h)) = aws_launched h"
  "aws_removed (fst (aws_waitForPublicIP a r i h)) = aws_removed h"
  unfolding aws_waitForPublicIP_def by (rule poll_keeps; simp add: aws_look_def aws_views Let_def)+

lemma aws_launch_shape: "launch_shape aws_launched aws_removed (\<lambda>_. True) h (aws_launch a req ami g h)"
  by (auto simp: aws_launch_def Let_def aws_views early_end_def split: option.splits sum.splits list.splits
      intro!: launch_shape_early launch_shape_await aws_wait_views [THEN trans])

lemma aws_create_shape: "launch_shape aws_launched aws_removed (\<lambda>_. True) h (aws_CreateInstance a req h)"
  by (auto simp: aws_CreateInstance_def aws_pick_image_def Let_def aws_views [abs_def] early_end_def
      split: option.splits sum.splits list.splits intro!: launch_shape_early)
    (rule launch_shape_trans [OF aws_launch_shape [unfolded aws_views [abs_def]]]; simp)

lemma aws_destroy_views:
  "aws_launched (fst (aws_DestroyInstance a d h)) = aws_launched h"
  "aws_removed (fst (aws_DestroyInstance a d h)) = aws_removed h @ [drq_ProviderInstanceID d]"
  by (auto simp: aws_DestroyInstance_def Let_def aws_views split: option.splits)

interpretation aws: cloud_provider "aws_CreateInstance a" "aws_DestroyInstance a" aws_launched aws_removed "\<lambda>_. []" "\<lambda>_. True" True
  for a :: ec2_api
proof (unfold_locales, goal_cases)
  case (4 d h h')
  then show ?case using aws_destroy_views(2) [of a d h] by simp
qed (simp_all add: aws_create_shape aws_destroy_views)

subsection \<open>DigitalOcean\<close>

definition do_launched :: "do_event list \<Rightarrow> string list" where
  "do_launched h = concat (map (\<lambda>e. case e of DODropletCreated n \<Rightarrow> [fmt_d n] | _ \<Rightarrow> []) h)"

definition do_removed :: "do_event list \<Rightarrow> string list" where
  "do_removed h = concat (map (\<lambda>e. case e of DODropletsDelete n \<Rightarrow> [fmt_d n] | _ \<Rightarrow> []) h)"

lemmas do_views = do_launched_def do_removed_def

text \<open>The identifiers of droplets and of servers.\<close>

definition int_id :: "string \<Rightarrow> bool" where
  "int_id i \<longleftrightarrow> (\<exists>n. in_int64 n \<and> i = fmt_d n)"

lemma int_id_sint [simp]: "int_id (fmt_d (sint (w :: 64 word)))"
  unfolding int_id_def using in_int64_sint by blast

lemma do_wait_views:
  "do_launched (fst (do_waitForPublicIP a n h)) = do_launched h"
  "do_removed (fst (do_waitForPublicIP a n h)) = do_removed h"
  unfolding do_waitForPublicIP_def by (rule poll_keeps; simp add: do_look_def do_views Let_def)+

lemma do_delete_named_views:
  "do_launched (delete_first_named name ks h) = do_launched h" "do_removed (delete_first_named name ks h) = do_removed h"
  by (induction ks) (simp_all add: do_views)

lemma do_delete_key_views:
  "do_launched (deleteSSHKeyByName a name h) = do_launched h" "do_removed (deleteSSHKeyByName a name h) = do_removed h"
  by (auto simp: deleteSSHKeyByName_def Let_def do_delete_named_views split: sum.splits) (simp_all add: do_views)

lemma do_append_views: "do_launched (h @ t) = do_launched h @ do_launched t" "do_removed (h @ t) = do_removed h @ do_removed t"
  by (simp_all add: do_views)

lemma do_cons_views:
  "do_launched (e # t) = (case e of DODropletCreated n \<Rightarrow> [fmt_d n] | _ \<Rightarrow> []) @ do_launched t" "do_launched [] = []"
  "do_removed (e # t) = (case e of DODropletsDelete n \<Rightarrow> [fmt_d n] | _ \<Rightarrow> []) @ do_removed t" "do_removed [] = []"
  by (simp_all add: do_views)

lemmas do_history_views = do_append_views do_cons_views do_delete_key_views do_wait_views

lemma do_create_shape: "launch_shape do_launched do_removed int_id h (do_CreateInstance a req h)"
  by (auto simp: do_CreateInstance_def do_launch_def Let_def do_history_views early_end_def split: option.splits sum.splits
      intro!: launch_shape_early launch_shape_await)

lemma do_destroy_launched: "do_launched (fst (do_DestroyInstance a se d h)) = do_launched h"
  by (auto simp: do_DestroyInstance_def Let_def do_history_views split: option.splits)

lemma do_destroy_removed:
  "int_id (drq_ProviderInstanceID d) \<Longrightarrow> do_removed (fst (do_DestroyInstance a se d h)) = do_removed h @ [drq_ProviderInstanceID d]"
  by (auto simp: int_id_def do_DestroyInstance_def Sscanf_int_fmt_d Let_def do_history_views split: option.splits)

interpretation dig: cloud_provider "do_CreateInstance a" "do_DestroyInstance a se" do_launched do_removed "\<lambda>_. []" int_id True
  for a :: do_api and se
proof (unfold_locales, goal_cases)
  case (4 d h h')
  then show ?case using do_destroy_removed [of d a se h] by simp
qed (simp_all add: do_create_shape do_destroy_launched do_destroy_removed)

subsection \<open>Hetzner\<close>

definition hz_launched :: "hz_event list \<Rightarrow> string list" where
  "hz_launched h = concat (map (\<lambda>e. case e of HzServerCreated n \<Rightarrow> [fmt_d n] | _ \<Rightarrow> []) h)"

definition hz_removed :: "hz_event list \<Rightarrow> string list" where
  "hz_removed h = concat (map (\<lambda>e. case e of HzServerDelete n \<Rightarrow> [fmt_d n] | _ \<Rightarrow> []) h)"

definition hz_missing :: "hz_event list \<Rightarrow> string list" where
  "hz_missing h = concat (map (\<lambda>e. case e of HzServerMissing n \<Rightarrow> [fmt_d n] | _ \<Rightarrow> []) h)"

text \<open>The API answers a lookup with the server it was asked for.\<close>

definition hz_lookup_exact :: "hz_api \<Rightarrow> bool" where
  "hz_lookup_exact a \<longleftrightarrow>
     (\<forall>h n s. hz_ServerGetByID a (h @ [HzServerGetByID n]) = Inr (Some s) \<longrightarrow> sint (hs_ID s) = n)"

lemmas hz_views = hz_launched_def hz_removed_def hz_missing_def

lemma hz_wait_views:
  "hz_launched (fst (hz_waitForPublicIP a n h)) = hz_launched h"
  "hz_removed (fst (hz_waitForPublicIP a n h)) = hz_removed h"
  unfolding hz_waitForPublicIP_def by (rule poll_keeps; simp add: hz_look_def hz_views Let_def)+

lemma hz_drop_key_views:
  "hz_launched (hz_drop_key a k h) = hz_launched h" "hz_removed (hz_drop_key a k h) = hz_removed h"
  "hz_missing (hz_drop_key a k h) = hz_missing h"
  by (auto simp: hz_drop_key_def Let_def hz_views split: option.splits)

lemma hz_append_views: "hz_launched (h @ t) = hz_launched h @ hz_launched t" "hz_removed (h @ t) = hz_removed h @ hz_removed t"
  "hz_missing (h @ t) = hz_missing h @ hz_missing t"
  by (simp_all add: hz_views)

lemma hz_cons_views:
  "hz_launched (e # t) = (case e of HzServerCreated n \<Rightarrow> [fmt_d n] | _ \<Rightarrow> []) @ hz_launched t" "hz_launched [] = []"
  "hz_removed (e # t) = (case e of HzServerDelete n \<Rightarrow> [fmt_d n] | _ \<Rightarrow> []) @ hz_removed t" "hz_removed [] = []"
  "hz_missing (e # t) = (case e of HzServerMissing n \<Rightarrow> [fmt_d n] | _ \<Rightarrow> []) @ hz_missing t" "hz_missing [] = []"
  by (simp_all add: hz_views)

lemmas hz_history_views = hz_append_views hz_cons_views hz_drop_key_views hz_wait_views

lemma hz_launch_shape: "launch_shape hz_launched hz_removed int_id h (hz_launch a opts h)"
  by (auto simp: hz_launch_def Let_def hz_history_views early_end_def split: option.splits sum.splits
      intro!: launch_shape_early launch_shape_await)

lemma hz_create_shape: "launch_shape hz_launched hz_removed int_id h (hz_CreateInstance a req h)"
  by (auto simp: hz_CreateInstance_def Let_def hz_history_views early_end_def split: sum.splits
      intro!: launch_shape_early launch_shape_trans [OF hz_launch_shape])

lemma hz_destroy_launched: "hz_launched (fst (hz_DestroyInstance a nt d h)) = hz_launched h"
  by (auto simp: hz_DestroyInstance_def Let_def hz_history_views split: option.splits sum.splits prod.splits)

lemma hz_destroy_id:
  assumes "hz_lookup_exact a" and "int_id (drq_ProviderInstanceID d)" and "hz_DestroyInstance a nt d h = (h', r)"
  shows "set (hz_removed h') \<subseteq> insert (drq_ProviderInstanceID d) (set (hz_removed h))
    \<and> (r = Some None \<longrightarrow> drq_ProviderInstanceID d \<in> set (hz_removed h') \<union> set (hz_missing h'))"
proof -
  obtain n where n: "in_int64 n" "drq_ProviderInstanceID d = fmt_d n" using assms(2) by (auto simp: int_id_def)
  have "sint (hs_ID s) = n" if "hz_ServerGetByID a (h @ [HzServerGetByID n]) = Inr (Some s)" for s
    using assms(1) that by (auto simp: hz_lookup_exact_def)
  then show ?thesis using assms(3) n
    by (auto simp: hz_DestroyInstance_def Atoi_fmt_d Let_def hz_history_views split: option.splits sum.splits)
qed

interpretation hzn: cloud_provider "hz_CreateInstance a" "hz_DestroyInstance a nt" hz_launched hz_removed hz_missing int_id
    "hz_lookup_exact a"
  for a :: hz_api and nt
proof (unfold_locales, goal_cases)
  case (3 d h)
  then show ?case using hz_destroy_id [of a d nt h] by (metis prod.collapse)
next
  case (4 d h h')
  then show ?case using hz_destroy_id [of a d nt h h'] by simp
qed (simp_all add: hz_create_shape hz_destroy_launched)

section \<open>Instances that stay\<close>

definition demo_provision_request :: ProvisionRequest where
  "demo_provision_request = \<lparr>prq_InstanceName = ''web'', prq_Region = ''eu-west-1'', prq_Size = ''t3.micro'', prq_SSHPublicKey = ''ssh-ed25519 K''\<rparr>"

text \<open>An account in which everything works but no instance gets an address.\<close>

definition demo_ec2 :: ec2_api where
  "demo_ec2 = \<lparr>ec_ImportKeyPair = (\<lambda>_. None), ec_CreateSecurityGroup = (\<lambda>_. Inr (Some ''sg-1'')),
     ec_AuthorizeSecurityGroupIngress = (\<lambda>_. None),
     ec_DescribeImages = (\<lambda>_. Inr [\<lparr>ei_ImageId = Some ''ami-1'', ei_CreationDate = Some ''2024-01-01''\<rparr>]),
     ec_RunInstances = (\<lambda>_. Inr [Some ''i-1'']), ec_DescribeInstances = (\<lambda>_. Inr [[None]]), ec_TerminateInstances = (\<lambda>_. None),
     ec_DescribeRegions = (\<lambda>_. Inr []), ec_wait = (\<lambda>_. None)\<rparr>"

text \<open>
  C33: when the wait for the address of a new EC2 instance fails, \<open>CreateInstance\<close> returns an error although an instance runs; it
  asked for no removal, and no later sequence of operations that does not name the instance removes it. Its identifier is not
  part of the error, so the caller cannot name it.
\<close>

theorem late_instance_leaks:
  assumes "aws_CreateInstance a req h = (h', Some (Inl (''failed waiting for public IP: '' @ err)))"
  shows "\<exists>i is. aws_launched h' = aws_launched h @ i # is \<and> aws_removed h' = aws_removed h
    \<and> (\<forall>ops. i \<notin> set (aws_removed h) \<longrightarrow> (\<forall>d. OpDestroy d \<in> set ops \<longrightarrow> drq_ProviderInstanceID d \<noteq> i) \<longrightarrow>
          i \<notin> set (aws_removed (fold (op_history (aws_CreateInstance a) (aws_DestroyInstance a)) ops h')))"
  using aws.late_instance_stays [OF TrueI assms] by simp

lemma demo_ec2_late:
  "\<exists>h'. aws_CreateInstance demo_ec2 demo_provision_request [] = (h', Some (Inl (''failed waiting for public IP: '' @ ''timed out waiting for public IP'')))"
proof -
  have "snd (aws_look demo_ec2 r i h) = Again" for r i h
    by (simp add: aws_look_def demo_ec2_def first_address_def Let_def)
  then show ?thesis
    by (simp add: aws_CreateInstance_def aws_pick_image_def aws_launch_def aws_waitForPublicIP_def Let_def poll_late await_ip_def
        demo_ec2_def [THEN arg_cong, of ec_wait] demo_ec2_def [THEN arg_cong, of ec_ImportKeyPair]
        demo_ec2_def [THEN arg_cong, of ec_CreateSecurityGroup] demo_ec2_def [THEN arg_cong, of ec_AuthorizeSecurityGroupIngress]
        demo_ec2_def [THEN arg_cong, of ec_DescribeImages] demo_ec2_def [THEN arg_cong, of ec_RunInstances])
qed

theorem late_instance_leaks_witness:
  "\<exists>h' i is. snd (aws_CreateInstance demo_ec2 demo_provision_request []) = Some (Inl ''failed waiting for public IP: timed out waiting for public IP'')
    \<and> fst (aws_CreateInstance demo_ec2 demo_provision_request []) = h' \<and> aws_launched h' = i # is \<and> aws_removed h' = []"
proof -
  obtain h' where c: "aws_CreateInstance demo_ec2 demo_provision_request [] =
      (h', Some (Inl (''failed waiting for public IP: '' @ ''timed out waiting for public IP'')))"
    using demo_ec2_late by blast
  from late_instance_leaks [OF c] c show ?thesis by (auto simp: aws_views)
qed

text \<open>
  C21: after a successful \<open>CreateInstance\<close> of the Hetzner client, a successful \<open>DestroyInstance\<close> with the identifier it returned asked
  for the removal of the very server that was created, or was told that it does not exist, and of no other server.
\<close>

theorem created_server_destroyed:
  assumes "hz_lookup_exact a" and "hz_CreateInstance a req h = (h1, Some (Inr res))"
    and "hz_DestroyInstance a nt d h2 = (h3, Some None)" and "drq_ProviderInstanceID d = prs_ProviderInstanceID res"
  shows "prs_ProviderInstanceID res \<in> set (hz_launched h1)
    \<and> prs_ProviderInstanceID res \<in> set (hz_removed h3) \<union> set (hz_missing h3)
    \<and> set (hz_removed h3) \<subseteq> insert (prs_ProviderInstanceID res) (set (hz_removed h2))"
  by (rule hzn.lifecycle [OF assms])

theorem created_droplet_destroyed:
  assumes "do_CreateInstance a req h = (h1, Some (Inr res))" and "do_DestroyInstance a se d h2 = (h3, Some None)"
    and "drq_ProviderInstanceID d = prs_ProviderInstanceID res"
  shows "prs_ProviderInstanceID res \<in> set (do_launched h1) \<and> prs_ProviderInstanceID res \<in> set (do_removed h3)
    \<and> set (do_removed h3) \<subseteq> insert (prs_ProviderInstanceID res) (set (do_removed h2))"
  using dig.lifecycle [OF TrueI assms] by simp

text \<open>A cloud with one server, 7, that runs and has no IPv4 address.\<close>

definition demo_hz :: hz_api where
  "demo_hz = \<lparr>hz_KeyGetByName = (\<lambda>_. None), hz_KeyCreate = (\<lambda>_. Inr ''k''), hz_TypeGetByName = (\<lambda>_. Inr (Some ''cx22'')),
     hz_LocationGetByName = (\<lambda>_. Inr (Some ''nbg1'')), hz_ImageGet = (\<lambda>_. Inr (Some ''img'')),
     hz_ServerCreate = (\<lambda>_. Inr (Some \<lparr>hs_ID = 7, hs_Status = ''initializing'', hs_IPv4 = None\<rparr>)),
     hz_ServerGetByID = (\<lambda>h. Inr (if h \<noteq> [] \<and> last h = HzServerGetByID 7
                                   then Some \<lparr>hs_ID = 7, hs_Status = ''running'', hs_IPv4 = None\<rparr> else None)),
     hz_ServerDelete = (\<lambda>_. None), hz_LocationList = (\<lambda>_. Inr []), hz_TypeList = (\<lambda>_. Inr []), hz_wait = (\<lambda>_. None)\<rparr>"

lemma demo_hz_exact: "hz_lookup_exact demo_hz"
  by (simp add: hz_lookup_exact_def demo_hz_def)

lemma demo_hz_answers:
  "hz_KeyGetByName demo_hz = (\<lambda>_. None)" "hz_KeyCreate demo_hz = (\<lambda>_. Inr ''k'')"
  "hz_TypeGetByName demo_hz = (\<lambda>_. Inr (Some ''cx22''))" "hz_LocationGetByName demo_hz = (\<lambda>_. Inr (Some ''nbg1''))"
  "hz_ImageGet demo_hz = (\<lambda>_. Inr (Some ''img''))"
  "hz_ServerCreate demo_hz = (\<lambda>_. Inr (Some \<lparr>hs_ID = 7, hs_Status = ''initializing'', hs_IPv4 = None\<rparr>))"
  by (simp_all add: demo_hz_def)

lemma demo_hz_create:
  "\<exists>h'. hz_CreateInstance demo_hz demo_provision_request [] = (h', Some (Inr \<lparr>prs_ProviderInstanceID = ''7'', prs_PublicIP = ''<nil>''\<rparr>))"
proof -
  have "hz_waitForPublicIP demo_hz 7 h = (h @ [HzServerGetByID 7], Some (Inr ''<nil>''))" for h
    unfolding hz_waitForPublicIP_def
    by (rule poll_found) (simp_all add: hz_look_def demo_hz_def Let_def IsUnspecified_def IP_String_def)
  moreover have "fmt_d 7 = ''7''" by code_simp
  ultimately show ?thesis
    by (simp add: hz_CreateInstance_def hz_launch_def hz_found_def hz_drop_key_def Let_def await_ip_def demo_hz_answers)
qed

theorem created_server_destroyed_witness:
  "\<exists>h1 h3. fst (hz_CreateInstance demo_hz demo_provision_request []) = h1
    \<and> fst (hz_DestroyInstance demo_hz (\<lambda>_ _. []) \<lparr>drq_ProviderInstanceID = ''7'', drq_InstanceName = ''web'', drq_Region = []\<rparr> h1) = h3
    \<and> ''7'' \<in> set (hz_launched h1) \<and> ''7'' \<in> set (hz_removed h3) \<union> set (hz_missing h3)"
proof -
  let ?d = "\<lparr>drq_ProviderInstanceID = ''7'', drq_InstanceName = ''web'', drq_Region = []\<rparr>"
  obtain h1 where c: "hz_CreateInstance demo_hz demo_provision_request [] = (h1, Some (Inr \<lparr>prs_ProviderInstanceID = ''7'', prs_PublicIP = ''<nil>''\<rparr>))"
    using demo_hz_create by blast
  have "snd (hz_DestroyInstance demo_hz (\<lambda>_ _. []) ?d h1) = Some None"
    by (simp add: hz_DestroyInstance_def demo_hz_def Atoi_def ParseUint_def Let_def is_digit_code)
  then obtain h3 where d: "hz_DestroyInstance demo_hz (\<lambda>_ _. []) ?d h1 = (h3, Some None)"
    by (metis prod.collapse)
  from created_server_destroyed [OF demo_hz_exact c d] c d show ?thesis by simp
qed

text \<open>
  A running server without an IPv4 address counts as ready, and its address is the text \<open><nil>\<close>, because \<open>net.IP.IsUnspecified\<close>
  is false of a \<open>nil\<close> address.
\<close>

theorem nil_address_accepted:
  assumes "hz_ServerGetByID a (h @ [HzServerGetByID n]) = Inr (Some s)" and "hs_Status s = ''running''" and "hs_IPv4 s = None"
  shows "hz_look a n h = (h @ [HzServerGetByID n], Found ''<nil>'')"
  using assms by (simp add: hz_look_def Let_def IsUnspecified_def IP_String_def)

text \<open>The factory makes a client exactly from the credentials that validation accepts.\<close>

theorem NewProvider_iff_valid:
  "(\<exists>p. NewProvider cj et providerType credJSON = Inr p) \<longleftrightarrow> ValidateCredentialsJSON cj providerType credJSON = None"
  by (auto simp: NewProvider_def ValidateCredentialsJSON_def ParseAWSCredentials_def ParseDigitalOceanCredentials_def
      ParseHetznerCredentials_def split: option.splits)

end
