(* ===== verification/Billing_Client.thy ===== *)
theory Billing_Client
  imports Engine_Queries
begin

text \<open>
  \<open>internal/shell/billing/client.go\<close>: the client that reports usage events to the billing gateway, and the client that reports
  nothing. JSON, time formats and HTTP are arguments. The composition with one round of the reporter of \<open>Engine_Queries\<close> shows what
  becomes of events that the gateway rejects.
\<close>

section \<open>Clients\<close>

record billing_Config =
  bcf_BaseURL :: string
  bcf_ServiceKey :: string
  bcf_MeterPath :: string
  bcf_Timeout :: int

definition billing_DefaultConfig :: billing_Config where
  "billing_DefaultConfig = \<lparr>bcf_BaseURL = ''http://localhost:8080'', bcf_ServiceKey = [], bcf_MeterPath = [],
     bcf_Timeout = 30 * 1000000000\<rparr>"

record APIGateClient =
  agc_baseURL :: string
  agc_serviceKey :: string
  agc_meterPath :: string
  agc_Timeout :: int

definition NewAPIGateClient :: "billing_Config \<Rightarrow> APIGateClient" where
  "NewAPIGateClient cfg =
     \<lparr>agc_baseURL = bcf_BaseURL cfg, agc_serviceKey = bcf_ServiceKey cfg,
      agc_meterPath = (if bcf_MeterPath cfg = [] then ''/_internal/meter'' else bcf_MeterPath cfg),
      agc_Timeout = (if bcf_Timeout cfg = 0 then 30 * 1000000000 else bcf_Timeout cfg)\<rparr>"

record meterEventAttributes =
  mea_ID :: string
  mea_UserID :: string
  mea_EventType :: string
  mea_ResourceID :: string
  mea_ResourceType :: string
  mea_Quantity :: int
  mea_Metadata :: "go_strmap option"
  mea_Timestamp :: string

record jsonAPIResource =
  jar_Type :: string
  jar_Attributes :: meterEventAttributes

record jsonAPIError =
  jae_Index :: int
  jae_Message :: string

record jsonAPIMeta =
  jam_Accepted :: int
  jam_Rejected :: int
  jam_Errors :: "jsonAPIError list"

record meter_request =
  mq_Method :: string
  mq_URL :: string
  mq_Headers :: "(string \<times> string) list"
  mq_Body :: string
  mq_Timeout :: int

record meter_response =
  mp_StatusCode :: int
  mp_Body :: string

text \<open>
  The libraries: encoding the payload (a list of resources), the time format, the check of the URL when a request is made, the
  exchange at an instant, and decoding the \<open>meta\<close> member of a response.
\<close>

record meter_lib =
  ml_Marshal :: "jsonAPIResource list \<Rightarrow> string + string"
  ml_FormatUTC :: "time \<Rightarrow> string"
  ml_NewRequest :: "string \<Rightarrow> string option"
  ml_Do :: "nat \<Rightarrow> meter_request \<Rightarrow> string + meter_response"
  ml_Decode :: "string \<Rightarrow> string + jsonAPIMeta"

text \<open>What an operation did: the requests it sent, what it logged as rejected, and its error.\<close>

record meter_outcome =
  mo_sent :: "meter_request list"
  mo_rejected :: "jsonAPIMeta option"
  mo_error :: "string option"

definition meter_user :: "MeterEvent \<Rightarrow> string" where
  "meter_user e = (if me_UserRefID e = [] then fmt_d (me_UserID e) else me_UserRefID e)"

definition meter_resource :: "meter_lib \<Rightarrow> MeterEvent \<Rightarrow> jsonAPIResource" where
  "meter_resource l e = \<lparr>jar_Type = ''usage_events'', jar_Attributes =
     \<lparr>mea_ID = me_ReferenceID e, mea_UserID = meter_user e, mea_EventType = me_EventType e, mea_ResourceID = me_ResourceID e,
      mea_ResourceType = me_ResourceType e, mea_Quantity = me_Quantity e, mea_Metadata = me_Metadata e,
      mea_Timestamp = ml_FormatUTC l (me_Timestamp e)\<rparr>\<rparr>"

definition make_request :: "APIGateClient \<Rightarrow> string \<Rightarrow> meter_request" where
  "make_request c body = \<lparr>mq_Method = ''POST'', mq_URL = agc_baseURL c @ agc_meterPath c,
     mq_Headers = (''Content-Type'', ''application/vnd.api+json'')
       # (if agc_serviceKey c \<noteq> [] then [(''X-API-Key'', agc_serviceKey c)] else []),
     mq_Body = body, mq_Timeout = agc_Timeout c\<rparr>"

definition failed_before :: "string \<Rightarrow> meter_outcome" where
  "failed_before err = \<lparr>mo_sent = [], mo_rejected = None, mo_error = Some err\<rparr>"

text \<open>The reading of the response: an error status, or a body whose rejections are only logged.\<close>

definition read_response :: "meter_lib \<Rightarrow> meter_request \<Rightarrow> meter_response \<Rightarrow> meter_outcome" where
  "read_response l q resp =
     (if 400 \<le> mp_StatusCode resp
      then \<lparr>mo_sent = [q], mo_rejected = None,
            mo_error = Some (''meter request failed with status '' @ fmt_d (mp_StatusCode resp) @ '': '' @ take 1024 (mp_Body resp))\<rparr>
      else \<lparr>mo_sent = [q],
            mo_rejected = (case ml_Decode l (mp_Body resp) of
                             Inl err \<Rightarrow> None
                           | Inr meta \<Rightarrow> if 0 < jam_Rejected meta then Some meta else None),
            mo_error = None\<rparr>)"

definition APIGate_MeterUsageBatch :: "meter_lib \<Rightarrow> APIGateClient \<Rightarrow> nat \<Rightarrow> MeterEvent list \<Rightarrow> meter_outcome" where
  "APIGate_MeterUsageBatch l c t events =
     (if events = [] then \<lparr>mo_sent = [], mo_rejected = None, mo_error = None\<rparr>
      else case ml_Marshal l (map (meter_resource l) events) of
             Inl err \<Rightarrow> failed_before (''marshal meter request: '' @ err)
           | Inr body \<Rightarrow>
               let q = make_request c body
               in case ml_NewRequest l (mq_URL q) of
                    Some err \<Rightarrow> failed_before (''create request: '' @ err)
                  | None \<Rightarrow>
                      (case ml_Do l t q of
                         Inl err \<Rightarrow> \<lparr>mo_sent = [q], mo_rejected = None, mo_error = Some (''send meter request: '' @ err)\<rparr>
                       | Inr resp \<Rightarrow> read_response l q resp))"

definition APIGate_MeterUsage :: "meter_lib \<Rightarrow> APIGateClient \<Rightarrow> nat \<Rightarrow> MeterEvent \<Rightarrow> meter_outcome" where
  "APIGate_MeterUsage l c t event = APIGate_MeterUsageBatch l c t [event]"

definition Noop_MeterUsage :: "nat \<Rightarrow> MeterEvent \<Rightarrow> meter_outcome" where
  "Noop_MeterUsage t event = \<lparr>mo_sent = [], mo_rejected = None, mo_error = None\<rparr>"

definition Noop_MeterUsageBatch :: "nat \<Rightarrow> MeterEvent list \<Rightarrow> meter_outcome" where
  "Noop_MeterUsageBatch t events = \<lparr>mo_sent = [], mo_rejected = None, mo_error = None\<rparr>"

section \<open>The client interface\<close>

text \<open>What the reporter relies on: a single event is a batch of one, and nothing is sent for an empty batch, which never fails.\<close>

locale billing_client =
  fixes one :: "nat \<Rightarrow> MeterEvent \<Rightarrow> meter_outcome"
    and batch :: "nat \<Rightarrow> MeterEvent list \<Rightarrow> meter_outcome"
  assumes one_batch: "one t ev = batch t [ev]"
    and empty_batch: "mo_sent (batch t []) = [] \<and> mo_error (batch t []) = None"
begin

lemma accepted_marked:
  assumes tc: "text_conv e ''usage_events'' ''reference_id''"
    and nn: "\<And>s. env_conv e ''usage_events'' ''reported_at'' (GStr s) \<noteq> GNil"
    and srt: "\<And>rs. mset (env_sort_timestamp e rs) = mset rs"
    and nf: "\<And>t st. env_fail e t st = None"
    and rb: "reportBatch e (\<lambda>t evs. mo_error (batch t evs)) now r w = (w', [b])"
    and ok: "\<And>t. mo_error (batch t b) = None"
    and "ref \<in> me_ReferenceID ` set b" and "find_row e ''usage_events'' ref w \<noteq> None"
  shows "reported e ref w'"
proof -
  obtain w1 where g: "GetUnreportedEvents e (rc_BatchSize r) w = (w1, Inr b)" and "b \<noteq> []"
    using rb by (auto simp: reportBatch_def split: prod.splits sum.splits option.splits if_splits)
  note u = GetUnreportedEvents_Inr [OF srt g]
  have "w' = fst (MarkEventsReported e (map me_ReferenceID b) (now (w_tick w1)) w1)"
    using rb g \<open>b \<noteq> []\<close> ok by (simp add: reportBatch_def)
  then obtain out where m: "MarkEventsReported e (map me_ReferenceID b) (now (w_tick w1)) w1 = (w', out)"
    by (metis prod.collapse)
  have "out = None" using m nf by (auto simp: MarkEventsReported_def split: if_splits)
  moreover have "find_row e ''usage_events'' ref w1 = find_row e ''usage_events'' ref w"
    using u by (simp add: find_row_def)
  ultimately show ?thesis using MarkEventsReported_view [OF tc nn m] assms(7,8) by auto
qed

end

interpretation apigate: billing_client "APIGate_MeterUsage l c" "APIGate_MeterUsageBatch l c"
  for l :: meter_lib and c :: APIGateClient
  by unfold_locales (simp_all add: APIGate_MeterUsage_def APIGate_MeterUsageBatch_def)

interpretation noop: billing_client Noop_MeterUsage Noop_MeterUsageBatch
  by unfold_locales (simp_all add: Noop_MeterUsage_def Noop_MeterUsageBatch_def)

section \<open>Properties\<close>

text \<open>A batch is accepted exactly when it is empty or one request with all of its events got a status below 400.\<close>

theorem MeterUsageBatch_accepts:
  "mo_error (APIGate_MeterUsageBatch l c t events) = None \<longleftrightarrow>
     events = [] \<or> (\<exists>body resp. ml_Marshal l (map (meter_resource l) events) = Inr body
       \<and> ml_NewRequest l (agc_baseURL c @ agc_meterPath c) = None
       \<and> ml_Do l t (make_request c body) = Inr resp \<and> mp_StatusCode resp < 400)"
  by (auto simp: APIGate_MeterUsageBatch_def failed_before_def read_response_def make_request_def Let_def
      split: sum.splits option.splits)

text \<open>At most one request is sent for a batch, and the service key goes along exactly when it is set.\<close>

theorem MeterUsageBatch_sends:
  "length (mo_sent (APIGate_MeterUsageBatch l c t events)) \<le> 1
   \<and> (\<forall>q \<in> set (mo_sent (APIGate_MeterUsageBatch l c t events)).
        (\<exists>k. (''X-API-Key'', k) \<in> set (mq_Headers q)) = (agc_serviceKey c \<noteq> [])
        \<and> (\<exists>body. ml_Marshal l (map (meter_resource l) events) = Inr body \<and> q = make_request c body))"
  by (auto simp: APIGate_MeterUsageBatch_def failed_before_def read_response_def make_request_def Let_def
      split: sum.splits option.splits if_splits)

lemma meter_user_not_empty: "meter_user ev \<noteq> []"
  by (simp add: meter_user_def fmt_d_def)

lemma rejected_no_error: "mo_rejected (APIGate_MeterUsageBatch l c t events) = Some m \<Longrightarrow> mo_error (APIGate_MeterUsageBatch l c t events) = None"
  by (auto simp: APIGate_MeterUsageBatch_def failed_before_def read_response_def Let_def split: if_splits sum.splits option.splits)

text \<open>
  C34: events that the gateway rejects are lost. When the gateway answers a batch with success and rejects every event of it in the
  response, the client only logs that, and the reporter marks every event of the batch as reported.
\<close>

theorem rejected_events_marked:
  assumes "text_conv e ''usage_events'' ''reference_id''"
    and "\<And>s. env_conv e ''usage_events'' ''reported_at'' (GStr s) \<noteq> GNil"
    and "\<And>rs. mset (env_sort_timestamp e rs) = mset rs" and "\<And>t st. env_fail e t st = None"
    and "reportBatch e (\<lambda>t evs. mo_error (APIGate_MeterUsageBatch l c t evs)) now r w = (w', [b])"
    and "\<And>t. \<exists>m. mo_rejected (APIGate_MeterUsageBatch l c t b) = Some m \<and> jam_Rejected m = int (length b)"
  shows "\<forall>ev \<in> set b. find_row e ''usage_events'' (me_ReferenceID ev) w \<noteq> None \<longrightarrow> reported e (me_ReferenceID ev) w'"
proof -
  have "mo_error (APIGate_MeterUsageBatch l c t b) = None" for t using assms(6) [of t] rejected_no_error by blast
  with apigate.accepted_marked [OF assms(1-5)] show ?thesis by blast
qed

text \<open>A gateway that rejects the single event of each request.\<close>

definition rejecting_lib :: meter_lib where
  "rejecting_lib = \<lparr>ml_Marshal = (\<lambda>_. Inr ''{}''), ml_FormatUTC = (\<lambda>_. []), ml_NewRequest = (\<lambda>_. None),
     ml_Do = (\<lambda>_ _. Inr \<lparr>mp_StatusCode = 200, mp_Body = ''m''\<rparr>),
     ml_Decode = (\<lambda>_. Inr \<lparr>jam_Accepted = 0, jam_Rejected = 1, jam_Errors = [\<lparr>jae_Index = 0, jae_Message = ''unknown user''\<rparr>]\<rparr>)\<rparr>"

lemma rejecting_lib_outcome:
  "mo_error (APIGate_MeterUsageBatch rejecting_lib c t evs) = None"
  "evs \<noteq> [] \<Longrightarrow> \<exists>m. mo_rejected (APIGate_MeterUsageBatch rejecting_lib c t evs) = Some m \<and> jam_Rejected m = 1"
  by (simp_all add: APIGate_MeterUsageBatch_def rejecting_lib_def read_response_def Let_def)

theorem rejected_events_marked_witness:
  "\<exists>w' b. reportBatch demo_env (\<lambda>t evs. mo_error (APIGate_MeterUsageBatch rejecting_lib (NewAPIGateClient billing_DefaultConfig) t evs))
       (\<lambda>_. 0) \<lparr>rc_Interval = 1, rc_BatchSize = 100\<rparr> billing_world = (w', [b])
     \<and> (\<exists>m. mo_rejected (APIGate_MeterUsageBatch rejecting_lib (NewAPIGateClient billing_DefaultConfig) 0 b) = Some m \<and> jam_Rejected m = 1)
     \<and> reported demo_env ''evt_1'' w'"
proof -
  let ?c = "NewAPIGateClient billing_DefaultConfig"
  let ?t = "reportBatch demo_env (\<lambda>_ _. None) (\<lambda>_. 0) \<lparr>rc_Interval = 1, rc_BatchSize = 100\<rparr> billing_world"
  have snd: "(\<lambda>t evs. mo_error (APIGate_MeterUsageBatch rejecting_lib ?c t evs)) = (\<lambda>_ _. None)"
    by (simp add: rejecting_lib_outcome)
  obtain w' bs where t: "?t = (w', bs)" by fastforce
  have "map (map me_ReferenceID) (snd ?t) = [[''evt_1'']]" by code_simp
  with t obtain b where b: "bs = [b]" "map me_ReferenceID b = [''evt_1'']" by auto
  then obtain ev where i: "b = [ev]" "me_ReferenceID ev = ''evt_1''" by auto
  have f: "find_row demo_env ''usage_events'' ''evt_1'' billing_world \<noteq> None"
    by (simp add: find_row_def billing_world_def demo_world_def where_ok_def by_ref_def sql_eq_def demo_env_def
        sqlite_conv_def row_get_def)
  have nn: "env_conv demo_env ''usage_events'' ''reported_at'' (GStr s) \<noteq> GNil" for s
    by (simp add: demo_env_def sqlite_conv_def)
  have srt: "mset (env_sort_timestamp demo_env rs) = mset rs" for rs by (simp add: demo_env_def)
  have nf: "env_fail demo_env t st = None" for t st by (simp add: demo_env_def)
  have rj: "\<exists>m. mo_rejected (APIGate_MeterUsageBatch rejecting_lib ?c t b) = Some m \<and> jam_Rejected m = int (length b)" for t
    using rejecting_lib_outcome(2) [of b ?c t] i(1) by simp
  from rejected_events_marked [OF demo_text_conv nn srt nf t [folded snd, unfolded b(1)] rj] f i
  have "reported demo_env ''evt_1'' w'" by simp
  with t b(1) rj [of 0] i(1) show ?thesis unfolding snd by simp
qed

end
