(* ===== verification/Spec2Isabelle.thy ===== *)
theory Spec2Isabelle
  imports Dom_Template Dom_Node Dom_Deployment Dom_Cloud Monitoring Encoding Secrets Authz Scheduling
    Compose Planning Routing Engine_Schema Engine_Store Engine_Queries Engine_Handlers Engine_Lifecycle
    Engine_API Provider_Catalog Engine_Setup Engine_Requests Engine_Billing Engine_Workers Engine_Migrate
    Orchestrator Proxy_Server Docker_Engine Minion_Agent SSH_Client Remote_Docker Node_Pool Cloud_Providers
    Billing_Client
begin

text \<open>
  Verification of Hoster, a self-hosted platform that runs compose templates as deployments on worker nodes.

  \<^bold>\<open>The program.\<close> The pure packages under \<open>src/internal/core\<close> hold the entities and decisions: templates,
  nodes, deployments and cloud provisions with their status machines (\<open>domain\<close>), the compose parser
  (\<open>compose\<close>), the planner of names, start orders and containers (\<open>deployment\<close>), the choice of a node
  (\<open>scheduler\<close>), ownership and plan limits (\<open>auth\<close>, \<open>limits\<close>), encryption of secrets (\<open>crypto\<close>), host names, ports,
  router labels and custom domains (\<open>proxy\<close>, \<open>traefik\<close>, \<open>dns\<close>, \<open>validation\<close>), health and usage
  (\<open>monitoring\<close>). \<open>src/internal/engine\<close> is the schema-driven server: resources are tables of rows described by
  fields and state machines (\<open>schema.go\<close>, \<open>resources.go\<close>), a generic store reads and writes them (\<open>store.go\<close>),
  transitions emit commands to handlers (\<open>commands.go\<close>, \<open>handlers.go\<close>), HTTP handlers serve them (\<open>api.go\<close>, \<open>setup.go\<close>,
  \<open>billing_handlers.go\<close>), background workers change them (\<open>workers.go\<close>), and \<open>migrate.go\<close> creates the tables.
  \<open>src/internal/shell/docker\<close> runs the containers: \<open>orchestrator.go\<close> decides, \<open>client.go\<close> calls a local docker daemon,
  \<open>ssh_client.go\<close> runs the agent of \<open>src/cmd/hoster-minion\<close> on a remote node with the messages of \<open>src/internal/core/minion\<close>,
  and \<open>node_pool.go\<close> keeps the connections. \<open>src/internal/shell/billing/reporter.go\<close> reports usage.

  \<^bold>\<open>How it is modelled.\<close> Go structs are records, string enumerations keep their texts, \<open>(T, error)\<close> is a sum with the
  error on the left, a panic is \<open>None\<close> or a constructor of its own. \<open>int64\<close> arithmetic that can overflow wraps at 64 bits, \<open>float64\<close> is
  the type of \<open>Go_Float\<close> with the operations the code uses. A Go map is a HOL map, or an association list where its
  iteration order is observable; iteration orders, the clock, random values, the SQL driver, JSON, YAML, AES-GCM, the cloud
  providers, Stripe, the docker SDK and the SSH library are arguments of the definitions that use them, with what the code
  relies on as hypotheses of the theorems. The state of the engine is the record \<open>world\<close>: the tables, the calls to
  the outside, the emitted commands and a counter of clock and driver steps, so that any statement may fail.

  \<^bold>\<open>Theories.\<close>
  \<^item> \<open>Go_Prelude\<close>: Go strings, integers, formatting and shared list lemmas; \<open>Go_Float\<close>: floats; \<open>State_Machine\<close>: transition
    tables, reachability and the locale of machines with guards that the entity theories interpret.
  \<^item> \<open>Dom_Template\<close>, \<open>Dom_Node\<close>, \<open>Dom_Deployment\<close>, \<open>Dom_Cloud\<close>, \<open>Monitoring\<close>: the entities; their validation accepts exactly the
    well-formed values and every reachable entity keeps the life-cycle invariant, final states included.
  \<^item> \<open>Encoding\<close>, \<open>Secrets\<close>: hexadecimal and base64 with their round trips, encryption at rest.
  \<^item> \<open>Authz\<close>, \<open>Scheduling\<close>, \<open>Compose\<close>, \<open>Planning\<close>, \<open>Routing\<close>, \<open>Provider_Catalog\<close>: ownership isolates tenants; scheduling is
    optimal and its errors name the cause; cycle detection is exact and terminates; the topological sort is a permutation with
    dependencies first; substitution, container plans, port allocation and host names.
  \<^item> \<open>Engine_Schema\<close>, \<open>Engine_Store\<close>, \<open>Engine_Queries\<close>: the seven resources and the store; a transition moves one row along an
    allowed edge with its guard, a created row is read back, usage is reported at least once.
  \<^item> \<open>Engine_Handlers\<close>, \<open>Engine_Lifecycle\<close>: commands and their handlers; \<open>Engine_API\<close>, \<open>Engine_Setup\<close>, \<open>Engine_Requests\<close>,
    \<open>Engine_Billing\<close>: requests change rows of the caller only, responses contain no secret, plan limits hold, an invoice is paid
    only when Stripe says so, and the places where the code falls short of this.
  \<^item> \<open>Engine_Workers\<close>: the background workers, and the life-cycle invariant over every interleaving of commands, transitions and
    worker rounds, proved in the locale \<open>worker_order\<close> that extends \<open>world_order\<close>; \<open>Engine_Migrate\<close>: creation of the tables.
  \<^item> \<open>Orchestrator\<close>: start order and cleanup of the containers on the trace of client calls, waiting, removal, config files, and
    agreement with the planner. \<open>Proxy_Server\<close>: the reverse proxy forwards only to the running deployment that lists the host.
  \<^item> \<open>Docker_Engine\<close>: the local client with the requests it gives to the SDK; \<open>Minion_Agent\<close>: the protocol and every command of the
    agent; \<open>SSH_Client\<close>: connection, deployment of the agent and the remote operations, and exactly when one panics; \<open>Remote_Docker\<close>: the
    three composed, compared with the local client: the same requests, results and kinds of failure, but for the network aliases.
  \<^item> \<open>Node_Pool\<close>: the cache of clients, its calls cut at the locks and interleaved in every way; every client is accounted for when no
    node is pinged, concurrent requests agree, and concurrent pings lose a client.
  \<^item> \<open>Cloud_Providers\<close>: the AWS, DigitalOcean and Hetzner clients on the history of their requests; one locale holds the contract they
    share, that only named instances are removed, and what follows for an instance whose address never comes.
  \<^item> \<open>Billing_Client\<close>: the clients of the billing gateway, composed with the reporter of \<open>Engine_Queries\<close>.

  \<^bold>\<open>Loops.\<close> Most loops are structural recursion. The depth-first search of \<open>Compose\<close> has fuel, proved to be enough for every
  input; \<open>kahn_loop\<close> and the host and placeholder scanners have termination proofs; \<open>wait_loop\<close> is a partial function
  in the option type, proved to return once the clock has passed the deadline.

  \<^bold>\<open>Not modelled.\<close> \<open>cmd/hoster\<close> wires the parts together and \<open>dns/resolver.go\<close> calls the resolver of the system. The ticker goroutines around the workers are represented by arbitrary sequences of rounds; operations on one SSH client are
  taken one at a time, and time limits of remote commands are outcomes of the SSH library.
\<close>

end
